(* ===== verification/Kernel_Prelude.thy ===== *)
theory Kernel_Prelude
  imports Main "HOL-Library.Product_Lexorder" "HOL-Library.List_Lexorder" "HOL-Library.Char_ord"
begin

text \<open>
  Shared vocabulary of the development: JSON values, the errors a kernel method can throw,
  transactions (a function from the database to an error or a result with the new database),
  and SQL tables as lists of rows. The lemmas here are generic; the components use them
  through the collections \<open>tx\<close> (how a transaction succeeds) and \<open>frame\<close> (which part of
  the database a transaction leaves alone).
\<close>

named_theorems tx
named_theorems frame
named_theorems row_simps

section \<open>Values and errors\<close>

text \<open>JSON payloads; numbers are the integers the kernel itself writes.\<close>

datatype json =
  JNull | JBool bool | JNum int | JStr string | JArr "json list" | JObj "(string \<times> json) list"

text \<open>\<open>value ->> key\<close> of PostgreSQL: NULL for a missing key, a JSON null or a non-object.\<close>

definition json_get :: "json \<Rightarrow> string \<Rightarrow> json option" where
  "json_get v k = (case v of JObj kvs \<Rightarrow>
     (case map_of kvs k of Some JNull \<Rightarrow> None | r \<Rightarrow> r) | _ \<Rightarrow> None)"

text \<open>\<open>value ?? null\<close> as a JSON member.\<close>

definition json_of_option :: "('a \<Rightarrow> json) \<Rightarrow> 'a option \<Rightarrow> json" where
  "json_of_option f x = (case x of None \<Rightarrow> JNull | Some a \<Rightarrow> f a)"

text \<open>\<open>JSON.stringify(value ?? {})\<close>, stored as jsonb.\<close>

definition json_column :: "json option \<Rightarrow> json" where
  "json_column v = (case v of None \<Rightarrow> JObj [] | Some x \<Rightarrow> x)"

text \<open>JavaScript truthiness of a nullable text column.\<close>

definition truthy :: "string option \<Rightarrow> bool" where
  "truthy s = (case s of None \<Rightarrow> False | Some x \<Rightarrow> x \<noteq> [])"

datatype invariant_code =
    DUPLICATE_RUN | DUPLICATE_STEP | DUPLICATE_INTERACTION | INVALID_GRAPH | LEASE_LOST_ERROR
  | VERSION_CONFLICT | INVALID_TRANSITION | PRODUCTION_STORAGE_REQUIRED | IDEMPOTENCY_CONFLICT_ERROR
  | TIMER_NOT_FOUND | INTERACTION_NOT_FOUND | INTERACTION_EXPIRED | INTERACTION_ALREADY_ANSWERED
  | STEP_NOT_FOUND | KILL_SWITCH_LOOKUP_FAILED | COMPENSATION_RECONCILIATION_REQUEST_MISSING
  | COMPENSATION_RECONCILIATION_REQUEST_TERMINAL_RACE | COMPENSATION_RECONCILIATION_RUN_MISSING
  | COMPENSATION_RECONCILIATION_TERMINAL_TRANSITION_REJECTED

text \<open>
  What a method can throw: a \<open>KernelInvariantError\<close> with its code, a plain JavaScript error
  with its message, or an integrity error of the database (named by its constraint).
\<close>

datatype kernel_error =
    KernelInvariantError invariant_code
  | JsError string
  | UniqueViolation string
  | ForeignKeyViolation string

section \<open>Transactions\<close>

text \<open>
  A transaction either throws, and then the database is rolled back (the error carries no new
  state), or commits with a result. \<open>bind_tx\<close> is the \<open>await\<close> of the source.
\<close>

type_synonym ('s, 'a) tx = "'s \<Rightarrow> kernel_error + ('a \<times> 's)"

definition return_tx :: "'a \<Rightarrow> ('s, 'a) tx" where
  "return_tx x = (\<lambda>s. Inr (x, s))"

definition throw_tx :: "kernel_error \<Rightarrow> ('s, 'a) tx" where
  "throw_tx e = (\<lambda>s. Inl e)"

definition bind_tx :: "('s, 'a) tx \<Rightarrow> ('a \<Rightarrow> ('s, 'b) tx) \<Rightarrow> ('s, 'b) tx" where
  "bind_tx m f = (\<lambda>s. case m s of Inl e \<Rightarrow> Inl e | Inr (x, s') \<Rightarrow> f x s')"

definition query_tx :: "('s \<Rightarrow> 'a) \<Rightarrow> ('s, 'a) tx" where
  "query_tx q = (\<lambda>s. Inr (q s, s))"

definition modify_tx :: "('s \<Rightarrow> 's) \<Rightarrow> ('s, unit) tx" where
  "modify_tx g = (\<lambda>s. Inr ((), g s))"

definition when_tx :: "bool \<Rightarrow> ('s, unit) tx \<Rightarrow> ('s, unit) tx" where
  "when_tx b m = (if b then m else return_tx ())"

fun forM_tx :: "'x list \<Rightarrow> ('x \<Rightarrow> ('s, unit) tx) \<Rightarrow> ('s, unit) tx" where
  "forM_tx [] body = return_tx ()"
| "forM_tx (x # xs) body = bind_tx (body x) (\<lambda>_. forM_tx xs body)"

text \<open>A transaction that throws leaves the database as it was.\<close>

definition commit :: "('s, 'a) tx \<Rightarrow> 's \<Rightarrow> 's" where
  "commit m s = (case m s of Inl _ \<Rightarrow> s | Inr (_, s') \<Rightarrow> s')"

lemma return_tx_Inr [tx]: "return_tx x s = Inr (r, s') \<longleftrightarrow> r = x \<and> s' = s"
  by (auto simp: return_tx_def)

lemma return_tx_Inl [tx]: "return_tx x s = Inl e \<longleftrightarrow> False"
  by (simp add: return_tx_def)

lemma throw_tx_Inr [tx]: "throw_tx e s = Inr p \<longleftrightarrow> False"
  by (simp add: throw_tx_def)

lemma throw_tx_Inl [tx]: "throw_tx e s = Inl e' \<longleftrightarrow> e' = e"
  by (auto simp: throw_tx_def)

lemma bind_tx_Inr [tx]:
  "bind_tx m f s = Inr p \<longleftrightarrow> (\<exists>x s'. m s = Inr (x, s') \<and> f x s' = Inr p)"
  by (auto simp: bind_tx_def split: sum.splits prod.splits)

lemma bind_tx_Inl [tx]:
  "bind_tx m f s = Inl e \<longleftrightarrow> m s = Inl e \<or> (\<exists>x s'. m s = Inr (x, s') \<and> f x s' = Inl e)"
  by (auto simp: bind_tx_def split: sum.splits prod.splits)

lemma query_tx_Inr [tx]: "query_tx q s = Inr (r, s') \<longleftrightarrow> r = q s \<and> s' = s"
  by (auto simp: query_tx_def)

lemma query_tx_Inl [tx]: "query_tx q s = Inl e \<longleftrightarrow> False"
  by (simp add: query_tx_def)

lemma modify_tx_Inr [tx]: "modify_tx g s = Inr (r, s') \<longleftrightarrow> s' = g s"
  by (auto simp: modify_tx_def)

lemma modify_tx_Inl [tx]: "modify_tx g s = Inl e \<longleftrightarrow> False"
  by (simp add: modify_tx_def)

lemma when_tx_Inr [tx]:
  "when_tx b m s = Inr p \<longleftrightarrow> (if b then m s = Inr p else p = ((), s))"
  by (auto simp: when_tx_def return_tx_def)

lemma when_tx_Inl [tx]: "when_tx b m s = Inl e \<longleftrightarrow> b \<and> m s = Inl e"
  by (auto simp: when_tx_def return_tx_def)

lemma bind_return [simp]: "bind_tx (return_tx x) f = f x"
  by (simp add: bind_tx_def return_tx_def)

lemma bind_throw [simp]: "bind_tx (throw_tx e) f = throw_tx e"
  by (simp add: bind_tx_def throw_tx_def)

section \<open>Frames and Hoare triples\<close>

text \<open>\<open>unchanged v m\<close>: a commit of \<open>m\<close> keeps the view \<open>v\<close> of the database.\<close>

definition unchanged :: "('s \<Rightarrow> 'v) \<Rightarrow> ('s, 'a) tx \<Rightarrow> bool" where
  "unchanged v m \<longleftrightarrow> (\<forall>s r s'. m s = Inr (r, s') \<longrightarrow> v s' = v s)"

text \<open>\<open>keeps P m\<close>: a commit of \<open>m\<close> keeps the predicate \<open>P\<close>.\<close>

definition keeps :: "('s \<Rightarrow> bool) \<Rightarrow> ('s, 'a) tx \<Rightarrow> bool" where
  "keeps P m \<longleftrightarrow> (\<forall>s r s'. P s \<longrightarrow> m s = Inr (r, s') \<longrightarrow> P s')"

text \<open>\<open>always_commits m\<close>: \<open>m\<close> never throws.\<close>

definition always_commits :: "('s, 'a) tx \<Rightarrow> bool" where
  "always_commits m \<longleftrightarrow> (\<forall>s. \<exists>r s'. m s = Inr (r, s'))"

lemma unchangedD: "unchanged v m \<Longrightarrow> m s = Inr (r, s') \<Longrightarrow> v s' = v s"
  by (auto simp: unchanged_def)

lemma keepsD: "keeps P m \<Longrightarrow> P s \<Longrightarrow> m s = Inr (r, s') \<Longrightarrow> P s'"
  by (auto simp: keeps_def)

lemma unchanged_return [frame]: "unchanged v (return_tx x)"
  by (simp add: unchanged_def return_tx_def)

lemma unchanged_throw [frame]: "unchanged v (throw_tx e)"
  by (simp add: unchanged_def throw_tx_def)

lemma unchanged_query [frame]: "unchanged v (query_tx q)"
  by (simp add: unchanged_def query_tx_def)

lemma unchanged_bind [frame]:
  assumes "unchanged v m" and "\<And>x. unchanged v (f x)"
  shows "unchanged v (bind_tx m f)"
  using assms unfolding unchanged_def bind_tx_Inr by (metis (full_types))

lemma unchanged_when [frame]: "unchanged v m \<Longrightarrow> unchanged v (when_tx b m)"
  by (auto simp: unchanged_def tx split: if_splits)

lemma unchanged_forM [frame]:
  assumes "\<And>x. unchanged v (body x)"
  shows "unchanged v (forM_tx xs body)"
  using assms by (induction xs) (simp_all add: unchanged_return unchanged_bind)

lemma unchanged_modify [frame]: "(\<And>s. v (g s) = v s) \<Longrightarrow> unchanged v (modify_tx g)"
  by (auto simp: unchanged_def tx)

lemma unchanged_if [frame]: "unchanged v m \<Longrightarrow> unchanged v n \<Longrightarrow> unchanged v (if b then m else n)"
  by simp

lemma unchanged_pair:
  assumes "unchanged v m" and "unchanged w m"
  shows "unchanged (\<lambda>s. (v s, w s)) m"
  using assms by (simp add: unchanged_def)

lemma keeps_return [frame]: "keeps P (return_tx x)"
  by (simp add: keeps_def tx)

lemma keeps_throw [frame]: "keeps P (throw_tx e)"
  by (simp add: keeps_def tx)

lemma keeps_query [frame]: "keeps P (query_tx q)"
  by (simp add: keeps_def tx)

lemma keeps_bind [frame]:
  assumes "keeps P m" and "\<And>x. keeps P (f x)"
  shows "keeps P (bind_tx m f)"
  using assms unfolding keeps_def bind_tx_Inr by blast

lemma keeps_when [frame]: "keeps P m \<Longrightarrow> keeps P (when_tx b m)"
  by (auto simp: keeps_def tx split: if_splits)

lemma keeps_forM [frame]:
  assumes "\<And>x. keeps P (body x)"
  shows "keeps P (forM_tx xs body)"
  using assms by (induction xs) (simp_all add: keeps_return keeps_bind)

lemma keeps_if [frame]: "keeps P m \<Longrightarrow> keeps P n \<Longrightarrow> keeps P (if b then m else n)"
  by simp

lemma keeps_modify: "(\<And>s. P s \<Longrightarrow> P (g s)) \<Longrightarrow> keeps P (modify_tx g)"
  by (auto simp: keeps_def tx)

text \<open>Case distinctions of the source.\<close>

lemma unchanged_case_option [frame]:
  "unchanged v m \<Longrightarrow> (\<And>x. unchanged v (n x)) \<Longrightarrow> unchanged v (case q of None \<Rightarrow> m | Some x \<Rightarrow> n x)"
  by (simp split: option.split)

lemma unchanged_case_list [frame]:
  "unchanged v m \<Longrightarrow> (\<And>x xs. unchanged v (n x xs)) \<Longrightarrow> unchanged v (case l of [] \<Rightarrow> m | x # xs \<Rightarrow> n x xs)"
  by (simp split: list.split)

lemma unchanged_case_sum [frame]:
  "(\<And>x. unchanged v (m x)) \<Longrightarrow> (\<And>x. unchanged v (n x)) \<Longrightarrow> unchanged v (case s of Inl x \<Rightarrow> m x | Inr y \<Rightarrow> n y)"
  by (simp split: sum.split)

lemma unchanged_case_prod [frame]:
  "(\<And>x y. unchanged v (m x y)) \<Longrightarrow> unchanged v (case p of (x, y) \<Rightarrow> m x y)"
  by (simp split: prod.split)

lemma keeps_case_option [frame]:
  "keeps P m \<Longrightarrow> (\<And>x. keeps P (n x)) \<Longrightarrow> keeps P (case q of None \<Rightarrow> m | Some x \<Rightarrow> n x)"
  by (simp split: option.split)

lemma keeps_case_list [frame]:
  "keeps P m \<Longrightarrow> (\<And>x xs. keeps P (n x xs)) \<Longrightarrow> keeps P (case l of [] \<Rightarrow> m | x # xs \<Rightarrow> n x xs)"
  by (simp split: list.split)

lemma keeps_case_sum [frame]:
  "(\<And>x. keeps P (m x)) \<Longrightarrow> (\<And>x. keeps P (n x)) \<Longrightarrow> keeps P (case s of Inl x \<Rightarrow> m x | Inr y \<Rightarrow> n y)"
  by (simp split: sum.split)

lemma keeps_case_prod [frame]:
  "(\<And>x y. keeps P (m x y)) \<Longrightarrow> keeps P (case p of (x, y) \<Rightarrow> m x y)"
  by (simp split: prod.split)

text \<open>A transaction keeps every predicate over a view it does not change.\<close>

lemma keeps_of_unchanged:
  assumes "unchanged v m" and "\<And>s. P s \<longleftrightarrow> Q (v s)"
  shows "keeps P m"
  unfolding keeps_def
proof (intro allI impI)
  fix s r s' assume "P s" and step: "m s = Inr (r, s')"
  have "v s' = v s" using assms(1) step by (rule unchangedD)
  with \<open>P s\<close> show "P s'" by (simp only: assms(2))
qed

lemma commit_keeps: "keeps P m \<Longrightarrow> P s \<Longrightarrow> P (commit m s)"
  by (auto simp: commit_def keeps_def split: sum.splits)

lemma commit_unchanged: "unchanged v m \<Longrightarrow> v (commit m s) = v s"
  by (auto simp: commit_def unchanged_def split: sum.splits)

text \<open>\<open>triple P m Q\<close>: from a state with \<open>P\<close>, a commit of \<open>m\<close> with result \<open>r\<close> reaches \<open>Q r\<close>.\<close>

definition triple :: "('s \<Rightarrow> bool) \<Rightarrow> ('s, 'a) tx \<Rightarrow> ('a \<Rightarrow> 's \<Rightarrow> bool) \<Rightarrow> bool" where
  "triple P m Q \<longleftrightarrow> (\<forall>s r s'. P s \<longrightarrow> m s = Inr (r, s') \<longrightarrow> Q r s')"

lemma tripleI: "(\<And>s r s'. P s \<Longrightarrow> m s = Inr (r, s') \<Longrightarrow> Q r s') \<Longrightarrow> triple P m Q"
  by (simp add: triple_def)

lemma tripleD: "triple P m Q \<Longrightarrow> P s \<Longrightarrow> m s = Inr (r, s') \<Longrightarrow> Q r s'"
  by (simp add: triple_def)

lemma keeps_triple: "keeps P m \<longleftrightarrow> triple P m (\<lambda>_. P)"
  by (simp add: keeps_def triple_def)

lemma triple_bind:
  assumes "triple P m R" and "\<And>x. triple (R x) (f x) Q"
  shows "triple P (bind_tx m f) Q"
  using assms unfolding triple_def bind_tx_Inr by blast

lemma triple_return: "(\<And>s. P s \<Longrightarrow> Q x s) \<Longrightarrow> triple P (return_tx x) Q"
  by (simp add: triple_def tx)

lemma triple_throw: "triple P (throw_tx e) Q"
  by (simp add: triple_def tx)

lemma triple_query: "triple P (query_tx q) (\<lambda>x s. P s \<and> x = q s)"
  by (simp add: triple_def tx)

lemma triple_if: "(b \<Longrightarrow> triple P m Q) \<Longrightarrow> (\<not> b \<Longrightarrow> triple P n Q) \<Longrightarrow> triple P (if b then m else n) Q"
  by simp

lemma triple_when:
  assumes "b \<Longrightarrow> triple P m Q" and "\<And>s. \<not> b \<Longrightarrow> P s \<Longrightarrow> Q () s"
  shows "triple P (when_tx b m) Q"
  using assms unfolding triple_def when_tx_Inr by auto

lemma triple_pre: "triple P m Q \<Longrightarrow> (\<And>s. P' s \<Longrightarrow> P s) \<Longrightarrow> triple P' m Q"
  unfolding triple_def by blast

lemma triple_post: "triple P m Q \<Longrightarrow> (\<And>r s. Q r s \<Longrightarrow> Q' r s) \<Longrightarrow> triple P m Q'"
  unfolding triple_def by blast

text \<open>A loop whose invariant speaks of the elements still to come.\<close>

lemma triple_forM:
  assumes "\<And>x xs. triple (I (x # xs)) (body x) (\<lambda>_. I xs)"
  shows "triple (I xs) (forM_tx xs body) (\<lambda>_. I [])"
proof (induction xs)
  case Nil
  show ?case by (simp add: triple_def tx)
next
  case (Cons x xs)
  show ?case unfolding forM_tx.simps by (rule triple_bind [OF assms Cons.IH])
qed

text \<open>\<open>try .. catch\<close> that rethrows: the error is translated, the rollback is the same.\<close>

definition map_error_tx :: "(kernel_error \<Rightarrow> kernel_error) \<Rightarrow> ('s, 'a) tx \<Rightarrow> ('s, 'a) tx" where
  "map_error_tx h m = (\<lambda>s. case m s of Inl e \<Rightarrow> Inl (h e) | Inr p \<Rightarrow> Inr p)"

lemma map_error_tx_Inr [tx]: "map_error_tx h m s = Inr p \<longleftrightarrow> m s = Inr p"
  by (simp add: map_error_tx_def split: sum.split)

lemma map_error_tx_Inl [tx]: "map_error_tx h m s = Inl e \<longleftrightarrow> (\<exists>e'. m s = Inl e' \<and> e = h e')"
  by (auto simp: map_error_tx_def split: sum.split)

lemma unchanged_map_error [frame]: "unchanged v m \<Longrightarrow> unchanged v (map_error_tx h m)"
  by (simp add: unchanged_def tx)

lemma keeps_map_error [frame]: "keeps P m \<Longrightarrow> keeps P (map_error_tx h m)"
  by (simp add: keeps_def tx)

lemma triple_map_error: "triple P m Q \<Longrightarrow> triple P (map_error_tx h m) Q"
  by (simp add: triple_def tx)

section \<open>Tables\<close>

text \<open>
  A table is the list of its rows in insertion order. \<open>UPDATE .. SET .. WHERE\<close> rewrites the
  rows that match, \<open>RETURNING *\<close> gives their new versions, \<open>ORDER BY .. LIMIT\<close> is a stable
  sort and a prefix (rows that tie keep the insertion order, where SQL leaves it open).
\<close>

definition update_where :: "('r \<Rightarrow> bool) \<Rightarrow> ('r \<Rightarrow> 'r) \<Rightarrow> 'r list \<Rightarrow> 'r list" where
  "update_where P f rows = map (\<lambda>r. if P r then f r else r) rows"

definition updated_rows :: "('r \<Rightarrow> bool) \<Rightarrow> ('r \<Rightarrow> 'r) \<Rightarrow> 'r list \<Rightarrow> 'r list" where
  "updated_rows P f rows = map f (filter P rows)"

definition first_row :: "('r \<Rightarrow> bool) \<Rightarrow> 'r list \<Rightarrow> 'r option" where
  "first_row P rows = find P rows"

definition exists_row :: "('r \<Rightarrow> bool) \<Rightarrow> 'r list \<Rightarrow> bool" where
  "exists_row P rows = list_ex P rows"

definition order_limit :: "('r \<Rightarrow> 'k::linorder) \<Rightarrow> nat \<Rightarrow> 'r list \<Rightarrow> 'r list" where
  "order_limit key n rows = take n (sort_key key rows)"

text \<open>The number of rows with a property.\<close>

definition count_rows :: "('r \<Rightarrow> bool) \<Rightarrow> 'r list \<Rightarrow> int" where
  "count_rows P rows = int (length (filter P rows))"

text \<open>A key identifies at most one row.\<close>

definition unique_key :: "('r \<Rightarrow> 'k) \<Rightarrow> 'r list \<Rightarrow> bool" where
  "unique_key key rows \<longleftrightarrow> distinct (map key rows)"

lemma update_where_Nil [simp]: "update_where P f [] = []"
  by (simp add: update_where_def)

lemma update_where_Cons [simp]:
  "update_where P f (r # rows) = (if P r then f r else r) # update_where P f rows"
  by (simp add: update_where_def)

lemma update_where_append [simp]:
  "update_where P f (xs @ ys) = update_where P f xs @ update_where P f ys"
  by (simp add: update_where_def)

lemma length_update_where [simp]: "length (update_where P f rows) = length rows"
  by (simp add: update_where_def)

lemma set_update_where: "set (update_where P f rows) = (\<lambda>r. if P r then f r else r) ` set rows"
  by (simp add: update_where_def)

lemma update_where_none: "(\<And>r. r \<in> set rows \<Longrightarrow> \<not> P r) \<Longrightarrow> update_where P f rows = rows"
  by (induction rows) auto

lemma update_where_mem:
  "r \<in> set rows \<Longrightarrow> (if P r then f r else r) \<in> set (update_where P f rows)"
  by (auto simp: set_update_where)

lemma update_where_memE:
  assumes "r' \<in> set (update_where P f rows)"
  obtains r where "r \<in> set rows" "\<not> P r" "r' = r" | r where "r \<in> set rows" "P r" "r' = f r"
  using assms by (auto simp: set_update_where split: if_splits)

lemma map_update_where: "(\<And>r. P r \<Longrightarrow> k (f r) = k r) \<Longrightarrow> map k (update_where P f rows) = map k rows"
  by (induction rows) auto

lemma unique_update_where [row_simps]:
  "unique_key k rows \<Longrightarrow> (\<And>r. P r \<Longrightarrow> k (f r) = k r) \<Longrightarrow> unique_key k (update_where P f rows)"
  by (simp add: unique_key_def map_update_where)

lemma unique_key_inj:
  "unique_key k rows \<Longrightarrow> r \<in> set rows \<Longrightarrow> r' \<in> set rows \<Longrightarrow> k r = k r' \<Longrightarrow> r = r'"
  by (metis distinct_map inj_onD unique_key_def)

lemma unique_key_snoc:
  "unique_key k (rows @ [r]) \<longleftrightarrow> unique_key k rows \<and> (\<forall>x \<in> set rows. k x \<noteq> k r)"
  by (auto simp: unique_key_def image_iff)

lemma updated_rows_Nil_iff: "updated_rows P f rows = [] \<longleftrightarrow> (\<forall>r \<in> set rows. \<not> P r)"
  by (auto simp: updated_rows_def filter_empty_conv)

lemma updated_rows_mem: "x \<in> set (updated_rows P f rows) \<longleftrightarrow> (\<exists>r \<in> set rows. P r \<and> x = f r)"
  by (auto simp: updated_rows_def)

lemma updated_rows_Cons_D:
  "updated_rows P f rows = x # xs \<Longrightarrow> \<exists>r \<in> set rows. P r \<and> x = f r"
  by (metis list.set_intros(1) updated_rows_mem)

lemma first_row_Some: "first_row P rows = Some r \<Longrightarrow> r \<in> set rows \<and> P r"
  unfolding first_row_def by (auto simp: find_Some_iff in_set_conv_nth)

lemma first_row_None: "first_row P rows = None \<longleftrightarrow> (\<forall>r \<in> set rows. \<not> P r)"
  by (auto simp: first_row_def find_None_iff)

lemma exists_row_iff [simp]: "exists_row P rows \<longleftrightarrow> (\<exists>r \<in> set rows. P r)"
  by (simp add: exists_row_def list_ex_iff)

lemma set_order_limit: "set (order_limit key n rows) \<subseteq> set rows"
  unfolding order_limit_def by (metis set_sort set_take_subset)

lemma length_order_limit: "length (order_limit key n rows) \<le> n"
  by (simp add: order_limit_def)

text \<open>With \<open>LIMIT 1\<close> the row returned is a least one of the candidates.\<close>

lemma order_limit_Cons_least:
  assumes "order_limit key n rows = r # rs"
  shows "r \<in> set rows \<and> (\<forall>x \<in> set rows. key r \<le> key x)"
proof -
  obtain ys where ys: "sort_key key rows = r # ys"
    using assms by (cases "sort_key key rows"; cases n) (auto simp: order_limit_def)
  have "sorted (map key (r # ys))"
    by (metis sorted_sort_key ys)
  moreover have "set (r # ys) = set rows"
    by (metis set_sort ys)
  ultimately show ?thesis by auto
qed

lemma count_rows_Nil [simp]: "count_rows P [] = 0"
  by (simp add: count_rows_def)

lemma count_rows_Cons [simp]: "count_rows P (r # rows) = (if P r then 1 else 0) + count_rows P rows"
  by (simp add: count_rows_def)

lemma count_rows_append [simp]: "count_rows P (xs @ ys) = count_rows P xs + count_rows P ys"
  by (simp add: count_rows_def)

lemma count_rows_map: "count_rows Q (map f rows) = count_rows (\<lambda>r. Q (f r)) rows"
  by (induction rows) auto

lemma count_rows_filter: "count_rows Q (filter P rows) = count_rows (\<lambda>r. P r \<and> Q r) rows"
  by (induction rows) auto

lemma count_rows_cong: "(\<And>r. r \<in> set rows \<Longrightarrow> P r = Q r) \<Longrightarrow> count_rows P rows = count_rows Q rows"
  by (induction rows) auto

lemma count_rows_nonneg [simp]: "0 \<le> count_rows P rows"
  by (simp add: count_rows_def)

lemma count_rows_zero: "count_rows P rows = 0 \<longleftrightarrow> (\<forall>r \<in> set rows. \<not> P r)"
  by (simp add: count_rows_def filter_empty_conv)

lemma count_rows_pos: "r \<in> set rows \<Longrightarrow> P r \<Longrightarrow> 1 \<le> count_rows P rows"
  by (induction rows) auto

lemma count_updated_rows:
  "count_rows Q (updated_rows P f rows) = count_rows (\<lambda>r. P r \<and> Q (f r)) rows"
  by (simp add: updated_rows_def count_rows_map count_rows_filter)

text \<open>What an update takes away from and adds to a count.\<close>

lemma count_rows_update:
  "count_rows Q (update_where P f rows) =
     count_rows Q rows - count_rows (\<lambda>r. P r \<and> Q r) rows + count_rows (\<lambda>r. P r \<and> Q (f r)) rows"
  by (induction rows) auto

text \<open>An update by key touches one row at most.\<close>

lemma filter_by_key:
  assumes "unique_key k rows" and "\<And>r. P r \<Longrightarrow> k r = c" and "s \<in> set rows" and "P s"
  shows "filter P rows = [s]"
proof -
  obtain xs ys where split: "rows = xs @ s # ys"
    using assms(3) by (metis split_list)
  have "\<not> P r" if "r \<in> set xs \<union> set ys" for r
    using that assms(1) assms(2) [of r] assms(2) [OF assms(4)]
    by (auto simp: split unique_key_def) (metis image_eqI)+
  then show ?thesis using assms(4) by (simp add: split filter_empty_conv)
qed

lemma count_rows_by_key:
  assumes "unique_key k rows" and "\<And>r. P r \<Longrightarrow> k r = c" and "s \<in> set rows" and "P s"
  shows "count_rows (\<lambda>r. P r \<and> Q r) rows = (if Q s then 1 else 0)"
proof -
  have "filter (\<lambda>r. P r \<and> Q r) rows = filter Q (filter P rows)"
    by (simp add: conj_commute)
  also have "\<dots> = filter Q [s]" using filter_by_key [where P = P and k = k and c = c, OF assms(1-4)] by simp
  finally show ?thesis by (simp add: count_rows_def)
qed

lemma updated_by_key:
  assumes "unique_key k rows" and "\<And>r. P r \<Longrightarrow> k r = c" and "updated_rows P f rows = x # xs"
  shows "\<exists>s \<in> set rows. P s \<and> x = f s \<and> xs = []"
proof -
  obtain s where s: "s \<in> set rows" "P s" "x = f s"
    using updated_rows_Cons_D [OF assms(3)] by blast
  then have "filter P rows = [s]" using filter_by_key assms by metis
  then show ?thesis using assms(3) s by (auto simp: updated_rows_def)
qed

lemma order_limit_empty: "0 < n \<Longrightarrow> order_limit key n rows = [] \<longleftrightarrow> rows = []"
  unfolding order_limit_def by (metis gr_implies_not0 length_0_conv length_sort take_eq_Nil)

end
