(* ===== verification/JS_Strings.thy ===== *)
theory JS_Strings
  imports Main
begin

text \<open>
  The JavaScript string operations the modelled code uses, on strings of one-byte characters
  (ASCII text; JavaScript's Unicode case mapping and exotic white space are not modelled).
\<close>

definition char_code :: "char \<Rightarrow> nat" where
  "char_code c = of_char c"

definition lower_char :: "char \<Rightarrow> char" where
  "lower_char c = (if 65 \<le> char_code c \<and> char_code c \<le> 90 then char_of (char_code c + 32) else c)"

text \<open>\<open>s.toLowerCase()\<close>\<close>

definition to_lower :: "string \<Rightarrow> string" where
  "to_lower s = map lower_char s"

definition is_space :: "char \<Rightarrow> bool" where
  "is_space c \<longleftrightarrow> char_code c = 32 \<or> (9 \<le> char_code c \<and> char_code c \<le> 13) \<or> char_code c = 160"

text \<open>\<open>s.trim()\<close>\<close>

definition trim :: "string \<Rightarrow> string" where
  "trim s = rev (dropWhile is_space (rev (dropWhile is_space s)))"

text \<open>\<open>s.startsWith(p)\<close>\<close>

definition starts_with :: "string \<Rightarrow> string \<Rightarrow> bool" where
  "starts_with s p \<longleftrightarrow> take (length p) s = p"

text \<open>\<open>s.split(sep)\<close> for a one-character separator: never empty.\<close>

fun split_on :: "char \<Rightarrow> string \<Rightarrow> string list" where
  "split_on sep [] = [[]]"
| "split_on sep (c # cs) =
     (case split_on sep cs of
        [] \<Rightarrow> [[c]]
      | w # ws \<Rightarrow> (if c = sep then [] # w # ws else (c # w) # ws))"

lemma split_on_not_Nil [simp]: "split_on sep s \<noteq> []"
  by (cases s) (auto split: list.splits)

lemma starts_with_append [simp]: "starts_with (p @ s) p"
  by (simp add: starts_with_def)

lemma starts_with_iff: "starts_with s p \<longleftrightarrow> (\<exists>t. s = p @ t)"
  unfolding starts_with_def by (metis append_eq_conv_conj append_take_drop_id)

lemma starts_with_trim:
  assumes "p \<noteq> []" and "\<not> is_space (hd p)" and "\<not> is_space (last p)"
  shows "starts_with (trim (p @ s)) p"
proof -
  have left: "dropWhile is_space (p @ s) = p @ s"
    using assms by (cases p) auto
  have right: "dropWhile is_space (rev p) = rev p"
    using assms by (metis dropWhile_eq_self_iff hd_rev)
  have "\<exists>t. rev (dropWhile is_space (rev s @ rev p)) = p @ t"
    using right by (cases "\<forall>x \<in> set s. is_space x") (auto simp: dropWhile_append)
  then show ?thesis by (simp add: trim_def left starts_with_iff)
qed

lemma to_lower_append: "to_lower (s @ t) = to_lower s @ to_lower t"
  by (simp add: to_lower_def)

lemma split_on_append:
  "sep \<notin> set w \<Longrightarrow> split_on sep (w @ sep # s) = w # split_on sep s"
proof (induction w)
  case Nil
  show ?case by (cases "split_on sep s") auto
next
  case (Cons c w)
  then show ?case by auto
qed

lemma hd_split_on_prefix:
  "starts_with s (w @ [sep]) \<Longrightarrow> sep \<notin> set w \<Longrightarrow> w \<in> set (split_on sep s)"
  by (auto simp: starts_with_iff split_on_append)

end
