(* ===== verification/Contracts.thy ===== *)
theory Contracts
  imports Kernel_Prelude JS_Strings
begin

text \<open>
  \<open>packages/contracts/src/states.ts\<close>, \<open>transitions.ts\<close>, \<open>effectClassification.ts\<close> and
  \<open>packages/kernel/src/transitionValidation.ts\<close>: the run and step state machines every kernel
  write is checked against, and the classification of effect types.
\<close>

section \<open>States and transitions\<close>

datatype run_state =
    R_PENDING | R_RUNNING | R_PAUSED | R_SUCCEEDED | R_FAILED | R_CANCELLED
  | R_COMPENSATING | R_COMPENSATED

datatype step_state =
    S_PENDING | S_RUNNING | S_WAITING_FOR_HUMAN | S_WAITING_FOR_RECONCILIATION | S_RETRY_WAIT
  | S_SUCCEEDED | S_FAILED | S_CANCELLED | S_SKIPPED

definition TERMINAL_RUN_STATES :: "run_state list" where
  "TERMINAL_RUN_STATES = [R_SUCCEEDED, R_FAILED, R_CANCELLED, R_COMPENSATED]"

definition TERMINAL_STEP_STATES :: "step_state list" where
  "TERMINAL_STEP_STATES = [S_SUCCEEDED, S_FAILED, S_CANCELLED, S_SKIPPED]"

fun RUN_TRANSITIONS :: "run_state \<Rightarrow> run_state list" where
  "RUN_TRANSITIONS R_PENDING = [R_RUNNING, R_PAUSED, R_FAILED, R_CANCELLED, R_COMPENSATING]"
| "RUN_TRANSITIONS R_RUNNING = [R_PAUSED, R_SUCCEEDED, R_FAILED, R_CANCELLED, R_COMPENSATING]"
| "RUN_TRANSITIONS R_PAUSED = [R_RUNNING, R_FAILED, R_CANCELLED, R_COMPENSATING]"
| "RUN_TRANSITIONS R_SUCCEEDED = []"
| "RUN_TRANSITIONS R_FAILED = []"
| "RUN_TRANSITIONS R_CANCELLED = []"
| "RUN_TRANSITIONS R_COMPENSATING = [R_COMPENSATED, R_FAILED]"
| "RUN_TRANSITIONS R_COMPENSATED = []"

fun STEP_TRANSITIONS :: "step_state \<Rightarrow> step_state list" where
  "STEP_TRANSITIONS S_PENDING = [S_RUNNING, S_SKIPPED, S_FAILED, S_CANCELLED]"
| "STEP_TRANSITIONS S_RUNNING =
     [S_WAITING_FOR_HUMAN, S_WAITING_FOR_RECONCILIATION, S_RETRY_WAIT, S_SUCCEEDED, S_FAILED,
      S_CANCELLED]"
| "STEP_TRANSITIONS S_WAITING_FOR_HUMAN = [S_RUNNING, S_RETRY_WAIT, S_FAILED, S_CANCELLED]"
| "STEP_TRANSITIONS S_WAITING_FOR_RECONCILIATION = [S_SUCCEEDED, S_FAILED, S_CANCELLED]"
| "STEP_TRANSITIONS S_RETRY_WAIT = [S_RUNNING, S_FAILED, S_CANCELLED]"
| "STEP_TRANSITIONS S_SUCCEEDED = []"
| "STEP_TRANSITIONS S_FAILED = []"
| "STEP_TRANSITIONS S_CANCELLED = []"
| "STEP_TRANSITIONS S_SKIPPED = []"

definition isValidRunTransition :: "run_state \<Rightarrow> run_state \<Rightarrow> bool" where
  "isValidRunTransition a b \<longleftrightarrow> b \<in> set (RUN_TRANSITIONS a)"

definition isValidStepTransition :: "step_state \<Rightarrow> step_state \<Rightarrow> bool" where
  "isValidStepTransition a b \<longleftrightarrow> b \<in> set (STEP_TRANSITIONS a)"

definition isTerminalRunState :: "run_state \<Rightarrow> bool" where
  "isTerminalRunState s \<longleftrightarrow> s \<in> set TERMINAL_RUN_STATES"

definition isTerminalStepState :: "step_state \<Rightarrow> bool" where
  "isTerminalStepState s \<longleftrightarrow> s \<in> set TERMINAL_STEP_STATES"

datatype transition_rejection = STATE_IS_TERMINAL | TRANSITION_NOT_LISTED

record 'st transition_result =
  tr_ok :: bool
  tr_from :: 'st
  tr_to :: 'st
  tr_reason :: "transition_rejection option"

definition validateRunTransition :: "run_state \<Rightarrow> run_state \<Rightarrow> run_state transition_result" where
  "validateRunTransition a b =
     (if isTerminalRunState a \<and> a \<noteq> b
      then \<lparr>tr_ok = False, tr_from = a, tr_to = b, tr_reason = Some STATE_IS_TERMINAL\<rparr>
      else if \<not> isValidRunTransition a b
      then \<lparr>tr_ok = False, tr_from = a, tr_to = b, tr_reason = Some TRANSITION_NOT_LISTED\<rparr>
      else \<lparr>tr_ok = True, tr_from = a, tr_to = b, tr_reason = None\<rparr>)"

definition validateStepTransition :: "step_state \<Rightarrow> step_state \<Rightarrow> step_state transition_result" where
  "validateStepTransition a b =
     (if isTerminalStepState a \<and> a \<noteq> b
      then \<lparr>tr_ok = False, tr_from = a, tr_to = b, tr_reason = Some STATE_IS_TERMINAL\<rparr>
      else if \<not> isValidStepTransition a b
      then \<lparr>tr_ok = False, tr_from = a, tr_to = b, tr_reason = Some TRANSITION_NOT_LISTED\<rparr>
      else \<lparr>tr_ok = True, tr_from = a, tr_to = b, tr_reason = None\<rparr>)"

definition assertRunTransition :: "run_state \<Rightarrow> run_state \<Rightarrow> ('s, unit) tx" where
  "assertRunTransition a b =
     (if \<not> tr_ok (validateRunTransition a b) then throw_tx (KernelInvariantError INVALID_TRANSITION)
      else return_tx ())"

definition assertStepTransition :: "step_state \<Rightarrow> step_state \<Rightarrow> ('s, unit) tx" where
  "assertStepTransition a b =
     (if \<not> tr_ok (validateStepTransition a b) then throw_tx (KernelInvariantError INVALID_TRANSITION)
      else return_tx ())"

text \<open>
  Both machines share one contract: the states with no way out are exactly the terminal ones,
  and a terminal state is within reach of every state.
\<close>

locale transition_machine =
  fixes transitions :: "'st \<Rightarrow> 'st list"
    and terminal :: "'st \<Rightarrow> bool"
  assumes terminal_iff_stuck: "terminal s \<longleftrightarrow> transitions s = []"
    and terminal_near: "\<not> terminal s \<Longrightarrow> \<exists>t \<in> set (transitions s). terminal t"
begin

lemma terminal_absorbing:
  assumes "(\<lambda>a b. b \<in> set (transitions a))\<^sup>*\<^sup>* s t" and "terminal s"
  shows "t = s"
  using assms by (induction rule: rtranclp_induct) (auto simp: terminal_iff_stuck)

lemma terminal_reachable: "\<exists>t. terminal t \<and> (\<lambda>a b. b \<in> set (transitions a))\<^sup>*\<^sup>* s t"
  using terminal_near by (cases "terminal s") blast+

end

lemma isTerminalRunState_simps [simp]:
  "isTerminalRunState s \<longleftrightarrow> s = R_SUCCEEDED \<or> s = R_FAILED \<or> s = R_CANCELLED \<or> s = R_COMPENSATED"
  by (auto simp: isTerminalRunState_def TERMINAL_RUN_STATES_def)

lemma isTerminalStepState_simps [simp]:
  "isTerminalStepState s \<longleftrightarrow> s = S_SUCCEEDED \<or> s = S_FAILED \<or> s = S_CANCELLED \<or> s = S_SKIPPED"
  by (auto simp: isTerminalStepState_def TERMINAL_STEP_STATES_def)

interpretation run_machine: transition_machine RUN_TRANSITIONS isTerminalRunState
proof unfold_locales
  fix s show "isTerminalRunState s \<longleftrightarrow> RUN_TRANSITIONS s = []" by (cases s) simp_all
next
  fix s assume "\<not> isTerminalRunState s"
  then show "\<exists>t \<in> set (RUN_TRANSITIONS s). isTerminalRunState t" by (cases s) simp_all
qed

interpretation step_machine: transition_machine STEP_TRANSITIONS isTerminalStepState
proof unfold_locales
  fix s show "isTerminalStepState s \<longleftrightarrow> STEP_TRANSITIONS s = []" by (cases s) simp_all
next
  fix s assume "\<not> isTerminalStepState s"
  then show "\<exists>t \<in> set (STEP_TRANSITIONS s). isTerminalStepState t" by (cases s) simp_all
qed

lemma validateRunTransition_ok: "tr_ok (validateRunTransition a b) \<longleftrightarrow> b \<in> set (RUN_TRANSITIONS a)"
  by (cases a) (auto simp: validateRunTransition_def isValidRunTransition_def)

lemma validateStepTransition_ok: "tr_ok (validateStepTransition a b) \<longleftrightarrow> b \<in> set (STEP_TRANSITIONS a)"
  by (cases a) (auto simp: validateStepTransition_def isValidStepTransition_def)

lemma assertRunTransition_Inr [tx]:
  "assertRunTransition a b s = Inr (r, s') \<longleftrightarrow> s' = s \<and> b \<in> set (RUN_TRANSITIONS a)"
  by (auto simp: assertRunTransition_def validateRunTransition_ok tx)

lemma assertRunTransition_Inl [tx]:
  "assertRunTransition a b s = Inl e \<longleftrightarrow>
     b \<notin> set (RUN_TRANSITIONS a) \<and> e = KernelInvariantError INVALID_TRANSITION"
  by (auto simp: assertRunTransition_def validateRunTransition_ok tx)

lemma assertStepTransition_Inr [tx]:
  "assertStepTransition a b s = Inr (r, s') \<longleftrightarrow> s' = s \<and> b \<in> set (STEP_TRANSITIONS a)"
  by (auto simp: assertStepTransition_def validateStepTransition_ok tx)

lemma assertStepTransition_Inl [tx]:
  "assertStepTransition a b s = Inl e \<longleftrightarrow>
     b \<notin> set (STEP_TRANSITIONS a) \<and> e = KernelInvariantError INVALID_TRANSITION"
  by (auto simp: assertStepTransition_def validateStepTransition_ok tx)

lemma assertRunTransition_frame [frame]: "unchanged v (assertRunTransition a b)"
  by (simp add: unchanged_def tx)

lemma assertStepTransition_frame [frame]: "unchanged v (assertStepTransition a b)"
  by (simp add: unchanged_def tx)

lemma assertRunTransition_keeps [frame]: "keeps P (assertRunTransition a b)"
  by (simp add: keeps_def tx)

lemma assertStepTransition_keeps [frame]: "keeps P (assertStepTransition a b)"
  by (simp add: keeps_def tx)

section \<open>Effect classification\<close>

definition CLASS_A_FAMILY_SEGMENTS :: "string list" where
  "CLASS_A_FAMILY_SEGMENTS =
     [''crm'', ''connector'', ''compensate'', ''http'', ''saas'', ''write'', ''mutate'', ''egress'']"

definition isClassAEffectType :: "string \<Rightarrow> bool" where
  "isClassAEffectType type =
     (let normalized = to_lower (trim type) in
      if list_ex (\<lambda>segment. segment \<in> set CLASS_A_FAMILY_SEGMENTS) (split_on (CHR ''.'') normalized)
      then True
      else if starts_with normalized ''llm.'' \<or> starts_with normalized ''retrieve.'' \<or>
              starts_with normalized ''read.'' \<or> starts_with normalized ''budget.''
      then False
      else if starts_with normalized ''local.'' \<or> starts_with normalized ''compute.'' then False
      else True)"

lemma not_ClassA_iff:
  "\<not> isClassAEffectType type \<longleftrightarrow>
     (\<exists>p \<in> {''llm.'', ''retrieve.'', ''read.'', ''budget.'', ''local.'', ''compute.''}.
        starts_with (to_lower (trim type)) p) \<and>
     set (split_on (CHR ''.'') (to_lower (trim type))) \<inter> set CLASS_A_FAMILY_SEGMENTS = {}"
  by (auto simp: isClassAEffectType_def Let_def list_ex_iff)

lemma compensate_is_ClassA:
  "starts_with (to_lower (trim type)) ''compensate.'' \<Longrightarrow> isClassAEffectType type"
  using hd_split_on_prefix [of "to_lower (trim type)" "''compensate''" "CHR ''.''"]
  by (auto simp: isClassAEffectType_def Let_def list_ex_iff CLASS_A_FAMILY_SEGMENTS_def)

lemma compensate_prefix_ClassA_aux:
  assumes "to_lower p = ''compensate.''" and "\<not> is_space (hd p)" and "\<not> is_space (last p)"
  shows "isClassAEffectType (p @ name)"
proof -
  have "p \<noteq> []" using assms(1) by (auto simp: to_lower_def)
  then have "starts_with (trim (p @ name)) p" using assms by (simp add: starts_with_trim)
  then obtain t where t: "trim (p @ name) = p @ t" using starts_with_iff by blast
  have "starts_with (to_lower (trim (p @ name))) ''compensate.''"
    unfolding t to_lower_append assms(1) by (rule starts_with_append)
  then show ?thesis by (rule compensate_is_ClassA)
qed

lemma compensate_prefix_ClassA: "isClassAEffectType (''compensate.'' @ name)"
  by (rule compensate_prefix_ClassA_aux; code_simp)

section \<open>Properties\<close>

text \<open>
  A transition is accepted exactly when the table of the machine lists it, terminal run
  states cannot be left, and every run state can still reach a terminal one.
\<close>

lemma run_state_machine:
  "(tr_ok (validateRunTransition a b) = (b \<in> set (RUN_TRANSITIONS a))) \<and>
   (isTerminalRunState a = (RUN_TRANSITIONS a = [])) \<and>
   ({t. isTerminalRunState a \<and> (\<lambda>x y. isValidRunTransition x y)\<^sup>*\<^sup>* a t} \<subseteq> {a}) \<and>
   (\<exists>t. isTerminalRunState t \<and> (\<lambda>x y. isValidRunTransition x y)\<^sup>*\<^sup>* a t)"
  unfolding isValidRunTransition_def
  using validateRunTransition_ok run_machine.terminal_iff_stuck run_machine.terminal_absorbing
    run_machine.terminal_reachable by blast

text \<open>
  The same for step states, and in particular a step that has left \<open>PENDING\<close> never
  returns to it, so it cannot be scheduled as if it had never run.
\<close>

lemma step_state_machine:
  "(tr_ok (validateStepTransition a b) = (b \<in> set (STEP_TRANSITIONS a))) \<and>
   (isTerminalStepState a = (STEP_TRANSITIONS a = [])) \<and>
   ({t. isTerminalStepState a \<and> (\<lambda>x y. isValidStepTransition x y)\<^sup>*\<^sup>* a t} \<subseteq> {a}) \<and>
   (\<exists>t. isTerminalStepState t \<and> (\<lambda>x y. isValidStepTransition x y)\<^sup>*\<^sup>* a t) \<and>
   \<not> (\<lambda>x y. isValidStepTransition x y)\<^sup>+\<^sup>+ a S_PENDING"
proof -
  have "S_PENDING \<notin> set (STEP_TRANSITIONS x)" for x by (cases x) simp_all
  then have "\<not> (\<lambda>x y. y \<in> set (STEP_TRANSITIONS x))\<^sup>+\<^sup>+ a S_PENDING"
    by (blast elim: tranclp.cases)
  then show ?thesis
    unfolding isValidStepTransition_def
    using validateStepTransition_ok step_machine.terminal_iff_stuck step_machine.terminal_absorbing
      step_machine.terminal_reachable by blast
qed

text \<open>
  The classification is fail-closed: an effect type escapes class A only when it starts
  with one of the six harmless families and no segment of it names a mutating family; every
  compensation is class A.
\<close>

lemma effect_classification_fail_closed:
  "(\<not> isClassAEffectType type) =
     ((\<exists>p \<in> {''llm.'', ''retrieve.'', ''read.'', ''budget.'', ''local.'', ''compute.''}.
        starts_with (to_lower (trim type)) p) \<and>
      set (split_on (CHR ''.'') (to_lower (trim type))) \<inter> set CLASS_A_FAMILY_SEGMENTS = {}) \<and>
   isClassAEffectType (''compensate.'' @ name)"
  by (rule conjI [OF not_ClassA_iff compensate_prefix_ClassA])

end
