(* ===== verification/Reconcile_Policy.thy ===== *)
theory Reconcile_Policy
  imports Kernel_Prelude JS_Strings
begin

text \<open>
  \<open>packages/kernel/src/reconcilePolicy.ts\<close>: the bounded retry policy an effect gets when its
  outcome becomes unknown. Instants are milliseconds since the epoch; a timestamp argument is
  either the canonical ISO text of an instant or some other text, which \<open>instant\<close> rejects.
\<close>

type_synonym time = int

datatype iso_text = Iso time | NotIso string

definition RECONCILE_MAX_ATTEMPTS :: int where "RECONCILE_MAX_ATTEMPTS = 8"
definition RECONCILE_INITIAL_DELAY_MS :: int where "RECONCILE_INITIAL_DELAY_MS = 30000"
definition RECONCILE_MAX_DELAY_MS :: int where "RECONCILE_MAX_DELAY_MS = 900000"
definition RECONCILE_CLAIM_TTL_MS :: int where "RECONCILE_CLAIM_TTL_MS = 60000"
definition DEFAULT_RECONCILE_DEADLINE_MS :: int where "DEFAULT_RECONCILE_DEADLINE_MS = 86400000"

record reconcile_policy =
  maxAttempts :: int
  initialDelayMs :: int
  maxDelayMs :: int
  deadlineAt :: iso_text

text \<open>\<open>Number.isSafeInteger\<close> on integers; the last instant a \<open>Date\<close> can hold.\<close>

definition is_safe_integer :: "int \<Rightarrow> bool" where
  "is_safe_integer n \<longleftrightarrow> \<bar>n\<bar> \<le> 9007199254740991"

definition MAX_DATE_MS :: int where "MAX_DATE_MS = 8640000000000000"

fun instant :: "iso_text \<Rightarrow> string \<Rightarrow> string + time" where
  "instant (Iso t) code = Inr t"
| "instant (NotIso _) code = Inl code"

definition is_digit :: "char \<Rightarrow> bool" where
  "is_digit c \<longleftrightarrow> 48 \<le> char_code c \<and> char_code c \<le> 57"

fun decimal_value :: "nat \<Rightarrow> string \<Rightarrow> nat" where
  "decimal_value acc [] = acc"
| "decimal_value acc (c # cs) = decimal_value (10 * acc + (char_code c - 48)) cs"

text \<open>The argument is \<open>process.env.COMMANDER_RECONCILE_DEADLINE_MS\<close>, if it is set.\<close>

definition reconcileDeadlineWindowMs :: "string option \<Rightarrow> string + int" where
  "reconcileDeadlineWindowMs env =
     (let raw = map_option trim env in
      case raw of
        None \<Rightarrow> Inr DEFAULT_RECONCILE_DEADLINE_MS
      | Some text \<Rightarrow>
          if text = [] then Inr DEFAULT_RECONCILE_DEADLINE_MS
          else if \<not> (hd text \<noteq> CHR ''0'' \<and> list_all is_digit text)
          then Inl ''RECONCILE_DEADLINE_WINDOW_INVALID''
          else let value = int (decimal_value 0 text) in
               if \<not> is_safe_integer value \<or> value \<le> 0
               then Inl ''RECONCILE_DEADLINE_WINDOW_INVALID'' else Inr value)"

text \<open>
  \<open>governedActionDeadlineAt\<close> is \<open>None\<close> when it is absent, null or empty; the missing deadline is
  the infinity of the source.
\<close>

definition createReconcilePolicy ::
  "iso_text \<Rightarrow> iso_text option \<Rightarrow> int option \<Rightarrow> string + reconcile_policy" where
  "createReconcilePolicy unknownAtText governedActionDeadlineAt deadlineWindowMs =
     (case instant unknownAtText ''RECONCILE_UNKNOWN_AT_INVALID'' of
        Inl e \<Rightarrow> Inl e
      | Inr unknownAt \<Rightarrow>
          let window = (case deadlineWindowMs of None \<Rightarrow> DEFAULT_RECONCILE_DEADLINE_MS | Some w \<Rightarrow> w) in
          if \<not> is_safe_integer window \<or> window \<le> 0 \<or> unknownAt + window > MAX_DATE_MS
          then Inl ''RECONCILE_DEADLINE_WINDOW_INVALID''
          else
            case (case governedActionDeadlineAt of
                    None \<Rightarrow> Inr None
                  | Some g \<Rightarrow> (case instant g ''RECONCILE_GOVERNED_DEADLINE_INVALID'' of
                                 Inl e \<Rightarrow> Inl e | Inr t \<Rightarrow> Inr (Some t))) of
              Inl e \<Rightarrow> Inl e
            | Inr governed \<Rightarrow>
                let deadline = (case governed of None \<Rightarrow> unknownAt + window
                                | Some g \<Rightarrow> min (unknownAt + window) g) in
                if deadline \<le> unknownAt then Inl ''RECONCILE_DEADLINE_INVALID''
                else Inr \<lparr>maxAttempts = RECONCILE_MAX_ATTEMPTS,
                          initialDelayMs = RECONCILE_INITIAL_DELAY_MS,
                          maxDelayMs = RECONCILE_MAX_DELAY_MS,
                          deadlineAt = Iso deadline\<rparr>)"

definition nextReconcileAfter :: "reconcile_policy \<Rightarrow> int \<Rightarrow> iso_text \<Rightarrow> string + time" where
  "nextReconcileAfter policy attemptsAfterCommit observedAt =
     (if \<not> is_safe_integer attemptsAfterCommit \<or> attemptsAfterCommit < 1
      then Inl ''RECONCILE_ATTEMPT_INVALID''
      else case instant observedAt ''RECONCILE_OBSERVED_AT_INVALID'' of
          Inl e \<Rightarrow> Inl e
        | Inr observed \<Rightarrow>
            let delay = min (initialDelayMs policy * 2 ^ nat (max 0 (attemptsAfterCommit - 1)))
                            (maxDelayMs policy) in
            case instant (deadlineAt policy) ''RECONCILE_DEADLINE_INVALID'' of
              Inl e \<Rightarrow> Inl e
            | Inr deadline \<Rightarrow> Inr (min (observed + delay) deadline))"

lemmas reconcile_constants =
  RECONCILE_MAX_ATTEMPTS_def RECONCILE_INITIAL_DELAY_MS_def RECONCILE_MAX_DELAY_MS_def
  DEFAULT_RECONCILE_DEADLINE_MS_def

lemma createReconcilePolicy_Inr:
  "createReconcilePolicy u g w = Inr p \<Longrightarrow>
     \<exists>t d. u = Iso t \<and> deadlineAt p = Iso d \<and> t < d \<and>
       d \<le> t + (case w of None \<Rightarrow> 86400000 | Some n \<Rightarrow> n) \<and>
       (\<forall>gt. g = Some (Iso gt) \<longrightarrow> d \<le> gt) \<and>
       maxAttempts p = 8 \<and> initialDelayMs p = 30000 \<and> maxDelayMs p = 900000"
  by (cases u; cases g; cases "the g")
    (auto simp: createReconcilePolicy_def Let_def reconcile_constants split: if_splits option.splits)

lemma createReconcilePolicy_default:
  "t + DEFAULT_RECONCILE_DEADLINE_MS \<le> MAX_DATE_MS \<Longrightarrow>
     createReconcilePolicy (Iso t) None None =
       Inr \<lparr>maxAttempts = 8, initialDelayMs = 30000, maxDelayMs = 900000,
            deadlineAt = Iso (t + 86400000)\<rparr>"
  by (simp add: createReconcilePolicy_def reconcile_constants is_safe_integer_def)

lemma backoff_mono: "(1::int) \<le> a \<Longrightarrow> a \<le> b \<Longrightarrow> 2 ^ nat (a - 1) \<le> (2 ^ nat (b - 1) :: int)"
  by (rule power_increasing) auto

text \<open>
  The policy created for an unknown outcome always leaves a future, bounded window: the
  deadline is after the moment of uncertainty, at most the configured window later, never past
  the deadline of the governed action, and the attempt and delay limits are the fixed ones.
\<close>

lemma reconcile_policy_bounded:
  assumes "createReconcilePolicy unknownAt governed window = Inr policy"
  shows "\<exists>t d. unknownAt = Iso t \<and> deadlineAt policy = Iso d \<and> t < d \<and>
     d \<le> t + (case window of None \<Rightarrow> 86400000 | Some n \<Rightarrow> n) \<and>
     (\<forall>g. governed = Some (Iso g) \<longrightarrow> d \<le> g) \<and>
     maxAttempts policy = 8 \<and> initialDelayMs policy = 30000 \<and> maxDelayMs policy = 900000"
  by (rule createReconcilePolicy_Inr [OF assms])

text \<open>
  The delay before the next query doubles with each attempt up to the maximum: under a
  created policy the next instant is never after the deadline, never before the observation
  when that precedes the deadline, at most 15 minutes later, and never decreases with the
  number of attempts.
\<close>

lemma reconcile_backoff:
  assumes policy: "createReconcilePolicy unknownAt governed window = Inr policy"
    and first: "nextReconcileAfter policy a (Iso observed) = Inr t"
    and later: "nextReconcileAfter policy b (Iso observed) = Inr u"
    and order: "a \<le> b" and deadline: "deadlineAt policy = Iso d" and open_window: "observed \<le> d"
  shows "observed \<le> t \<and> t \<le> u \<and> u \<le> d \<and> u \<le> observed + 900000 \<and>
         (a = 1 \<longrightarrow> t = min (observed + 30000) d) \<and> (6 \<le> b \<longrightarrow> u = min (observed + 900000) d)"
proof -
  have p: "initialDelayMs policy = 30000" "maxDelayMs policy = 900000"
    using createReconcilePolicy_Inr [OF policy] by auto
  have a: "1 \<le> a" and b: "1 \<le> b"
    and t: "t = min (observed + min (30000 * 2 ^ nat (a - 1)) 900000) d"
    and u: "u = min (observed + min (30000 * 2 ^ nat (b - 1)) 900000) d"
    using first later deadline
    by (auto simp: nextReconcileAfter_def p Let_def max_def split: if_splits)
  define x y :: int where "x = 30000 * 2 ^ nat (a - 1)" and "y = 30000 * 2 ^ nat (b - 1)"
  have xy: "x \<le> y" using backoff_mono [OF a order] by (simp add: x_def y_def)
  have x0: "0 \<le> x" by (simp add: x_def)
  have x1: "a = 1 \<longrightarrow> x = 30000" by (simp add: x_def)
  have y6: "6 \<le> b \<longrightarrow> 900000 \<le> y"
  proof
    assume "6 \<le> b"
    then have "(2::int) ^ nat (6 - 1) \<le> 2 ^ nat (b - 1)" by (intro backoff_mono) auto
    then show "900000 \<le> y" by (simp add: y_def)
  qed
  show ?thesis
    using xy x0 x1 y6 open_window unfolding t u x_def [symmetric] y_def [symmetric] by linarith
qed

end
