(* ===== verification/Kernel_State.thy ===== *)
theory Kernel_State
  imports Contracts Reconcile_Policy
begin

text \<open>
  The durable state of the kernel: one record per row of the tables of
  \<open>packages/kernel/src/schema.ts\<close> the repository reads and writes, and the database as the
  record of those tables. Timestamps are instants; the JavaScript objects the repository
  returns (\<open>types.ts\<close>) are the rows, but for a step and an effect, whose row mappers regroup
  or default columns and are translated.
\<close>

record run_row =
  run_id :: string
  run_tenant_id :: string
  run_intent_hash :: string
  run_work_graph_hash :: string
  run_work_graph_version :: string
  run_policy_snapshot_id :: string
  run_state :: run_state
  run_version :: int
  run_metadata :: json
  run_created_at :: time
  run_updated_at :: time
  run_paused_at :: "time option"
  run_terminal_at :: "time option"

record step_row =
  step_id :: string
  step_run_id :: string
  step_tenant_id :: string
  step_kind :: string
  step_state :: step_state
  step_version :: int
  step_attempt :: int
  step_max_attempts :: int
  step_priority :: int
  step_dependencies :: "string list"
  step_input :: json
  step_output :: "json option"
  step_error :: "json option"
  step_scheduled_at :: time
  step_lease_worker_id :: "string option"
  step_lease_worker_generation :: int
  step_lease_token :: "string option"
  step_fencing_epoch :: int
  step_lease_expires_at :: "time option"
  step_created_at :: time
  step_updated_at :: time

record kernel_lease =
  lease_workerId :: string
  lease_workerGeneration :: int
  lease_token :: string
  lease_fencingEpoch :: int
  lease_expiresAt :: time

record kernel_step =
  ks_id :: string
  ks_runId :: string
  ks_tenantId :: string
  ks_kind :: string
  ks_state :: step_state
  ks_version :: int
  ks_attempt :: int
  ks_maxAttempts :: int
  ks_priority :: int
  ks_dependencies :: "string list"
  ks_input :: json
  ks_output :: "json option"
  ks_error :: "json option"
  ks_scheduledAt :: time
  ks_lease :: "kernel_lease option"
  ks_createdAt :: time
  ks_updatedAt :: time

definition fromStep :: "step_row \<Rightarrow> kernel_step" where
  "fromStep row =
     (let lease =
        (if truthy (step_lease_token row) \<and> truthy (step_lease_worker_id row) \<and>
            step_lease_expires_at row \<noteq> None
         then Some \<lparr>lease_workerId = the (step_lease_worker_id row),
                    lease_workerGeneration = step_lease_worker_generation row,
                    lease_token = the (step_lease_token row),
                    lease_fencingEpoch = step_fencing_epoch row,
                    lease_expiresAt = the (step_lease_expires_at row)\<rparr>
         else None) in
      \<lparr>ks_id = step_id row, ks_runId = step_run_id row, ks_tenantId = step_tenant_id row,
       ks_kind = step_kind row, ks_state = step_state row, ks_version = step_version row,
       ks_attempt = step_attempt row, ks_maxAttempts = step_max_attempts row,
       ks_priority = step_priority row, ks_dependencies = step_dependencies row,
       ks_input = step_input row, ks_output = step_output row, ks_error = step_error row,
       ks_scheduledAt = step_scheduled_at row, ks_lease = lease,
       ks_createdAt = step_created_at row, ks_updatedAt = step_updated_at row\<rparr>)"

lemma fromStep_simps [simp]:
  "ks_id (fromStep row) = step_id row" "ks_runId (fromStep row) = step_run_id row"
  "ks_tenantId (fromStep row) = step_tenant_id row" "ks_state (fromStep row) = step_state row"
  "ks_version (fromStep row) = step_version row" "ks_attempt (fromStep row) = step_attempt row"
  "ks_kind (fromStep row) = step_kind row" "ks_dependencies (fromStep row) = step_dependencies row"
  "ks_maxAttempts (fromStep row) = step_max_attempts row"
  by (simp_all add: fromStep_def Let_def)

section \<open>Effects\<close>

datatype effect_state =
  E_ADMITTED | E_COMPLETION_UNKNOWN | E_CONFIRMED_NOT_APPLIED | E_COMPLETED | E_FAILED

datatype reconcile_disposition =
  D_PENDING | D_CONFIRMED_APPLIED | D_CONFIRMED_NOT_APPLIED | D_ESCALATED

record reconcile_columns =
  rc_attempts :: int
  rc_max_attempts :: "int option"
  rc_initial_delay_ms :: "int option"
  rc_max_delay_ms :: "int option"
  rc_deadline_at :: "time option"
  rc_disposition :: "reconcile_disposition option"
  rc_after :: "time option"
  rc_observed_at :: "time option"
  rc_claim_token :: "string option"
  rc_claim_expires_at :: "time option"
  rc_claimed_at :: "time option"
  rc_claim_worker_id :: "string option"
  rc_claim_worker_generation :: "int option"
  rc_last_error :: "json option"
  rc_escalated_at :: "time option"
  rc_escalation_code :: "string option"

record effect_row =
  effect_id :: string
  effect_run_id :: string
  effect_step_id :: string
  effect_tenant_id :: string
  effect_type :: string
  effect_idempotency_key :: string
  effect_request_hash :: string
  effect_policy_decision_id :: string
  effect_policy_snapshot_id :: string
  effect_action_digest :: string
  effect_lease_worker_id :: string
  effect_lease_worker_generation :: int
  effect_lease_fencing_epoch :: int
  effect_state :: effect_state
  effect_request :: json
  effect_response :: "json option"
  effect_created_at :: time
  effect_completed_at :: "time option"
  effect_governed_deadline :: "time option"
  effect_reconcile :: reconcile_columns

text \<open>The column defaults of a fresh effect row.\<close>

definition no_reconcile :: reconcile_columns where
  "no_reconcile =
     \<lparr>rc_attempts = 0, rc_max_attempts = None, rc_initial_delay_ms = None, rc_max_delay_ms = None,
      rc_deadline_at = None, rc_disposition = None, rc_after = None, rc_observed_at = None,
      rc_claim_token = None, rc_claim_expires_at = None, rc_claimed_at = None,
      rc_claim_worker_id = None, rc_claim_worker_generation = None, rc_last_error = None,
      rc_escalated_at = None, rc_escalation_code = None\<rparr>"

record kernel_effect =
  ke_id :: string
  ke_runId :: string
  ke_stepId :: string
  ke_tenantId :: string
  ke_type :: string
  ke_idempotencyKey :: string
  ke_requestHash :: string
  ke_policyDecisionId :: string
  ke_policySnapshotId :: string
  ke_actionDigest :: string
  ke_leaseWorkerId :: string
  ke_leaseWorkerGeneration :: int
  ke_leaseFencingEpoch :: int
  ke_state :: effect_state
  ke_request :: json
  ke_response :: "json option"
  ke_createdAt :: time
  ke_completedAt :: "time option"
  ke_governedActionDeadlineAt :: "time option"
  ke_reconcilePolicy :: "reconcile_policy option"
  ke_reconcile :: reconcile_columns

definition or_default :: "string \<Rightarrow> string \<Rightarrow> string" where
  "or_default s d = (if s = [] then d else s)"

definition fromEffect :: "effect_row \<Rightarrow> kernel_effect" where
  "fromEffect row =
     \<lparr>ke_id = effect_id row, ke_runId = effect_run_id row, ke_stepId = effect_step_id row,
      ke_tenantId = effect_tenant_id row, ke_type = effect_type row,
      ke_idempotencyKey = effect_idempotency_key row, ke_requestHash = effect_request_hash row,
      ke_policyDecisionId = effect_policy_decision_id row,
      ke_policySnapshotId = or_default (effect_policy_snapshot_id row) ''legacy-unbound'',
      ke_actionDigest = or_default (effect_action_digest row) (effect_request_hash row),
      ke_leaseWorkerId = or_default (effect_lease_worker_id row) ''legacy-unbound'',
      ke_leaseWorkerGeneration = effect_lease_worker_generation row,
      ke_leaseFencingEpoch = effect_lease_fencing_epoch row, ke_state = effect_state row,
      ke_request = effect_request row, ke_response = effect_response row,
      ke_createdAt = effect_created_at row, ke_completedAt = effect_completed_at row,
      ke_governedActionDeadlineAt = effect_governed_deadline row,
      ke_reconcilePolicy =
        (let rc = effect_reconcile row in
         case (rc_max_attempts rc, rc_initial_delay_ms rc, rc_max_delay_ms rc, rc_deadline_at rc) of
           (Some m, Some i, Some x, Some d) \<Rightarrow>
             Some \<lparr>maxAttempts = m, initialDelayMs = i, maxDelayMs = x, deadlineAt = Iso d\<rparr>
         | _ \<Rightarrow> None),
      ke_reconcile = effect_reconcile row\<rparr>"

lemma fromEffect_simps [simp]:
  "ke_id (fromEffect row) = effect_id row" "ke_runId (fromEffect row) = effect_run_id row"
  "ke_stepId (fromEffect row) = effect_step_id row" "ke_state (fromEffect row) = effect_state row"
  "ke_tenantId (fromEffect row) = effect_tenant_id row" "ke_type (fromEffect row) = effect_type row"
  "ke_idempotencyKey (fromEffect row) = effect_idempotency_key row"
  "ke_requestHash (fromEffect row) = effect_request_hash row"
  by (simp_all add: fromEffect_def)

section \<open>Events, outbox and the remaining tables\<close>

record event_row =
  event_id :: string
  event_aggregate_type :: string
  event_aggregate_id :: string
  event_sequence :: int
  event_type :: string
  event_tenant_id :: string
  event_run_id :: string
  event_step_id :: "string option"
  event_causation_id :: "string option"
  event_correlation_id :: "string option"
  event_actor :: string
  event_schema_version :: string
  event_payload :: json
  event_occurred_at :: time

record outbox_row =
  outbox_id :: string
  outbox_event_id :: string
  outbox_tenant_id :: string
  outbox_topic :: string
  outbox_key :: string
  outbox_payload :: json
  outbox_attempts :: int
  outbox_max_attempts :: int
  outbox_available_at :: time
  outbox_published_at :: "time option"
  outbox_claimed_at :: "time option"
  outbox_claim_token :: "string option"
  outbox_last_error :: "json option"
  outbox_dlq_reason :: "string option"
  outbox_moved_to_dlq_at :: "time option"
  outbox_created_at :: time

record dlq_row =
  dlq_id :: string
  dlq_original_id :: string
  dlq_event_id :: string
  dlq_tenant_id :: string
  dlq_topic :: string
  dlq_key :: string
  dlq_payload :: json
  dlq_attempts :: int
  dlq_dlq_reason :: "string option"
  dlq_original_created_at :: time
  dlq_moved_to_dlq_at :: time

record limits_row =
  limits_tenant_id :: string
  limits_max_concurrent_steps :: int
  limits_updated_at :: time

record usage_row =
  usage_tenant_id :: string
  usage_running_steps :: int
  usage_updated_at :: time

record control_row =
  control_tenant_id :: string
  control_paused :: bool
  control_generation :: int
  control_actor :: string
  control_reason :: "string option"
  control_paused_at :: "time option"
  control_resumed_at :: "time option"
  control_updated_at :: time

datatype worker_status = W_ACTIVE | W_DRAINING | W_OFFLINE

record worker_row =
  worker_id :: string
  worker_kind :: string
  worker_capabilities :: "string list"
  worker_status :: worker_status
  worker_generation :: int
  worker_identity_subject :: string
  worker_tenant_ids :: "string list"
  worker_registered_at :: time
  worker_last_heartbeat_at :: time

datatype timer_type = INTERACTION_TIMEOUT | RETRY_DELAY | STEP_DEADLINE

datatype timer_state = TM_PENDING | TM_PROCESSING | TM_FIRED | TM_CANCELLED

record timer_row =
  timer_id :: string
  timer_run_id :: string
  timer_step_id :: string
  timer_tenant_id :: string
  timer_fires_at :: time
  timer_type :: timer_type
  timer_state :: timer_state
  timer_payload :: json
  timer_created_at :: time
  timer_fired_at :: "time option"
  timer_claim_token :: "string option"
  timer_claimed_at :: "time option"

datatype interaction_status = IN_pending | IN_answered | IN_expired | IN_cancelled

record interaction_row =
  interaction_id :: string
  interaction_run_id :: string
  interaction_step_id :: string
  interaction_tenant_id :: string
  interaction_status :: interaction_status
  interaction_prompt :: string
  interaction_response :: "json option"
  interaction_created_at :: time
  interaction_answered_at :: "time option"
  interaction_expires_at :: "time option"

record evidence_row =
  evidence_tenant_id :: string
  evidence_run_id :: string
  evidence_bundle_id :: string
  evidence_action_digest :: string
  evidence_body :: json
  evidence_content_hash :: string
  evidence_signature :: json
  evidence_created_at :: time
  evidence_anchored_at :: "time option"
  evidence_retention_until :: time

record kernel_db =
  t_runs :: "run_row list"
  t_steps :: "step_row list"
  t_effects :: "effect_row list"
  t_events :: "event_row list"
  t_outbox :: "outbox_row list"
  t_dlq :: "dlq_row list"
  t_limits :: "limits_row list"
  t_usage :: "usage_row list"
  t_control :: "control_row list"
  t_workers :: "worker_row list"
  t_timers :: "timer_row list"
  t_interactions :: "interaction_row list"
  t_evidence :: "evidence_row list"
  uuids_drawn :: nat

text \<open>An empty database, and the surroundings of a call: the process clock \<open>new Date()\<close>, the
  transaction clock \<open>now()\<close>, the supply of \<open>randomUUID()\<close>, the hash of \<open>node:crypto\<close>, and the
  repository's options (\<open>enforceAtomicOperationsReadiness\<close> is the method its subclasses override).\<close>

definition empty_db :: kernel_db where
  "empty_db = \<lparr>t_runs = [], t_steps = [], t_effects = [], t_events = [], t_outbox = [], t_dlq = [],
     t_limits = [], t_usage = [], t_control = [], t_workers = [], t_timers = [],
     t_interactions = [], t_evidence = [], uuids_drawn = 0\<rparr>"

record kernel_env =
  client_now :: time
  db_now :: time
  uuid_at :: "nat \<Rightarrow> string"
  schedulerMode :: bool
  sha256 :: "string \<Rightarrow> string"
  enforceAtomicOperationsReadiness :: bool

type_synonym 'a ktx = "(kernel_db, 'a) tx"

text \<open>\<open>randomUUID()\<close>: the next value of the supply.\<close>

definition randomUUID :: "kernel_env \<Rightarrow> string ktx" where
  "randomUUID env = (\<lambda>db. Inr (uuid_at env (uuids_drawn db), db\<lparr>uuids_drawn := Suc (uuids_drawn db)\<rparr>))"

text \<open>
  \<open>withTransaction\<close>: a write must name its tenants unless the repository is the scheduler's.
  Commit and rollback are those of the transaction type.
\<close>

definition withTransaction :: "kernel_env \<Rightarrow> ('s, 'a) tx \<Rightarrow> string list \<Rightarrow> ('s, 'a) tx" where
  "withTransaction env fn tenantIds =
     (if tenantIds = [] \<and> \<not> schedulerMode env then throw_tx (JsError ''Kernel write must explicitly carry tenant scope (or use a scheduler-mode repository)'')
      else fn)"

lemma randomUUID_Inr [tx]: "randomUUID env db = Inr (u, db') \<longleftrightarrow>
    u = uuid_at env (uuids_drawn db) \<and> db' = db\<lparr>uuids_drawn := Suc (uuids_drawn db)\<rparr>"
  by (auto simp: randomUUID_def)

lemma randomUUID_Inl [tx]: "randomUUID env db = Inl e \<longleftrightarrow> False"
  by (simp add: randomUUID_def)

lemma withTransaction_tenant [simp]: "withTransaction env fn (t # ts) = fn"
  by (simp add: withTransaction_def)

lemma withTransaction_Inr:
  "withTransaction env fn ts db = Inr p \<longleftrightarrow> (ts = [] \<longrightarrow> schedulerMode env) \<and> fn db = Inr p"
  by (auto simp: withTransaction_def tx)

lemma unchanged_withTransaction [frame]:
  "unchanged v fn \<Longrightarrow> unchanged v (withTransaction env fn ts)"
  by (auto simp: unchanged_def withTransaction_Inr)

lemma keeps_withTransaction [frame]: "keeps P fn \<Longrightarrow> keeps P (withTransaction env fn ts)"
  by (auto simp: keeps_def withTransaction_Inr)

lemma triple_withTransaction: "triple P fn Q \<Longrightarrow> triple P (withTransaction env fn ts) Q"
  by (simp add: triple_def withTransaction_Inr)

lemma randomUUID_frame [frame]:
  "(\<And>n db. v (db\<lparr>uuids_drawn := n\<rparr>) = v db) \<Longrightarrow> unchanged v (randomUUID env)"
  by (simp add: unchanged_def tx)

end
