(* ===== verification/Canonical_JSON.thy ===== *)
theory Canonical_JSON
  imports Kernel_Prelude JS_Strings "HOL-Library.Multiset"
begin

text \<open>
  \<open>canonical\<close> of \<open>packages/kernel/src/postgres.ts\<close> (and its copy in \<open>evidenceRepository.ts\<close>): the
  key-sorted JSON text that request fingerprints and evidence comparisons are taken over.
\<close>

definition hex_digit :: "nat \<Rightarrow> char" where
  "hex_digit n = char_of (if n < 10 then 48 + n else 87 + n)"

text \<open>\<open>JSON.stringify\<close> of one character of a string.\<close>

definition json_char :: "char \<Rightarrow> string" where
  "json_char c = (let n = char_code c in
     if n = 34 then [char_of (92::nat), CHR 0x22]
     else if n = 92 then [char_of (92::nat), char_of (92::nat)]
     else if n = 8 then [char_of (92::nat), CHR ''b'']
     else if n = 12 then [char_of (92::nat), CHR ''f'']
     else if n = 10 then [char_of (92::nat), CHR ''n'']
     else if n = 13 then [char_of (92::nat), CHR ''r'']
     else if n = 9 then [char_of (92::nat), CHR ''t'']
     else if n < 32 then [char_of (92::nat), CHR ''u'', CHR ''0'', CHR ''0'', hex_digit (n div 16), hex_digit (n mod 16)]
     else [c])"

definition json_string :: "string \<Rightarrow> string" where
  "json_string s = [CHR 0x22] @ concat (map json_char s) @ [CHR 0x22]"

fun show_nat :: "nat \<Rightarrow> string" where
  "show_nat n = (if n < 10 then [char_of (48 + n)] else show_nat (n div 10) @ [char_of (48 + n mod 10)])"

definition show_int :: "int \<Rightarrow> string" where
  "show_int i = (if i < 0 then CHR ''-'' # show_nat (nat (- i)) else show_nat (nat i))"

declare show_nat.simps [simp del]

text \<open>\<open>parts.join(',')\<close>\<close>

fun join_comma :: "string list \<Rightarrow> string" where
  "join_comma [] = []"
| "join_comma [s] = s"
| "join_comma (s # t # ss) = s @ [CHR '',''] @ join_comma (t # ss)"

definition render_members :: "(string \<times> string) list \<Rightarrow> string" where
  "render_members kvs =
     ''{'' @ join_comma (map (\<lambda>(k, v). json_string k @ '':'' @ v) (sort_key fst kvs)) @ ''}''"

primrec canonical :: "json \<Rightarrow> string" where
  "canonical JNull = ''null''"
| "canonical (JBool b) = (if b then ''true'' else ''false'')"
| "canonical (JNum n) = show_int n"
| "canonical (JStr s) = json_string s"
| "canonical (JArr vs) = ''['' @ join_comma (map canonical vs) @ '']''"
| "canonical (JObj kvs) = render_members (map (map_prod id canonical) kvs)"

text \<open>\<open>createHash('sha256').update(canonical(value)).digest('hex')\<close>, for any hash function.\<close>

definition requestHash :: "(string \<Rightarrow> string) \<Rightarrow> json \<Rightarrow> string" where
  "requestHash sha256 value = sha256 (canonical value)"

lemma short_mset_eq: "mset xs = mset ys \<Longrightarrow> length ys \<le> 1 \<Longrightarrow> xs = ys"
  by (cases ys) auto

lemma one_row_per_key: "distinct (map fst zs) \<Longrightarrow> length (filter (\<lambda>x. c = fst x) zs) \<le> 1"
proof (induction zs)
  case (Cons z zs)
  have "filter (\<lambda>x. c = fst x) zs = []" if "c = fst z"
    using that Cons.prems by (auto simp: filter_empty_conv image_iff)
  with Cons show ?case by simp
qed simp

lemma sort_key_fst_mset_eq:
  assumes "mset xs = mset ys" and "distinct (map fst xs)"
  shows "sort_key fst xs = sort_key fst ys"
proof (rule properties_for_sort_key [symmetric])
  show "mset (sort_key fst xs) = mset ys" using assms(1) by simp
next
  fix k
  have "distinct (map fst ys)" using assms by (metis mset_eq_imp_distinct_iff mset_map)
  moreover have "mset (filter (\<lambda>x. fst k = fst x) (sort_key fst xs)) = mset (filter (\<lambda>x. fst k = fst x) ys)"
    using assms(1) by simp
  ultimately show "filter (\<lambda>x. fst k = fst x) (sort_key fst xs) = filter (\<lambda>x. fst k = fst x) ys"
    by (blast intro: short_mset_eq one_row_per_key)
next
  show "sorted (map fst (sort_key fst xs))" by simp
qed

text \<open>
  The fingerprint of a request does not depend on the order in which the caller listed the
  keys of an object: equal members in any order give the same canonical text and the same hash.
\<close>

lemma canonical_key_order:
  assumes "mset kvs = mset kvs'" and "distinct (map fst kvs)"
  shows "canonical (JObj kvs) = canonical (JObj kvs') \<and>
         requestHash sha256 (JObj kvs) = requestHash sha256 (JObj kvs')"
proof -
  have "mset (map (map_prod id canonical) kvs) = mset (map (map_prod id canonical) kvs')"
    using assms(1) by (metis mset_map)
  moreover have "distinct (map fst (map (map_prod id canonical) kvs))"
    using assms(2) by (simp add: comp_def)
  ultimately have "sort_key fst (map (map_prod id canonical) kvs) =
      sort_key fst (map (map_prod id canonical) kvs')"
    by (rule sort_key_fst_mset_eq)
  then show ?thesis by (simp add: render_members_def requestHash_def)
qed

end
