(* ===== verification/Kernel_Evidence.thy ===== *)
theory Kernel_Evidence
  imports Kernel_State Canonical_JSON
begin

text \<open>
  Terminal evidence: \<open>assertEvidenceRecordBoundToEffect\<close> of \<open>evidenceRepository.ts\<close> and the
  evidence table operations of \<open>postgres.ts\<close>. A consequential (class A) effect without a bound
  receipt keeps its run open.
\<close>

text \<open>\<open>value.key\<close>: \<open>None\<close> is \<open>undefined\<close>.\<close>

definition json_field :: "json \<Rightarrow> string \<Rightarrow> json option" where
  "json_field v k = (case v of JObj kvs \<Rightarrow> map_of kvs k | _ \<Rightarrow> None)"

fun effect_state_text :: "effect_state \<Rightarrow> string" where
  "effect_state_text E_ADMITTED = ''ADMITTED''"
| "effect_state_text E_COMPLETION_UNKNOWN = ''COMPLETION_UNKNOWN''"
| "effect_state_text E_CONFIRMED_NOT_APPLIED = ''CONFIRMED_NOT_APPLIED''"
| "effect_state_text E_COMPLETED = ''COMPLETED''"
| "effect_state_text E_FAILED = ''FAILED''"

fun expectedDisposition :: "effect_state \<Rightarrow> string option" where
  "expectedDisposition E_COMPLETED = Some ''SUCCEEDED''"
| "expectedDisposition E_FAILED = Some ''FAILED''"
| "expectedDisposition E_CONFIRMED_NOT_APPLIED = Some ''FAILED''"
| "expectedDisposition E_COMPLETION_UNKNOWN = Some ''ESCALATED''"
| "expectedDisposition E_ADMITTED = None"

definition is_object :: "json \<Rightarrow> bool" where
  "is_object v = (case v of JObj _ \<Rightarrow> True | _ \<Rightarrow> False)"

definition evidence_bundle_of :: "string \<Rightarrow> string" where
  "evidence_bundle_of effectId = ''evidence_'' @ effectId"

text \<open>The first matching entry of \<open>body.effects\<close>.\<close>

definition body_effect :: "json \<Rightarrow> string \<Rightarrow> json option" where
  "body_effect body effectId =
     (let effects = (case json_field body ''effects'' of Some (JArr vs) \<Rightarrow> vs | _ \<Rightarrow> []) in
      find (\<lambda>entry. is_object entry \<and> json_field entry ''effectId'' = Some (JStr effectId)) effects)"

text \<open>The list \<open>invalid\<close> of the source, each check with its label.\<close>

definition evidence_binding_errors :: "evidence_row \<Rightarrow> kernel_effect \<Rightarrow> json \<Rightarrow> string list" where
  "evidence_binding_errors receipt effect bodyScope =
     (let body = evidence_body receipt; expected = expectedDisposition (ke_state effect) in
      map snd (filter fst
       [(evidence_tenant_id receipt \<noteq> ke_tenantId effect, ''tenant''),
        (evidence_run_id receipt \<noteq> ke_runId effect, ''run''),
        (evidence_bundle_id receipt \<noteq> evidence_bundle_of (ke_id effect), ''bundle''),
        (evidence_action_digest receipt \<noteq> ke_actionDigest effect, ''action_digest''),
        (evidence_anchored_at receipt = None, ''anchor''),
        (json_field bodyScope ''tenantId'' \<noteq> Some (JStr (ke_tenantId effect)), ''body_tenant''),
        (json_field bodyScope ''runId'' \<noteq> Some (JStr (ke_runId effect)), ''body_run''),
        (json_field bodyScope ''effectId'' \<noteq> Some (JStr (ke_id effect)), ''body_effect''),
        (json_field body ''bundleId'' \<noteq> Some (JStr (evidence_bundle_id receipt)), ''body_bundle''),
        (json_field body ''actionDigest'' \<noteq> Some (JStr (evidence_action_digest receipt)), ''body_action_digest''),
        (json_field body ''contentHash'' \<noteq> Some (JStr (evidence_content_hash receipt)), ''body_content_hash''),
        (map_option canonical (json_field body ''signature'') \<noteq> Some (canonical (evidence_signature receipt)), ''body_signature''),
        (expected = None, ''effect_state''),
        (json_field body ''terminalDisposition'' \<noteq> map_option JStr expected, ''disposition''),
        ((case body_effect body (ke_id effect) of None \<Rightarrow> None | Some e \<Rightarrow> json_field e ''state'')
           \<noteq> Some (JStr (effect_state_text (ke_state effect))), ''body_effect_state'')]))"

definition assertEvidenceRecordBoundToEffect :: "evidence_row \<Rightarrow> kernel_effect \<Rightarrow> unit ktx" where
  "assertEvidenceRecordBoundToEffect receipt effect =
     (case json_field (evidence_body receipt) ''scope'' of
        Some (JObj kvs) \<Rightarrow>
          (if evidence_binding_errors receipt effect (JObj kvs) \<noteq> []
           then throw_tx (JsError (''EVIDENCE_RECORD_BINDING_INVALID:'' @ join_comma (evidence_binding_errors receipt effect (JObj kvs))))
           else return_tx ())
      | _ \<Rightarrow> throw_tx (JsError ''EVIDENCE_RECORD_BINDING_INVALID''))"

definition evidence_json :: "evidence_row \<Rightarrow> json" where
  "evidence_json r = JObj
     [(''tenantId'', JStr (evidence_tenant_id r)), (''runId'', JStr (evidence_run_id r)),
      (''bundleId'', JStr (evidence_bundle_id r)), (''actionDigest'', JStr (evidence_action_digest r)),
      (''body'', evidence_body r), (''contentHash'', JStr (evidence_content_hash r)),
      (''signature'', evidence_signature r), (''createdAt'', JNum (evidence_created_at r)),
      (''anchoredAt'', json_of_option JNum (evidence_anchored_at r)),
      (''retentionUntil'', JNum (evidence_retention_until r))]"

definition same_receipt :: "string \<Rightarrow> string \<Rightarrow> evidence_row \<Rightarrow> bool" where
  "same_receipt tenantId bundleId r \<longleftrightarrow> evidence_tenant_id r = tenantId \<and> evidence_bundle_id r = bundleId"

definition appendEvidenceInTransaction :: "evidence_row \<Rightarrow> bool ktx" where
  "appendEvidenceInTransaction receipt =
     bind_tx (query_tx (\<lambda>db. first_row (same_receipt (evidence_tenant_id receipt) (evidence_bundle_id receipt)) (t_evidence db)))
       (\<lambda>existing. case existing of
          None \<Rightarrow> bind_tx (modify_tx (\<lambda>db. db\<lparr>t_evidence := t_evidence db @ [receipt]\<rparr>)) (\<lambda>_. return_tx True)
        | Some row \<Rightarrow>
            if canonical (evidence_json row) \<noteq> canonical (evidence_json receipt)
            then throw_tx (JsError ''EVIDENCE_CONFLICT'') else return_tx False)"

definition hasEvidenceForEffect :: "kernel_db \<Rightarrow> kernel_effect \<Rightarrow> bool" where
  "hasEvidenceForEffect db effect =
     (case first_row (\<lambda>r. evidence_tenant_id r = ke_tenantId effect \<and> evidence_run_id r = ke_runId effect \<and>
                          evidence_bundle_id r = evidence_bundle_of (ke_id effect)) (t_evidence db) of
        None \<Rightarrow> False
      | Some r \<Rightarrow> (case assertEvidenceRecordBoundToEffect r effect db of Inl _ \<Rightarrow> False | Inr _ \<Rightarrow> True))"

definition hasUnreceiptedConsequentialEffect :: "kernel_db \<Rightarrow> string \<Rightarrow> string \<Rightarrow> bool" where
  "hasUnreceiptedConsequentialEffect db runId tenantId \<longleftrightarrow>
     exists_row (\<lambda>row. effect_run_id row = runId \<and> effect_tenant_id row = tenantId \<and>
                       isClassAEffectType (ke_type (fromEffect row)) \<and>
                       \<not> hasEvidenceForEffect db (fromEffect row)) (t_effects db)"

text \<open>When the assertion passes.\<close>

definition evidence_bound :: "evidence_row \<Rightarrow> kernel_effect \<Rightarrow> bool" where
  "evidence_bound receipt effect \<longleftrightarrow>
     (case json_field (evidence_body receipt) ''scope'' of
        Some scope \<Rightarrow> is_object scope \<and> evidence_binding_errors receipt effect scope = []
      | None \<Rightarrow> False)"

lemma assertEvidence_Inr [tx]:
  "assertEvidenceRecordBoundToEffect receipt effect db = Inr (r, db') \<longleftrightarrow>
     db' = db \<and> evidence_bound receipt effect"
  by (auto simp: assertEvidenceRecordBoundToEffect_def evidence_bound_def is_object_def tx
      split: option.splits json.splits)

lemma assertEvidence_frame [frame]: "unchanged v (assertEvidenceRecordBoundToEffect receipt effect)"
  by (simp add: unchanged_def assertEvidence_Inr)

lemma assertEvidence_keeps [frame]: "keeps P (assertEvidenceRecordBoundToEffect receipt effect)"
  by (simp add: keeps_def assertEvidence_Inr)

lemma evidence_binding_errors_Nil_D:
  assumes "evidence_binding_errors receipt effect scope = []"
  shows "evidence_tenant_id receipt = ke_tenantId effect" "evidence_run_id receipt = ke_runId effect"
    "evidence_bundle_id receipt = evidence_bundle_of (ke_id effect)"
    "evidence_action_digest receipt = ke_actionDigest effect" "evidence_anchored_at receipt \<noteq> None"
    "expectedDisposition (ke_state effect) \<noteq> None"
    "json_field (evidence_body receipt) ''terminalDisposition'' = map_option JStr (expectedDisposition (ke_state effect))"
  using assms by (auto simp: evidence_binding_errors_def Let_def split: if_splits)

lemma appendEvidence_Inr:
  "appendEvidenceInTransaction receipt db = Inr (inserted, db') \<Longrightarrow>
     (if inserted then db' = db\<lparr>t_evidence := t_evidence db @ [receipt]\<rparr> else db' = db)"
  by (auto simp: appendEvidenceInTransaction_def tx split: option.splits if_splits)

lemma appendEvidence_frame [frame]:
  "(\<And>db rows. v (db\<lparr>t_evidence := rows\<rparr>) = v db) \<Longrightarrow> unchanged v (appendEvidenceInTransaction receipt)"
  unfolding unchanged_def by (auto dest!: appendEvidence_Inr split: if_splits)

text \<open>
  Evidence is accepted for an effect only when it is bound to it: tenant, run, bundle name
  and action digest are the effect's, it is anchored, the effect has left \<open>ADMITTED\<close>, and the
  disposition in the body is the one the effect's state demands.
\<close>

lemma evidence_binding_sound:
  assumes "assertEvidenceRecordBoundToEffect receipt effect db = Inr p"
  shows "evidence_tenant_id receipt = ke_tenantId effect \<and> evidence_run_id receipt = ke_runId effect \<and>
    evidence_bundle_id receipt = evidence_bundle_of (ke_id effect) \<and>
    evidence_action_digest receipt = ke_actionDigest effect \<and> evidence_anchored_at receipt \<noteq> None \<and>
    ke_state effect \<noteq> E_ADMITTED \<and>
    json_field (evidence_body receipt) ''terminalDisposition'' = map_option JStr (expectedDisposition (ke_state effect))"
proof -
  obtain r db' where "assertEvidenceRecordBoundToEffect receipt effect db = Inr (r, db')"
    using assms by (cases p) auto
  then obtain scope where none: "evidence_binding_errors receipt effect scope = []"
    by (auto simp: assertEvidence_Inr evidence_bound_def split: option.splits)
  note d = evidence_binding_errors_Nil_D [OF none]
  have "ke_state effect \<noteq> E_ADMITTED" using d(6) by auto
  with d show ?thesis by blast
qed

text \<open>A completed effect and a receipt bound to it.\<close>

definition demo_bound_effect :: kernel_effect where
  "demo_bound_effect = fromEffect
     \<lparr>effect_id = ''e'', effect_run_id = ''r'', effect_step_id = ''s'', effect_tenant_id = ''t'',
      effect_type = ''git.push'', effect_idempotency_key = ''k'', effect_request_hash = ''h'',
      effect_policy_decision_id = ''d'', effect_policy_snapshot_id = ''p'', effect_action_digest = ''x'',
      effect_lease_worker_id = ''w'', effect_lease_worker_generation = 1, effect_lease_fencing_epoch = 1,
      effect_state = E_COMPLETED, effect_request = JObj [], effect_response = Some (JObj []),
      effect_created_at = 0, effect_completed_at = Some 1, effect_governed_deadline = None,
      effect_reconcile = no_reconcile\<rparr>"

definition demo_receipt :: evidence_row where
  "demo_receipt =
     \<lparr>evidence_tenant_id = ''t'', evidence_run_id = ''r'', evidence_bundle_id = ''evidence_e'',
      evidence_action_digest = ''x'',
      evidence_body = JObj
        [(''scope'', JObj [(''tenantId'', JStr ''t''), (''runId'', JStr ''r''), (''effectId'', JStr ''e'')]),
         (''bundleId'', JStr ''evidence_e''), (''actionDigest'', JStr ''x''), (''contentHash'', JStr ''c''),
         (''signature'', JStr ''g''), (''terminalDisposition'', JStr ''SUCCEEDED''),
         (''effects'', JArr [JObj [(''effectId'', JStr ''e''), (''state'', JStr ''COMPLETED'')]])],
      evidence_content_hash = ''c'', evidence_signature = JStr ''g'', evidence_created_at = 0,
      evidence_anchored_at = Some 1, evidence_retention_until = 2\<rparr>"

end
