(* ===== verification/Kernel_Core.thy ===== *)
theory Kernel_Core
  imports Kernel_Evidence
begin

text \<open>
  The private helpers every kernel method of \<open>packages/kernel/src/postgres.ts\<close> is built from:
  appending an event with its outbox message, the tenant slot counter, parking effects whose
  worker is gone, closing the steps of a run that ends, and finishing or compensating the run.
  The row locks (\<open>FOR UPDATE\<close>) of the source serialise concurrent transactions; here every
  method is one atomic step, so a lock is a read.
\<close>

section \<open>Statements on the tables\<close>

definition update_runs :: "(run_row \<Rightarrow> bool) \<Rightarrow> (run_row \<Rightarrow> run_row) \<Rightarrow> run_row list ktx" where
  "update_runs P f = (\<lambda>db. Inr (updated_rows P f (t_runs db), db\<lparr>t_runs := update_where P f (t_runs db)\<rparr>))"

definition update_steps :: "(step_row \<Rightarrow> bool) \<Rightarrow> (step_row \<Rightarrow> step_row) \<Rightarrow> step_row list ktx" where
  "update_steps P f = (\<lambda>db. Inr (updated_rows P f (t_steps db), db\<lparr>t_steps := update_where P f (t_steps db)\<rparr>))"

definition update_effects :: "(effect_row \<Rightarrow> bool) \<Rightarrow> (effect_row \<Rightarrow> effect_row) \<Rightarrow> effect_row list ktx" where
  "update_effects P f = (\<lambda>db. Inr (updated_rows P f (t_effects db), db\<lparr>t_effects := update_where P f (t_effects db)\<rparr>))"

definition update_usage :: "(usage_row \<Rightarrow> bool) \<Rightarrow> (usage_row \<Rightarrow> usage_row) \<Rightarrow> unit ktx" where
  "update_usage P f = modify_tx (\<lambda>db. db\<lparr>t_usage := update_where P f (t_usage db)\<rparr>)"

lemma update_runs_Inr [tx]: "update_runs P f db = Inr (rows, db') \<longleftrightarrow>
    rows = updated_rows P f (t_runs db) \<and> db' = db\<lparr>t_runs := update_where P f (t_runs db)\<rparr>"
  by (auto simp: update_runs_def)

lemma update_steps_Inr [tx]: "update_steps P f db = Inr (rows, db') \<longleftrightarrow>
    rows = updated_rows P f (t_steps db) \<and> db' = db\<lparr>t_steps := update_where P f (t_steps db)\<rparr>"
  by (auto simp: update_steps_def)

lemma update_effects_Inr [tx]: "update_effects P f db = Inr (rows, db') \<longleftrightarrow>
    rows = updated_rows P f (t_effects db) \<and> db' = db\<lparr>t_effects := update_where P f (t_effects db)\<rparr>"
  by (auto simp: update_effects_def)

lemma update_usage_Inr [tx]: "update_usage P f db = Inr (r, db') \<longleftrightarrow>
    db' = db\<lparr>t_usage := update_where P f (t_usage db)\<rparr>"
  by (auto simp: update_usage_def tx)

lemma update_Inl [tx]:
  "update_runs P f db = Inl e \<longleftrightarrow> False" "update_steps Q g db = Inl e \<longleftrightarrow> False"
  "update_effects R h db = Inl e \<longleftrightarrow> False" "update_usage S k db = Inl e \<longleftrightarrow> False"
  by (simp_all add: update_runs_def update_steps_def update_effects_def update_usage_def tx)

lemma update_runs_frame [frame]:
  "(\<And>rows db. v (db\<lparr>t_runs := rows\<rparr>) = v db) \<Longrightarrow> unchanged v (update_runs P f)"
  by (simp add: unchanged_def tx)

lemma update_steps_frame [frame]:
  "(\<And>rows db. v (db\<lparr>t_steps := rows\<rparr>) = v db) \<Longrightarrow> unchanged v (update_steps P f)"
  by (simp add: unchanged_def tx)

lemma update_effects_frame [frame]:
  "(\<And>rows db. v (db\<lparr>t_effects := rows\<rparr>) = v db) \<Longrightarrow> unchanged v (update_effects P f)"
  by (simp add: unchanged_def tx)

lemma update_usage_frame [frame]:
  "(\<And>rows db. v (db\<lparr>t_usage := rows\<rparr>) = v db) \<Longrightarrow> unchanged v (update_usage P f)"
  by (simp add: unchanged_def tx)

section \<open>Events\<close>

record new_event =
  ev_aggregateType :: string
  ev_aggregateId :: string
  ev_sequence :: int
  ev_type :: string
  ev_tenantId :: string
  ev_runId :: string
  ev_stepId :: "string option"
  ev_causationId :: "string option"
  ev_correlationId :: "string option"
  ev_actor :: string
  ev_payload :: json

text \<open>The events of the kernel leave causation and correlation out.\<close>

definition kernel_event ::
  "string \<Rightarrow> string \<Rightarrow> int \<Rightarrow> string \<Rightarrow> string \<Rightarrow> string \<Rightarrow> string option \<Rightarrow> string \<Rightarrow>
     (string \<times> json) list \<Rightarrow> new_event" where
  "kernel_event aggregateType aggregateId sequence type tenantId runId stepId actor payload =
     \<lparr>ev_aggregateType = aggregateType, ev_aggregateId = aggregateId, ev_sequence = sequence,
      ev_type = type, ev_tenantId = tenantId, ev_runId = runId, ev_stepId = stepId,
      ev_causationId = None, ev_correlationId = None, ev_actor = actor,
      ev_payload = JObj payload\<rparr>"

text \<open>\<open>{...payload, key: value, ..}\<close>: the later members win.\<close>

definition json_spread :: "json \<Rightarrow> (string \<times> json) list \<Rightarrow> json" where
  "json_spread payload kvs =
     JObj ((case payload of JObj ps \<Rightarrow> filter (\<lambda>(k, _). k \<notin> set (map fst kvs)) ps | _ \<Rightarrow> []) @ kvs)"

definition insert_event :: "event_row \<Rightarrow> unit ktx" where
  "insert_event row = (\<lambda>db.
     if exists_row (\<lambda>e. event_id e = event_id row) (t_events db)
     then Inl (UniqueViolation ''commander_events_pkey'')
     else if exists_row (\<lambda>e. event_aggregate_type e = event_aggregate_type row \<and>
                             event_aggregate_id e = event_aggregate_id row \<and>
                             event_sequence e = event_sequence row) (t_events db)
     then Inl (UniqueViolation ''commander_events_aggregate_type_aggregate_id_sequence_key'')
     else Inr ((), db\<lparr>t_events := t_events db @ [row]\<rparr>))"

definition insert_outbox :: "outbox_row \<Rightarrow> unit ktx" where
  "insert_outbox row = (\<lambda>db.
     if exists_row (\<lambda>m. outbox_id m = outbox_id row) (t_outbox db)
     then Inl (UniqueViolation ''commander_outbox_pkey'')
     else if exists_row (\<lambda>m. outbox_event_id m = outbox_event_id row) (t_outbox db)
     then Inl (UniqueViolation ''commander_outbox_event_id_key'')
     else if \<not> exists_row (\<lambda>e. event_id e = outbox_event_id row) (t_events db)
     then Inl (ForeignKeyViolation ''commander_outbox_event_id_fkey'')
     else Inr ((), db\<lparr>t_outbox := t_outbox db @ [row]\<rparr>))"

text \<open>A fresh outbox row with the column defaults of the schema.\<close>

definition new_outbox_row ::
  "kernel_env \<Rightarrow> string \<Rightarrow> string \<Rightarrow> string \<Rightarrow> string \<Rightarrow> string \<Rightarrow> json \<Rightarrow> outbox_row" where
  "new_outbox_row env rowId eventId tenantId topic key payload =
     \<lparr>outbox_id = rowId, outbox_event_id = eventId, outbox_tenant_id = tenantId,
      outbox_topic = topic, outbox_key = key, outbox_payload = payload, outbox_attempts = 0,
      outbox_max_attempts = 10, outbox_available_at = db_now env, outbox_published_at = None,
      outbox_claimed_at = None, outbox_claim_token = None, outbox_last_error = None,
      outbox_dlq_reason = None, outbox_moved_to_dlq_at = None, outbox_created_at = db_now env\<rparr>"

definition appendEventKeyed :: "kernel_env \<Rightarrow> new_event \<Rightarrow> string \<Rightarrow> unit ktx" where
  "appendEventKeyed env event outboxKey =
     bind_tx (randomUUID env) (\<lambda>eventId.
     bind_tx (insert_event
       \<lparr>event_id = eventId, event_aggregate_type = ev_aggregateType event,
        event_aggregate_id = ev_aggregateId event, event_sequence = ev_sequence event,
        event_type = ev_type event, event_tenant_id = ev_tenantId event,
        event_run_id = ev_runId event, event_step_id = ev_stepId event,
        event_causation_id = ev_causationId event, event_correlation_id = ev_correlationId event,
        event_actor = ev_actor event, event_schema_version = ''v2'',
        event_payload = ev_payload event, event_occurred_at = db_now env\<rparr>) (\<lambda>_.
     bind_tx (randomUUID env) (\<lambda>outboxId.
     insert_outbox (new_outbox_row env outboxId eventId (ev_tenantId event)
       (''commander.'' @ ev_type event) outboxKey
       (json_spread (ev_payload event)
         [(''eventId'', JStr eventId), (''type'', JStr (ev_type event)),
          (''runId'', JStr (ev_runId event)),
          (''stepId'', json_of_option JStr (ev_stepId event)),
          (''tenantId'', JStr (ev_tenantId event))])))))"

definition appendEvent :: "kernel_env \<Rightarrow> new_event \<Rightarrow> unit ktx" where
  "appendEvent env event = appendEventKeyed env event (ev_runId event)"

lemma insert_event_Inr [tx]: "insert_event row db = Inr (r, db') \<longleftrightarrow>
    db' = db\<lparr>t_events := t_events db @ [row]\<rparr> \<and>
    (\<forall>e \<in> set (t_events db). event_id e \<noteq> event_id row \<and>
       \<not> (event_aggregate_type e = event_aggregate_type row \<and>
          event_aggregate_id e = event_aggregate_id row \<and> event_sequence e = event_sequence row))"
  by (auto simp: insert_event_def)

lemma insert_outbox_Inr [tx]: "insert_outbox row db = Inr (r, db') \<longleftrightarrow>
    db' = db\<lparr>t_outbox := t_outbox db @ [row]\<rparr> \<and>
    (\<forall>m \<in> set (t_outbox db). outbox_id m \<noteq> outbox_id row \<and> outbox_event_id m \<noteq> outbox_event_id row) \<and>
    (\<exists>e \<in> set (t_events db). event_id e = outbox_event_id row)"
  by (auto simp: insert_outbox_def)

text \<open>Whatever ignores events, outbox and the supply of identifiers is untouched.\<close>

lemma appendEventKeyed_frame [frame]:
  assumes "\<And>db es ms n. v (db\<lparr>t_events := es, t_outbox := ms, uuids_drawn := n\<rparr>) = v db"
  shows "unchanged v (appendEventKeyed env event key)"
proof -
  have e: "v (db\<lparr>t_events := es\<rparr>) = v db" for db es
    using assms [of "uuids_drawn db" "t_outbox db" es db] by simp
  have m: "v (db\<lparr>t_outbox := ms\<rparr>) = v db" for db ms
    using assms [of "uuids_drawn db" ms "t_events db" db] by simp
  have u: "v (db\<lparr>uuids_drawn := n\<rparr>) = v db" for db n
    using assms [of n "t_outbox db" "t_events db" db] by simp
  show ?thesis
    unfolding appendEventKeyed_def
    by (intro unchanged_bind; simp add: unchanged_def tx e m u)
qed

lemma appendEvent_frame [frame]:
  assumes "\<And>db es ms n. v (db\<lparr>t_events := es, t_outbox := ms, uuids_drawn := n\<rparr>) = v db"
  shows "unchanged v (appendEvent env event)"
  unfolding appendEvent_def using assms by (rule appendEventKeyed_frame)

text \<open>
  The transactional outbox: a committed event brings exactly one message, published under the
  event's identifier, tenant, topic and key, and nothing else moves.
\<close>

lemma appendEventKeyed_adds:
  assumes "appendEventKeyed env event key db = Inr (r, db')"
  shows "\<exists>e m. t_events db' = t_events db @ [e] \<and> t_outbox db' = t_outbox db @ [m] \<and>
     outbox_event_id m = event_id e \<and> outbox_tenant_id m = ev_tenantId event \<and>
     outbox_key m = key \<and> outbox_topic m = ''commander.'' @ ev_type event \<and>
     event_type e = ev_type event \<and> event_aggregate_type e = ev_aggregateType event \<and>
     event_aggregate_id e = ev_aggregateId event \<and> event_sequence e = ev_sequence event \<and>
     event_run_id e = ev_runId event \<and> event_tenant_id e = ev_tenantId event \<and>
     event_payload e = ev_payload event \<and> (\<forall>x \<in> set (t_events db). event_id x \<noteq> event_id e)"
  using assms unfolding appendEventKeyed_def new_outbox_row_def
  by (simp add: tx)

section \<open>Tenant slots\<close>

definition releaseTenantSlot :: "kernel_env \<Rightarrow> string \<Rightarrow> unit ktx" where
  "releaseTenantSlot env tenantId =
     update_usage (\<lambda>u. usage_tenant_id u = tenantId)
       (\<lambda>u. u\<lparr>usage_running_steps := max 0 (usage_running_steps u - 1), usage_updated_at := db_now env\<rparr>)"

section \<open>Effects whose worker is gone\<close>

definition parkOrphanAdmittedEffects ::
  "kernel_env \<Rightarrow> string \<Rightarrow> string \<Rightarrow> string \<Rightarrow> string \<Rightarrow> string \<Rightarrow> unit ktx" where
  "parkOrphanAdmittedEffects env stepId tenantId runId reason actor =
     (let unknownAt = client_now env in
      case createReconcilePolicy (Iso unknownAt) None None of
        Inl message \<Rightarrow> throw_tx (JsError message)
      | Inr policy \<Rightarrow>
          let deadline = (case deadlineAt policy of Iso t \<Rightarrow> t | NotIso _ \<Rightarrow> unknownAt) in
          bind_tx (update_effects
             (\<lambda>e. effect_step_id e = stepId \<and> effect_tenant_id e = tenantId \<and> effect_state e = E_ADMITTED)
             (\<lambda>e. e\<lparr>effect_state := E_COMPLETION_UNKNOWN,
                    effect_response := Some (JObj [(''reason'', JStr reason)]),
                    effect_reconcile :=
                      \<lparr>rc_attempts = 0, rc_max_attempts = Some (maxAttempts policy),
                       rc_initial_delay_ms = Some (initialDelayMs policy),
                       rc_max_delay_ms = Some (maxDelayMs policy),
                       rc_deadline_at = Some (min deadline
                          (case effect_governed_deadline e of None \<Rightarrow> deadline | Some g \<Rightarrow> g)),
                       rc_disposition = Some D_PENDING, rc_after = Some unknownAt,
                       rc_observed_at = None, rc_claim_token = None, rc_claim_expires_at = None,
                       rc_claimed_at = None, rc_claim_worker_id = None,
                       rc_claim_worker_generation = None, rc_last_error = None,
                       rc_escalated_at = None, rc_escalation_code = None\<rparr>\<rparr>))
            (\<lambda>uncertain. forM_tx uncertain (\<lambda>effect.
               appendEvent env (kernel_event ''effect'' (effect_id effect) 2
                 ''effect.completion_unknown'' tenantId runId (Some stepId) actor
                 [(''reason'', JStr reason)]))))"

section \<open>Closing the steps of a run\<close>

fun step_state_text :: "step_state \<Rightarrow> string" where
  "step_state_text S_PENDING = ''PENDING''"
| "step_state_text S_RUNNING = ''RUNNING''"
| "step_state_text S_WAITING_FOR_HUMAN = ''WAITING_FOR_HUMAN''"
| "step_state_text S_WAITING_FOR_RECONCILIATION = ''WAITING_FOR_RECONCILIATION''"
| "step_state_text S_RETRY_WAIT = ''RETRY_WAIT''"
| "step_state_text S_SUCCEEDED = ''SUCCEEDED''"
| "step_state_text S_FAILED = ''FAILED''"
| "step_state_text S_CANCELLED = ''CANCELLED''"
| "step_state_text S_SKIPPED = ''SKIPPED''"

definition step_open :: "step_state \<Rightarrow> bool" where
  "step_open s \<longleftrightarrow> s \<notin> {S_SUCCEEDED, S_FAILED, S_CANCELLED, S_SKIPPED}"

definition in_run :: "string \<Rightarrow> string \<Rightarrow> step_row \<Rightarrow> bool" where
  "in_run runId tenantId s \<longleftrightarrow> step_run_id s = runId \<and> step_tenant_id s = tenantId"

definition is_run :: "string \<Rightarrow> string \<Rightarrow> run_row \<Rightarrow> bool" where
  "is_run runId tenantId r \<longleftrightarrow> run_id r = runId \<and> run_tenant_id r = tenantId"

definition lockRunState :: "string \<Rightarrow> string \<Rightarrow> run_state option ktx" where
  "lockRunState runId tenantId =
     query_tx (\<lambda>db. map_option run_state (first_row (is_run runId tenantId) (t_runs db)))"

definition lockStepStates :: "string \<Rightarrow> string \<Rightarrow> (string \<times> step_state) list ktx" where
  "lockStepStates runId tenantId =
     query_tx (\<lambda>db. map (\<lambda>s. (step_id s, step_state s)) (filter (in_run runId tenantId) (t_steps db)))"

definition cancelOpenStepsForTerminalRun ::
  "kernel_env \<Rightarrow> string \<Rightarrow> string \<Rightarrow> string \<Rightarrow> string \<Rightarrow> unit ktx" where
  "cancelOpenStepsForTerminalRun env runId tenantId actor reason =
     bind_tx (lockStepStates runId tenantId) (\<lambda>previousSteps.
     bind_tx (forM_tx previousSteps (\<lambda>(_, state).
        when_tx (step_open state) (assertStepTransition state S_CANCELLED))) (\<lambda>_.
     bind_tx (update_steps (\<lambda>s. in_run runId tenantId s \<and> step_open (step_state s))
       (\<lambda>s. s\<lparr>step_state := S_CANCELLED,
              step_error := Some (JObj [(''code'', JStr ''RUN_TERMINAL''), (''message'', JStr reason),
                                        (''retryable'', JBool False)]),
              step_version := step_version s + 1, step_updated_at := db_now env,
              step_lease_worker_id := None, step_lease_token := None,
              step_lease_expires_at := None\<rparr>)) (\<lambda>cancelled.
     forM_tx cancelled (\<lambda>row.
       let previousState = map_of previousSteps (step_id row) in
       bind_tx (when_tx (previousState = Some S_RUNNING) (releaseTenantSlot env tenantId)) (\<lambda>_.
       bind_tx (parkOrphanAdmittedEffects env (step_id row) (step_tenant_id row) (step_run_id row) reason actor) (\<lambda>_.
       appendEvent env (kernel_event ''step'' (step_id row) (step_version row) ''step.cancelled''
         tenantId runId (Some (step_id row)) actor
         ([(''reason'', JStr reason)] @
          (case previousState of None \<Rightarrow> []
           | Some p \<Rightarrow> [(''previousState'', JStr (step_state_text p))])))))))))"

section \<open>Ending a run\<close>

definition finishRunIfTerminal :: "kernel_env \<Rightarrow> string \<Rightarrow> string \<Rightarrow> string \<Rightarrow> unit ktx" where
  "finishRunIfTerminal env runId tenantId actor =
     bind_tx (lockRunState runId tenantId) (\<lambda>previous. case previous of None \<Rightarrow> return_tx ()
     | Some previousState \<Rightarrow>
       bind_tx (query_tx (\<lambda>db. map step_state (filter (in_run runId tenantId) (t_steps db)))) (\<lambda>states.
       bind_tx (query_tx (\<lambda>db. hasUnreceiptedConsequentialEffect db runId tenantId)) (\<lambda>unreceipted.
       let anyFailed = (S_FAILED \<in> set states);
           allDone = (states \<noteq> [] \<and> list_all (\<lambda>s. s \<in> {S_SUCCEEDED, S_SKIPPED}) states);
           terminalCandidate = (anyFailed \<or> allDone) in
       if terminalCandidate \<and> unreceipted then return_tx ()
       else if anyFailed then
         (if previousState = R_FAILED then return_tx ()
          else
            bind_tx (assertRunTransition previousState R_FAILED) (\<lambda>_.
            bind_tx (cancelOpenStepsForTerminalRun env runId tenantId actor ''run_failed'') (\<lambda>_.
            bind_tx (update_runs (\<lambda>r. is_run runId tenantId r \<and> run_state r \<notin> {R_FAILED, R_SUCCEEDED})
              (\<lambda>r. r\<lparr>run_state := R_FAILED, run_version := run_version r + 1,
                     run_updated_at := db_now env, run_terminal_at := Some (db_now env)\<rparr>)) (\<lambda>updated.
            case updated of [] \<Rightarrow> return_tx ()
            | row # _ \<Rightarrow> appendEvent env (kernel_event ''run'' runId (run_version row) ''run.failed''
                           tenantId runId None actor [])))))
       else if allDone then
         (if previousState = R_SUCCEEDED then return_tx ()
          else
            bind_tx (assertRunTransition previousState R_SUCCEEDED) (\<lambda>_.
            bind_tx (update_runs (\<lambda>r. is_run runId tenantId r \<and> run_state r \<notin> {R_FAILED, R_SUCCEEDED})
              (\<lambda>r. r\<lparr>run_state := R_SUCCEEDED, run_version := run_version r + 1,
                     run_updated_at := db_now env, run_terminal_at := Some (db_now env)\<rparr>)) (\<lambda>updated.
            case updated of [] \<Rightarrow> return_tx ()
            | row # _ \<Rightarrow> appendEvent env (kernel_event ''run'' runId (run_version row) ''run.succeeded''
                           tenantId runId None actor []))))
       else return_tx ())))"

text \<open>
  \<open>requestCompensationIfNeeded\<close>: when a failing run already holds completed effects it moves to
  \<open>COMPENSATING\<close> instead of \<open>FAILED\<close>; the result says whether it did (or already had).
\<close>

definition announceCompensation ::
  "kernel_env \<Rightarrow> string \<Rightarrow> int \<Rightarrow> string \<Rightarrow> string list \<Rightarrow> run_row list \<Rightarrow> bool ktx" where
  "announceCompensation env stepId fencingEpoch actor completedEffectIds updated =
     (case updated of [] \<Rightarrow> return_tx False
      | run # _ \<Rightarrow>
        bind_tx (appendEvent env (kernel_event ''run'' (run_id run) (run_version run)
           ''run.compensating'' (run_tenant_id run) (run_id run) (Some stepId) actor
           [(''fencingEpoch'', JNum fencingEpoch)])) (\<lambda>_.
        let compensationKey = run_tenant_id run @ ''/'' @ run_id run @ ''/'' @ show_int fencingEpoch in
        bind_tx (appendEventKeyed env (kernel_event ''effect'' (''compensation:'' @ compensationKey) 1
           ''kernel.compensation.requested'' (run_tenant_id run) (run_id run) (Some stepId) actor
           [(''effectIds'', JArr (map JStr completedEffectIds)),
            (''fencingEpoch'', JNum fencingEpoch)]) compensationKey) (\<lambda>_.
        bind_tx (cancelOpenStepsForTerminalRun env (run_id run) (run_tenant_id run) actor
           ''run_compensating'') (\<lambda>_. return_tx True))))"

definition requestCompensationIfNeeded ::
  "kernel_env \<Rightarrow> string \<Rightarrow> string \<Rightarrow> string \<Rightarrow> int \<Rightarrow> string \<Rightarrow> time \<Rightarrow> bool ktx" where
  "requestCompensationIfNeeded env stepId tenantId runId fencingEpoch actor at =
     bind_tx (query_tx (\<lambda>db. sort_key effect_created_at
        (filter (\<lambda>e. effect_run_id e = runId \<and> effect_tenant_id e = tenantId \<and>
                     effect_state e \<in> {E_COMPLETED, E_ADMITTED}) (t_effects db)))) (\<lambda>effectSnapshot.
     let completedEffectIds = map effect_id (filter (\<lambda>e. effect_state e = E_COMPLETED) effectSnapshot) in
     if completedEffectIds = [] then return_tx False
     else
       bind_tx (lockRunState runId tenantId) (\<lambda>previous. case previous of None \<Rightarrow> return_tx False
       | Some previousState \<Rightarrow>
         if previousState = R_COMPENSATING then
           bind_tx (cancelOpenStepsForTerminalRun env runId tenantId actor ''run_compensating'')
             (\<lambda>_. return_tx True)
         else
           bind_tx (assertRunTransition previousState R_COMPENSATING) (\<lambda>_.
           bind_tx (update_runs (\<lambda>r. is_run runId tenantId r \<and> run_state r = previousState)
             (\<lambda>r. r\<lparr>run_state := R_COMPENSATING, run_version := run_version r + 1,
                    run_updated_at := at\<rparr>))
             (announceCompensation env stepId fencingEpoch actor completedEffectIds))))"

text \<open>The tables each helper leaves alone.\<close>

lemma releaseTenantSlot_frame [frame]:
  "(\<And>rows db. v (db\<lparr>t_usage := rows\<rparr>) = v db) \<Longrightarrow> unchanged v (releaseTenantSlot env tenantId)"
  unfolding releaseTenantSlot_def by (rule update_usage_frame)

lemma parkOrphanAdmittedEffects_frame [frame]:
  assumes "\<And>rows db. v (db\<lparr>t_effects := rows\<rparr>) = v db"
    and "\<And>db es ms n. v (db\<lparr>t_events := es, t_outbox := ms, uuids_drawn := n\<rparr>) = v db"
  shows "unchanged v (parkOrphanAdmittedEffects env stepId tenantId runId reason actor)"
  unfolding parkOrphanAdmittedEffects_def Let_def by (intro frame assms)

lemma cancelOpenSteps_frame [frame]:
  assumes "\<And>rows db. v (db\<lparr>t_effects := rows\<rparr>) = v db" "\<And>rows db. v (db\<lparr>t_steps := rows\<rparr>) = v db"
    and "\<And>rows db. v (db\<lparr>t_usage := rows\<rparr>) = v db"
    and "\<And>db es ms n. v (db\<lparr>t_events := es, t_outbox := ms, uuids_drawn := n\<rparr>) = v db"
  shows "unchanged v (cancelOpenStepsForTerminalRun env runId tenantId actor reason)"
  unfolding cancelOpenStepsForTerminalRun_def lockStepStates_def Let_def by (intro frame assms)

lemma finishRun_frame [frame]:
  assumes "\<And>rows db. v (db\<lparr>t_effects := rows\<rparr>) = v db" "\<And>rows db. v (db\<lparr>t_steps := rows\<rparr>) = v db"
    and "\<And>rows db. v (db\<lparr>t_usage := rows\<rparr>) = v db" "\<And>rows db. v (db\<lparr>t_runs := rows\<rparr>) = v db"
    and "\<And>db es ms n. v (db\<lparr>t_events := es, t_outbox := ms, uuids_drawn := n\<rparr>) = v db"
  shows "unchanged v (finishRunIfTerminal env runId tenantId actor)"
  unfolding finishRunIfTerminal_def lockRunState_def Let_def by (intro frame assms)

lemma requestCompensation_frame [frame]:
  assumes "\<And>rows db. v (db\<lparr>t_effects := rows\<rparr>) = v db" "\<And>rows db. v (db\<lparr>t_steps := rows\<rparr>) = v db"
    and "\<And>rows db. v (db\<lparr>t_usage := rows\<rparr>) = v db" "\<And>rows db. v (db\<lparr>t_runs := rows\<rparr>) = v db"
    and "\<And>db es ms n. v (db\<lparr>t_events := es, t_outbox := ms, uuids_drawn := n\<rparr>) = v db"
  shows "unchanged v (requestCompensationIfNeeded env stepId tenantId runId epoch actor at)"
  unfolding requestCompensationIfNeeded_def announceCompensation_def lockRunState_def Let_def by (intro frame assms)

end
