(* ===== verification/Kernel_Safety.thy ===== *)
theory Kernel_Safety
  imports Kernel_Core
begin

text \<open>
  What every kernel method must keep, stated over the tables of runs, steps, events, outbox and
  tenant usage, with the rules for the statements and helpers of \<open>Kernel_Core\<close>:

  keys are unique; every event has its outbox message; a step belongs to a run of its tenant;
  the tenant's slot counter is the number of its RUNNING steps; a RUNNING step belongs to a
  RUNNING run and holds a lease, any other step holds none; and histories only grow: a row moves
  along its transition table, versions and fencing epochs never decrease, events are appended.

  While a method is at work the counter is ahead of the rows by \<open>d\<close> slots per tenant, and the runs
  in \<open>X\<close> have ended but their steps are not closed yet; a method starts and ends with neither.
\<close>

section \<open>The invariant\<close>

definition running_in :: "string \<Rightarrow> step_row \<Rightarrow> bool" where
  "running_in tenantId s \<longleftrightarrow> step_tenant_id s = tenantId \<and> step_state s = S_RUNNING"

definition keys_ok :: "kernel_db \<Rightarrow> bool" where
  "keys_ok db \<longleftrightarrow> unique_key run_id (t_runs db) \<and> unique_key step_id (t_steps db) \<and>
     unique_key event_id (t_events db) \<and> unique_key usage_tenant_id (t_usage db)"

definition outbox_ok :: "kernel_db \<Rightarrow> bool" where
  "outbox_ok db \<longleftrightarrow> map outbox_event_id (t_outbox db) = map event_id (t_events db)"

definition step_placed :: "run_row list \<Rightarrow> usage_row list \<Rightarrow> step_row \<Rightarrow> bool" where
  "step_placed runs usages s \<longleftrightarrow> (\<exists>r \<in> set runs. is_run (step_run_id s) (step_tenant_id s) r) \<and>
     (\<exists>u \<in> set usages. usage_tenant_id u = step_tenant_id s)"

definition graph_ok :: "kernel_db \<Rightarrow> bool" where
  "graph_ok db \<longleftrightarrow> (\<forall>s \<in> set (t_steps db). step_placed (t_runs db) (t_usage db) s)"

definition slots_ok :: "(string \<Rightarrow> int) \<Rightarrow> kernel_db \<Rightarrow> bool" where
  "slots_ok d db \<longleftrightarrow> (\<forall>u \<in> set (t_usage db). usage_running_steps u =
     count_rows (running_in (usage_tenant_id u)) (t_steps db) + d (usage_tenant_id u))"

definition live_run :: "string set \<Rightarrow> run_row list \<Rightarrow> step_row \<Rightarrow> bool" where
  "live_run X runs s \<longleftrightarrow> step_run_id s \<in> X \<or>
     (\<exists>r \<in> set runs. run_id r = step_run_id s \<and> run_state r = R_RUNNING)"

definition live_ok :: "string set \<Rightarrow> kernel_db \<Rightarrow> bool" where
  "live_ok X db \<longleftrightarrow> (\<forall>s \<in> set (t_steps db). step_state s = S_RUNNING \<longrightarrow> live_run X (t_runs db) s)"

definition lease_matches :: "step_row \<Rightarrow> bool" where
  "lease_matches s \<longleftrightarrow> (if step_state s = S_RUNNING
     then step_lease_token s \<noteq> None \<and> step_lease_worker_id s \<noteq> None \<and> step_lease_expires_at s \<noteq> None
     else step_lease_token s = None \<and> step_lease_worker_id s = None \<and> step_lease_expires_at s = None)"

definition lease_ok :: "kernel_db \<Rightarrow> bool" where
  "lease_ok db \<longleftrightarrow> (\<forall>s \<in> set (t_steps db). lease_matches s)"

definition run_path :: "run_state \<Rightarrow> run_state \<Rightarrow> bool" where
  "run_path = isValidRunTransition\<^sup>*\<^sup>*"

definition step_path :: "step_state \<Rightarrow> step_state \<Rightarrow> bool" where
  "step_path = isValidStepTransition\<^sup>*\<^sup>*"

definition run_evolves :: "run_row \<Rightarrow> run_row \<Rightarrow> bool" where
  "run_evolves r r' \<longleftrightarrow> run_id r' = run_id r \<and> run_tenant_id r' = run_tenant_id r \<and>
     run_path (run_state r) (run_state r') \<and> run_version r \<le> run_version r'"

definition step_evolves :: "step_row \<Rightarrow> step_row \<Rightarrow> bool" where
  "step_evolves s s' \<longleftrightarrow> step_id s' = step_id s \<and> step_run_id s' = step_run_id s \<and>
     step_tenant_id s' = step_tenant_id s \<and> step_path (step_state s) (step_state s') \<and>
     step_version s \<le> step_version s' \<and> step_fencing_epoch s \<le> step_fencing_epoch s'"

definition evolves :: "kernel_db \<Rightarrow> kernel_db \<Rightarrow> bool" where
  "evolves db0 db \<longleftrightarrow>
     (\<forall>r \<in> set (t_runs db0). \<exists>r' \<in> set (t_runs db). run_evolves r r') \<and>
     (\<forall>s \<in> set (t_steps db0). \<exists>s' \<in> set (t_steps db). step_evolves s s') \<and>
     (\<exists>es. t_events db = t_events db0 @ es)"

definition safe :: "(string \<Rightarrow> int) \<Rightarrow> string set \<Rightarrow> kernel_db \<Rightarrow> kernel_db \<Rightarrow> bool" where
  "safe d X db0 db \<longleftrightarrow> keys_ok db \<and> outbox_ok db \<and> graph_ok db \<and> slots_ok d db \<and> live_ok X db \<and>
     lease_ok db \<and> evolves db0 db"

lemmas safe_defs = safe_def keys_ok_def outbox_ok_def graph_ok_def slots_ok_def live_ok_def lease_ok_def

abbreviation no_debt :: "string \<Rightarrow> int" where
  "no_debt \<equiv> (\<lambda>_. 0)"

definition debt :: "(string \<Rightarrow> int) \<Rightarrow> bool" where
  "debt d \<longleftrightarrow> (\<forall>t. 0 \<le> d t)"

lemma debt_none [simp, frame]: "debt no_debt"
  by (simp add: debt_def)

lemma run_path_refl [simp]: "run_path a a"
  by (simp add: run_path_def)

lemma step_path_refl [simp]: "step_path a a"
  by (simp add: step_path_def)

lemma run_path_step: "b \<in> set (RUN_TRANSITIONS a) \<Longrightarrow> run_path a b"
  by (simp add: run_path_def isValidRunTransition_def r_into_rtranclp)

lemma step_path_step: "b \<in> set (STEP_TRANSITIONS a) \<Longrightarrow> step_path a b"
  by (simp add: step_path_def isValidStepTransition_def r_into_rtranclp)

lemma run_evolves_refl [simp]: "run_evolves r r"
  by (simp add: run_evolves_def)

lemma step_evolves_refl [simp]: "step_evolves s s"
  by (simp add: step_evolves_def)

lemma run_evolves_trans: "run_evolves a b \<Longrightarrow> run_evolves b c \<Longrightarrow> run_evolves a c"
  unfolding run_evolves_def run_path_def by (metis order_trans rtranclp_trans)

lemma step_evolves_trans: "step_evolves a b \<Longrightarrow> step_evolves b c \<Longrightarrow> step_evolves a c"
  unfolding step_evolves_def step_path_def by (metis order_trans rtranclp_trans)

lemma evolves_refl [simp]: "evolves db db"
  unfolding evolves_def by (auto intro: run_evolves_refl step_evolves_refl)

lemma evolves_trans:
  assumes "evolves a b" and "evolves b c"
  shows "evolves a c"
proof -
  have "\<exists>r' \<in> set (t_runs c). run_evolves r r'" if "r \<in> set (t_runs a)" for r
    using assms that unfolding evolves_def by (meson run_evolves_trans)
  moreover have "\<exists>s' \<in> set (t_steps c). step_evolves s s'" if "s \<in> set (t_steps a)" for s
    using assms that unfolding evolves_def by (meson step_evolves_trans)
  moreover have "\<exists>es. t_events c = t_events a @ es"
    using assms unfolding evolves_def by (metis append.assoc)
  ultimately show ?thesis unfolding evolves_def by blast
qed

section \<open>What leaves the tables alone\<close>

text \<open>The view \<open>safe\<close> depends on.\<close>

definition core :: "kernel_db \<Rightarrow> run_row list \<times> step_row list \<times> event_row list \<times> string list \<times> usage_row list" where
  "core db = (t_runs db, t_steps db, t_events db, map outbox_event_id (t_outbox db), t_usage db)"

lemma safe_core: "core db = core db' \<Longrightarrow> safe d X db0 db = safe d X db0 db'"
  by (auto simp: core_def safe_defs evolves_def)

lemma keeps_safe_core:
  assumes "unchanged core m"
  shows "keeps (safe d X db0) m"
  unfolding keeps_def using assms by (metis safe_core unchangedD)

lemma safe_start: "safe d X db0 db \<Longrightarrow> safe d X db db"
  by (simp add: safe_def)

lemma safe_rebase: "safe d X db db' \<Longrightarrow> evolves db0 db \<Longrightarrow> safe d X db0 db'"
  by (auto simp: safe_def intro: evolves_trans)

lemma safe_weaken: "safe d X db0 db \<Longrightarrow> X \<subseteq> Y \<Longrightarrow> safe d Y db0 db"
  unfolding safe_defs live_run_def by blast

section \<open>Events\<close>

lemma safe_appendEventKeyed [frame]: "keeps (safe d X db0) (appendEventKeyed env event key)"
  unfolding keeps_def
proof (intro allI impI)
  fix db r db'
  assume safe: "safe d X db0 db" and step: "appendEventKeyed env event key db = Inr (r, db')"
  have rest: "(t_runs db', t_steps db', t_usage db') = (t_runs db, t_steps db, t_usage db)"
    by (rule unchangedD [OF appendEventKeyed_frame step]) simp
  obtain e m where new: "t_events db' = t_events db @ [e]" "t_outbox db' = t_outbox db @ [m]"
    "outbox_event_id m = event_id e" "\<forall>x \<in> set (t_events db). event_id x \<noteq> event_id e"
    using appendEventKeyed_adds [OF step] by blast
  show "safe d X db0 db'"
    using safe new rest by (auto simp: safe_defs evolves_def unique_key_snoc)
qed

lemma safe_appendEvent [frame]: "keeps (safe d X db0) (appendEvent env event)"
  by (simp add: appendEvent_def safe_appendEventKeyed)

section \<open>Steps\<close>

text \<open>
  The rule for every update of steps: rows evolve, keep their lease in step with their state,
  and enter RUNNING only in a live run. The slots they free or take move into the debt.
\<close>

lemma safe_update_steps:
  assumes safe: "safe d X db0 db"
    and row: "\<And>s. s \<in> set (t_steps db) \<Longrightarrow> P s \<Longrightarrow> step_evolves s (f s) \<and> lease_matches (f s) \<and>
        (step_state (f s) = S_RUNNING \<longrightarrow> live_run X (t_runs db) (f s))"
  shows "safe (\<lambda>t. d t + count_rows (\<lambda>s. P s \<and> running_in t s) (t_steps db)
                      - count_rows (\<lambda>s. P s \<and> running_in t (f s)) (t_steps db)) X db0
           (db\<lparr>t_steps := update_where P f (t_steps db)\<rparr>)"
    (is "safe ?d X db0 ?db")
proof -
  have same: "step_id (f s) = step_id s \<and> step_run_id (f s) = step_run_id s \<and>
      step_tenant_id (f s) = step_tenant_id s"
    if "s \<in> set (t_steps db)" "P s" for s
    using row [OF that] by (simp add: step_evolves_def)
  have ids: "map step_id (update_where P f (t_steps db)) = map step_id (t_steps db)"
    using same by (simp add: update_where_def)
  have mem: "\<exists>s \<in> set (t_steps db). s' = s \<or> (P s \<and> s' = f s)" if "s' \<in> set (t_steps ?db)" for s'
    using that by (auto simp: set_update_where)
  have "keys_ok ?db" using safe ids by (simp add: safe_defs unique_key_def)
  moreover have "outbox_ok ?db" using safe by (simp add: safe_defs)
  moreover have "graph_ok ?db"
    unfolding graph_ok_def
  proof
    fix s' assume "s' \<in> set (t_steps ?db)"
    then obtain s where s: "s \<in> set (t_steps db)" "s' = s \<or> (P s \<and> s' = f s)" using mem by blast
    have "step_placed (t_runs db) (t_usage db) s" using safe s(1) by (simp add: safe_defs)
    then show "step_placed (t_runs ?db) (t_usage ?db) s'"
      using s same by (auto simp: step_placed_def)
  qed
  moreover have "slots_ok ?d ?db"
    using safe by (simp add: safe_defs count_rows_update)
  moreover have "live_ok X ?db"
    using safe row mem unfolding safe_defs by (simp, blast)
  moreover have "lease_ok ?db"
    using safe row mem unfolding safe_defs by blast
  moreover have "evolves db0 ?db"
  proof (rule evolves_trans)
    show "evolves db0 db" using safe by (simp add: safe_def)
    have "\<exists>s' \<in> set (t_steps ?db). step_evolves s s'" if s: "s \<in> set (t_steps db)" for s
    proof
      show "(if P s then f s else s) \<in> set (t_steps ?db)" using update_where_mem [OF s] by simp
      show "step_evolves s (if P s then f s else s)" using row s by simp
    qed
    then show "evolves db ?db"
      unfolding evolves_def by (auto intro: run_evolves_refl)
  qed
  ultimately show ?thesis unfolding safe_def by blast
qed

text \<open>Moving a tenant's counter moves its debt.\<close>

lemma safe_update_usage:
  assumes safe: "safe d X db0 db" and f: "\<And>u. usage_tenant_id (f u) = usage_tenant_id u"
    and moved: "\<And>u. u \<in> set (t_usage db) \<Longrightarrow> usage_tenant_id u = tenantId \<Longrightarrow>
      usage_running_steps (f u) = usage_running_steps u + k"
  shows "safe (d(tenantId := d tenantId + k)) X db0
    (db\<lparr>t_usage := update_where (\<lambda>u. usage_tenant_id u = tenantId) f (t_usage db)\<rparr>)"
    (is "safe ?d X db0 ?db")
proof -
  let ?P = "\<lambda>u. usage_tenant_id u = tenantId"
  have "keys_ok ?db" using safe f by (simp add: safe_defs unique_update_where)
  moreover have "graph_ok ?db"
    unfolding graph_ok_def
  proof
    fix s assume "s \<in> set (t_steps ?db)"
    then have "step_placed (t_runs db) (t_usage db) s" using safe by (simp add: safe_defs)
    then obtain u where u: "u \<in> set (t_usage db)" "usage_tenant_id u = step_tenant_id s"
      and runs: "\<exists>r \<in> set (t_runs db). is_run (step_run_id s) (step_tenant_id s) r"
      by (auto simp: step_placed_def)
    have "usage_tenant_id (if ?P u then f u else u) = step_tenant_id s" using u(2) f by simp
    then have "\<exists>u' \<in> set (update_where ?P f (t_usage db)). usage_tenant_id u' = step_tenant_id s"
      using update_where_mem [OF u(1), of ?P f] by blast
    then show "step_placed (t_runs ?db) (t_usage ?db) s"
      using runs by (simp add: step_placed_def)
  qed
  moreover have "slots_ok ?d ?db"
    unfolding slots_ok_def
  proof
    fix u' assume "u' \<in> set (t_usage ?db)"
    then have mem: "u' \<in> set (update_where ?P f (t_usage db))" by simp
    have slot: "usage_running_steps u =
        count_rows (running_in (usage_tenant_id u)) (t_steps db) + d (usage_tenant_id u)"
      if "u \<in> set (t_usage db)" for u using safe that by (simp add: safe_defs)
    from mem show "usage_running_steps u' =
        count_rows (running_in (usage_tenant_id u')) (t_steps ?db) + ?d (usage_tenant_id u')"
    proof (cases rule: update_where_memE)
      case (1 u)
      then show ?thesis using slot [of u] by simp
    next
      case (2 u)
      then show ?thesis using slot [of u] moved [of u] f [of u] by simp
    qed
  qed
  moreover have "outbox_ok ?db" and "live_ok X ?db" and "lease_ok ?db"
    using safe by (simp_all add: safe_def outbox_ok_def live_ok_def lease_ok_def)
  moreover have "evolves db0 ?db"
    using safe by (simp add: safe_def evolves_def)
  ultimately show ?thesis unfolding safe_def by blast
qed

text \<open>Giving a slot back pays one slot of the debt.\<close>

lemma triple_release:
  assumes "1 \<le> d tenantId"
  shows "triple (safe d X db0) (releaseTenantSlot env tenantId)
           (\<lambda>_. safe (d(tenantId := d tenantId - 1)) X db0)"
proof (rule tripleI)
  fix db r db'
  assume safe: "safe d X db0 db" and step: "releaseTenantSlot env tenantId db = Inr (r, db')"
  let ?f = "\<lambda>u. u\<lparr>usage_running_steps := max 0 (usage_running_steps u - 1), usage_updated_at := db_now env\<rparr>"
  have "safe (d(tenantId := d tenantId + - 1)) X db0
    (db\<lparr>t_usage := update_where (\<lambda>u. usage_tenant_id u = tenantId) ?f (t_usage db)\<rparr>)"
  proof (rule safe_update_usage [OF safe])
    fix u assume u: "u \<in> set (t_usage db)" "usage_tenant_id u = tenantId"
    then have "usage_running_steps u = count_rows (running_in tenantId) (t_steps db) + d tenantId"
      using safe by (auto simp: safe_def slots_ok_def)
    moreover have "0 \<le> count_rows (running_in tenantId) (t_steps db)" by simp
    ultimately have "1 \<le> usage_running_steps u" using assms by linarith
    then show "usage_running_steps (?f u) = usage_running_steps u + - 1" by simp
  qed simp
  then show "safe (d(tenantId := d tenantId - 1)) X db0 db'"
    using step by (simp add: releaseTenantSlot_def tx)
qed

section \<open>Runs\<close>

lemma safe_update_runs:
  assumes safe: "safe d X db0 db"
    and row: "\<And>r. r \<in> set (t_runs db) \<Longrightarrow> P r \<Longrightarrow> run_evolves r (f r) \<and>
        (run_state r = R_RUNNING \<longrightarrow> run_state (f r) = R_RUNNING \<or> run_id r \<in> X)"
  shows "safe d X db0 (db\<lparr>t_runs := update_where P f (t_runs db)\<rparr>)" (is "safe d X db0 ?db")
proof -
  have same: "run_id (f r) = run_id r \<and> run_tenant_id (f r) = run_tenant_id r"
    if "r \<in> set (t_runs db)" "P r" for r
    using row [OF that] by (simp add: run_evolves_def)
  have ids: "map run_id (update_where P f (t_runs db)) = map run_id (t_runs db)"
    using same by (simp add: update_where_def)
  have next_row: "\<exists>r' \<in> set (t_runs ?db). run_evolves r r' \<and>
      (run_state r = R_RUNNING \<longrightarrow> run_state r' = R_RUNNING \<or> run_id r \<in> X)"
    if r: "r \<in> set (t_runs db)" for r
  proof
    show "(if P r then f r else r) \<in> set (t_runs ?db)" using update_where_mem [OF r] by simp
    show "run_evolves r (if P r then f r else r) \<and>
      (run_state r = R_RUNNING \<longrightarrow> run_state (if P r then f r else r) = R_RUNNING \<or> run_id r \<in> X)"
      using row r by simp
  qed
  have "keys_ok ?db" using safe ids by (simp add: safe_defs unique_key_def)
  moreover have "outbox_ok ?db" and "slots_ok d ?db" and "lease_ok ?db"
    using safe by (simp_all add: safe_defs)
  moreover have "graph_ok ?db"
    unfolding graph_ok_def
  proof
    fix s assume "s \<in> set (t_steps ?db)"
    then have "step_placed (t_runs db) (t_usage db) s" using safe by (simp add: safe_defs)
    then show "step_placed (t_runs ?db) (t_usage ?db) s"
      using next_row unfolding step_placed_def is_run_def run_evolves_def by (simp, metis)
  qed
  moreover have "live_ok X ?db"
    unfolding live_ok_def
  proof (intro ballI impI)
    fix s assume "s \<in> set (t_steps ?db)" and "step_state s = S_RUNNING"
    then have "live_run X (t_runs db) s" using safe by (simp add: safe_defs)
    then show "live_run X (t_runs ?db) s"
      using next_row unfolding live_run_def run_evolves_def by metis
  qed
  moreover have "evolves db0 ?db"
  proof (rule evolves_trans)
    show "evolves db0 db" using safe by (simp add: safe_def)
    show "evolves db ?db"
      using next_row unfolding evolves_def by (auto intro: step_evolves_refl)
  qed
  ultimately show ?thesis unfolding safe_def by blast
qed

section \<open>Effects do not matter here\<close>

lemma safe_update_effects [frame]: "keeps (safe d X db0) (update_effects P f)"
  by (intro keeps_safe_core frame) (simp add: core_def)

lemma safe_parkOrphanAdmittedEffects [frame]:
  "keeps (safe d X db0) (parkOrphanAdmittedEffects env stepId tenantId runId reason actor)"
  unfolding parkOrphanAdmittedEffects_def Let_def by (intro frame)

section \<open>Closing the steps of a run\<close>

lemma step_open_cancellable: "step_open s \<Longrightarrow> S_CANCELLED \<in> set (STEP_TRANSITIONS s)"
  by (cases s) (simp_all add: step_open_def)

text \<open>The slots still to be given back while the cancelled rows are processed.\<close>

definition owed :: "string \<Rightarrow> (string \<times> step_state) list \<Rightarrow> step_row list \<Rightarrow> string \<Rightarrow> int" where
  "owed tenantId previous rows = (\<lambda>t. if t = tenantId
     then count_rows (\<lambda>row. map_of previous (step_id row) = Some S_RUNNING) rows else 0)"

lemma owed_Nil [simp]: "owed tenantId previous [] = no_debt"
  by (auto simp: owed_def)

lemma owed_nonneg [simp]: "0 \<le> owed tenantId previous rows t"
  by (simp add: owed_def)

lemma map_of_step_states:
  assumes "unique_key step_id rows" and "s \<in> set rows" and "Q s"
  shows "map_of (map (\<lambda>s. (step_id s, step_state s)) (filter Q rows)) (step_id s) = Some (step_state s)"
proof (rule map_of_is_SomeI)
  have "distinct (map step_id (filter Q rows))"
    using assms(1) by (simp add: unique_key_def distinct_map_filter)
  then show "distinct (map fst (map (\<lambda>s. (step_id s, step_state s)) (filter Q rows)))"
    by (simp add: comp_def)
  show "(step_id s, step_state s) \<in> set (map (\<lambda>s. (step_id s, step_state s)) (filter Q rows))"
    using assms by auto
qed

text \<open>With its steps closed, a run that has ended needs no exemption.\<close>

lemma safe_drop_run:
  assumes "safe d X db0 db" and "\<And>s. s \<in> set (t_steps db) \<Longrightarrow> step_run_id s = runId \<Longrightarrow> step_state s \<noteq> S_RUNNING"
  shows "safe d (X - {runId}) db0 db"
  using assms unfolding safe_defs live_run_def by blast

lemma run_has_one_tenant:
  assumes "safe d X db0 db" and "r \<in> set (t_runs db)" and "is_run runId tenantId r"
    and "s \<in> set (t_steps db)" and "step_run_id s = runId"
  shows "step_tenant_id s = tenantId"
proof -
  obtain r' where "r' \<in> set (t_runs db)" "is_run (step_run_id s) (step_tenant_id s) r'"
    using assms(1,4) unfolding safe_defs step_placed_def by blast
  moreover have "unique_key run_id (t_runs db)" using assms(1) by (simp add: safe_defs)
  ultimately show ?thesis using assms unique_key_inj [of run_id] unfolding is_run_def by metis
qed

definition closed :: "string \<Rightarrow> kernel_db \<Rightarrow> bool" where
  "closed runId db \<longleftrightarrow> (\<forall>s \<in> set (t_steps db). step_run_id s = runId \<longrightarrow> step_state s \<noteq> S_RUNNING)"

lemma safe_closed: "safe d X db0 db \<Longrightarrow> closed runId db \<Longrightarrow> safe d (X - {runId}) db0 db"
  by (rule safe_drop_run) (auto simp: closed_def)

lemma triple_cancelled_row:
  "triple (safe (\<lambda>t. d t + owed tenantId previous (row # rows) t) X db0)
     (bind_tx (when_tx (map_of previous (step_id row) = Some S_RUNNING) (releaseTenantSlot env tenantId)) (\<lambda>_.
      bind_tx (parkOrphanAdmittedEffects env (step_id row) (step_tenant_id row) (step_run_id row) reason actor)
        (\<lambda>_. appendEvent env event)))
     (\<lambda>_. safe (\<lambda>t. d t + owed tenantId previous rows t) X db0)"
  if "debt d"
proof (rule triple_bind)
  show "triple (safe (\<lambda>t. d t + owed tenantId previous (row # rows) t) X db0)
     (when_tx (map_of previous (step_id row) = Some S_RUNNING) (releaseTenantSlot env tenantId))
     (\<lambda>_. safe (\<lambda>t. d t + owed tenantId previous rows t) X db0)"
  proof (rule triple_when)
    assume running: "map_of previous (step_id row) = Some S_RUNNING"
    let ?d = "\<lambda>t. d t + owed tenantId previous (row # rows) t"
    have "1 \<le> ?d tenantId" using running that by (simp add: owed_def debt_def)
    then have "triple (safe ?d X db0) (releaseTenantSlot env tenantId)
        (\<lambda>_. safe (?d(tenantId := ?d tenantId - 1)) X db0)"
      by (rule triple_release)
    moreover have "?d(tenantId := ?d tenantId - 1) = (\<lambda>t. d t + owed tenantId previous rows t)"
      using running by (auto simp: owed_def)
    ultimately show "triple (safe ?d X db0) (releaseTenantSlot env tenantId)
        (\<lambda>_. safe (\<lambda>t. d t + owed tenantId previous rows t) X db0)" by simp
  next
    fix db assume "map_of previous (step_id row) \<noteq> Some S_RUNNING"
      and "safe (\<lambda>t. d t + owed tenantId previous (row # rows) t) X db0 db"
    moreover from this(1) have "owed tenantId previous (row # rows) = owed tenantId previous rows"
      by (auto simp: owed_def)
    ultimately show "safe (\<lambda>t. d t + owed tenantId previous rows t) X db0 db" by simp
  qed
  show "triple (safe (\<lambda>t. d t + owed tenantId previous rows t) X db0)
      (bind_tx (parkOrphanAdmittedEffects env (step_id row) (step_tenant_id row) (step_run_id row) reason actor)
        (\<lambda>_. appendEvent env event))
      (\<lambda>_. safe (\<lambda>t. d t + owed tenantId previous rows t) X db0)" for x :: unit
    unfolding keeps_triple [symmetric] by (intro frame)
qed

text \<open>Cancelling every open step of a run: what the update leaves to be given back.\<close>

definition step_states_of :: "string \<Rightarrow> string \<Rightarrow> kernel_db \<Rightarrow> (string \<times> step_state) list" where
  "step_states_of runId tenantId db =
     map (\<lambda>s. (step_id s, step_state s)) (filter (in_run runId tenantId) (t_steps db))"

lemma lockStepStates_Inr [tx]: "lockStepStates runId tenantId db = Inr (r, db') \<longleftrightarrow>
    r = step_states_of runId tenantId db \<and> db' = db"
  by (auto simp: lockStepStates_def step_states_of_def tx)

lemma cancelled_debt:
  assumes keys: "unique_key step_id (t_steps db)" and previous: "previous = step_states_of runId tenantId db"
    and f: "\<And>s. P s \<Longrightarrow> step_state (f s) \<noteq> S_RUNNING \<and> step_id (f s) = step_id s"
    and P: "P = (\<lambda>s. in_run runId tenantId s \<and> step_open (step_state s))"
  shows "count_rows (\<lambda>s. P s \<and> running_in t s) (t_steps db) - count_rows (\<lambda>s. P s \<and> running_in t (f s)) (t_steps db)
     = owed tenantId previous (updated_rows P f (t_steps db)) t"
proof -
  have "count_rows (\<lambda>s. P s \<and> running_in t (f s)) (t_steps db) = 0"
    using f by (auto simp: count_rows_zero running_in_def)
  moreover have "count_rows (\<lambda>s. P s \<and> running_in t s) (t_steps db) =
      owed tenantId previous (updated_rows P f (t_steps db)) t"
  proof (cases "t = tenantId")
    case True
    have "(P s \<and> running_in t s) = (P s \<and> map_of previous (step_id (f s)) = Some S_RUNNING)"
      if "s \<in> set (t_steps db)" for s
      using map_of_step_states [OF keys that, of "in_run runId tenantId"] True f [of s]
      by (auto simp: running_in_def in_run_def previous step_states_of_def P)
    then have "count_rows (\<lambda>s. P s \<and> running_in t s) (t_steps db) =
        count_rows (\<lambda>s. P s \<and> map_of previous (step_id (f s)) = Some S_RUNNING) (t_steps db)"
      by (rule count_rows_cong)
    then show ?thesis using True by (simp add: owed_def count_updated_rows)
  next
    case False
    then show ?thesis by (simp add: owed_def count_rows_zero running_in_def in_run_def P)
  qed
  ultimately show ?thesis by simp
qed

lemma closed_update:
  assumes safe: "safe d X db0 db" and run: "exists_row (is_run runId tenantId) (t_runs db)"
    and P: "\<And>s. in_run runId tenantId s \<Longrightarrow> step_state s = S_RUNNING \<Longrightarrow> P s"
    and f: "\<And>s. P s \<Longrightarrow> step_state (f s) \<noteq> S_RUNNING"
  shows "closed runId (db\<lparr>t_steps := update_where P f (t_steps db)\<rparr>)" (is "closed runId ?db")
  unfolding closed_def
proof (intro ballI impI)
  fix s' assume "s' \<in> set (t_steps ?db)" and at: "step_run_id s' = runId"
  then have "s' \<in> set (update_where P f (t_steps db))" by simp
  then show "step_state s' \<noteq> S_RUNNING"
  proof (cases rule: update_where_memE)
    case (1 s)
    obtain q where "q \<in> set (t_runs db)" "is_run runId tenantId q" using run by auto
    then have "in_run runId tenantId s"
      using run_has_one_tenant [OF safe] 1 at by (auto simp: in_run_def)
    with 1 P show ?thesis by blast
  next
    case (2 s)
    then show ?thesis using f by blast
  qed
qed

lemma triple_cancel_rows:
  assumes f: "\<And>s. step_open (step_state s) \<Longrightarrow>
      step_evolves s (f s) \<and> lease_matches (f s) \<and> step_state (f s) = S_CANCELLED"
  shows "triple (\<lambda>db. safe d X db0 db \<and> exists_row (is_run runId tenantId) (t_runs db) \<and>
       previous = step_states_of runId tenantId db)
     (update_steps (\<lambda>s. in_run runId tenantId s \<and> step_open (step_state s)) f)
     (\<lambda>rows db. safe (\<lambda>t. d t + owed tenantId previous rows t) (X - {runId}) db0 db \<and> closed runId db)"
    (is "triple ?pre (update_steps ?P f) ?post")
proof (rule tripleI)
  fix db rows db'
  assume pre: "?pre db" and step: "update_steps ?P f db = Inr (rows, db')"
  then have rows: "rows = updated_rows ?P f (t_steps db)"
    and db': "db' = db\<lparr>t_steps := update_where ?P f (t_steps db)\<rparr>" by (simp_all add: tx)
  have safe: "safe d X db0 db" using pre by simp
  have fP: "step_evolves s (f s) \<and> lease_matches (f s) \<and> step_state (f s) = S_CANCELLED" if "?P s" for s
    using f that by blast
  have keys: "unique_key step_id (t_steps db)" using safe by (simp add: safe_defs)
  have "count_rows (\<lambda>s. ?P s \<and> running_in t s) (t_steps db) - count_rows (\<lambda>s. ?P s \<and> running_in t (f s)) (t_steps db)
     = owed tenantId previous rows t" for t
    unfolding rows
    by (rule cancelled_debt [OF keys _ _ refl]) (use pre fP in \<open>simp_all add: step_evolves_def\<close>)
  then have debt: "(\<lambda>t. d t + count_rows (\<lambda>s. ?P s \<and> running_in t s) (t_steps db)
      - count_rows (\<lambda>s. ?P s \<and> running_in t (f s)) (t_steps db)) = (\<lambda>t. d t + owed tenantId previous rows t)"
    by (simp add: add_diff_eq [symmetric])
  have "safe (\<lambda>t. d t + owed tenantId previous rows t) X db0 db'"
    unfolding db' debt [symmetric] by (rule safe_update_steps [OF safe]) (use fP in auto)
  moreover have "closed runId db'"
    unfolding db' by (rule closed_update [OF safe]) (use pre fP in \<open>auto simp: step_open_def\<close>)
  ultimately show "?post rows db'" using safe_closed by blast
qed

text \<open>A loop over the cancelled rows.\<close>

lemma triple_cancelled_loop:
  assumes d: "debt d" and step: "\<And>row. body row =
     bind_tx (when_tx (map_of previous (step_id row) = Some S_RUNNING) (releaseTenantSlot env tenantId)) (\<lambda>_.
     bind_tx (parkOrphanAdmittedEffects env (step_id row) (step_tenant_id row) (step_run_id row) reason actor)
       (\<lambda>_. appendEvent env (event row)))"
  shows "triple (\<lambda>db. safe (\<lambda>t. d t + owed tenantId previous rows t) X db0 db \<and> closed runId db)
     (forM_tx rows body) (\<lambda>_ db. safe d X db0 db \<and> closed runId db)"
proof (rule tripleI)
  fix db r db'
  assume pre: "safe (\<lambda>t. d t + owed tenantId previous rows t) X db0 db \<and> closed runId db"
    and work: "forM_tx rows body db = Inr (r, db')"
  have still: "unchanged t_steps (forM_tx rows body)" unfolding step by (intro frame) simp_all
  have "t_steps db' = t_steps db" by (rule unchangedD [OF still work])
  then have "closed runId db'" using pre by (simp add: closed_def)
  moreover have "triple (\<lambda>s. safe (\<lambda>t. d t + owed tenantId previous rows t) X db0 s)
      (forM_tx rows body) (\<lambda>_ s. safe (\<lambda>t. d t + owed tenantId previous [] t) X db0 s)"
    by (rule triple_forM [where I = "\<lambda>rows s. safe (\<lambda>t. d t + owed tenantId previous rows t) X db0 s"])
      (unfold step, rule triple_cancelled_row [OF d])
  then have "safe d X db0 db'" using pre work by (auto dest: tripleD)
  ultimately show "safe d X db0 db' \<and> closed runId db'" by simp
qed

lemma keeps_cancel_checks:
  "keeps P (forM_tx previous (\<lambda>(_, state). when_tx (step_open state) (assertStepTransition state S_CANCELLED)))"
  by (intro frame)

lemma triple_cancelOpenSteps:
  assumes d: "debt d"
  shows "triple (\<lambda>db. safe d X db0 db \<and> exists_row (is_run runId tenantId) (t_runs db))
           (cancelOpenStepsForTerminalRun env runId tenantId actor reason)
           (\<lambda>_ db. safe d (X - {runId}) db0 db \<and> closed runId db)"
proof -
  have lock: "triple (\<lambda>db. safe d X db0 db \<and> exists_row (is_run runId tenantId) (t_runs db)) (lockStepStates runId tenantId)
     (\<lambda>previous db. safe d X db0 db \<and> exists_row (is_run runId tenantId) (t_runs db) \<and>
       previous = step_states_of runId tenantId db)"
    by (simp add: triple_def tx)
  show ?thesis
    unfolding cancelOpenStepsForTerminalRun_def Let_def
    by (intro triple_bind [OF lock] triple_bind [OF keeps_cancel_checks [unfolded keeps_triple]]
        triple_bind [OF triple_cancel_rows] triple_cancelled_loop [OF d])
      (auto simp: step_evolves_def lease_matches_def step_open_cancellable intro!: step_path_step)
qed

section \<open>Ending or compensating a run\<close>

text \<open>Moving the one row of a run along its table; its steps may have to be closed after.\<close>

lemma safe_move_run:
  assumes safe: "safe d X db0 db" and q: "first_row (is_run runId tenantId) (t_runs db) = Some q"
    and valid: "target \<in> set (RUN_TRANSITIONS (run_state q))"
    and P: "\<And>r. P r \<Longrightarrow> is_run runId tenantId r"
    and f: "\<And>r. run_id (f r) = run_id r \<and> run_tenant_id (f r) = run_tenant_id r \<and>
      run_state (f r) = target \<and> run_version r \<le> run_version (f r)"
  shows "safe d (insert runId X) db0 (db\<lparr>t_runs := update_where P f (t_runs db)\<rparr>)"
proof (rule safe_update_runs)
  show "safe d (insert runId X) db0 db" using safe by (rule safe_weaken) blast
  fix r assume "r \<in> set (t_runs db)" and "P r"
  moreover have "unique_key run_id (t_runs db)" using safe by (simp add: safe_defs)
  ultimately have "r = q"
    using unique_key_inj [of run_id "t_runs db" r q] P first_row_Some [OF q] by (simp add: is_run_def)
  then show "run_evolves r (f r) \<and>
      (run_state r = R_RUNNING \<longrightarrow> run_state (f r) = R_RUNNING \<or> run_id r \<in> insert runId X)"
    using f [of r] valid P [OF \<open>P r\<close>] by (simp add: run_evolves_def run_path_step is_run_def)
qed

lemma safe_end_run:
  assumes "safe d X db0 db" and "closed runId db" and "first_row (is_run runId tenantId) (t_runs db) = Some q"
    and "target \<in> set (RUN_TRANSITIONS (run_state q))" and "\<And>r. P r \<Longrightarrow> is_run runId tenantId r"
    and "\<And>r. run_id (f r) = run_id r \<and> run_tenant_id (f r) = run_tenant_id r \<and>
      run_state (f r) = target \<and> run_version r \<le> run_version (f r)"
  shows "safe d X db0 (db\<lparr>t_runs := update_where P f (t_runs db)\<rparr>)"
proof -
  have "safe d (insert runId X - {runId}) db0 (db\<lparr>t_runs := update_where P f (t_runs db)\<rparr>)"
    by (rule safe_closed, rule safe_move_run [OF assms(1,3,4,5,6)]) (use assms(2) in \<open>simp_all add: closed_def\<close>)
  then show ?thesis by (rule safe_weaken) blast
qed

lemma closed_cong: "t_steps db' = t_steps db \<Longrightarrow> closed runId db' = closed runId db"
  by (simp add: closed_def)

lemma runs_cancelOpenSteps:
  "unchanged t_runs (cancelOpenStepsForTerminalRun env runId tenantId actor reason)"
  by (intro frame) simp_all

lemma runs_appendEvent: "unchanged t_runs (appendEvent env event)"
  by (intro frame) simp

lemma runs_appendEventKeyed: "unchanged t_runs (appendEventKeyed env event key)"
  by (intro frame) simp

text \<open>A step that is done or skipped is not running: a finished run has no open slot.\<close>

lemma all_done_closed:
  assumes safe: "safe d X db0 db" and run: "r \<in> set (t_runs db)" "is_run runId tenantId r"
    and finished: "list_all (\<lambda>s. s \<in> {S_SUCCEEDED, S_SKIPPED}) (map step_state (filter (in_run runId tenantId) (t_steps db)))"
  shows "closed runId db"
  unfolding closed_def
proof (intro ballI impI)
  fix s assume s: "s \<in> set (t_steps db)" "step_run_id s = runId"
  then have "in_run runId tenantId s" using run_has_one_tenant [OF safe run] by (simp add: in_run_def)
  with s have "s \<in> set (filter (in_run runId tenantId) (t_steps db))" by simp
  then have "step_state s \<in> {S_SUCCEEDED, S_SKIPPED}"
    using finished unfolding list_all_iff by (metis imageI set_map)
  then show "step_state s \<noteq> S_RUNNING" by auto
qed

lemma keeps_safe_finishRun [frame]:
  assumes d: "debt d"
  shows "keeps (safe d X db0) (finishRunIfTerminal env runId tenantId actor)"
  unfolding keeps_def
proof (intro allI impI)
  fix db r db'
  assume safe: "safe d X db0 db" and step: "finishRunIfTerminal env runId tenantId actor db = Inr (r, db')"
  let ?states = "map step_state (filter (in_run runId tenantId) (t_steps db))"
  let ?P = "\<lambda>r. is_run runId tenantId r \<and> run_state r \<notin> {R_FAILED, R_SUCCEEDED}"
  let ?f = "\<lambda>target r. r\<lparr>run_state := target, run_version := run_version r + 1,
                     run_updated_at := db_now env, run_terminal_at := Some (db_now env)\<rparr>"
  define moved where "moved target db1 = db1\<lparr>t_runs := update_where ?P (?f target) (t_runs db1)\<rparr>" for target and db1 :: kernel_db
  define announce where "announce name rows = (case rows of [] \<Rightarrow> return_tx ()
     | row # _ \<Rightarrow> appendEvent env (kernel_event ''run'' runId (run_version row) name tenantId runId None actor []))"
    for name and rows :: "run_row list"
  have announce: "keeps (safe d X db0) (announce name rows)" for name rows
    unfolding announce_def by (intro frame)
  show "safe d X db0 db'"
  proof (cases "first_row (is_run runId tenantId) (t_runs db)")
    case None
    then show ?thesis using safe step by (simp add: finishRunIfTerminal_def lockRunState_def tx)
  next
    case (Some r0)
    note r0 = first_row_Some [OF Some]
    consider "db' = db"
      | (failed) x db1 where "R_FAILED \<in> set (RUN_TRANSITIONS (run_state r0))"
          "cancelOpenStepsForTerminalRun env runId tenantId actor ''run_failed'' db = Inr (x, db1)"
          "announce ''run.failed'' (updated_rows ?P (?f R_FAILED) (t_runs db1)) (moved R_FAILED db1) = Inr (r, db')"
      | (finished) "R_SUCCEEDED \<in> set (RUN_TRANSITIONS (run_state r0))"
          "list_all (\<lambda>s. s \<in> {S_SUCCEEDED, S_SKIPPED}) ?states"
          "announce ''run.succeeded'' (updated_rows ?P (?f R_SUCCEEDED) (t_runs db)) (moved R_SUCCEEDED db) = Inr (r, db')"
      using step Some
      by (auto simp: finishRunIfTerminal_def lockRunState_def tx Let_def moved_def announce_def split: if_splits)
    then show ?thesis
    proof cases
      case 1
      then show ?thesis using safe by simp
    next
      case failed
      have pre: "safe d X db0 db \<and> exists_row (is_run runId tenantId) (t_runs db)" using safe r0 by auto
      have runs: "t_runs db1 = t_runs db"
        by (rule unchangedD [OF runs_cancelOpenSteps failed(2)])
      have "safe d (X - {runId}) db0 db1 \<and> closed runId db1"
        using tripleD [OF triple_cancelOpenSteps [OF d] pre failed(2)] .
      then have "safe d X db0 db1" and "closed runId db1" by (auto intro: safe_weaken)
      then have "safe d X db0 (moved R_FAILED db1)"
        unfolding moved_def using Some failed(1) runs
        by (intro safe_end_run [where q = r0 and target = R_FAILED]) auto
      then show ?thesis using keepsD [OF announce _ failed(3)] by blast
    next
      case finished
      have "closed runId db" using all_done_closed [OF safe _ _ finished(2)] r0 by blast
      then have "safe d X db0 (moved R_SUCCEEDED db)"
        unfolding moved_def using safe Some finished(1)
        by (intro safe_end_run [where q = r0 and target = R_SUCCEEDED]) auto
      then show ?thesis using keepsD [OF announce _ finished(3)] by blast
    qed
  qed
qed

text \<open>The same closing when the run may be exempt from the start.\<close>

lemma triple_close_run:
  assumes "debt d"
  shows "triple (\<lambda>db. safe d (insert runId X) db0 db \<and> exists_row (is_run runId tenantId) (t_runs db))
           (cancelOpenStepsForTerminalRun env runId tenantId actor reason) (\<lambda>_. safe d X db0)"
  by (rule triple_post [OF triple_cancelOpenSteps [OF assms]]) (auto intro: safe_weaken)

lemma safe_insert: "safe d X db0 db \<Longrightarrow> safe d (insert r X) db0 db"
  by (rule safe_weaken) blast+

lemma exists_run_update:
  assumes "exists_row (is_run runId tenantId) rows" and "\<And>r. run_id (f r) = run_id r \<and> run_tenant_id (f r) = run_tenant_id r"
  shows "exists_row (is_run runId tenantId) (update_where P f rows)"
proof -
  obtain r where r: "r \<in> set rows" "is_run runId tenantId r" using assms(1) by auto
  have "is_run runId tenantId (if P r then f r else r)" using r(2) assms(2) by (simp add: is_run_def)
  then show ?thesis using update_where_mem [OF r(1), of P f] by (simp only: exists_row_iff) blast
qed

lemma keeps_with_runs:
  assumes "keeps (safe d X db0) m" and "unchanged t_runs m"
  shows "triple (\<lambda>db. safe d X db0 db \<and> exists_row (is_run runId tenantId) (t_runs db)) m
           (\<lambda>_ db. safe d X db0 db \<and> exists_row (is_run runId tenantId) (t_runs db))"
  using assms unfolding triple_def keeps_def unchanged_def by metis

lemma triple_announceCompensation:
  assumes d: "debt d" and run: "is_run runId tenantId run"
  shows "triple (\<lambda>db. safe d (insert runId X) db0 db \<and> exists_row (is_run runId tenantId) (t_runs db))
           (announceCompensation env stepId epoch actor ids (run # rest)) (\<lambda>_. safe d X db0)"
proof -
  have run: "run_id run = runId" "run_tenant_id run = tenantId" using run by (simp_all add: is_run_def)
  show ?thesis
    unfolding announceCompensation_def list.case Let_def run
    by (intro triple_bind [OF keeps_with_runs] triple_bind [OF triple_close_run [OF d]] triple_return
        runs_appendEvent runs_appendEventKeyed safe_appendEvent safe_appendEventKeyed)
qed

lemma triple_move_to_compensating:
  assumes d: "debt d"
  shows "triple (\<lambda>db. safe d X db0 db \<and> first_row (is_run runId tenantId) (t_runs db) = Some r0 \<and>
        R_COMPENSATING \<in> set (RUN_TRANSITIONS (run_state r0)))
     (bind_tx (update_runs (\<lambda>r. is_run runId tenantId r \<and> run_state r = run_state r0)
         (\<lambda>r. r\<lparr>run_state := R_COMPENSATING, run_version := run_version r + 1, run_updated_at := at\<rparr>))
       (announceCompensation env stepId epoch actor ids)) (\<lambda>_. safe d X db0)"
    (is "triple ?pre (bind_tx (update_runs ?P ?f) ?rest) _")
proof (rule triple_bind)
  show "triple ?pre (update_runs ?P ?f) (\<lambda>rows db. safe d (insert runId X) db0 db \<and>
      exists_row (is_run runId tenantId) (t_runs db) \<and> (\<exists>run rest. rows = run # rest \<and> is_run runId tenantId run))"
  proof (rule tripleI)
    fix db rows db' assume pre: "?pre db" and step: "update_runs ?P ?f db = Inr (rows, db')"
    then have rows: "rows = updated_rows ?P ?f (t_runs db)" and db': "db' = db\<lparr>t_runs := update_where ?P ?f (t_runs db)\<rparr>"
      by (simp_all add: tx)
    have r0: "r0 \<in> set (t_runs db)" "is_run runId tenantId r0" using first_row_Some [of "is_run runId tenantId" "t_runs db" r0] pre by simp_all
    have "safe d (insert runId X) db0 db'"
      unfolding db' using pre by (intro safe_move_run [where q = r0 and target = R_COMPENSATING]) auto
    moreover have "exists_row (is_run runId tenantId) (t_runs db)" using r0 by auto
    then have "exists_row (is_run runId tenantId) (update_where ?P ?f (t_runs db))"
      by (rule exists_run_update) simp
    then have "exists_row (is_run runId tenantId) (t_runs db')" unfolding db' by simp
    moreover have "rows \<noteq> []" using r0 by (auto simp: rows updated_rows_Nil_iff)
    moreover have "is_run runId tenantId run" if "run \<in> set rows" for run
      using that by (auto simp: rows updated_rows_mem is_run_def)
    ultimately show "safe d (insert runId X) db0 db' \<and> exists_row (is_run runId tenantId) (t_runs db') \<and>
        (\<exists>run rest. rows = run # rest \<and> is_run runId tenantId run)"
      by (cases rows) auto
  qed
next
  fix rows
  show "triple (\<lambda>db. safe d (insert runId X) db0 db \<and> exists_row (is_run runId tenantId) (t_runs db) \<and>
      (\<exists>run rest. rows = run # rest \<and> is_run runId tenantId run)) (?rest rows) (\<lambda>_. safe d X db0)"
    using triple_announceCompensation [OF d] unfolding triple_def by blast
qed

lemma keeps_safe_requestCompensation [frame]:
  assumes d: "debt d"
  shows "keeps (safe d X db0) (requestCompensationIfNeeded env stepId tenantId runId epoch actor at)"
  unfolding keeps_def
proof (intro allI impI)
  fix db r db'
  assume safe: "safe d X db0 db"
    and step: "requestCompensationIfNeeded env stepId tenantId runId epoch actor at db = Inr (r, db')"
  let ?move = "\<lambda>r0 ids. bind_tx (update_runs (\<lambda>r. is_run runId tenantId r \<and> run_state r = run_state r0)
         (\<lambda>r. r\<lparr>run_state := R_COMPENSATING, run_version := run_version r + 1, run_updated_at := at\<rparr>))
       (announceCompensation env stepId epoch actor ids)"
  consider "db' = db"
    | (again) r0 where "first_row (is_run runId tenantId) (t_runs db) = Some r0"
        "cancelOpenStepsForTerminalRun env runId tenantId actor ''run_compensating'' db = Inr ((), db')"
    | (moves) r0 ids where "first_row (is_run runId tenantId) (t_runs db) = Some r0"
        "R_COMPENSATING \<in> set (RUN_TRANSITIONS (run_state r0))" "?move r0 ids db = Inr (r, db')"
    using step unfolding requestCompensationIfNeeded_def lockRunState_def Let_def
    by (auto simp: bind_tx_Inr [of "query_tx q" for q] bind_tx_Inr [of "assertRunTransition a b" for a b]
        bind_tx_Inr [of "cancelOpenStepsForTerminalRun a b c d e" for a b c d e] query_tx_Inr return_tx_Inr
        assertRunTransition_Inr comp_def split: if_splits option.splits)
  then show "safe d X db0 db'"
  proof cases
    case 1
    then show ?thesis using safe by simp
  next
    case again
    have pre: "safe d X db0 db \<and> exists_row (is_run runId tenantId) (t_runs db)"
      using safe first_row_Some [OF again(1)] by auto
    then show ?thesis using tripleD [OF triple_cancelOpenSteps [OF d] pre again(2)] by (auto intro: safe_weaken)
  next
    case moves
    show ?thesis by (rule tripleD [OF triple_move_to_compensating [OF d] _ moves(3)]) (use safe moves in simp)
  qed
qed

end
