(* ===== verification/Kernel_Runs.thy ===== *)
theory Kernel_Runs
  imports Kernel_Safety
begin

text \<open>
  Creating and reading runs: \<open>assertGraph\<close>, \<open>createRun\<close>, \<open>setTenantConcurrencyLimit\<close>,
  \<open>getRun\<close>, \<open>listRuns\<close> and \<open>getStep\<close> of \<open>postgres.ts\<close>.
\<close>

section \<open>Commands\<close>

datatype initial_state = Initial_PENDING | Initial_WAITING_FOR_HUMAN

fun initial_step_state :: "initial_state option \<Rightarrow> step_state" where
  "initial_step_state None = S_PENDING"
| "initial_step_state (Some Initial_PENDING) = S_PENDING"
| "initial_step_state (Some Initial_WAITING_FOR_HUMAN) = S_WAITING_FOR_HUMAN"

record new_interaction =
  ni_id :: string
  ni_prompt :: string
  ni_expiresAt :: "time option"

record new_step =
  ns_id :: string
  ns_kind :: string
  ns_initialState :: "initial_state option"
  ns_interaction :: "new_interaction option"
  ns_input :: "json option"
  ns_dependencies :: "string list option"
  ns_priority :: "int option"
  ns_maxAttempts :: "int option"
  ns_scheduledAt :: "time option"

record create_run =
  cr_id :: string
  cr_tenantId :: string
  cr_intentHash :: string
  cr_workGraphHash :: string
  cr_workGraphVersion :: string
  cr_policySnapshotId :: string
  cr_metadata :: "json option"
  cr_steps :: "new_step list"

definition or_else :: "'a option \<Rightarrow> 'a \<Rightarrow> 'a" where
  "or_else x d = (case x of None \<Rightarrow> d | Some a \<Rightarrow> a)"

lemma or_else_simps [simp]: "or_else None d = d" "or_else (Some a) d = a"
  by (simp_all add: or_else_def)

section \<open>The graph check\<close>

text \<open>The first loop: the identifiers, unless one repeats.\<close>

fun collectStepIds :: "new_step list \<Rightarrow> string list \<Rightarrow> kernel_error + string list" where
  "collectStepIds [] ids = Inr ids"
| "collectStepIds (step # steps) ids =
     (if ns_id step \<in> set ids then Inl (KernelInvariantError DUPLICATE_STEP)
      else collectStepIds steps (ids @ [ns_id step]))"

definition assertGraph :: "create_run \<Rightarrow> (kernel_db, unit) tx" where
  "assertGraph command =
     (case collectStepIds (cr_steps command) [] of
        Inl e \<Rightarrow> throw_tx e
      | Inr ids \<Rightarrow>
          if list_ex (\<lambda>step. list_ex (\<lambda>dependency. dependency \<notin> set ids)
               (or_else (ns_dependencies step) [])) (cr_steps command)
          then throw_tx (KernelInvariantError INVALID_GRAPH) else return_tx ())"

lemma collectStepIds_Inr: "collectStepIds steps ids = Inr out \<longleftrightarrow>
    out = ids @ map ns_id steps \<and> distinct (map ns_id steps) \<and> set ids \<inter> ns_id ` set steps = {}"
  by (induction steps ids rule: collectStepIds.induct) auto

lemma collectStepIds_Inl: "collectStepIds steps ids = Inl e \<longleftrightarrow> e = KernelInvariantError DUPLICATE_STEP \<and>
    \<not> (distinct (map ns_id steps) \<and> set ids \<inter> ns_id ` set steps = {})"
  by (induction steps ids rule: collectStepIds.induct) auto

text \<open>Accepted graphs: distinct steps whose dependencies are steps of the graph.\<close>

lemma assertGraph_Inr [tx]: "assertGraph command db = Inr (r, db') \<longleftrightarrow> db' = db \<and>
    distinct (map ns_id (cr_steps command)) \<and>
    (\<forall>step \<in> set (cr_steps command). \<forall>d \<in> set (or_else (ns_dependencies step) []).
       d \<in> ns_id ` set (cr_steps command))"
  by (auto simp: assertGraph_def collectStepIds_Inr collectStepIds_Inl tx list_ex_iff split: sum.splits)

section \<open>Creating a run\<close>

definition insert_run :: "run_row \<Rightarrow> unit ktx" where
  "insert_run row = (\<lambda>db. if exists_row (\<lambda>r. run_id r = run_id row) (t_runs db)
     then Inl (UniqueViolation ''commander_runs_pkey'')
     else Inr ((), db\<lparr>t_runs := t_runs db @ [row]\<rparr>))"

definition insert_step :: "step_row \<Rightarrow> unit ktx" where
  "insert_step row = (\<lambda>db. if exists_row (\<lambda>s. step_id s = step_id row) (t_steps db)
     then Inl (UniqueViolation ''commander_steps_pkey'')
     else Inr ((), db\<lparr>t_steps := t_steps db @ [row]\<rparr>))"

definition insert_interaction :: "interaction_row \<Rightarrow> unit ktx" where
  "insert_interaction row = (\<lambda>db. if exists_row (\<lambda>i. interaction_id i = interaction_id row) (t_interactions db)
     then Inl (UniqueViolation ''commander_interactions_pkey'')
     else Inr ((), db\<lparr>t_interactions := t_interactions db @ [row]\<rparr>))"

definition ensure_usage :: "kernel_env \<Rightarrow> string \<Rightarrow> unit ktx" where
  "ensure_usage env tenantId = modify_tx (\<lambda>db.
     if exists_row (\<lambda>u. usage_tenant_id u = tenantId) (t_usage db) then db
     else db\<lparr>t_usage := t_usage db @ [\<lparr>usage_tenant_id = tenantId, usage_running_steps = 0,
                                      usage_updated_at = db_now env\<rparr>]\<rparr>)"

definition ensure_control :: "kernel_env \<Rightarrow> string \<Rightarrow> string \<Rightarrow> unit ktx" where
  "ensure_control env tenantId actor = modify_tx (\<lambda>db.
     if exists_row (\<lambda>c. control_tenant_id c = tenantId) (t_control db) then db
     else db\<lparr>t_control := t_control db @ [\<lparr>control_tenant_id = tenantId, control_paused = False,
            control_generation = 0, control_actor = actor, control_reason = None,
            control_paused_at = None, control_resumed_at = None,
            control_updated_at = db_now env\<rparr>]\<rparr>)"

text \<open>Which integrity error of the step loop the caller sees.\<close>

definition duplicate_error :: "kernel_error \<Rightarrow> kernel_error" where
  "duplicate_error e = (case e of
     UniqueViolation c \<Rightarrow>
       if starts_with c ''commander_interactions_'' then KernelInvariantError DUPLICATE_INTERACTION
       else if starts_with c ''commander_steps_'' then KernelInvariantError DUPLICATE_STEP
       else e
   | _ \<Rightarrow> e)"

definition duplicate_run_error :: "kernel_error \<Rightarrow> kernel_error" where
  "duplicate_run_error e = (case e of
     UniqueViolation _ \<Rightarrow> KernelInvariantError DUPLICATE_RUN | _ \<Rightarrow> e)"

definition new_step_row :: "kernel_env \<Rightarrow> create_run \<Rightarrow> new_step \<Rightarrow> step_row" where
  "new_step_row env command step =
     \<lparr>step_id = ns_id step, step_run_id = cr_id command, step_tenant_id = cr_tenantId command,
      step_kind = ns_kind step, step_state = initial_step_state (ns_initialState step),
      step_version = 1, step_attempt = 0, step_max_attempts = or_else (ns_maxAttempts step) 1,
      step_priority = or_else (ns_priority step) 0,
      step_dependencies = or_else (ns_dependencies step) [],
      step_input = json_column (ns_input step), step_output = None, step_error = None,
      step_scheduled_at = or_else (ns_scheduledAt step) (client_now env - 1000),
      step_lease_worker_id = None, step_lease_worker_generation = 0, step_lease_token = None,
      step_fencing_epoch = 0, step_lease_expires_at = None, step_created_at = db_now env,
      step_updated_at = db_now env\<rparr>"

definition createStep :: "kernel_env \<Rightarrow> create_run \<Rightarrow> string \<Rightarrow> new_step \<Rightarrow> unit ktx" where
  "createStep env command actor step =
     bind_tx (insert_step (new_step_row env command step)) (\<lambda>_.
     case ns_interaction step of None \<Rightarrow> return_tx ()
     | Some i \<Rightarrow>
         bind_tx (insert_interaction
           \<lparr>interaction_id = ni_id i, interaction_run_id = cr_id command,
            interaction_step_id = ns_id step, interaction_tenant_id = cr_tenantId command,
            interaction_status = IN_pending, interaction_prompt = ni_prompt i,
            interaction_response = None, interaction_created_at = db_now env,
            interaction_answered_at = None, interaction_expires_at = ni_expiresAt i\<rparr>) (\<lambda>_.
         appendEvent env (kernel_event ''interaction'' (ni_id i) 0 ''interaction.created''
           (cr_tenantId command) (cr_id command) (Some (ns_id step)) actor
           [(''interactionId'', JStr (ni_id i)), (''prompt'', JStr (ni_prompt i)),
            (''expiresAt'', json_of_option JNum (ni_expiresAt i))])))"

definition createRun :: "kernel_env \<Rightarrow> create_run \<Rightarrow> string \<Rightarrow> run_row ktx" where
  "createRun env command actor =
     bind_tx (assertGraph command) (\<lambda>_. withTransaction env (
       let run = \<lparr>run_id = cr_id command, run_tenant_id = cr_tenantId command,
              run_intent_hash = cr_intentHash command,
              run_work_graph_hash = cr_workGraphHash command,
              run_work_graph_version = cr_workGraphVersion command,
              run_policy_snapshot_id = cr_policySnapshotId command, run_state = R_PENDING,
              run_version = 1, run_metadata = json_column (cr_metadata command),
              run_created_at = db_now env, run_updated_at = db_now env, run_paused_at = None,
              run_terminal_at = None\<rparr> in
       bind_tx (map_error_tx duplicate_run_error (insert_run run)) (\<lambda>_.
       bind_tx (ensure_usage env (cr_tenantId command)) (\<lambda>_.
       bind_tx (ensure_control env (cr_tenantId command) ''kernel'') (\<lambda>_.
       bind_tx (map_error_tx duplicate_error (forM_tx (cr_steps command) (createStep env command actor))) (\<lambda>_.
       bind_tx (appendEvent env (kernel_event ''run'' (cr_id command) 1 ''run.created''
         (cr_tenantId command) (cr_id command) None actor
         [(''workGraphHash'', JStr (cr_workGraphHash command)),
          (''stepCount'', JNum (int (length (cr_steps command))))])) (\<lambda>_. return_tx run))))))
       [cr_tenantId command])"

definition setTenantConcurrencyLimit :: "kernel_env \<Rightarrow> string \<Rightarrow> int \<Rightarrow> unit ktx" where
  "setTenantConcurrencyLimit env tenantId maxConcurrentSteps =
     (if maxConcurrentSteps \<le> 0 then throw_tx (JsError ''maxConcurrentSteps must be a positive integer'')
      else withTransaction env (
        bind_tx (ensure_usage env tenantId) (\<lambda>_. modify_tx (\<lambda>db.
          if exists_row (\<lambda>l. limits_tenant_id l = tenantId) (t_limits db)
          then db\<lparr>t_limits := update_where (\<lambda>l. limits_tenant_id l = tenantId)
                 (\<lambda>l. l\<lparr>limits_max_concurrent_steps := maxConcurrentSteps,
                        limits_updated_at := db_now env\<rparr>) (t_limits db)\<rparr>
          else db\<lparr>t_limits := t_limits db @ [\<lparr>limits_tenant_id = tenantId,
                 limits_max_concurrent_steps = maxConcurrentSteps,
                 limits_updated_at = db_now env\<rparr>]\<rparr>)))
        [tenantId])"

section \<open>Reading\<close>

definition getRun :: "kernel_env \<Rightarrow> string \<Rightarrow> string \<Rightarrow> run_row option ktx" where
  "getRun env runId tenantId =
     withTransaction env (query_tx (\<lambda>db. first_row (is_run runId tenantId) (t_runs db))) [tenantId]"

definition listRuns_limit :: "int option \<Rightarrow> int" where
  "listRuns_limit limit = min 200 (max 1 (or_else limit 50))"

definition listRuns :: "kernel_env \<Rightarrow> string \<Rightarrow> int option \<Rightarrow> run_row list ktx" where
  "listRuns env tenantId limit = withTransaction env (query_tx (\<lambda>db.
     order_limit (\<lambda>r. - run_updated_at r) (nat (listRuns_limit limit))
       (rev (sort_key run_id (filter (\<lambda>r. run_tenant_id r = tenantId) (t_runs db)))))) [tenantId]"

definition is_step :: "string \<Rightarrow> string \<Rightarrow> step_row \<Rightarrow> bool" where
  "is_step stepId tenantId s \<longleftrightarrow> step_id s = stepId \<and> step_tenant_id s = tenantId"

definition getStep :: "kernel_env \<Rightarrow> string \<Rightarrow> string \<Rightarrow> kernel_step option ktx" where
  "getStep env stepId tenantId = withTransaction env (query_tx (\<lambda>db.
     map_option fromStep (first_row (is_step stepId tenantId) (t_steps db)))) [tenantId]"

section \<open>The invariant\<close>

lemma insert_run_Inr [tx]: "insert_run row db = Inr (r, db') \<longleftrightarrow>
    db' = db\<lparr>t_runs := t_runs db @ [row]\<rparr> \<and> (\<forall>x \<in> set (t_runs db). run_id x \<noteq> run_id row)"
  by (auto simp: insert_run_def)

lemma insert_step_Inr [tx]: "insert_step row db = Inr (r, db') \<longleftrightarrow>
    db' = db\<lparr>t_steps := t_steps db @ [row]\<rparr> \<and> (\<forall>x \<in> set (t_steps db). step_id x \<noteq> step_id row)"
  by (auto simp: insert_step_def)

lemma insert_interaction_Inr [tx]: "insert_interaction row db = Inr (r, db') \<longleftrightarrow>
    db' = db\<lparr>t_interactions := t_interactions db @ [row]\<rparr> \<and>
    (\<forall>x \<in> set (t_interactions db). interaction_id x \<noteq> interaction_id row)"
  by (auto simp: insert_interaction_def)

lemma keeps_insert_run: "keeps (safe d X db0) (insert_run row)"
  unfolding keeps_def
proof (intro allI impI)
  fix db r db' assume safe: "safe d X db0 db" and "insert_run row db = Inr (r, db')"
  then have db': "db' = db\<lparr>t_runs := t_runs db @ [row]\<rparr>" "\<forall>x \<in> set (t_runs db). run_id x \<noteq> run_id row"
    by (simp_all add: tx)
  show "safe d X db0 db'"
    using safe db' unfolding safe_defs evolves_def step_placed_def live_run_def
    by (simp add: unique_key_snoc) blast
qed

lemma triple_insert_step:
  assumes "lease_matches row" and "step_state row \<noteq> S_RUNNING"
  shows "triple (\<lambda>db. safe d X db0 db \<and> step_placed (t_runs db) (t_usage db) row)
     (insert_step row) (\<lambda>_. safe d X db0)"
proof (rule tripleI)
  fix db r db' assume safe: "safe d X db0 db \<and> step_placed (t_runs db) (t_usage db) row"
    and "insert_step row db = Inr (r, db')"
  then have db': "db' = db\<lparr>t_steps := t_steps db @ [row]\<rparr>" "\<forall>x \<in> set (t_steps db). step_id x \<noteq> step_id row"
    by (simp_all add: tx)
  then show "safe d X db0 db'"
    using safe assms unfolding safe_defs evolves_def live_run_def
    by (auto simp: unique_key_snoc running_in_def)
qed

lemma keeps_ensure_usage [frame]: "keeps (safe no_debt X db0) (ensure_usage env tenantId)"
  unfolding keeps_def
proof (intro allI impI)
  fix db r db' assume safe: "safe no_debt X db0 db" and step: "ensure_usage env tenantId db = Inr (r, db')"
  show "safe no_debt X db0 db'"
  proof (cases "exists_row (\<lambda>u. usage_tenant_id u = tenantId) (t_usage db)")
    case True
    then show ?thesis using safe step by (auto simp: ensure_usage_def tx)
  next
    case False
    then have "count_rows (running_in tenantId) (t_steps db) = 0"
      using safe unfolding count_rows_zero safe_defs step_placed_def running_in_def by fastforce
    with False show ?thesis
      using safe step unfolding safe_defs evolves_def step_placed_def
      by (auto simp: ensure_usage_def tx unique_key_snoc)
  qed
qed

lemma ensure_control_frame [frame]:
  "(\<And>rows db. v (db\<lparr>t_control := rows\<rparr>) = v db) \<Longrightarrow> unchanged v (ensure_control env tenantId actor)"
  by (auto simp: unchanged_def ensure_control_def tx)

lemma insert_interaction_frame [frame]:
  "(\<And>rows db. v (db\<lparr>t_interactions := rows\<rparr>) = v db) \<Longrightarrow> unchanged v (insert_interaction row)"
  by (auto simp: unchanged_def tx)

text \<open>A place for the steps of a command: its run and its tenant's counter.\<close>

definition place_for :: "create_run \<Rightarrow> run_row list \<times> usage_row list \<Rightarrow> bool" where
  "place_for command t \<longleftrightarrow> exists_row (is_run (cr_id command) (cr_tenantId command)) (fst t) \<and>
     exists_row (\<lambda>u. usage_tenant_id u = cr_tenantId command) (snd t)"

lemma keeps_place:
  assumes "keeps (safe d X db0) m" and "unchanged (\<lambda>db. (t_runs db, t_usage db)) m"
  shows "keeps (\<lambda>db. safe d X db0 db \<and> place_for command (t_runs db, t_usage db)) m"
  using assms unfolding keeps_def unchanged_def by metis

lemma keeps_createStep:
  "keeps (\<lambda>db. safe d X db0 db \<and> place_for command (t_runs db, t_usage db)) (createStep env command actor step)"
  unfolding createStep_def
proof (intro keeps_bind)
  let ?row = "new_step_row env command step"
  have row: "lease_matches ?row" "step_state ?row \<noteq> S_RUNNING"
    by (cases "ns_initialState step" rule: initial_step_state.cases;
        simp add: lease_matches_def new_step_row_def)+
  show "keeps (\<lambda>db. safe d X db0 db \<and> place_for command (t_runs db, t_usage db)) (insert_step ?row)"
    unfolding keeps_def
  proof (intro allI impI)
    fix db r db' assume pre: "safe d X db0 db \<and> place_for command (t_runs db, t_usage db)"
      and step: "insert_step ?row db = Inr (r, db')"
    then have "safe d X db0 db \<and> step_placed (t_runs db) (t_usage db) ?row"
      by (auto simp: step_placed_def place_for_def new_step_row_def)
    then have "safe d X db0 db'" using tripleD [OF triple_insert_step [OF row] _ step] by blast
    then show "safe d X db0 db' \<and> place_for command (t_runs db', t_usage db')"
      using pre step by (auto simp: tx)
  qed
  show "keeps (\<lambda>db. safe d X db0 db \<and> place_for command (t_runs db, t_usage db))
      (case ns_interaction step of None \<Rightarrow> return_tx ()
       | Some i \<Rightarrow>
           bind_tx (insert_interaction
             \<lparr>interaction_id = ni_id i, interaction_run_id = cr_id command,
              interaction_step_id = ns_id step, interaction_tenant_id = cr_tenantId command,
              interaction_status = IN_pending, interaction_prompt = ni_prompt i,
              interaction_response = None, interaction_created_at = db_now env,
              interaction_answered_at = None, interaction_expires_at = ni_expiresAt i\<rparr>) (\<lambda>_.
           appendEvent env (kernel_event ''interaction'' (ni_id i) 0 ''interaction.created''
             (cr_tenantId command) (cr_id command) (Some (ns_id step)) actor
             [(''interactionId'', JStr (ni_id i)), (''prompt'', JStr (ni_prompt i)),
              (''expiresAt'', json_of_option JNum (ni_expiresAt i))])))" for x :: unit
    by (intro frame keeps_place; (intro keeps_safe_core)?; (intro frame)?; simp add: core_def)
qed

lemma triple_use_place:
  assumes "keeps (\<lambda>db. safe d X db0 db \<and> place_for command (t_runs db, t_usage db)) m"
  shows "triple (\<lambda>db. safe d X db0 db \<and> place_for command (t_runs db, t_usage db)) m (\<lambda>_. safe d X db0)"
  using assms unfolding triple_def keeps_def by blast

lemma safe_createRun: "keeps (safe no_debt X db0) (createRun env command actor)"
proof -
  let ?I = "\<lambda>db. safe no_debt X db0 db \<and> place_for command (t_runs db, t_usage db)"
  let ?run = "\<lparr>run_id = cr_id command, run_tenant_id = cr_tenantId command,
              run_intent_hash = cr_intentHash command,
              run_work_graph_hash = cr_workGraphHash command,
              run_work_graph_version = cr_workGraphVersion command,
              run_policy_snapshot_id = cr_policySnapshotId command, run_state = R_PENDING,
              run_version = 1, run_metadata = json_column (cr_metadata command),
              run_created_at = db_now env, run_updated_at = db_now env, run_paused_at = None,
              run_terminal_at = None\<rparr>"
  let ?J = "\<lambda>db. safe no_debt X db0 db \<and> exists_row (is_run (cr_id command) (cr_tenantId command)) (t_runs db)"
  have run: "triple (safe no_debt X db0) (insert_run ?run) (\<lambda>_. ?J)"
    using keeps_insert_run [of no_debt X db0 ?run]
    unfolding triple_def keeps_def by (auto simp: insert_run_Inr is_run_def)
  have usage: "triple ?J (ensure_usage env (cr_tenantId command)) (\<lambda>_. ?I)"
    using keeps_ensure_usage [of X db0 env "cr_tenantId command"]
    unfolding triple_def keeps_def
    by (auto simp: ensure_usage_def modify_tx_Inr place_for_def split: if_splits)
  have control: "triple ?I (ensure_control env (cr_tenantId command) ''kernel'') (\<lambda>_. ?I)"
    unfolding keeps_triple [symmetric]
    by (intro keeps_place keeps_safe_core frame; simp add: core_def)
  have steps: "triple ?I (forM_tx (cr_steps command) (createStep env command actor)) (\<lambda>_. ?I)"
    unfolding keeps_triple [symmetric] by (intro keeps_forM keeps_createStep)
  have last: "triple ?I (bind_tx (appendEvent env e) (\<lambda>_. return_tx ?run)) (\<lambda>_. safe no_debt X db0)" for e
    by (rule triple_use_place, intro keeps_place frame; simp)
  show ?thesis
    unfolding createRun_def withTransaction_tenant Let_def keeps_triple
    by (intro triple_bind [where R = "\<lambda>_. safe no_debt X db0"]
        triple_bind [OF triple_map_error [OF run]] triple_bind [OF usage] triple_bind [OF control]
        triple_bind [OF triple_map_error [OF steps]] last)
      (auto simp: triple_def tx)
qed

lemma safe_setTenantConcurrencyLimit:
  "keeps (safe no_debt X db0) (setTenantConcurrencyLimit env tenantId n)"
  unfolding setTenantConcurrencyLimit_def
  by (intro frame keeps_safe_core) (simp add: core_def)

lemma safe_reads [frame]:
  "keeps (safe d X db0) (getRun env runId tenantId)" "keeps (safe d X db0) (getStep env stepId tenantId)"
  "keeps (safe d X db0) (listRuns env tenantId limit)"
  unfolding getRun_def getStep_def listRuns_def by (intro frame)+

end
