(* ===== verification/Kernel_Steps.thy ===== *)
theory Kernel_Steps
  imports Kernel_Runs
begin

text \<open>
  The life of a step under its lease: \<open>claimNextStep\<close> (the scheduler's own query),
  \<open>heartbeatStep\<close>, \<open>reclaimExpiredLeases\<close>, \<open>completeStep\<close>, \<open>failStep\<close>, \<open>wakeRetryStep\<close> and
  \<open>failStepByTimer\<close> of \<open>postgres.ts\<close>.
\<close>

section \<open>Leases\<close>

text \<open>\<open>Pick<KernelLease, 'workerId' | 'workerGeneration' | 'token' | 'fencingEpoch'>\<close>.\<close>

record lease_ref =
  lr_workerId :: string
  lr_workerGeneration :: "int option"
  lr_token :: string
  lr_fencingEpoch :: int

text \<open>The lease guard shared by every \<open>WHERE\<close> clause of a worker's write.\<close>

definition worker_registered :: "kernel_db \<Rightarrow> lease_ref \<Rightarrow> bool" where
  "worker_registered db lease \<longleftrightarrow> exists_row (\<lambda>w. worker_id w = lr_workerId lease \<and>
     worker_generation w = or_else (lr_workerGeneration lease) (-1)) (t_workers db)"

definition holds_lease :: "kernel_env \<Rightarrow> lease_ref \<Rightarrow> step_row \<Rightarrow> bool" where
  "holds_lease env lease s \<longleftrightarrow> step_state s = S_RUNNING \<and>
     step_lease_worker_id s = Some (lr_workerId lease) \<and>
     step_lease_worker_generation s = or_else (lr_workerGeneration lease) (-1) \<and>
     step_lease_token s = Some (lr_token lease) \<and> step_fencing_epoch s = lr_fencingEpoch lease \<and>
     (case step_lease_expires_at s of None \<Rightarrow> False | Some t \<Rightarrow> db_now env < t)"

section \<open>Claiming\<close>

record claim_request =
  cq_workerId :: string
  cq_workerGeneration :: "int option"
  cq_leaseTtlMs :: int
  cq_tenantId :: "string option"
  cq_tenantIds :: "string list option"
  cq_capabilities :: "string list option"
  cq_now :: "time option"

text \<open>The joins of the candidate query, as lookups by primary key.\<close>

definition running_steps_of :: "kernel_db \<Rightarrow> string \<Rightarrow> int option" where
  "running_steps_of db tenantId =
     map_option usage_running_steps (first_row (\<lambda>u. usage_tenant_id u = tenantId) (t_usage db))"

definition paused_of :: "kernel_db \<Rightarrow> string \<Rightarrow> bool option" where
  "paused_of db tenantId =
     map_option control_paused (first_row (\<lambda>c. control_tenant_id c = tenantId) (t_control db))"

definition max_concurrent_of :: "kernel_db \<Rightarrow> string \<Rightarrow> int" where
  "max_concurrent_of db tenantId = (case first_row (\<lambda>l. limits_tenant_id l = tenantId) (t_limits db) of
     None \<Rightarrow> 2147483647 | Some l \<Rightarrow> limits_max_concurrent_steps l)"

definition prerequisites_met :: "kernel_db \<Rightarrow> step_row \<Rightarrow> bool" where
  "prerequisites_met db s \<longleftrightarrow> \<not> list_ex (\<lambda>d. exists_row (\<lambda>p. step_id p = d \<and>
     step_tenant_id p = step_tenant_id s \<and> step_state p \<notin> {S_SUCCEEDED, S_SKIPPED}) (t_steps db))
     (step_dependencies s)"

definition claimable_run :: "run_row \<Rightarrow> bool" where
  "claimable_run r \<longleftrightarrow> run_state r \<in> {R_PENDING, R_RUNNING} \<and>
     json_get (run_metadata r) ''compensationRequestId'' = None"

definition claim_candidate :: "kernel_db \<Rightarrow> time \<Rightarrow> string list \<Rightarrow> string list \<Rightarrow> string \<Rightarrow> int \<Rightarrow> step_row \<Rightarrow> bool" where
  "claim_candidate db now tenantIds capabilities workerId workerGeneration s \<longleftrightarrow>
     exists_row (\<lambda>r. is_run (step_run_id s) (step_tenant_id s) r \<and> claimable_run r) (t_runs db) \<and>
     exists_row (\<lambda>w. worker_id w = workerId \<and> worker_generation w = workerGeneration \<and>
                     worker_status w = W_ACTIVE) (t_workers db) \<and>
     step_state s \<in> {S_PENDING, S_RETRY_WAIT} \<and> step_scheduled_at s \<le> now \<and>
     (tenantIds = [] \<or> step_tenant_id s \<in> set tenantIds) \<and>
     paused_of db (step_tenant_id s) = Some False \<and>
     (capabilities = [] \<or> step_kind s \<in> set capabilities) \<and>
     (case running_steps_of db (step_tenant_id s) of None \<Rightarrow> False
      | Some n \<Rightarrow> n < max_concurrent_of db (step_tenant_id s)) \<and>
     prerequisites_met db s"

text \<open>\<open>LEAST(priority + FLOOR(seconds waited / 60), 1000)\<close>: one point per minute of waiting.\<close>

definition aged_priority :: "time \<Rightarrow> step_row \<Rightarrow> int" where
  "aged_priority now s = min (step_priority s + (now - step_scheduled_at s) div 60000) 1000"

definition claim_key :: "kernel_db \<Rightarrow> time \<Rightarrow> step_row \<Rightarrow> int \<times> int \<times> int \<times> int" where
  "claim_key db now s = (or_else (running_steps_of db (step_tenant_id s)) 0, - aged_priority now s,
     step_scheduled_at s, step_created_at s)"

definition claim_order :: "kernel_db \<Rightarrow> time \<Rightarrow> string list \<Rightarrow> string list \<Rightarrow> string \<Rightarrow> int \<Rightarrow> step_row list" where
  "claim_order db now tenantIds capabilities workerId workerGeneration =
     order_limit (claim_key db now) 1
       (filter (claim_candidate db now tenantIds capabilities workerId workerGeneration) (t_steps db))"

definition request_tenants :: "claim_request \<Rightarrow> string list" where
  "request_tenants request = (case cq_tenantIds request of Some ts \<Rightarrow> ts
     | None \<Rightarrow> if truthy (cq_tenantId request) then [the (cq_tenantId request)] else [])"

definition startRun :: "time \<Rightarrow> string \<Rightarrow> string \<Rightarrow> run_row list ktx" where
  "startRun now runId tenantId = update_runs (\<lambda>r. is_run runId tenantId r \<and> run_state r = R_PENDING)
     (\<lambda>r. r\<lparr>run_state := R_RUNNING, run_version := run_version r + 1, run_updated_at := now\<rparr>)"

definition takeSlot :: "time \<Rightarrow> string \<Rightarrow> unit ktx" where
  "takeSlot now tenantId = update_usage (\<lambda>u. usage_tenant_id u = tenantId)
     (\<lambda>u. u\<lparr>usage_running_steps := usage_running_steps u + 1, usage_updated_at := now\<rparr>)"

definition claimed_row :: "claim_request \<Rightarrow> time \<Rightarrow> string \<Rightarrow> step_row \<Rightarrow> step_row" where
  "claimed_row request now token s =
     s\<lparr>step_state := S_RUNNING, step_attempt := step_attempt s + 1,
       step_version := step_version s + 1, step_lease_worker_id := Some (cq_workerId request),
       step_lease_worker_generation := or_else (cq_workerGeneration request) (-1),
       step_lease_token := Some token, step_fencing_epoch := step_fencing_epoch s + 1,
       step_lease_expires_at := Some (now + cq_leaseTtlMs request), step_updated_at := now\<rparr>"

text \<open>What follows the claiming \<open>UPDATE\<close>: the slot, the run, the event.\<close>

definition announceClaim :: "kernel_env \<Rightarrow> claim_request \<Rightarrow> step_row \<Rightarrow> kernel_step option ktx" where
  "announceClaim env request row = (case ks_lease (fromStep row) of
     None \<Rightarrow> throw_tx (JsError ''Cannot read properties of undefined (reading 'fencingEpoch')'')
   | Some lease \<Rightarrow>
       bind_tx (appendEvent env (kernel_event ''step'' (step_id row) (step_version row)
         ''step.claimed'' (step_tenant_id row) (step_run_id row) (Some (step_id row))
         (cq_workerId request)
         [(''attempt'', JNum (step_attempt row)), (''fencingEpoch'', JNum (lease_fencingEpoch lease))]))
         (\<lambda>_. return_tx (Some (fromStep row))))"

definition recordClaim ::
  "kernel_env \<Rightarrow> claim_request \<Rightarrow> time \<Rightarrow> step_row \<Rightarrow> step_row list \<Rightarrow> kernel_step option ktx" where
  "recordClaim env request now candidate rows = (case rows of [] \<Rightarrow> return_tx None
     | row # _ \<Rightarrow>
       bind_tx (assertStepTransition (step_state candidate) (step_state row)) (\<lambda>_.
       bind_tx (takeSlot now (step_tenant_id row)) (\<lambda>_.
       bind_tx (assertRunTransition R_PENDING R_RUNNING) (\<lambda>_.
       bind_tx (startRun now (step_run_id row) (step_tenant_id row)) (\<lambda>_.
       announceClaim env request row)))))"

definition claimFirst ::
  "kernel_env \<Rightarrow> claim_request \<Rightarrow> time \<Rightarrow> string \<Rightarrow> step_row list \<Rightarrow> kernel_step option ktx" where
  "claimFirst env request now token candidates = (case candidates of [] \<Rightarrow> return_tx None
     | candidate # _ \<Rightarrow>
       bind_tx (update_steps (\<lambda>s. step_id s = step_id candidate) (claimed_row request now token))
         (recordClaim env request now candidate))"

definition claimNextStep :: "kernel_env \<Rightarrow> claim_request \<Rightarrow> kernel_step option ktx" where
  "claimNextStep env request =
     (let now = or_else (cq_now request) (client_now env) in
      bind_tx (randomUUID env) (\<lambda>token. withTransaction env (
        bind_tx (query_tx (\<lambda>db. claim_order db now (request_tenants request)
            (or_else (cq_capabilities request) []) (cq_workerId request)
            (or_else (cq_workerGeneration request) (-1))))
          (claimFirst env request now token)) (request_tenants request)))"

section \<open>Working under a lease\<close>

definition heartbeatStep :: "kernel_env \<Rightarrow> string \<Rightarrow> string \<Rightarrow> lease_ref \<Rightarrow> int \<Rightarrow> kernel_step option ktx" where
  "heartbeatStep env stepId tenantId lease leaseTtlMs = withTransaction env (
     bind_tx (query_tx (\<lambda>db. worker_registered db lease)) (\<lambda>registered.
     bind_tx (update_steps (\<lambda>s. is_step stepId tenantId s \<and> holds_lease env lease s \<and> registered)
       (\<lambda>s. s\<lparr>step_lease_expires_at := Some (client_now env + leaseTtlMs),
              step_updated_at := db_now env\<rparr>)) (\<lambda>rows.
     case rows of [] \<Rightarrow> return_tx None | row # _ \<Rightarrow> return_tx (Some (fromStep row))))) [tenantId]"

record complete_step =
  cs_stepId :: string
  cs_tenantId :: string
  cs_lease :: lease_ref
  cs_output :: "json option"
  cs_expectedVersion :: int
  cs_actor :: string

definition completeStep :: "kernel_env \<Rightarrow> complete_step \<Rightarrow> kernel_step option ktx" where
  "completeStep env request = withTransaction env (
     bind_tx (query_tx (\<lambda>db. worker_registered db (cs_lease request))) (\<lambda>registered.
     bind_tx (update_steps (\<lambda>s. is_step (cs_stepId request) (cs_tenantId request) s \<and>
         holds_lease env (cs_lease request) s \<and> step_version s = cs_expectedVersion request \<and> registered)
       (\<lambda>s. s\<lparr>step_state := S_SUCCEEDED, step_output := Some (json_column (cs_output request)),
              step_version := step_version s + 1, step_updated_at := db_now env,
              step_lease_worker_id := None, step_lease_token := None,
              step_lease_expires_at := None\<rparr>)) (\<lambda>rows.
     case rows of [] \<Rightarrow> return_tx None
     | row # _ \<Rightarrow>
       bind_tx (assertStepTransition S_RUNNING (step_state row)) (\<lambda>_.
       bind_tx (releaseTenantSlot env (step_tenant_id row)) (\<lambda>_.
       bind_tx (appendEvent env (kernel_event ''step'' (step_id row) (step_version row)
         ''step.succeeded'' (step_tenant_id row) (step_run_id row) (Some (step_id row))
         (cs_actor request) [(''attempt'', JNum (step_attempt row))])) (\<lambda>_.
       bind_tx (parkOrphanAdmittedEffects env (step_id row) (step_tenant_id row) (step_run_id row)
         ''step_succeeded'' (cs_actor request)) (\<lambda>_.
       bind_tx (finishRunIfTerminal env (step_run_id row) (step_tenant_id row) (cs_actor request))
         (\<lambda>_. return_tx (Some (fromStep row))))))))) ) [cs_tenantId request]"

record step_failure =
  sf_code :: string
  sf_message :: string
  sf_retryable :: bool
  sf_details :: "json option"

definition failure_json :: "step_failure \<Rightarrow> json" where
  "failure_json e = JObj ([(''code'', JStr (sf_code e)), (''message'', JStr (sf_message e)),
     (''retryable'', JBool (sf_retryable e))] @
     (case sf_details e of None \<Rightarrow> [] | Some d \<Rightarrow> [(''details'', d)]))"

record fail_step =
  fs_stepId :: string
  fs_tenantId :: string
  fs_lease :: lease_ref
  fs_error :: step_failure
  fs_retryAt :: "time option"
  fs_refundAttempt :: "bool option"
  fs_expectedVersion :: int
  fs_actor :: string

definition failed_step_row :: "kernel_env \<Rightarrow> fail_step \<Rightarrow> step_row \<Rightarrow> step_row" where
  "failed_step_row env request s =
     (let refund = (fs_refundAttempt request = Some True);
          attempt = (if refund then max 0 (step_attempt s - 1) else step_attempt s);
          retry = (sf_retryable (fs_error request) \<and> fs_retryAt request \<noteq> None \<and>
                   attempt < step_max_attempts s) in
      s\<lparr>step_attempt := attempt, step_state := (if retry then S_RETRY_WAIT else S_FAILED),
        step_error := Some (failure_json (fs_error request)),
        step_scheduled_at := (if retry then or_else (fs_retryAt request) (step_scheduled_at s)
                              else step_scheduled_at s),
        step_version := step_version s + 1, step_updated_at := db_now env,
        step_lease_worker_id := None, step_lease_token := None, step_lease_expires_at := None\<rparr>)"

definition failStep :: "kernel_env \<Rightarrow> fail_step \<Rightarrow> kernel_step option ktx" where
  "failStep env request = withTransaction env (
     bind_tx (query_tx (\<lambda>db. worker_registered db (fs_lease request))) (\<lambda>registered.
     bind_tx (update_steps (\<lambda>s. is_step (fs_stepId request) (fs_tenantId request) s \<and>
         holds_lease env (fs_lease request) s \<and> step_version s = fs_expectedVersion request \<and> registered)
       (failed_step_row env request)) (\<lambda>rows.
     case rows of [] \<Rightarrow> return_tx None
     | row # _ \<Rightarrow>
       bind_tx (assertStepTransition S_RUNNING (step_state row)) (\<lambda>_.
       bind_tx (releaseTenantSlot env (step_tenant_id row)) (\<lambda>_.
       bind_tx (appendEvent env (kernel_event ''step'' (step_id row) (step_version row)
         (if step_state row = S_RETRY_WAIT then ''step.retry_scheduled'' else ''step.failed'')
         (step_tenant_id row) (step_run_id row) (Some (step_id row)) (fs_actor request)
         [(''error'', failure_json (fs_error request)),
          (''refundAttempt'', JBool (fs_refundAttempt request = Some True))])) (\<lambda>_.
       bind_tx (parkOrphanAdmittedEffects env (step_id row) (step_tenant_id row) (step_run_id row)
         ''step_failed'' (fs_actor request)) (\<lambda>_.
       bind_tx (if step_state row = S_FAILED then
           bind_tx (requestCompensationIfNeeded env (step_id row) (step_tenant_id row)
             (step_run_id row) (step_fencing_epoch row) (fs_actor request) (client_now env)) (\<lambda>compensated.
           when_tx (\<not> compensated)
             (finishRunIfTerminal env (step_run_id row) (step_tenant_id row) (fs_actor request)))
         else return_tx ())
         (\<lambda>_. return_tx (Some (fromStep row))))))))) ) [fs_tenantId request]"

definition wakeRetryStep :: "kernel_env \<Rightarrow> string \<Rightarrow> string \<Rightarrow> string \<Rightarrow> kernel_step option ktx" where
  "wakeRetryStep env stepId tenantId actor = withTransaction env (
     bind_tx (update_steps (\<lambda>s. is_step stepId tenantId s \<and> step_state s = S_RETRY_WAIT)
       (\<lambda>s. s\<lparr>step_scheduled_at := db_now env, step_version := step_version s + 1,
              step_updated_at := db_now env, step_lease_worker_id := None,
              step_lease_token := None, step_lease_expires_at := None\<rparr>)) (\<lambda>rows.
     case rows of [] \<Rightarrow> return_tx None
     | row # _ \<Rightarrow>
       bind_tx (appendEvent env (kernel_event ''step'' (step_id row) (step_version row)
         ''step.retry_woken'' (step_tenant_id row) (step_run_id row) (Some (step_id row)) actor []))
         (\<lambda>_. return_tx (Some (fromStep row))))) [tenantId]"

definition failStepByTimer ::
  "kernel_env \<Rightarrow> string \<Rightarrow> string \<Rightarrow> step_failure \<Rightarrow> string \<Rightarrow> kernel_step option ktx" where
  "failStepByTimer env stepId tenantId failure actor = withTransaction env (
     bind_tx (query_tx (\<lambda>db. map_option step_state
       (first_row (\<lambda>s. is_step stepId tenantId s \<and> step_open (step_state s)) (t_steps db)))) (\<lambda>previous.
     case previous of None \<Rightarrow> return_tx None
     | Some previousState \<Rightarrow>
     bind_tx (assertStepTransition previousState S_FAILED) (\<lambda>_.
     bind_tx (update_steps (\<lambda>s. is_step stepId tenantId s \<and> step_open (step_state s))
       (\<lambda>s. s\<lparr>step_state := S_FAILED, step_error := Some (failure_json failure),
              step_version := step_version s + 1, step_updated_at := db_now env,
              step_lease_worker_id := None, step_lease_token := None,
              step_lease_expires_at := None\<rparr>)) (\<lambda>rows.
     case rows of [] \<Rightarrow> return_tx None
     | row # _ \<Rightarrow>
       bind_tx (when_tx (previousState = S_RUNNING) (releaseTenantSlot env (step_tenant_id row))) (\<lambda>_.
       bind_tx (appendEvent env (kernel_event ''step'' (step_id row) (step_version row)
         ''step.failed'' (step_tenant_id row) (step_run_id row) (Some (step_id row)) actor
         [(''error'', failure_json failure)])) (\<lambda>_.
       bind_tx (when_tx (previousState = S_RUNNING) (parkOrphanAdmittedEffects env (step_id row)
         (step_tenant_id row) (step_run_id row) ''step_failed'' actor)) (\<lambda>_.
       bind_tx (requestCompensationIfNeeded env (step_id row) (step_tenant_id row) (step_run_id row)
         (step_fencing_epoch row) actor (client_now env)) (\<lambda>compensated.
       bind_tx (when_tx (\<not> compensated)
         (finishRunIfTerminal env (step_run_id row) (step_tenant_id row) actor)) (\<lambda>_.
       return_tx (Some (fromStep row))))))))))) [tenantId]"

section \<open>Expired leases\<close>

definition lease_expired :: "time \<Rightarrow> step_row \<Rightarrow> bool" where
  "lease_expired now s \<longleftrightarrow> step_state s = S_RUNNING \<and>
     (case step_lease_expires_at s of None \<Rightarrow> False | Some t \<Rightarrow> t \<le> now)"

definition has_admitted_effect :: "kernel_db \<Rightarrow> step_row \<Rightarrow> bool" where
  "has_admitted_effect db s \<longleftrightarrow> exists_row (\<lambda>e. effect_step_id e = step_id s \<and>
     effect_tenant_id e = step_tenant_id s \<and> effect_state e = E_ADMITTED) (t_effects db)"

definition expired_leases :: "time \<Rightarrow> int \<Rightarrow> kernel_db \<Rightarrow> (string \<times> bool) list" where
  "expired_leases now limit db = map (\<lambda>s. (step_id s, has_admitted_effect db s))
     (order_limit (\<lambda>s. or_else (step_lease_expires_at s) 0) (nat limit)
       (filter (lease_expired now) (t_steps db)))"

definition reclaimed_row :: "time \<Rightarrow> (string \<times> bool) list \<Rightarrow> step_row \<Rightarrow> step_row" where
  "reclaimed_row now expired s =
     (let admitted = or_else (map_of expired (step_id s)) False;
          retryable = (\<not> admitted \<and> step_attempt s < step_max_attempts s) in
      s\<lparr>step_state := (if admitted then S_WAITING_FOR_RECONCILIATION
                       else if step_attempt s < step_max_attempts s then S_RETRY_WAIT else S_FAILED),
        step_scheduled_at := (if retryable then now else step_scheduled_at s),
        step_error := Some (JObj [(''code'', JStr ''LEASE_EXPIRED''),
          (''message'', JStr ''Worker lease expired before terminal transition''),
          (''retryable'', JBool retryable)]),
        step_version := step_version s + 1, step_updated_at := now, step_lease_worker_id := None,
        step_lease_worker_generation := 0, step_lease_token := None, step_lease_expires_at := None\<rparr>)"

definition reclaimStep :: "kernel_env \<Rightarrow> time \<Rightarrow> step_row \<Rightarrow> unit ktx" where
  "reclaimStep env now row =
     (let retryable = (step_state row = S_RETRY_WAIT);
          awaitingReconciliation = (step_state row = S_WAITING_FOR_RECONCILIATION) in
      bind_tx (assertStepTransition S_RUNNING (step_state row)) (\<lambda>_.
      bind_tx (releaseTenantSlot env (step_tenant_id row)) (\<lambda>_.
      bind_tx (appendEvent env (kernel_event ''step'' (step_id row) (step_version row)
        (if retryable then ''step.lease_expired_requeued'' else ''step.lease_expired_failed'')
        (step_tenant_id row) (step_run_id row) (Some (step_id row)) ''kernel.recovery''
        [(''attempt'', JNum (step_attempt row))])) (\<lambda>_.
      bind_tx (parkOrphanAdmittedEffects env (step_id row) (step_tenant_id row) (step_run_id row)
        ''lease_expired'' ''kernel.recovery'') (\<lambda>_.
      if \<not> retryable \<and> \<not> awaitingReconciliation then
        bind_tx (requestCompensationIfNeeded env (step_id row) (step_tenant_id row) (step_run_id row)
          (step_fencing_epoch row) ''kernel.recovery'' now) (\<lambda>compensated.
        when_tx (\<not> compensated)
          (finishRunIfTerminal env (step_run_id row) (step_tenant_id row) ''kernel.recovery''))
      else return_tx ())))))"

definition reclaimExpiredLeases :: "kernel_env \<Rightarrow> time option \<Rightarrow> int option \<Rightarrow> kernel_step list ktx" where
  "reclaimExpiredLeases env at limit =
     (let now = or_else at (client_now env) in withTransaction env (
      bind_tx (query_tx (expired_leases now (or_else limit 100))) (\<lambda>expired.
      bind_tx (update_steps (\<lambda>s. step_id s \<in> set (map fst expired)) (reclaimed_row now expired)) (\<lambda>rows.
      bind_tx (forM_tx rows (reclaimStep env now)) (\<lambda>_. return_tx (map fromStep rows))))) [])"

section \<open>The invariant\<close>

text \<open>A worker's write ends a RUNNING step: the row leaves one slot to give back.\<close>

lemma triple_step_leaves:
  assumes P: "\<And>s. P s \<Longrightarrow> step_id s = k \<and> step_state s = S_RUNNING"
    and f: "\<And>s. P s \<Longrightarrow> step_evolves s (f s) \<and> lease_matches (f s) \<and> step_state (f s) \<noteq> S_RUNNING"
  shows "triple (safe d X db0) (update_steps P f) (\<lambda>rows db.
     (rows = [] \<and> safe d X db0 db) \<or>
     (\<exists>s. P s \<and> rows = [f s] \<and> safe (d(step_tenant_id (f s) := d (step_tenant_id (f s)) + 1)) X db0 db))"
proof (rule tripleI)
  fix db rows db' assume safe: "safe d X db0 db" and step: "update_steps P f db = Inr (rows, db')"
  then have rows: "rows = updated_rows P f (t_steps db)"
    and db': "db' = db\<lparr>t_steps := update_where P f (t_steps db)\<rparr>" by (simp_all add: tx)
  have keys: "unique_key step_id (t_steps db)" using safe by (simp add: safe_defs)
  have safe': "safe (\<lambda>t. d t + count_rows (\<lambda>s. P s \<and> running_in t s) (t_steps db)
      - count_rows (\<lambda>s. P s \<and> running_in t (f s)) (t_steps db)) X db0 db'"
    unfolding db' by (rule safe_update_steps [OF safe]) (use f in blast)
  have none: "count_rows (\<lambda>s. P s \<and> running_in t (f s)) (t_steps db) = 0" for t
    using f by (auto simp: count_rows_zero running_in_def)
  show "(rows = [] \<and> safe d X db0 db') \<or>
     (\<exists>s. P s \<and> rows = [f s] \<and> safe (d(step_tenant_id (f s) := d (step_tenant_id (f s)) + 1)) X db0 db')"
  proof (cases "\<exists>s \<in> set (t_steps db). P s")
    case False
    then have "rows = []" and "count_rows (\<lambda>s. P s \<and> running_in t s) (t_steps db) = 0" for t
      by (auto simp: rows updated_rows_Nil_iff count_rows_zero)
    then show ?thesis using safe' none by simp
  next
    case True
    then obtain s where s: "s \<in> set (t_steps db)" "P s" by blast
    have key: "\<And>r. P r \<Longrightarrow> step_id r = k" using P by blast
    have "filter P (t_steps db) = [s]" by (rule filter_by_key [where P = P and k = step_id and c = k, OF keys key s])
    then have "rows = [f s]" by (simp add: rows updated_rows_def)
    moreover have "step_tenant_id (f s) = step_tenant_id s" using f s(2) by (simp add: step_evolves_def)
    moreover have "count_rows (\<lambda>r. P r \<and> running_in t r) (t_steps db) = (if t = step_tenant_id s then 1 else 0)" for t
      using count_rows_by_key [where P = P and k = step_id and c = k and Q = "running_in t", OF keys key s] P [OF s(2)]
      by (simp add: running_in_def)
    then have "(\<lambda>t. d t + count_rows (\<lambda>s. P s \<and> running_in t s) (t_steps db)
      - count_rows (\<lambda>s. P s \<and> running_in t (f s)) (t_steps db)) = d(step_tenant_id s := d (step_tenant_id s) + 1)"
      using none by auto
    ultimately show ?thesis using s safe' by auto
  qed
qed

lemma triple_give_back:
  assumes "debt d"
  shows "triple (safe (d(t := d t + 1)) X db0) (releaseTenantSlot env t) (\<lambda>_. safe d X db0)"
proof -
  have "1 \<le> (d(t := d t + 1)) t" using assms by (simp add: debt_def)
  from triple_release [where d = "d(t := d t + 1)" and tenantId = t, OF this, of X db0 env] show ?thesis by simp
qed

text \<open>The shape of \<open>completeStep\<close> and \<open>failStep\<close>.\<close>

lemma keeps_leave_then:
  assumes P: "\<And>s. P s \<Longrightarrow> step_id s = k \<and> step_state s = S_RUNNING"
    and f: "\<And>s. P s \<Longrightarrow> step_evolves s (f s) \<and> lease_matches (f s) \<and> step_state (f s) \<noteq> S_RUNNING"
    and d: "debt d" and body: "\<And>row. keeps (safe d X db0) (body row)"
  shows "keeps (safe d X db0) (bind_tx (update_steps P f) (\<lambda>rows. case rows of [] \<Rightarrow> return_tx x
     | row # _ \<Rightarrow> bind_tx (assertStepTransition S_RUNNING (step_state row)) (\<lambda>_.
                 bind_tx (releaseTenantSlot env (step_tenant_id row)) (\<lambda>_. body row))))"
  unfolding keeps_triple
proof (rule triple_bind [OF triple_step_leaves [OF P f]])
  fix rows
  let ?rest = "\<lambda>row. bind_tx (assertStepTransition S_RUNNING (step_state row)) (\<lambda>_.
                 bind_tx (releaseTenantSlot env (step_tenant_id row)) (\<lambda>_. body row))"
  have rest: "triple (safe (d(step_tenant_id row := d (step_tenant_id row) + 1)) X db0) (?rest row) (\<lambda>_. safe d X db0)" for row
    using body unfolding keeps_triple
    by (intro triple_bind [OF assertStepTransition_keeps [unfolded keeps_triple]] triple_bind [OF triple_give_back [OF d]])
  show "triple (\<lambda>db. (rows = [] \<and> safe d X db0 db) \<or>
     (\<exists>s. P s \<and> rows = [f s] \<and> safe (d(step_tenant_id (f s) := d (step_tenant_id (f s)) + 1)) X db0 db))
     (case rows of [] \<Rightarrow> return_tx x | row # _ \<Rightarrow> ?rest row) (\<lambda>_. safe d X db0)"
  proof (cases rows)
    case Nil
    then show ?thesis by (simp add: triple_def tx)
  next
    case (Cons row more)
    show ?thesis unfolding Cons list.case by (rule triple_pre [OF rest]) auto
  qed
qed

text \<open>An update that neither frees nor takes a slot.\<close>

lemma keeps_same_slots:
  assumes f: "\<And>s. P s \<Longrightarrow> step_evolves s (f s) \<and> (lease_matches s \<longrightarrow> lease_matches (f s)) \<and>
      (step_state (f s) = S_RUNNING \<longleftrightarrow> step_state s = S_RUNNING)"
  shows "keeps (safe d X db0) (update_steps P f)"
  unfolding keeps_def
proof (intro allI impI)
  fix db rows db' assume safe: "safe d X db0 db" and step: "update_steps P f db = Inr (rows, db')"
  have same: "P s \<and> running_in t (f s) \<longleftrightarrow> P s \<and> running_in t s" for s t
    using f [of s] by (auto simp: running_in_def step_evolves_def)
  have row: "step_evolves s (f s) \<and> lease_matches (f s) \<and>
      (step_state (f s) = S_RUNNING \<longrightarrow> live_run X (t_runs db) (f s))"
    if s: "s \<in> set (t_steps db)" "P s" for s
  proof -
    have "lease_matches s" and "step_state s = S_RUNNING \<longrightarrow> live_run X (t_runs db) s"
      using safe s(1) by (simp_all add: safe_defs)
    then show ?thesis using f [OF s(2)] by (auto simp: step_evolves_def live_run_def)
  qed
  have "safe d X db0 (db\<lparr>t_steps := update_where P f (t_steps db)\<rparr>)"
    using safe_update_steps [where P = P and f = f, OF safe row] by (simp add: same)
  then show "safe d X db0 db'" using step by (simp add: tx)
qed

lemma safe_wakeRetryStep: "keeps (safe d X db0) (wakeRetryStep env stepId tenantId actor)"
  unfolding wakeRetryStep_def
  by (intro frame keeps_same_slots) (auto simp: step_evolves_def lease_matches_def)

lemma safe_heartbeatStep: "keeps (safe d X db0) (heartbeatStep env stepId tenantId lease ttl)"
  unfolding heartbeatStep_def
  by (intro frame keeps_same_slots) (auto simp: step_evolves_def lease_matches_def holds_lease_def)

lemma safe_completeStep: "keeps (safe no_debt X db0) (completeStep env request)"
  unfolding completeStep_def
  by (intro keeps_withTransaction keeps_bind keeps_query keeps_leave_then frame)
    (auto simp: step_evolves_def lease_matches_def holds_lease_def is_step_def intro!: step_path_step)

lemma failed_step_row_evolves:
  assumes "step_state s = S_RUNNING"
  shows "step_evolves s (failed_step_row env request s) \<and> lease_matches (failed_step_row env request s) \<and>
    step_state (failed_step_row env request s) \<noteq> S_RUNNING"
  using assms by (auto simp: failed_step_row_def Let_def step_evolves_def lease_matches_def intro!: step_path_step)

lemma safe_failStep: "keeps (safe no_debt X db0) (failStep env request)"
  unfolding failStep_def
  by (intro keeps_withTransaction keeps_bind keeps_query keeps_leave_then frame failed_step_row_evolves)
    (auto simp: holds_lease_def is_step_def)

section \<open>The invariant under claims\<close>

text \<open>A run the steps of which may run: it is RUNNING, or about to be.\<close>

definition startable :: "string \<Rightarrow> string \<Rightarrow> kernel_db \<Rightarrow> bool" where
  "startable runId tenantId db \<longleftrightarrow>
     exists_row (\<lambda>r. is_run runId tenantId r \<and> run_state r \<in> {R_PENDING, R_RUNNING}) (t_runs db)"

lemma triple_claim_row:
  assumes f: "\<And>s. step_state s \<in> {S_PENDING, S_RETRY_WAIT} \<Longrightarrow>
      step_evolves s (f s) \<and> lease_matches (f s) \<and> step_state (f s) = S_RUNNING"
  shows "triple (\<lambda>db. safe d X db0 db \<and> c \<in> set (t_steps db) \<and> step_state c \<in> {S_PENDING, S_RETRY_WAIT} \<and>
      startable (step_run_id c) (step_tenant_id c) db)
    (update_steps (\<lambda>s. step_id s = step_id c) f)
    (\<lambda>rows db. rows = [f c] \<and> startable (step_run_id c) (step_tenant_id c) db \<and>
       safe (d(step_tenant_id c := d (step_tenant_id c) - 1)) (insert (step_run_id c) X) db0 db)"
proof (rule tripleI)
  fix db rows db'
  let ?P = "\<lambda>s. step_id s = step_id c"
  assume pre: "safe d X db0 db \<and> c \<in> set (t_steps db) \<and> step_state c \<in> {S_PENDING, S_RETRY_WAIT} \<and>
      startable (step_run_id c) (step_tenant_id c) db" and step: "update_steps ?P f db = Inr (rows, db')"
  then have rows: "rows = updated_rows ?P f (t_steps db)"
    and db': "db' = db\<lparr>t_steps := update_where ?P f (t_steps db)\<rparr>" by (simp_all add: tx)
  have keys: "unique_key step_id (t_steps db)" using pre by (simp add: safe_defs)
  have only: "s = c" if "s \<in> set (t_steps db)" "?P s" for s
    using unique_key_inj [OF keys] that pre by blast
  have one: "filter ?P (t_steps db) = [c]"
    by (rule filter_by_key [where P = ?P and k = step_id and c = "step_id c", OF keys]) (use pre in auto)
  have fc: "step_evolves c (f c) \<and> lease_matches (f c) \<and> step_state (f c) = S_RUNNING" using f pre by blast
  have took: "(\<lambda>t. d t + count_rows (\<lambda>s. ?P s \<and> running_in t s) (t_steps db)
      - count_rows (\<lambda>s. ?P s \<and> running_in t (f s)) (t_steps db))
      = d(step_tenant_id c := d (step_tenant_id c) - 1)"
  proof
    fix t
    have "count_rows (\<lambda>s. ?P s \<and> Q s) (t_steps db) = (if Q c then 1 else 0)" for Q
      by (rule count_rows_by_key [where P = ?P and k = step_id and c = "step_id c", OF keys]) (use pre in auto)
    moreover have "\<not> running_in t c" using pre by (auto simp: running_in_def)
    moreover have "running_in t (f c) \<longleftrightarrow> t = step_tenant_id c"
      using fc by (auto simp: running_in_def step_evolves_def)
    ultimately show "d t + count_rows (\<lambda>s. ?P s \<and> running_in t s) (t_steps db)
        - count_rows (\<lambda>s. ?P s \<and> running_in t (f s)) (t_steps db) = (d(step_tenant_id c := d (step_tenant_id c) - 1)) t"
      by simp
  qed
  have "safe d (insert (step_run_id c) X) db0 db" using pre by (auto intro: safe_weaken)
  then have "safe (\<lambda>t. d t + count_rows (\<lambda>s. ?P s \<and> running_in t s) (t_steps db)
      - count_rows (\<lambda>s. ?P s \<and> running_in t (f s)) (t_steps db)) (insert (step_run_id c) X) db0 db'"
    unfolding db'
  proof (rule safe_update_steps)
    fix s assume "s \<in> set (t_steps db)" and "?P s"
    then have "s = c" by (rule only)
    then show "step_evolves s (f s) \<and> lease_matches (f s) \<and>
        (step_state (f s) = S_RUNNING \<longrightarrow> live_run (insert (step_run_id c) X) (t_runs db) (f s))"
      using fc by (auto simp: live_run_def step_evolves_def)
  qed
  then show "rows = [f c] \<and> startable (step_run_id c) (step_tenant_id c) db' \<and>
       safe (d(step_tenant_id c := d (step_tenant_id c) - 1)) (insert (step_run_id c) X) db0 db'"
    using pre one unfolding took by (simp add: rows updated_rows_def db' startable_def)
qed

lemma triple_takeSlot:
  "triple (\<lambda>db. startable runId tenantId db \<and> safe (d(tenantId := d tenantId - 1)) X db0 db)
     (takeSlot now tenantId) (\<lambda>_ db. startable runId tenantId db \<and> safe d X db0 db)"
proof (rule tripleI)
  fix db r db'
  let ?f = "\<lambda>u. u\<lparr>usage_running_steps := usage_running_steps u + 1, usage_updated_at := now\<rparr>"
  assume pre: "startable runId tenantId db \<and> safe (d(tenantId := d tenantId - 1)) X db0 db"
    and step: "takeSlot now tenantId db = Inr (r, db')"
  have "safe ((d(tenantId := d tenantId - 1))(tenantId := (d(tenantId := d tenantId - 1)) tenantId + 1)) X db0
    (db\<lparr>t_usage := update_where (\<lambda>u. usage_tenant_id u = tenantId) ?f (t_usage db)\<rparr>)"
    by (rule safe_update_usage) (use pre in simp_all)
  then show "startable runId tenantId db' \<and> safe d X db0 db'"
    using pre step by (simp add: takeSlot_def tx startable_def)
qed

lemma triple_startRun:
  "triple (\<lambda>db. startable runId tenantId db \<and> safe d (insert runId X) db0 db)
     (startRun now runId tenantId) (\<lambda>_. safe d X db0)"
proof (rule tripleI)
  fix db r db'
  let ?P = "\<lambda>r. is_run runId tenantId r \<and> run_state r = R_PENDING"
  let ?f = "\<lambda>r. r\<lparr>run_state := R_RUNNING, run_version := run_version r + 1, run_updated_at := now\<rparr>"
  assume pre: "startable runId tenantId db \<and> safe d (insert runId X) db0 db"
    and "startRun now runId tenantId db = Inr (r, db')"
  then have db': "db' = db\<lparr>t_runs := update_where ?P ?f (t_runs db)\<rparr>" by (simp add: startRun_def tx)
  obtain q where q: "q \<in> set (t_runs db)" "is_run runId tenantId q" "run_state q \<in> {R_PENDING, R_RUNNING}"
    using pre by (auto simp: startable_def)
  have "safe d (insert runId X) db0 db'"
    unfolding db' by (rule safe_update_runs) (use pre in \<open>auto simp: run_evolves_def intro!: run_path_step\<close>)
  moreover have live: "\<exists>r \<in> set (t_runs db'). run_id r = runId \<and> run_state r = R_RUNNING"
  proof
    show "(if ?P q then ?f q else q) \<in> set (t_runs db')"
      unfolding db' using update_where_mem [OF q(1), of ?P ?f] by simp
    show "run_id (if ?P q then ?f q else q) = runId \<and> run_state (if ?P q then ?f q else q) = R_RUNNING"
      using q(2,3) by (auto simp: is_run_def)
  qed
  ultimately show "safe d X db0 db'"
    unfolding safe_defs live_run_def by (metis insertE)
qed

lemma claim_order_mem:
  assumes "claim_order db now ts cs w g = c # rest"
  shows "c \<in> set (t_steps db) \<and> claim_candidate db now ts cs w g c"
  using order_limit_Cons_least [OF assms [unfolded claim_order_def]] by simp

lemma claim_candidate_startable:
  "claim_candidate db now ts cs w g c \<Longrightarrow> startable (step_run_id c) (step_tenant_id c) db \<and>
     step_state c \<in> {S_PENDING, S_RETRY_WAIT}"
  by (auto simp: claim_candidate_def startable_def claimable_run_def)

lemma claimed_row_claims:
  "step_state s \<in> {S_PENDING, S_RETRY_WAIT} \<Longrightarrow> step_evolves s (claimed_row request now token s) \<and>
     lease_matches (claimed_row request now token s) \<and> step_state (claimed_row request now token s) = S_RUNNING"
  by (auto simp: claimed_row_def step_evolves_def lease_matches_def intro!: step_path_step)

lemma safe_announceClaim: "keeps (safe d X db0) (announceClaim env request row)"
  unfolding announceClaim_def by (intro frame)

lemma triple_recordClaim:
  "triple (\<lambda>db. rows = [claimed_row request now token c] \<and> startable (step_run_id c) (step_tenant_id c) db \<and>
       safe (d(step_tenant_id c := d (step_tenant_id c) - 1)) (insert (step_run_id c) X) db0 db)
     (recordClaim env request now c rows) (\<lambda>_. safe d X db0)"
proof (cases "rows = [claimed_row request now token c]")
  case True
  have same: "step_tenant_id (claimed_row request now token c) = step_tenant_id c"
      "step_run_id (claimed_row request now token c) = step_run_id c"
    by (simp_all add: claimed_row_def)
  have "triple (\<lambda>db. startable (step_run_id c) (step_tenant_id c) db \<and>
       safe (d(step_tenant_id c := d (step_tenant_id c) - 1)) (insert (step_run_id c) X) db0 db)
     (recordClaim env request now c rows) (\<lambda>_. safe d X db0)"
    unfolding True recordClaim_def list.case same
    by (intro triple_bind [OF assertStepTransition_keeps [unfolded keeps_triple]]
        triple_bind [OF triple_takeSlot] triple_bind [OF assertRunTransition_keeps [unfolded keeps_triple]]
        triple_bind [OF triple_startRun] safe_announceClaim [unfolded keeps_triple])
  then show ?thesis by (rule triple_pre) simp
next
  case False
  then show ?thesis by (simp add: triple_def)
qed

lemma triple_claimFirst:
  "triple (\<lambda>db. safe d X db0 db \<and> candidates = claim_order db now ts cs w g)
     (claimFirst env request now token candidates) (\<lambda>_. safe d X db0)"
proof (cases candidates)
  case Nil
  then show ?thesis by (simp add: claimFirst_def triple_def tx)
next
  case (Cons c rest)
  have "triple (\<lambda>db. safe d X db0 db \<and> c \<in> set (t_steps db) \<and> step_state c \<in> {S_PENDING, S_RETRY_WAIT} \<and>
      startable (step_run_id c) (step_tenant_id c) db) (claimFirst env request now token candidates) (\<lambda>_. safe d X db0)"
    unfolding claimFirst_def Cons list.case
    by (rule triple_bind [OF triple_claim_row [OF claimed_row_claims] triple_recordClaim])
  then show ?thesis
    by (rule triple_pre) (use Cons claim_order_mem claim_candidate_startable in metis)
qed

lemma safe_randomUUID [frame]: "keeps (safe d X db0) (randomUUID env)"
  by (intro keeps_safe_core frame) (simp add: core_def)

lemma safe_claimNextStep: "keeps (safe d X db0) (claimNextStep env request)"
  unfolding claimNextStep_def Let_def keeps_triple
  by (intro triple_bind [OF safe_randomUUID [unfolded keeps_triple]] triple_withTransaction
      triple_bind [OF triple_query] triple_claimFirst)

section \<open>The invariant under timers and recovery\<close>

text \<open>Reclaiming processes its rows one by one, each owing one slot.\<close>

definition owing :: "step_row list \<Rightarrow> string \<Rightarrow> int" where
  "owing rows t = count_rows (\<lambda>s. step_tenant_id s = t) rows"

lemma owing_Nil [simp]: "owing [] = no_debt"
  by (auto simp: owing_def)

lemma debt_owing [simp, frame]: "debt (owing rows)"
  by (simp add: debt_def owing_def)

lemma owing_Cons: "owing (row # rows) = (owing rows)(step_tenant_id row := owing rows (step_tenant_id row) + 1)"
  by (auto simp: owing_def)

lemma triple_reclaimStep:
  "triple (safe (owing (row # rows)) X db0) (reclaimStep env now row) (\<lambda>_. safe (owing rows) X db0)"
  unfolding reclaimStep_def Let_def owing_Cons
  by (intro triple_bind [OF assertStepTransition_keeps [unfolded keeps_triple]]
      triple_bind [OF triple_give_back], rule debt_owing, unfold keeps_triple [symmetric], intro frame)

lemma reclaimed_row_evolves:
  "step_state s = S_RUNNING \<Longrightarrow> step_evolves s (reclaimed_row now expired s) \<and>
     lease_matches (reclaimed_row now expired s) \<and> step_state (reclaimed_row now expired s) \<noteq> S_RUNNING"
  by (auto simp: reclaimed_row_def Let_def step_evolves_def lease_matches_def intro!: step_path_step)

lemma reclaimed_row_tenant [simp]: "step_tenant_id (reclaimed_row now expired s) = step_tenant_id s"
  by (simp add: reclaimed_row_def Let_def)

lemma expired_leases_running:
  assumes "safe d X db0 db" and "s \<in> set (t_steps db)" and "step_id s \<in> set (map fst (expired_leases now limit db))"
  shows "lease_expired now s"
proof -
  obtain s' where s': "step_id s' = step_id s"
    "s' \<in> set (order_limit (\<lambda>s. or_else (step_lease_expires_at s) 0) (nat limit) (filter (lease_expired now) (t_steps db)))"
    using assms(3) by (auto simp: expired_leases_def)
  then have "s' \<in> set (filter (lease_expired now) (t_steps db))" by (meson set_order_limit subsetD)
  moreover have "unique_key step_id (t_steps db)" using assms(1) by (simp add: safe_defs)
  ultimately show ?thesis using unique_key_inj [of step_id "t_steps db" s' s] s'(1) assms(2) by simp
qed

lemma triple_reclaim_rows:
  "triple (\<lambda>db. safe no_debt X db0 db \<and> expired = expired_leases now limit db)
     (update_steps (\<lambda>s. step_id s \<in> set (map fst expired)) (reclaimed_row now expired))
     (\<lambda>rows. safe (owing rows) X db0)"
proof (rule tripleI)
  fix db rows db'
  let ?P = "\<lambda>s. step_id s \<in> set (map fst expired)" and ?f = "reclaimed_row now expired"
  assume pre: "safe no_debt X db0 db \<and> expired = expired_leases now limit db"
    and step: "update_steps ?P ?f db = Inr (rows, db')"
  have running: "step_state s = S_RUNNING" if "s \<in> set (t_steps db)" "?P s" for s
    using expired_leases_running [of no_debt X db0 db s now limit] pre that by (simp add: lease_expired_def)
  have row: "step_evolves s (?f s) \<and> lease_matches (?f s) \<and> step_state (?f s) \<noteq> S_RUNNING"
    if "s \<in> set (t_steps db)" "?P s" for s
    by (rule reclaimed_row_evolves [OF running [OF that]])
  have "safe (\<lambda>t. no_debt t + count_rows (\<lambda>s. ?P s \<and> running_in t s) (t_steps db)
      - count_rows (\<lambda>s. ?P s \<and> running_in t (?f s)) (t_steps db)) X db0 (db\<lparr>t_steps := update_where ?P ?f (t_steps db)\<rparr>)"
    by (rule safe_update_steps) (use pre row in auto)
  moreover have "(\<lambda>t. no_debt t + count_rows (\<lambda>s. ?P s \<and> running_in t s) (t_steps db)
      - count_rows (\<lambda>s. ?P s \<and> running_in t (?f s)) (t_steps db)) = owing rows"
  proof
    fix t
    have "count_rows (\<lambda>s. ?P s \<and> running_in t (?f s)) (t_steps db) = 0"
      using row by (auto simp: count_rows_zero running_in_def)
    moreover have "count_rows (\<lambda>s. ?P s \<and> running_in t s) (t_steps db) =
        count_rows (\<lambda>s. ?P s \<and> step_tenant_id (?f s) = t) (t_steps db)"
      by (rule count_rows_cong) (use running row in \<open>auto simp: running_in_def step_evolves_def\<close>)
    ultimately show "no_debt t + count_rows (\<lambda>s. ?P s \<and> running_in t s) (t_steps db)
      - count_rows (\<lambda>s. ?P s \<and> running_in t (?f s)) (t_steps db) = owing rows t"
      using step by (simp add: tx owing_def count_updated_rows)
  qed
  ultimately show "safe (owing rows) X db0 db'" using step by (simp add: tx)
qed

lemma safe_reclaimExpiredLeases: "keeps (safe no_debt X db0) (reclaimExpiredLeases env at limit)"
  unfolding reclaimExpiredLeases_def Let_def keeps_triple
proof (intro triple_withTransaction triple_bind [OF triple_query] triple_bind [OF triple_reclaim_rows])
  fix rows now
  show "triple (safe (owing rows) X db0) (bind_tx (forM_tx rows (reclaimStep env now)) (\<lambda>_. return_tx (map fromStep rows)))
      (\<lambda>_. safe no_debt X db0)"
    by (rule triple_bind [OF triple_forM [where I = "\<lambda>rows. safe (owing rows) X db0", OF triple_reclaimStep]])
      (simp add: triple_def tx)
qed

text \<open>A step closed by key from a state that was read before.\<close>

lemma triple_step_closed:
  assumes key: "\<And>s. P s \<Longrightarrow> step_id s = k"
    and f: "\<And>s. P s \<Longrightarrow> step_state s = p \<Longrightarrow>
      step_evolves s (f s) \<and> lease_matches (f s) \<and> step_state (f s) \<noteq> S_RUNNING"
  shows "triple (\<lambda>db. safe d X db0 db \<and> Some p = map_option step_state (first_row P (t_steps db)))
     (update_steps P f) (\<lambda>rows db. \<exists>s. rows = [f s] \<and>
       safe (d(step_tenant_id (f s) := d (step_tenant_id (f s)) + (if p = S_RUNNING then 1 else 0))) X db0 db)"
proof (rule tripleI)
  fix db rows db'
  assume pre: "safe d X db0 db \<and> Some p = map_option step_state (first_row P (t_steps db))"
    and step: "update_steps P f db = Inr (rows, db')"
  then have rows: "rows = updated_rows P f (t_steps db)"
    and db': "db' = db\<lparr>t_steps := update_where P f (t_steps db)\<rparr>" by (simp_all add: tx)
  have keys: "unique_key step_id (t_steps db)" using pre by (simp add: safe_defs)
  obtain s where found: "first_row P (t_steps db) = Some s" and p: "step_state s = p"
    using pre by (cases "first_row P (t_steps db)") auto
  have s: "s \<in> set (t_steps db)" "P s" using first_row_Some [OF found] by simp_all
  have only: "r = s" if "r \<in> set (t_steps db)" "P r" for r
    using unique_key_inj [OF keys that(1) s(1)] key [OF that(2)] key [OF s(2)] by simp
  have one: "filter P (t_steps db) = [s]"
    by (rule filter_by_key [where P = P and k = step_id and c = k, OF keys key s])
  have fs: "step_evolves s (f s) \<and> lease_matches (f s) \<and> step_state (f s) \<noteq> S_RUNNING"
    using f s(2) p by blast
  have left: "count_rows (\<lambda>r. P r \<and> Q r) (t_steps db) = (if Q s then 1 else 0)" for Q
    by (rule count_rows_by_key [where P = P and k = step_id and c = k, OF keys key s])
  have "safe (\<lambda>t. d t + count_rows (\<lambda>s. P s \<and> running_in t s) (t_steps db)
      - count_rows (\<lambda>s. P s \<and> running_in t (f s)) (t_steps db)) X db0 db'"
    unfolding db' by (rule safe_update_steps) (use pre only fs in auto)
  moreover have "(\<lambda>t. d t + count_rows (\<lambda>s. P s \<and> running_in t s) (t_steps db)
      - count_rows (\<lambda>s. P s \<and> running_in t (f s)) (t_steps db)) =
      d(step_tenant_id (f s) := d (step_tenant_id (f s)) + (if p = S_RUNNING then 1 else 0))"
    using fs p by (auto simp: left running_in_def step_evolves_def)
  ultimately show "\<exists>s. rows = [f s] \<and>
       safe (d(step_tenant_id (f s) := d (step_tenant_id (f s)) + (if p = S_RUNNING then 1 else 0))) X db0 db'"
    using one by (auto simp: rows updated_rows_def)
qed

lemma triple_give_back_if:
  assumes "debt d"
  shows "triple (safe (d(t := d t + (if b then 1 else 0))) X db0) (when_tx b (releaseTenantSlot env t))
    (\<lambda>_. safe d X db0)"
proof (cases b)
  case True
  then show ?thesis using triple_give_back [OF assms, of t X db0 env] by (simp add: when_tx_def)
next
  case False
  then show ?thesis by (simp add: when_tx_def triple_def tx)
qed

lemma triple_asserted:
  "triple P (assertStepTransition a b) (\<lambda>_ s. P s \<and> b \<in> set (STEP_TRANSITIONS a))"
  by (simp add: triple_def tx)

text \<open>Closing a step from the state that was read: the check, the update, its slot, the rest.\<close>

lemma triple_close_checked:
  assumes key: "\<And>s. P s \<Longrightarrow> step_id s = k" and target: "target \<noteq> S_RUNNING" and d: "debt d"
    and f: "\<And>s. step_id (f s) = step_id s \<and> step_run_id (f s) = step_run_id s \<and>
      step_tenant_id (f s) = step_tenant_id s \<and> step_state (f s) = target \<and>
      step_version s \<le> step_version (f s) \<and> step_fencing_epoch (f s) = step_fencing_epoch s \<and>
      step_lease_token (f s) = None \<and> step_lease_worker_id (f s) = None \<and> step_lease_expires_at (f s) = None"
    and body: "\<And>row. keeps (safe d X db0) (body row)"
  shows "triple (\<lambda>db. safe d X db0 db \<and> Some p = map_option step_state (first_row P (t_steps db)))
    (bind_tx (assertStepTransition p target) (\<lambda>_.
     bind_tx (update_steps P f) (\<lambda>rows. case rows of [] \<Rightarrow> return_tx x
       | row # _ \<Rightarrow> bind_tx (when_tx (p = S_RUNNING) (releaseTenantSlot env (step_tenant_id row))) (\<lambda>_. body row))))
    (\<lambda>_. safe d X db0)"
proof (rule triple_bind [OF triple_asserted])
  fix u :: unit
  let ?rest = "\<lambda>row. bind_tx (when_tx (p = S_RUNNING) (releaseTenantSlot env (step_tenant_id row))) (\<lambda>_. body row)"
  have rest: "triple (safe (d(step_tenant_id row := d (step_tenant_id row) + (if p = S_RUNNING then 1 else 0))) X db0)
      (?rest row) (\<lambda>_. safe d X db0)" for row
    by (rule triple_bind [OF triple_give_back_if [OF d] body [unfolded keeps_triple]])
  show "triple (\<lambda>s. (safe d X db0 s \<and> Some p = map_option step_state (first_row P (t_steps s))) \<and>
        target \<in> set (STEP_TRANSITIONS p))
      (bind_tx (update_steps P f) (\<lambda>rows. case rows of [] \<Rightarrow> return_tx x | row # _ \<Rightarrow> ?rest row)) (\<lambda>_. safe d X db0)"
  proof (cases "target \<in> set (STEP_TRANSITIONS p)")
    case True
    have closed: "triple (\<lambda>db. safe d X db0 db \<and> Some p = map_option step_state (first_row P (t_steps db)))
     (update_steps P f) (\<lambda>rows db. \<exists>s. rows = [f s] \<and>
       safe (d(step_tenant_id (f s) := d (step_tenant_id (f s)) + (if p = S_RUNNING then 1 else 0))) X db0 db)"
      by (rule triple_step_closed [where P = P and k = k, OF key])
        (use f target True in \<open>auto simp: step_evolves_def lease_matches_def intro!: step_path_step\<close>)
    have "triple (\<lambda>db. \<exists>s. rows = [f s] \<and>
        safe (d(step_tenant_id (f s) := d (step_tenant_id (f s)) + (if p = S_RUNNING then 1 else 0))) X db0 db)
        (case rows of [] \<Rightarrow> return_tx x | row # _ \<Rightarrow> ?rest row) (\<lambda>_. safe d X db0)" for rows
    proof (cases "\<exists>s. rows = [f s]")
      case True
      then obtain s where s: "rows = [f s]" by blast
      show ?thesis unfolding s list.case by (rule triple_pre [OF rest]) auto
    next
      case False
      then show ?thesis by (auto simp: triple_def)
    qed
    from triple_bind [OF closed this] show ?thesis by (rule triple_pre) blast
  next
    case False
    then show ?thesis by (simp add: triple_def)
  qed
qed

lemma safe_failStepByTimer: "keeps (safe no_debt X db0) (failStepByTimer env stepId tenantId failure actor)"
  unfolding failStepByTimer_def keeps_triple
proof (intro triple_withTransaction triple_bind [OF triple_query])
  fix previous
  show "triple (\<lambda>db. safe no_debt X db0 db \<and> previous = map_option step_state
       (first_row (\<lambda>s. is_step stepId tenantId s \<and> step_open (step_state s)) (t_steps db)))
     (case previous of None \<Rightarrow> return_tx None
     | Some previousState \<Rightarrow>
     bind_tx (assertStepTransition previousState S_FAILED) (\<lambda>_.
     bind_tx (update_steps (\<lambda>s. is_step stepId tenantId s \<and> step_open (step_state s))
       (\<lambda>s. s\<lparr>step_state := S_FAILED, step_error := Some (failure_json failure),
              step_version := step_version s + 1, step_updated_at := db_now env,
              step_lease_worker_id := None, step_lease_token := None,
              step_lease_expires_at := None\<rparr>)) (\<lambda>rows.
     case rows of [] \<Rightarrow> return_tx None
     | row # _ \<Rightarrow>
       bind_tx (when_tx (previousState = S_RUNNING) (releaseTenantSlot env (step_tenant_id row))) (\<lambda>_.
       bind_tx (appendEvent env (kernel_event ''step'' (step_id row) (step_version row)
         ''step.failed'' (step_tenant_id row) (step_run_id row) (Some (step_id row)) actor
         [(''error'', failure_json failure)])) (\<lambda>_.
       bind_tx (when_tx (previousState = S_RUNNING) (parkOrphanAdmittedEffects env (step_id row)
         (step_tenant_id row) (step_run_id row) ''step_failed'' actor)) (\<lambda>_.
       bind_tx (requestCompensationIfNeeded env (step_id row) (step_tenant_id row) (step_run_id row)
         (step_fencing_epoch row) actor (client_now env)) (\<lambda>compensated.
       bind_tx (when_tx (\<not> compensated)
         (finishRunIfTerminal env (step_run_id row) (step_tenant_id row) actor)) (\<lambda>_.
       return_tx (Some (fromStep row)))))))))) (\<lambda>_. safe no_debt X db0)"
  proof (cases previous)
    case None
    then show ?thesis by (simp add: triple_def tx)
  next
    case (Some p)
    show ?thesis unfolding Some option.case
      by (rule triple_close_checked [where k = stepId]) (auto simp: is_step_def intro!: frame)
  qed
qed

lemmas step_operations_safe =
  safe_claimNextStep safe_heartbeatStep safe_completeStep safe_failStep safe_wakeRetryStep
  safe_failStepByTimer safe_reclaimExpiredLeases

end
