(* ===== verification/Kernel_Effects.thy ===== *)
theory Kernel_Effects
  imports Kernel_Steps
begin

text \<open>
  The effect ledger of \<open>postgres.ts\<close>: operations readiness, \<open>admitEffect\<close> on the repository's
  own path (a worker's path calls a stored procedure), the terminal writes with and without
  evidence, parking an effect whose outcome is unknown and the reconciliation bookkeeping.
\<close>

section \<open>Operations readiness\<close>

definition OPERATIONS_HEARTBEAT_TTL_MS :: int where "OPERATIONS_HEARTBEAT_TTL_MS = 30000"

datatype readiness_reason = RECONCILIATION_DRAIN_UNAVAILABLE | COMPENSATION_DRAIN_UNAVAILABLE

record operations_readiness =
  or_ready :: bool
  or_reason :: "readiness_reason option"
  or_reconciliationWorkers :: int
  or_compensationWorkers :: int
  or_checkedAt :: time

definition drain_worker :: "string \<Rightarrow> time \<Rightarrow> string \<Rightarrow> worker_row \<Rightarrow> bool" where
  "drain_worker tenantId threshold capability w \<longleftrightarrow> worker_status w = W_ACTIVE \<and>
     worker_identity_subject w = ''db:commander_adapter_ops'' \<and>
     tenantId \<in> set (worker_tenant_ids w) \<and> worker_capabilities w = [capability] \<and>
     worker_registered_at w < worker_last_heartbeat_at w \<and> threshold \<le> worker_last_heartbeat_at w"

definition readOperationsReadiness :: "kernel_db \<Rightarrow> string \<Rightarrow> time \<Rightarrow> operations_readiness" where
  "readOperationsReadiness db tenantId at =
     (let threshold = at - OPERATIONS_HEARTBEAT_TTL_MS;
          count = (\<lambda>capability. count_rows (drain_worker tenantId threshold capability) (t_workers db));
          reconciliationWorkers = count ''effect.reconcile'';
          compensationWorkers = count ''effect.compensate'' in
      \<lparr>or_ready = (0 < reconciliationWorkers \<and> 0 < compensationWorkers),
       or_reason = (if reconciliationWorkers = 0 then Some RECONCILIATION_DRAIN_UNAVAILABLE
                    else if compensationWorkers = 0 then Some COMPENSATION_DRAIN_UNAVAILABLE else None),
       or_reconciliationWorkers = reconciliationWorkers, or_compensationWorkers = compensationWorkers,
       or_checkedAt = at\<rparr>)"

definition getOperationsReadiness :: "kernel_env \<Rightarrow> string \<Rightarrow> time option \<Rightarrow> operations_readiness ktx" where
  "getOperationsReadiness env tenantId at = withTransaction env
     (query_tx (\<lambda>db. readOperationsReadiness db tenantId (or_else at (client_now env)))) [tenantId]"

section \<open>Admission\<close>

record admit_effect =
  ae_id :: string
  ae_runId :: string
  ae_stepId :: string
  ae_tenantId :: string
  ae_type :: string
  ae_idempotencyKey :: string
  ae_policyDecisionId :: string
  ae_policySnapshotId :: string
  ae_actionDigest :: string
  ae_lease :: lease_ref
  ae_request :: json
  ae_actor :: string

datatype admit_refusal =
    POLICY_SNAPSHOT_ID_REQUIRED | LEASE_WORKER_ID_REQUIRED | LEASE_LOST | IDEMPOTENCY_CONFLICT
  | OPERATIONS_NOT_READY

datatype admit_result = Admitted (replayed: bool) (admitted_effect: kernel_effect) | Refused admit_refusal

definition compensate_prefix :: string where "compensate_prefix = ''compensate.''"

definition insert_effect :: "effect_row \<Rightarrow> unit ktx" where
  "insert_effect row = (\<lambda>db.
     if exists_row (\<lambda>e. effect_id e = effect_id row) (t_effects db)
     then Inl (UniqueViolation ''commander_effects_pkey'')
     else if exists_row (\<lambda>e. effect_tenant_id e = effect_tenant_id row \<and>
                             effect_idempotency_key e = effect_idempotency_key row) (t_effects db)
     then Inl (UniqueViolation ''commander_effects_tenant_id_idempotency_key_key'')
     else Inr ((), db\<lparr>t_effects := t_effects db @ [row]\<rparr>))"

definition leased_step :: "kernel_env \<Rightarrow> kernel_db \<Rightarrow> admit_effect \<Rightarrow> step_row option" where
  "leased_step env db request = first_row (\<lambda>s. step_id s = ae_stepId request \<and>
     in_run (ae_runId request) (ae_tenantId request) s \<and> holds_lease env (ae_lease request) s \<and>
     worker_registered db (ae_lease request)) (t_steps db)"

text \<open>The step an effect is admitted for: the leased one, or for a compensation the step of a
  run that is \<open>COMPENSATING\<close>.\<close>

definition admitting_step :: "kernel_env \<Rightarrow> kernel_db \<Rightarrow> admit_effect \<Rightarrow> step_row option" where
  "admitting_step env db request =
     (case leased_step env db request of Some s \<Rightarrow> Some s
      | None \<Rightarrow>
          if starts_with (ae_type request) compensate_prefix \<and>
             map_option run_state (first_row (is_run (ae_runId request) (ae_tenantId request)) (t_runs db)) = Some R_COMPENSATING
          then first_row (\<lambda>s. step_id s = ae_stepId request \<and>
                 in_run (ae_runId request) (ae_tenantId request) s) (t_steps db)
          else None)"

definition prior_effect :: "kernel_db \<Rightarrow> admit_effect \<Rightarrow> effect_row option" where
  "prior_effect db request = first_row (\<lambda>e. effect_tenant_id e = ae_tenantId request \<and>
     effect_idempotency_key e = ae_idempotencyKey request) (t_effects db)"

definition conflicts_with :: "kernel_env \<Rightarrow> admit_effect \<Rightarrow> effect_row \<Rightarrow> bool" where
  "conflicts_with env request prior \<longleftrightarrow>
     effect_run_id prior \<noteq> ae_runId request \<or> effect_step_id prior \<noteq> ae_stepId request \<or>
     effect_type prior \<noteq> ae_type request \<or>
     effect_request_hash prior \<noteq> requestHash (sha256 env) (ae_request request) \<or>
     effect_policy_decision_id prior \<noteq> ae_policyDecisionId request \<or>
     effect_policy_snapshot_id prior \<noteq> ae_policySnapshotId request \<or>
     effect_action_digest prior \<noteq> ae_actionDigest request"

definition operations_refused :: "kernel_env \<Rightarrow> kernel_db \<Rightarrow> admit_effect \<Rightarrow> bool" where
  "operations_refused env db request \<longleftrightarrow>
     isClassAEffectType (ae_type request) \<and> \<not> starts_with (to_lower (ae_type request)) compensate_prefix \<and>
     (enforceAtomicOperationsReadiness env \<or>
      \<not> or_ready (readOperationsReadiness db (ae_tenantId request) (client_now env)))"

definition new_effect_row :: "kernel_env \<Rightarrow> admit_effect \<Rightarrow> effect_row" where
  "new_effect_row env request =
     \<lparr>effect_id = ae_id request, effect_run_id = ae_runId request, effect_step_id = ae_stepId request,
      effect_tenant_id = ae_tenantId request, effect_type = ae_type request,
      effect_idempotency_key = ae_idempotencyKey request,
      effect_request_hash = requestHash (sha256 env) (ae_request request),
      effect_policy_decision_id = ae_policyDecisionId request,
      effect_policy_snapshot_id = ae_policySnapshotId request,
      effect_action_digest = ae_actionDigest request,
      effect_lease_worker_id = lr_workerId (ae_lease request),
      effect_lease_worker_generation = or_else (lr_workerGeneration (ae_lease request)) (-1),
      effect_lease_fencing_epoch = lr_fencingEpoch (ae_lease request), effect_state = E_ADMITTED,
      effect_request = ae_request request, effect_response = None, effect_created_at = db_now env,
      effect_completed_at = None, effect_governed_deadline = None, effect_reconcile = no_reconcile\<rparr>"

definition admitEffectEmbedded :: "kernel_env \<Rightarrow> admit_effect \<Rightarrow> admit_result ktx" where
  "admitEffectEmbedded env request =
     bind_tx (query_tx (\<lambda>db. admitting_step env db request)) (\<lambda>step.
     case step of None \<Rightarrow> return_tx (Refused LEASE_LOST)
     | Some _ \<Rightarrow>
     bind_tx (query_tx (\<lambda>db. prior_effect db request)) (\<lambda>existing.
     bind_tx (query_tx (\<lambda>db. operations_refused env db request)) (\<lambda>refused.
     case existing of
       Some prior \<Rightarrow>
         if conflicts_with env request prior then return_tx (Refused IDEMPOTENCY_CONFLICT)
         else if refused \<and> effect_state prior \<noteq> E_COMPLETED then return_tx (Refused OPERATIONS_NOT_READY)
         else return_tx (Admitted True (fromEffect prior))
     | None \<Rightarrow>
         if refused then return_tx (Refused OPERATIONS_NOT_READY)
         else
           bind_tx (insert_effect (new_effect_row env request)) (\<lambda>_.
           let effect = fromEffect (new_effect_row env request) in
           bind_tx (appendEvent env (kernel_event ''effect'' (ke_id effect) 1 ''effect.admitted''
             (ke_tenantId effect) (ke_runId effect) (Some (ke_stepId effect)) (ae_actor request)
             [(''type'', JStr (ke_type effect)), (''policyDecisionId'', JStr (ke_policyDecisionId effect)),
              (''policySnapshotId'', JStr (ke_policySnapshotId effect)),
              (''actionDigest'', JStr (ke_actionDigest effect))]))
             (\<lambda>_. return_tx (Admitted False effect))))))"

definition admitEffect :: "kernel_env \<Rightarrow> admit_effect \<Rightarrow> admit_result ktx" where
  "admitEffect env request =
     (if ae_policySnapshotId request = [] \<or> trim (ae_policySnapshotId request) = []
      then return_tx (Refused POLICY_SNAPSHOT_ID_REQUIRED)
      else if lr_workerId (ae_lease request) = [] \<or> trim (lr_workerId (ae_lease request)) = []
      then return_tx (Refused LEASE_WORKER_ID_REQUIRED)
      else withTransaction env (admitEffectEmbedded env request) [ae_tenantId request])"

section \<open>Terminal writes\<close>

definition under_lease :: "kernel_env \<Rightarrow> kernel_db \<Rightarrow> lease_ref \<Rightarrow> effect_row \<Rightarrow> bool" where
  "under_lease env db lease e \<longleftrightarrow> exists_row (\<lambda>s. step_id s = effect_step_id e \<and>
     in_run (effect_run_id e) (effect_tenant_id e) s \<and> holds_lease env lease s) (t_steps db) \<and>
     worker_registered db lease"

definition under_compensation :: "kernel_db \<Rightarrow> lease_ref \<Rightarrow> effect_row \<Rightarrow> bool" where
  "under_compensation db lease e \<longleftrightarrow> starts_with (effect_type e) compensate_prefix \<and>
     exists_row (\<lambda>r. is_run (effect_run_id e) (effect_tenant_id e) r \<and> run_state r = R_COMPENSATING) (t_runs db) \<and>
     effect_lease_worker_id e = lr_workerId lease \<and>
     effect_lease_worker_generation e = or_else (lr_workerGeneration lease) (-1) \<and>
     effect_lease_fencing_epoch e = lr_fencingEpoch lease \<and> worker_registered db lease"

definition admitted_effect_row :: "string \<Rightarrow> string \<Rightarrow> effect_row \<Rightarrow> bool" where
  "admitted_effect_row effectId tenantId e \<longleftrightarrow>
     effect_id e = effectId \<and> effect_tenant_id e = tenantId \<and> effect_state e = E_ADMITTED"

definition update_effects_in ::
  "(kernel_db \<Rightarrow> effect_row \<Rightarrow> bool) \<Rightarrow> (effect_row \<Rightarrow> effect_row) \<Rightarrow> effect_row list ktx" where
  "update_effects_in P f = (\<lambda>db. update_effects (P db) f db)"

definition finish_effect :: "kernel_env \<Rightarrow> effect_state \<Rightarrow> json \<Rightarrow> effect_row \<Rightarrow> effect_row" where
  "finish_effect env state response e = e\<lparr>effect_state := state, effect_response := Some response,
     effect_completed_at := Some (db_now env)\<rparr>"

definition completeEffectInTransaction ::
  "kernel_env \<Rightarrow> string \<Rightarrow> string \<Rightarrow> lease_ref \<Rightarrow> json \<Rightarrow> string \<Rightarrow> kernel_effect option ktx" where
  "completeEffectInTransaction env effectId tenantId lease response actor =
     bind_tx (update_effects_in (\<lambda>db e. admitted_effect_row effectId tenantId e \<and> under_lease env db lease e)
       (finish_effect env E_COMPLETED response)) (\<lambda>first.
     bind_tx (if first \<noteq> [] then return_tx first
       else update_effects_in (\<lambda>db e. admitted_effect_row effectId tenantId e \<and> under_compensation db lease e)
         (finish_effect env E_COMPLETED response)) (\<lambda>rows.
     case rows of [] \<Rightarrow> return_tx None
     | row # _ \<Rightarrow>
       bind_tx (appendEvent env (kernel_event ''effect'' (effect_id row) 2 ''effect.completed'' tenantId
         (effect_run_id row) (Some (effect_step_id row)) actor [])) (\<lambda>_. return_tx (Some (fromEffect row)))))"

definition completeEffect ::
  "kernel_env \<Rightarrow> string \<Rightarrow> string \<Rightarrow> lease_ref \<Rightarrow> json \<Rightarrow> string \<Rightarrow> kernel_effect option ktx" where
  "completeEffect env effectId tenantId lease response actor =
     withTransaction env (completeEffectInTransaction env effectId tenantId lease response actor) [tenantId]"

definition completeEffectWithEvidence ::
  "kernel_env \<Rightarrow> string \<Rightarrow> string \<Rightarrow> lease_ref \<Rightarrow> json \<Rightarrow> string \<Rightarrow> evidence_row \<Rightarrow> kernel_effect option ktx" where
  "completeEffectWithEvidence env effectId tenantId lease response actor receipt = withTransaction env (
     bind_tx (completeEffectInTransaction env effectId tenantId lease response actor) (\<lambda>completed.
     case completed of None \<Rightarrow> return_tx None
     | Some effect \<Rightarrow>
       bind_tx (assertEvidenceRecordBoundToEffect receipt effect) (\<lambda>_.
       bind_tx (appendEvidenceInTransaction receipt) (\<lambda>_. return_tx (Some effect))))) [tenantId]"

record fail_effect =
  fe_effectId :: string
  fe_tenantId :: string
  fe_lease :: lease_ref
  fe_error :: step_failure
  fe_actor :: string

definition failEffectRow :: "kernel_env \<Rightarrow> fail_effect \<Rightarrow> effect_row list ktx" where
  "failEffectRow env request =
     update_effects_in (\<lambda>db e. admitted_effect_row (fe_effectId request) (fe_tenantId request) e \<and>
         under_lease env db (fe_lease request) e)
       (finish_effect env E_FAILED (failure_json (fe_error request)))"

definition effectFailed :: "kernel_env \<Rightarrow> fail_effect \<Rightarrow> effect_row \<Rightarrow> unit ktx" where
  "effectFailed env request row =
     appendEvent env (kernel_event ''effect'' (effect_id row) 2 ''effect.failed'' (fe_tenantId request)
       (effect_run_id row) (Some (effect_step_id row)) (fe_actor request)
       [(''error'', failure_json (fe_error request))])"

definition failEffect :: "kernel_env \<Rightarrow> fail_effect \<Rightarrow> kernel_effect option ktx" where
  "failEffect env request = withTransaction env (
     bind_tx (failEffectRow env request) (\<lambda>rows. case rows of [] \<Rightarrow> return_tx None
     | row # _ \<Rightarrow>
       bind_tx (effectFailed env request row) (\<lambda>_. return_tx (Some (fromEffect row))))) [fe_tenantId request]"

definition failEffectWithEvidence :: "kernel_env \<Rightarrow> fail_effect \<Rightarrow> evidence_row \<Rightarrow> kernel_effect option ktx" where
  "failEffectWithEvidence env request receipt = withTransaction env (
     bind_tx (failEffectRow env request) (\<lambda>rows. case rows of [] \<Rightarrow> return_tx None
     | row # _ \<Rightarrow>
       bind_tx (assertEvidenceRecordBoundToEffect receipt (fromEffect row)) (\<lambda>_.
       bind_tx (appendEvidenceInTransaction receipt) (\<lambda>_.
       bind_tx (effectFailed env request row) (\<lambda>_. return_tx (Some (fromEffect row))))))) [fe_tenantId request]"

section \<open>Unknown outcomes\<close>

record mark_unknown =
  mu_effectId :: string
  mu_tenantId :: string
  mu_reason :: string
  mu_actor :: string
  mu_governedActionDeadlineAt :: "iso_text option"
  mu_lease :: "lease_ref option"

text \<open>The predicate that is added when the caller names its lease.\<close>

definition mark_lease_predicate :: "kernel_env \<Rightarrow> mark_unknown \<Rightarrow> kernel_db \<Rightarrow> effect_row \<Rightarrow> bool" where
  "mark_lease_predicate env request db e = (case mu_lease request of None \<Rightarrow> True
     | Some lease \<Rightarrow>
         exists_row (\<lambda>r. is_run (effect_run_id e) (effect_tenant_id e) r \<and> run_state r = R_RUNNING) (t_runs db) \<and>
         under_lease env db lease e)"

definition unknown_reconcile :: "reconcile_policy \<Rightarrow> time \<Rightarrow> reconcile_columns" where
  "unknown_reconcile policy unknownAt =
     \<lparr>rc_attempts = 0, rc_max_attempts = Some (maxAttempts policy),
      rc_initial_delay_ms = Some (initialDelayMs policy), rc_max_delay_ms = Some (maxDelayMs policy),
      rc_deadline_at = (case deadlineAt policy of Iso t \<Rightarrow> Some t | NotIso _ \<Rightarrow> None),
      rc_disposition = Some D_PENDING, rc_after = Some unknownAt, rc_observed_at = None,
      rc_claim_token = None, rc_claim_expires_at = None, rc_claimed_at = None,
      rc_claim_worker_id = None, rc_claim_worker_generation = None, rc_last_error = None,
      rc_escalated_at = None, rc_escalation_code = None\<rparr>"

definition unknown_effect_row :: "mark_unknown \<Rightarrow> reconcile_policy \<Rightarrow> time \<Rightarrow> effect_row \<Rightarrow> effect_row" where
  "unknown_effect_row request policy unknownAt e =
     e\<lparr>effect_state := E_COMPLETION_UNKNOWN,
       effect_response := Some (JObj [(''completionUnknownReason'', JStr (mu_reason request))]),
       effect_governed_deadline := (case mu_governedActionDeadlineAt request of Some (Iso t) \<Rightarrow> Some t | _ \<Rightarrow> None),
       effect_reconcile := unknown_reconcile policy unknownAt\<rparr>"

text \<open>Sending the RUNNING step of an effect to wait for reconciliation, and its slot back.\<close>

definition waitForReconciliation :: "time \<Rightarrow> string \<Rightarrow> string \<Rightarrow> string \<Rightarrow> unit ktx" where
  "waitForReconciliation unknownAt stepId runId tenantId =
     bind_tx (update_steps (\<lambda>s. step_id s = stepId \<and> in_run runId tenantId s \<and> step_state s = S_RUNNING)
       (\<lambda>s. s\<lparr>step_state := S_WAITING_FOR_RECONCILIATION, step_version := step_version s + 1,
              step_lease_worker_id := None, step_lease_worker_generation := 0,
              step_lease_token := None, step_lease_expires_at := None,
              step_updated_at := unknownAt\<rparr>)) (\<lambda>releasedStep.
     when_tx (length releasedStep = 1) (update_usage (\<lambda>u. usage_tenant_id u = tenantId)
       (\<lambda>u. u\<lparr>usage_running_steps := max 0 (usage_running_steps u - 1), usage_updated_at := unknownAt\<rparr>)))"

definition markEffectCompletionUnknown :: "kernel_env \<Rightarrow> mark_unknown \<Rightarrow> kernel_effect option ktx" where
  "markEffectCompletionUnknown env request = withTransaction env (
     let unknownAt = client_now env in
     case createReconcilePolicy (Iso unknownAt) (mu_governedActionDeadlineAt request) None of
       Inl message \<Rightarrow> throw_tx (JsError message)
     | Inr policy \<Rightarrow>
         bind_tx (update_effects_in (\<lambda>db e. admitted_effect_row (mu_effectId request) (mu_tenantId request) e \<and>
             mark_lease_predicate env request db e) (unknown_effect_row request policy unknownAt)) (\<lambda>rows.
         case rows of [] \<Rightarrow> return_tx None
         | row # _ \<Rightarrow>
           bind_tx (waitForReconciliation unknownAt (effect_step_id row) (effect_run_id row) (mu_tenantId request)) (\<lambda>_.
           bind_tx (appendEvent env (kernel_event ''effect'' (effect_id row) 2 ''effect.completion_unknown''
             (effect_tenant_id row) (effect_run_id row) (Some (effect_step_id row)) (mu_actor request)
             [(''reason'', JStr (mu_reason request))])) (\<lambda>_. return_tx (Some (fromEffect row))))))
     [mu_tenantId request]"

definition getEffect :: "kernel_env \<Rightarrow> string \<Rightarrow> string \<Rightarrow> kernel_effect option ktx" where
  "getEffect env effectId tenantId = withTransaction env (query_tx (\<lambda>db. map_option fromEffect
     (first_row (\<lambda>e. effect_id e = effectId \<and> effect_tenant_id e = tenantId) (t_effects db)))) [tenantId]"

definition listEffectsForRun :: "kernel_env \<Rightarrow> string \<Rightarrow> string \<Rightarrow> kernel_effect list ktx" where
  "listEffectsForRun env runId tenantId = withTransaction env (query_tx (\<lambda>db. map fromEffect
     (sort_key (\<lambda>e. (effect_created_at e, effect_id e))
       (filter (\<lambda>e. effect_run_id e = runId \<and> effect_tenant_id e = tenantId) (t_effects db))))) [tenantId]"

definition listEvents :: "kernel_env \<Rightarrow> string \<Rightarrow> string \<Rightarrow> event_row list ktx" where
  "listEvents env runId tenantId = withTransaction env (query_tx (\<lambda>db.
     sort_key (\<lambda>e. (event_occurred_at e, event_sequence e))
       (filter (\<lambda>e. event_run_id e = runId \<and> event_tenant_id e = tenantId) (t_events db)))) [tenantId]"

section \<open>Reconciliation\<close>

datatype reconciled_state = Reconciled_COMPLETED | Reconciled_FAILED

record reconcile_effect =
  re_effectId :: string
  re_tenantId :: string
  re_state :: reconciled_state
  re_response :: json
  re_actor :: string

definition reconcileEffect :: "kernel_env \<Rightarrow> reconcile_effect \<Rightarrow> kernel_effect option ktx" where
  "reconcileEffect env request = withTransaction env (
     bind_tx (update_effects (\<lambda>e. effect_id e = re_effectId request \<and> effect_tenant_id e = re_tenantId request \<and>
         effect_state e = E_COMPLETION_UNKNOWN)
       (finish_effect env (case re_state request of Reconciled_COMPLETED \<Rightarrow> E_COMPLETED | Reconciled_FAILED \<Rightarrow> E_FAILED)
         (re_response request))) (\<lambda>rows. case rows of [] \<Rightarrow> return_tx None
     | row # _ \<Rightarrow>
       bind_tx (appendEvent env (kernel_event ''effect'' (effect_id row) 3
         (case re_state request of Reconciled_COMPLETED \<Rightarrow> ''effect.reconciled_completed''
          | Reconciled_FAILED \<Rightarrow> ''effect.reconciled_failed'')
         (effect_tenant_id row) (effect_run_id row) (Some (effect_step_id row)) (re_actor request) []))
         (\<lambda>_. return_tx (Some (fromEffect row))))) [re_tenantId request]"

record claim_reconcile =
  cl_limit :: int
  cl_now :: "time option"
  cl_claimTtlMs :: "int option"

definition reconcile_ready :: "time \<Rightarrow> effect_row \<Rightarrow> bool" where
  "reconcile_ready at e \<longleftrightarrow> effect_state e = E_COMPLETION_UNKNOWN \<and>
     rc_escalated_at (effect_reconcile e) = None \<and>
     (case rc_after (effect_reconcile e) of None \<Rightarrow> False | Some t \<Rightarrow> t \<le> at) \<and>
     (case rc_claim_expires_at (effect_reconcile e) of None \<Rightarrow> True | Some t \<Rightarrow> t < at)"

definition reconcile_candidates :: "time \<Rightarrow> int \<Rightarrow> kernel_db \<Rightarrow> effect_row list" where
  "reconcile_candidates at limit db = order_limit (\<lambda>e. or_else (rc_after (effect_reconcile e)) 0) (nat limit)
     (filter (reconcile_ready at) (t_effects db))"

definition claimReconcileEffects :: "kernel_env \<Rightarrow> claim_reconcile \<Rightarrow> (kernel_effect \<times> string) list ktx" where
  "claimReconcileEffects env input =
     (let at = or_else (cl_now input) (client_now env); claimTtlMs = or_else (cl_claimTtlMs input) 60000 in
      withTransaction env (
      bind_tx (randomUUID env) (\<lambda>claimToken.
      bind_tx (query_tx (\<lambda>db. map effect_id (reconcile_candidates at (cl_limit input) db))) (\<lambda>candidates.
      bind_tx (update_effects (\<lambda>e. effect_id e \<in> set candidates)
        (\<lambda>e. e\<lparr>effect_reconcile := (effect_reconcile e)\<lparr>rc_claim_token := Some claimToken,
               rc_claim_expires_at := Some (at + claimTtlMs), rc_claimed_at := Some at,
               rc_claim_worker_id := Some ''scheduler'', rc_claim_worker_generation := Some 1\<rparr>\<rparr>)) (\<lambda>rows.
      return_tx (map (\<lambda>row. (fromEffect row, claimToken)) rows))))) [])"

definition claimed_unknown :: "string \<Rightarrow> string \<Rightarrow> string \<Rightarrow> effect_row \<Rightarrow> bool" where
  "claimed_unknown effectId tenantId claimToken e \<longleftrightarrow> effect_id e = effectId \<and> effect_tenant_id e = tenantId \<and>
     effect_state e = E_COMPLETION_UNKNOWN \<and> rc_claim_token (effect_reconcile e) = Some claimToken"

definition rescheduleReconcile ::
  "kernel_env \<Rightarrow> string \<Rightarrow> string \<Rightarrow> string \<Rightarrow> time \<Rightarrow> json option \<Rightarrow> bool ktx" where
  "rescheduleReconcile env effectId tenantId claimToken reconcileAfter lastError = withTransaction env (
     bind_tx (update_effects (claimed_unknown effectId tenantId claimToken)
       (\<lambda>e. e\<lparr>effect_reconcile := (effect_reconcile e)\<lparr>rc_attempts := rc_attempts (effect_reconcile e) + 1,
              rc_after := Some reconcileAfter, rc_claim_token := None, rc_claim_expires_at := None,
              rc_last_error := (case lastError of None \<Rightarrow> rc_last_error (effect_reconcile e) | Some j \<Rightarrow> Some j)\<rparr>\<rparr>))
       (\<lambda>rows. return_tx (length rows = 1))) [tenantId]"

definition escalateReconcile :: "kernel_env \<Rightarrow> string \<Rightarrow> string \<Rightarrow> string \<Rightarrow> string \<Rightarrow> bool ktx" where
  "escalateReconcile env effectId tenantId claimToken reason = withTransaction env (
     bind_tx (update_effects (claimed_unknown effectId tenantId claimToken)
       (\<lambda>e. e\<lparr>effect_reconcile := (effect_reconcile e)\<lparr>rc_escalated_at := Some (db_now env),
              rc_claim_token := None, rc_claim_expires_at := None,
              rc_last_error := Some (JObj [(''code'', JStr ''RECONCILE_ESCALATED''), (''message'', JStr reason)])\<rparr>\<rparr>))
       (\<lambda>rows. case rows of [] \<Rightarrow> return_tx False
        | row # _ \<Rightarrow>
          bind_tx (appendEvent env (kernel_event ''effect'' (effect_id row) (100 + rc_attempts (effect_reconcile row))
            ''effect.reconcile_escalated'' (effect_tenant_id row) (effect_run_id row) (Some (effect_step_id row))
            ''reconciliation-daemon'' [(''reason'', JStr reason)])) (\<lambda>_. return_tx True))) [tenantId]"

definition releaseReconcileClaim :: "kernel_env \<Rightarrow> string \<Rightarrow> string \<Rightarrow> string \<Rightarrow> bool ktx" where
  "releaseReconcileClaim env effectId tenantId claimToken = withTransaction env (
     bind_tx (update_effects (\<lambda>e. effect_id e = effectId \<and> effect_tenant_id e = tenantId \<and>
         rc_claim_token (effect_reconcile e) = Some claimToken)
       (\<lambda>e. e\<lparr>effect_reconcile := (effect_reconcile e)\<lparr>rc_claim_token := None, rc_claim_expires_at := None\<rparr>\<rparr>))
       (\<lambda>rows. return_tx (length rows = 1))) [tenantId]"

section \<open>The invariant\<close>

lemma insert_effect_Inr [tx]: "insert_effect row db = Inr (r, db') \<longleftrightarrow>
    db' = db\<lparr>t_effects := t_effects db @ [row]\<rparr> \<and> (\<forall>e \<in> set (t_effects db). effect_id e \<noteq> effect_id row \<and>
      \<not> (effect_tenant_id e = effect_tenant_id row \<and> effect_idempotency_key e = effect_idempotency_key row))"
  by (auto simp: insert_effect_def)

lemma update_effects_in_Inr [tx]: "update_effects_in P f db = Inr (rows, db') \<longleftrightarrow>
    rows = updated_rows (P db) f (t_effects db) \<and> db' = db\<lparr>t_effects := update_where (P db) f (t_effects db)\<rparr>"
  by (auto simp: update_effects_in_def tx)

lemma insert_effect_frame [frame]:
  "(\<And>rows db. v (db\<lparr>t_effects := rows\<rparr>) = v db) \<Longrightarrow> unchanged v (insert_effect row)"
  by (simp add: unchanged_def tx)

lemma update_effects_in_frame [frame]:
  "(\<And>rows db. v (db\<lparr>t_effects := rows\<rparr>) = v db) \<Longrightarrow> unchanged v (update_effects_in P f)"
  by (simp add: unchanged_def tx)

lemma safe_effect_statements [frame]:
  "keeps (safe d X db0) (insert_effect row)" "keeps (safe d X db0) (update_effects_in P f)"
  "keeps (safe d X db0) (appendEvidenceInTransaction receipt)"
  by (intro keeps_safe_core frame; simp add: core_def)+

lemma safe_waitForReconciliation:
  "keeps (safe no_debt X db0) (waitForReconciliation unknownAt stepId runId tenantId)"
proof -
  let ?P = "\<lambda>s. step_id s = stepId \<and> in_run runId tenantId s \<and> step_state s = S_RUNNING"
  let ?f = "\<lambda>s. s\<lparr>step_state := S_WAITING_FOR_RECONCILIATION, step_version := step_version s + 1,
              step_lease_worker_id := None, step_lease_worker_generation := 0,
              step_lease_token := None, step_lease_expires_at := None,
              step_updated_at := unknownAt\<rparr> :: step_row"
  let ?env = "(undefined :: kernel_env)\<lparr>db_now := unknownAt\<rparr>"
  have back_slot: "update_usage (\<lambda>u. usage_tenant_id u = tenantId)
       (\<lambda>u. u\<lparr>usage_running_steps := max 0 (usage_running_steps u - 1), usage_updated_at := unknownAt\<rparr>)
     = releaseTenantSlot ?env tenantId"
    by (simp add: releaseTenantSlot_def)
  have leaves: "triple (safe no_debt X db0) (update_steps ?P ?f) (\<lambda>rows db. (rows = [] \<and> safe no_debt X db0 db) \<or>
     (\<exists>s. ?P s \<and> rows = [?f s] \<and>
        safe (no_debt(step_tenant_id (?f s) := no_debt (step_tenant_id (?f s)) + 1)) X db0 db))"
    by (rule triple_step_leaves [where k = stepId]) (auto simp: step_evolves_def lease_matches_def intro!: step_path_step)
  have rest: "triple (\<lambda>db. (rows = [] \<and> safe no_debt X db0 db) \<or> (\<exists>s. ?P s \<and> rows = [?f s] \<and>
        safe (no_debt(step_tenant_id (?f s) := no_debt (step_tenant_id (?f s)) + 1)) X db0 db))
      (when_tx (length rows = 1) (releaseTenantSlot ?env tenantId)) (\<lambda>_. safe no_debt X db0)" for rows
  proof (cases "length rows = 1")
    case True
    have "triple (safe (no_debt(tenantId := no_debt tenantId + 1)) X db0) (releaseTenantSlot ?env tenantId)
        (\<lambda>_. safe no_debt X db0)" by (rule triple_give_back [OF debt_none])
    then show ?thesis
      unfolding when_tx_def if_P [OF True] by (rule triple_pre) (use True in \<open>auto simp: in_run_def\<close>)
  next
    case False
    then show ?thesis by (auto simp: when_tx_def triple_def tx)
  qed
  show ?thesis
    unfolding waitForReconciliation_def back_slot keeps_triple by (rule triple_bind [OF leaves rest])
qed

lemma safe_markEffectCompletionUnknown: "keeps (safe no_debt X db0) (markEffectCompletionUnknown env request)"
  unfolding markEffectCompletionUnknown_def Let_def by (intro frame safe_waitForReconciliation)

lemma safe_admitEffect: "keeps (safe d X db0) (admitEffect env request)"
  unfolding admitEffect_def admitEffectEmbedded_def Let_def by (intro frame)

lemma safe_completeEffect: "keeps (safe d X db0) (completeEffect env e t l r a)"
  unfolding completeEffect_def completeEffectInTransaction_def by (intro frame)

lemma safe_completeEffectWithEvidence: "keeps (safe d X db0) (completeEffectWithEvidence env e t l r a receipt)"
  unfolding completeEffectWithEvidence_def completeEffectInTransaction_def by (intro frame)

lemma safe_failEffect: "keeps (safe d X db0) (failEffect env request)"
  unfolding failEffect_def failEffectRow_def effectFailed_def by (intro frame)

lemma safe_failEffectWithEvidence: "keeps (safe d X db0) (failEffectWithEvidence env request receipt)"
  unfolding failEffectWithEvidence_def failEffectRow_def effectFailed_def by (intro frame)

lemma safe_reconcile:
  "keeps (safe d X db0) (reconcileEffect env rq)" "keeps (safe d X db0) (claimReconcileEffects env input)"
  "keeps (safe d X db0) (rescheduleReconcile env e t c at err)"
  "keeps (safe d X db0) (escalateReconcile env e t c reason)"
  "keeps (safe d X db0) (releaseReconcileClaim env e t c)"
  unfolding reconcileEffect_def claimReconcileEffects_def rescheduleReconcile_def escalateReconcile_def
    releaseReconcileClaim_def Let_def
  by (intro frame)+

lemmas effect_operations_safe =
  safe_admitEffect safe_completeEffect safe_completeEffectWithEvidence safe_failEffect
  safe_failEffectWithEvidence safe_markEffectCompletionUnknown safe_reconcile

end
