(* ===== verification/Kernel_Control.thy ===== *)
theory Kernel_Control
  imports Kernel_Steps
begin

text \<open>
  Pausing, resuming and cancelling a run, and pausing and resuming a tenant: \<open>pauseRun\<close>,
  \<open>resumeRun\<close>, \<open>cancelRun\<close>, \<open>pauseTenant\<close>, \<open>resumeTenant\<close> and \<open>getTenantExecutionControl\<close> of
  \<open>postgres.ts\<close>.
\<close>

section \<open>Runs\<close>

definition pauseRun :: "kernel_env \<Rightarrow> string \<Rightarrow> string \<Rightarrow> string \<Rightarrow> run_row option ktx" where
  "pauseRun env runId tenantId actor = withTransaction env (
     bind_tx (lockRunState runId tenantId) (\<lambda>previous. case previous of None \<Rightarrow> return_tx None
     | Some previousRunState \<Rightarrow>
     if previousRunState \<notin> {R_PENDING, R_RUNNING} then return_tx None
     else
     bind_tx (assertRunTransition previousRunState R_PAUSED) (\<lambda>_.
     bind_tx (update_runs (\<lambda>r. is_run runId tenantId r \<and> run_state r \<in> {R_PENDING, R_RUNNING})
       (\<lambda>r. r\<lparr>run_state := R_PAUSED, run_version := run_version r + 1, run_updated_at := db_now env,
              run_paused_at := Some (db_now env)\<rparr>)) (\<lambda>runs.
     case runs of [] \<Rightarrow> return_tx None
     | run # _ \<Rightarrow>
     bind_tx (assertStepTransition S_RUNNING S_RETRY_WAIT) (\<lambda>_.
     bind_tx (update_steps (\<lambda>s. in_run runId tenantId s \<and> step_state s = S_RUNNING)
       (\<lambda>s. s\<lparr>step_state := S_RETRY_WAIT, step_version := step_version s + 1,
              step_updated_at := db_now env, step_lease_worker_id := None,
              step_lease_token := None, step_lease_expires_at := None\<rparr>)) (\<lambda>pausedSteps.
     bind_tx (forM_tx pausedSteps (\<lambda>row.
       bind_tx (releaseTenantSlot env (step_tenant_id row)) (\<lambda>_.
       bind_tx (parkOrphanAdmittedEffects env (step_id row) (step_tenant_id row) (step_run_id row)
         ''run_paused'' actor) (\<lambda>_.
       appendEvent env (kernel_event ''step'' (step_id row) (step_version row) ''step.paused''
         (step_tenant_id row) (step_run_id row) (Some (step_id row)) actor
         [(''previousState'', JStr ''RUNNING'')]))))) (\<lambda>_.
     bind_tx (appendEvent env (kernel_event ''run'' (run_id run) (run_version run) ''run.paused''
       tenantId runId None actor [])) (\<lambda>_. return_tx (Some run)))))))) ) [tenantId]"

definition resumeRun :: "kernel_env \<Rightarrow> string \<Rightarrow> string \<Rightarrow> string \<Rightarrow> run_row option ktx" where
  "resumeRun env runId tenantId actor = withTransaction env (
     bind_tx (lockRunState runId tenantId) (\<lambda>previous. case previous of None \<Rightarrow> return_tx None
     | Some previousRunState \<Rightarrow>
     if previousRunState \<noteq> R_PAUSED then return_tx None
     else
     bind_tx (assertRunTransition previousRunState R_RUNNING) (\<lambda>_.
     bind_tx (update_runs (\<lambda>r. is_run runId tenantId r \<and> run_state r = R_PAUSED)
       (\<lambda>r. r\<lparr>run_state := R_RUNNING, run_version := run_version r + 1, run_updated_at := db_now env,
              run_paused_at := None\<rparr>)) (\<lambda>runs.
     case runs of [] \<Rightarrow> return_tx None
     | run # _ \<Rightarrow>
     bind_tx (appendEvent env (kernel_event ''run'' (run_id run) (run_version run) ''run.resumed''
       tenantId runId None actor [])) (\<lambda>_. return_tx (Some run)))))) [tenantId]"

definition cancelled_step :: "kernel_env \<Rightarrow> step_row \<Rightarrow> step_row" where
  "cancelled_step env s = s\<lparr>step_state := S_CANCELLED, step_version := step_version s + 1,
     step_updated_at := db_now env, step_lease_worker_id := None, step_lease_token := None,
     step_lease_expires_at := None\<rparr>"

definition cancelRun :: "kernel_env \<Rightarrow> string \<Rightarrow> string \<Rightarrow> string \<Rightarrow> run_row option ktx" where
  "cancelRun env runId tenantId actor = withTransaction env (
     bind_tx (lockRunState runId tenantId) (\<lambda>previous. case previous of None \<Rightarrow> return_tx None
     | Some previousRunState \<Rightarrow>
     if previousRunState \<notin> {R_PENDING, R_RUNNING, R_PAUSED} then return_tx None
     else
     bind_tx (assertRunTransition previousRunState R_CANCELLED) (\<lambda>_.
     bind_tx (lockStepStates runId tenantId) (\<lambda>previousSteps.
     bind_tx (forM_tx previousSteps (\<lambda>(_, state).
        when_tx (step_open state) (assertStepTransition state S_CANCELLED))) (\<lambda>_.
     bind_tx (update_runs (\<lambda>r. is_run runId tenantId r \<and> run_state r \<in> {R_PENDING, R_RUNNING, R_PAUSED})
       (\<lambda>r. r\<lparr>run_state := R_CANCELLED, run_version := run_version r + 1, run_updated_at := db_now env,
              run_terminal_at := Some (db_now env)\<rparr>)) (\<lambda>runs.
     case runs of [] \<Rightarrow> return_tx None
     | run # _ \<Rightarrow>
     bind_tx (update_steps (\<lambda>s. in_run runId tenantId s \<and> step_open (step_state s)) (cancelled_step env)) (\<lambda>cancelled.
     bind_tx (forM_tx cancelled (\<lambda>row.
       bind_tx (when_tx (map_of previousSteps (step_id row) = Some S_RUNNING) (releaseTenantSlot env tenantId)) (\<lambda>_.
       bind_tx (parkOrphanAdmittedEffects env (step_id row) (step_tenant_id row) (step_run_id row)
         ''run_cancelled'' actor) (\<lambda>_.
       appendEvent env (kernel_event ''step'' (step_id row) (step_version row) ''step.cancelled''
         (step_tenant_id row) (step_run_id row) (Some (step_id row)) actor
         (case map_of previousSteps (step_id row) of None \<Rightarrow> []
          | Some p \<Rightarrow> [(''previousState'', JStr (step_state_text p))])))))) (\<lambda>_.
     bind_tx (appendEvent env (kernel_event ''run'' (run_id run) (run_version run) ''run.cancelled''
       tenantId runId None actor [])) (\<lambda>_. return_tx (Some run)))))))) )) [tenantId]"

section \<open>Tenants\<close>

definition upsert_control ::
  "kernel_env \<Rightarrow> string \<Rightarrow> control_row \<Rightarrow> (control_row \<Rightarrow> control_row) \<Rightarrow> control_row list ktx" where
  "upsert_control env tenantId fresh f = (\<lambda>db.
     if exists_row (\<lambda>c. control_tenant_id c = tenantId) (t_control db)
     then Inr (updated_rows (\<lambda>c. control_tenant_id c = tenantId) f (t_control db),
               db\<lparr>t_control := update_where (\<lambda>c. control_tenant_id c = tenantId) f (t_control db)\<rparr>)
     else Inr ([fresh], db\<lparr>t_control := t_control db @ [fresh]\<rparr>))"

definition reason_payload :: "string option \<Rightarrow> (string \<times> json) list" where
  "reason_payload reason = (case reason of None \<Rightarrow> [] | Some r \<Rightarrow> [(''reason'', JStr r)])"

definition takeSlots :: "kernel_env \<Rightarrow> string \<Rightarrow> int \<Rightarrow> unit ktx" where
  "takeSlots env tenantId n = update_usage (\<lambda>u. usage_tenant_id u = tenantId)
     (\<lambda>u. u\<lparr>usage_running_steps := max 0 (usage_running_steps u - n), usage_updated_at := db_now env\<rparr>)"

definition pauseTenant :: "kernel_env \<Rightarrow> string \<Rightarrow> string \<Rightarrow> string option \<Rightarrow> control_row option ktx" where
  "pauseTenant env tenantId actor reason = withTransaction env (
     bind_tx (upsert_control env tenantId
       \<lparr>control_tenant_id = tenantId, control_paused = True, control_generation = 1,
        control_actor = actor, control_reason = reason, control_paused_at = Some (db_now env),
        control_resumed_at = None, control_updated_at = db_now env\<rparr>
       (\<lambda>c. c\<lparr>control_paused := True, control_generation := control_generation c + 1,
              control_actor := actor, control_reason := reason,
              control_paused_at := Some (db_now env), control_resumed_at := None,
              control_updated_at := db_now env\<rparr>)) (\<lambda>controls.
     bind_tx (assertStepTransition S_RUNNING S_RETRY_WAIT) (\<lambda>_.
     bind_tx (update_steps (\<lambda>s. step_tenant_id s = tenantId \<and> step_state s = S_RUNNING)
       (\<lambda>s. s\<lparr>step_state := S_RETRY_WAIT, step_scheduled_at := db_now env,
              step_version := step_version s + 1, step_updated_at := db_now env,
              step_lease_worker_id := None, step_lease_worker_generation := 0,
              step_lease_token := None, step_lease_expires_at := None\<rparr>)) (\<lambda>affected.
     bind_tx (when_tx (affected \<noteq> []) (takeSlots env tenantId (int (length affected)))) (\<lambda>_.
     bind_tx (forM_tx affected (\<lambda>row.
       bind_tx (parkOrphanAdmittedEffects env (step_id row) (step_tenant_id row) (step_run_id row)
         ''tenant_paused'' actor) (\<lambda>_.
       appendEvent env (kernel_event ''step'' (step_id row) (step_version row) ''step.tenant_paused''
         tenantId (step_run_id row) (Some (step_id row)) actor (reason_payload reason))))) (\<lambda>_.
     case controls of [] \<Rightarrow> return_tx None
     | control # _ \<Rightarrow>
       bind_tx (appendEvent env (kernel_event ''tenant'' tenantId (control_generation control)
         ''tenant.paused'' tenantId (''tenant:'' @ tenantId) None actor (reason_payload reason)))
         (\<lambda>_. return_tx (Some control)))))))) [tenantId]"

definition resumeTenant :: "kernel_env \<Rightarrow> string \<Rightarrow> string \<Rightarrow> control_row option ktx" where
  "resumeTenant env tenantId actor = withTransaction env (
     bind_tx (upsert_control env tenantId
       \<lparr>control_tenant_id = tenantId, control_paused = False, control_generation = 1,
        control_actor = actor, control_reason = None, control_paused_at = None,
        control_resumed_at = Some (db_now env), control_updated_at = db_now env\<rparr>
       (\<lambda>c. c\<lparr>control_paused := False, control_generation := control_generation c + 1,
              control_actor := actor, control_reason := None,
              control_resumed_at := Some (db_now env), control_updated_at := db_now env\<rparr>)) (\<lambda>controls.
     case controls of [] \<Rightarrow> return_tx None
     | control # _ \<Rightarrow>
       bind_tx (appendEvent env (kernel_event ''tenant'' tenantId (control_generation control)
         ''tenant.resumed'' tenantId (''tenant:'' @ tenantId) None actor []))
         (\<lambda>_. return_tx (Some control)))) [tenantId]"

record tenant_control =
  tc_tenantId :: string
  tc_paused :: bool
  tc_generation :: int
  tc_actor :: string
  tc_reason :: "string option"
  tc_pausedAt :: "time option"
  tc_resumedAt :: "time option"

definition fromTenantExecutionControl :: "control_row \<Rightarrow> tenant_control" where
  "fromTenantExecutionControl row =
     \<lparr>tc_tenantId = control_tenant_id row, tc_paused = control_paused row,
      tc_generation = control_generation row, tc_actor = control_actor row,
      tc_reason = control_reason row, tc_pausedAt = control_paused_at row,
      tc_resumedAt = control_resumed_at row\<rparr>"

definition getTenantExecutionControl :: "kernel_env \<Rightarrow> string \<Rightarrow> tenant_control ktx" where
  "getTenantExecutionControl env tenantId = withTransaction env (query_tx (\<lambda>db.
     case first_row (\<lambda>c. control_tenant_id c = tenantId) (t_control db) of
       Some row \<Rightarrow> fromTenantExecutionControl row
     | None \<Rightarrow> \<lparr>tc_tenantId = tenantId, tc_paused = False, tc_generation = 0, tc_actor = ''kernel'',
                tc_reason = None, tc_pausedAt = None, tc_resumedAt = None\<rparr>)) [tenantId]"

section \<open>The invariant\<close>

lemma triple_locked:
  "triple (safe d X db0) (lockRunState runId tenantId) (\<lambda>previous db. safe d X db0 db \<and>
     previous = map_option run_state (first_row (is_run runId tenantId) (t_runs db)))"
  by (simp add: lockRunState_def triple_def tx)

text \<open>
  The run moves from the state that was read; what the caller does next must bring the steps in
  line (\<open>runId\<close> is exempt until then).
\<close>

lemma triple_move_locked_run:
  assumes P: "\<And>r. P r \<Longrightarrow> is_run runId tenantId r"
    and f: "\<And>r. run_id (f r) = run_id r \<and> run_tenant_id (f r) = run_tenant_id r \<and>
      run_state (f r) = target \<and> run_version r \<le> run_version (f r)"
    and target: "target \<in> set (RUN_TRANSITIONS p)"
    and cover: "\<And>r. is_run runId tenantId r \<Longrightarrow> run_state r = p \<Longrightarrow> P r"
  shows "triple (\<lambda>db. safe d X db0 db \<and> Some p = map_option run_state (first_row (is_run runId tenantId) (t_runs db)) \<and> Q (t_steps db))
     (update_runs P f)
     (\<lambda>rows db. (safe d (insert runId X) db0 db \<and> exists_row (is_run runId tenantId) (t_runs db) \<and> Q (t_steps db)) \<and>
        rows \<noteq> [])"
    (is "triple ?pre _ _")
proof (rule tripleI)
  fix db rows db' assume pre: "?pre db" and step: "update_runs P f db = Inr (rows, db')"
  then have db': "db' = db\<lparr>t_runs := update_where P f (t_runs db)\<rparr>" by (simp add: tx)
  obtain q where q: "first_row (is_run runId tenantId) (t_runs db) = Some q" "run_state q = p"
    using pre by (cases "first_row (is_run runId tenantId) (t_runs db)") auto
  have "exists_row (is_run runId tenantId) (t_runs db)" using first_row_Some [OF q(1)] by auto
  then have "exists_row (is_run runId tenantId) (update_where P f (t_runs db))"
    by (rule exists_run_update) (use f in simp)
  moreover have "safe d (insert runId X) db0 db'"
    unfolding db' by (rule safe_move_run [where target = target, OF _ q(1) _ P f]) (use pre q target in auto)
  moreover have "rows \<noteq> []"
    using step first_row_Some [OF q(1)] cover [of q] q(2) by (auto simp: tx updated_rows_Nil_iff)
  ultimately show "(safe d (insert runId X) db0 db' \<and> exists_row (is_run runId tenantId) (t_runs db') \<and> Q (t_steps db')) \<and>
      rows \<noteq> []"
    using pre by (simp add: db')
qed

lemma triple_fact: "(b \<Longrightarrow> triple P m Q) \<Longrightarrow> triple (\<lambda>s. P s \<and> b) m Q"
  by (cases b) (simp_all add: triple_def)

lemma triple_run_moves:
  assumes P: "\<And>r. P r \<Longrightarrow> is_run runId tenantId r"
    and f: "\<And>r. run_id (f r) = run_id r \<and> run_tenant_id (f r) = run_tenant_id r \<and>
      run_state (f r) = target \<and> run_version r \<le> run_version (f r)"
    and cover: "\<And>r. is_run runId tenantId r \<Longrightarrow> run_state r = p \<Longrightarrow> P r"
    and rest: "\<And>run. triple (\<lambda>db. safe d (insert runId X) db0 db \<and>
      exists_row (is_run runId tenantId) (t_runs db) \<and> Q (t_steps db)) (rest run) (\<lambda>_. safe d X db0)"
  shows "triple (\<lambda>db. (safe d X db0 db \<and> Some p = map_option run_state (first_row (is_run runId tenantId) (t_runs db)) \<and> Q (t_steps db))
       \<and> target \<in> set (RUN_TRANSITIONS p))
     (bind_tx (update_runs P f) (\<lambda>runs. case runs of [] \<Rightarrow> return_tx x | run # _ \<Rightarrow> rest run)) (\<lambda>_. safe d X db0)"
proof (rule triple_fact)
  assume target: "target \<in> set (RUN_TRANSITIONS p)"
  have split: "triple (\<lambda>db. (safe d (insert runId X) db0 db \<and> exists_row (is_run runId tenantId) (t_runs db) \<and> Q (t_steps db)) \<and>
        runs \<noteq> []) (case runs of [] \<Rightarrow> return_tx x | run # _ \<Rightarrow> rest run) (\<lambda>_. safe d X db0)" for runs
    by (rule triple_fact, cases runs) (simp_all add: rest del: exists_row_iff)
  show "triple (\<lambda>db. safe d X db0 db \<and> Some p = map_option run_state (first_row (is_run runId tenantId) (t_runs db)) \<and> Q (t_steps db))
     (bind_tx (update_runs P f) (\<lambda>runs. case runs of [] \<Rightarrow> return_tx x | run # _ \<Rightarrow> rest run)) (\<lambda>_. safe d X db0)"
    by (rule triple_bind [OF triple_move_locked_run [where P = P, OF P f target cover] split])
qed

lemma triple_asserted_run: "triple P (assertRunTransition a b) (\<lambda>_ s. P s \<and> b \<in> set (RUN_TRANSITIONS a))"
  by (simp add: triple_def tx)

text \<open>Sending RUNNING steps back, each owing its slot.\<close>

lemma triple_send_back:
  assumes f: "\<And>s. step_state s = S_RUNNING \<Longrightarrow>
      step_evolves s (f s) \<and> lease_matches (f s) \<and> step_state (f s) \<noteq> S_RUNNING"
    and P: "\<And>s. P s \<Longrightarrow> step_state s = S_RUNNING"
  shows "triple (safe no_debt X db0) (update_steps P f) (\<lambda>rows db. safe (owing rows) X db0 db \<and>
     (\<forall>row \<in> set rows. \<exists>s. P s \<and> row = f s))"
proof (rule tripleI)
  fix db rows db' assume safe: "safe no_debt X db0 db" and step: "update_steps P f db = Inr (rows, db')"
  have fP: "step_evolves s (f s) \<and> lease_matches (f s) \<and> step_state (f s) \<noteq> S_RUNNING" if "P s" for s
    using f P that by blast
  have "safe (\<lambda>t. no_debt t + count_rows (\<lambda>s. P s \<and> running_in t s) (t_steps db)
      - count_rows (\<lambda>s. P s \<and> running_in t (f s)) (t_steps db)) X db0 (db\<lparr>t_steps := update_where P f (t_steps db)\<rparr>)"
    by (rule safe_update_steps [OF safe]) (use fP in auto)
  moreover have "(\<lambda>t. no_debt t + count_rows (\<lambda>s. P s \<and> running_in t s) (t_steps db)
      - count_rows (\<lambda>s. P s \<and> running_in t (f s)) (t_steps db)) = owing (updated_rows P f (t_steps db))"
  proof
    fix t
    have "count_rows (\<lambda>s. P s \<and> running_in t (f s)) (t_steps db) = 0"
      using fP by (auto simp: count_rows_zero running_in_def)
    moreover have "count_rows (\<lambda>s. P s \<and> running_in t s) (t_steps db) = count_rows (\<lambda>s. P s \<and> step_tenant_id (f s) = t) (t_steps db)"
      by (rule count_rows_cong) (use P fP in \<open>auto simp: running_in_def step_evolves_def\<close>)
    ultimately show "no_debt t + count_rows (\<lambda>s. P s \<and> running_in t s) (t_steps db)
      - count_rows (\<lambda>s. P s \<and> running_in t (f s)) (t_steps db) = owing (updated_rows P f (t_steps db)) t"
      by (simp add: owing_def count_updated_rows)
  qed
  ultimately show "safe (owing rows) X db0 db' \<and> (\<forall>row \<in> set rows. \<exists>s. P s \<and> row = f s)"
    using step by (auto simp: tx updated_rows_mem)
qed

lemma triple_send_back_run:
  assumes f: "\<And>s. step_state s = S_RUNNING \<Longrightarrow>
      step_evolves s (f s) \<and> lease_matches (f s) \<and> step_state (f s) \<noteq> S_RUNNING"
  shows "triple (\<lambda>db. safe no_debt (insert runId X) db0 db \<and> exists_row (is_run runId tenantId) (t_runs db))
     (update_steps (\<lambda>s. in_run runId tenantId s \<and> step_state s = S_RUNNING) f)
     (\<lambda>rows. safe (owing rows) X db0)" (is "triple ?pre (update_steps ?P f) _")
proof (rule tripleI)
  fix db rows db' assume pre: "?pre db" and step: "update_steps ?P f db = Inr (rows, db')"
  have "triple (safe no_debt (insert runId X) db0) (update_steps ?P f) (\<lambda>rows db.
      safe (owing rows) (insert runId X) db0 db \<and> (\<forall>row \<in> set rows. \<exists>s. ?P s \<and> row = f s))"
    by (rule triple_send_back [OF f]) simp_all
  then have "safe (owing rows) (insert runId X) db0 db'" using pre step by (blast dest: tripleD)
  moreover have "closed runId (db\<lparr>t_steps := update_where ?P f (t_steps db)\<rparr>)"
    by (rule closed_update [where tenantId = tenantId]) (use pre f in auto)
  then have "closed runId db'" using step by (simp add: tx)
  ultimately have "safe (owing rows) (insert runId X - {runId}) db0 db'" by (rule safe_closed)
  then show "safe (owing rows) X db0 db'" by (rule safe_weaken) blast
qed

text \<open>A loop that gives back one slot per row.\<close>

lemma triple_give_back_loop:
  assumes "\<And>row. body row = bind_tx (releaseTenantSlot env (step_tenant_id row)) (\<lambda>_. rest row)"
    and "\<And>row d. debt d \<Longrightarrow> keeps (safe d X db0) (rest row)"
  shows "triple (safe (owing rows) X db0) (forM_tx rows body) (\<lambda>_. safe no_debt X db0)"
proof -
  have "triple (safe (owing (row # rows)) X db0) (body row) (\<lambda>_. safe (owing rows) X db0)" for row rows
    unfolding assms(1) owing_Cons
    by (rule triple_bind [OF triple_give_back [OF debt_owing]]) (use assms(2) in \<open>simp add: keeps_triple\<close>)
  from triple_forM [where I = "\<lambda>rows. safe (owing rows) X db0", OF this] show ?thesis by simp
qed

lemma sent_back: "step_state s = S_RUNNING \<Longrightarrow> step_evolves s (s\<lparr>step_state := S_RETRY_WAIT,
    step_version := step_version s + 1, step_updated_at := t, step_lease_worker_id := None,
    step_lease_token := None, step_lease_expires_at := None\<rparr>) \<and> lease_matches (s\<lparr>step_state := S_RETRY_WAIT,
    step_version := step_version s + 1, step_updated_at := t, step_lease_worker_id := None,
    step_lease_token := None, step_lease_expires_at := None\<rparr>)"
  by (auto simp: step_evolves_def lease_matches_def intro!: step_path_step)

text \<open>The reading of the run's state, and its refusals.\<close>

lemma triple_on_run:
  assumes "\<And>p. p \<in> S \<Longrightarrow> triple (\<lambda>db. safe d X db0 db \<and>
      Some p = map_option run_state (first_row (is_run runId tenantId) (t_runs db))) (body p) (\<lambda>_. safe d X db0)"
  shows "triple (safe d X db0) (bind_tx (lockRunState runId tenantId) (\<lambda>previous. case previous of
     None \<Rightarrow> return_tx x | Some p \<Rightarrow> if p \<notin> S then return_tx x else body p)) (\<lambda>_. safe d X db0)"
proof (rule triple_bind [OF triple_locked])
  fix previous
  show "triple (\<lambda>db. safe d X db0 db \<and> previous = map_option run_state (first_row (is_run runId tenantId) (t_runs db)))
     (case previous of None \<Rightarrow> return_tx x | Some p \<Rightarrow> if p \<notin> S then return_tx x else body p) (\<lambda>_. safe d X db0)"
    using assms by (cases previous) (auto simp: triple_return intro!: triple_return)
qed

lemma triple_skip: "keeps P m \<Longrightarrow> triple P (n) Q \<Longrightarrow> triple P (bind_tx m (\<lambda>_. n)) Q"
  unfolding keeps_triple by (rule triple_bind)

lemma triple_of_keeps: "keeps P m \<Longrightarrow> triple P m (\<lambda>_. P)"
  by (simp add: keeps_triple)

lemma safe_pauseRun: "keeps (safe no_debt X db0) (pauseRun env runId tenantId actor)"
  unfolding pauseRun_def keeps_triple
proof (intro triple_withTransaction triple_on_run triple_bind [OF triple_asserted_run], goal_cases)
  case (1 p)
  have rest: "triple (\<lambda>db. safe no_debt (insert runId X) db0 db \<and> exists_row (is_run runId tenantId) (t_runs db) \<and> True)
     (bind_tx (assertStepTransition S_RUNNING S_RETRY_WAIT) (\<lambda>_.
     bind_tx (update_steps (\<lambda>s. in_run runId tenantId s \<and> step_state s = S_RUNNING)
       (\<lambda>s. s\<lparr>step_state := S_RETRY_WAIT, step_version := step_version s + 1,
              step_updated_at := db_now env, step_lease_worker_id := None,
              step_lease_token := None, step_lease_expires_at := None\<rparr>)) (\<lambda>pausedSteps.
     bind_tx (forM_tx pausedSteps (\<lambda>row.
       bind_tx (releaseTenantSlot env (step_tenant_id row)) (\<lambda>_.
       bind_tx (parkOrphanAdmittedEffects env (step_id row) (step_tenant_id row) (step_run_id row)
         ''run_paused'' actor) (\<lambda>_.
       appendEvent env (kernel_event ''step'' (step_id row) (step_version row) ''step.paused''
         (step_tenant_id row) (step_run_id row) (Some (step_id row)) actor
         [(''previousState'', JStr ''RUNNING'')]))))) (\<lambda>_.
     bind_tx (appendEvent env (kernel_event ''run'' (run_id run) (run_version run) ''run.paused''
       tenantId runId None actor [])) (\<lambda>_. return_tx (Some run)))))) (\<lambda>_. safe no_debt X db0)" for run
    unfolding simp_thms
    by (intro triple_skip [OF assertStepTransition_keeps] triple_bind [OF triple_send_back_run]
        triple_bind [OF triple_give_back_loop [OF refl]] triple_of_keeps frame conjI)
      (simp_all add: sent_back)
  show ?case
    by (rule triple_pre [OF triple_run_moves [where p = p and Q = "\<lambda>_. True", OF _ _ _ rest]])
      (use 1 in auto)
qed

lemma safe_resumeRun: "keeps (safe d X db0) (resumeRun env runId tenantId actor)"
proof -
  have update: "keeps (safe d X db0) (update_runs (\<lambda>r. is_run runId tenantId r \<and> run_state r = R_PAUSED)
       (\<lambda>r. r\<lparr>run_state := R_RUNNING, run_version := run_version r + 1, run_updated_at := db_now env,
              run_paused_at := None\<rparr>))"
    unfolding keeps_def
  proof (intro allI impI)
    fix db rows db' assume safe: "safe d X db0 db" and step: "update_runs (\<lambda>r. is_run runId tenantId r \<and> run_state r = R_PAUSED)
       (\<lambda>r. r\<lparr>run_state := R_RUNNING, run_version := run_version r + 1, run_updated_at := db_now env,
              run_paused_at := None\<rparr>) db = Inr (rows, db')"
    show "safe d X db0 db'"
      using safe_update_runs [OF safe, of "\<lambda>r. is_run runId tenantId r \<and> run_state r = R_PAUSED"
          "\<lambda>r. r\<lparr>run_state := R_RUNNING, run_version := run_version r + 1, run_updated_at := db_now env,
              run_paused_at := None\<rparr>"] step
      by (simp add: tx run_evolves_def run_path_step)
  qed
  show ?thesis
    unfolding resumeRun_def lockRunState_def by (intro frame update)
qed

lemma cancelled_step_cancels: "step_open (step_state s) \<Longrightarrow>
    step_evolves s (cancelled_step env s) \<and> lease_matches (cancelled_step env s) \<and>
    step_state (cancelled_step env s) = S_CANCELLED"
  by (auto simp: cancelled_step_def step_evolves_def lease_matches_def step_open_cancellable
      intro!: step_path_step)

text \<open>The part of \<open>cancelRun\<close> after the run has moved.\<close>

lemma triple_cancel_then:
  assumes after: "\<And>r. keeps (safe no_debt X db0) (after r)"
  shows "triple (\<lambda>db. safe no_debt (insert runId X) db0 db \<and> exists_row (is_run runId tenantId) (t_runs db) \<and>
       previous = step_states_of runId tenantId db)
     (bind_tx (update_steps (\<lambda>s. in_run runId tenantId s \<and> step_open (step_state s)) (cancelled_step env)) (\<lambda>cancelled.
      bind_tx (forM_tx cancelled (\<lambda>row.
       bind_tx (when_tx (map_of previous (step_id row) = Some S_RUNNING) (releaseTenantSlot env tenantId)) (\<lambda>_.
       bind_tx (parkOrphanAdmittedEffects env (step_id row) (step_tenant_id row) (step_run_id row) reason actor)
         (\<lambda>_. appendEvent env (event row))))) after)) (\<lambda>_. safe no_debt X db0)"
proof (rule triple_bind [OF triple_cancel_rows [where f = "cancelled_step env", OF cancelled_step_cancels]], assumption, rule triple_bind)
  fix rows
  show "triple (\<lambda>db. safe (\<lambda>t. no_debt t + owed tenantId previous rows t) (insert runId X - {runId}) db0 db \<and> closed runId db)
     (forM_tx rows (\<lambda>row.
       bind_tx (when_tx (map_of previous (step_id row) = Some S_RUNNING) (releaseTenantSlot env tenantId)) (\<lambda>_.
       bind_tx (parkOrphanAdmittedEffects env (step_id row) (step_tenant_id row) (step_run_id row) reason actor)
         (\<lambda>_. appendEvent env (event row))))) (\<lambda>_. safe no_debt X db0)"
    by (rule triple_post [OF triple_cancelled_loop [OF debt_none refl]]) (blast intro: safe_weaken)
  show "triple (safe no_debt X db0) (after r) (\<lambda>_. safe no_debt X db0)" for r
    using after by (rule triple_of_keeps)
qed

lemma safe_cancelRun: "keeps (safe no_debt X db0) (cancelRun env runId tenantId actor)"
  unfolding cancelRun_def keeps_triple
proof (intro triple_withTransaction triple_on_run, goal_cases)
  case (1 p)
  have lock: "triple (\<lambda>db. (safe no_debt X db0 db \<and> Some p = map_option run_state (first_row (is_run runId tenantId) (t_runs db))) \<and>
        R_CANCELLED \<in> set (RUN_TRANSITIONS p)) (lockStepStates runId tenantId)
     (\<lambda>previous db. (safe no_debt X db0 db \<and> Some p = map_option run_state (first_row (is_run runId tenantId) (t_runs db)) \<and>
        previous = map (\<lambda>s. (step_id s, step_state s)) (filter (in_run runId tenantId) (t_steps db))) \<and>
        R_CANCELLED \<in> set (RUN_TRANSITIONS p))"
    by (simp add: triple_def tx step_states_of_def)
  show ?case
  proof (intro triple_bind [OF triple_asserted_run] triple_bind [OF lock] triple_skip [OF keeps_cancel_checks], goal_cases)
    case (1 _ previous)
    show ?case
      by (rule triple_run_moves [where Q = "\<lambda>steps. previous = map (\<lambda>s. (step_id s, step_state s)) (filter (in_run runId tenantId) steps)"])
        (use \<open>p \<in> {R_PENDING, R_RUNNING, R_PAUSED}\<close> in
          \<open>auto simp: step_states_of_def simp del: exists_row_iff intro!: frame triple_cancel_then [unfolded step_states_of_def]\<close>)
  qed
qed

lemma upsert_control_frame [frame]:
  "(\<And>rows db. v (db\<lparr>t_control := rows\<rparr>) = v db) \<Longrightarrow> unchanged v (upsert_control env tenantId fresh f)"
  by (auto simp: unchanged_def upsert_control_def)

lemma safe_upsert_control [frame]: "keeps (safe d X db0) (upsert_control env tenantId fresh f)"
  by (intro keeps_safe_core frame) (simp add: core_def)

lemma safe_resumeTenant: "keeps (safe d X db0) (resumeTenant env tenantId actor)"
  unfolding resumeTenant_def by (intro frame)

lemma safe_getTenantExecutionControl: "keeps (safe d X db0) (getTenantExecutionControl env tenantId)"
  unfolding getTenantExecutionControl_def by (intro frame)

lemma owing_one_tenant:
  assumes "\<forall>row \<in> set rows. step_tenant_id row = tenantId"
  shows "owing rows = no_debt(tenantId := int (length rows))"
  using assms by (induction rows) (auto simp: owing_Cons)

lemma triple_takeSlots:
  "triple (\<lambda>db. safe (owing rows) X db0 db \<and> (\<forall>row \<in> set rows. step_tenant_id row = tenantId))
     (when_tx (rows \<noteq> []) (takeSlots env tenantId (int (length rows)))) (\<lambda>_. safe no_debt X db0)"
proof (rule triple_when)
  let ?n = "int (length rows)"
  let ?f = "\<lambda>u. u\<lparr>usage_running_steps := max 0 (usage_running_steps u - ?n), usage_updated_at := db_now env\<rparr>"
  show "triple (\<lambda>db. safe (owing rows) X db0 db \<and> (\<forall>row \<in> set rows. step_tenant_id row = tenantId))
     (takeSlots env tenantId ?n) (\<lambda>_. safe no_debt X db0)"
  proof (rule tripleI)
    fix db r db' assume pre: "safe (owing rows) X db0 db \<and> (\<forall>row \<in> set rows. step_tenant_id row = tenantId)"
      and step: "takeSlots env tenantId ?n db = Inr (r, db')"
    then have owing: "owing rows = no_debt(tenantId := ?n)" by (intro owing_one_tenant) blast
    have "safe ((owing rows)(tenantId := owing rows tenantId + - ?n)) X db0
      (db\<lparr>t_usage := update_where (\<lambda>u. usage_tenant_id u = tenantId) ?f (t_usage db)\<rparr>)"
    proof (rule safe_update_usage)
      show "safe (owing rows) X db0 db" using pre by blast
      fix u assume u: "u \<in> set (t_usage db)" "usage_tenant_id u = tenantId"
      then have "usage_running_steps u = count_rows (running_in tenantId) (t_steps db) + ?n"
        using pre owing by (auto simp: safe_def slots_ok_def)
      moreover have "0 \<le> count_rows (running_in tenantId) (t_steps db)" by simp
      ultimately have "?n \<le> usage_running_steps u" by linarith
      then show "usage_running_steps (?f u) = usage_running_steps u + - ?n" by simp
    qed simp
    moreover have "no_debt(tenantId := 0) = no_debt" by (rule ext) simp
    ultimately show "safe no_debt X db0 db'" using step by (simp add: takeSlots_def tx owing)
  qed
next
  fix db assume "\<not> rows \<noteq> []" and "safe (owing rows) X db0 db \<and> (\<forall>row \<in> set rows. step_tenant_id row = tenantId)"
  then show "safe no_debt X db0 db" by simp
qed

lemma safe_pauseTenant: "keeps (safe no_debt X db0) (pauseTenant env tenantId actor reason)"
proof -
  let ?P = "\<lambda>s. step_tenant_id s = tenantId \<and> step_state s = S_RUNNING"
  let ?f = "\<lambda>s. s\<lparr>step_state := S_RETRY_WAIT, step_scheduled_at := db_now env,
              step_version := step_version s + 1, step_updated_at := db_now env,
              step_lease_worker_id := None, step_lease_worker_generation := 0,
              step_lease_token := None, step_lease_expires_at := None\<rparr> :: step_row"
  have "triple (safe no_debt X db0) (update_steps ?P ?f) (\<lambda>rows db. safe (owing rows) X db0 db \<and>
     (\<forall>row \<in> set rows. \<exists>s. ?P s \<and> row = ?f s))"
    by (rule triple_send_back) (auto simp: step_evolves_def lease_matches_def intro!: step_path_step)
  then have back_off: "triple (safe no_debt X db0) (update_steps ?P ?f) (\<lambda>rows db. safe (owing rows) X db0 db \<and>
     (\<forall>row \<in> set rows. step_tenant_id row = tenantId))"
    by (rule triple_post) auto
  show ?thesis
    unfolding pauseTenant_def keeps_triple
    by (intro triple_withTransaction triple_bind [OF triple_of_keeps [OF safe_upsert_control]]
        triple_skip [OF assertStepTransition_keeps] triple_bind [OF back_off] triple_bind [OF triple_takeSlots]
        triple_of_keeps frame)
qed

lemmas control_operations_safe =
  safe_pauseRun safe_resumeRun safe_cancelRun safe_pauseTenant safe_resumeTenant

end
