(* ===== verification/Kernel_Outbox.thy ===== *)
theory Kernel_Outbox
  imports Kernel_Steps
begin

text \<open>
  The outbox and its dead-letter queue: \<open>claimOutbox\<close>, \<open>claimOutboxByTopic\<close>,
  \<open>markOutboxPublished\<close>, \<open>retryOutbox\<close>, \<open>sweepOutboxDlq\<close>, \<open>listDlqEntries\<close> and
  \<open>replayDlqEntry\<close> of \<open>postgres.ts\<close>, on the repository's own path.
\<close>

section \<open>Statements\<close>

definition update_outbox :: "(outbox_row \<Rightarrow> bool) \<Rightarrow> (outbox_row \<Rightarrow> outbox_row) \<Rightarrow> outbox_row list ktx" where
  "update_outbox P f = (\<lambda>db. Inr (updated_rows P f (t_outbox db), db\<lparr>t_outbox := update_where P f (t_outbox db)\<rparr>))"

definition insert_dlq :: "dlq_row \<Rightarrow> unit ktx" where
  "insert_dlq row = (\<lambda>db.
     if exists_row (\<lambda>d. dlq_id d = dlq_id row) (t_dlq db)
     then Inl (UniqueViolation ''commander_outbox_dlq_pkey'')
     else if exists_row (\<lambda>d. dlq_original_id d = dlq_original_id row) (t_dlq db)
     then Inl (UniqueViolation ''commander_outbox_dlq_original_idx'')
     else Inr ((), db\<lparr>t_dlq := t_dlq db @ [row]\<rparr>))"

section \<open>Publishing\<close>

definition KERNEL_COMPENSATION_TOPIC :: string where
  "KERNEL_COMPENSATION_TOPIC = ''commander.kernel.compensation.requested''"

definition LEGACY_COMPENSATION_TOPIC :: string where
  "LEGACY_COMPENSATION_TOPIC = ''commander.compensation''"

definition outbox_pending :: "time \<Rightarrow> outbox_row \<Rightarrow> bool" where
  "outbox_pending now m \<longleftrightarrow> outbox_published_at m = None \<and> outbox_moved_to_dlq_at m = None \<and>
     outbox_attempts m < outbox_max_attempts m \<and> outbox_available_at m \<le> now \<and>
     (case outbox_claimed_at m of None \<Rightarrow> True | Some t \<Rightarrow> t < now - 60000)"

definition claim_messages ::
  "kernel_env \<Rightarrow> (outbox_row \<Rightarrow> bool) \<Rightarrow> int \<Rightarrow> time \<Rightarrow> outbox_row list ktx" where
  "claim_messages env topic_ok limit now =
     bind_tx (randomUUID env) (\<lambda>token.
     bind_tx (query_tx (\<lambda>db. map outbox_id (order_limit outbox_created_at (nat limit)
       (filter (\<lambda>m. topic_ok m \<and> outbox_pending now m) (t_outbox db))))) (\<lambda>candidates.
     update_outbox (\<lambda>m. outbox_id m \<in> set candidates)
       (\<lambda>m. m\<lparr>outbox_claimed_at := Some now, outbox_claim_token := Some token,
              outbox_attempts := outbox_attempts m + 1\<rparr>)))"

definition claimOutbox :: "kernel_env \<Rightarrow> int \<Rightarrow> time option \<Rightarrow> outbox_row list ktx" where
  "claimOutbox env limit now =
     (if \<not> schedulerMode env then throw_tx (JsError ''claimOutbox requires schedulerMode repository; worker LOGIN must use claimOutboxByTopic with claim authz'')
      else withTransaction env (claim_messages env
        (\<lambda>m. outbox_topic m \<notin> {KERNEL_COMPENSATION_TOPIC, LEGACY_COMPENSATION_TOPIC})
        limit (or_else now (client_now env))) [])"

definition claimOutboxByTopic :: "kernel_env \<Rightarrow> string \<Rightarrow> int \<Rightarrow> time option \<Rightarrow> outbox_row list ktx" where
  "claimOutboxByTopic env topic limit now =
     withTransaction env (claim_messages env (\<lambda>m. outbox_topic m = topic) limit (or_else now (client_now env))) []"

definition resolveOutboxMutationScope :: "kernel_env \<Rightarrow> string option \<Rightarrow> string + string list" where
  "resolveOutboxMutationScope env tenantId =
     (let tid = map_option trim tenantId in
      if truthy tid then Inr [the tid]
      else if schedulerMode env then Inr []
      else Inl ''Outbox mark/retry requires tenantId on the worker LOGIN path (message.tenantId)'')"

definition in_outbox_scope :: "kernel_env \<Rightarrow> string option \<Rightarrow> 'a ktx \<Rightarrow> 'a ktx" where
  "in_outbox_scope env tenantId fn = (case resolveOutboxMutationScope env tenantId of
     Inl message \<Rightarrow> throw_tx (JsError message) | Inr scope \<Rightarrow> withTransaction env fn scope)"

definition claimed_message :: "string \<Rightarrow> string \<Rightarrow> outbox_row \<Rightarrow> bool" where
  "claimed_message messageId claimToken m \<longleftrightarrow> outbox_id m = messageId \<and>
     outbox_claim_token m = Some claimToken \<and> outbox_published_at m = None"

definition markOutboxPublished :: "kernel_env \<Rightarrow> string \<Rightarrow> string \<Rightarrow> string option \<Rightarrow> bool ktx" where
  "markOutboxPublished env messageId claimToken tenantId = in_outbox_scope env tenantId (
     bind_tx (update_outbox (claimed_message messageId claimToken)
       (\<lambda>m. m\<lparr>outbox_published_at := Some (db_now env), outbox_claim_token := None,
              outbox_claimed_at := None\<rparr>)) (\<lambda>rows. return_tx (length rows = 1)))"

definition retryOutbox ::
  "kernel_env \<Rightarrow> string \<Rightarrow> string \<Rightarrow> json \<Rightarrow> time option \<Rightarrow> string option \<Rightarrow> bool ktx" where
  "retryOutbox env messageId claimToken failure now tenantId = in_outbox_scope env tenantId (
     bind_tx (update_outbox (claimed_message messageId claimToken)
       (\<lambda>m. m\<lparr>outbox_available_at := or_else now (client_now env) +
                2 ^ nat (max 0 (outbox_attempts m - 1)) * 1000,
              outbox_last_error := Some failure, outbox_claim_token := None,
              outbox_claimed_at := None\<rparr>)) (\<lambda>rows. return_tx (length rows = 1)))"

section \<open>Dead letters\<close>

definition claim_stale :: "time \<Rightarrow> outbox_row \<Rightarrow> bool" where
  "claim_stale now m \<longleftrightarrow> (case outbox_claimed_at m of None \<Rightarrow> True | Some t \<Rightarrow> t \<le> now - 60000)"

definition outbox_exhausted :: "time \<Rightarrow> outbox_row \<Rightarrow> bool" where
  "outbox_exhausted now m \<longleftrightarrow> outbox_published_at m = None \<and> outbox_moved_to_dlq_at m = None \<and>
     outbox_max_attempts m \<le> outbox_attempts m \<and> claim_stale now m"

definition moveToDlq :: "kernel_env \<Rightarrow> outbox_row \<Rightarrow> unit ktx" where
  "moveToDlq env row =
     bind_tx (randomUUID env) (\<lambda>u.
     bind_tx (insert_dlq
       \<lparr>dlq_id = ''dlq_'' @ u, dlq_original_id = outbox_id row, dlq_event_id = outbox_event_id row,
        dlq_tenant_id = outbox_tenant_id row, dlq_topic = outbox_topic row, dlq_key = outbox_key row,
        dlq_payload = outbox_payload row, dlq_attempts = outbox_attempts row,
        dlq_dlq_reason = Some ''max_attempts_exceeded'',
        dlq_original_created_at = outbox_created_at row, dlq_moved_to_dlq_at = db_now env\<rparr>) (\<lambda>_.
     bind_tx (update_outbox (\<lambda>m. outbox_id m = outbox_id row)
       (\<lambda>m. m\<lparr>outbox_dlq_reason := Some ''max_attempts_exceeded'',
              outbox_moved_to_dlq_at := Some (db_now env)\<rparr>)) (\<lambda>_. return_tx ())))"

definition backoff_due :: "time \<Rightarrow> outbox_row \<Rightarrow> bool" where
  "backoff_due now m \<longleftrightarrow> outbox_published_at m = None \<and> outbox_moved_to_dlq_at m = None \<and>
     0 < outbox_attempts m \<and> outbox_attempts m < outbox_max_attempts m \<and>
     outbox_available_at m \<le> now \<and> claim_stale now m"

definition sweepOutboxDlq :: "kernel_env \<Rightarrow> time option \<Rightarrow> int option \<Rightarrow> (int \<times> int) ktx" where
  "sweepOutboxDlq env at limit =
     (let now = or_else at (client_now env); n = nat (or_else limit 50) in withTransaction env (
      bind_tx (query_tx (\<lambda>db. order_limit outbox_created_at n (filter (outbox_exhausted now) (t_outbox db)))) (\<lambda>expired.
      bind_tx (forM_tx expired (moveToDlq env)) (\<lambda>_.
      bind_tx (query_tx (\<lambda>db. map outbox_id (take n (filter (backoff_due now) (t_outbox db))))) (\<lambda>due.
      bind_tx (update_outbox (\<lambda>m. outbox_id m \<in> set due)
        (\<lambda>m. m\<lparr>outbox_available_at := db_now env + 2 ^ nat (outbox_attempts m) * 1000,
               outbox_claim_token := None, outbox_claimed_at := None\<rparr>)) (\<lambda>backoff.
      return_tx (int (length expired), int (length backoff))))))) [])"

definition listDlqEntries :: "kernel_env \<Rightarrow> int option \<Rightarrow> string option \<Rightarrow> dlq_row list ktx" where
  "listDlqEntries env limit topic = withTransaction env (query_tx (\<lambda>db.
     order_limit (\<lambda>d. - dlq_moved_to_dlq_at d) (nat (or_else limit 100))
       (if truthy topic then filter (\<lambda>d. dlq_topic d = the topic) (t_dlq db) else t_dlq db))) []"

definition replayDlqEntry :: "kernel_env \<Rightarrow> string \<Rightarrow> bool ktx" where
  "replayDlqEntry env dlqId = withTransaction env (
     bind_tx (query_tx (\<lambda>db. first_row (\<lambda>d. dlq_id d = dlqId) (t_dlq db))) (\<lambda>dlq.
     case dlq of None \<Rightarrow> return_tx False
     | Some row \<Rightarrow>
       bind_tx (randomUUID env) (\<lambda>newOutboxId.
       bind_tx (insert_outbox (new_outbox_row env newOutboxId (dlq_event_id row) (dlq_tenant_id row)
         (dlq_topic row) (dlq_key row) (dlq_payload row))) (\<lambda>_.
       bind_tx (modify_tx (\<lambda>db. db\<lparr>t_dlq := filter (\<lambda>d. dlq_id d \<noteq> dlqId) (t_dlq db)\<rparr>)) (\<lambda>_.
       return_tx True))))) []"

section \<open>The invariant\<close>

lemma update_outbox_Inr [tx]: "update_outbox P f db = Inr (rows, db') \<longleftrightarrow>
    rows = updated_rows P f (t_outbox db) \<and> db' = db\<lparr>t_outbox := update_where P f (t_outbox db)\<rparr>"
  by (auto simp: update_outbox_def)

lemma insert_dlq_Inr [tx]: "insert_dlq row db = Inr (r, db') \<longleftrightarrow>
    db' = db\<lparr>t_dlq := t_dlq db @ [row]\<rparr> \<and>
    (\<forall>d \<in> set (t_dlq db). dlq_id d \<noteq> dlq_id row \<and> dlq_original_id d \<noteq> dlq_original_id row)"
  by (auto simp: insert_dlq_def)

lemma insert_dlq_frame [frame]:
  "(\<And>rows db. v (db\<lparr>t_dlq := rows\<rparr>) = v db) \<Longrightarrow> unchanged v (insert_dlq row)"
  by (simp add: unchanged_def tx)

text \<open>An update that keeps the event identifiers of the messages is invisible to the invariant.\<close>

lemma safe_update_outbox [frame]:
  assumes "\<And>m. outbox_event_id (f m) = outbox_event_id m"
  shows "keeps (safe d X db0) (update_outbox P f)"
proof (rule keeps_safe_core)
  show "unchanged core (update_outbox P f)"
    using assms by (simp add: unchanged_def tx core_def map_update_where)
qed

lemma safe_insert_dlq [frame]: "keeps (safe d X db0) (insert_dlq row)"
  by (intro keeps_safe_core frame) (simp add: core_def)

lemma safe_outbox_claims:
  "keeps (safe d X db0) (claimOutbox env limit now)" "keeps (safe d X db0) (claimOutboxByTopic env topic limit now)"
  unfolding claimOutbox_def claimOutboxByTopic_def claim_messages_def by (intro frame; simp)+

lemma safe_outbox_marks:
  "keeps (safe d X db0) (markOutboxPublished env i c t)" "keeps (safe d X db0) (retryOutbox env i c e now t)"
  unfolding markOutboxPublished_def retryOutbox_def in_outbox_scope_def by (intro frame; simp)+

lemma safe_sweepOutboxDlq: "keeps (safe d X db0) (sweepOutboxDlq env at limit)"
  unfolding sweepOutboxDlq_def moveToDlq_def Let_def by (intro frame; simp)

text \<open>
  A replay re-inserts a message for an event that still has its original one: the unique
  \<open>event_id\<close> of the outbox refuses it, so only an unknown entry returns.
\<close>

lemma replayDlqEntry_Inr:
  assumes "outbox_ok db" and "replayDlqEntry env dlqId db = Inr (r, db')"
  shows "db' = db \<and> \<not> r \<and> first_row (\<lambda>d. dlq_id d = dlqId) (t_dlq db) = None"
proof (cases "first_row (\<lambda>d. dlq_id d = dlqId) (t_dlq db)")
  case None
  then show ?thesis using assms(2) by (auto simp: replayDlqEntry_def withTransaction_Inr tx)
next
  case (Some row)
  have ids: "outbox_event_id ` set (t_outbox db) = event_id ` set (t_events db)"
    using assms(1) by (metis list.set_map outbox_ok_def)
  have "(\<forall>m \<in> set (t_outbox db). outbox_event_id m \<noteq> dlq_event_id row) \<and>
      (\<exists>e \<in> set (t_events db). event_id e = dlq_event_id row)"
    using assms(2) Some by (auto simp: replayDlqEntry_def withTransaction_Inr tx new_outbox_row_def)
  then have "dlq_event_id row \<in> event_id ` set (t_events db)" "dlq_event_id row \<notin> outbox_event_id ` set (t_outbox db)"
    by (auto simp: image_iff) metis
  with ids show ?thesis by simp
qed

lemma safe_replayDlqEntry: "keeps (safe d X db0) (replayDlqEntry env dlqId)"
  unfolding keeps_def using replayDlqEntry_Inr unfolding safe_def by blast

lemma safe_listDlqEntries: "keeps (safe d X db0) (listDlqEntries env limit topic)"
  unfolding listDlqEntries_def by (intro frame)

lemmas outbox_operations_safe =
  safe_outbox_claims safe_outbox_marks safe_sweepOutboxDlq safe_replayDlqEntry safe_listDlqEntries

end
