(* ===== verification/Kernel_Interactions.thy ===== *)
theory Kernel_Interactions
  imports Kernel_Steps
begin

text \<open>
  Durable timers and human interactions of \<open>postgres.ts\<close>: \<open>createTimer\<close>, \<open>cancelTimer\<close>,
  \<open>claimExpiredTimers\<close>, \<open>acknowledgeTimer\<close>, \<open>retryTimer\<close>, \<open>createInteraction\<close>,
  \<open>answerInteraction\<close>, \<open>getInteraction\<close>, \<open>listInteractions\<close>, \<open>expireStaleInteractions\<close>.
\<close>

section \<open>Timers\<close>

definition update_timers :: "(timer_row \<Rightarrow> bool) \<Rightarrow> (timer_row \<Rightarrow> timer_row) \<Rightarrow> timer_row list ktx" where
  "update_timers P f = (\<lambda>db. Inr (updated_rows P f (t_timers db), db\<lparr>t_timers := update_where P f (t_timers db)\<rparr>))"

text \<open>The inserts check the references of the row: its run and its step.\<close>

definition insert_timer :: "timer_row \<Rightarrow> unit ktx" where
  "insert_timer row = (\<lambda>db.
     if exists_row (\<lambda>t. timer_id t = timer_id row) (t_timers db)
     then Inl (UniqueViolation ''commander_timers_pkey'')
     else if \<not> exists_row (\<lambda>r. run_id r = timer_run_id row) (t_runs db)
     then Inl (ForeignKeyViolation ''commander_timers_run_id_fkey'')
     else if \<not> exists_row (\<lambda>s. step_id s = timer_step_id row) (t_steps db)
     then Inl (ForeignKeyViolation ''commander_timers_step_id_fkey'')
     else Inr ((), db\<lparr>t_timers := t_timers db @ [row]\<rparr>))"

record create_timer =
  ct_runId :: string
  ct_stepId :: string
  ct_tenantId :: string
  ct_firesAt :: time
  ct_timerType :: timer_type
  ct_payload :: "json option"

fun timer_type_text :: "timer_type \<Rightarrow> string" where
  "timer_type_text INTERACTION_TIMEOUT = ''INTERACTION_TIMEOUT''"
| "timer_type_text RETRY_DELAY = ''RETRY_DELAY''"
| "timer_type_text STEP_DEADLINE = ''STEP_DEADLINE''"

definition createTimer :: "kernel_env \<Rightarrow> create_timer \<Rightarrow> string \<Rightarrow> timer_row ktx" where
  "createTimer env request actor =
     bind_tx (randomUUID env) (\<lambda>u. withTransaction env (
     let row = \<lparr>timer_id = ''tmr_'' @ u, timer_run_id = ct_runId request, timer_step_id = ct_stepId request,
                timer_tenant_id = ct_tenantId request, timer_fires_at = ct_firesAt request,
                timer_type = ct_timerType request, timer_state = TM_PENDING,
                timer_payload = json_column (ct_payload request), timer_created_at = db_now env,
                timer_fired_at = None, timer_claim_token = None, timer_claimed_at = None\<rparr> in
     bind_tx (insert_timer row) (\<lambda>_.
     bind_tx (appendEvent env (kernel_event ''run'' (ct_runId request) 0 ''timer.created''
       (ct_tenantId request) (ct_runId request) (Some (ct_stepId request)) actor
       [(''timerId'', JStr (timer_id row)), (''timerType'', JStr (timer_type_text (ct_timerType request))),
        (''firesAt'', JNum (ct_firesAt request))])) (\<lambda>_. return_tx row))) [ct_tenantId request])"

definition cancelTimer :: "kernel_env \<Rightarrow> string \<Rightarrow> string \<Rightarrow> bool ktx" where
  "cancelTimer env timerId tenantId = withTransaction env (
     bind_tx (update_timers (\<lambda>t. timer_id t = timerId \<and> timer_tenant_id t = tenantId \<and> timer_state t = TM_PENDING)
       (\<lambda>t. t\<lparr>timer_state := TM_CANCELLED\<rparr>)) (\<lambda>rows. return_tx (length rows = 1))) [tenantId]"

definition timer_due :: "time \<Rightarrow> timer_row \<Rightarrow> bool" where
  "timer_due now t \<longleftrightarrow> (timer_state t = TM_PENDING \<or> (timer_state t = TM_PROCESSING \<and>
     (case timer_claimed_at t of None \<Rightarrow> False | Some c \<Rightarrow> c \<le> now - 60000))) \<and> timer_fires_at t \<le> now"

definition claimExpiredTimers :: "kernel_env \<Rightarrow> time option \<Rightarrow> int option \<Rightarrow> timer_row list ktx" where
  "claimExpiredTimers env at limit =
     (let now = or_else at (client_now env) in withTransaction env (
      bind_tx (randomUUID env) (\<lambda>claimToken.
      bind_tx (query_tx (\<lambda>db. map timer_id (order_limit timer_fires_at (nat (or_else limit 100))
        (filter (timer_due now) (t_timers db))))) (\<lambda>due.
      update_timers (\<lambda>t. timer_id t \<in> set due)
        (\<lambda>t. t\<lparr>timer_state := TM_PROCESSING, timer_claim_token := Some claimToken,
               timer_claimed_at := Some now\<rparr>)))) [])"

definition claimed_timer :: "string \<Rightarrow> string \<Rightarrow> string \<Rightarrow> timer_row \<Rightarrow> bool" where
  "claimed_timer timerId tenantId claimToken t \<longleftrightarrow> timer_id t = timerId \<and> timer_tenant_id t = tenantId \<and>
     timer_state t = TM_PROCESSING \<and> timer_claim_token t = Some claimToken"

definition acknowledgeTimer :: "kernel_env \<Rightarrow> string \<Rightarrow> string \<Rightarrow> string \<Rightarrow> bool ktx" where
  "acknowledgeTimer env timerId tenantId claimToken = withTransaction env (
     bind_tx (update_timers (claimed_timer timerId tenantId claimToken)
       (\<lambda>t. t\<lparr>timer_state := TM_FIRED, timer_fired_at := Some (db_now env), timer_claim_token := None,
              timer_claimed_at := None\<rparr>)) (\<lambda>rows. return_tx (length rows = 1))) [tenantId]"

definition retryTimer :: "kernel_env \<Rightarrow> string \<Rightarrow> string \<Rightarrow> string \<Rightarrow> bool ktx" where
  "retryTimer env timerId tenantId claimToken = withTransaction env (
     bind_tx (update_timers (claimed_timer timerId tenantId claimToken)
       (\<lambda>t. t\<lparr>timer_state := TM_PENDING, timer_claim_token := None, timer_claimed_at := None\<rparr>))
       (\<lambda>rows. return_tx (length rows = 1))) [tenantId]"

section \<open>Interactions\<close>

definition update_interactions ::
  "(interaction_row \<Rightarrow> bool) \<Rightarrow> (interaction_row \<Rightarrow> interaction_row) \<Rightarrow> interaction_row list ktx" where
  "update_interactions P f = (\<lambda>db. Inr (updated_rows P f (t_interactions db),
     db\<lparr>t_interactions := update_where P f (t_interactions db)\<rparr>))"

definition step_of_run :: "string \<Rightarrow> string \<Rightarrow> string \<Rightarrow> step_row \<Rightarrow> bool" where
  "step_of_run stepId runId tenantId s \<longleftrightarrow> step_id s = stepId \<and> in_run runId tenantId s"

record create_interaction =
  ci_id :: "string option"
  ci_runId :: string
  ci_stepId :: string
  ci_tenantId :: string
  ci_prompt :: string
  ci_expiresAt :: "time option"

definition createInteraction :: "kernel_env \<Rightarrow> create_interaction \<Rightarrow> string \<Rightarrow> interaction_row ktx" where
  "createInteraction env request actor =
     bind_tx (case ci_id request of Some i \<Rightarrow> return_tx i
              | None \<Rightarrow> bind_tx (randomUUID env) (\<lambda>u. return_tx (''itr_'' @ u))) (\<lambda>i. withTransaction env (
     bind_tx (query_tx (\<lambda>db. exists_row (step_of_run (ci_stepId request) (ci_runId request) (ci_tenantId request))
       (t_steps db))) (\<lambda>found.
     if \<not> found then throw_tx (KernelInvariantError STEP_NOT_FOUND)
     else
       let row = \<lparr>interaction_id = i, interaction_run_id = ci_runId request,
              interaction_step_id = ci_stepId request, interaction_tenant_id = ci_tenantId request,
              interaction_status = IN_pending, interaction_prompt = ci_prompt request,
              interaction_response = None, interaction_created_at = db_now env,
              interaction_answered_at = None, interaction_expires_at = ci_expiresAt request\<rparr> in
       bind_tx (insert_interaction row) (\<lambda>_.
       bind_tx (appendEvent env (kernel_event ''interaction'' i 0 ''interaction.created''
         (ci_tenantId request) (ci_runId request) (Some (ci_stepId request)) actor
         [(''interactionId'', JStr i), (''prompt'', JStr (ci_prompt request)),
          (''expiresAt'', json_of_option JNum (ci_expiresAt request))])) (\<lambda>_. return_tx row))))
     [ci_tenantId request])"

record answer_interaction =
  ai_interactionId :: string
  ai_runId :: string
  ai_tenantId :: string
  ai_response :: json
  ai_actor :: string
  ai_releaseStep :: "bool option"

definition keeps_step :: "answer_interaction \<Rightarrow> bool" where
  "keeps_step request \<longleftrightarrow> ai_releaseStep request = Some False"

text \<open>The pending interaction with the state of its step, as the locking query reads it.\<close>

definition pending_interaction :: "kernel_db \<Rightarrow> answer_interaction \<Rightarrow> (interaction_row \<times> step_state) option" where
  "pending_interaction db request =
     (case first_row (\<lambda>i. interaction_id i = ai_interactionId request \<and> interaction_run_id i = ai_runId request \<and>
             interaction_tenant_id i = ai_tenantId request \<and> interaction_status i = IN_pending) (t_interactions db) of
        None \<Rightarrow> None
      | Some i \<Rightarrow>
          (case first_row (\<lambda>s. step_of_run (interaction_step_id i) (ai_runId request) (ai_tenantId request) s \<and>
                  (keeps_step request \<or> step_state s = S_WAITING_FOR_HUMAN)) (t_steps db) of
             None \<Rightarrow> None | Some s \<Rightarrow> Some (i, step_state s)))"

definition interaction_expired :: "kernel_env \<Rightarrow> interaction_row \<Rightarrow> bool" where
  "interaction_expired env i \<longleftrightarrow> (case interaction_expires_at i of None \<Rightarrow> False | Some t \<Rightarrow> t \<le> client_now env)"

definition releaseWaitingStep ::
  "kernel_env \<Rightarrow> answer_interaction \<Rightarrow> interaction_row \<Rightarrow> step_state \<Rightarrow> step_row ktx" where
  "releaseWaitingStep env request i stepState =
     bind_tx (if keeps_step request then
         query_tx (\<lambda>db. filter (step_of_run (interaction_step_id i) (ai_runId request) (ai_tenantId request)) (t_steps db))
       else
         bind_tx (assertStepTransition stepState S_RETRY_WAIT) (\<lambda>_.
         update_steps (\<lambda>s. step_of_run (interaction_step_id i) (ai_runId request) (ai_tenantId request) s \<and>
             step_state s = S_WAITING_FOR_HUMAN)
           (\<lambda>s. s\<lparr>step_state := S_RETRY_WAIT, step_scheduled_at := db_now env,
                  step_version := step_version s + 1, step_updated_at := db_now env,
                  step_lease_worker_id := None, step_lease_worker_generation := 0,
                  step_lease_token := None, step_lease_expires_at := None\<rparr>)))
       (\<lambda>rows. case rows of [] \<Rightarrow> throw_tx (KernelInvariantError INTERACTION_NOT_FOUND)
        | row # _ \<Rightarrow> return_tx row)"

definition answerInteraction :: "kernel_env \<Rightarrow> answer_interaction \<Rightarrow> interaction_row ktx" where
  "answerInteraction env request = withTransaction env (
     bind_tx (query_tx (\<lambda>db. pending_interaction db request)) (\<lambda>locked.
     case locked of None \<Rightarrow> throw_tx (KernelInvariantError INTERACTION_NOT_FOUND)
     | Some (i, stepState) \<Rightarrow>
       if interaction_expired env i then throw_tx (KernelInvariantError INTERACTION_EXPIRED)
       else
       bind_tx (releaseWaitingStep env request i stepState) (\<lambda>step.
       bind_tx (update_interactions (\<lambda>j. interaction_id j = ai_interactionId request \<and>
           interaction_run_id j = ai_runId request \<and> interaction_tenant_id j = ai_tenantId request \<and>
           interaction_step_id j = interaction_step_id i \<and> interaction_status j = IN_pending)
         (\<lambda>j. j\<lparr>interaction_status := IN_answered, interaction_response := Some (ai_response request),
                interaction_answered_at := Some (db_now env)\<rparr>)) (\<lambda>rows.
       case rows of [] \<Rightarrow> throw_tx (KernelInvariantError INTERACTION_NOT_FOUND)
       | answered # _ \<Rightarrow>
         bind_tx (appendEvent env (kernel_event ''interaction'' (ai_interactionId request) 1 ''interaction.answered''
           (ai_tenantId request) (ai_runId request) (Some (interaction_step_id i)) (ai_actor request)
           [(''response'', ai_response request)])) (\<lambda>_.
         bind_tx (when_tx (\<not> keeps_step request) (appendEvent env (kernel_event ''step'' (step_id step)
           (step_version step) ''step.interaction_answered'' (step_tenant_id step) (step_run_id step)
           (Some (step_id step)) (ai_actor request)
           [(''interactionId'', JStr (ai_interactionId request))]))) (\<lambda>_. return_tx answered)))))) [ai_tenantId request]"

definition getInteraction :: "kernel_env \<Rightarrow> string \<Rightarrow> string \<Rightarrow> interaction_row option ktx" where
  "getInteraction env interactionId tenantId = withTransaction env (query_tx (\<lambda>db.
     first_row (\<lambda>i. interaction_id i = interactionId \<and> interaction_tenant_id i = tenantId) (t_interactions db))) [tenantId]"

definition listInteractions :: "kernel_env \<Rightarrow> string \<Rightarrow> string \<Rightarrow> interaction_row list ktx" where
  "listInteractions env runId tenantId = withTransaction env (query_tx (\<lambda>db.
     sort_key interaction_created_at (filter (\<lambda>i. interaction_run_id i = runId \<and>
       interaction_tenant_id i = tenantId) (t_interactions db)))) [tenantId]"

definition expireStaleInteractions :: "kernel_env \<Rightarrow> time option \<Rightarrow> int option \<Rightarrow> interaction_row list ktx" where
  "expireStaleInteractions env at limit =
     (let now = or_else at (client_now env) in withTransaction env (
      bind_tx (query_tx (\<lambda>db. map interaction_id (take (nat (or_else limit 100))
        (filter (\<lambda>i. interaction_status i = IN_pending \<and>
           (case interaction_expires_at i of None \<Rightarrow> False | Some t \<Rightarrow> t \<le> now)) (t_interactions db))))) (\<lambda>stale.
      update_interactions (\<lambda>i. interaction_id i \<in> set stale) (\<lambda>i. i\<lparr>interaction_status := IN_expired\<rparr>))) [])"

section \<open>The invariant\<close>

lemma update_timers_Inr [tx]: "update_timers P f db = Inr (rows, db') \<longleftrightarrow>
    rows = updated_rows P f (t_timers db) \<and> db' = db\<lparr>t_timers := update_where P f (t_timers db)\<rparr>"
  by (auto simp: update_timers_def)

lemma update_interactions_Inr [tx]: "update_interactions P f db = Inr (rows, db') \<longleftrightarrow>
    rows = updated_rows P f (t_interactions db) \<and> db' = db\<lparr>t_interactions := update_where P f (t_interactions db)\<rparr>"
  by (auto simp: update_interactions_def)

lemma insert_timer_Inr [tx]: "insert_timer row db = Inr (r, db') \<longleftrightarrow>
    db' = db\<lparr>t_timers := t_timers db @ [row]\<rparr> \<and> (\<forall>t \<in> set (t_timers db). timer_id t \<noteq> timer_id row) \<and>
    (\<exists>r \<in> set (t_runs db). run_id r = timer_run_id row) \<and> (\<exists>s \<in> set (t_steps db). step_id s = timer_step_id row)"
  by (auto simp: insert_timer_def)

lemma timer_frames [frame]:
  "(\<And>rows db. v (db\<lparr>t_timers := rows\<rparr>) = v db) \<Longrightarrow> unchanged v (update_timers P f)"
  "(\<And>rows db. v (db\<lparr>t_timers := rows\<rparr>) = v db) \<Longrightarrow> unchanged v (insert_timer row)"
  "(\<And>rows db. v (db\<lparr>t_interactions := rows\<rparr>) = v db) \<Longrightarrow> unchanged v (update_interactions Q g)"
  by (auto simp: unchanged_def tx)

lemma safe_timer_statements [frame]:
  "keeps (safe d X db0) (update_timers P f)" "keeps (safe d X db0) (insert_timer row)"
  "keeps (safe d X db0) (update_interactions Q g)" "keeps (safe d X db0) (insert_interaction irow)"
  by (intro keeps_safe_core frame; simp add: core_def)+

lemma safe_timers:
  "keeps (safe d X db0) (createTimer env request actor)" "keeps (safe d X db0) (cancelTimer env i t)"
  "keeps (safe d X db0) (claimExpiredTimers env at limit)" "keeps (safe d X db0) (acknowledgeTimer env i t c)"
  "keeps (safe d X db0) (retryTimer env i t c)"
  unfolding createTimer_def cancelTimer_def claimExpiredTimers_def acknowledgeTimer_def retryTimer_def Let_def
  by (intro frame)+

lemma safe_releaseWaitingStep: "keeps (safe d X db0) (releaseWaitingStep env request i st)"
  unfolding releaseWaitingStep_def
  by (intro frame keeps_same_slots) (auto simp: step_evolves_def lease_matches_def intro!: step_path_step)

lemma safe_answerInteraction: "keeps (safe d X db0) (answerInteraction env request)"
  unfolding answerInteraction_def by (intro frame safe_releaseWaitingStep)

lemma safe_interactions:
  "keeps (safe d X db0) (createInteraction env ci actor)" "keeps (safe d X db0) (expireStaleInteractions env at limit)"
  "keeps (safe d X db0) (getInteraction env i t)" "keeps (safe d X db0) (listInteractions env r t)"
  unfolding createInteraction_def expireStaleInteractions_def getInteraction_def listInteractions_def Let_def
  by (intro frame)+

lemmas interaction_operations_safe = safe_timers safe_answerInteraction safe_interactions

end
