(* ===== verification/Kernel_Ledger.thy ===== *)
theory Kernel_Ledger
  imports Kernel_Effects Kernel_Control Kernel_Outbox Kernel_Interactions
begin

text \<open>
  What every method keeps of the effect ledger: identifiers and idempotency keys are unique, an
  admitted request is never rewritten, its state moves only forward, and an effect that is
  COMPLETED or FAILED keeps its state and its response for good.
\<close>

definition effect_final :: "effect_row \<Rightarrow> bool" where
  "effect_final e \<longleftrightarrow> effect_state e \<in> {E_COMPLETED, E_FAILED}"

fun effect_moves :: "effect_state \<Rightarrow> effect_state \<Rightarrow> bool" where
  "effect_moves E_ADMITTED s = (s \<noteq> E_CONFIRMED_NOT_APPLIED)"
| "effect_moves E_COMPLETION_UNKNOWN s = (s \<in> {E_COMPLETION_UNKNOWN, E_COMPLETED, E_FAILED})"
| "effect_moves state s = (s = state)"

definition effect_evolves :: "effect_row \<Rightarrow> effect_row \<Rightarrow> bool" where
  "effect_evolves e e' \<longleftrightarrow> effect_id e' = effect_id e \<and> effect_tenant_id e' = effect_tenant_id e \<and>
     effect_run_id e' = effect_run_id e \<and> effect_step_id e' = effect_step_id e \<and>
     effect_type e' = effect_type e \<and> effect_request e' = effect_request e \<and>
     effect_idempotency_key e' = effect_idempotency_key e \<and> effect_request_hash e' = effect_request_hash e \<and>
     effect_policy_decision_id e' = effect_policy_decision_id e \<and>
     effect_policy_snapshot_id e' = effect_policy_snapshot_id e \<and>
     effect_action_digest e' = effect_action_digest e \<and>
     effect_moves (effect_state e) (effect_state e') \<and>
     (effect_final e \<longrightarrow> effect_response e' = effect_response e)"

definition ledger_key :: "effect_row \<Rightarrow> string \<times> string" where
  "ledger_key e = (effect_tenant_id e, effect_idempotency_key e)"

definition ledger :: "kernel_db \<Rightarrow> kernel_db \<Rightarrow> bool" where
  "ledger db0 db \<longleftrightarrow> unique_key effect_id (t_effects db) \<and> unique_key ledger_key (t_effects db) \<and>
     (\<forall>e \<in> set (t_effects db0). \<exists>e' \<in> set (t_effects db). effect_evolves e e')"

lemma effect_moves_refl [simp]: "effect_moves s s"
  by (cases s) auto

lemma effect_moves_trans: "effect_moves a b \<Longrightarrow> effect_moves b c \<Longrightarrow> effect_moves a c"
  by (cases a; cases b; cases c) auto

lemma effect_evolves_refl [simp]: "effect_evolves e e"
  by (simp add: effect_evolves_def)

lemma effect_final_moves: "effect_final e \<Longrightarrow> effect_moves (effect_state e) s \<Longrightarrow> s = effect_state e"
  by (auto simp: effect_final_def)

lemma effect_evolves_trans: "effect_evolves a b \<Longrightarrow> effect_evolves b c \<Longrightarrow> effect_evolves a c"
  unfolding effect_evolves_def effect_final_def
  by (auto intro: effect_moves_trans)

lemma ledger_trans: "ledger a b \<Longrightarrow> ledger b c \<Longrightarrow> ledger a c"
  unfolding ledger_def by (meson effect_evolves_trans)

lemma ledger_start: "ledger a db \<Longrightarrow> ledger db db"
  unfolding ledger_def using effect_evolves_refl by blast

named_theorems ledger_rules

lemma ledger_unchanged:
  assumes "unchanged t_effects m"
  shows "keeps (ledger db0) m"
  unfolding keeps_def ledger_def using unchangedD [OF assms] by simp

lemma ledger_update [ledger_rules]:
  assumes "\<And>e. P e \<Longrightarrow> effect_evolves e (f e)"
  shows "keeps (ledger db0) (update_effects P f)"
  unfolding keeps_def
proof (intro allI impI)
  fix db rows db' assume ledger: "ledger db0 db" and step: "update_effects P f db = Inr (rows, db')"
  have new: "t_effects db' = update_where P f (t_effects db)" using step by (simp add: tx)
  have kept: "P e \<Longrightarrow> effect_id (f e) = effect_id e \<and> ledger_key (f e) = ledger_key e" for e
    using assms by (simp add: effect_evolves_def ledger_key_def)
  have "map effect_id (t_effects db') = map effect_id (t_effects db)"
    "map ledger_key (t_effects db') = map ledger_key (t_effects db)"
    unfolding new using kept by (simp_all add: map_update_where)
  then have "unique_key effect_id (t_effects db')" "unique_key ledger_key (t_effects db')"
    using ledger by (simp_all add: ledger_def unique_key_def)
  moreover have "\<exists>e' \<in> set (t_effects db'). effect_evolves e e'" if e: "e \<in> set (t_effects db)" for e
  proof
    show "(if P e then f e else e) \<in> set (t_effects db')" unfolding new by (rule update_where_mem [OF e])
    show "effect_evolves e (if P e then f e else e)" using assms by simp
  qed
  ultimately have "ledger db db'" unfolding ledger_def by blast
  with ledger show "ledger db0 db'" by (rule ledger_trans)
qed

lemma ledger_update_in [ledger_rules]:
  assumes "\<And>db e. P db e \<Longrightarrow> effect_evolves e (f e)"
  shows "keeps (ledger db0) (update_effects_in P f)"
  unfolding keeps_def
proof (intro allI impI)
  fix db rows db' assume "ledger db0 db" "update_effects_in P f db = Inr (rows, db')"
  moreover have "keeps (ledger db0) (update_effects (P db) f)" by (rule ledger_update) (use assms in blast)
  ultimately show "ledger db0 db'" unfolding update_effects_in_def by (blast dest: keepsD)
qed

lemma ledger_insert [ledger_rules]: "keeps (ledger db0) (insert_effect row)"
  unfolding keeps_def
proof (intro allI impI)
  fix db r db' assume ledger: "ledger db0 db" and step: "insert_effect row db = Inr (r, db')"
  then show "ledger db0 db'"
    by (auto simp: tx ledger_def unique_key_snoc ledger_key_def)
qed

text \<open>Statements and helpers that do not write the effects table.\<close>

lemma ledger_statements [ledger_rules]:
  "keeps (ledger db0) (update_runs P1 f1)" "keeps (ledger db0) (update_steps P2 f2)"
  "keeps (ledger db0) (update_usage P3 f3)" "keeps (ledger db0) (appendEvent env event)"
  "keeps (ledger db0) (appendEventKeyed env event key)" "keeps (ledger db0) (randomUUID env)"
  "keeps (ledger db0) (releaseTenantSlot env tenantId)"
  "keeps (ledger db0) (appendEvidenceInTransaction receipt)"
  by (intro ledger_unchanged frame; simp)+

lemma ledger_outbox_statements [ledger_rules]:
  "keeps (ledger db0) (update_outbox P1 f1)" "keeps (ledger db0) (insert_dlq row)"
  "keeps (ledger db0) (insert_outbox orow)" "keeps (ledger db0) (update_timers P2 f2)"
  "keeps (ledger db0) (insert_timer trow)" "keeps (ledger db0) (update_interactions P3 f3)"
  "keeps (ledger db0) (insert_interaction irow)" "keeps (ledger db0) (insert_run rrow)"
  "keeps (ledger db0) (insert_step srow)" "keeps (ledger db0) (ensure_usage env tenantId)"
  "keeps (ledger db0) (ensure_control env tenantId actor)" "keeps (ledger db0) (upsert_control env tenantId fresh f4)"
  "keeps (ledger db0) (takeSlots env tenantId n)"
  by (rule ledger_unchanged; simp add: unchanged_def tx update_outbox_def insert_dlq_def insert_outbox_def
      update_timers_def insert_timer_def update_interactions_def insert_interaction_def insert_run_def
      insert_step_def ensure_usage_def ensure_control_def upsert_control_def takeSlots_def; force?)+

section \<open>Helpers\<close>

lemma ledger_park [ledger_rules]:
  "keeps (ledger db0) (parkOrphanAdmittedEffects env stepId tenantId runId reason actor)"
  unfolding parkOrphanAdmittedEffects_def Let_def
  by (intro frame ledger_rules) (simp add: effect_evolves_def effect_final_def)

lemma ledger_cancelOpenSteps [ledger_rules]:
  "keeps (ledger db0) (cancelOpenStepsForTerminalRun env runId tenantId actor reason)"
  unfolding cancelOpenStepsForTerminalRun_def lockStepStates_def Let_def by (intro frame ledger_rules)

lemma ledger_finishRun [ledger_rules]: "keeps (ledger db0) (finishRunIfTerminal env runId tenantId actor)"
  unfolding finishRunIfTerminal_def lockRunState_def Let_def by (intro frame ledger_rules)

lemma ledger_requestCompensation [ledger_rules]:
  "keeps (ledger db0) (requestCompensationIfNeeded env stepId tenantId runId epoch actor at)"
  unfolding requestCompensationIfNeeded_def announceCompensation_def lockRunState_def Let_def
  by (intro frame ledger_rules)

section \<open>Operations\<close>

lemma ledger_assertGraph [ledger_rules]: "keeps (ledger db0) (assertGraph command)"
  by (rule ledger_unchanged) (simp add: unchanged_def tx)

lemma ledger_createRun: "keeps (ledger db0) (createRun env command actor)"
  unfolding createRun_def createStep_def Let_def
  by (intro frame ledger_rules)

lemma ledger_setTenantConcurrencyLimit: "keeps (ledger db0) (setTenantConcurrencyLimit env tenantId n)"
  unfolding setTenantConcurrencyLimit_def
  by (intro frame ledger_rules keeps_modify) (simp add: ledger_def)

lemma ledger_step_operations:
  "keeps (ledger db0) (claimNextStep env claim)" "keeps (ledger db0) (heartbeatStep env i t lease ttl)"
  "keeps (ledger db0) (completeStep env cs)" "keeps (ledger db0) (failStep env fs)"
  "keeps (ledger db0) (wakeRetryStep env i t actor)" "keeps (ledger db0) (failStepByTimer env i t failure actor)"
  "keeps (ledger db0) (reclaimExpiredLeases env at limit)"
  unfolding claimNextStep_def claimFirst_def recordClaim_def announceClaim_def takeSlot_def startRun_def
    heartbeatStep_def completeStep_def failStep_def wakeRetryStep_def failStepByTimer_def
    reclaimExpiredLeases_def reclaimStep_def Let_def
  by (intro frame ledger_rules)+

lemma ledger_control_operations:
  "keeps (ledger db0) (pauseRun env i t actor)" "keeps (ledger db0) (resumeRun env i t actor)"
  "keeps (ledger db0) (cancelRun env i t actor)" "keeps (ledger db0) (pauseTenant env t actor reason)"
  "keeps (ledger db0) (resumeTenant env t actor)"
  unfolding pauseRun_def resumeRun_def cancelRun_def pauseTenant_def resumeTenant_def lockRunState_def
    lockStepStates_def Let_def
  by (intro frame ledger_rules)+

lemma ledger_admitEffect: "keeps (ledger db0) (admitEffect env request)"
  unfolding admitEffect_def admitEffectEmbedded_def Let_def
  by (intro frame ledger_rules)

lemma ledger_completeEffect: "keeps (ledger db0) (completeEffect env e t l r a)"
  unfolding completeEffect_def completeEffectInTransaction_def
  by (intro frame ledger_rules) (simp_all add: effect_evolves_def effect_final_def finish_effect_def admitted_effect_row_def)

lemma ledger_completeEffectWithEvidence: "keeps (ledger db0) (completeEffectWithEvidence env e t l r a receipt)"
  unfolding completeEffectWithEvidence_def completeEffectInTransaction_def
  by (intro frame ledger_rules) (simp_all add: effect_evolves_def effect_final_def finish_effect_def admitted_effect_row_def)

lemma ledger_failEffect: "keeps (ledger db0) (failEffect env fe)"
  unfolding failEffect_def failEffectRow_def effectFailed_def
  by (intro frame ledger_rules) (simp_all add: effect_evolves_def effect_final_def finish_effect_def admitted_effect_row_def)

lemma ledger_failEffectWithEvidence: "keeps (ledger db0) (failEffectWithEvidence env fe receipt)"
  unfolding failEffectWithEvidence_def failEffectRow_def effectFailed_def
  by (intro frame ledger_rules) (simp_all add: effect_evolves_def effect_final_def finish_effect_def admitted_effect_row_def)

lemma ledger_markEffectCompletionUnknown: "keeps (ledger db0) (markEffectCompletionUnknown env mu)"
  unfolding markEffectCompletionUnknown_def waitForReconciliation_def Let_def
  by (intro frame ledger_rules) (simp_all add: effect_evolves_def effect_final_def finish_effect_def admitted_effect_row_def unknown_effect_row_def)

lemma ledger_reconcileEffect: "keeps (ledger db0) (reconcileEffect env rq)"
  unfolding reconcileEffect_def
  by (intro frame ledger_rules) (simp_all add: effect_evolves_def effect_final_def finish_effect_def admitted_effect_row_def split: reconciled_state.splits)

lemma ledger_claimReconcileEffects: "keeps (ledger db0) (claimReconcileEffects env input)"
  unfolding claimReconcileEffects_def Let_def
  by (intro frame ledger_rules) (simp_all add: effect_evolves_def effect_final_def finish_effect_def admitted_effect_row_def)

lemma ledger_rescheduleReconcile: "keeps (ledger db0) (rescheduleReconcile env e t c at err)"
  unfolding rescheduleReconcile_def
  by (intro frame ledger_rules) (simp_all add: effect_evolves_def effect_final_def finish_effect_def admitted_effect_row_def claimed_unknown_def)

lemma ledger_escalateReconcile: "keeps (ledger db0) (escalateReconcile env e t c reason)"
  unfolding escalateReconcile_def
  by (intro frame ledger_rules) (simp_all add: effect_evolves_def effect_final_def finish_effect_def admitted_effect_row_def claimed_unknown_def)

lemma ledger_releaseReconcileClaim: "keeps (ledger db0) (releaseReconcileClaim env e t c)"
  unfolding releaseReconcileClaim_def
  by (intro frame ledger_rules) (simp_all add: effect_evolves_def effect_final_def finish_effect_def admitted_effect_row_def)

lemma ledger_claimOutbox: "keeps (ledger db0) (claimOutbox env n now)"
  unfolding claimOutbox_def claim_messages_def
  by (intro frame ledger_rules keeps_modify)

lemma ledger_claimOutboxByTopic: "keeps (ledger db0) (claimOutboxByTopic env topic n now)"
  unfolding claimOutboxByTopic_def claim_messages_def
  by (intro frame ledger_rules keeps_modify)

lemma ledger_markOutboxPublished: "keeps (ledger db0) (markOutboxPublished env i c t)"
  unfolding markOutboxPublished_def in_outbox_scope_def
  by (intro frame ledger_rules keeps_modify)

lemma ledger_retryOutbox: "keeps (ledger db0) (retryOutbox env i c e now t)"
  unfolding retryOutbox_def in_outbox_scope_def
  by (intro frame ledger_rules keeps_modify)

lemma ledger_sweepOutboxDlq: "keeps (ledger db0) (sweepOutboxDlq env at limit)"
  unfolding sweepOutboxDlq_def moveToDlq_def Let_def
  by (intro frame ledger_rules keeps_modify)

lemma ledger_replayDlqEntry: "keeps (ledger db0) (replayDlqEntry env dlqId)"
  unfolding replayDlqEntry_def
  by (intro frame ledger_rules keeps_modify) (simp add: ledger_def)

lemma ledger_interaction_operations:
  "keeps (ledger db0) (createTimer env request actor)" "keeps (ledger db0) (cancelTimer env i t)"
  "keeps (ledger db0) (claimExpiredTimers env at limit)" "keeps (ledger db0) (acknowledgeTimer env i t c)"
  "keeps (ledger db0) (retryTimer env i t c)" "keeps (ledger db0) (createInteraction env ci actor)"
  "keeps (ledger db0) (answerInteraction env ai)" "keeps (ledger db0) (expireStaleInteractions env at limit)"
  unfolding createTimer_def cancelTimer_def claimExpiredTimers_def acknowledgeTimer_def retryTimer_def
    createInteraction_def answerInteraction_def releaseWaitingStep_def expireStaleInteractions_def Let_def
  by (intro frame ledger_rules)+

lemmas ledger_operations =
  ledger_createRun ledger_setTenantConcurrencyLimit ledger_step_operations ledger_control_operations
  ledger_admitEffect ledger_completeEffect ledger_completeEffectWithEvidence ledger_failEffect
  ledger_failEffectWithEvidence ledger_markEffectCompletionUnknown ledger_reconcileEffect
  ledger_claimReconcileEffects ledger_rescheduleReconcile ledger_escalateReconcile
  ledger_releaseReconcileClaim ledger_claimOutbox ledger_claimOutboxByTopic ledger_markOutboxPublished
  ledger_retryOutbox ledger_sweepOutboxDlq ledger_replayDlqEntry ledger_interaction_operations

end
