(* ===== verification/Kernel_Machine.thy ===== *)
theory Kernel_Machine
  imports Kernel_Ledger
begin

text \<open>
  The kernel as a transition system: one command per method of the repository that writes the
  kernel's tables, a step per committed transaction, and what is true of every state the kernel
  can reach and of every later state. The workers table is written by stored procedures only; such
  a write is a step that changes that table at will.
\<close>

section \<open>Transition systems\<close>

text \<open>
  \<open>good b s\<close>: \<open>s\<close> is well formed and continues the history of \<open>b\<close>. A system that starts well and
  whose steps continue every history is well formed wherever it gets.
\<close>

locale transition_system =
  fixes step :: "'s \<Rightarrow> 's \<Rightarrow> bool" and initial :: "'s \<Rightarrow> bool" and good :: "'s \<Rightarrow> 's \<Rightarrow> bool"
  assumes starts: "initial s \<Longrightarrow> good s s"
    and continues: "good b s \<Longrightarrow> step s t \<Longrightarrow> good b t"
    and rebase: "good b s \<Longrightarrow> good s s"
begin

lemma run_continues: "step\<^sup>*\<^sup>* s t \<Longrightarrow> good b s \<Longrightarrow> good b t"
  by (induction rule: rtranclp_induct) (auto intro: continues)

lemma reachable_good: "initial s \<Longrightarrow> step\<^sup>*\<^sup>* s t \<Longrightarrow> good t t"
  using run_continues starts rebase by blast

lemma history: "initial s \<Longrightarrow> step\<^sup>*\<^sup>* s t \<Longrightarrow> step\<^sup>*\<^sup>* t u \<Longrightarrow> good t u"
  using run_continues reachable_good by blast

end

section \<open>Commands\<close>

datatype run_command =
    Create_run create_run string
  | Set_tenant_concurrency_limit string int

datatype step_command =
    Claim_next_step claim_request
  | Heartbeat_step string string lease_ref int
  | Complete_step complete_step
  | Fail_step fail_step
  | Wake_retry_step string string string
  | Fail_step_by_timer string string step_failure string
  | Reclaim_expired_leases "time option" "int option"

datatype control_command =
    Pause_run string string string
  | Resume_run string string string
  | Cancel_run string string string
  | Pause_tenant string string "string option"
  | Resume_tenant string string

datatype effect_command =
    Admit_effect admit_effect
  | Complete_effect string string lease_ref json string
  | Complete_effect_with_evidence string string lease_ref json string evidence_row
  | Fail_effect fail_effect
  | Fail_effect_with_evidence fail_effect evidence_row
  | Mark_effect_completion_unknown mark_unknown
  | Reconcile_effect reconcile_effect
  | Claim_reconcile_effects claim_reconcile
  | Reschedule_reconcile string string string time "json option"
  | Escalate_reconcile string string string string
  | Release_reconcile_claim string string string

datatype outbox_command =
    Claim_outbox int "time option"
  | Claim_outbox_by_topic string int "time option"
  | Mark_outbox_published string string "string option"
  | Retry_outbox string string json "time option" "string option"
  | Sweep_outbox_dlq "time option" "int option"
  | Replay_dlq_entry string

datatype interaction_command =
    Create_timer create_timer string
  | Cancel_timer string string
  | Claim_expired_timers "time option" "int option"
  | Acknowledge_timer string string string
  | Retry_timer string string string
  | Create_interaction create_interaction string
  | Answer_interaction answer_interaction
  | Expire_stale_interactions "time option" "int option"

datatype kernel_command =
    Runs run_command
  | Steps step_command
  | Control control_command
  | Effects effect_command
  | Outbox outbox_command
  | Interactions interaction_command

definition forget :: "('s, 'a) tx \<Rightarrow> ('s, unit) tx" where
  "forget m = bind_tx m (\<lambda>_. return_tx ())"

fun run_run :: "kernel_env \<Rightarrow> run_command \<Rightarrow> unit ktx" where
  "run_run env (Create_run command actor) = forget (createRun env command actor)"
| "run_run env (Set_tenant_concurrency_limit t n) = setTenantConcurrencyLimit env t n"

fun run_step :: "kernel_env \<Rightarrow> step_command \<Rightarrow> unit ktx" where
  "run_step env (Claim_next_step request) = forget (claimNextStep env request)"
| "run_step env (Heartbeat_step i t lease ttl) = forget (heartbeatStep env i t lease ttl)"
| "run_step env (Complete_step request) = forget (completeStep env request)"
| "run_step env (Fail_step request) = forget (failStep env request)"
| "run_step env (Wake_retry_step i t actor) = forget (wakeRetryStep env i t actor)"
| "run_step env (Fail_step_by_timer i t failure actor) = forget (failStepByTimer env i t failure actor)"
| "run_step env (Reclaim_expired_leases at n) = forget (reclaimExpiredLeases env at n)"

fun run_control :: "kernel_env \<Rightarrow> control_command \<Rightarrow> unit ktx" where
  "run_control env (Pause_run i t actor) = forget (pauseRun env i t actor)"
| "run_control env (Resume_run i t actor) = forget (resumeRun env i t actor)"
| "run_control env (Cancel_run i t actor) = forget (cancelRun env i t actor)"
| "run_control env (Pause_tenant t actor reason) = forget (pauseTenant env t actor reason)"
| "run_control env (Resume_tenant t actor) = forget (resumeTenant env t actor)"

fun run_effect :: "kernel_env \<Rightarrow> effect_command \<Rightarrow> unit ktx" where
  "run_effect env (Admit_effect request) = forget (admitEffect env request)"
| "run_effect env (Complete_effect i t lease response actor) = forget (completeEffect env i t lease response actor)"
| "run_effect env (Complete_effect_with_evidence i t lease response actor receipt) = forget (completeEffectWithEvidence env i t lease response actor receipt)"
| "run_effect env (Fail_effect request) = forget (failEffect env request)"
| "run_effect env (Fail_effect_with_evidence request receipt) = forget (failEffectWithEvidence env request receipt)"
| "run_effect env (Mark_effect_completion_unknown request) = forget (markEffectCompletionUnknown env request)"
| "run_effect env (Reconcile_effect request) = forget (reconcileEffect env request)"
| "run_effect env (Claim_reconcile_effects input) = forget (claimReconcileEffects env input)"
| "run_effect env (Reschedule_reconcile i t c at e) = forget (rescheduleReconcile env i t c at e)"
| "run_effect env (Escalate_reconcile i t c reason) = forget (escalateReconcile env i t c reason)"
| "run_effect env (Release_reconcile_claim i t c) = forget (releaseReconcileClaim env i t c)"

fun run_outbox :: "kernel_env \<Rightarrow> outbox_command \<Rightarrow> unit ktx" where
  "run_outbox env (Claim_outbox n now) = forget (claimOutbox env n now)"
| "run_outbox env (Claim_outbox_by_topic topic n now) = forget (claimOutboxByTopic env topic n now)"
| "run_outbox env (Mark_outbox_published i c t) = forget (markOutboxPublished env i c t)"
| "run_outbox env (Retry_outbox i c e now t) = forget (retryOutbox env i c e now t)"
| "run_outbox env (Sweep_outbox_dlq at n) = forget (sweepOutboxDlq env at n)"
| "run_outbox env (Replay_dlq_entry i) = forget (replayDlqEntry env i)"

fun run_interaction :: "kernel_env \<Rightarrow> interaction_command \<Rightarrow> unit ktx" where
  "run_interaction env (Create_timer request actor) = forget (createTimer env request actor)"
| "run_interaction env (Cancel_timer i t) = forget (cancelTimer env i t)"
| "run_interaction env (Claim_expired_timers at n) = forget (claimExpiredTimers env at n)"
| "run_interaction env (Acknowledge_timer i t c) = forget (acknowledgeTimer env i t c)"
| "run_interaction env (Retry_timer i t c) = forget (retryTimer env i t c)"
| "run_interaction env (Create_interaction request actor) = forget (createInteraction env request actor)"
| "run_interaction env (Answer_interaction request) = forget (answerInteraction env request)"
| "run_interaction env (Expire_stale_interactions at n) = forget (expireStaleInteractions env at n)"

fun kernel_run :: "kernel_env \<Rightarrow> kernel_command \<Rightarrow> unit ktx" where
  "kernel_run env (Runs c) = run_run env c"
| "kernel_run env (Steps c) = run_step env c"
| "kernel_run env (Control c) = run_control env c"
| "kernel_run env (Effects c) = run_effect env c"
| "kernel_run env (Outbox c) = run_outbox env c"
| "kernel_run env (Interactions c) = run_interaction env c"

text \<open>A step: some caller's command commits (a rolled back one leaves the state as it was).\<close>

inductive kernel_step :: "kernel_db \<Rightarrow> kernel_db \<Rightarrow> bool" where
  committed: "kernel_run env command db = Inr (r, db') \<Longrightarrow> kernel_step db db'"
| workers_written: "kernel_step db (db\<lparr>t_workers := workers\<rparr>)"

inductive_cases kernel_stepE: "kernel_step db db'"

definition reachable :: "kernel_db \<Rightarrow> bool" where
  "reachable = kernel_step\<^sup>*\<^sup>* empty_db"

definition later :: "kernel_db \<Rightarrow> kernel_db \<Rightarrow> bool" where
  "later = kernel_step\<^sup>*\<^sup>*"

section \<open>Every command keeps the invariant\<close>

lemma keeps_forget: "keeps P m \<Longrightarrow> keeps P (forget m)"
  unfolding forget_def by (intro frame)

lemma safe_run_run: "keeps (safe no_debt X db0) (run_run env c)"
  by (cases c; simp only: run_run.simps; ((rule keeps_forget)?, rule safe_createRun safe_setTenantConcurrencyLimit))

lemma safe_run_step: "keeps (safe no_debt X db0) (run_step env c)"
  by (cases c; simp only: run_step.simps; ((rule keeps_forget)?, rule step_operations_safe))

lemma safe_run_control: "keeps (safe no_debt X db0) (run_control env c)"
  by (cases c; simp only: run_control.simps; ((rule keeps_forget)?, rule control_operations_safe))

lemma safe_run_effect: "keeps (safe no_debt X db0) (run_effect env c)"
  by (cases c; simp only: run_effect.simps; ((rule keeps_forget)?, rule effect_operations_safe))

lemma safe_run_outbox: "keeps (safe no_debt X db0) (run_outbox env c)"
  by (cases c; simp only: run_outbox.simps; ((rule keeps_forget)?, rule outbox_operations_safe))

lemma safe_run_interaction: "keeps (safe no_debt X db0) (run_interaction env c)"
  by (cases c; simp only: run_interaction.simps; ((rule keeps_forget)?, rule interaction_operations_safe))

lemma safe_kernel_run: "keeps (safe no_debt X db0) (kernel_run env command)"
  by (cases command; simp add: safe_run_run safe_run_step safe_run_control safe_run_effect safe_run_outbox safe_run_interaction)

lemma ledger_run_run: "keeps (ledger db0) (run_run env c)"
  by (cases c; simp only: run_run.simps; ((rule keeps_forget)?, rule ledger_operations))

lemma ledger_run_step: "keeps (ledger db0) (run_step env c)"
  by (cases c; simp only: run_step.simps; ((rule keeps_forget)?, rule ledger_operations))

lemma ledger_run_control: "keeps (ledger db0) (run_control env c)"
  by (cases c; simp only: run_control.simps; ((rule keeps_forget)?, rule ledger_operations))

lemma ledger_run_effect: "keeps (ledger db0) (run_effect env c)"
  by (cases c; simp only: run_effect.simps; ((rule keeps_forget)?, rule ledger_operations))

lemma ledger_run_outbox: "keeps (ledger db0) (run_outbox env c)"
  by (cases c; simp only: run_outbox.simps; ((rule keeps_forget)?, rule ledger_operations))

lemma ledger_run_interaction: "keeps (ledger db0) (run_interaction env c)"
  by (cases c; simp only: run_interaction.simps; ((rule keeps_forget)?, rule ledger_operations))

lemma ledger_kernel_run: "keeps (ledger db0) (kernel_run env command)"
  by (cases command; simp add: ledger_run_run ledger_run_step ledger_run_control ledger_run_effect ledger_run_outbox ledger_run_interaction)

definition sound :: "kernel_db \<Rightarrow> kernel_db \<Rightarrow> bool" where
  "sound db0 db \<longleftrightarrow> safe no_debt {} db0 db \<and> ledger db0 db"

lemma sound_empty: "sound empty_db empty_db"
  by (simp add: sound_def safe_defs ledger_def empty_db_def unique_key_def)

lemma sound_step: "sound db0 db \<Longrightarrow> kernel_step db db' \<Longrightarrow> sound db0 db'"
proof (erule kernel_stepE)
  fix env command r
  assume "sound db0 db" "kernel_run env command db = Inr (r, db')"
  then show "sound db0 db'"
    unfolding sound_def using safe_kernel_run ledger_kernel_run by (blast dest: keepsD)
next
  fix workers
  assume "sound db0 db" "db' = db\<lparr>t_workers := workers\<rparr>"
  then show "sound db0 db'"
    using safe_core [of db' db] by (simp add: sound_def core_def ledger_def)
qed

lemma sound_start: "sound db0 db \<Longrightarrow> sound db db"
  unfolding sound_def using safe_start ledger_start by blast

interpretation kernel_machine: transition_system kernel_step "\<lambda>db. db = empty_db" sound
  by unfold_locales (auto intro: sound_empty sound_step sound_start)

lemma reachable_sound: "reachable db \<Longrightarrow> sound db db"
  unfolding reachable_def by (rule kernel_machine.reachable_good) auto

lemma later_sound: "reachable db \<Longrightarrow> later db db' \<Longrightarrow> sound db db'"
  unfolding reachable_def later_def by (rule kernel_machine.history) auto

end
