(* ===== verification/Kernel_Example.thy ===== *)
theory Kernel_Example
  imports Kernel_Machine
begin

text \<open>
  A worked run, on which the properties are exercised: one tenant, a run of two steps where the
  second depends on the first, and one worker that claims the first step, admits an effect for it
  and completes it.
\<close>

lemma reachable_empty [simp]: "reachable empty_db"
  by (simp add: reachable_def)

lemma later_refl [simp]: "later db db"
  by (simp add: later_def)

lemma later_trans: "later a b \<Longrightarrow> later b c \<Longrightarrow> later a c"
  unfolding later_def by (rule rtranclp_trans)

lemma reachable_later: "reachable a \<Longrightarrow> later a b \<Longrightarrow> reachable b"
  unfolding reachable_def later_def by (rule rtranclp_trans)

lemma later_commit [simp]: "later db (commit (kernel_run env command) db)"
proof (cases "kernel_run env command db")
  case (Inr p)
  then obtain r db' where "kernel_run env command db = Inr (r, db')" by (cases p) auto
  then show ?thesis unfolding later_def commit_def by (simp add: kernel_step.committed r_into_rtranclp)
qed (simp add: commit_def)

lemma later_workers [simp]: "later db (db\<lparr>t_workers := workers\<rparr>)"
  unfolding later_def by (simp add: kernel_step.workers_written r_into_rtranclp)

definition demo_env :: kernel_env where
  "demo_env = \<lparr>client_now = 1000, db_now = 1000, uuid_at = (\<lambda>n. replicate (Suc n) (CHR ''u'')),
     schedulerMode = True, sha256 = (\<lambda>s. s), enforceAtomicOperationsReadiness = False\<rparr>"

definition demo_step :: "string \<Rightarrow> string list \<Rightarrow> new_step" where
  "demo_step i deps = \<lparr>ns_id = i, ns_kind = ''tool'', ns_initialState = None, ns_interaction = None,
     ns_input = None, ns_dependencies = Some deps, ns_priority = None, ns_maxAttempts = Some 2,
     ns_scheduledAt = Some 0\<rparr>"

definition demo_create :: create_run where
  "demo_create = \<lparr>cr_id = ''r'', cr_tenantId = ''t'', cr_intentHash = ''i'', cr_workGraphHash = ''g'',
     cr_workGraphVersion = ''1'', cr_policySnapshotId = ''p'', cr_metadata = None,
     cr_steps = [demo_step ''a'' [], demo_step ''b'' [''a'']]\<rparr>"

definition demo_worker :: worker_row where
  "demo_worker = \<lparr>worker_id = ''w'', worker_kind = ''agent'', worker_capabilities = [''tool''],
     worker_status = W_ACTIVE, worker_generation = 1, worker_identity_subject = ''w'',
     worker_tenant_ids = [''t''], worker_registered_at = 0, worker_last_heartbeat_at = 1\<rparr>"

definition demo_claim :: claim_request where
  "demo_claim = \<lparr>cq_workerId = ''w'', cq_workerGeneration = Some 1, cq_leaseTtlMs = 500,
     cq_tenantId = Some ''t'', cq_tenantIds = None, cq_capabilities = None, cq_now = None\<rparr>"

definition demo_lease :: lease_ref where
  "demo_lease = \<lparr>lr_workerId = ''w'', lr_workerGeneration = Some 1, lr_token = ''uuu'', lr_fencingEpoch = 1\<rparr>"

definition demo_complete :: complete_step where
  "demo_complete = \<lparr>cs_stepId = ''a'', cs_tenantId = ''t'', cs_lease = demo_lease, cs_output = None,
     cs_expectedVersion = 2, cs_actor = ''w''\<rparr>"

definition demo_admit :: admit_effect where
  "demo_admit = \<lparr>ae_id = ''e'', ae_runId = ''r'', ae_stepId = ''a'', ae_tenantId = ''t'', ae_type = ''llm.chat'',
     ae_idempotencyKey = ''k'', ae_policyDecisionId = ''d'', ae_policySnapshotId = ''p'', ae_actionDigest = ''x'',
     ae_lease = demo_lease, ae_request = JObj [], ae_actor = ''w''\<rparr>"

section \<open>The stages\<close>

text \<open>Each stage is written out; the lemmas below show that the commands lead from one to the next.\<close>

definition demo_log :: "nat \<Rightarrow> new_event \<Rightarrow> kernel_db \<Rightarrow> kernel_db" where
  "demo_log n event db = db\<lparr>
     t_events := t_events db @
       [\<lparr>event_id = replicate (Suc n) (CHR ''u''), event_aggregate_type = ev_aggregateType event,
         event_aggregate_id = ev_aggregateId event, event_sequence = ev_sequence event,
         event_type = ev_type event, event_tenant_id = ''t'', event_run_id = ''r'',
         event_step_id = ev_stepId event, event_causation_id = None, event_correlation_id = None,
         event_actor = ev_actor event, event_schema_version = ''v2'', event_payload = ev_payload event,
         event_occurred_at = 1000\<rparr>],
     t_outbox := t_outbox db @
       [new_outbox_row demo_env (replicate (Suc (Suc n)) (CHR ''u'')) (replicate (Suc n) (CHR ''u'')) ''t''
          (''commander.'' @ ev_type event) ''r''
          (json_spread (ev_payload event) [(''eventId'', JStr (replicate (Suc n) (CHR ''u''))),
             (''type'', JStr (ev_type event)), (''runId'', JStr ''r''),
             (''stepId'', json_of_option JStr (ev_stepId event)), (''tenantId'', JStr ''t'')])],
     uuids_drawn := n + 2\<rparr>"

definition demo_run :: run_row where
  "demo_run = \<lparr>run_id = ''r'', run_tenant_id = ''t'', run_intent_hash = ''i'', run_work_graph_hash = ''g'',
     run_work_graph_version = ''1'', run_policy_snapshot_id = ''p'', run_state = R_PENDING, run_version = 1,
     run_metadata = JObj [], run_created_at = 1000, run_updated_at = 1000, run_paused_at = None,
     run_terminal_at = None\<rparr>"

definition demo_row :: "string \<Rightarrow> string list \<Rightarrow> step_row" where
  "demo_row i deps = \<lparr>step_id = i, step_run_id = ''r'', step_tenant_id = ''t'', step_kind = ''tool'',
     step_state = S_PENDING, step_version = 1, step_attempt = 0, step_max_attempts = 2, step_priority = 0,
     step_dependencies = deps, step_input = JObj [], step_output = None, step_error = None,
     step_scheduled_at = 0, step_lease_worker_id = None, step_lease_worker_generation = 0,
     step_lease_token = None, step_fencing_epoch = 0, step_lease_expires_at = None,
     step_created_at = 1000, step_updated_at = 1000\<rparr>"

definition demo_leased :: step_row where
  "demo_leased = (demo_row ''a'' [])\<lparr>step_state := S_RUNNING, step_version := 2, step_attempt := 1,
     step_lease_worker_id := Some ''w'', step_lease_worker_generation := 1,
     step_lease_token := Some ''uuu'', step_fencing_epoch := 1, step_lease_expires_at := Some 1500\<rparr>"

definition demo_slots :: "int \<Rightarrow> usage_row" where
  "demo_slots n = \<lparr>usage_tenant_id = ''t'', usage_running_steps = n, usage_updated_at = 1000\<rparr>"

definition demo_effect :: effect_row where
  "demo_effect = new_effect_row demo_env demo_admit"

definition demo_created :: kernel_db where
  "demo_created = demo_log 0 (kernel_event ''run'' ''r'' 1 ''run.created'' ''t'' ''r'' None ''actor''
       [(''workGraphHash'', JStr ''g''), (''stepCount'', JNum 2)])
     (empty_db\<lparr>t_runs := [demo_run], t_steps := [demo_row ''a'' [], demo_row ''b'' [''a'']],
        t_usage := [demo_slots 0], t_control := [\<lparr>control_tenant_id = ''t'', control_paused = False,
          control_generation = 0, control_actor = ''kernel'', control_reason = None, control_paused_at = None,
          control_resumed_at = None, control_updated_at = 1000\<rparr>]\<rparr>)"

definition demo_ready :: kernel_db where
  "demo_ready = demo_created\<lparr>t_workers := [demo_worker]\<rparr>"

definition demo_claimed :: kernel_db where
  "demo_claimed = demo_log 3 (kernel_event ''step'' ''a'' 2 ''step.claimed'' ''t'' ''r'' (Some ''a'') ''w''
       [(''attempt'', JNum 1), (''fencingEpoch'', JNum 1)])
     (demo_ready\<lparr>t_runs := [demo_run\<lparr>run_state := R_RUNNING, run_version := 2\<rparr>],
        t_steps := [demo_leased, demo_row ''b'' [''a'']], t_usage := [demo_slots 1]\<rparr>)"

definition demo_admitted :: kernel_db where
  "demo_admitted = demo_log 5 (kernel_event ''effect'' ''e'' 1 ''effect.admitted'' ''t'' ''r'' (Some ''a'') ''w''
       [(''type'', JStr ''llm.chat''), (''policyDecisionId'', JStr ''d''), (''policySnapshotId'', JStr ''p''),
        (''actionDigest'', JStr ''x'')])
     (demo_claimed\<lparr>t_effects := [demo_effect]\<rparr>)"

definition demo_finished :: kernel_db where
  "demo_finished = demo_log 7 (kernel_event ''effect'' ''e'' 2 ''effect.completed'' ''t'' ''r'' (Some ''a'') ''w'' [])
     (demo_admitted\<lparr>t_effects := [finish_effect demo_env E_COMPLETED (JObj []) demo_effect]\<rparr>)"

definition demo_completed :: kernel_db where
  "demo_completed = demo_log 9 (kernel_event ''step'' ''a'' 3 ''step.succeeded'' ''t'' ''r'' (Some ''a'') ''w''
       [(''attempt'', JNum 1)])
     (demo_finished\<lparr>t_steps := [demo_leased\<lparr>step_state := S_SUCCEEDED, step_output := Some (JObj []),
          step_version := 3, step_lease_worker_id := None, step_lease_token := None,
          step_lease_expires_at := None\<rparr>, demo_row ''b'' [''a'']], t_usage := [demo_slots 0]\<rparr>)"

lemma demo_created_run: "kernel_run demo_env (Runs (Create_run demo_create ''actor'')) empty_db = Inr ((), demo_created)"
  by code_simp

lemma demo_claimed_run: "kernel_run demo_env (Steps (Claim_next_step demo_claim)) demo_ready = Inr ((), demo_claimed)"
  by code_simp

lemma demo_admitted_run: "kernel_run demo_env (Effects (Admit_effect demo_admit)) demo_claimed = Inr ((), demo_admitted)"
  by code_simp

lemma demo_finished_run:
  "kernel_run demo_env (Effects (Complete_effect ''e'' ''t'' demo_lease (JObj []) ''w'')) demo_admitted = Inr ((), demo_finished)"
  by code_simp

lemma demo_completed_run: "kernel_run demo_env (Steps (Complete_step demo_complete)) demo_finished = Inr ((), demo_completed)"
  by code_simp

lemma later_of_run: "kernel_run env command db = Inr ((), db') \<Longrightarrow> later db db'"
  unfolding later_def by (rule r_into_rtranclp, rule kernel_step.committed)

lemma demo_later [simp]: "later empty_db demo_created" "later demo_created demo_ready"
  "later demo_ready demo_claimed" "later demo_claimed demo_admitted" "later demo_admitted demo_finished"
  "later demo_finished demo_completed"
  unfolding demo_ready_def
  by (rule later_workers later_of_run demo_created_run demo_claimed_run [unfolded demo_ready_def] demo_admitted_run
      demo_finished_run demo_completed_run)+

lemma demo_claimed_completed [simp]: "later demo_claimed demo_completed"
  by (meson demo_later later_trans)

lemma demo_ready_completed [simp]: "later demo_ready demo_completed"
  by (meson demo_later later_trans)

lemma demo_reachable [simp]: "reachable demo_created" "reachable demo_ready" "reachable demo_claimed"
  "reachable demo_admitted" "reachable demo_finished" "reachable demo_completed"
proof -
  show created: "reachable demo_created" by (rule reachable_later [OF reachable_empty]) simp
  show ready: "reachable demo_ready" by (rule reachable_later [OF created]) simp
  show claimed: "reachable demo_claimed" by (rule reachable_later [OF ready]) simp
  show admitted: "reachable demo_admitted" by (rule reachable_later [OF claimed]) simp
  show finished: "reachable demo_finished" by (rule reachable_later [OF admitted]) simp
  show "reachable demo_completed" by (rule reachable_later [OF finished]) simp
qed

lemmas demo_stages = demo_created_def demo_ready_def demo_claimed_def demo_admitted_def demo_finished_def
  demo_completed_def demo_log_def

text \<open>That an operation returns an object, as a value to compute.\<close>

definition returns_some :: "('s, 'a option) tx \<Rightarrow> 's \<Rightarrow> bool" where
  "returns_some m s = (case m s of Inr (Some _, _) \<Rightarrow> True | _ \<Rightarrow> False)"

lemma returns_someE: "returns_some m s \<Longrightarrow> \<exists>x s'. m s = Inr (Some x, s')"
  by (auto simp: returns_some_def split: sum.splits option.splits)

definition commits :: "('s, 'a) tx \<Rightarrow> 's \<Rightarrow> bool" where
  "commits m s = (case m s of Inl _ \<Rightarrow> False | Inr _ \<Rightarrow> True)"

lemma commitsE: "commits m s \<Longrightarrow> \<exists>x. m s = Inr (x, commit m s)"
  by (auto simp: commits_def commit_def split: sum.splits)

text \<open>A list of commands, each committed or rolled back.\<close>

definition run_all :: "kernel_env \<Rightarrow> kernel_command list \<Rightarrow> kernel_db \<Rightarrow> kernel_db" where
  "run_all env = fold (\<lambda>command. commit (kernel_run env command))"

lemma reachable_run_all: "reachable db \<Longrightarrow> reachable (run_all env commands db)"
  by (induction commands arbitrary: db) (simp_all add: run_all_def reachable_later [OF _ later_commit])

text \<open>The tables of the stages, for the witnesses.\<close>

lemma demo_tables:
  "t_steps demo_ready = [demo_row ''a'' [], demo_row ''b'' [''a'']]"
  "t_runs demo_ready = [demo_run]" "t_workers demo_ready = [demo_worker]"
  "t_steps demo_claimed = [demo_leased, demo_row ''b'' [''a'']]"
  "t_runs demo_claimed = [demo_run\<lparr>run_state := R_RUNNING, run_version := 2\<rparr>]"
  "t_usage demo_claimed = [demo_slots 1]" "t_effects demo_admitted = [demo_effect]"
  "t_effects demo_finished = [finish_effect demo_env E_COMPLETED (JObj []) demo_effect]"
  "length (t_events demo_claimed) = 2" "length (t_events demo_completed) = 5"
  "length (t_outbox demo_completed) = 5"
  by (simp_all add: demo_stages empty_db_def)

end
