(* ===== verification/Kernel_History.thy ===== *)
theory Kernel_History
  imports Kernel_Example
begin

text \<open>
  What holds in every reachable state of the kernel, and between any reachable state and any later
  one. Each property is one conjunct of \<open>sound\<close>, read off at the reachable states.
\<close>

lemma reachable_safe: "reachable db \<Longrightarrow> safe no_debt {} db db"
  using reachable_sound by (simp add: sound_def)

lemma later_evolves: "reachable db \<Longrightarrow> later db db' \<Longrightarrow> evolves db db'"
  using later_sound by (simp add: sound_def safe_def)

lemma run_path_terminal: "run_path a b \<Longrightarrow> isTerminalRunState a \<Longrightarrow> b = a"
  using run_machine.terminal_absorbing [of a b] by (simp add: run_path_def isValidRunTransition_def [abs_def])

lemma step_path_terminal: "step_path a b \<Longrightarrow> isTerminalStepState a \<Longrightarrow> b = a"
  using step_machine.terminal_absorbing [of a b] by (simp add: step_path_def isValidStepTransition_def [abs_def])

lemma one_run:
  assumes "reachable db" "q \<in> set (t_runs db)" "r \<in> set (t_runs db)" "run_id q = run_id r"
  shows "q = r"
proof -
  have key: "unique_key run_id (t_runs db)" using reachable_safe [OF assms(1)] by (simp add: safe_defs)
  show ?thesis by (rule unique_key_inj [OF key assms(2-4)])
qed

lemma one_step:
  assumes "reachable db" "q \<in> set (t_steps db)" "r \<in> set (t_steps db)" "step_id q = step_id r"
  shows "q = r"
proof -
  have key: "unique_key step_id (t_steps db)" using reachable_safe [OF assms(1)] by (simp add: safe_defs)
  show ?thesis by (rule unique_key_inj [OF key assms(2-4)])
qed

lemma step_has_run:
  assumes "reachable db" and "s \<in> set (t_steps db)"
  shows "\<exists>r \<in> set (t_runs db). run_id r = step_run_id s \<and> run_tenant_id r = step_tenant_id s"
  using reachable_safe [OF assms(1)] assms(2) by (auto simp: safe_defs step_placed_def is_run_def)

lemma running_step_run:
  assumes "reachable db" and "s \<in> set (t_steps db)" and "step_state s = S_RUNNING"
  shows "\<exists>r \<in> set (t_runs db). run_id r = step_run_id s \<and> run_tenant_id r = step_tenant_id s \<and> run_state r = R_RUNNING"
proof -
  obtain r where r: "r \<in> set (t_runs db)" "run_id r = step_run_id s" "run_state r = R_RUNNING"
    using reachable_safe [OF assms(1)] assms(2,3) by (auto simp: safe_defs live_run_def)
  obtain q where q: "q \<in> set (t_runs db)" "run_id q = step_run_id s" "run_tenant_id q = step_tenant_id s"
    using step_has_run [OF assms(1,2)] by blast
  have "q = r" by (rule one_run [OF assms(1)]) (simp_all add: q r)
  then show ?thesis using q r by blast
qed

lemma lease_of_running:
  assumes "reachable db" and "s \<in> set (t_steps db)"
  shows "step_lease_token s \<noteq> None \<longleftrightarrow> step_state s = S_RUNNING"
  using reachable_safe [OF assms(1)] assms(2) by (auto simp: safe_defs lease_matches_def split: if_splits)

section \<open>Reachable states\<close>

text \<open>
  C1: the concurrency counter never drifts. Whatever sequence of claims, completions, failures,
  timeouts, recoveries, pauses and cancellations has run, a tenant's \<open>running_steps\<close> is exactly
  the number of its RUNNING steps, so the \<open>max(0, ...)\<close> of the decrements never hides a lost slot.
\<close>

theorem slots_are_exact:
  assumes "reachable db" and "u \<in> set (t_usage db)"
  shows "usage_running_steps u =
    count_rows (\<lambda>s. step_tenant_id s = usage_tenant_id u \<and> step_state s = S_RUNNING) (t_steps db)"
  using reachable_safe [OF assms(1)] assms(2) by (simp add: safe_defs running_in_def [abs_def])

theorem slots_are_exact_witness:
  "hd (t_usage demo_claimed) \<in> set (t_usage demo_claimed) \<and> usage_running_steps (hd (t_usage demo_claimed)) = 1 \<and>
   count_rows (\<lambda>s. step_tenant_id s = ''t'' \<and> step_state s = S_RUNNING) (t_steps demo_claimed) = 1"
proof -
  have mem: "hd (t_usage demo_claimed) \<in> set (t_usage demo_claimed)" by (simp add: demo_tables)
  have "usage_tenant_id (hd (t_usage demo_claimed)) = ''t''" "usage_running_steps (hd (t_usage demo_claimed)) = 1"
    by (simp_all add: demo_tables demo_slots_def)
  then show ?thesis using slots_are_exact [OF demo_reachable(3) mem] mem by simp
qed

text \<open>
  C2: a step is RUNNING exactly while it holds a lease, and then its run exists, belongs to the
  same tenant and is RUNNING; so no step executes in a run that is paused, cancelled, failed,
  compensating or finished, and no lease survives the end of its step.
\<close>

theorem running_steps_are_leased_and_live:
  assumes "reachable db" and "s \<in> set (t_steps db)"
  shows "(step_lease_token s \<noteq> None \<longleftrightarrow> step_state s = S_RUNNING) \<and>
    (step_state s = S_RUNNING \<longrightarrow> (\<exists>r \<in> set (t_runs db). run_id r = step_run_id s \<and>
       run_tenant_id r = step_tenant_id s \<and> run_state r = R_RUNNING))"
  using lease_of_running [OF assms] running_step_run [OF assms] by blast

theorem running_steps_are_leased_and_live_witness:
  "\<exists>s \<in> set (t_steps demo_claimed). step_state s = S_RUNNING \<and> step_lease_token s \<noteq> None \<and>
     (\<exists>r \<in> set (t_runs demo_claimed). run_id r = step_run_id s \<and> run_state r = R_RUNNING)"
proof -
  have mem: "hd (t_steps demo_claimed) \<in> set (t_steps demo_claimed)"
    and running: "step_state (hd (t_steps demo_claimed)) = S_RUNNING"
    by (simp_all add: demo_tables demo_leased_def)
  show ?thesis
    using running_steps_are_leased_and_live [OF demo_reachable(3) mem] running mem by blast
qed

text \<open>
  C36: the outbox misses no event and invents none. In every reachable state the messages carry the
  identifiers of the events one for one and in the same order, whatever claims, retries,
  dead-letter sweeps and replays have done to them since.
\<close>

theorem outbox_mirrors_events:
  assumes "reachable db"
  shows "map outbox_event_id (t_outbox db) = map event_id (t_events db) \<and> unique_key event_id (t_events db)"
  using reachable_safe [OF assms] by (simp add: safe_defs)

theorem outbox_mirrors_events_witness:
  "map outbox_event_id (t_outbox demo_completed) = map event_id (t_events demo_completed) \<and>
   length (t_outbox demo_completed) = 5"
proof
  show "map outbox_event_id (t_outbox demo_completed) = map event_id (t_events demo_completed)"
    using outbox_mirrors_events [OF demo_reachable(6)] by blast
  show "length (t_outbox demo_completed) = 5" by (rule demo_tables)
qed

text \<open>
  The graph stays whole. Identifiers of runs and steps are unique, every step belongs to
  exactly one run, of its own tenant, and that tenant has a slot counter.
\<close>

lemma graph_is_whole:
  assumes "reachable db" and "s \<in> set (t_steps db)"
  shows "(\<exists>!r. r \<in> set (t_runs db) \<and> run_id r = step_run_id s) \<and>
    (\<exists>r \<in> set (t_runs db). run_id r = step_run_id s \<and> run_tenant_id r = step_tenant_id s) \<and>
    (\<exists>u \<in> set (t_usage db). usage_tenant_id u = step_tenant_id s) \<and>
    (\<exists>!s'. s' \<in> set (t_steps db) \<and> step_id s' = step_id s)"
proof -
  obtain r where r: "r \<in> set (t_runs db)" "run_id r = step_run_id s" "run_tenant_id r = step_tenant_id s"
    using step_has_run [OF assms] by blast
  have "q = r" if "q \<in> set (t_runs db)" "run_id q = step_run_id s" for q
    by (rule one_run [OF assms(1)]) (simp_all add: r that)
  moreover have "\<exists>u \<in> set (t_usage db). usage_tenant_id u = step_tenant_id s"
    using reachable_safe [OF assms(1)] assms(2) by (simp add: safe_defs step_placed_def)
  moreover have "q = s" if "q \<in> set (t_steps db)" "step_id q = step_id s" for q
    by (rule one_step [OF assms(1) that(1) assms(2) that(2)])
  ultimately show ?thesis using r assms(2) by blast
qed

section \<open>Histories\<close>

lemma later_run:
  assumes "reachable db" "later db db'" "r \<in> set (t_runs db)"
  shows "\<exists>r' \<in> set (t_runs db'). run_evolves r r'"
  using later_evolves [OF assms(1,2)] assms(3) by (simp add: evolves_def)

lemma later_step:
  assumes "reachable db" "later db db'" "s \<in> set (t_steps db)" "s' \<in> set (t_steps db')" "step_id s' = step_id s"
  shows "step_evolves s s'"
proof -
  obtain q where q: "q \<in> set (t_steps db')" "step_evolves s q"
    using later_evolves [OF assms(1,2)] assms(3) unfolding evolves_def by blast
  have "q = s'"
    by (rule one_step [OF reachable_later [OF assms(1,2)] q(1) assms(4)])
      (use q(2) assms(5) in \<open>simp add: step_evolves_def\<close>)
  with q show ?thesis by simp
qed

text \<open>
  C34: a run never disappears, never changes its tenant, only moves along \<open>RUN_TRANSITIONS\<close>, its
  version never decreases, and once it is SUCCEEDED, FAILED, CANCELLED or COMPENSATED no command
  changes its state again.
\<close>

theorem run_history:
  assumes "reachable db" and "later db db'" and "r \<in> set (t_runs db)"
  shows "\<exists>r' \<in> set (t_runs db'). run_id r' = run_id r \<and> run_tenant_id r' = run_tenant_id r \<and>
    isValidRunTransition\<^sup>*\<^sup>* (run_state r) (run_state r') \<and> run_version r \<le> run_version r' \<and>
    (isTerminalRunState (run_state r) \<longrightarrow> run_state r' = run_state r)"
proof -
  obtain r' where r': "r' \<in> set (t_runs db')" "run_evolves r r'" using later_run [OF assms] by blast
  then have "isTerminalRunState (run_state r) \<longrightarrow> run_state r' = run_state r"
    using run_path_terminal unfolding run_evolves_def by blast
  with r' show ?thesis unfolding run_evolves_def run_path_def by blast
qed

theorem run_history_witness:
  "\<exists>r' \<in> set (t_runs demo_claimed). run_id r' = ''r'' \<and> run_state r' = R_RUNNING \<and>
     isValidRunTransition\<^sup>*\<^sup>* R_PENDING (run_state r')"
proof -
  have mem: "hd (t_runs demo_ready) \<in> set (t_runs demo_ready)" and "run_state (hd (t_runs demo_ready)) = R_PENDING"
    "run_id (hd (t_runs demo_ready)) = ''r''" "\<forall>r \<in> set (t_runs demo_claimed). run_state r = R_RUNNING"
    by (simp_all add: demo_tables demo_run_def)
  then show ?thesis using run_history [OF demo_reachable(2) demo_later(3) mem] by auto
qed

text \<open>
  C35: a step never disappears, stays in its run and tenant, only moves along \<open>STEP_TRANSITIONS\<close>,
  its version and its fencing epoch never decrease, and a step that has SUCCEEDED, FAILED, been
  CANCELLED or SKIPPED never runs again.
\<close>

theorem step_history:
  assumes "reachable db" and "later db db'" and "s \<in> set (t_steps db)"
  shows "\<exists>s' \<in> set (t_steps db'). step_id s' = step_id s \<and> step_run_id s' = step_run_id s \<and>
    step_tenant_id s' = step_tenant_id s \<and> isValidStepTransition\<^sup>*\<^sup>* (step_state s) (step_state s') \<and>
    step_version s \<le> step_version s' \<and> step_fencing_epoch s \<le> step_fencing_epoch s' \<and>
    (isTerminalStepState (step_state s) \<longrightarrow> step_state s' = step_state s)"
proof -
  obtain s' where s': "s' \<in> set (t_steps db')" "step_evolves s s'"
    using later_evolves [OF assms(1,2)] assms(3) unfolding evolves_def by blast
  then have "isTerminalStepState (step_state s) \<longrightarrow> step_state s' = step_state s"
    using step_path_terminal unfolding step_evolves_def by blast
  with s' show ?thesis unfolding step_evolves_def step_path_def by blast
qed

theorem step_history_witness:
  "\<exists>s' \<in> set (t_steps demo_completed). step_id s' = ''a'' \<and> step_version (hd (t_steps demo_ready)) \<le> step_version s' \<and>
     isValidStepTransition\<^sup>*\<^sup>* S_PENDING (step_state s')"
proof -
  have mem: "hd (t_steps demo_ready) \<in> set (t_steps demo_ready)" and "step_state (hd (t_steps demo_ready)) = S_PENDING"
    "step_id (hd (t_steps demo_ready)) = ''a''" by (simp_all add: demo_tables demo_row_def)
  then show ?thesis using step_history [OF demo_reachable(2) demo_ready_completed mem] by auto
qed

text \<open>
  The event log is append-only: any later log extends the earlier one, so no event is lost,
  rewritten or reordered.
\<close>

lemma events_are_append_only:
  assumes "reachable db" and "later db db'"
  shows "\<exists>appended. t_events db' = t_events db @ appended"
  using later_evolves [OF assms] by (simp add: evolves_def)



end
