(* ===== verification/Kernel_Claims.thy ===== *)
theory Kernel_Claims
  imports Kernel_History
begin

text \<open>
  Claiming and fencing, operation by operation: which step a claim hands out, that it is the first
  of the aged order and within the tenant's limit, and that a lease which is not the current one
  can no longer write anything.
\<close>

section \<open>What a claim does\<close>

lemma steps_appendEvent: "unchanged t_steps (appendEvent env event)"
  by (intro frame) simp

lemma steps_startRun: "unchanged t_steps (startRun now runId tenantId)"
  unfolding startRun_def by (intro frame) simp

lemma steps_takeSlot: "unchanged t_steps (takeSlot now tenantId)"
  unfolding takeSlot_def by (intro frame) simp

lemma announceClaim_result:
  assumes "announceClaim env request row db = Inr (r, db')"
  shows "r = Some (fromStep row) \<and> ks_lease (fromStep row) \<noteq> None"
  using assms by (auto simp: announceClaim_def tx split: option.splits)

lemma recordClaim_result:
  assumes "recordClaim env request now candidate rows db = Inr (r, db')"
  shows "t_steps db' = t_steps db \<and>
    (case rows of [] \<Rightarrow> r = None | row # _ \<Rightarrow> r = Some (fromStep row) \<and> ks_lease (fromStep row) \<noteq> None)"
proof -
  have "unchanged t_steps (recordClaim env request now candidate rows)"
    unfolding recordClaim_def announceClaim_def takeSlot_def startRun_def by (intro frame; simp)
  then have "t_steps db' = t_steps db" using assms by (rule unchangedD)
  moreover have "case rows of [] \<Rightarrow> r = None | row # _ \<Rightarrow> r = Some (fromStep row) \<and> ks_lease (fromStep row) \<noteq> None"
    using assms by (cases rows) (auto simp: recordClaim_def tx dest!: announceClaim_result)
  ultimately show ?thesis by blast
qed

text \<open>The candidate query does not look at the supply of identifiers.\<close>

lemma claim_joins_uuids [simp]:
  "running_steps_of (db\<lparr>uuids_drawn := n\<rparr>) t = running_steps_of db t"
  "paused_of (db\<lparr>uuids_drawn := n\<rparr>) t = paused_of db t"
  "max_concurrent_of (db\<lparr>uuids_drawn := n\<rparr>) t = max_concurrent_of db t"
  "prerequisites_met (db\<lparr>uuids_drawn := n\<rparr>) s = prerequisites_met db s"
  by (simp_all add: running_steps_of_def paused_of_def max_concurrent_of_def prerequisites_met_def del: exists_row_iff)

lemma claim_order_uuids [simp]:
  "claim_order (db\<lparr>uuids_drawn := n\<rparr>) now tenants caps w g = claim_order db now tenants caps w g"
proof -
  have "claim_candidate (db\<lparr>uuids_drawn := n\<rparr>) now tenants caps w g = claim_candidate db now tenants caps w g"
    by (rule ext) (simp add: claim_candidate_def cong: option.case_cong del: exists_row_iff)
  moreover have "claim_key (db\<lparr>uuids_drawn := n\<rparr>) now = claim_key db now"
    by (rule ext) (simp add: claim_key_def)
  ultimately show ?thesis by (simp add: claim_order_def)
qed

definition claim_query :: "kernel_db \<Rightarrow> kernel_env \<Rightarrow> claim_request \<Rightarrow> step_row list" where
  "claim_query db env request = claim_order db (or_else (cq_now request) (client_now env)) (request_tenants request)
     (or_else (cq_capabilities request) []) (cq_workerId request) (or_else (cq_workerGeneration request) (-1))"

definition claim_takes :: "kernel_db \<Rightarrow> kernel_env \<Rightarrow> claim_request \<Rightarrow> step_row \<Rightarrow> step_row" where
  "claim_takes db env request =
     claimed_row request (or_else (cq_now request) (client_now env)) (uuid_at env (uuids_drawn db))"

lemma claimNextStep_result:
  assumes "claimNextStep env request db = Inr (r, db')"
  shows "(claim_query db env request = [] \<and> r = None \<and> t_steps db' = t_steps db) \<or>
    (\<exists>s rest row rows. claim_query db env request = s # rest \<and>
       updated_rows (\<lambda>x. step_id x = step_id s) (claim_takes db env request) (t_steps db) = row # rows \<and>
       r = Some (fromStep row) \<and> ks_lease (fromStep row) \<noteq> None \<and>
       t_steps db' = update_where (\<lambda>x. step_id x = step_id s) (claim_takes db env request) (t_steps db))"
proof -
  let ?now = "or_else (cq_now request) (client_now env)"
  have "claimFirst env request ?now (uuid_at env (uuids_drawn db)) (claim_query db env request)
      (db\<lparr>uuids_drawn := Suc (uuids_drawn db)\<rparr>) = Inr (r, db')"
    using assms by (auto simp: claimNextStep_def Let_def tx withTransaction_Inr claim_query_def)
  then show ?thesis
  proof (cases "claim_query db env request")
    case Nil
    then show ?thesis using assms \<open>claimFirst _ _ _ _ _ _ = _\<close> by (simp add: claimFirst_def tx)
  next
    case (Cons s rest)
    have mem: "s \<in> set (t_steps db)"
      using claim_order_mem [OF Cons [unfolded claim_query_def]] by blast
    let ?P = "\<lambda>x. step_id x = step_id s"
    obtain row rows where rows: "updated_rows ?P (claim_takes db env request) (t_steps db) = row # rows"
      using mem updated_rows_Nil_iff [of ?P "claim_takes db env request" "t_steps db"]
      by (cases "updated_rows ?P (claim_takes db env request) (t_steps db)") auto
    have "recordClaim env request ?now s (row # rows)
        (db\<lparr>uuids_drawn := Suc (uuids_drawn db), t_steps := update_where ?P (claim_takes db env request) (t_steps db)\<rparr>) = Inr (r, db')"
      using \<open>claimFirst _ _ _ _ _ _ = _\<close> Cons rows by (auto simp: claimFirst_def tx claim_takes_def)
    from recordClaim_result [OF this] show ?thesis using Cons rows by auto
  qed
qed

section \<open>Claims\<close>

abbreviation claim_now :: "kernel_env \<Rightarrow> claim_request \<Rightarrow> time" where
  "claim_now env request \<equiv> or_else (cq_now request) (client_now env)"

abbreviation candidate_for :: "kernel_db \<Rightarrow> kernel_env \<Rightarrow> claim_request \<Rightarrow> step_row \<Rightarrow> bool" where
  "candidate_for db env request \<equiv> claim_candidate db (claim_now env request) (request_tenants request)
     (or_else (cq_capabilities request) []) (cq_workerId request) (or_else (cq_workerGeneration request) (-1))"

lemma claim_query_Cons:
  assumes "claim_query db env request = s # rest"
  shows "s \<in> set (t_steps db) \<and> candidate_for db env request s \<and>
    (\<forall>x \<in> set (t_steps db). candidate_for db env request x \<longrightarrow>
       claim_key db (claim_now env request) s \<le> claim_key db (claim_now env request) x)"
  using order_limit_Cons_least [OF assms [unfolded claim_query_def claim_order_def]] by simp

lemma claim_query_Nil:
  assumes "claim_query db env request = []"
  shows "\<forall>x \<in> set (t_steps db). \<not> candidate_for db env request x"
  using assms by (simp add: claim_query_def claim_order_def order_limit_empty filter_empty_conv)

lemma claim_takes_simps [simp]:
  "step_id (claim_takes db env request s) = step_id s"
  "step_tenant_id (claim_takes db env request s) = step_tenant_id s"
  "step_state (claim_takes db env request s) = S_RUNNING"
  "step_fencing_epoch (claim_takes db env request s) = step_fencing_epoch s + 1"
  "step_attempt (claim_takes db env request s) = step_attempt s + 1"
  "step_lease_token (claim_takes db env request s) = Some (uuid_at env (uuids_drawn db))"
  "step_lease_worker_id (claim_takes db env request s) = Some (cq_workerId request)"
  "step_lease_expires_at (claim_takes db env request s) = Some (claim_now env request + cq_leaseTtlMs request)"
  by (simp_all add: claim_takes_def claimed_row_def)

lemma claimed_step:
  assumes "reachable db" and "claimNextStep env request db = Inr (Some step, db')"
  shows "\<exists>s \<in> set (t_steps db). candidate_for db env request s \<and> step = fromStep (claim_takes db env request s) \<and> ks_lease step \<noteq> None \<and>
    (\<forall>x \<in> set (t_steps db). candidate_for db env request x \<longrightarrow>
       claim_key db (claim_now env request) s \<le> claim_key db (claim_now env request) x) \<and>
    t_steps db' = update_where (\<lambda>x. step_id x = step_id s) (claim_takes db env request) (t_steps db)"
proof -
  obtain s rest row rows where s: "claim_query db env request = s # rest"
    "updated_rows (\<lambda>x. step_id x = step_id s) (claim_takes db env request) (t_steps db) = row # rows"
    "step = fromStep row" "ks_lease step \<noteq> None"
    "t_steps db' = update_where (\<lambda>x. step_id x = step_id s) (claim_takes db env request) (t_steps db)"
    using claimNextStep_result [OF assms(2)] by auto
  have "row \<in> set (updated_rows (\<lambda>x. step_id x = step_id s) (claim_takes db env request) (t_steps db))"
    using s(2) by simp
  then obtain x where x: "x \<in> set (t_steps db)" "step_id x = step_id s" "row = claim_takes db env request x"
    by (auto simp: updated_rows_mem)
  have "x = s" by (rule one_step [OF assms(1) x(1) _ x(2)]) (use claim_query_Cons [OF s(1)] in blast)
  then show ?thesis using claim_query_Cons [OF s(1)] s x by blast
qed

text \<open>
  C6: what a claim hands out is a step that was allowed to run: waiting and scheduled for now, of an
  unpaused tenant with a free slot, in a run that is PENDING or RUNNING, with all its dependencies
  SUCCEEDED or SKIPPED, of a tenant and kind the worker asked for, and the worker is registered
  ACTIVE at its generation. The lease names the worker and carries the next fencing epoch.
\<close>

theorem claim_is_allowed:
  assumes "reachable db" and "claimNextStep env request db = Inr (Some step, db')"
  shows "\<exists>s \<in> set (t_steps db). ks_id step = step_id s \<and> ks_state step = S_RUNNING \<and>
    step_state s \<in> {S_PENDING, S_RETRY_WAIT} \<and> step_scheduled_at s \<le> claim_now env request \<and>
    paused_of db (step_tenant_id s) = Some False \<and>
    (\<exists>n. running_steps_of db (step_tenant_id s) = Some n \<and> n < max_concurrent_of db (step_tenant_id s)) \<and>
    (\<exists>r \<in> set (t_runs db). run_id r = step_run_id s \<and> run_tenant_id r = step_tenant_id s \<and>
       run_state r \<in> {R_PENDING, R_RUNNING}) \<and>
    (\<forall>d \<in> set (step_dependencies s). \<forall>p \<in> set (t_steps db). step_id p = d \<and> step_tenant_id p = step_tenant_id s \<longrightarrow>
       step_state p \<in> {S_SUCCEEDED, S_SKIPPED}) \<and>
    (request_tenants request = [] \<or> step_tenant_id s \<in> set (request_tenants request)) \<and>
    (or_else (cq_capabilities request) [] = [] \<or> step_kind s \<in> set (or_else (cq_capabilities request) [])) \<and>
    (\<exists>w \<in> set (t_workers db). worker_id w = cq_workerId request \<and> worker_status w = W_ACTIVE \<and>
       worker_generation w = or_else (cq_workerGeneration request) (-1)) \<and>
    (\<exists>l. ks_lease step = Some l \<and> lease_fencingEpoch l = step_fencing_epoch s + 1 \<and>
       lease_workerId l = cq_workerId request)"
proof -
  obtain s where s: "s \<in> set (t_steps db)" "candidate_for db env request s" "step = fromStep (claim_takes db env request s)"
    and leased: "ks_lease step \<noteq> None"
    using claimed_step [OF assms] by blast
  have "\<exists>l. ks_lease step = Some l \<and> lease_fencingEpoch l = step_fencing_epoch s + 1 \<and> lease_workerId l = cq_workerId request"
    using s(3) leased by (auto simp: fromStep_def Let_def split: if_splits)
  moreover have "prerequisites_met db s" "\<exists>n. running_steps_of db (step_tenant_id s) = Some n \<and> n < max_concurrent_of db (step_tenant_id s)"
    using s(2) by (auto simp: claim_candidate_def split: option.splits)
  ultimately show ?thesis
    using s by (intro bexI [OF _ s(1)])
      (auto simp: claim_candidate_def prerequisites_met_def list_ex_iff is_run_def claimable_run_def)
qed

theorem claim_is_allowed_witness:
  "\<exists>s \<in> set (t_steps demo_ready). ks_id (fromStep demo_leased) = step_id s \<and> paused_of demo_ready (step_tenant_id s) = Some False"
proof -
  have claim: "claimNextStep demo_env demo_claim demo_ready = Inr (Some (fromStep demo_leased), demo_claimed)"
    by code_simp
  show ?thesis using claim_is_allowed [OF demo_reachable(2) claim] by blast
qed



text \<open>
  Aging prevents starvation. Waiting never lowers a step's aged priority, a minute of waiting
  gains a point until the cap of 1000, so whatever its own priority a step reaches the cap after
  finitely many minutes and is then ordered by how long it has waited.
\<close>

lemma aging_reaches_cap:
  "(now \<le> later_time \<longrightarrow> aged_priority now s \<le> aged_priority later_time s) \<and>
   aged_priority now s \<le> 1000 \<and>
   (step_scheduled_at s + 60000 * (1000 - step_priority s) \<le> now \<longrightarrow> aged_priority now s = 1000)"
proof (intro conjI impI)
  assume "now \<le> later_time"
  then have "(now - step_scheduled_at s) div 60000 \<le> (later_time - step_scheduled_at s) div 60000"
    by (intro zdiv_mono1) simp_all
  then show "aged_priority now s \<le> aged_priority later_time s" by (simp add: aged_priority_def)
next
  show "aged_priority now s \<le> 1000" by (simp add: aged_priority_def)
next
  assume "step_scheduled_at s + 60000 * (1000 - step_priority s) \<le> now"
  then have "(60000 * (1000 - step_priority s)) div 60000 \<le> (now - step_scheduled_at s) div 60000"
    by (intro zdiv_mono1) simp_all
  then show "aged_priority now s = 1000" by (simp add: aged_priority_def)
qed

section \<open>Fencing\<close>

text \<open>Without a row that holds the lease a worker's write matches nothing.\<close>

lemma update_steps_none: "(\<And>s. s \<in> set (t_steps db) \<Longrightarrow> \<not> P s) \<Longrightarrow> update_steps P f db = Inr ([], db)"
  using updated_rows_Nil_iff [of P f "t_steps db"] by (auto simp: tx update_where_none)

lemma bind_refused: "(\<And>s. s \<in> set (t_steps db) \<Longrightarrow> \<not> P s) \<Longrightarrow> bind_tx (update_steps P f) m db = m [] db"
  by (simp add: bind_tx_def update_steps_none)

lemma bind_query: "bind_tx (query_tx q) f s = f (q s) s"
  by (simp add: bind_tx_def query_tx_def)

lemma heartbeat_refused:
  "(\<And>s. s \<in> set (t_steps db) \<Longrightarrow> is_step i t s \<Longrightarrow> \<not> holds_lease env lease s) \<Longrightarrow>
   heartbeatStep env i t lease ttl db = Inr (None, db)"
  by (simp add: heartbeatStep_def bind_query, subst bind_refused) (auto simp: return_tx_def)

lemma complete_refused:
  "(\<And>s. s \<in> set (t_steps db) \<Longrightarrow> is_step (cs_stepId c) (cs_tenantId c) s \<Longrightarrow> \<not> holds_lease env (cs_lease c) s) \<Longrightarrow>
   completeStep env c db = Inr (None, db)"
  by (simp add: completeStep_def bind_query, subst bind_refused) (auto simp: return_tx_def)

lemma fail_refused:
  "(\<And>s. s \<in> set (t_steps db) \<Longrightarrow> is_step (fs_stepId f) (fs_tenantId f) s \<Longrightarrow> \<not> holds_lease env (fs_lease f) s) \<Longrightarrow>
   failStep env f db = Inr (None, db)"
  by (simp add: failStep_def bind_query, subst bind_refused) (auto simp: return_tx_def)

text \<open>
  C4: a superseded lease is dead for good. Once a step's fencing epoch has passed the epoch of a
  lease (it was claimed again), no heartbeat, completion or failure under that lease changes
  anything, in that state or any later one, whatever its token, worker or version say.
\<close>

theorem superseded_lease_is_fenced:
  assumes "reachable db" and "later db db'" and "s \<in> set (t_steps db)"
    and "lr_fencingEpoch lease < step_fencing_epoch s"
    and "cs_stepId c = step_id s" "cs_lease c = lease" and "fs_stepId f = step_id s" "fs_lease f = lease"
  shows "heartbeatStep env (step_id s) t lease ttl db' = Inr (None, db') \<and>
    completeStep env c db' = Inr (None, db') \<and> failStep env f db' = Inr (None, db')"
proof -
  have fenced: "\<not> holds_lease env lease s'" if "s' \<in> set (t_steps db')" "is_step (step_id s) u s'" for s' u
  proof -
    have "step_evolves s s'"
      by (rule later_step [OF assms(1-3) that(1)]) (use that(2) in \<open>simp add: is_step_def\<close>)
    then show ?thesis using assms(4) by (auto simp: step_evolves_def holds_lease_def)
  qed
  show ?thesis using fenced assms(5-8)
    by (intro conjI heartbeat_refused complete_refused fail_refused) simp_all
qed

text \<open>The lease of an earlier claim, already given back once the step was claimed at epoch 1.\<close>

definition demo_stale :: lease_ref where
  "demo_stale = demo_lease\<lparr>lr_fencingEpoch := 0\<rparr>"

theorem superseded_lease_is_fenced_witness:
  "completeStep demo_env (demo_complete\<lparr>cs_lease := demo_stale\<rparr>) demo_completed = Inr (None, demo_completed)"
proof -
  let ?f = "\<lparr>fs_stepId = ''a'', fs_tenantId = ''t'', fs_lease = demo_stale,
    fs_error = \<lparr>sf_code = ''c'', sf_message = ''m'', sf_retryable = False, sf_details = None\<rparr>,
    fs_retryAt = None, fs_refundAttempt = None, fs_expectedVersion = 1, fs_actor = ''w''\<rparr>"
  have "demo_leased \<in> set (t_steps demo_claimed)" by (simp add: demo_tables)
  then show ?thesis
    using superseded_lease_is_fenced [OF demo_reachable(3) demo_claimed_completed, of demo_leased demo_stale
        "demo_complete\<lparr>cs_lease := demo_stale\<rparr>" ?f demo_env]
    by (simp add: demo_stale_def demo_lease_def demo_leased_def demo_row_def demo_complete_def)
qed

end
