(* ===== verification/Kernel_Tokens.thy ===== *)
theory Kernel_Tokens
  imports Kernel_Claims
begin

text \<open>
  Work that several daemons take from the same table: outbox messages, due timers and effects to
  reconcile. Two contracts are shared by the three tables. \<open>exclusive_claim\<close>: what one claim hands
  out is not handed out again before its time to live has passed. \<open>claim_token\<close>: an
  acknowledgement or a retry acts only under the token of the claim and consumes it. Both are
  interpreted on the repository's operations.
\<close>

section \<open>Exclusive claims\<close>

text \<open>Several claims in a row, by any callers and at any times; the rows they hand out.\<close>

fun claim_series :: "('c \<Rightarrow> time \<Rightarrow> ('s, 'r list) tx) \<Rightarrow> ('c \<times> time) list \<Rightarrow> ('s, 'r list) tx" where
  "claim_series grab [] = return_tx []"
| "claim_series grab ((c, now) # claims) =
     bind_tx (grab c now) (\<lambda>rows. bind_tx (claim_series grab claims) (\<lambda>rest. return_tx (rows @ rest)))"

locale exclusive_claim =
  fixes grab :: "'c \<Rightarrow> time \<Rightarrow> ('s, 'r list) tx" and key :: "'r \<Rightarrow> string"
    and free :: "time \<Rightarrow> 's \<Rightarrow> string \<Rightarrow> bool" and ttl :: "'c \<Rightarrow> int"
  assumes grab_free: "grab c now s = Inr (rows, s') \<Longrightarrow> r \<in> set rows \<Longrightarrow> free now s (key r)"
    and grab_holds: "grab c now s = Inr (rows, s') \<Longrightarrow> r \<in> set rows \<Longrightarrow> at < now + ttl c \<Longrightarrow> \<not> free at s' (key r)"
    and grab_others: "grab c now s = Inr (rows, s') \<Longrightarrow> i \<notin> key ` set rows \<Longrightarrow> free at s' i \<Longrightarrow> free at s i"
begin

lemma series_avoids:
  assumes "claim_series grab claims s = Inr (rows, s')"
    and "snd ` set claims \<subseteq> {..< deadline}" and "\<And>at. at < deadline \<Longrightarrow> \<not> free at s i"
  shows "i \<notin> key ` set rows"
  using assms
proof (induction claims arbitrary: s rows)
  case Nil
  then show ?case by (simp add: tx)
next
  case (Cons claim claims)
  obtain c at where claim: "claim = (c, at)" by fastforce
  obtain first s1 rest where run: "grab c at s = Inr (first, s1)" "claim_series grab claims s1 = Inr (rest, s')"
      "rows = first @ rest"
    using Cons.prems(1) by (auto simp: claim tx)
  have at: "at < deadline" using Cons.prems(2) by (simp add: claim)
  have first: "i \<notin> key ` set first" using grab_free [OF run(1)] Cons.prems(3) [OF at] by auto
  have "i \<notin> key ` set rest"
    by (rule Cons.IH [OF run(2)]) (use Cons.prems(2,3) grab_others [OF run(1) first] in auto)
  with first run(3) show ?case by auto
qed

lemma handed_out_once:
  assumes "grab c now s = Inr (rows, s')" and "claim_series grab claims s' = Inr (rows', s'')"
    and "snd ` set claims \<subseteq> {..< now + ttl c}"
  shows "key ` set rows \<inter> key ` set rows' = {}"
proof -
  have "key r \<notin> key ` set rows'" if "r \<in> set rows" for r
    by (rule series_avoids [OF assms(2,3)]) (use grab_holds [OF assms(1) that] in auto)
  then show ?thesis by auto
qed

end

text \<open>
  The three claims share a shape: the rows named by a query over the rows that are ready are
  updated by key to rows that are not ready for a while.
\<close>

definition handed_out :: "('r \<Rightarrow> string) \<Rightarrow> ('r \<Rightarrow> bool) \<Rightarrow> ('r \<Rightarrow> 'r) \<Rightarrow> 'r list \<Rightarrow> 'r list \<Rightarrow> 'r list \<Rightarrow> bool" where
  "handed_out k P f before rows after \<longleftrightarrow> (\<exists>ids. set ids \<subseteq> k ` set (filter P before) \<and>
     rows = updated_rows (\<lambda>m. k m \<in> set ids) f before \<and> after = update_where (\<lambda>m. k m \<in> set ids) f before)"

lemma handed_out_intro:
  "handed_out k P f rows (updated_rows (\<lambda>m. k m \<in> set (map k (order_limit by_key n (filter P rows)))) f rows)
     (update_where (\<lambda>m. k m \<in> set (map k (order_limit by_key n (filter P rows)))) f rows)"
  unfolding handed_out_def using set_order_limit [of by_key n "filter P rows"]
  by (intro exI [of _ "map k (order_limit by_key n (filter P rows))"]) auto

lemma handed_out_free:
  "handed_out k P f before rows after \<Longrightarrow> (\<And>m. k (f m) = k m) \<Longrightarrow> r \<in> set rows \<Longrightarrow> \<exists>m \<in> set before. k m = k r \<and> P m"
  by (fastforce simp: handed_out_def updated_rows_mem)

lemma handed_out_held:
  "handed_out k P f before rows after \<Longrightarrow> (\<And>m. k (f m) = k m) \<Longrightarrow> (\<And>m. \<not> Q (f m)) \<Longrightarrow> r \<in> set rows \<Longrightarrow>
   \<not> (\<exists>m \<in> set after. k m = k r \<and> Q m)"
  by (auto simp: handed_out_def updated_rows_mem set_update_where)

lemma handed_out_others:
  assumes "handed_out k P f before rows after" "\<And>m. k (f m) = k m" "i \<notin> k ` set rows"
    and "\<exists>m \<in> set after. k m = i \<and> Q m"
  shows "\<exists>m \<in> set before. k m = i \<and> Q m"
proof -
  obtain ids where ids: "rows = updated_rows (\<lambda>m. k m \<in> set ids) f before" "after = update_where (\<lambda>m. k m \<in> set ids) f before"
    using assms(1) by (auto simp: handed_out_def)
  obtain m where m: "m \<in> set after" "k m = i" "Q m" using assms(4) by blast
  obtain m0 where m0: "m0 \<in> set before" "m = (if k m0 \<in> set ids then f m0 else m0)"
    using m(1) unfolding ids(2) set_update_where by blast
  have "k m0 \<notin> set ids"
  proof
    assume "k m0 \<in> set ids"
    then have "f m0 \<in> set rows" using m0(1) by (auto simp: ids(1) updated_rows_mem)
    then show False using assms(2) [of m0] assms(3) m(2) m0(2) \<open>k m0 \<in> set ids\<close>
      by (metis imageI)
  qed
  with m m0 show ?thesis by auto
qed

definition message_free :: "time \<Rightarrow> kernel_db \<Rightarrow> string \<Rightarrow> bool" where
  "message_free now db i \<longleftrightarrow> (\<exists>m \<in> set (t_outbox db). outbox_id m = i \<and> outbox_pending now m)"

definition timer_free :: "time \<Rightarrow> kernel_db \<Rightarrow> string \<Rightarrow> bool" where
  "timer_free now db i \<longleftrightarrow> (\<exists>t \<in> set (t_timers db). timer_id t = i \<and> timer_due now t)"

definition effect_free :: "time \<Rightarrow> kernel_db \<Rightarrow> string \<Rightarrow> bool" where
  "effect_free now db i \<longleftrightarrow> (\<exists>e \<in> set (t_effects db). effect_id e = i \<and> reconcile_ready now e)"

abbreviation claim_message :: "time \<Rightarrow> string \<Rightarrow> outbox_row \<Rightarrow> outbox_row" where
  "claim_message now token m \<equiv> m\<lparr>outbox_claimed_at := Some now, outbox_claim_token := Some token,
     outbox_attempts := outbox_attempts m + 1\<rparr>"

lemma claim_messages_Inr:
  assumes "claim_messages env ok limit now db = Inr (rows, db')"
  obtains token where "handed_out outbox_id (\<lambda>m. ok m \<and> outbox_pending now m) (claim_message now token)
    (t_outbox db) rows (t_outbox db')"
  using assms handed_out_intro by (force simp: claim_messages_def tx)

text \<open>The two claims of the outbox, over all topics but compensation or over one topic.\<close>

definition outbox_claim :: "kernel_env \<times> string option \<times> int \<Rightarrow> time \<Rightarrow> outbox_row list ktx" where
  "outbox_claim c now = (case c of
     (env, None, limit) \<Rightarrow> claimOutbox env limit (Some now)
   | (env, Some topic, limit) \<Rightarrow> claimOutboxByTopic env topic limit (Some now))"

lemma outbox_claim_Inr:
  assumes "outbox_claim c now db = Inr (rows, db')"
  obtains ok token where "handed_out outbox_id (\<lambda>m. ok m \<and> outbox_pending now m) (claim_message now token)
    (t_outbox db) rows (t_outbox db')"
proof -
  obtain env ok limit where "claim_messages env ok limit now db = Inr (rows, db')"
    using assms by (auto simp: outbox_claim_def claimOutbox_def claimOutboxByTopic_def withTransaction_Inr or_else_def tx
        split: prod.splits option.splits if_splits)
  then show ?thesis by (rule claim_messages_Inr) (rule that)
qed

interpretation outbox_claims: exclusive_claim outbox_claim outbox_id message_free "\<lambda>c. 60000"
proof
  fix c now db rows db'
  assume claim: "outbox_claim c now db = Inr (rows, db')"
  obtain ok token where out: "handed_out outbox_id (\<lambda>m. ok m \<and> outbox_pending now m) (claim_message now token)
      (t_outbox db) rows (t_outbox db')"
    using claim by (rule outbox_claim_Inr)
  show "message_free now db (outbox_id r)" if "r \<in> set rows" for r
    using handed_out_free [OF out _ that] by (auto simp: message_free_def)
  show "\<not> message_free at db' (outbox_id r)" if "r \<in> set rows" "at < now + 60000" for r at
    unfolding message_free_def
    by (rule handed_out_held [OF out _ _ that(1)]) (use that in \<open>auto simp: outbox_pending_def\<close>)
  show "message_free at db i" if "i \<notin> outbox_id ` set rows" "message_free at db' i" for i at
    using that unfolding message_free_def by (intro handed_out_others [OF out]) simp_all
qed

definition timer_claim :: "kernel_env \<times> int option \<Rightarrow> time \<Rightarrow> timer_row list ktx" where
  "timer_claim c now = claimExpiredTimers (fst c) (Some now) (snd c)"

lemma timer_claim_Inr:
  assumes "timer_claim c now db = Inr (rows, db')"
  obtains token where "handed_out timer_id (timer_due now) (\<lambda>t. t\<lparr>timer_state := TM_PROCESSING,
    timer_claim_token := Some token, timer_claimed_at := Some now\<rparr>) (t_timers db) rows (t_timers db')"
  using assms handed_out_intro by (force simp: timer_claim_def claimExpiredTimers_def withTransaction_Inr or_else_def tx)

interpretation timer_claims: exclusive_claim timer_claim timer_id timer_free "\<lambda>c. 60000"
proof
  fix c now db rows db'
  assume claim: "timer_claim c now db = Inr (rows, db')"
  obtain token where out: "handed_out timer_id (timer_due now) (\<lambda>t. t\<lparr>timer_state := TM_PROCESSING,
      timer_claim_token := Some token, timer_claimed_at := Some now\<rparr>) (t_timers db) rows (t_timers db')"
    using claim by (rule timer_claim_Inr)
  show "timer_free now db (timer_id r)" if "r \<in> set rows" for r
    unfolding timer_free_def by (rule handed_out_free [OF out _ that]) simp
  show "\<not> timer_free at db' (timer_id r)" if "r \<in> set rows" "at < now + 60000" for r at
    unfolding timer_free_def
    by (rule handed_out_held [OF out _ _ that(1)]) (use that in \<open>auto simp: timer_due_def\<close>)
  show "timer_free at db i" if "i \<notin> timer_id ` set rows" "timer_free at db' i" for i at
    using that unfolding timer_free_def by (intro handed_out_others [OF out]) simp_all
qed

definition effect_claim :: "kernel_env \<times> int \<times> int \<Rightarrow> time \<Rightarrow> (kernel_effect \<times> string) list ktx" where
  "effect_claim c now = claimReconcileEffects (fst c)
     \<lparr>cl_limit = fst (snd c), cl_now = Some now, cl_claimTtlMs = Some (snd (snd c))\<rparr>"

abbreviation claim_effect :: "time \<Rightarrow> int \<Rightarrow> string \<Rightarrow> effect_row \<Rightarrow> effect_row" where
  "claim_effect at ttl token e \<equiv> e\<lparr>effect_reconcile := (effect_reconcile e)\<lparr>rc_claim_token := Some token,
     rc_claim_expires_at := Some (at + ttl), rc_claimed_at := Some at,
     rc_claim_worker_id := Some ''scheduler'', rc_claim_worker_generation := Some 1\<rparr>\<rparr>"

lemma effect_claim_Inr:
  assumes "effect_claim c now db = Inr (claims, db')"
  obtains token rows where
    "handed_out effect_id (reconcile_ready now) (claim_effect now (snd (snd c)) token) (t_effects db) rows (t_effects db')"
    "claims = map (\<lambda>row. (fromEffect row, token)) rows"
  using assms handed_out_intro [of effect_id "reconcile_ready now"]
  by (force simp: effect_claim_def claimReconcileEffects_def reconcile_candidates_def withTransaction_Inr or_else_def Let_def tx)

interpretation effect_claims: exclusive_claim effect_claim "\<lambda>c. ke_id (fst c)" effect_free "\<lambda>c. snd (snd c)"
proof
  fix c now db rows db'
  assume claim: "effect_claim c now db = Inr (rows, db')"
  obtain token es where es: "handed_out effect_id (reconcile_ready now) (claim_effect now (snd (snd c)) token)
      (t_effects db) es (t_effects db')" "rows = map (\<lambda>row. (fromEffect row, token)) es"
    using claim by (rule effect_claim_Inr)
  have e: "\<exists>e \<in> set es. ke_id (fst r) = effect_id e" if "r \<in> set rows" for r
    using that es(2) by (auto simp: fromEffect_def)
  show "effect_free now db (ke_id (fst r))" if "r \<in> set rows" for r
    using e [OF that] handed_out_free [OF es(1)] by (auto simp: effect_free_def)
  show "\<not> effect_free at db' (ke_id (fst r))" if "r \<in> set rows" "at < now + snd (snd c)" for r at
  proof -
    from e [OF that(1)] obtain x where x: "x \<in> set es" "ke_id (fst r) = effect_id x" by blast
    show ?thesis unfolding effect_free_def x(2)
      by (rule handed_out_held [OF es(1) _ _ x(1)]) (use that(2) in \<open>auto simp: reconcile_ready_def\<close>)
  qed
  show "effect_free at db i" if "i \<notin> (\<lambda>c. ke_id (fst c)) ` set rows" "effect_free at db' i" for i at
    using that(2) unfolding effect_free_def
    by (rule handed_out_others [OF es(1), rotated 2]) (use that(1) in \<open>auto simp: es(2) fromEffect_def image_iff\<close>)
qed

section \<open>Claim tokens\<close>

text \<open>
  An operation under a claim token: it acts only while an entry is held under the token, it ends
  the hold, and without the hold it changes nothing.
\<close>

locale claim_token =
  fixes act :: "('s, bool) tx" and held :: "'s \<Rightarrow> bool"
  assumes acts_when_held: "act s = Inr (True, s') \<Longrightarrow> held s"
    and ends_the_hold: "act s = Inr (r, s') \<Longrightarrow> \<not> held s'"
    and refused: "\<not> held s \<Longrightarrow> act s = Inr (r, s') \<Longrightarrow> \<not> r \<and> s' = s"

text \<open>Two operations under the same token, say an acknowledgement and a retry.\<close>

locale claim_token_pair = first: claim_token act held + second: claim_token act' held
  for act act' :: "('s, bool) tx" and held
begin

lemma token_is_spent:
  assumes "act s = Inr (r, s1)"
  shows "(r \<longrightarrow> held s) \<and> (\<forall>r' s2. act' s1 = Inr (r', s2) \<longrightarrow> \<not> r' \<and> s2 = s1)"
proof (rule conjI; intro allI impI)
  show "held s" if r using assms that first.acts_when_held by simp
  show "\<not> r' \<and> s2 = s1" if "act' s1 = Inr (r', s2)" for r' s2
    by (rule second.refused [OF first.ends_the_hold [OF assms] that])
qed

end

text \<open>Rows updated under a predicate that the update falsifies.\<close>

lemma updated_one: "length (updated_rows P f xs) = 1 \<Longrightarrow> \<exists>x \<in> set xs. P x"
  by (metis One_nat_def length_0_conv updated_rows_Nil_iff zero_neq_one)

lemma updated_falsified: "(\<And>x. P x \<Longrightarrow> \<not> P (f x)) \<Longrightarrow> \<not> (\<exists>x \<in> set (update_where P f xs). P x)"
  by (auto simp: set_update_where)

lemma updated_none:
  "\<not> (\<exists>x \<in> set xs. P x) \<Longrightarrow> length (updated_rows P f xs) \<noteq> 1 \<and> update_where P f xs = xs"
  using updated_one [of P f xs] update_where_none [of xs P f] by blast

definition message_held :: "string \<Rightarrow> string \<Rightarrow> kernel_db \<Rightarrow> bool" where
  "message_held i token db \<longleftrightarrow> (\<exists>m \<in> set (t_outbox db). claimed_message i token m)"

definition timer_held :: "string \<Rightarrow> string \<Rightarrow> string \<Rightarrow> kernel_db \<Rightarrow> bool" where
  "timer_held i tenantId token db \<longleftrightarrow> (\<exists>t \<in> set (t_timers db). claimed_timer i tenantId token t)"

definition effect_held :: "string \<Rightarrow> string \<Rightarrow> string \<Rightarrow> kernel_db \<Rightarrow> bool" where
  "effect_held i tenantId token db \<longleftrightarrow> (\<exists>e \<in> set (t_effects db). claimed_unknown i tenantId token e)"

lemma in_outbox_scope_Inr: "in_outbox_scope env t fn db = Inr p \<Longrightarrow> fn db = Inr p"
  by (auto simp: in_outbox_scope_def tx withTransaction_Inr split: sum.splits)

text \<open>The shape of the six operations under a token: one update, whose row count is the answer.\<close>

lemma claim_token_update:
  assumes shape: "\<And>s r s'. act s = Inr (r, s') \<Longrightarrow>
      r = (length (updated_rows P (f s) (tab s)) = 1) \<and> tab s' = update_where P (f s) (tab s) \<and> (tab s' = tab s \<longrightarrow> s' = s)"
    and falsify: "\<And>s x. P x \<Longrightarrow> \<not> P (f s x)"
  shows "claim_token act (\<lambda>s. \<exists>x \<in> set (tab s). P x)"
proof
  show "\<exists>x \<in> set (tab s). P x" if "act s = Inr (True, s')" for s s'
    using shape [OF that] updated_one by blast
  show "\<not> (\<exists>x \<in> set (tab s'). P x)" if "act s = Inr (r, s')" for s r s'
    using shape [OF that] updated_falsified [of P "f s", OF falsify] by auto
  show "\<not> r \<and> s' = s" if "\<not> (\<exists>x \<in> set (tab s). P x)" "act s = Inr (r, s')" for s r s'
    using shape [OF that(2)] updated_none [OF that(1), of "f s"] by auto
qed

lemma unclaimed [simp]:
  "outbox_claim_token m = None \<Longrightarrow> \<not> claimed_message i token m"
  "timer_claim_token t = None \<Longrightarrow> \<not> claimed_timer i tenantId token t"
  "rc_claim_token (effect_reconcile e) = None \<Longrightarrow> \<not> claimed_unknown i tenantId token e"
  by (auto simp: claimed_message_def claimed_timer_def claimed_unknown_def)

lemma message_token_ops:
  "claim_token (markOutboxPublished env i token t) (message_held i token)"
  "claim_token (retryOutbox env i token e now t) (message_held i token)"
proof -
  show "claim_token (markOutboxPublished env i token t) (message_held i token)"
    unfolding message_held_def [abs_def]
    by (rule claim_token_update [where f = "\<lambda>s m. m\<lparr>outbox_published_at := Some (db_now env),
          outbox_claim_token := None, outbox_claimed_at := None\<rparr>"])
      (auto simp: markOutboxPublished_def tx dest!: in_outbox_scope_Inr)
  show "claim_token (retryOutbox env i token e now t) (message_held i token)"
    unfolding message_held_def [abs_def]
    by (rule claim_token_update [where f = "\<lambda>s m. m\<lparr>outbox_available_at := or_else now (client_now env) +
            2 ^ nat (max 0 (outbox_attempts m - 1)) * 1000, outbox_last_error := Some e, outbox_claim_token := None,
            outbox_claimed_at := None\<rparr>"])
      (auto simp: retryOutbox_def tx dest!: in_outbox_scope_Inr)
qed

lemma timer_token_ops:
  "claim_token (acknowledgeTimer env i t token) (timer_held i t token)"
  "claim_token (retryTimer env i t token) (timer_held i t token)"
proof -
  show "claim_token (acknowledgeTimer env i t token) (timer_held i t token)"
    unfolding timer_held_def [abs_def]
    by (rule claim_token_update [where f = "\<lambda>s t. t\<lparr>timer_state := TM_FIRED, timer_fired_at := Some (db_now env),
          timer_claim_token := None, timer_claimed_at := None\<rparr>"])
      (auto simp: acknowledgeTimer_def tx)
  show "claim_token (retryTimer env i t token) (timer_held i t token)"
    unfolding timer_held_def [abs_def]
    by (rule claim_token_update [where f = "\<lambda>s t. t\<lparr>timer_state := TM_PENDING, timer_claim_token := None,
          timer_claimed_at := None\<rparr>"])
      (auto simp: retryTimer_def tx)
qed

lemma effect_token_op: "claim_token (rescheduleReconcile env i t token after e) (effect_held i t token)"
  unfolding effect_held_def [abs_def]
  by (rule claim_token_update [where f = "\<lambda>s x. x\<lparr>effect_reconcile := (effect_reconcile x)\<lparr>
        rc_attempts := rc_attempts (effect_reconcile x) + 1, rc_after := Some after, rc_claim_token := None,
        rc_claim_expires_at := None, rc_last_error := (case e of None \<Rightarrow> rc_last_error (effect_reconcile x) | Some j \<Rightarrow> Some j)\<rparr>\<rparr>"])
    (auto simp: rescheduleReconcile_def tx)

interpretation message_tokens: claim_token_pair
  "markOutboxPublished env i token t" "retryOutbox env i token e now t" "message_held i token"
  for env i token t e now
  unfolding claim_token_pair_def by (intro conjI message_token_ops)

interpretation message_retries: claim_token_pair
  "retryOutbox env i token e now t" "markOutboxPublished env i token t" "message_held i token"
  for env i token t e now
  unfolding claim_token_pair_def by (intro conjI message_token_ops)

interpretation timer_tokens: claim_token_pair
  "acknowledgeTimer env i t token" "retryTimer env i t token" "timer_held i t token"
  for env i t token
  unfolding claim_token_pair_def by (intro conjI timer_token_ops)

interpretation timer_retries: claim_token_pair
  "retryTimer env i t token" "acknowledgeTimer env i t token" "timer_held i t token"
  for env i t token
  unfolding claim_token_pair_def by (intro conjI timer_token_ops)

interpretation effect_tokens: claim_token_pair
  "rescheduleReconcile env i t token after e" "rescheduleReconcile env i t token after' e'" "effect_held i t token"
  for env i t token after e after' e'
  unfolding claim_token_pair_def by (intro conjI effect_token_op)


text \<open>
  No two daemons work on the same entry. What a claim of the outbox, of the timers or of the
  effects to reconcile hands out is handed out again by no later claim, by whichever daemon, over
  whichever topic and with whatever limit, until the time to live of the first claim has passed
  (a minute; for effects what the claim asked for).
\<close>

lemma work_is_handed_out_once:
  "(outbox_claim c now db = Inr (messages, db1) \<and> claim_series outbox_claim claims db1 = Inr (messages', db2) \<and>
      snd ` set claims \<subseteq> {..< now + 60000} \<longrightarrow> outbox_id ` set messages \<inter> outbox_id ` set messages' = {}) \<and>
   (timer_claim d now db = Inr (timers, db1) \<and> claim_series timer_claim tclaims db1 = Inr (timers', db2) \<and>
      snd ` set tclaims \<subseteq> {..< now + 60000} \<longrightarrow> timer_id ` set timers \<inter> timer_id ` set timers' = {}) \<and>
   (effect_claim e now db = Inr (effects, db1) \<and> claim_series effect_claim eclaims db1 = Inr (effects', db2) \<and>
      snd ` set eclaims \<subseteq> {..< now + snd (snd e)} \<longrightarrow>
      (\<lambda>c. ke_id (fst c)) ` set effects \<inter> (\<lambda>c. ke_id (fst c)) ` set effects' = {})"
  by (intro conjI impI; elim conjE;
      erule (2) outbox_claims.handed_out_once timer_claims.handed_out_once effect_claims.handed_out_once)

text \<open>The one message of the first stage, claimed.\<close>

definition demo_taken :: kernel_db where
  "demo_taken = demo_created\<lparr>t_outbox := map (claim_message 1000 ''uuu'') (t_outbox demo_created), uuids_drawn := 3\<rparr>"

text \<open>
  A claim token is good for one use. An acknowledgement or a retry of a message, of a timer or
  of a reconciliation succeeds only on an entry held under its token; after it, acknowledging or
  retrying under the same token returns false and changes nothing.
\<close>

lemma claim_tokens_are_single_use:
  "(markOutboxPublished env i token t db = Inr (r, db1) \<longrightarrow> (r \<longrightarrow> message_held i token db) \<and>
     (\<forall>r' db2. retryOutbox env i token e now t db1 = Inr (r', db2) \<longrightarrow> \<not> r' \<and> db2 = db1)) \<and>
   (retryOutbox env i token e now t db = Inr (r, db1) \<longrightarrow> (r \<longrightarrow> message_held i token db) \<and>
     (\<forall>r' db2. markOutboxPublished env i token t db1 = Inr (r', db2) \<longrightarrow> \<not> r' \<and> db2 = db1)) \<and>
   (acknowledgeTimer env i tenantId token db = Inr (r, db1) \<longrightarrow> (r \<longrightarrow> timer_held i tenantId token db) \<and>
     (\<forall>r' db2. retryTimer env i tenantId token db1 = Inr (r', db2) \<longrightarrow> \<not> r' \<and> db2 = db1)) \<and>
   (retryTimer env i tenantId token db = Inr (r, db1) \<longrightarrow> (r \<longrightarrow> timer_held i tenantId token db) \<and>
     (\<forall>r' db2. acknowledgeTimer env i tenantId token db1 = Inr (r', db2) \<longrightarrow> \<not> r' \<and> db2 = db1)) \<and>
   (rescheduleReconcile env i tenantId token after e' db = Inr (r, db1) \<longrightarrow> (r \<longrightarrow> effect_held i tenantId token db) \<and>
     (\<forall>r' db2. rescheduleReconcile env i tenantId token after e' db1 = Inr (r', db2) \<longrightarrow> \<not> r' \<and> db2 = db1))"
  by (intro conjI)
    (rule impI, erule message_tokens.token_is_spent message_retries.token_is_spent timer_tokens.token_is_spent
      timer_retries.token_is_spent effect_tokens.token_is_spent)+

definition demo_published :: kernel_db where
  "demo_published = demo_taken\<lparr>t_outbox := map (\<lambda>m. m\<lparr>outbox_published_at := Some 1000,
     outbox_claim_token := None, outbox_claimed_at := None\<rparr>) (t_outbox demo_taken)\<rparr>"

end
