(* ===== verification/Kernel_Stops.thy ===== *)
theory Kernel_Stops
  imports Kernel_Claims
begin

text \<open>
  What pausing, cancelling and ending leave behind: no step of a paused or ended run runs, none is
  handed out, and an ended run stays ended.
\<close>

section \<open>The table of runs in the result\<close>

lemma keeps_view: "unchanged v m \<Longrightarrow> keeps (\<lambda>s. Q (v s)) m"
  unfolding keeps_def by (metis unchangedD)

text \<open>The run an operation returns, as it stands in the table afterwards.\<close>

definition returns_run :: "string \<Rightarrow> string \<Rightarrow> run_state \<Rightarrow> run_row option ktx \<Rightarrow> bool" where
  "returns_run runId tenantId target m \<longleftrightarrow> (\<forall>db run db'. m db = Inr (Some run, db') \<longrightarrow>
     run \<in> set (t_runs db') \<and> is_run runId tenantId run \<and> run_state run = target)"

lemma returns_run_none [intro]: "returns_run runId tenantId target (return_tx None)"
  by (simp add: returns_run_def tx)

lemma returns_run_bind [intro]: "(\<And>x. returns_run i t target (f x)) \<Longrightarrow> returns_run i t target (bind_tx m f)"
  unfolding returns_run_def bind_tx_Inr by blast

lemma returns_run_throw [intro]: "returns_run i t target (throw_tx e)"
  by (simp add: returns_run_def tx)

lemma returns_run_updated:
  assumes "\<And>r. P r \<Longrightarrow> is_run i t (f r) \<and> run_state (f r) = target" and "\<And>run. unchanged t_runs (rest run)"
    and "\<And>run db r db'. rest run db = Inr (r, db') \<Longrightarrow> r = Some run"
  shows "returns_run i t target (bind_tx (update_runs P f) (\<lambda>runs. case runs of [] \<Rightarrow> return_tx None | run # _ \<Rightarrow> rest run))"
  unfolding returns_run_def
proof (intro allI impI)
  fix db run db'
  assume "bind_tx (update_runs P f) (\<lambda>runs. case runs of [] \<Rightarrow> return_tx None | run # _ \<Rightarrow> rest run) db = Inr (Some run, db')"
  then obtain row rows where rows: "updated_rows P f (t_runs db) = row # rows"
    and rest: "rest row (db\<lparr>t_runs := update_where P f (t_runs db)\<rparr>) = Inr (Some run, db')"
    by (auto simp: tx split: list.splits)
  have run: "run = row" using assms(3) [OF rest] by simp
  have runs: "t_runs db' = update_where P f (t_runs db)" using unchangedD [OF assms(2) rest] by simp
  obtain r where "r \<in> set (t_runs db)" "P r" "row = f r" using updated_rows_Cons_D [OF rows] by blast
  then show "run \<in> set (t_runs db') \<and> is_run i t run \<and> run_state run = target"
    using assms(1) run runs by (auto simp: set_update_where)
qed

lemma returns_run_option:
  "(\<And>x. y = Some x \<Longrightarrow> returns_run i t target (f x)) \<Longrightarrow>
   returns_run i t target (case y of None \<Rightarrow> return_tx None | Some x \<Rightarrow> f x)"
  by (cases y) auto

lemma returns_run_if: "(\<not> b \<Longrightarrow> returns_run i t target m) \<Longrightarrow> returns_run i t target (if b then return_tx None else m)"
  by auto

lemma pauseRun_returns: "returns_run runId tenantId R_PAUSED (pauseRun env runId tenantId actor)"
  unfolding pauseRun_def withTransaction_tenant
  by (rule returns_run_updated returns_run_if returns_run_option returns_run_bind)+
    (auto simp: is_run_def tx intro!: frame)

lemma cancelRun_returns: "returns_run runId tenantId R_CANCELLED (cancelRun env runId tenantId actor)"
  unfolding cancelRun_def withTransaction_tenant
  by (rule returns_run_updated returns_run_if returns_run_option returns_run_bind)+
    (auto simp: is_run_def tx intro!: frame)

lemma resumeRun_returns: "returns_run runId tenantId R_RUNNING (resumeRun env runId tenantId actor)"
  unfolding resumeRun_def withTransaction_tenant
  by (rule returns_run_updated returns_run_if returns_run_option returns_run_bind)+
    (auto simp: is_run_def tx intro!: frame)


section \<open>Pausing a tenant\<close>

lemma first_row_update:
  assumes "exists_row P rows" and "\<And>r. P r \<Longrightarrow> P (f r)"
  shows "\<exists>r. P r \<and> first_row P (update_where P f rows) = Some (f r)"
  using assms by (induction rows) (auto simp: first_row_def)

lemma first_row_append: "\<not> exists_row P rows \<Longrightarrow> P r \<Longrightarrow> first_row P (rows @ [r]) = Some r"
  by (induction rows) (auto simp: first_row_def)

lemma upsert_control_paused:
  assumes "upsert_control env t fresh f db = Inr (r, db')"
    and "control_tenant_id fresh = t" "control_paused fresh = p"
    and f: "\<And>c. control_tenant_id (f c) = control_tenant_id c" "\<And>c. control_paused (f c) = p"
  shows "paused_of db' t = Some p"
proof (cases "exists_row (\<lambda>c. control_tenant_id c = t) (t_control db)")
  case True
  then have "db' = db\<lparr>t_control := update_where (\<lambda>c. control_tenant_id c = t) f (t_control db)\<rparr>"
    using assms(1) by (auto simp add: upsert_control_def simp del: exists_row_iff)
  moreover obtain c where "first_row (\<lambda>c. control_tenant_id c = t) (update_where (\<lambda>c. control_tenant_id c = t) f (t_control db)) = Some (f c)"
    using first_row_update [OF True] f(1) by metis
  ultimately show ?thesis by (simp add: paused_of_def f(2))
next
  case False
  then have "db' = db\<lparr>t_control := t_control db @ [fresh]\<rparr>"
    using assms(1) by (auto simp add: upsert_control_def simp del: exists_row_iff)
  then show ?thesis
    using first_row_append [OF False, of fresh] assms(2,3) by (simp add: paused_of_def)
qed

lemma triple_seq_keeps: "keeps P m \<Longrightarrow> (\<And>x. triple P (f x) Q) \<Longrightarrow> triple P (bind_tx m f) Q"
  unfolding keeps_triple by (rule triple_bind)

lemma all_updated: "(\<forall>x \<in> set (update_where P f rows). Q x) \<longleftrightarrow> (\<forall>x \<in> set rows. Q (if P x then f x else x))"
  by (induction rows) auto

definition tenant_still :: "string \<Rightarrow> control_row list \<times> step_row list \<Rightarrow> bool" where
  "tenant_still t v \<longleftrightarrow> map_option control_paused (first_row (\<lambda>c. control_tenant_id c = t) (fst v)) = Some True \<and>
     (\<forall>s \<in> set (snd v). step_tenant_id s = t \<longrightarrow> step_state s \<noteq> S_RUNNING)"

lemma pauseTenant_stills:
  "triple (\<lambda>_. True) (pauseTenant env t actor reason) (\<lambda>_ db. tenant_still t (t_control db, t_steps db))"
proof -
  let ?f = "\<lambda>s. s\<lparr>step_state := S_RETRY_WAIT, step_scheduled_at := db_now env,
              step_version := step_version s + 1, step_updated_at := db_now env,
              step_lease_worker_id := None, step_lease_worker_generation := 0,
              step_lease_token := None, step_lease_expires_at := None\<rparr> :: step_row"
  have steps: "triple (\<lambda>db. paused_of db t = Some True) (update_steps (\<lambda>s. step_tenant_id s = t \<and> step_state s = S_RUNNING) ?f)
      (\<lambda>_ db. tenant_still t (t_control db, t_steps db))"
    by (rule tripleI) (simp add: tx tenant_still_def paused_of_def all_updated)
  have paused: "triple (\<lambda>_. True) (upsert_control env t
       \<lparr>control_tenant_id = t, control_paused = True, control_generation = 1,
        control_actor = actor, control_reason = reason, control_paused_at = Some (db_now env),
        control_resumed_at = None, control_updated_at = db_now env\<rparr>
       (\<lambda>c. c\<lparr>control_paused := True, control_generation := control_generation c + 1,
              control_actor := actor, control_reason := reason,
              control_paused_at := Some (db_now env), control_resumed_at := None,
              control_updated_at := db_now env\<rparr>)) (\<lambda>_ db. paused_of db t = Some True)"
    by (rule tripleI, erule upsert_control_paused) simp_all
  show ?thesis
    unfolding pauseTenant_def withTransaction_tenant takeSlots_def
  proof (rule triple_bind [OF paused], rule triple_seq_keeps [OF assertStepTransition_keeps], rule triple_bind [OF steps], goal_cases)
    case (1 controls _ affected)
    show ?case
      by (rule triple_of_keeps, rule keeps_view) (intro frame; simp)
  qed
qed

section \<open>Properties\<close>

lemma not_running_in:
  assumes "reachable db" and "r \<in> set (t_runs db)" and "run_state r \<noteq> R_RUNNING"
    and "s \<in> set (t_steps db)" and "step_run_id s = run_id r"
  shows "step_state s \<noteq> S_RUNNING"
  using running_step_run [OF assms(1,4)] one_run [OF assms(1) _ assms(2)] assms(3,5) by metis

lemma not_claimed_from:
  assumes "reachable db" and "r \<in> set (t_runs db)" and "run_state r \<notin> {R_PENDING, R_RUNNING}"
    and "claimNextStep env request db = Inr (Some step, db')"
  shows "ks_runId step \<noteq> run_id r"
proof
  assume run: "ks_runId step = run_id r"
  obtain s where s: "s \<in> set (t_steps db)" "candidate_for db env request s" "step = fromStep (claim_takes db env request s)"
    using claimed_step [OF assms(1,4)] by blast
  obtain q where q: "q \<in> set (t_runs db)" "run_id q = step_run_id s" "run_state q \<in> {R_PENDING, R_RUNNING}"
    using s(2) by (auto simp: claim_candidate_def claimable_run_def is_run_def)
  have "run_id q = run_id r" using run q(2) s(3) by (simp add: claim_takes_def claimed_row_def)
  then have "q = r" by (rule one_run [OF assms(1) q(1) assms(2)])
  then show False using q(3) assms(3) by simp
qed

lemma control_reachable: "reachable db \<Longrightarrow> run_control env c db = Inr ((), db') \<Longrightarrow> reachable db'"
  by (rule reachable_later, assumption) (rule later_of_run [of env "Control c"], simp)

text \<open>
  Pausing stops the work at once. When \<open>pauseRun\<close> returns the run, the run is PAUSED, none of
  its steps is RUNNING any more, and no claim hands one out.
\<close>

lemma paused_run_is_still:
  assumes "reachable db" and "pauseRun env runId tenantId actor db = Inr (Some run, db')"
  shows "run \<in> set (t_runs db') \<and> run_id run = runId \<and> run_state run = R_PAUSED \<and>
    (\<forall>s \<in> set (t_steps db'). step_run_id s = runId \<longrightarrow> step_state s \<noteq> S_RUNNING) \<and>
    (\<forall>env' request step db''. claimNextStep env' request db' = Inr (Some step, db'') \<longrightarrow> ks_runId step \<noteq> runId)"
proof -
  have reach: "reachable db'"
    by (rule control_reachable [OF assms(1), of env "Pause_run runId tenantId actor"])
      (use assms(2) in \<open>simp add: forget_def tx\<close>)
  have run: "run \<in> set (t_runs db')" "run_id run = runId" "run_state run = R_PAUSED"
    using pauseRun_returns assms(2) unfolding returns_run_def is_run_def by blast+
  show ?thesis
    using run not_running_in [OF reach run(1)] not_claimed_from [OF reach run(1)] by simp
qed

text \<open>
  Cancelling is final. Once \<open>cancelRun\<close> has returned the run, then in every later state the run
  is CANCELLED, none of its steps is RUNNING and no claim hands one out, whatever was asked since.
\<close>

lemma cancelled_run_stays_still:
  assumes "reachable db" and "cancelRun env runId tenantId actor db = Inr (Some run, db')" and "later db' db''"
  shows "(\<exists>r \<in> set (t_runs db''). run_id r = runId \<and> run_state r = R_CANCELLED) \<and>
    (\<forall>s \<in> set (t_steps db''). step_run_id s = runId \<longrightarrow> step_state s \<noteq> S_RUNNING) \<and>
    (\<forall>env' request step db3. claimNextStep env' request db'' = Inr (Some step, db3) \<longrightarrow> ks_runId step \<noteq> runId)"
proof -
  have reach: "reachable db'"
    by (rule control_reachable [OF assms(1), of env "Cancel_run runId tenantId actor"])
      (use assms(2) in \<open>simp add: forget_def tx\<close>)
  have run: "run \<in> set (t_runs db')" "run_id run = runId" "run_state run = R_CANCELLED"
    using cancelRun_returns assms(2) unfolding returns_run_def is_run_def by blast+
  obtain r where r: "r \<in> set (t_runs db'')" "run_evolves run r" using later_run [OF reach assms(3) run(1)] by blast
  then have id: "run_id r = runId" "run_state r = R_CANCELLED"
    using run run_path_terminal [of R_CANCELLED "run_state r"] by (auto simp: run_evolves_def)
  show ?thesis
    using r(1) id not_running_in [OF reachable_later [OF reach assms(3)] r(1)]
      not_claimed_from [OF reachable_later [OF reach assms(3)] r(1)] by auto
qed

text \<open>
  Pausing a tenant frees all it holds and blocks it. After \<open>pauseTenant\<close> no step of the tenant
  is RUNNING, its slot counter is zero, and no claim hands out one of its steps.
\<close>

lemma paused_tenant_is_still:
  assumes "reachable db" and "pauseTenant env tenantId actor reason db = Inr (control, db')"
  shows "(\<forall>s \<in> set (t_steps db'). step_tenant_id s = tenantId \<longrightarrow> step_state s \<noteq> S_RUNNING) \<and>
    (\<forall>u \<in> set (t_usage db'). usage_tenant_id u = tenantId \<longrightarrow> usage_running_steps u = 0) \<and>
    (\<forall>env' request step db''. claimNextStep env' request db' = Inr (Some step, db'') \<longrightarrow> ks_tenantId step \<noteq> tenantId)"
proof -
  have reach: "reachable db'"
    by (rule control_reachable [OF assms(1), of env "Pause_tenant tenantId actor reason"])
      (use assms(2) in \<open>simp add: forget_def tx\<close>)
  have still: "paused_of db' tenantId = Some True"
    "\<forall>s \<in> set (t_steps db'). step_tenant_id s = tenantId \<longrightarrow> step_state s \<noteq> S_RUNNING"
    using tripleD [OF pauseTenant_stills _ assms(2)] by (auto simp: tenant_still_def paused_of_def)
  have "usage_running_steps u = 0" if "u \<in> set (t_usage db')" "usage_tenant_id u = tenantId" for u
    using reachable_safe [OF reach] that still(2)
    by (auto simp: safe_def slots_ok_def running_in_def count_rows_zero)
  moreover have "ks_tenantId step \<noteq> tenantId" if claim: "claimNextStep env' request db' = Inr (Some step, db'')"
    for env' request step db''
  proof -
    obtain s where s: "candidate_for db' env' request s" "step = fromStep (claim_takes db' env' request s)"
      using claimed_step [OF reach claim] by blast
    then show ?thesis using still(1) by (auto simp: claim_candidate_def)
  qed
  ultimately show ?thesis using still(2) by blast
qed

end
