(* ===== verification/Kernel_Tenants.thy ===== *)
theory Kernel_Tenants
  imports Kernel_Claims
begin

text \<open>
  Tenant isolation: an operation that a tenant calls leaves every row of every other tenant as it
  was, in all tables. \<open>others t\<close> is what the tenants but \<open>t\<close> see of the database.
\<close>

named_theorems confined

definition others :: "string \<Rightarrow> kernel_db \<Rightarrow> run_row list \<times> step_row list \<times> effect_row list \<times> event_row list \<times>
    outbox_row list \<times> dlq_row list \<times> limits_row list \<times> usage_row list \<times> control_row list \<times> timer_row list \<times>
    interaction_row list \<times> evidence_row list" where
  "others t db = (filter (\<lambda>r. run_tenant_id r \<noteq> t) (t_runs db), filter (\<lambda>s. step_tenant_id s \<noteq> t) (t_steps db),
     filter (\<lambda>e. effect_tenant_id e \<noteq> t) (t_effects db), filter (\<lambda>e. event_tenant_id e \<noteq> t) (t_events db),
     filter (\<lambda>m. outbox_tenant_id m \<noteq> t) (t_outbox db), filter (\<lambda>d. dlq_tenant_id d \<noteq> t) (t_dlq db),
     filter (\<lambda>l. limits_tenant_id l \<noteq> t) (t_limits db), filter (\<lambda>u. usage_tenant_id u \<noteq> t) (t_usage db),
     filter (\<lambda>c. control_tenant_id c \<noteq> t) (t_control db), filter (\<lambda>x. timer_tenant_id x \<noteq> t) (t_timers db),
     filter (\<lambda>i. interaction_tenant_id i \<noteq> t) (t_interactions db), filter (\<lambda>e. evidence_tenant_id e \<noteq> t) (t_evidence db))"

abbreviation confined_to :: "string \<Rightarrow> 'a ktx \<Rightarrow> bool" where
  "confined_to t m \<equiv> unchanged (others t) m"

text \<open>What an operation can return, for the callers that go on with it.\<close>

definition gives :: "('a \<Rightarrow> bool) \<Rightarrow> ('s, 'a) tx \<Rightarrow> bool" where
  "gives K m \<longleftrightarrow> (\<forall>s x s'. m s = Inr (x, s') \<longrightarrow> K x)"

lemma givesD: "gives K m \<Longrightarrow> m s = Inr (x, s') \<Longrightarrow> K x"
  by (auto simp: gives_def)

lemma unchanged_bind_gives:
  assumes "gives K m" and "unchanged v m" and "\<And>x. K x \<Longrightarrow> unchanged v (f x)"
  shows "unchanged v (bind_tx m f)"
  using assms unfolding gives_def unchanged_def bind_tx_Inr by (metis (full_types))

lemma filter_update_outside:
  "(\<And>x. P x \<Longrightarrow> \<not> Q x \<and> \<not> Q (f x)) \<Longrightarrow> filter Q (update_where P f xs) = filter Q xs"
  by (induction xs) auto

section \<open>Statements\<close>

lemma confined_update_runs:
  "(\<And>r. P r \<Longrightarrow> run_tenant_id r = t \<and> run_tenant_id (f r) = t) \<Longrightarrow> confined_to t (update_runs P f)"
  by (simp add: unchanged_def tx others_def filter_update_outside)

lemma confined_update_steps:
  "(\<And>s. P s \<Longrightarrow> step_tenant_id s = t \<and> step_tenant_id (f s) = t) \<Longrightarrow> confined_to t (update_steps P f)"
  by (simp add: unchanged_def tx others_def filter_update_outside)

lemma confined_update_effects:
  "(\<And>e. P e \<Longrightarrow> effect_tenant_id e = t \<and> effect_tenant_id (f e) = t) \<Longrightarrow> confined_to t (update_effects P f)"
  by (simp add: unchanged_def tx others_def filter_update_outside)

lemma confined_update_effects_in:
  "(\<And>db e. P db e \<Longrightarrow> effect_tenant_id e = t \<and> effect_tenant_id (f e) = t) \<Longrightarrow> confined_to t (update_effects_in P f)"
  by (simp add: unchanged_def tx others_def filter_update_outside)

lemma confined_update_usage [confined]:
  "(\<And>u. P u \<Longrightarrow> usage_tenant_id u = t \<and> usage_tenant_id (f u) = t) \<Longrightarrow> confined_to t (update_usage P f)"
  by (simp add: unchanged_def tx others_def filter_update_outside)

lemma confined_update_timers [confined]:
  "(\<And>x. P x \<Longrightarrow> timer_tenant_id x = t \<and> timer_tenant_id (f x) = t) \<Longrightarrow> confined_to t (update_timers P f)"
  by (simp add: unchanged_def tx others_def filter_update_outside)

lemma confined_update_interactions [confined]:
  "(\<And>x. P x \<Longrightarrow> interaction_tenant_id x = t \<and> interaction_tenant_id (f x) = t) \<Longrightarrow> confined_to t (update_interactions P f)"
  by (simp add: unchanged_def tx others_def filter_update_outside)

lemma confined_inserts [confined]:
  "run_tenant_id run = t \<Longrightarrow> confined_to t (insert_run run)"
  "step_tenant_id step = t \<Longrightarrow> confined_to t (insert_step step)"
  "effect_tenant_id effect = t \<Longrightarrow> confined_to t (insert_effect effect)"
  "timer_tenant_id timer = t \<Longrightarrow> confined_to t (insert_timer timer)"
  "interaction_tenant_id interaction = t \<Longrightarrow> confined_to t (insert_interaction interaction)"
  by (auto simp: unchanged_def tx others_def)

lemma confined_ensure [confined]:
  "confined_to t (ensure_usage env t)" "confined_to t (ensure_control env t actor)"
  by (auto simp: unchanged_def tx others_def ensure_usage_def ensure_control_def)

lemma confined_uuid [confined]: "confined_to t (randomUUID env)"
  by (simp add: unchanged_def tx others_def)

lemma confined_appendEventKeyed [confined]: "ev_tenantId event = t \<Longrightarrow> confined_to t (appendEventKeyed env event key)"
  unfolding appendEventKeyed_def by (auto simp: unchanged_def tx others_def new_outbox_row_def)

lemma confined_appendEvent [confined]: "ev_tenantId event = t \<Longrightarrow> confined_to t (appendEvent env event)"
  unfolding appendEvent_def by (rule confined_appendEventKeyed)

text \<open>An update tells its caller whose rows it returned.\<close>

lemma confined_steps_then [confined]:
  assumes "\<And>s. P s \<Longrightarrow> step_tenant_id s = t \<and> step_tenant_id (f s) = t"
    and "\<And>rows. (\<And>row. row \<in> set rows \<Longrightarrow> step_tenant_id row = t) \<Longrightarrow> confined_to t (k rows)"
  shows "confined_to t (bind_tx (update_steps P f) k)"
proof (rule unchanged_bind_gives)
  show "gives (\<lambda>rows. \<forall>row \<in> set rows. step_tenant_id row = t) (update_steps P f)"
    using assms(1) by (auto simp: gives_def tx updated_rows_mem)
qed (use assms in \<open>auto intro: confined_update_steps\<close>)

lemma confined_runs_then [confined]:
  assumes "\<And>r. P r \<Longrightarrow> run_tenant_id r = t \<and> run_tenant_id (f r) = t"
    and "\<And>rows. (\<And>row. row \<in> set rows \<Longrightarrow> run_tenant_id row = t) \<Longrightarrow> confined_to t (k rows)"
  shows "confined_to t (bind_tx (update_runs P f) k)"
proof (rule unchanged_bind_gives)
  show "gives (\<lambda>rows. \<forall>row \<in> set rows. run_tenant_id row = t) (update_runs P f)"
    using assms(1) by (auto simp: gives_def tx updated_rows_mem)
qed (use assms in \<open>auto intro: confined_update_runs\<close>)

lemma confined_effects_then [confined]:
  assumes "\<And>e. P e \<Longrightarrow> effect_tenant_id e = t \<and> effect_tenant_id (f e) = t"
    and "\<And>rows. (\<And>row. row \<in> set rows \<Longrightarrow> effect_tenant_id row = t) \<Longrightarrow> confined_to t (k rows)"
  shows "confined_to t (bind_tx (update_effects P f) k)"
proof (rule unchanged_bind_gives)
  show "gives (\<lambda>rows. \<forall>row \<in> set rows. effect_tenant_id row = t) (update_effects P f)"
    using assms(1) by (auto simp: gives_def tx updated_rows_mem)
qed (use assms in \<open>auto intro: confined_update_effects\<close>)

lemma confined_rows [confined]:
  "confined_to t n \<Longrightarrow> (\<And>row rest. rows = row # rest \<Longrightarrow> confined_to t (g row rest)) \<Longrightarrow>
   confined_to t (case rows of [] \<Rightarrow> n | row # rest \<Rightarrow> g row rest)"
  by (cases rows) auto

lemma confined_loop [confined]: "(\<And>x. x \<in> set xs \<Longrightarrow> confined_to t (body x)) \<Longrightarrow> confined_to t (forM_tx xs body)"
  by (induction xs) (simp_all add: unchanged_return unchanged_bind)


lemmas confined_frames [confined] = confined_update_runs confined_update_steps confined_update_effects
  confined_update_effects_in unchanged_return unchanged_throw unchanged_query unchanged_when unchanged_if
  unchanged_case_option unchanged_case_sum unchanged_case_prod unchanged_map_error assertEvidence_frame
  assertRunTransition_frame assertStepTransition_frame

lemma event_tenant [simp]: "ev_tenantId (kernel_event at i n ty t r s a p) = t"
  by (simp add: kernel_event_def)

lemma in_run_tenant: "in_run runId t s \<Longrightarrow> step_tenant_id s = t"
  by (simp add: in_run_def)

lemma is_run_tenant: "is_run runId t r \<Longrightarrow> run_tenant_id r = t"
  by (simp add: is_run_def)

section \<open>Helpers\<close>

lemma confined_release [confined]: "confined_to t (releaseTenantSlot env t)"
  unfolding releaseTenantSlot_def by (intro confined; simp)

lemma confined_park [confined]: "confined_to t (parkOrphanAdmittedEffects env stepId t runId reason actor)"
  unfolding parkOrphanAdmittedEffects_def Let_def by (intro confined unchanged_bind; simp)

lemma confined_cancelOpenSteps [confined]: "confined_to t (cancelOpenStepsForTerminalRun env runId t actor reason)"
  unfolding cancelOpenStepsForTerminalRun_def lockStepStates_def Let_def
  by (intro confined unchanged_bind; simp add: in_run_def; intro confined unchanged_bind; simp)


lemma confined_finishRun [confined]: "confined_to t (finishRunIfTerminal env runId t actor)"
  unfolding finishRunIfTerminal_def lockRunState_def Let_def
  by (intro confined unchanged_bind; simp add: is_run_def)

lemma confined_announceCompensation [confined]:
  "(\<And>run. run \<in> set rows \<Longrightarrow> run_tenant_id run = t) \<Longrightarrow>
   confined_to t (announceCompensation env stepId epoch actor ids rows)"
  unfolding announceCompensation_def Let_def
  by (intro confined unchanged_bind; simp add: confined)

lemma confined_requestCompensation [confined]:
  "confined_to t (requestCompensationIfNeeded env stepId t runId epoch actor at)"
  unfolding requestCompensationIfNeeded_def lockRunState_def Let_def
  by (intro confined unchanged_bind; simp add: is_run_def)

section \<open>Operations\<close>

lemma confined_control:
  "confined_to t (pauseRun env i t actor)" "confined_to t (resumeRun env i t actor)"
  "confined_to t (cancelRun env i t actor)"
  unfolding pauseRun_def resumeRun_def cancelRun_def lockRunState_def lockStepStates_def withTransaction_tenant
  by (intro confined unchanged_bind; simp add: is_run_def in_run_def cancelled_step_def; (intro confined unchanged_bind; simp)?)+

lemma confined_upsert_control [confined]:
  "control_tenant_id fresh = t \<Longrightarrow> (\<And>c. control_tenant_id (f c) = control_tenant_id c) \<Longrightarrow>
   confined_to t (upsert_control env t fresh f)"
  by (auto simp: unchanged_def upsert_control_def others_def filter_update_outside)

lemma confined_tenant_control:
  "confined_to t (pauseTenant env t actor reason)" "confined_to t (resumeTenant env t actor)"
  unfolding pauseTenant_def resumeTenant_def takeSlots_def withTransaction_tenant
  by (intro confined unchanged_bind; simp; (intro confined unchanged_bind; simp)?)+

lemma confined_step_operations:
  "confined_to t (heartbeatStep env i t lease ttl)" "confined_to t (wakeRetryStep env i t actor)"
  "confined_to t (failStepByTimer env i t failure actor)"
  "confined_to (cs_tenantId c) (completeStep env c)" "confined_to (fs_tenantId f) (failStep env f)"
  unfolding heartbeatStep_def wakeRetryStep_def failStepByTimer_def completeStep_def failStep_def withTransaction_tenant
  by (intro confined unchanged_bind; simp add: is_step_def failed_step_row_def Let_def; (intro confined unchanged_bind; simp)?)+

lemma confined_timers:
  "confined_to (ct_tenantId c) (createTimer env c actor)" "confined_to t (cancelTimer env i t)"
  "confined_to t (acknowledgeTimer env i t token)" "confined_to t (retryTimer env i t token)"
  unfolding createTimer_def cancelTimer_def acknowledgeTimer_def retryTimer_def withTransaction_tenant Let_def claimed_timer_def
  by (intro confined unchanged_bind; simp)+

lemma confined_createRun: "confined_to (cr_tenantId c) (createRun env c actor)"
  unfolding createRun_def createStep_def withTransaction_tenant Let_def
  by (intro confined unchanged_bind; simp add: unchanged_def tx new_step_row_def)

lemma confined_setLimit: "confined_to t (setTenantConcurrencyLimit env t n)"
proof -
  have "confined_to t (modify_tx (\<lambda>db. if exists_row (\<lambda>l. limits_tenant_id l = t) (t_limits db)
          then db\<lparr>t_limits := update_where (\<lambda>l. limits_tenant_id l = t)
                 (\<lambda>l. l\<lparr>limits_max_concurrent_steps := n, limits_updated_at := db_now env\<rparr>) (t_limits db)\<rparr>
          else db\<lparr>t_limits := t_limits db @ [\<lparr>limits_tenant_id = t, limits_max_concurrent_steps = n,
                 limits_updated_at = db_now env\<rparr>]\<rparr>))"
    by (rule unchanged_modify) (simp add: others_def filter_update_outside)
  then show ?thesis
    unfolding setTenantConcurrencyLimit_def withTransaction_tenant by (intro confined unchanged_bind)
qed


lemma confined_effects_in_then [confined]:
  assumes "\<And>db e. P db e \<Longrightarrow> effect_tenant_id e = t \<and> effect_tenant_id (f e) = t"
    and "\<And>rows. (\<And>row. row \<in> set rows \<Longrightarrow> effect_tenant_id row = t) \<Longrightarrow> confined_to t (k rows)"
  shows "confined_to t (bind_tx (update_effects_in P f) k)"
proof (rule unchanged_bind_gives)
  show "gives (\<lambda>rows. \<forall>row \<in> set rows. effect_tenant_id row = t) (update_effects_in P f)"
    using assms(1) by (auto simp: gives_def tx updated_rows_mem)
qed (use assms in \<open>auto intro: confined_update_effects_in\<close>)

lemma confined_waitForReconciliation [confined]: "confined_to t (waitForReconciliation at stepId runId t)"
  unfolding waitForReconciliation_def by (intro confined; simp add: in_run_def; intro confined; simp)

lemma finish_effect_tenant [simp]: "effect_tenant_id (finish_effect env st r e) = effect_tenant_id e"
  by (simp add: finish_effect_def)

lemma unknown_effect_tenant [simp]: "effect_tenant_id (unknown_effect_row request policy at e) = effect_tenant_id e"
  by (simp add: unknown_effect_row_def)

lemma fromEffect_tenant [simp]: "ke_tenantId (fromEffect row) = effect_tenant_id row"
  by (simp add: fromEffect_def)

lemma confined_admitEffect: "confined_to (ae_tenantId request) (admitEffect env request)"
  unfolding admitEffect_def admitEffectEmbedded_def withTransaction_tenant Let_def
  by (intro confined unchanged_bind; simp add: new_effect_row_def)

text \<open>What is appended as evidence has been checked to be of the effect's tenant.\<close>

lemma confined_evidence_then [confined]:
  assumes "ke_tenantId effect = t" and "\<And>x. confined_to t (k x)"
  shows "confined_to t (bind_tx (assertEvidenceRecordBoundToEffect receipt effect)
    (\<lambda>_. bind_tx (appendEvidenceInTransaction receipt) k))"
  unfolding unchanged_def bind_tx_Inr
proof (intro allI impI, elim exE conjE)
  fix s r s' x s1 y s2
  assume bound: "assertEvidenceRecordBoundToEffect receipt effect s = Inr (x, s1)"
    and stored: "appendEvidenceInTransaction receipt s1 = Inr (y, s2)" and rest: "k y s2 = Inr (r, s')"
  have "s1 = s" "evidence_tenant_id receipt = t"
    using bound assms(1) evidence_binding_errors_Nil_D(1)
    by (auto simp: assertEvidence_Inr evidence_bound_def split: option.splits)
  then have "others t s2 = others t s"
    using appendEvidence_Inr [OF stored] by (auto simp: others_def split: if_splits)
  then show "others t s' = others t s" using unchangedD [OF assms(2) rest] by simp
qed

lemma completeEffect_tenant: "gives (\<lambda>r. \<forall>e. r = Some e \<longrightarrow> ke_tenantId e = t) (completeEffectInTransaction env i t lease response actor)"
  unfolding completeEffectInTransaction_def gives_def
  by (auto simp: tx updated_rows_mem admitted_effect_row_def split: list.splits if_splits dest!: updated_rows_Cons_D)

lemma confined_completeEffect [confined]: "confined_to t (completeEffectInTransaction env i t lease response actor)"
  unfolding completeEffectInTransaction_def
  by (intro confined unchanged_bind; simp add: admitted_effect_row_def; (intro confined unchanged_bind; simp add: admitted_effect_row_def)?)

lemma confined_effect_operations:
  "confined_to t (completeEffect env i t lease response actor)"
  "confined_to t (completeEffectWithEvidence env i t lease response actor receipt)"
  "confined_to (fe_tenantId f) (failEffect env f)" "confined_to (fe_tenantId f) (failEffectWithEvidence env f receipt)"
  "confined_to (mu_tenantId m) (markEffectCompletionUnknown env m)"
  "confined_to (re_tenantId r) (reconcileEffect env r)" "confined_to t (rescheduleReconcile env i t token at e)"
  "confined_to t (escalateReconcile env i t token reason)" "confined_to t (releaseReconcileClaim env i t token)"
proof -
  show "confined_to t (completeEffectWithEvidence env i t lease response actor receipt)"
    unfolding completeEffectWithEvidence_def withTransaction_tenant
    by (rule unchanged_bind_gives [OF completeEffect_tenant confined_completeEffect])
      (auto split: option.split intro!: unchanged_return confined_evidence_then)
qed (unfold completeEffect_def failEffect_def failEffectWithEvidence_def failEffectRow_def effectFailed_def
    markEffectCompletionUnknown_def reconcileEffect_def rescheduleReconcile_def escalateReconcile_def
    releaseReconcileClaim_def withTransaction_tenant Let_def claimed_unknown_def,
    intro confined unchanged_bind; simp add: admitted_effect_row_def)+

lemma confined_createInteraction: "confined_to (ci_tenantId c) (createInteraction env c actor)"
  unfolding createInteraction_def withTransaction_tenant Let_def
  by (intro confined unchanged_bind; simp)

lemma confined_answerInteraction: "confined_to (ai_tenantId a) (answerInteraction env a)"
proof -
  have gives: "gives (\<lambda>s. step_tenant_id s = ai_tenantId a) (releaseWaitingStep env a i st)" for i st
    unfolding releaseWaitingStep_def gives_def
    by (auto simp: tx step_of_run_def in_run_def filter_eq_Cons_iff split: list.splits if_splits dest!: updated_rows_Cons_D)
  have released: "confined_to (ai_tenantId a) (releaseWaitingStep env a i st)" for i st
    unfolding releaseWaitingStep_def by (intro confined unchanged_bind; simp add: step_of_run_def in_run_def)
  show ?thesis
    unfolding answerInteraction_def withTransaction_tenant
    by (intro confined unchanged_bind_gives [OF gives released] unchanged_bind; simp)
qed


section \<open>Commands\<close>

text \<open>The tenant a command is scoped to; the commands of the daemons have none.\<close>

fun run_tenant :: "run_command \<Rightarrow> string option" where
  "run_tenant (Create_run command actor) = Some (cr_tenantId command)"
| "run_tenant (Set_tenant_concurrency_limit t n) = Some t"

fun step_tenant :: "step_command \<Rightarrow> string option" where
  "step_tenant (Heartbeat_step i t lease ttl) = Some t"
| "step_tenant (Complete_step request) = Some (cs_tenantId request)"
| "step_tenant (Fail_step request) = Some (fs_tenantId request)"
| "step_tenant (Wake_retry_step i t actor) = Some t"
| "step_tenant (Fail_step_by_timer i t failure actor) = Some t"
| "step_tenant c = None"

fun control_tenant :: "control_command \<Rightarrow> string option" where
  "control_tenant (Pause_run i t actor) = Some t"
| "control_tenant (Resume_run i t actor) = Some t"
| "control_tenant (Cancel_run i t actor) = Some t"
| "control_tenant (Pause_tenant t actor reason) = Some t"
| "control_tenant (Resume_tenant t actor) = Some t"

fun effect_tenant :: "effect_command \<Rightarrow> string option" where
  "effect_tenant (Admit_effect request) = Some (ae_tenantId request)"
| "effect_tenant (Complete_effect i t lease response actor) = Some t"
| "effect_tenant (Complete_effect_with_evidence i t lease response actor receipt) = Some t"
| "effect_tenant (Fail_effect request) = Some (fe_tenantId request)"
| "effect_tenant (Fail_effect_with_evidence request receipt) = Some (fe_tenantId request)"
| "effect_tenant (Mark_effect_completion_unknown request) = Some (mu_tenantId request)"
| "effect_tenant (Reconcile_effect request) = Some (re_tenantId request)"
| "effect_tenant (Claim_reconcile_effects input) = None"
| "effect_tenant (Reschedule_reconcile i t c at e) = Some t"
| "effect_tenant (Escalate_reconcile i t c reason) = Some t"
| "effect_tenant (Release_reconcile_claim i t c) = Some t"

fun interaction_tenant :: "interaction_command \<Rightarrow> string option" where
  "interaction_tenant (Create_timer request actor) = Some (ct_tenantId request)"
| "interaction_tenant (Cancel_timer i t) = Some t"
| "interaction_tenant (Acknowledge_timer i t c) = Some t"
| "interaction_tenant (Retry_timer i t c) = Some t"
| "interaction_tenant (Create_interaction request actor) = Some (ci_tenantId request)"
| "interaction_tenant (Answer_interaction request) = Some (ai_tenantId request)"
| "interaction_tenant c = None"

fun command_tenant :: "kernel_command \<Rightarrow> string option" where
  "command_tenant (Runs c) = run_tenant c"
| "command_tenant (Steps c) = step_tenant c"
| "command_tenant (Control c) = control_tenant c"
| "command_tenant (Effects c) = effect_tenant c"
| "command_tenant (Interactions c) = interaction_tenant c"
| "command_tenant (Outbox c) = None"

lemma confined_forget: "confined_to t m \<Longrightarrow> confined_to t (forget m)"
  unfolding forget_def by (intro confined unchanged_bind)

lemmas confined_operations = confined_createRun confined_setLimit confined_step_operations confined_control
  confined_tenant_control confined_admitEffect confined_effect_operations confined_timers
  confined_createInteraction confined_answerInteraction

lemma confined_run_command: "run_tenant c = Some t \<Longrightarrow> confined_to t (run_run env c)"
  by (cases c) (auto intro: confined_forget confined_operations)

lemma confined_step_command: "step_tenant c = Some t \<Longrightarrow> confined_to t (run_step env c)"
  by (cases c) (auto intro: confined_forget confined_operations)

lemma confined_control_command: "control_tenant c = Some t \<Longrightarrow> confined_to t (run_control env c)"
  by (cases c) (auto intro: confined_forget confined_operations)

lemma confined_effect_command: "effect_tenant c = Some t \<Longrightarrow> confined_to t (run_effect env c)"
  by (cases c) (auto intro: confined_forget confined_operations)

lemma confined_interaction_command: "interaction_tenant c = Some t \<Longrightarrow> confined_to t (run_interaction env c)"
  by (cases c) (auto intro: confined_forget confined_operations)

lemmas confined_commands = confined_run_command confined_step_command confined_control_command
  confined_effect_command confined_interaction_command



end
