(* ===== verification/Kernel_Guards.thy ===== *)
theory Kernel_Guards
  imports Kernel_State
begin

text \<open>
  The guard tables of the effect broker: capability revocations and replays, the action
  allowlist, the daily quota and the kill switches (\<open>postgres.ts\<close>), with the matching rules of
  \<open>killSwitchMatching.ts\<close>. These tables are separate from the execution tables, and so is
  their state.
\<close>

section \<open>State\<close>

record revocation_row =
  rv_tenant_id :: string
  rv_jti :: string
  rv_revoked_at :: time
  rv_expires_at :: time
  rv_reason :: "string option"

record replay_row =
  rp_tenant_id :: string
  rp_jti :: string
  rp_nonce :: string
  rp_expires_at :: time
  rp_consumed_at :: time

record allow_row =
  al_tenant_id :: string
  al_action_pattern :: string
  al_allowed :: bool
  al_created_at :: time

record quota_row =
  qt_tenant_id :: string
  qt_action_class :: string
  qt_day :: int
  qt_count_used :: int
  qt_tokens_used :: int

datatype kill_scope = KS_tenant | KS_package | KS_model | KS_tool | KS_destination | KS_effect_type

record kill_switch =
  ksw_tenantId :: string
  ksw_scope :: kill_scope
  ksw_value :: string
  ksw_enabled :: bool
  ksw_reason :: "string option"
  ksw_actor :: string
  ksw_updatedAt :: time

record guard_db =
  g_revocations :: "revocation_row list"
  g_replays :: "replay_row list"
  g_allowlist :: "allow_row list"
  g_quota :: "quota_row list"
  g_switches :: "kill_switch list"

type_synonym 'a gtx = "(guard_db, 'a) tx"

definition empty_guards :: guard_db where
  "empty_guards = \<lparr>g_revocations = [], g_replays = [], g_allowlist = [], g_quota = [], g_switches = []\<rparr>"

text \<open>\<open>INSERT .. ON CONFLICT (key) DO UPDATE\<close> and \<open>DO NOTHING\<close>.\<close>

definition upsert_rows :: "('r \<Rightarrow> bool) \<Rightarrow> 'r \<Rightarrow> ('r \<Rightarrow> 'r) \<Rightarrow> 'r list \<Rightarrow> 'r list" where
  "upsert_rows same fresh f rows = (if exists_row same rows then update_where same f rows else rows @ [fresh])"

lemma upsert_has: "exists_row same rows \<or> same fresh \<Longrightarrow> (\<And>r. same r \<Longrightarrow> same (f r)) \<Longrightarrow>
    exists_row same (upsert_rows same fresh f rows)"
  by (auto simp: upsert_rows_def set_update_where)

lemma upsert_rows_mem:
  "r \<in> set (upsert_rows same fresh f rows) \<Longrightarrow> same r \<Longrightarrow> (\<And>x. same (f x) \<Longrightarrow> same x) \<Longrightarrow>
     (\<exists>x \<in> set rows. same x \<and> r = f x) \<or> (r = fresh \<and> \<not> exists_row same rows)"
  by (auto simp: upsert_rows_def set_update_where split: if_splits)

section \<open>Capabilities\<close>

definition isCapabilityRevoked :: "kernel_env \<Rightarrow> string \<Rightarrow> string \<Rightarrow> bool gtx" where
  "isCapabilityRevoked env jti tenantId = withTransaction env (query_tx (\<lambda>db.
     exists_row (\<lambda>r. rv_jti r = jti \<and> rv_tenant_id r = tenantId \<and> db_now env < rv_expires_at r)
       (g_revocations db))) [tenantId]"

definition revokeCapability :: "kernel_env \<Rightarrow> string \<Rightarrow> string \<Rightarrow> time \<Rightarrow> string option \<Rightarrow> unit gtx" where
  "revokeCapability env jti tenantId expiresAt reason = withTransaction env (modify_tx (\<lambda>db.
     db\<lparr>g_revocations := upsert_rows (\<lambda>r. rv_tenant_id r = tenantId \<and> rv_jti r = jti)
         \<lparr>rv_tenant_id = tenantId, rv_jti = jti, rv_revoked_at = db_now env, rv_expires_at = expiresAt,
          rv_reason = reason\<rparr>
         (\<lambda>r. r\<lparr>rv_expires_at := expiresAt, rv_reason := reason\<rparr>) (g_revocations db)\<rparr>)) [tenantId]"

text \<open>The result tells whether the token had already been consumed.\<close>

definition consumeCapabilityReplay :: "kernel_env \<Rightarrow> string \<Rightarrow> string \<Rightarrow> string \<Rightarrow> time \<Rightarrow> bool gtx" where
  "consumeCapabilityReplay env tenantId jti nonce expiresAt = withTransaction env (\<lambda>db.
     if exists_row (\<lambda>r. rp_tenant_id r = tenantId \<and> rp_jti r = jti \<and> rp_nonce r = nonce) (g_replays db)
     then Inr (True, db)
     else Inr (False, db\<lparr>g_replays := g_replays db @ [\<lparr>rp_tenant_id = tenantId, rp_jti = jti,
            rp_nonce = nonce, rp_expires_at = expiresAt, rp_consumed_at = db_now env\<rparr>]\<rparr>)) [tenantId]"

section \<open>Allowlist\<close>

text \<open>The \<open>LIKE\<close> of SQL: \<open>%\<close> any text, \<open>_\<close> any character, a backslash quotes the next one.\<close>

function sql_like :: "string \<Rightarrow> string \<Rightarrow> bool" where
  "sql_like [] text = (text = [])"
| "sql_like (c # pattern) text =
     (if c = CHR ''%'' then sql_like pattern text \<or> (if text = [] then False else sql_like (c # pattern) (tl text))
      else if c = CHR 0x5C then
        pattern \<noteq> [] \<and> text \<noteq> [] \<and> hd text = hd pattern \<and> sql_like (tl pattern) (tl text)
      else text \<noteq> [] \<and> (c = CHR ''_'' \<or> hd text = c) \<and> sql_like pattern (tl text))"
  by pat_completeness auto
termination
  by (relation "measure (\<lambda>(p, t). length p + length t)") (auto simp: neq_Nil_conv)

declare sql_like.simps [simp del]

definition sql_replace_star :: "string \<Rightarrow> string" where
  "sql_replace_star pattern = map (\<lambda>c. if c = CHR ''*'' then CHR ''%'' else c) pattern"

definition action_matches :: "string \<Rightarrow> string \<Rightarrow> bool" where
  "action_matches pattern action \<longleftrightarrow> action = pattern \<or>
     (sql_like ''%.*'' pattern \<and> sql_like (sql_replace_star pattern) action)"

definition allow_order :: "string \<Rightarrow> allow_row \<Rightarrow> bool \<times> int" where
  "allow_order action r = (al_action_pattern r \<noteq> action, - int (length (al_action_pattern r)))"

definition isActionAllowed :: "kernel_env \<Rightarrow> string \<Rightarrow> string \<Rightarrow> bool gtx" where
  "isActionAllowed env tenantId action = withTransaction env (query_tx (\<lambda>db.
     case order_limit (allow_order action) 1 (filter (\<lambda>r. al_tenant_id r = tenantId \<and>
            action_matches (al_action_pattern r) action) (g_allowlist db)) of
       [] \<Rightarrow> False | r # _ \<Rightarrow> al_allowed r)) [tenantId]"

definition new_allow_row :: "kernel_env \<Rightarrow> string \<Rightarrow> string \<Rightarrow> bool \<Rightarrow> allow_row" where
  "new_allow_row env tenantId actionPattern allowed =
     \<lparr>al_tenant_id = tenantId, al_action_pattern = actionPattern, al_allowed = allowed,
      al_created_at = db_now env\<rparr>"

definition same_pattern :: "string \<Rightarrow> string \<Rightarrow> allow_row \<Rightarrow> bool" where
  "same_pattern tenantId actionPattern r \<longleftrightarrow> al_tenant_id r = tenantId \<and> al_action_pattern r = actionPattern"

definition setAllowlistEntry :: "kernel_env \<Rightarrow> string \<Rightarrow> string \<Rightarrow> bool \<Rightarrow> unit gtx" where
  "setAllowlistEntry env tenantId actionPattern allowed = withTransaction env (modify_tx (\<lambda>db.
     db\<lparr>g_allowlist := upsert_rows (same_pattern tenantId actionPattern)
          (new_allow_row env tenantId actionPattern allowed)
          (\<lambda>r. r\<lparr>al_allowed := allowed\<rparr>) (g_allowlist db)\<rparr>)) [tenantId]"

definition ensureAllowlistDefault :: "kernel_env \<Rightarrow> string \<Rightarrow> string \<Rightarrow> bool \<Rightarrow> unit gtx" where
  "ensureAllowlistDefault env tenantId actionPattern allowed = withTransaction env (modify_tx (\<lambda>db.
     if exists_row (same_pattern tenantId actionPattern) (g_allowlist db) then db
     else db\<lparr>g_allowlist := g_allowlist db @ [new_allow_row env tenantId actionPattern allowed]\<rparr>)) [tenantId]"

section \<open>Quota\<close>

definition utc_day :: "time \<Rightarrow> int" where
  "utc_day t = t div 86400000"

definition same_quota :: "string \<Rightarrow> string \<Rightarrow> int \<Rightarrow> quota_row \<Rightarrow> bool" where
  "same_quota tenantId actionClass day q \<longleftrightarrow>
     qt_tenant_id q = tenantId \<and> qt_action_class q = actionClass \<and> qt_day q = day"

definition quota_of :: "guard_db \<Rightarrow> string \<Rightarrow> string \<Rightarrow> int \<Rightarrow> int \<times> int" where
  "quota_of db tenantId actionClass day =
     (case first_row (same_quota tenantId actionClass day) (g_quota db) of
        None \<Rightarrow> (0, 0) | Some q \<Rightarrow> (qt_count_used q, qt_tokens_used q))"

definition or_zero :: "int option \<Rightarrow> int" where
  "or_zero x = (case x of None \<Rightarrow> 0 | Some n \<Rightarrow> n)"

definition quota_time :: "kernel_env \<Rightarrow> time option \<Rightarrow> time" where
  "quota_time env now = (case now of None \<Rightarrow> client_now env | Some t \<Rightarrow> t)"

definition incrementQuota :: "kernel_env \<Rightarrow> string \<Rightarrow> string \<Rightarrow> int option \<Rightarrow> time option \<Rightarrow> (int \<times> int) gtx" where
  "incrementQuota env tenantId actionClass tokensUsed now =
     (let day = utc_day (quota_time env now); tokens = or_zero tokensUsed in withTransaction env (\<lambda>db.
      let db' = db\<lparr>g_quota := upsert_rows (same_quota tenantId actionClass day)
           \<lparr>qt_tenant_id = tenantId, qt_action_class = actionClass, qt_day = day, qt_count_used = 1,
            qt_tokens_used = tokens\<rparr>
           (\<lambda>q. q\<lparr>qt_count_used := qt_count_used q + 1, qt_tokens_used := qt_tokens_used q + tokens\<rparr>)
           (g_quota db)\<rparr> in
      Inr (quota_of db' tenantId actionClass day, db')) [tenantId])"

definition getQuota :: "kernel_env \<Rightarrow> string \<Rightarrow> string \<Rightarrow> time option \<Rightarrow> (int \<times> int) gtx" where
  "getQuota env tenantId actionClass now =
     withTransaction env (query_tx (\<lambda>db. quota_of db tenantId actionClass (utc_day (quota_time env now)))) [tenantId]"

section \<open>Kill switches\<close>

fun scope_text :: "kill_scope \<Rightarrow> string" where
  "scope_text KS_tenant = ''tenant''"
| "scope_text KS_package = ''package''"
| "scope_text KS_model = ''model''"
| "scope_text KS_tool = ''tool''"
| "scope_text KS_destination = ''destination''"
| "scope_text KS_effect_type = ''effect-type''"

definition same_switch :: "string \<Rightarrow> kill_scope \<Rightarrow> string \<Rightarrow> kill_switch \<Rightarrow> bool" where
  "same_switch tenantId scope val k \<longleftrightarrow> ksw_tenantId k = tenantId \<and> ksw_scope k = scope \<and> ksw_value k = val"

definition putKillSwitch :: "kernel_env \<Rightarrow> kill_switch \<Rightarrow> kill_switch option gtx" where
  "putKillSwitch env input = withTransaction env (\<lambda>db.
     let same = same_switch (ksw_tenantId input) (ksw_scope input) (ksw_value input);
         rows = upsert_rows same (input\<lparr>ksw_updatedAt := db_now env\<rparr>)
           (\<lambda>k. k\<lparr>ksw_enabled := ksw_enabled input, ksw_reason := ksw_reason input,
                  ksw_actor := ksw_actor input, ksw_updatedAt := db_now env\<rparr>) (g_switches db) in
     Inr (first_row same rows, db\<lparr>g_switches := rows\<rparr>)) [ksw_tenantId input]"

definition removeKillSwitch :: "kernel_env \<Rightarrow> string \<Rightarrow> kill_scope \<Rightarrow> string \<Rightarrow> unit gtx" where
  "removeKillSwitch env tenantId scope val = withTransaction env (modify_tx (\<lambda>db.
     db\<lparr>g_switches := filter (\<lambda>k. \<not> same_switch tenantId scope val k) (g_switches db)\<rparr>)) [tenantId]"

definition listKillSwitches :: "kernel_env \<Rightarrow> string \<Rightarrow> kill_switch list gtx" where
  "listKillSwitches env tenantId = withTransaction env (query_tx (\<lambda>db.
     sort_key (\<lambda>k. (scope_text (ksw_scope k), ksw_value k))
       (filter (\<lambda>k. ksw_tenantId k = tenantId) (g_switches db)))) [tenantId]"

record kill_dims =
  kd_package :: "string option"
  kd_model :: "string option"
  kd_tool :: "string option"
  kd_destination :: "string option"
  kd_effectType :: "string option"

definition KILL_SWITCH_SCOPE_ORDER :: "kill_scope list" where
  "KILL_SWITCH_SCOPE_ORDER = [KS_tenant, KS_package, KS_model, KS_tool, KS_destination, KS_effect_type]"

fun dim_value :: "kill_scope \<Rightarrow> string \<Rightarrow> kill_dims \<Rightarrow> string option" where
  "dim_value KS_tenant tenantId dims = Some tenantId"
| "dim_value KS_package tenantId dims = kd_package dims"
| "dim_value KS_model tenantId dims = kd_model dims"
| "dim_value KS_tool tenantId dims = kd_tool dims"
| "dim_value KS_destination tenantId dims = kd_destination dims"
| "dim_value KS_effect_type tenantId dims = kd_effectType dims"

definition killSwitchRuleMatches :: "kill_switch \<Rightarrow> string \<Rightarrow> kill_dims \<Rightarrow> bool" where
  "killSwitchRuleMatches rule tenantId dims =
     (if \<not> ksw_enabled rule \<or> ksw_tenantId rule \<noteq> tenantId then False
      else dim_value (ksw_scope rule) tenantId dims = Some (ksw_value rule))"

fun firstMatch :: "kill_scope list \<Rightarrow> string \<Rightarrow> kill_dims \<Rightarrow> kill_switch list \<Rightarrow> kill_switch option" where
  "firstMatch [] tenantId dims rules = None"
| "firstMatch (scope # scopes) tenantId dims rules =
     (case find (\<lambda>rule. ksw_scope rule = scope \<and> killSwitchRuleMatches rule tenantId dims) rules of
        Some match \<Rightarrow> Some match
      | None \<Rightarrow> firstMatch scopes tenantId dims rules)"

definition findMatchingKillSwitchFromRules ::
  "string \<Rightarrow> kill_dims \<Rightarrow> kill_switch list \<Rightarrow> kill_switch option" where
  "findMatchingKillSwitchFromRules tenantId dims rules = firstMatch KILL_SWITCH_SCOPE_ORDER tenantId dims rules"

definition findMatchingKillSwitchWithLookup ::
  "string \<Rightarrow> kill_dims \<Rightarrow> (string \<Rightarrow> ('s, kill_switch list) tx) \<Rightarrow> ('s, kill_switch option) tx" where
  "findMatchingKillSwitchWithLookup tenantId dims list =
     bind_tx (map_error_tx (\<lambda>_. KernelInvariantError KILL_SWITCH_LOOKUP_FAILED) (list tenantId))
       (\<lambda>rules. return_tx (findMatchingKillSwitchFromRules tenantId dims rules))"

definition findMatchingKillSwitch :: "kernel_env \<Rightarrow> string \<Rightarrow> kill_dims \<Rightarrow> kill_switch option gtx" where
  "findMatchingKillSwitch env tenantId dims = findMatchingKillSwitchWithLookup tenantId dims (listKillSwitches env)"

section \<open>The lookup contract\<close>

lemma every_scope_ordered: "set KILL_SWITCH_SCOPE_ORDER = UNIV"
  unfolding KILL_SWITCH_SCOPE_ORDER_def using kill_scope.exhaust by auto

lemma firstMatch_None:
  "firstMatch scopes tenantId dims rules = None \<longleftrightarrow>
     (\<forall>rule \<in> set rules. ksw_scope rule \<in> set scopes \<longrightarrow> \<not> killSwitchRuleMatches rule tenantId dims)"
  by (induction scopes) (auto simp: find_None_iff split: option.split dest!: first_row_Some [unfolded first_row_def])

lemma firstMatch_Some:
  "firstMatch scopes tenantId dims rules = Some match \<Longrightarrow> \<exists>before after.
     scopes = before @ ksw_scope match # after \<and> match \<in> set rules \<and>
     killSwitchRuleMatches match tenantId dims \<and>
     (\<forall>rule \<in> set rules. ksw_scope rule \<in> set before \<longrightarrow> \<not> killSwitchRuleMatches rule tenantId dims)"
proof (induction scopes)
  case (Cons scope scopes)
  let ?m = "\<lambda>rule. ksw_scope rule = scope \<and> killSwitchRuleMatches rule tenantId dims"
  show ?case
  proof (cases "find ?m rules")
    case None
    then obtain before after where ih: "scopes = before @ ksw_scope match # after" "match \<in> set rules"
      "killSwitchRuleMatches match tenantId dims"
      "\<forall>rule \<in> set rules. ksw_scope rule \<in> set before \<longrightarrow> \<not> killSwitchRuleMatches rule tenantId dims"
      using Cons by auto
    then show ?thesis using None
      by (intro exI [of _ "scope # before"] exI [of _ after]) (auto simp: find_None_iff)
  next
    case (Some found)
    then have "match = found" using Cons.prems by simp
    moreover have "found \<in> set rules \<and> ?m found" using Some by (auto simp: find_Some_iff in_set_conv_nth)
    ultimately show ?thesis by (intro exI [of _ "[]"] exI [of _ scopes]) auto
  qed
qed simp

text \<open>
  A provider of rules: reading changes nothing and answers with exactly the stored switches of
  the tenant. What the broker concludes from an answer holds for every such provider.
\<close>

locale kill_switch_lookup =
  fixes list :: "string \<Rightarrow> ('s, kill_switch list) tx"
    and stored :: "'s \<Rightarrow> kill_switch set"
  assumes list_reads: "list tenantId s = Inr (rules, s') \<Longrightarrow> s' = s"
    and list_complete: "list tenantId s = Inr (rules, s') \<Longrightarrow>
      set rules = {k \<in> stored s. ksw_tenantId k = tenantId}"
begin

lemma no_match_iff:
  assumes "findMatchingKillSwitchWithLookup tenantId dims list s = Inr (None, s')"
  shows "s' = s \<and> (\<forall>k \<in> stored s. \<not> killSwitchRuleMatches k tenantId dims)"
proof -
  obtain rules where rules: "list tenantId s = Inr (rules, s')" "findMatchingKillSwitchFromRules tenantId dims rules = None"
    using assms by (auto simp: findMatchingKillSwitchWithLookup_def tx)
  have none: "\<forall>k \<in> set rules. \<not> killSwitchRuleMatches k tenantId dims"
    using rules(2) by (simp add: findMatchingKillSwitchFromRules_def firstMatch_None every_scope_ordered)
  have "\<not> killSwitchRuleMatches k tenantId dims" if "k \<in> stored s" for k
    using none that list_complete [OF rules(1)] by (cases "ksw_tenantId k = tenantId") (auto simp: killSwitchRuleMatches_def)
  then show ?thesis using list_reads [OF rules(1)] by blast
qed

lemma match_sound:
  assumes "findMatchingKillSwitchWithLookup tenantId dims list s = Inr (Some k, s')"
  shows "s' = s \<and> k \<in> stored s \<and> ksw_enabled k \<and> ksw_tenantId k = tenantId \<and>
    dim_value (ksw_scope k) tenantId dims = Some (ksw_value k)"
proof -
  obtain rules where rules: "list tenantId s = Inr (rules, s')" "findMatchingKillSwitchFromRules tenantId dims rules = Some k"
    using assms by (auto simp: findMatchingKillSwitchWithLookup_def tx)
  then have "k \<in> set rules" "killSwitchRuleMatches k tenantId dims"
    using firstMatch_Some [of KILL_SWITCH_SCOPE_ORDER tenantId dims rules k]
    by (auto simp: findMatchingKillSwitchFromRules_def)
  then show ?thesis
    using list_complete [OF rules(1)] list_reads [OF rules(1)] by (auto simp: killSwitchRuleMatches_def split: if_splits)
qed

lemma failure_is_closed:
  assumes "list tenantId s = Inl e"
  shows "findMatchingKillSwitchWithLookup tenantId dims list s = Inl (KernelInvariantError KILL_SWITCH_LOOKUP_FAILED)"
  using assms by (simp add: findMatchingKillSwitchWithLookup_def tx)

end

interpretation guard_lookup: kill_switch_lookup "listKillSwitches env" "\<lambda>db. set (g_switches db)"
  by unfold_locales (auto simp: listKillSwitches_def withTransaction_Inr tx)

section \<open>Reading after writing\<close>

lemma getQuota_after_increment:
  assumes "incrementQuota env tenantId actionClass tokensUsed now db = Inr (r, db')"
  shows "fst r = fst (quota_of db tenantId actionClass (utc_day (quota_time env now))) + 1 \<and>
    snd r = snd (quota_of db tenantId actionClass (utc_day (quota_time env now))) + or_zero tokensUsed \<and>
    r = quota_of db' tenantId actionClass (utc_day (quota_time env now))"
proof -
  let ?same = "same_quota tenantId actionClass (utc_day (quota_time env now))"
  let ?f = "\<lambda>q. q\<lparr>qt_count_used := qt_count_used q + 1, qt_tokens_used := qt_tokens_used q + or_zero tokensUsed\<rparr>"
  have found: "find ?same (update_where ?same ?f rows) = map_option ?f (find ?same rows)" for rows
    by (induction rows) (auto simp: same_quota_def)
  have missing: "\<not> exists_row ?same rows \<Longrightarrow> find ?same (rows @ [q]) = (if ?same q then Some q else None)" for rows q
    by (induction rows) auto
  have none: "exists_row ?same rows \<Longrightarrow> find ?same rows \<noteq> None" for rows
    by (auto simp: find_None_iff)
  have absent: "\<not> exists_row ?same rows \<Longrightarrow> find ?same rows = None" for rows
    by (auto simp: find_None_iff)
  have here: "?same \<lparr>qt_tenant_id = tenantId, qt_action_class = actionClass,
      qt_day = utc_day (quota_time env now), qt_count_used = 1, qt_tokens_used = or_zero tokensUsed\<rparr>"
    by (simp add: same_quota_def)
  show ?thesis
  proof (cases "exists_row ?same (g_quota db)")
    case True
    then obtain q where q: "find ?same (g_quota db) = Some q" using none by blast
    show ?thesis
      using assms True
      by (simp del: exists_row_iff add: incrementQuota_def Let_def withTransaction_Inr quota_of_def
          first_row_def upsert_rows_def) (auto simp del: exists_row_iff simp: found [of "g_quota db"] q)
  next
    case False
    then show ?thesis
      using assms
      by (simp del: exists_row_iff add: incrementQuota_def Let_def withTransaction_Inr quota_of_def
          first_row_def upsert_rows_def absent) (auto simp del: exists_row_iff simp: missing here)
  qed
qed

end
