(* ===== verification/Kernel_Contracts.thy ===== *)
theory Kernel_Contracts
  imports Kernel_Claims Kernel_Guards
begin

text \<open>
  What single operations promise their callers: the concurrency limit of a claim, creation of runs,
  admission of effects, the end of a run, answers to interactions, kill switches, and the calls
  that cannot succeed.
\<close>

section \<open>The concurrency limit\<close>

lemma slot_of_usage:
  assumes "reachable db" and "running_steps_of db t = Some n"
  shows "n = count_rows (\<lambda>s. step_tenant_id s = t \<and> step_state s = S_RUNNING) (t_steps db)"
proof -
  obtain u where u: "u \<in> set (t_usage db)" "usage_tenant_id u = t" "usage_running_steps u = n"
    using assms(2) by (auto simp: running_steps_of_def dest!: first_row_Some)
  then show ?thesis using reachable_safe [OF assms(1)] by (auto simp: safe_def slots_ok_def running_in_def [abs_def])
qed

text \<open>
  A claim never exceeds the tenant's limit. Right after a claim hands out a step, the tenant has
  at most as many RUNNING steps as its \<open>max_concurrent_steps\<close>.
\<close>

lemma concurrency_limit_holds:
  assumes "reachable db" and "claimNextStep env request db = Inr (Some step, db')"
  shows "count_rows (\<lambda>s. step_tenant_id s = ks_tenantId step \<and> step_state s = S_RUNNING) (t_steps db')
    \<le> max_concurrent_of db (ks_tenantId step)"
proof -
  obtain s where s: "s \<in> set (t_steps db)" "candidate_for db env request s" "step = fromStep (claim_takes db env request s)"
    and steps: "t_steps db' = update_where (\<lambda>x. step_id x = step_id s) (claim_takes db env request) (t_steps db)"
    using claimed_step [OF assms] by blast
  let ?t = "step_tenant_id s"
  let ?R = "\<lambda>x. step_tenant_id x = ?t \<and> step_state x = S_RUNNING"
  have tenant: "ks_tenantId step = ?t" using s(3) by simp
  obtain n where n: "running_steps_of db ?t = Some n" "n < max_concurrent_of db ?t"
    using s(2) by (auto simp: claim_candidate_def split: option.splits)
  have key: "unique_key step_id (t_steps db)" using reachable_safe [OF assms(1)] by (simp add: safe_defs)
  have one: "count_rows (\<lambda>x. step_id x = step_id s \<and> Q x) (t_steps db) = (if Q s then 1 else 0)" for Q
    by (rule count_rows_by_key [OF key, of "\<lambda>x. step_id x = step_id s"]) (use s(1) in auto)
  have "step_state s \<noteq> S_RUNNING" using s(2) by (auto simp: claim_candidate_def)
  then have "count_rows ?R (t_steps db') = count_rows ?R (t_steps db) + 1"
    by (simp add: steps count_rows_update one)
  then show ?thesis using n slot_of_usage [OF assms(1) n(1)] by (simp add: tenant)
qed

section \<open>Creating a run\<close>

lemma createStep_inserts:
  "triple (\<lambda>db. t_steps db = rows \<and> t_runs db = runs) (createStep env command actor step)
     (\<lambda>_ db. t_steps db = rows @ [new_step_row env command step] \<and> t_runs db = runs)"
  by (rule tripleI)
    (auto simp: createStep_def insert_step_def tx split: option.splits if_splits
      dest!: unchangedD [OF appendEvent_frame [where v = "\<lambda>db. (t_steps db, t_runs db)"], rotated]
        simp: insert_interaction_def)

lemma createSteps_insert:
  "triple (\<lambda>db. t_steps db = rows \<and> t_runs db = runs) (forM_tx steps (createStep env command actor))
     (\<lambda>_ db. t_steps db = rows @ map (new_step_row env command) steps \<and> t_runs db = runs)"
proof (induction steps arbitrary: rows)
  case Nil
  show ?case by (simp add: triple_return)
next
  case (Cons step steps)
  show ?case
    unfolding forM_tx.simps
    by (rule triple_bind [OF createStep_inserts], rule triple_post [OF Cons.IH]) simp
qed

abbreviation graph_closed :: "create_run \<Rightarrow> bool" where
  "graph_closed command \<equiv> \<forall>step \<in> set (cr_steps command). \<forall>d \<in> set (or_else (ns_dependencies step) []).
     d \<in> ns_id ` set (cr_steps command)"

lemma assertGraph_cases:
  "assertGraph command db =
     (if \<not> distinct (map ns_id (cr_steps command)) then Inl (KernelInvariantError DUPLICATE_STEP)
      else if \<not> graph_closed command then Inl (KernelInvariantError INVALID_GRAPH) else Inr ((), db))"
proof (cases "collectStepIds (cr_steps command) []")
  case (Inl e)
  then have "e = KernelInvariantError DUPLICATE_STEP \<and> \<not> distinct (map ns_id (cr_steps command))"
    by (simp add: collectStepIds_Inl)
  then show ?thesis by (simp add: assertGraph_def Inl throw_tx_def)
next
  case (Inr ids)
  then have ids: "ids = map ns_id (cr_steps command)" "distinct (map ns_id (cr_steps command))"
    by (simp_all add: collectStepIds_Inr)
  then show ?thesis using Inr by (simp add: assertGraph_def throw_tx_def return_tx_def list_ex_iff)
qed

lemma createRun_creates:
  "triple (\<lambda>s. s = db) (createRun env command actor) (\<lambda>run s.
     run_id run = cr_id command \<and> run_tenant_id run = cr_tenantId command \<and> run_state run = R_PENDING \<and>
     run_version run = 1 \<and> (\<forall>r \<in> set (t_runs db). run_id r \<noteq> cr_id command) \<and>
     t_runs s = t_runs db @ [run] \<and> t_steps s = t_steps db @ map (new_step_row env command) (cr_steps command))"
proof -
  define run where "run = \<lparr>run_id = cr_id command, run_tenant_id = cr_tenantId command,
    run_intent_hash = cr_intentHash command, run_work_graph_hash = cr_workGraphHash command,
    run_work_graph_version = cr_workGraphVersion command, run_policy_snapshot_id = cr_policySnapshotId command,
    run_state = R_PENDING, run_version = 1, run_metadata = json_column (cr_metadata command),
    run_created_at = db_now env, run_updated_at = db_now env, run_paused_at = None, run_terminal_at = None\<rparr>"
  define fresh where "fresh \<longleftrightarrow> (\<forall>r \<in> set (t_runs db). run_id r \<noteq> cr_id command)"
  let ?new = "\<lambda>rows s. fresh \<and> t_steps s = rows \<and> t_runs s = t_runs db @ [run]"
  have graph: "triple (\<lambda>s. s = db) (assertGraph command) (\<lambda>_ s. s = db)"
    by (simp add: triple_def tx)
  have insert: "triple (\<lambda>s. s = db) (map_error_tx duplicate_run_error (insert_run run)) (\<lambda>_. ?new (t_steps db))"
    by (auto simp: triple_def tx insert_run_def fresh_def run_def)
  have ensure: "triple (?new rows) (ensure_usage env t) (\<lambda>_. ?new rows)" "triple (?new rows) (ensure_control env t a) (\<lambda>_. ?new rows)" for rows t a
    by (auto simp: triple_def tx ensure_usage_def ensure_control_def)
  have steps: "triple (?new (t_steps db)) (map_error_tx duplicate_error (forM_tx (cr_steps command) (createStep env command actor)))
      (\<lambda>_. ?new (t_steps db @ map (new_step_row env command) (cr_steps command)))"
  proof (rule triple_map_error, rule tripleI)
    fix s r s' assume pre: "?new (t_steps db) s" and run: "forM_tx (cr_steps command) (createStep env command actor) s = Inr (r, s')"
    show "?new (t_steps db @ map (new_step_row env command) (cr_steps command)) s'"
      using tripleD [OF createSteps_insert [of "t_steps db" "t_runs db @ [run]"] _ run] pre by simp
  qed
  have event: "triple (?new rows) (appendEvent env event) (\<lambda>_. ?new rows)" for rows event
    by (rule triple_of_keeps, rule keeps_of_unchanged [where v = "\<lambda>s. (t_steps s, t_runs s)" and
        Q = "\<lambda>(a, b). fresh \<and> a = rows \<and> b = t_runs db @ [run]"]) (auto intro: frame)
  show ?thesis
    unfolding createRun_def withTransaction_tenant Let_def
    by (rule triple_bind [OF graph], fold run_def, rule triple_bind [OF insert], rule triple_bind [OF ensure(1)],
        rule triple_bind [OF ensure(2)], rule triple_bind [OF steps], rule triple_bind [OF event], rule triple_return)
      (simp add: run_def fresh_def)
qed

text \<open>
  Creating a run is all or nothing and checks the graph. Repeated step identifiers are refused
  as DUPLICATE_STEP and dependencies outside the graph as INVALID_GRAPH; a run that is created is
  new, PENDING at version 1, and comes with exactly the rows of its steps, in their order.
\<close>

lemma create_run_spec:
  "(\<not> distinct (map ns_id (cr_steps command)) \<longrightarrow>
      createRun env command actor db = Inl (KernelInvariantError DUPLICATE_STEP)) \<and>
   (distinct (map ns_id (cr_steps command)) \<and> \<not> graph_closed command \<longrightarrow>
      createRun env command actor db = Inl (KernelInvariantError INVALID_GRAPH)) \<and>
   (\<forall>run db'. createRun env command actor db = Inr (run, db') \<longrightarrow>
      run_id run = cr_id command \<and> run_tenant_id run = cr_tenantId command \<and> run_state run = R_PENDING \<and>
      run_version run = 1 \<and> (\<forall>r \<in> set (t_runs db). run_id r \<noteq> cr_id command) \<and>
      t_runs db' = t_runs db @ [run] \<and> t_steps db' = t_steps db @ map (new_step_row env command) (cr_steps command))"
proof (intro conjI impI allI)
  show "createRun env command actor db = Inl (KernelInvariantError DUPLICATE_STEP)"
    if "\<not> distinct (map ns_id (cr_steps command))"
    using that by (simp add: createRun_def assertGraph_cases bind_tx_def)
  show "createRun env command actor db = Inl (KernelInvariantError INVALID_GRAPH)"
    if "distinct (map ns_id (cr_steps command)) \<and> \<not> graph_closed command"
    using that by (simp add: createRun_def assertGraph_cases bind_tx_def)
next
  fix run db' assume "createRun env command actor db = Inr (run, db')"
  from tripleD [OF createRun_creates refl this]
  show "run_id run = cr_id command" "run_tenant_id run = cr_tenantId command"
    "run_state run = R_PENDING" "run_version run = 1" "\<forall>r \<in> set (t_runs db). run_id r \<noteq> cr_id command"
    "t_runs db' = t_runs db @ [run]" "t_steps db' = t_steps db @ map (new_step_row env command) (cr_steps command)"
    by blast+
qed

section \<open>Admission\<close>

lemma readiness_cong: "t_workers db' = t_workers db \<Longrightarrow> operations_refused env db' request = operations_refused env db request"
  by (simp add: operations_refused_def readOperationsReadiness_def)

lemma admitting_cong:
  assumes "t_steps db' = t_steps db" "t_runs db' = t_runs db" "t_workers db' = t_workers db"
  shows "admitting_step env db' request = admitting_step env db request"
  unfolding admitting_step_def leased_step_def worker_registered_def assms ..

lemma first_row_snoc: "first_row P rows = None \<Longrightarrow> first_row P (rows @ [r]) = (if P r then Some r else None)"
  by (induction rows) (auto simp: first_row_def split: if_splits)

lemma admitted_new:
  assumes "admitEffect env request db = Inr (Admitted False e, db')"
  shows "prior_effect db request = None \<and> \<not> operations_refused env db request \<and> admitting_step env db request \<noteq> None \<and>
    e = fromEffect (new_effect_row env request) \<and> t_effects db' = t_effects db @ [new_effect_row env request] \<and>
    (t_steps db', t_runs db', t_workers db') = (t_steps db, t_runs db, t_workers db) \<and>
    \<not> (ae_policySnapshotId request = [] \<or> trim (ae_policySnapshotId request) = []) \<and>
    \<not> (lr_workerId (ae_lease request) = [] \<or> trim (lr_workerId (ae_lease request)) = [])"
  using assms
  by (auto simp: admitEffect_def admitEffectEmbedded_def Let_def tx split: if_splits option.splits
      dest!: unchangedD [OF appendEvent_frame [where v = "\<lambda>db. (t_effects db, t_steps db, t_runs db, t_workers db)"], rotated])




section \<open>The end of a run\<close>

definition run_can_end :: "kernel_db \<Rightarrow> string \<Rightarrow> string \<Rightarrow> run_state \<Rightarrow> bool" where
  "run_can_end db runId tenantId target \<longleftrightarrow> \<not> hasUnreceiptedConsequentialEffect db runId tenantId \<and>
     (let states = map step_state (filter (in_run runId tenantId) (t_steps db)) in
      (target = R_FAILED \<and> S_FAILED \<in> set states) \<or>
      (target = R_SUCCEEDED \<and> states \<noteq> [] \<and> set states \<subseteq> {S_SUCCEEDED, S_SKIPPED}))"

lemma ended_rows:
  assumes "\<And>r. P r \<Longrightarrow> is_run i t r" and "\<And>r. run_id (f r) = run_id r \<and> run_state (f r) = target"
    and key: "unique_key run_id rows"
    and "r \<in> set rows" "r' \<in> set (update_where P f rows)" "run_id r' = run_id r" "run_state r' \<noteq> run_state r"
  shows "is_run i t r \<and> run_state r' = target"
proof -
  obtain q where q: "q \<in> set rows" "r' = (if P q then f q else q)" using assms(5) by (auto simp: set_update_where)
  then have "run_id q = run_id r" using assms(2,6) by (auto split: if_splits)
  then have "q = r" by (rule unique_key_inj [OF key q(1) assms(4)])
  then show ?thesis using q(2) assms(1,2,7) by (auto split: if_splits)
qed

lemma finishRun_ends:
  assumes "finishRunIfTerminal env i t actor db = Inr (u, db')"
  shows "t_runs db' = t_runs db \<or> (\<exists>target P f. run_can_end db i t target \<and> (\<forall>r. P r \<longrightarrow> is_run i t r) \<and>
    (\<forall>r. run_id (f r) = run_id r \<and> run_state (f r) = target) \<and> t_runs db' = update_where P f (t_runs db))"
proof -
  let ?P = "\<lambda>r. is_run i t r \<and> run_state r \<notin> {R_FAILED, R_SUCCEEDED}"
  let ?f = "\<lambda>target r. r\<lparr>run_state := target, run_version := run_version r + 1,
                     run_updated_at := db_now env, run_terminal_at := Some (db_now env)\<rparr> :: run_row"
  have cancel: "unchanged t_runs (cancelOpenStepsForTerminalRun env i t actor reason)" for reason by (intro frame) simp_all
  have event: "unchanged t_runs (appendEvent env e)" for e by (intro frame) simp
  have last: "t_runs s' = t_runs s" if "(case rows of [] \<Rightarrow> return_tx () | row # _ \<Rightarrow> appendEvent env (k row)) s = Inr (v, s')" for rows k s v s'
    using that unchangedD [OF event] by (auto simp: tx split: list.splits)
  have ended: "t_runs db' = t_runs db \<or> (\<exists>target. run_can_end db i t target \<and> t_runs db' = update_where ?P (?f target) (t_runs db))"
    using assms unchangedD [OF cancel] last
    by (fastforce simp: finishRunIfTerminal_def lockRunState_def Let_def tx run_can_end_def list_all_iff
        split: option.splits if_splits)
  then show ?thesis
  proof
    assume "\<exists>target. run_can_end db i t target \<and> t_runs db' = update_where ?P (?f target) (t_runs db)"
    then obtain target where "run_can_end db i t target" "t_runs db' = update_where ?P (?f target) (t_runs db)" by blast
    then show ?thesis by (intro disjI2 exI [of _ target] exI [of _ ?P] exI [of _ "?f target"]) simp
  qed simp
qed

text \<open>
  A run ends only when it may. \<open>finishRunIfTerminal\<close> moves no run but the one it is asked about;
  it ends that run as FAILED only with a FAILED step, as SUCCEEDED only when it has steps and all of
  them SUCCEEDED or were SKIPPED, and not at all while a consequential effect of the run lacks its
  bound evidence.
\<close>

lemma run_ends_only_when_done:
  assumes key: "unique_key run_id (t_runs db)" and finish: "finishRunIfTerminal env runId tenantId actor db = Inr (u, db')"
    and "r \<in> set (t_runs db)" and "r' \<in> set (t_runs db')" and "run_id r' = run_id r" and "run_state r' \<noteq> run_state r"
  shows "run_id r = runId \<and> run_tenant_id r = tenantId \<and> run_can_end db runId tenantId (run_state r')"
proof -
  have "t_runs db' \<noteq> t_runs db" using unique_key_inj [OF key _ assms(3)] assms(4-6) by metis
  then obtain target P f where ending: "run_can_end db runId tenantId target" "\<And>r. P r \<Longrightarrow> is_run runId tenantId r"
    "\<And>r. run_id (f r) = run_id r \<and> run_state (f r) = target" "t_runs db' = update_where P f (t_runs db)"
    using finishRun_ends [OF finish] by blast
  have "is_run runId tenantId r \<and> run_state r' = target"
    by (rule ended_rows [OF ending(2,3) key assms(3) _ assms(5,6)]) (use assms(4) ending(4) in simp_all)
  then show ?thesis using ending(1) by (simp add: is_run_def)
qed

text \<open>A run whose only step is done.\<close>

definition demo_finishing :: kernel_db where
  "demo_finishing = empty_db\<lparr>t_runs := [demo_run\<lparr>run_state := R_RUNNING\<rparr>],
     t_steps := [demo_leased\<lparr>step_state := S_SUCCEEDED\<rparr>]\<rparr>"

section \<open>Calls that cannot succeed\<close>

text \<open>
  C39: a dead letter cannot be replayed. Every entry of the dead-letter queue makes
  \<open>replayDlqEntry\<close> throw: the new message carries the event of a message that is still in the outbox,
  where \<open>event_id\<close> is unique.
\<close>

theorem replay_of_dead_letter_throws:
  assumes "reachable db" and "d \<in> set (t_dlq db)"
  shows "\<exists>e. replayDlqEntry env (dlq_id d) db = Inl e"
proof (cases "replayDlqEntry env (dlq_id d) db")
  case (Inr p)
  have "outbox_ok db" using reachable_safe [OF assms(1)] by (simp add: safe_def)
  then have "first_row (\<lambda>x. dlq_id x = dlq_id d) (t_dlq db) = None"
    using replayDlqEntry_Inr Inr by (cases p) blast
  then show ?thesis using assms(2) by (auto simp: first_row_None)
qed simp

text \<open>The message of the first stage after ten claims that nobody acknowledged, and a sweep.\<close>

definition demo_swept :: kernel_db where
  "demo_swept = run_all demo_env (map (\<lambda>k. Outbox (Claim_outbox 5 (Some (60001 * k)))) [1..10] @
     [Outbox (Sweep_outbox_dlq (Some 700000) None)]) demo_created"

theorem replay_of_dead_letter_throws_witness:
  "\<exists>d \<in> set (t_dlq demo_swept). \<exists>e. replayDlqEntry demo_env (dlq_id d) demo_swept = Inl e"
proof -
  have "t_dlq demo_swept \<noteq> []" by code_simp
  then have "hd (t_dlq demo_swept) \<in> set (t_dlq demo_swept)" by simp
  moreover have "reachable demo_swept" unfolding demo_swept_def by (rule reachable_run_all) simp
  ultimately show ?thesis using replay_of_dead_letter_throws by blast
qed

lemma createTimer_event:
  assumes "createTimer env request actor db = Inr (timer, db')"
  shows "\<exists>e \<in> set (t_events db'). event_aggregate_type e = ''run'' \<and> event_aggregate_id e = ct_runId request \<and> event_sequence e = 0"
  using assms
  by (auto simp: createTimer_def Let_def tx appendEvent_def kernel_event_def dest!: appendEventKeyed_adds)

lemma createTimer_blocked:
  assumes "e \<in> set (t_events db)" "event_aggregate_type e = ''run''" "event_aggregate_id e = ct_runId request" "event_sequence e = 0"
  shows "\<exists>e. createTimer env request actor db = Inl e"
proof (cases "createTimer env request actor db")
  case (Inr p)
  then show ?thesis
    using assms by (cases p) (auto simp: createTimer_def Let_def tx appendEvent_def appendEventKeyed_def kernel_event_def)
qed simp

text \<open>
  C38: a run gets one timer in its life. The event of a timer takes the sequence number 0 of its run,
  which is unique, so after the first \<open>createTimer\<close> every later one for the same run throws, whatever
  its step, tenant or type.
\<close>

theorem second_timer_of_a_run_throws:
  assumes "reachable db" and "createTimer env first actor db = Inr (timer, db')" and "later db' db''"
    and "ct_runId second = ct_runId first"
  shows "\<exists>e. createTimer env' second actor' db'' = Inl e"
proof -
  obtain e where e: "e \<in> set (t_events db')" "event_aggregate_type e = ''run''" "event_aggregate_id e = ct_runId first" "event_sequence e = 0"
    using createTimer_event [OF assms(2)] by blast
  have "reachable db'"
    by (rule reachable_later [OF assms(1)], rule later_of_run [of env "Interactions (Create_timer first actor)"])
      (use assms(2) in \<open>simp add: forget_def tx\<close>)
  then have "e \<in> set (t_events db'')" using later_evolves [OF _ assms(3)] e(1) by (auto simp: evolves_def)
  then show ?thesis using e assms(4) by (intro createTimer_blocked) simp_all
qed

definition demo_timer :: create_timer where
  "demo_timer = \<lparr>ct_runId = ''r'', ct_stepId = ''a'', ct_tenantId = ''t'', ct_firesAt = 5000,
     ct_timerType = STEP_DEADLINE, ct_payload = None\<rparr>"

theorem second_timer_of_a_run_throws_witness:
  "\<exists>db'. reachable db' \<and> (\<exists>e. createTimer demo_env demo_timer ''w'' db' = Inl e)"
proof -
  have "commits (createTimer demo_env demo_timer ''w'') demo_claimed" by code_simp
  from commitsE [OF this] obtain timer db' where first: "createTimer demo_env demo_timer ''w'' demo_claimed = Inr (timer, db')"
    by blast
  have "later demo_claimed db'"
    by (rule later_of_run [of demo_env "Interactions (Create_timer demo_timer ''w'')"]) (use first in \<open>simp add: forget_def tx\<close>)
  then have "reachable db'" by (rule reachable_later [OF demo_reachable(3)])
  then show ?thesis
    using second_timer_of_a_run_throws [OF demo_reachable(3) first later_refl refl] by blast
qed


section \<open>Answers of humans\<close>

abbreviation answers :: "answer_interaction \<Rightarrow> interaction_row \<Rightarrow> interaction_row \<Rightarrow> bool" where
  "answers request i j \<equiv> interaction_id j = ai_interactionId request \<and>
     interaction_run_id j = ai_runId request \<and> interaction_tenant_id j = ai_tenantId request \<and>
     interaction_step_id j = interaction_step_id i \<and> interaction_status j = IN_pending"

abbreviation answered :: "kernel_env \<Rightarrow> answer_interaction \<Rightarrow> interaction_row \<Rightarrow> interaction_row" where
  "answered env request j \<equiv> j\<lparr>interaction_status := IN_answered,
     interaction_response := Some (ai_response request), interaction_answered_at := Some (db_now env)\<rparr>"

lemma updated_interaction_then:
  assumes "bind_tx (update_interactions P f) (\<lambda>rows. case rows of [] \<Rightarrow> throw_tx e | x # _ \<Rightarrow> g x) s = Inr (r, s')"
    and "\<And>x. unchanged t_interactions (g x)" and "\<And>x s r s'. g x s = Inr (r, s') \<Longrightarrow> r = x"
  shows "r \<in> set (updated_rows P f (t_interactions s)) \<and> t_interactions s' = update_where P f (t_interactions s)"
proof -
  obtain x rows where rows: "updated_rows P f (t_interactions s) = x # rows"
    and rest: "g x (s\<lparr>t_interactions := update_where P f (t_interactions s)\<rparr>) = Inr (r, s')"
    using assms(1) by (auto simp: tx split: list.splits)
  then show ?thesis using unchangedD [OF assms(2) rest] assms(3) [OF rest] by simp
qed

lemma answerInteraction_table:
  assumes "answerInteraction env request db = Inr (row, db')"
  obtains i st where "pending_interaction db request = Some (i, st)" "\<not> interaction_expired env i"
    "t_interactions db' = update_where (answers request i) (answered env request) (t_interactions db)"
    "row \<in> set (updated_rows (answers request i) (answered env request) (t_interactions db))"
proof -
  have release: "unchanged t_interactions (releaseWaitingStep env request i st)" for i st
    unfolding releaseWaitingStep_def by (intro frame; simp)
  have event: "unchanged t_interactions (appendEvent env e)" "unchanged t_interactions (when_tx b (appendEvent env e))" for e b
    by (intro frame; simp)+
  obtain i st where pending: "pending_interaction db request = Some (i, st)"
    using assms by (cases "pending_interaction db request") (auto simp: answerInteraction_def tx)
  have fresh: "\<not> interaction_expired env i"
    using assms pending by (auto simp: answerInteraction_def tx)
  let ?tail = "\<lambda>step. bind_tx (update_interactions (answers request i) (answered env request)) (\<lambda>rows.
       case rows of [] \<Rightarrow> throw_tx (KernelInvariantError INTERACTION_NOT_FOUND)
       | x # _ \<Rightarrow>
         bind_tx (appendEvent env (kernel_event ''interaction'' (ai_interactionId request) 1 ''interaction.answered''
           (ai_tenantId request) (ai_runId request) (Some (interaction_step_id i)) (ai_actor request)
           [(''response'', ai_response request)])) (\<lambda>_.
         bind_tx (when_tx (\<not> keeps_step request) (appendEvent env (kernel_event ''step'' (step_id step)
           (step_version step) ''step.interaction_answered'' (step_tenant_id step) (step_run_id step)
           (Some (step_id step)) (ai_actor request)
           [(''interactionId'', JStr (ai_interactionId request))]))) (\<lambda>_. return_tx x)))"
  have "bind_tx (releaseWaitingStep env request i st) ?tail db = Inr (row, db')"
    using assms pending fresh by (simp add: answerInteraction_def bind_query)
  then obtain step db1 where step: "releaseWaitingStep env request i st db = Inr (step, db1)"
    and tail: "?tail step db1 = Inr (row, db')" unfolding bind_tx_Inr by blast
  have "t_interactions db1 = t_interactions db" by (rule unchangedD [OF release step])
  moreover have "row \<in> set (updated_rows (answers request i) (answered env request) (t_interactions db1)) \<and>
      t_interactions db' = update_where (answers request i) (answered env request) (t_interactions db1)"
    by (rule updated_interaction_then [OF tail]) (auto simp: tx intro!: unchanged_bind event frame)
  ultimately show ?thesis using that [OF pending fresh] by simp
qed

text \<open>
  A question is answered once. The answer that is accepted is to an interaction that was pending
  and had not expired, and is what the row now holds; every later answer to the same interaction, by
  whoever and for whatever run or tenant it is sent, is refused as not found.
\<close>

lemma interaction_is_answered_once:
  assumes key: "unique_key interaction_id (t_interactions db)" and answer: "answerInteraction env request db = Inr (row, db')"
    and "ai_interactionId other = ai_interactionId request"
  shows "(\<exists>i \<in> set (t_interactions db). interaction_id i = ai_interactionId request \<and>
      interaction_tenant_id i = ai_tenantId request \<and> interaction_status i = IN_pending \<and> \<not> interaction_expired env i) \<and>
    row \<in> set (t_interactions db') \<and> interaction_status row = IN_answered \<and>
    interaction_response row = Some (ai_response request) \<and>
    answerInteraction env' other db' = Inl (KernelInvariantError INTERACTION_NOT_FOUND)"
proof -
  obtain i st where i: "pending_interaction db request = Some (i, st)" "\<not> interaction_expired env i"
    and table: "t_interactions db' = update_where (answers request i) (answered env request) (t_interactions db)"
    and row: "row \<in> set (updated_rows (answers request i) (answered env request) (t_interactions db))"
    using answer by (rule answerInteraction_table)
  obtain j where j: "j \<in> set (t_interactions db)" "answers request i j" "row = answered env request j" using row by (auto simp: updated_rows_mem)
  have pending: "i \<in> set (t_interactions db)" "interaction_id i = ai_interactionId request" "interaction_tenant_id i = ai_tenantId request"
    "interaction_status i = IN_pending"
    using i(1) by (auto simp: pending_interaction_def split: option.splits dest!: first_row_Some)
  have gone: "\<not> (interaction_id x = ai_interactionId request \<and> interaction_status x = IN_pending)"
    if mem: "x \<in> set (t_interactions db')" for x
  proof
    assume x: "interaction_id x = ai_interactionId request \<and> interaction_status x = IN_pending"
    obtain y where y: "y \<in> set (t_interactions db)" "x = (if answers request i y then answered env request y else y)"
      using mem by (auto simp: table set_update_where)
    then have "y = j" by (intro unique_key_inj [OF key y(1) j(1)]) (use x j in \<open>auto split: if_splits\<close>)
    then show False using x y j(2) by simp
  qed
  have "pending_interaction db' other = None"
    using gone assms(3) by (auto simp: pending_interaction_def split: option.splits dest!: first_row_Some)
  then have "answerInteraction env' other db' = Inl (KernelInvariantError INTERACTION_NOT_FOUND)"
    by (simp add: answerInteraction_def bind_tx_def query_tx_def throw_tx_def)
  moreover have "row \<in> set (t_interactions db')" using j by (auto simp: table set_update_where)
  ultimately show ?thesis using pending i(2) j(3) by auto
qed

text \<open>The first step of the worked run asks a question.\<close>

definition demo_asked :: kernel_db where
  "demo_asked = demo_created\<lparr>t_steps := [(demo_row ''a'' [])\<lparr>step_state := S_WAITING_FOR_HUMAN\<rparr>],
     t_interactions := [\<lparr>interaction_id = ''i'', interaction_run_id = ''r'', interaction_step_id = ''a'',
       interaction_tenant_id = ''t'', interaction_status = IN_pending, interaction_prompt = ''ok?'',
       interaction_response = None, interaction_created_at = 0, interaction_answered_at = None,
       interaction_expires_at = None\<rparr>]\<rparr>"

definition demo_answer :: answer_interaction where
  "demo_answer = \<lparr>ai_interactionId = ''i'', ai_runId = ''r'', ai_tenantId = ''t'', ai_response = JBool True,
     ai_actor = ''h'', ai_releaseStep = None\<rparr>"

section \<open>Kill switches\<close>

text \<open>What a kill switch means: an enabled switch of the tenant whose dimension has its value.\<close>

definition blocks :: "kill_switch \<Rightarrow> string \<Rightarrow> kill_dims \<Rightarrow> bool" where
  "blocks k tenantId dims \<longleftrightarrow> ksw_enabled k \<and> ksw_tenantId k = tenantId \<and>
     dim_value (ksw_scope k) tenantId dims = Some (ksw_value k)"

lemma putKillSwitch_stores:
  assumes "putKillSwitch env input db = Inr (k0, db')" and "blocks input tenantId dims"
  shows "\<exists>k \<in> set (g_switches db'). blocks k tenantId dims"
proof -
  let ?same = "same_switch (ksw_tenantId input) (ksw_scope input) (ksw_value input)"
  let ?f = "\<lambda>k. k\<lparr>ksw_enabled := ksw_enabled input, ksw_reason := ksw_reason input,
                  ksw_actor := ksw_actor input, ksw_updatedAt := db_now env\<rparr> :: kill_switch"
  let ?fresh = "input\<lparr>ksw_updatedAt := db_now env\<rparr>"
  have db': "g_switches db' = upsert_rows ?same ?fresh ?f (g_switches db)"
    using assms(1) by (auto simp: putKillSwitch_def Let_def)
  show ?thesis
  proof (cases "exists_row ?same (g_switches db)")
    case True
    then obtain k where k: "k \<in> set (g_switches db)" "?same k" by auto
    then have "?f k \<in> set (g_switches db')"
      using True update_where_mem [OF k(1), of ?same ?f] by (simp add: db' upsert_rows_def del: exists_row_iff)
    moreover have "blocks (?f k) tenantId dims" using k(2) assms(2) by (simp add: blocks_def same_switch_def)
    ultimately show ?thesis by blast
  next
    case False
    then have "?fresh \<in> set (g_switches db')" by (simp add: db' upsert_rows_def del: exists_row_iff)
    moreover have "blocks ?fresh tenantId dims" using assms(2) by (simp add: blocks_def)
    ultimately show ?thesis by blast
  qed
qed

definition demo_switch :: kill_switch where
  "demo_switch = \<lparr>ksw_tenantId = ''t'', ksw_scope = KS_tool, ksw_value = ''shell'', ksw_enabled = True,
     ksw_reason = None, ksw_actor = ''op'', ksw_updatedAt = 0\<rparr>"

definition demo_dims :: kill_dims where
  "demo_dims = \<lparr>kd_package = None, kd_model = None, kd_tool = Some ''shell'', kd_destination = None, kd_effectType = None\<rparr>"

definition demo_guarded :: guard_db where
  "demo_guarded = empty_guards\<lparr>g_switches := [demo_switch]\<rparr>"

text \<open>
  The kill switch lookup is exact. It answers nothing precisely when no stored switch blocks the
  action, otherwise with a stored one that does; it writes nothing; and after \<open>putKillSwitch\<close> of a
  switch that blocks the action the lookup answers with some switch.
\<close>

lemma kill_switch_lookup_is_exact:
  assumes "findMatchingKillSwitch env tenantId dims db = Inr (answer, db')"
  shows "db' = db \<and> (answer = None \<longleftrightarrow> (\<forall>k \<in> set (g_switches db). \<not> blocks k tenantId dims)) \<and>
    (\<forall>k. answer = Some k \<longrightarrow> k \<in> set (g_switches db) \<and> blocks k tenantId dims) \<and>
    (\<forall>input env0 db0 k0. putKillSwitch env0 input db0 = Inr (k0, db) \<and> blocks input tenantId dims \<longrightarrow> answer \<noteq> None)"
proof -
  have blocks: "killSwitchRuleMatches k tenantId dims = blocks k tenantId dims" for k
    by (auto simp: killSwitchRuleMatches_def blocks_def)
  have exact: "db' = db \<and> (answer = None \<longleftrightarrow> (\<forall>k \<in> set (g_switches db). \<not> blocks k tenantId dims)) \<and>
    (\<forall>k. answer = Some k \<longrightarrow> k \<in> set (g_switches db) \<and> blocks k tenantId dims)"
  proof (cases answer)
    case None
    then show ?thesis
      using guard_lookup.no_match_iff [of tenantId dims env db db'] assms by (simp add: findMatchingKillSwitch_def blocks)
  next
    case (Some k)
    then show ?thesis
      using guard_lookup.match_sound [of tenantId dims env db k db'] assms by (auto simp: findMatchingKillSwitch_def blocks_def)
  qed
  moreover have "\<exists>k \<in> set (g_switches db). blocks k tenantId dims"
    if "putKillSwitch env0 input db0 = Inr (k0, db)" "blocks input tenantId dims" for input env0 db0 k0
    using that(1) putKillSwitch_stores [OF that] by blast
  ultimately show ?thesis by blast
qed

end
