(* ===== verification/Tenant_Cutover.thy ===== *)
theory Tenant_Cutover
  imports Kernel_Prelude
begin

text \<open>
  \<open>packages/kernel/src/tenantCutoverStateMachine.ts\<close>: which operation of the tenant-context
  cutover (expand, enforce, recover, roll back) a request may start, retry or find done.
\<close>

datatype platform_kind = PK_helm | PK_compose

datatype runtime_phase = PH_expand | PH_enforce

datatype operation_kind =
    legacy_expand | fresh_enforce | enforce | recover_runtime_after_enforce_failure | rollback_to_recorded_expand

datatype cutover_command =
    C_expand | C_install_enforce | C_enforce | C_recover_runtime_after_enforce_failure
  | C_rollback_to_recorded_expand

record cutover_operation =
  cvo_operationVersion :: string
  cvo_predecessorOperationVersion :: "string option"
  cvo_kind :: operation_kind
  cvo_runtimePhase :: runtime_phase
  cvo_bindingSha256 :: string
  cvo_businessConfigurationSha256 :: string
  cvo_fullConfigurationSha256 :: string
  cvo_provenLive :: bool

record recovery_predecessor =
  cvp_operationVersion :: string
  cvp_platformKind :: platform_kind
  cvp_runtimePhase :: runtime_phase
  cvp_bindingSha256 :: string
  cvp_businessConfigurationSha256 :: string
  cvp_fullConfigurationSha256 :: string
  cvp_bindingJcs :: string
  cvp_fullConfigurationJcs :: string
  cvp_provenLive :: bool

record recorded_expand =
  rx_bindingSha256 :: string
  rx_businessConfigurationSha256 :: string
  rx_fullConfigurationSha256 :: string

datatype database_state = DB_fresh | DB_fresh_pending | DB_legacy | DB_legacy_pending | DB_expanded | DB_enforced

record cutover_state =
  cv_databaseState :: database_state
  cv_platformKind :: "platform_kind option"
  cv_currentOperation :: "cutover_operation option"
  cv_recordedExpand :: "recorded_expand option"
  cv_recoveryPredecessor :: "recovery_predecessor option"

record cutover_request =
  cvq_command :: cutover_command
  cvq_platformKind :: platform_kind
  cvq_bindingSha256 :: string
  cvq_businessConfigurationSha256 :: string
  cvq_fullConfigurationSha256 :: "string option"

datatype cutover_decision =
    ReturnCurrent string | RetryRollout string | Append operation_kind

datatype cutover_error =
    TENANT_CUTOVER_RECOVERY_PREDECESSOR_REQUIRED | TENANT_CUTOVER_CROSS_PLATFORM_UNSUPPORTED
  | TENANT_CUTOVER_RECOVERY_PREDECESSOR_INCOMPLETE | TENANT_CUTOVER_ENFORCE_RECOVERY_REQUIRED
  | TENANT_CUTOVER_EXACT_RETRY_REQUIRED | TENANT_CUTOVER_ENFORCE_RECOVERY_NOT_REQUIRED
  | TENANT_CUTOVER_RECORDED_EXPAND_MISMATCH | TENANT_CUTOVER_STATE_INVALID

fun LIVE_NOOP_KINDS :: "cutover_command \<Rightarrow> operation_kind list" where
  "LIVE_NOOP_KINDS C_expand = [legacy_expand]"
| "LIVE_NOOP_KINDS C_install_enforce = [fresh_enforce]"
| "LIVE_NOOP_KINDS C_enforce = [fresh_enforce, enforce]"
| "LIVE_NOOP_KINDS C_recover_runtime_after_enforce_failure = [recover_runtime_after_enforce_failure]"
| "LIVE_NOOP_KINDS C_rollback_to_recorded_expand = [rollback_to_recorded_expand]"

definition RETRYABLE_UNPROVEN_KINDS :: "operation_kind list" where
  "RETRYABLE_UNPROVEN_KINDS =
     [legacy_expand, fresh_enforce, recover_runtime_after_enforce_failure, rollback_to_recorded_expand]"

fun operationKindForCommand :: "cutover_command \<Rightarrow> operation_kind" where
  "operationKindForCommand C_expand = legacy_expand"
| "operationKindForCommand C_install_enforce = fresh_enforce"
| "operationKindForCommand C_enforce = enforce"
| "operationKindForCommand C_recover_runtime_after_enforce_failure = recover_runtime_after_enforce_failure"
| "operationKindForCommand C_rollback_to_recorded_expand = rollback_to_recorded_expand"

definition sameBusinessRequest :: "cutover_operation \<Rightarrow> cutover_request \<Rightarrow> bool" where
  "sameBusinessRequest current request \<longleftrightarrow> cvo_bindingSha256 current = cvq_bindingSha256 request \<and>
     cvo_businessConfigurationSha256 current = cvq_businessConfigurationSha256 request"

definition isExactRetry :: "cutover_operation \<Rightarrow> cutover_request \<Rightarrow> bool" where
  "isExactRetry current request \<longleftrightarrow> sameBusinessRequest current request \<and>
     cvq_fullConfigurationSha256 request = Some (cvo_fullConfigurationSha256 current)"

definition assertRecoveryPredecessor ::
  "cutover_state \<Rightarrow> cutover_request \<Rightarrow> cutover_operation \<Rightarrow> cutover_error + unit" where
  "assertRecoveryPredecessor state request current =
     (case cv_recoveryPredecessor state of
        None \<Rightarrow> Inl TENANT_CUTOVER_RECOVERY_PREDECESSOR_REQUIRED
      | Some predecessor \<Rightarrow>
          if cvp_platformKind predecessor \<noteq> cvq_platformKind request \<or>
             (cv_platformKind state \<noteq> None \<and> Some (cvp_platformKind predecessor) \<noteq> cv_platformKind state)
          then Inl TENANT_CUTOVER_CROSS_PLATFORM_UNSUPPORTED
          else if \<not> truthy (cvo_predecessorOperationVersion current) \<or>
             Some (cvp_operationVersion predecessor) \<noteq> cvo_predecessorOperationVersion current \<or>
             cvp_bindingJcs predecessor = [] \<or> cvp_fullConfigurationJcs predecessor = [] \<or>
             cvp_bindingSha256 predecessor = [] \<or> cvp_businessConfigurationSha256 predecessor = [] \<or>
             cvp_fullConfigurationSha256 predecessor = [] \<or> \<not> cvp_provenLive predecessor
          then Inl TENANT_CUTOVER_RECOVERY_PREDECESSOR_INCOMPLETE
          else Inr ())"

definition appendAllowed :: "cutover_command \<Rightarrow> database_state \<Rightarrow> bool" where
  "appendAllowed command databaseState \<longleftrightarrow>
     (command = C_expand \<and> databaseState = DB_legacy) \<or>
     (command = C_install_enforce \<and> databaseState = DB_fresh) \<or>
     (command = C_enforce \<and> (databaseState = DB_expanded \<or> databaseState = DB_enforced))"

definition decideUnproven ::
  "cutover_state \<Rightarrow> cutover_request \<Rightarrow> cutover_operation \<Rightarrow> cutover_error + cutover_decision" where
  "decideUnproven state request current =
     (if cvo_kind current = enforce then
        (if cvq_command request \<noteq> C_recover_runtime_after_enforce_failure
         then Inl TENANT_CUTOVER_ENFORCE_RECOVERY_REQUIRED
         else case assertRecoveryPredecessor state request current of
           Inl e \<Rightarrow> Inl e | Inr _ \<Rightarrow> Inr (Append recover_runtime_after_enforce_failure))
      else if cvo_kind current \<in> set RETRYABLE_UNPROVEN_KINDS \<and>
              operationKindForCommand (cvq_command request) = cvo_kind current \<and> isExactRetry current request
      then Inr (RetryRollout (cvo_operationVersion current))
      else Inl TENANT_CUTOVER_EXACT_RETRY_REQUIRED)"

definition decideAppend :: "cutover_state \<Rightarrow> cutover_request \<Rightarrow> cutover_error + cutover_decision" where
  "decideAppend state request =
     (if cvq_command request = C_recover_runtime_after_enforce_failure
      then Inl TENANT_CUTOVER_ENFORCE_RECOVERY_NOT_REQUIRED
      else if cvq_command request = C_rollback_to_recorded_expand then
        (case cv_recordedExpand state of
           None \<Rightarrow> Inl TENANT_CUTOVER_RECORDED_EXPAND_MISMATCH
         | Some recorded \<Rightarrow>
             if cv_databaseState state \<noteq> DB_enforced \<or>
                rx_bindingSha256 recorded \<noteq> cvq_bindingSha256 request \<or>
                rx_businessConfigurationSha256 recorded \<noteq> cvq_businessConfigurationSha256 request
             then Inl TENANT_CUTOVER_RECORDED_EXPAND_MISMATCH
             else Inr (Append rollback_to_recorded_expand))
      else if \<not> appendAllowed (cvq_command request) (cv_databaseState state)
      then Inl TENANT_CUTOVER_STATE_INVALID
      else Inr (Append (operationKindForCommand (cvq_command request))))"

definition decideTenantCutoverOperation ::
  "cutover_state \<Rightarrow> cutover_request \<Rightarrow> cutover_error + cutover_decision" where
  "decideTenantCutoverOperation state request =
     (if cv_platformKind state \<noteq> None \<and> cv_platformKind state \<noteq> Some (cvq_platformKind request)
      then Inl TENANT_CUTOVER_CROSS_PLATFORM_UNSUPPORTED
      else case cv_currentOperation state of
        None \<Rightarrow> decideAppend state request
      | Some current \<Rightarrow>
          if \<not> cvo_provenLive current then decideUnproven state request current
          else if cvo_kind current \<in> set (LIVE_NOOP_KINDS (cvq_command request)) \<and> sameBusinessRequest current request
          then Inr (ReturnCurrent (cvo_operationVersion current))
          else decideAppend state request)"

fun_cases command_kindE: "operationKindForCommand c = k"

section \<open>Requests for the witnesses\<close>

definition demo_operation :: "operation_kind \<Rightarrow> bool \<Rightarrow> cutover_operation" where
  "demo_operation kind live = \<lparr>cvo_operationVersion = ''2'', cvo_predecessorOperationVersion = Some ''1'',
     cvo_kind = kind, cvo_runtimePhase = PH_enforce, cvo_bindingSha256 = ''b'',
     cvo_businessConfigurationSha256 = ''c'', cvo_fullConfigurationSha256 = ''f'', cvo_provenLive = live\<rparr>"

definition demo_request :: "cutover_command \<Rightarrow> cutover_request" where
  "demo_request command = \<lparr>cvq_command = command, cvq_platformKind = PK_helm, cvq_bindingSha256 = ''b'',
     cvq_businessConfigurationSha256 = ''c'', cvq_fullConfigurationSha256 = Some ''f''\<rparr>"

definition demo_state :: "database_state \<Rightarrow> cutover_operation option \<Rightarrow> cutover_state" where
  "demo_state database current = \<lparr>cv_databaseState = database, cv_platformKind = Some PK_helm,
     cv_currentOperation = current, cv_recordedExpand = None, cv_recoveryPredecessor = None\<rparr>"



text \<open>
  With no operation in flight, a new one is appended only from a database state that allows
  it: \<open>legacy_expand\<close> from a legacy database, \<open>fresh_enforce\<close> from a fresh one, \<open>enforce\<close> from an
  expanded or enforced one, and a roll back only from an enforced one to the recorded expand.
\<close>

lemma append_needs_state:
  assumes "decideTenantCutoverOperation state request = Inr (Append kind)"
    and "\<And>current. cv_currentOperation state = Some current \<Longrightarrow> cvo_provenLive current"
  shows "(case kind of
       legacy_expand \<Rightarrow> cv_databaseState state = DB_legacy
     | fresh_enforce \<Rightarrow> cv_databaseState state = DB_fresh
     | enforce \<Rightarrow> cv_databaseState state \<in> {DB_expanded, DB_enforced}
     | recover_runtime_after_enforce_failure \<Rightarrow> False
     | rollback_to_recorded_expand \<Rightarrow> cv_databaseState state = DB_enforced \<and>
         map_option rx_bindingSha256 (cv_recordedExpand state) = Some (cvq_bindingSha256 request))"
proof -
  have "decideAppend state request = Inr (Append kind)"
    using assms by (auto simp: decideTenantCutoverOperation_def split: if_splits option.splits)
  then show ?thesis
    by (cases "cvq_command request")
      (auto simp: decideAppend_def appendAllowed_def split: if_splits option.splits)
qed

end
