(* ===== verification/Async_JS.thy ===== *)
theory Async_JS
  imports Kernel_Prelude JS_Strings
begin

text \<open>
  Code that awaits calls to other services: a computation passes a world on and either returns or
  throws, and what it did before it threw stays done (nothing rolls back, unlike a transaction of
  the kernel). \<open>try .. catch .. finally\<close> is written out.
\<close>

named_theorems js

type_synonym ('w, 'e, 'a) js = "'w \<Rightarrow> ('e + 'a) \<times> 'w"

definition js_return :: "'a \<Rightarrow> ('w, 'e, 'a) js" where
  "js_return x = (\<lambda>w. (Inr x, w))"

definition js_throw :: "'e \<Rightarrow> ('w, 'e, 'a) js" where
  "js_throw e = (\<lambda>w. (Inl e, w))"

definition js_bind :: "('w, 'e, 'a) js \<Rightarrow> ('a \<Rightarrow> ('w, 'e, 'b) js) \<Rightarrow> ('w, 'e, 'b) js" where
  "js_bind m f = (\<lambda>w. case m w of (Inl e, w') \<Rightarrow> (Inl e, w') | (Inr x, w') \<Rightarrow> f x w')"

definition js_catch :: "('w, 'e, 'a) js \<Rightarrow> ('e \<Rightarrow> ('w, 'f, 'a) js) \<Rightarrow> ('w, 'f, 'a) js" where
  "js_catch m h = (\<lambda>w. case m w of (Inl e, w') \<Rightarrow> h e w' | (Inr x, w') \<Rightarrow> (Inr x, w'))"

text \<open>\<open>finally\<close> with a block that does not throw.\<close>

definition js_finally :: "('w, 'e, 'a) js \<Rightarrow> ('w \<Rightarrow> 'w) \<Rightarrow> ('w, 'e, 'a) js" where
  "js_finally m g = (\<lambda>w. case m w of (r, w') \<Rightarrow> (r, g w'))"

definition js_read :: "('w \<Rightarrow> 'a) \<Rightarrow> ('w, 'e, 'a) js" where
  "js_read q = (\<lambda>w. (Inr (q w), w))"

definition js_modify :: "('w \<Rightarrow> 'w) \<Rightarrow> ('w, 'e, unit) js" where
  "js_modify g = (\<lambda>w. (Inr (), g w))"

text \<open>\<open>js_step m w r w'\<close>: from the world \<open>w\<close> the computation gives the result \<open>r\<close> in the world \<open>w'\<close>.\<close>

abbreviation js_run :: "('w, 'e, 'a) js \<Rightarrow> 'w \<Rightarrow> 'e + 'a \<Rightarrow> 'w \<Rightarrow> bool" where
  "js_run m w r w' \<equiv> m w = (r, w')"

lemma js_return_iff [js]: "js_return x w = (r, w') \<longleftrightarrow> r = Inr x \<and> w' = w"
  by (auto simp: js_return_def)

lemma js_throw_iff [js]: "js_throw e w = (r, w') \<longleftrightarrow> r = Inl e \<and> w' = w"
  by (auto simp: js_throw_def)

lemma js_read_iff [js]: "js_read q w = (r, w') \<longleftrightarrow> r = Inr (q w) \<and> w' = w"
  by (auto simp: js_read_def)

lemma js_modify_iff [js]: "js_modify g w = (r, w') \<longleftrightarrow> r = Inr () \<and> w' = g w"
  by (auto simp: js_modify_def)

lemma js_bind_iff [js]: "js_bind m f w = (r, w') \<longleftrightarrow>
    (\<exists>e. m w = (Inl e, w') \<and> r = Inl e) \<or> (\<exists>x v. m w = (Inr x, v) \<and> f x v = (r, w'))"
  by (auto simp: js_bind_def split: prod.splits sum.splits)

lemma js_catch_iff [js]: "js_catch m h w = (r, w') \<longleftrightarrow>
    (\<exists>x. m w = (Inr x, w') \<and> r = Inr x) \<or> (\<exists>e v. m w = (Inl e, v) \<and> h e v = (r, w'))"
  by (auto simp: js_catch_def split: prod.splits sum.splits)

lemma js_finally_iff [js]: "js_finally m g w = (r, w') \<longleftrightarrow> (\<exists>v. m w = (r, v) \<and> w' = g v)"
  by (auto simp: js_finally_def split: prod.splits)

text \<open>
  Hoare triples with a postcondition for returning and one for throwing.
\<close>

definition js_triple :: "('w \<Rightarrow> bool) \<Rightarrow> ('w, 'e, 'a) js \<Rightarrow> ('a \<Rightarrow> 'w \<Rightarrow> bool) \<Rightarrow> ('e \<Rightarrow> 'w \<Rightarrow> bool) \<Rightarrow> bool" where
  "js_triple P m Q E \<longleftrightarrow> (\<forall>w r w'. P w \<longrightarrow> m w = (r, w') \<longrightarrow> (case r of Inr x \<Rightarrow> Q x w' | Inl e \<Rightarrow> E e w'))"

lemma js_tripleD: "js_triple P m Q E \<Longrightarrow> P w \<Longrightarrow> m w = (r, w') \<Longrightarrow> (case r of Inr x \<Rightarrow> Q x w' | Inl e \<Rightarrow> E e w')"
  by (simp add: js_triple_def)

lemma js_triple_return: "(\<And>w. P w \<Longrightarrow> Q x w) \<Longrightarrow> js_triple P (js_return x) Q E"
  by (simp add: js_triple_def js_return_def)

lemma js_triple_throw: "(\<And>w. P w \<Longrightarrow> E e w) \<Longrightarrow> js_triple P (js_throw e) Q E"
  by (simp add: js_triple_def js_throw_def)

lemma js_triple_bind:
  assumes "js_triple P m R E" and "\<And>x. js_triple (R x) (f x) Q E"
  shows "js_triple P (js_bind m f) Q E"
  using assms unfolding js_triple_def js_bind_def by (fastforce split: prod.splits sum.splits)

lemma js_triple_catch:
  assumes "js_triple P m Q R" and "\<And>e. js_triple (R e) (h e) Q E"
  shows "js_triple P (js_catch m h) Q E"
  using assms unfolding js_triple_def js_catch_def by (fastforce split: prod.splits sum.splits)

lemma js_triple_finally:
  assumes "js_triple P m (\<lambda>x w. Q x (g w)) (\<lambda>e w. E e (g w))"
  shows "js_triple P (js_finally m g) Q E"
  using assms unfolding js_triple_def js_finally_def by (fastforce split: prod.splits sum.splits)

lemma js_triple_weaken:
  assumes "js_triple P m Q E" and "\<And>w. P' w \<Longrightarrow> P w" and "\<And>x w. Q x w \<Longrightarrow> Q' x w" and "\<And>e w. E e w \<Longrightarrow> E' e w"
  shows "js_triple P' m Q' E'"
  using assms unfolding js_triple_def by (fastforce split: sum.splits)

lemma js_triple_read: "js_triple P (js_read q) (\<lambda>x w. P w \<and> x = q w) E"
  by (simp add: js_triple_def js_read_def)

lemma js_triple_modify: "js_triple (\<lambda>w. Q () (g w)) (js_modify g) Q E"
  by (simp add: js_triple_def js_modify_def)

end
