(* ===== verification/Capability_Tokens.thy ===== *)
theory Capability_Tokens
  imports Async_JS Kernel_Guards Reconcile_Policy
begin

text \<open>
  Capability tokens: the issuer, the verifier and the in-memory stores of
  \<open>packages/effect-broker/src/index.ts\<close>, and the durable verifier that
  \<open>packages/kernel/src/capabilityAuthority.ts\<close> builds over the kernel's guard tables. A token is
  \<open>header.payload.signature\<close>; the Ed25519 primitives and the JSON/base64url codec of the two parts
  are the fields of \<open>token_codec\<close>. The types of the TypeScript signatures are taken for granted.
\<close>

section \<open>Errors\<close>

datatype commit_state = Not_committed | Commit_unknown

datatype retry_mode = Retry_safe | Retry_query_first | Retry_never

record adapter_error =
  ax_message :: string
  ax_code :: string
  ax_commitState :: commit_state
  ax_retryMode :: retry_mode
  ax_details :: "json option"

definition ax_retryable :: "adapter_error \<Rightarrow> bool" where
  "ax_retryable e \<longleftrightarrow> ax_retryMode e = Retry_safe"

definition adapterErrorFromHttpStatus :: "int \<Rightarrow> string \<Rightarrow> string \<Rightarrow> adapter_error" where
  "adapterErrorFromHttpStatus status message code =
     (let err = (\<lambda>commit mode. \<lparr>ax_message = message, ax_code = code, ax_commitState = commit,
            ax_retryMode = mode, ax_details = Some (JObj [(''httpStatus'', JNum status)])\<rparr>) in
      if status = 401 \<or> status = 403 then err Not_committed Retry_never
      else if status = 429 \<or> 500 \<le> status then err Commit_unknown Retry_query_first
      else if 300 \<le> status \<and> status < 400 then err Commit_unknown Retry_query_first
      else err Not_committed Retry_never)"

datatype broker_error =
    EffectBrokerError (error_code: string) (error_details: "(string \<times> json) list")
  | AdapterExecutionError adapter_error
  | OtherError string

section \<open>Grants and identities\<close>

datatype decision_effect = D_allow | D_deny | D_require_approval

record approval_binding =
  ab_approvalId :: string
  ab_approverPrincipalId :: string
  ab_actionDigest :: string
  ab_policySnapshotId :: string
  ab_expiresAt :: iso_text

datatype approval_field = Approval_undefined | Approval_null | Approval approval_binding

record capability_grant =
  gr_jti :: string
  gr_tenantId :: string
  gr_runId :: string
  gr_stepId :: string
  gr_effectTypes :: "string list"
  gr_expiresAt :: iso_text
  gr_issuer :: "string option"
  gr_audience :: "string option"
  gr_issuedAt :: "iso_text option"
  gr_notBefore :: "iso_text option"
  gr_keyId :: "string option"
  gr_policySnapshotId :: "string option"
  gr_requestHash :: "string option"
  gr_actionDigest :: "string option"
  gr_workloadId :: "string option"
  gr_workerId :: "string option"
  gr_workerGeneration :: "int option"
  gr_nonce :: "string option"
  gr_policyDecisionId :: "string option"
  gr_authorizationId :: "string option"
  gr_requestId :: "string option"
  gr_adapterVersion :: "string option"
  gr_decisionEffect :: "decision_effect option"
  gr_approvalBinding :: approval_field

text \<open>The environment is \<open>process.env\<close>.\<close>

definition isProductionProfile :: "(string \<Rightarrow> string option) \<Rightarrow> bool" where
  "isProductionProfile env \<longleftrightarrow> env ''NODE_ENV'' = Some ''production'' \<or> env ''COMMANDER_ENV'' = Some ''production'' \<or>
     env ''COMMANDER_PROFILE'' = Some ''enterprise'' \<or> env ''COMMANDER_CELL_TIER'' = Some ''enterprise'' \<or>
     env ''COMMANDER_REQUIRE_WORKLOAD_BINDING'' = Some ''1''"


section \<open>Tokens\<close>

record token_header =
  th_alg :: string
  th_typ :: string
  th_kid :: string

text \<open>
  Decoding \<open>None\<close> is an exception of \<open>JSON.parse\<close>. A decoded payload comes with the answer of
  \<open>Array.isArray(grant.effectTypes)\<close>; a missing string is the empty one, which is as falsy.
\<close>

record token_codec =
  tk_encodeHeader :: "token_header \<Rightarrow> string"
  tk_decodeHeader :: "string \<Rightarrow> token_header option"
  tk_encodeGrant :: "capability_grant \<Rightarrow> string"
  tk_decodeGrant :: "string \<Rightarrow> (bool \<times> capability_grant) option"
  tk_sign :: "string \<Rightarrow> string \<Rightarrow> string"
  tk_checkSignature :: "string \<Rightarrow> string \<Rightarrow> string \<Rightarrow> bool"

record issuer_options =
  io_issuer :: string
  io_audience :: string
  io_keyId :: string
  io_privateKey :: string

text \<open>\<open>x ?? d\<close>\<close>

definition nullish :: "'a option \<Rightarrow> 'a \<Rightarrow> 'a" where
  "nullish x d = (case x of None \<Rightarrow> d | Some y \<Rightarrow> y)"

text \<open>The payload of a token: the issuer stamps itself, its audience, its key and the times.\<close>

definition issued_grant :: "issuer_options \<Rightarrow> time \<Rightarrow> string \<Rightarrow> capability_grant \<Rightarrow> capability_grant" where
  "issued_grant opts now uuid grant =
     (let issuedAt = nullish (gr_issuedAt grant) (Iso now);
          notBefore = nullish (gr_notBefore grant) issuedAt in
      grant\<lparr>gr_issuer := Some (io_issuer opts), gr_audience := Some (io_audience opts),
            gr_keyId := Some (io_keyId opts), gr_issuedAt := Some issuedAt, gr_notBefore := Some notBefore,
            gr_nonce := Some (nullish (gr_nonce grant) uuid)\<rparr>)"

definition issue :: "token_codec \<Rightarrow> issuer_options \<Rightarrow> time \<Rightarrow> string \<Rightarrow> capability_grant \<Rightarrow> string" where
  "issue codec opts now uuid grant =
     (let header = \<lparr>th_alg = ''EdDSA'', th_typ = ''CAP'', th_kid = io_keyId opts\<rparr>;
          signingInput = tk_encodeHeader codec header @ ''.'' @ tk_encodeGrant codec (issued_grant opts now uuid grant) in
      signingInput @ ''.'' @ tk_sign codec (io_privateKey opts) signingInput)"

text \<open>The stores of a verifier work on a state \<open>'s\<close>; each is optional.\<close>

record 's verifier_options =
  vo_issuer :: string
  vo_audience :: string
  vo_publicKeys :: "string \<Rightarrow> string option"
  vo_isRevoked :: "(string \<Rightarrow> string \<Rightarrow> ('s, broker_error, bool) js) option"
  vo_consume :: "(string \<Rightarrow> iso_text \<Rightarrow> ('s, broker_error, bool) js) option"
  vo_clockSkewMs :: int

text \<open>\<open>Date.parse\<close>: \<open>None\<close> is \<open>NaN\<close>.\<close>

fun date_parse :: "iso_text \<Rightarrow> time option" where
  "date_parse (Iso t) = Some t"
| "date_parse (NotIso _) = None"

definition part :: "nat \<Rightarrow> string list \<Rightarrow> string" where
  "part i ps = (if i < length ps then ps ! i else [])"

definition in_time :: "int \<Rightarrow> time \<Rightarrow> capability_grant \<Rightarrow> bool" where
  "in_time skew at grant \<longleftrightarrow>
     (case (date_parse (nullish (gr_issuedAt grant) (NotIso [])),
            date_parse (nullish (gr_notBefore grant) (nullish (gr_issuedAt grant) (NotIso []))),
            date_parse (gr_expiresAt grant)) of
        (Some issuedAt, Some notBefore, Some expiresAt) \<Rightarrow>
          \<not> (issuedAt - skew > at \<or> notBefore - skew > at \<or> expiresAt + skew \<le> at)
      | _ \<Rightarrow> False)"

definition wellformed_grant :: "capability_grant \<Rightarrow> bool" where
  "wellformed_grant grant \<longleftrightarrow> gr_jti grant \<noteq> [] \<and> gr_tenantId grant \<noteq> [] \<and> gr_runId grant \<noteq> [] \<and>
     gr_stepId grant \<noteq> []"

text \<open>The checks of \<open>verify\<close> that need no store.\<close>

definition check_token :: "token_codec \<Rightarrow> 's verifier_options \<Rightarrow> time \<Rightarrow> string \<Rightarrow> broker_error + capability_grant" where
  "check_token codec opts at token =
     (let parts = split_on (CHR ''.'') token; encodedHeader = part 0 parts; encodedPayload = part 1 parts;
          encodedSignature = part 2 parts; fail = (\<lambda>message. Inl (OtherError message)) in
      if encodedHeader = [] \<or> encodedPayload = [] \<or> encodedSignature = [] \<or> part 3 parts \<noteq> []
      then fail ''Malformed capability token''
      else case tk_decodeHeader codec encodedHeader of
        None \<Rightarrow> fail ''SyntaxError''
      | Some header \<Rightarrow>
          if th_alg header \<noteq> ''EdDSA'' \<or> th_typ header \<noteq> ''CAP'' \<or> th_kid header = []
          then fail ''Unsupported capability token''
          else case vo_publicKeys opts (th_kid header) of
            None \<Rightarrow> fail (''Unknown capability token key id: '' @ th_kid header)
          | Some key \<Rightarrow>
              if \<not> tk_checkSignature codec key (encodedHeader @ ''.'' @ encodedPayload) encodedSignature
              then fail ''Invalid capability token signature''
              else case tk_decodeGrant codec encodedPayload of
                None \<Rightarrow> fail ''SyntaxError''
              | Some (effectTypesIsArray, grant) \<Rightarrow>
                  if \<not> wellformed_grant grant \<or> \<not> effectTypesIsArray
                  then fail ''Malformed capability grant''
                  else if gr_issuer grant \<noteq> Some (vo_issuer opts) \<or> gr_audience grant \<noteq> Some (vo_audience opts) \<or>
                          gr_keyId grant \<noteq> Some (th_kid header)
                  then fail ''Capability token issuer/audience mismatch''
                  else if \<not> in_time (vo_clockSkewMs opts) at grant
                  then fail ''Expired or not-yet-valid capability grant''
                  else Inr grant)"

definition verify :: "(string \<Rightarrow> string option) \<Rightarrow> token_codec \<Rightarrow> 's verifier_options \<Rightarrow> time \<Rightarrow> string \<Rightarrow>
    ('s, broker_error, capability_grant) js" where
  "verify env codec opts at token =
     (case check_token codec opts at token of
        Inl e \<Rightarrow> js_throw e
      | Inr grant \<Rightarrow>
          js_bind (case vo_isRevoked opts of None \<Rightarrow> js_return False
             | Some isRevoked \<Rightarrow> isRevoked (gr_jti grant) (gr_tenantId grant)) (\<lambda>revoked.
          if revoked then js_throw (OtherError ''Capability grant revoked'')
          else
            let nonce = nullish (gr_nonce grant) [] in
            if isProductionProfile env \<and> nonce = []
            then js_throw (OtherError ''Capability grant rejected: replay nonce required in production profile'')
            else
              js_bind (if nonce = [] then js_return False else case vo_consume opts of None \<Rightarrow> js_return False
                 | Some consume \<Rightarrow> consume (gr_jti grant @ '':'' @ nonce) (gr_expiresAt grant)) (\<lambda>replayed.
              if replayed then js_throw (OtherError ''Capability grant replayed'') else js_return grant)))"

section \<open>The in-memory stores\<close>

text \<open>A stored expiry is what \<open>Date.parse\<close> gave: \<open>None\<close> is \<open>NaN\<close>, and \<open>NaN\<close> and 0 are falsy.\<close>

record memory_stores =
  ms_revoked :: "string \<Rightarrow> time option option"
  ms_consumed :: "string \<Rightarrow> time option option"

definition memory_revoke :: "string \<Rightarrow> iso_text \<Rightarrow> (memory_stores, broker_error, unit) js" where
  "memory_revoke jti expiresAt = js_modify (\<lambda>m. m\<lparr>ms_revoked := (ms_revoked m)(jti \<mapsto> date_parse expiresAt)\<rparr>)"

definition memory_isRevoked :: "time \<Rightarrow> string \<Rightarrow> string \<Rightarrow> (memory_stores, broker_error, bool) js" where
  "memory_isRevoked now jti tenantId = (\<lambda>m. case ms_revoked m jti of
      Some (Some expiry) \<Rightarrow>
        if expiry = 0 then (Inr False, m)
        else if expiry \<le> now then (Inr False, m\<lparr>ms_revoked := (ms_revoked m)(jti := None)\<rparr>)
        else (Inr True, m)
    | _ \<Rightarrow> (Inr False, m))"

definition memory_consume :: "time \<Rightarrow> string \<Rightarrow> iso_text \<Rightarrow> (memory_stores, broker_error, bool) js" where
  "memory_consume now key expiresAt = (\<lambda>m.
     let live = (\<lambda>k. case ms_consumed m k of
           Some (Some expiry) \<Rightarrow> if expiry \<le> now then None else Some (Some expiry) | entry \<Rightarrow> entry) in
     if live key \<noteq> None then (Inr True, m\<lparr>ms_consumed := live\<rparr>)
     else (Inr False, m\<lparr>ms_consumed := live(key \<mapsto> date_parse expiresAt)\<rparr>))"

section \<open>The durable verifier\<close>

text \<open>A transaction of the kernel, awaited: it commits or rejects.\<close>

definition js_transaction :: "('s, 'a) tx \<Rightarrow> ('s, broker_error, 'a) js" where
  "js_transaction m = (\<lambda>s. case m s of
     Inl (KernelInvariantError _) \<Rightarrow> (Inl (OtherError ''KernelInvariantError''), s)
   | Inl (JsError message) \<Rightarrow> (Inl (OtherError message), s)
   | Inl _ \<Rightarrow> (Inl (OtherError ''database error''), s)
   | Inr (x, s') \<Rightarrow> (Inr x, s'))"

definition kernel_isRevoked :: "kernel_env \<Rightarrow> string \<Rightarrow> string \<Rightarrow> (guard_db, broker_error, bool) js" where
  "kernel_isRevoked env jti tenantId =
     (if tenantId = [] then js_throw (OtherError ''CAPABILITY_REVOCATION_TENANT_REQUIRED'')
      else js_transaction (isCapabilityRevoked env jti tenantId))"

text \<open>\<open>expires_at\<close> is a \<open>timestamptz\<close>: the database refuses other text.\<close>

definition with_timestamp :: "iso_text \<Rightarrow> (time \<Rightarrow> ('s, broker_error, 'a) js) \<Rightarrow> ('s, broker_error, 'a) js" where
  "with_timestamp text f = (case date_parse text of
     None \<Rightarrow> js_throw (OtherError ''invalid input syntax for type timestamp with time zone'') | Some t \<Rightarrow> f t)"

text \<open>\<open>KernelCapabilityReplayStore.consume\<close>, where the key is split again at its colons.\<close>

definition kernel_consume :: "kernel_env \<Rightarrow> string \<Rightarrow> string \<Rightarrow> iso_text \<Rightarrow> (guard_db, broker_error, bool) js" where
  "kernel_consume env tenantId key expiresAt =
     (let parts = split_on (CHR '':'') key; jti = part 0 parts; nonce = part 1 parts in
      if jti = [] \<or> nonce = [] then js_throw (OtherError ''CAPABILITY_REPLAY_KEY_INVALID'')
      else with_timestamp expiresAt (\<lambda>t. js_transaction (consumeCapabilityReplay env tenantId jti nonce t)))"

definition kernel_revokeGrant :: "kernel_env \<Rightarrow> capability_grant \<Rightarrow> (guard_db, broker_error, unit) js" where
  "kernel_revokeGrant env grant = with_timestamp (gr_expiresAt grant) (\<lambda>t.
     js_transaction (revokeCapability env (gr_jti grant) (gr_tenantId grant) t None))"

definition isProductionOrEnterprise :: "(string \<Rightarrow> string option) \<Rightarrow> bool" where
  "isProductionOrEnterprise env \<longleftrightarrow> env ''NODE_ENV'' = Some ''production'' \<or> env ''COMMANDER_ENV'' = Some ''production'' \<or>
     env ''COMMANDER_PROFILE'' = Some ''enterprise'' \<or> env ''COMMANDER_CELL_TIER'' = Some ''enterprise'' \<or>
     env ''COMMANDER_REQUIRE_CAPABILITY_AUTHORITY'' = Some ''1''"

text \<open>The port of \<open>createDurableTokenPort\<close>: the replay is consumed under the tenant of the grant.\<close>

definition durable_options :: "kernel_env \<Rightarrow> guard_db verifier_options \<Rightarrow> guard_db verifier_options" where
  "durable_options kenv opts = opts\<lparr>vo_isRevoked := Some (kernel_isRevoked kenv), vo_consume := None\<rparr>"

definition durable_verify :: "(string \<Rightarrow> string option) \<Rightarrow> kernel_env \<Rightarrow> token_codec \<Rightarrow> guard_db verifier_options \<Rightarrow>
    time \<Rightarrow> string \<Rightarrow> (guard_db, broker_error, capability_grant) js" where
  "durable_verify env kenv codec opts at token =
     js_bind (verify env codec (durable_options kenv opts) at token) (\<lambda>grant.
     let nonce = nullish (gr_nonce grant) [] in
     if nonce = [] \<and> isProductionOrEnterprise env
     then js_throw (OtherError ''Capability grant rejected: replay nonce required in production profile'')
     else if nonce = [] then js_return grant
     else js_bind (with_timestamp (gr_expiresAt grant) (\<lambda>t. js_transaction
            (consumeCapabilityReplay kenv (gr_tenantId grant) (gr_jti grant) nonce t))) (\<lambda>replayed.
          if replayed then js_throw (OtherError ''Capability grant replayed'') else js_return grant))"

end
