(* ===== verification/Capability_Claims.thy ===== *)
theory Capability_Claims
  imports Capability_Tokens
begin

text \<open>
  What capability tokens guarantee: an issued token verifies back to its grant, a nonce is consumed
  once, a revocation refuses a grant until the grant expires. The replay stores, the kernel's table
  and the in-memory map, share the contract of the locale \<open>replay_store\<close>.
\<close>

section \<open>Replay stores\<close>

text \<open>
  \<open>marked s k t\<close>: in the state \<open>s\<close> the key \<open>k\<close> is known to be consumed at every instant before \<open>t\<close>.
  A call comes from a context, which has a clock.
\<close>

locale replay_store =
  fixes consume :: "'c \<Rightarrow> 'k \<Rightarrow> time \<Rightarrow> ('s, broker_error, bool) js"
    and clock :: "'c \<Rightarrow> time"
    and marked :: "'s \<Rightarrow> 'k \<Rightarrow> time \<Rightarrow> bool"
  assumes marks: "consume c k expiry s = (Inr False, s') \<Longrightarrow> marked s' k expiry"
    and keeps_marks: "marked s k t \<Longrightarrow> clock c < t \<Longrightarrow> consume c k' expiry s = (r, s') \<Longrightarrow> marked s' k t"
    and refuses: "marked s k t \<Longrightarrow> clock c < t \<Longrightarrow> consume c k expiry s \<noteq> (Inr False, s')"
begin

primrec consumes :: "('c \<times> 'k \<times> time) list \<Rightarrow> 's \<Rightarrow> 's" where
  "consumes [] s = s"
| "consumes (q # qs) s = consumes qs (snd (consume (fst q) (fst (snd q)) (snd (snd q)) s))"

lemma consumes_keep_marks:
  "marked s k t \<Longrightarrow> list_all (\<lambda>q. clock (fst q) < t) qs \<Longrightarrow> marked (consumes qs s) k t"
proof (induction qs arbitrary: s)
  case (Cons q qs)
  then have "marked (snd (consume (fst q) (fst (snd q)) (snd (snd q)) s)) k t"
    using keeps_marks [where c = "fst q" and k' = "fst (snd q)" and expiry = "snd (snd q)"] by (auto simp: prod_eq_iff)
  with Cons show ?case by simp
qed simp

lemma consumed_once:
  assumes "consume c k expiry s = (Inr False, s1)" and "list_all (\<lambda>q. clock (fst q) < expiry) qs"
    and "clock c' < expiry"
  shows "consume c' k expiry' (consumes qs s1) \<noteq> (Inr False, s2)"
  using refuses [OF consumes_keep_marks [OF marks [OF assms(1)] assms(2)] assms(3)] .

end

definition kernel_replay :: "kernel_env \<Rightarrow> string \<times> string \<times> string \<Rightarrow> time \<Rightarrow> (guard_db, broker_error, bool) js" where
  "kernel_replay env key expiry =
     js_transaction (consumeCapabilityReplay env (fst key) (fst (snd key)) (snd (snd key)) expiry)"

definition replay_recorded :: "guard_db \<Rightarrow> string \<times> string \<times> string \<Rightarrow> bool" where
  "replay_recorded db key \<longleftrightarrow> exists_row (\<lambda>r. rp_tenant_id r = fst key \<and> rp_jti r = fst (snd key) \<and>
     rp_nonce r = snd (snd key)) (g_replays db)"

text \<open>Rows of the kernel are never purged by a \<open>consume\<close>: the mark has no end.\<close>

lemma kernel_replay_iff:
  "kernel_replay env key expiry s = (r, s') \<longleftrightarrow>
     (if replay_recorded s key then r = Inr True \<and> s' = s
      else r = Inr False \<and> s' = s\<lparr>g_replays := g_replays s @ [\<lparr>rp_tenant_id = fst key, rp_jti = fst (snd key),
             rp_nonce = snd (snd key), rp_expires_at = expiry, rp_consumed_at = db_now env\<rparr>]\<rparr>)"
  by (auto simp: kernel_replay_def js_transaction_def consumeCapabilityReplay_def replay_recorded_def)

lemma kernel_replay_eq:
  "kernel_replay env key expiry s =
     (if replay_recorded s key then (Inr True, s)
      else (Inr False, s\<lparr>g_replays := g_replays s @ [\<lparr>rp_tenant_id = fst key, rp_jti = fst (snd key),
             rp_nonce = snd (snd key), rp_expires_at = expiry, rp_consumed_at = db_now env\<rparr>]\<rparr>))"
  using kernel_replay_iff [of env key expiry s] by simp

lemma replay_recorded_snoc [simp]:
  "replay_recorded (s\<lparr>g_replays := g_replays s @ [row]\<rparr>) key \<longleftrightarrow>
     replay_recorded s key \<or> key = (rp_tenant_id row, rp_jti row, rp_nonce row)"
  by (cases key) (auto simp: replay_recorded_def exists_row_def)

interpretation kernel_replays: replay_store kernel_replay db_now "\<lambda>db key t. replay_recorded db key"
  by unfold_locales (auto simp: kernel_replay_iff split: if_splits)

interpretation memory_replays: replay_store "\<lambda>now key expiry. memory_consume now key (Iso expiry)" "\<lambda>now. now"
    "\<lambda>m key t. \<exists>e. ms_consumed m key = Some (Some e) \<and> t \<le> e"
  by unfold_locales (auto simp: memory_consume_def Let_def split: if_splits option.splits)

section \<open>The durable verifier\<close>

definition replay_key :: "capability_grant \<Rightarrow> string \<times> string \<times> string" where
  "replay_key grant = (gr_tenantId grant, gr_jti grant, nullish (gr_nonce grant) [])"

definition revoked_at :: "kernel_env \<Rightarrow> capability_grant \<Rightarrow> guard_db \<Rightarrow> bool" where
  "revoked_at kenv grant db \<longleftrightarrow> exists_row (\<lambda>r. rv_jti r = gr_jti grant \<and> rv_tenant_id r = gr_tenantId grant \<and>
     db_now kenv < rv_expires_at r) (g_revocations db)"

lemma durable_options_sel [simp]:
  "vo_issuer (durable_options kenv opts) = vo_issuer opts"
  "vo_audience (durable_options kenv opts) = vo_audience opts"
  "vo_publicKeys (durable_options kenv opts) = vo_publicKeys opts"
  "vo_clockSkewMs (durable_options kenv opts) = vo_clockSkewMs opts"
  "vo_isRevoked (durable_options kenv opts) = Some (kernel_isRevoked kenv)"
  "vo_consume (durable_options kenv opts) = None"
  by (simp_all add: durable_options_def)

lemma check_token_durable [simp]:
  "check_token codec (durable_options kenv opts) at token = check_token codec opts at token"
  unfolding check_token_def durable_options_sel by (rule refl)

lemma kernel_isRevoked_eq:
  "gr_tenantId grant \<noteq> [] \<Longrightarrow>
     kernel_isRevoked kenv (gr_jti grant) (gr_tenantId grant) db = (Inr (revoked_at kenv grant db), db)"
  by (simp add: kernel_isRevoked_def js_transaction_def isCapabilityRevoked_def query_tx_def revoked_at_def
      del: exists_row_iff)

lemma check_token_Inr:
  assumes "check_token codec opts at token = Inr grant"
  shows "wellformed_grant grant" and "in_time (vo_clockSkewMs opts) at grant"
  using assms unfolding check_token_def by (auto simp: Let_def split: if_splits option.splits prod.splits)

lemma take_parts:
  "part 0 ps \<noteq> [] \<Longrightarrow> part 1 ps \<noteq> [] \<Longrightarrow> part 2 ps \<noteq> [] \<Longrightarrow> take 3 ps = [part 0 ps, part 1 ps, part 2 ps]"
  by (cases ps; cases "tl ps"; cases "tl (tl ps)") (auto simp: part_def)

lemma check_token_sound:
  assumes "check_token codec opts at token = Inr grant"
  shows "(\<exists>header payload signature h key. take 3 (split_on (CHR ''.'') token) = [header, payload, signature] \<and>
        tk_decodeHeader codec header = Some h \<and> vo_publicKeys opts (th_kid h) = Some key \<and>
        tk_checkSignature codec key (header @ ''.'' @ payload) signature \<and>
        tk_decodeGrant codec payload = Some (True, grant) \<and> gr_keyId grant = Some (th_kid h)) \<and>
    gr_issuer grant = Some (vo_issuer opts) \<and> gr_audience grant = Some (vo_audience opts) \<and>
    in_time (vo_clockSkewMs opts) at grant"
  using assms take_parts [of "split_on (CHR ''.'') token"]
  by (simp add: check_token_def Let_def split: if_splits option.splits prod.splits)

lemma durable_verify_checked:
  "durable_verify env kenv codec opts at token db = (Inr grant, db') \<Longrightarrow> check_token codec opts at token = Inr grant"
  by (auto simp: durable_verify_def verify_def js Let_def split: sum.splits if_splits)

lemma in_time_expiry: "in_time skew at grant \<Longrightarrow> \<exists>e. date_parse (gr_expiresAt grant) = Some e \<and> at < e + skew"
  by (auto simp: in_time_def split: option.splits)

text \<open>What a grant with a nonce meets after the checks that need no store.\<close>

lemma durable_verify_eq:
  assumes "check_token codec opts at token = Inr grant" and "nullish (gr_nonce grant) [] \<noteq> []"
  shows "durable_verify env kenv codec opts at token db =
    (if revoked_at kenv grant db then (Inl (OtherError ''Capability grant revoked''), db)
     else if replay_recorded db (replay_key grant) then (Inl (OtherError ''Capability grant replayed''), db)
     else (Inr grant, db\<lparr>g_replays := g_replays db @ [\<lparr>rp_tenant_id = gr_tenantId grant, rp_jti = gr_jti grant,
             rp_nonce = nullish (gr_nonce grant) [], rp_expires_at = the (date_parse (gr_expiresAt grant)),
             rp_consumed_at = db_now kenv\<rparr>]\<rparr>))"
proof -
  obtain e where e: "date_parse (gr_expiresAt grant) = Some e"
    using in_time_expiry check_token_Inr(2) [OF assms(1)] by blast
  have tenant: "gr_tenantId grant \<noteq> []"
    using check_token_Inr(1) [OF assms(1)] by (simp add: wellformed_grant_def)
  have consume: "js_transaction (consumeCapabilityReplay kenv (gr_tenantId grant) (gr_jti grant) nonce e) d =
      kernel_replay kenv (gr_tenantId grant, gr_jti grant, nonce) e d" for nonce d
    by (simp add: kernel_replay_def)
  show ?thesis
    using assms e
    by (simp add: durable_verify_def verify_def js_bind_def js_return_def js_throw_def with_timestamp_def consume Let_def
        kernel_isRevoked_eq [OF tenant] replay_key_def kernel_replay_eq)
qed

lemma durable_verify_not_revoked:
  assumes "durable_verify env kenv codec opts at token db = (Inr grant, db')"
  shows "\<not> revoked_at kenv grant db"
proof -
  have checked: "check_token codec opts at token = Inr grant" using assms by (rule durable_verify_checked)
  have "gr_tenantId grant \<noteq> []"
    using check_token_Inr(1) [OF checked] by (simp add: wellformed_grant_def)
  then show ?thesis
    using assms checked
    by (auto simp: durable_verify_def verify_def js kernel_isRevoked_eq Let_def simp del: exists_row_iff split: if_splits)
qed

lemma split_on_none: "sep \<notin> set w \<Longrightarrow> split_on sep w = [w]"
  by (induction w) auto

lemma check_token_issued:
  assumes "issued = issued_grant iopts now uuid grant"
    and "header = \<lparr>th_alg = ''EdDSA'', th_typ = ''CAP'', th_kid = io_keyId iopts\<rparr>"
    and "message = tk_encodeHeader codec header @ ''.'' @ tk_encodeGrant codec issued"
    and "tk_decodeHeader codec (tk_encodeHeader codec header) = Some header"
    and "tk_decodeGrant codec (tk_encodeGrant codec issued) = Some (True, issued)"
    and "CHR ''.'' \<notin> set (tk_encodeHeader codec header)" and "CHR ''.'' \<notin> set (tk_encodeGrant codec issued)"
    and "CHR ''.'' \<notin> set (tk_sign codec (io_privateKey iopts) message)"
    and "tk_encodeHeader codec header \<noteq> []" and "tk_encodeGrant codec issued \<noteq> []"
    and "tk_sign codec (io_privateKey iopts) message \<noteq> []"
    and "tk_checkSignature codec key message (tk_sign codec (io_privateKey iopts) message)"
    and "vo_publicKeys vopts (io_keyId iopts) = Some key" and "io_keyId iopts \<noteq> []"
    and "vo_issuer vopts = io_issuer iopts" and "vo_audience vopts = io_audience iopts"
    and "wellformed_grant grant" and "in_time (vo_clockSkewMs vopts) at issued"
  shows "check_token codec vopts at (issue codec iopts now uuid grant) = Inr issued"
proof -
  let ?signature = "tk_sign codec (io_privateKey iopts) message"
  have "issue codec iopts now uuid grant =
      tk_encodeHeader codec header @ CHR ''.'' # tk_encodeGrant codec issued @ CHR ''.'' # ?signature"
    using assms(1-3) by (simp add: issue_def Let_def)
  moreover have "split_on (CHR ''.'') ?signature = [?signature]"
    using assms(8) by (rule split_on_none)
  ultimately have parts: "split_on (CHR ''.'') (issue codec iopts now uuid grant) =
      [tk_encodeHeader codec header, tk_encodeGrant codec issued, ?signature]"
    using assms(6,7) by (simp add: split_on_append)
  have stamped: "gr_issuer issued = Some (io_issuer iopts)" "gr_audience issued = Some (io_audience iopts)"
    "gr_keyId issued = Some (io_keyId iopts)" "wellformed_grant issued"
    using assms(1,17) by (simp_all add: issued_grant_def Let_def wellformed_grant_def)
  show ?thesis
    using assms stamped by (simp add: check_token_def parts part_def Let_def)
qed



text \<open>A concrete grant, key pair and codec.\<close>

definition demo_grant :: capability_grant where
  "demo_grant = \<lparr>gr_jti = ''j'', gr_tenantId = ''t'', gr_runId = ''r'', gr_stepId = ''a'',
     gr_effectTypes = [''llm.chat''], gr_expiresAt = Iso 900, gr_issuer = None, gr_audience = None,
     gr_issuedAt = None, gr_notBefore = None, gr_keyId = None, gr_policySnapshotId = None,
     gr_requestHash = None, gr_actionDigest = None, gr_workloadId = None, gr_workerId = Some ''w'',
     gr_workerGeneration = Some 1, gr_nonce = None, gr_policyDecisionId = None,
     gr_authorizationId = None, gr_requestId = None, gr_adapterVersion = None,
     gr_decisionEffect = None, gr_approvalBinding = Approval_undefined\<rparr>"

definition demo_issuer :: issuer_options where
  "demo_issuer = \<lparr>io_issuer = ''i'', io_audience = ''broker'', io_keyId = ''k'', io_privateKey = ''key''\<rparr>"

definition stamped :: "string \<Rightarrow> capability_grant" where
  "stamped nonce = demo_grant\<lparr>gr_issuer := Some ''i'', gr_audience := Some ''broker'', gr_keyId := Some ''k'',
     gr_issuedAt := Some (Iso 500), gr_notBefore := Some (Iso 500), gr_nonce := Some nonce\<rparr>"

definition demo_codec :: "string \<Rightarrow> token_codec" where
  "demo_codec nonce = \<lparr>tk_encodeHeader = (\<lambda>h. ''H''),
     tk_decodeHeader = (\<lambda>s. if s = ''H'' then Some \<lparr>th_alg = ''EdDSA'', th_typ = ''CAP'', th_kid = ''k''\<rparr> else None),
     tk_encodeGrant = (\<lambda>g. ''P''),
     tk_decodeGrant = (\<lambda>s. if s = ''P'' then Some (True, stamped nonce) else None),
     tk_sign = (\<lambda>key message. key), tk_checkSignature = (\<lambda>key message signature. signature = key)\<rparr>"

definition demo_verifier :: "guard_db verifier_options" where
  "demo_verifier = \<lparr>vo_issuer = ''i'', vo_audience = ''broker'',
     vo_publicKeys = (\<lambda>kid. if kid = ''k'' then Some ''key'' else None), vo_isRevoked = None,
     vo_consume = None, vo_clockSkewMs = 100\<rparr>"

definition guard_env :: "time \<Rightarrow> kernel_env" where
  "guard_env now = \<lparr>client_now = now, db_now = now, uuid_at = (\<lambda>n. []), schedulerMode = True, sha256 = (\<lambda>s. s),
     enforceAtomicOperationsReadiness = False\<rparr>"

abbreviation demo_token :: string where
  "demo_token \<equiv> issue (demo_codec ''n'') demo_issuer 500 ''n'' demo_grant"

abbreviation used_guards :: guard_db where
  "used_guards \<equiv> empty_guards\<lparr>g_replays := [\<lparr>rp_tenant_id = ''t'', rp_jti = ''j'', rp_nonce = ''n'',
     rp_expires_at = 900, rp_consumed_at = 600\<rparr>]\<rparr>"

lemma demo_sel:
  "gr_jti demo_grant = ''j''" "gr_tenantId demo_grant = ''t''" "gr_runId demo_grant = ''r''" "gr_stepId demo_grant = ''a''"
  "gr_nonce demo_grant = None" "gr_expiresAt demo_grant = Iso 900"
  "io_issuer demo_issuer = ''i''" "io_audience demo_issuer = ''broker''" "io_keyId demo_issuer = ''k''"
  "io_privateKey demo_issuer = ''key''" "vo_issuer demo_verifier = ''i''" "vo_audience demo_verifier = ''broker''"
  "vo_publicKeys demo_verifier ''k'' = Some ''key''" "vo_clockSkewMs demo_verifier = 100"
  "tk_encodeHeader (demo_codec nonce) h = ''H''" "tk_encodeGrant (demo_codec nonce) g = ''P''"
  "tk_decodeHeader (demo_codec nonce) ''H'' = Some \<lparr>th_alg = ''EdDSA'', th_typ = ''CAP'', th_kid = ''k''\<rparr>"
  "tk_decodeGrant (demo_codec nonce) ''P'' = Some (True, stamped nonce)"
  "tk_sign (demo_codec nonce) key m = key" "tk_checkSignature (demo_codec nonce) key m key"
  by (simp_all add: demo_grant_def demo_issuer_def demo_verifier_def demo_codec_def)

lemma stamped_eq: "issued_grant demo_issuer 500 ''n'' demo_grant = stamped ''n''"
  by (simp add: issued_grant_def demo_issuer_def demo_grant_def stamped_def nullish_def Let_def)

lemma demo_token_eq: "demo_token = ''H.P.key''"
  by (simp add: issue_def demo_codec_def demo_issuer_def Let_def)

lemma stamped_sel:
  "gr_jti (stamped nonce) = ''j''" "gr_tenantId (stamped nonce) = ''t''" "gr_runId (stamped nonce) = ''r''"
  "gr_stepId (stamped nonce) = ''a''" "gr_issuer (stamped nonce) = Some ''i''"
  "gr_audience (stamped nonce) = Some ''broker''" "gr_keyId (stamped nonce) = Some ''k''"
  "gr_nonce (stamped nonce) = Some nonce" "gr_expiresAt (stamped nonce) = Iso 900"
  by (simp_all add: stamped_def demo_grant_def)

lemma demo_in_time: "in_time 100 at (stamped nonce) = (400 \<le> at \<and> at < 1000)"
  by (auto simp: in_time_def stamped_def demo_grant_def nullish_def)

lemma demo_checked: "400 \<le> at \<Longrightarrow> at < 1000 \<Longrightarrow> check_token (demo_codec nonce) demo_verifier at ''H.P.key'' = Inr (stamped nonce)"
  by (simp add: check_token_def part_def demo_codec_def demo_verifier_def demo_in_time wellformed_grant_def
      stamped_sel Let_def)


lemma demo_verified:
  "durable_verify Map.empty (guard_env 600) (demo_codec ''n'') demo_verifier 600 ''H.P.key'' empty_guards = (Inr (stamped ''n''), used_guards)"
  using durable_verify_eq [OF demo_checked [of 600 "''n''"], of Map.empty "guard_env 600" empty_guards]
  by (simp add: stamped_sel nullish_def replay_key_def revoked_at_def replay_recorded_def
      empty_guards_def guard_env_def)


section \<open>Histories of the durable verifier\<close>

datatype token_call =
    Verify_call "string \<Rightarrow> string option" kernel_env token_codec "guard_db verifier_options" time string
  | Revoke_call kernel_env capability_grant

primrec after_call :: "token_call \<Rightarrow> guard_db \<Rightarrow> guard_db" where
  "after_call (Verify_call env kenv codec vopts at token) db = snd (durable_verify env kenv codec vopts at token db)"
| "after_call (Revoke_call kenv grant) db = snd (kernel_revokeGrant kenv grant db)"

lemma verify_keeps_guards: "verify env codec (durable_options kenv opts) at token db = (r, db') \<Longrightarrow> db' = db"
  by (cases "check_token codec opts at token")
    (auto simp: verify_def js Let_def kernel_isRevoked_def js_transaction_def isCapabilityRevoked_def query_tx_def
      split: if_splits)

lemma durable_verify_replays:
  "durable_verify env kenv codec opts at token db = (r, db') \<Longrightarrow> \<exists>rows. g_replays db' = g_replays db @ rows"
proof -
  assume call: "durable_verify env kenv codec opts at token db = (r, db')"
  have consume: "js_transaction (consumeCapabilityReplay kenv ten jti nonce e) d = kernel_replay kenv (ten, jti, nonce) e d"
    for ten jti nonce e d by (simp add: kernel_replay_def)
  show ?thesis
    using call by (auto simp: durable_verify_def js Let_def consume with_timestamp_def kernel_replay_iff
        dest!: verify_keeps_guards split: if_splits option.splits)
qed

lemma revoke_keeps_replays: "kernel_revokeGrant kenv grant db = (r, db') \<Longrightarrow> g_replays db' = g_replays db"
  by (auto simp: kernel_revokeGrant_def with_timestamp_def js js_transaction_def revokeCapability_def modify_tx_def
      split: option.splits)

lemma after_call_keeps_recorded: "replay_recorded db key \<Longrightarrow> replay_recorded (after_call c db) key"
proof (cases c)
  case (Verify_call env kenv codec vopts at token)
  assume "replay_recorded db key"
  moreover obtain rows where "g_replays (after_call c db) = g_replays db @ rows"
    using Verify_call durable_verify_replays [of env kenv codec vopts at token db] by (metis after_call.simps(1) prod.collapse)
  ultimately show ?thesis by (auto simp: replay_recorded_def)
next
  case (Revoke_call kenv grant)
  assume "replay_recorded db key"
  then show ?thesis
    using Revoke_call revoke_keeps_replays [of kenv grant db] by (simp add: replay_recorded_def prod_eq_iff)
qed

lemma calls_keep_recorded: "replay_recorded db key \<Longrightarrow> replay_recorded (fold after_call calls db) key"
  by (induction calls arbitrary: db) (auto intro: after_call_keeps_recorded)

text \<open>
  C19: a capability is used once. After a grant with a nonce was verified, whatever calls of the
  durable verifier follow, on this process or another that shares the kernel's tables (verifications
  of any token, revocations, any clocks and configurations), no later verification returns a grant
  with the same tenant, identifier and nonce.
\<close>

theorem capability_is_used_once:
  assumes "durable_verify env kenv codec vopts at token db = (Inr grant, db1)"
    and "nullish (gr_nonce grant) [] \<noteq> []"
    and "durable_verify env' kenv' codec' vopts' at' token' (fold after_call calls db1) = (Inr grant', db2)"
  shows "replay_key grant' \<noteq> replay_key grant"
proof
  assume same: "replay_key grant' = replay_key grant"
  have "replay_recorded db1 (replay_key grant)"
    using durable_verify_eq [OF durable_verify_checked [OF assms(1)] assms(2), of env kenv db] assms(1)
    by (auto simp: replay_key_def split: if_splits)
  then have "replay_recorded (fold after_call calls db1) (replay_key grant')"
    using same by (simp add: calls_keep_recorded)
  moreover have "nullish (gr_nonce grant') [] \<noteq> []"
    using same assms(2) by (simp add: replay_key_def)
  ultimately show False
    using durable_verify_eq [OF durable_verify_checked [OF assms(3)], of env' kenv' "fold after_call calls db1"] assms(3)
    by (simp split: if_splits)
qed

lemma revoked_after_revoke:
  assumes "kernel_revokeGrant kenv grant db = (Inr (), db1)" and "date_parse (gr_expiresAt grant) = Some e"
  shows "db_now kenv' < e \<Longrightarrow> revoked_at kenv' grant db1"
    and "e \<le> db_now kenv' \<Longrightarrow> \<not> revoked_at kenv' grant db1"
proof -
  have db1: "g_revocations db1 = upsert_rows (\<lambda>r. rv_tenant_id r = gr_tenantId grant \<and> rv_jti r = gr_jti grant)
      \<lparr>rv_tenant_id = gr_tenantId grant, rv_jti = gr_jti grant, rv_revoked_at = db_now kenv, rv_expires_at = e,
       rv_reason = None\<rparr> (\<lambda>r. r\<lparr>rv_expires_at := e, rv_reason := None\<rparr>) (g_revocations db)"
    using assms by (auto simp: kernel_revokeGrant_def with_timestamp_def js_transaction_def revokeCapability_def modify_tx_def)
  show "db_now kenv' < e \<Longrightarrow> revoked_at kenv' grant db1"
    by (auto simp: revoked_at_def db1 upsert_rows_def set_update_where bex_Un split: if_splits)
  show "e \<le> db_now kenv' \<Longrightarrow> \<not> revoked_at kenv' grant db1"
    by (auto simp: revoked_at_def db1 upsert_rows_def set_update_where split: if_splits)
qed

text \<open>
  C22: how long a revocation holds. After \<open>revoke\<close> of a grant, a token of it (one that passes every
  check that needs no store) is refused as revoked while the database clock is before the grant's
  expiry. From the expiry on the revocation is no longer seen, although the verifier still accepts
  the grant for the clock skew it allows: there the token verifies if its nonce was not consumed.
\<close>

theorem revocation_holds_until_expiry:
  assumes "kernel_revokeGrant kenv grant db = (Inr (), db1)"
    and "check_token codec vopts at token = Inr grant" and "date_parse (gr_expiresAt grant) = Some e"
    and "nullish (gr_nonce grant) [] \<noteq> []" and "\<not> replay_recorded db (replay_key grant)"
  shows "fst (durable_verify env kenv' codec vopts at token db1) =
    (if db_now kenv' < e then Inl (OtherError ''Capability grant revoked'') else Inr grant)"
proof -
  have "\<not> replay_recorded db1 (replay_key grant)"
    using assms(5) revoke_keeps_replays [OF assms(1)] by (simp add: replay_recorded_def)
  then show ?thesis
    using durable_verify_eq [OF assms(2,4), of env kenv' db1] revoked_after_revoke [OF assms(1,3), of kenv'] by auto
qed

theorem capability_is_used_once_witness:
  "replay_key (stamped ''m'') \<noteq> replay_key (stamped ''n'')"
proof (rule capability_is_used_once [OF demo_verified, where calls = "[]"])
  show "nullish (gr_nonce (stamped ''n'')) [] \<noteq> []"
    by (simp add: stamped_sel nullish_def)
  show "durable_verify Map.empty (guard_env 600) (demo_codec ''m'') demo_verifier 600 ''H.P.key'' (fold after_call [] used_guards) =
      (Inr (stamped ''m''), used_guards\<lparr>g_replays := g_replays used_guards @ [\<lparr>rp_tenant_id = ''t'', rp_jti = ''j'',
        rp_nonce = ''m'', rp_expires_at = 900, rp_consumed_at = 600\<rparr>]\<rparr>)"
    using durable_verify_eq [OF demo_checked [of 600 "''m''"], of Map.empty "guard_env 600" used_guards]
    by (simp add: stamped_sel nullish_def replay_key_def revoked_at_def replay_recorded_def
        empty_guards_def guard_env_def)
qed

theorem revocation_holds_until_expiry_witness:
  "\<exists>db1. kernel_revokeGrant (guard_env 600) (stamped ''n'') empty_guards = (Inr (), db1) \<and>
     fst (durable_verify Map.empty (guard_env 700) (demo_codec ''n'') demo_verifier 700 ''H.P.key'' db1) =
       Inl (OtherError ''Capability grant revoked'') \<and>
     fst (durable_verify Map.empty (guard_env 950) (demo_codec ''n'') demo_verifier 950 ''H.P.key'' db1) =
       Inr (stamped ''n'')"
proof -
  obtain db1 where db1: "kernel_revokeGrant (guard_env 600) (stamped ''n'') empty_guards = (Inr (), db1)"
    by (simp add: kernel_revokeGrant_def with_timestamp_def js_transaction_def revokeCapability_def modify_tx_def stamped_sel)
  have nonce: "nullish (gr_nonce (stamped ''n'')) [] \<noteq> []"
    by (simp add: stamped_sel nullish_def)
  have fresh: "\<not> replay_recorded empty_guards (replay_key (stamped ''n''))"
    by (simp add: replay_recorded_def empty_guards_def)
  have expiry: "date_parse (gr_expiresAt (stamped ''n'')) = Some 900"
    by (simp add: stamped_sel)
  show ?thesis
    using db1 revocation_holds_until_expiry [OF db1 demo_checked expiry nonce fresh, of 700 Map.empty "guard_env 700"]
      revocation_holds_until_expiry [OF db1 demo_checked expiry nonce fresh, of 950 Map.empty "guard_env 950"]
    by (simp add: guard_env_def)
qed

end
