(* ===== verification/Effect_Broker.thy ===== *)
theory Effect_Broker
  imports Capability_Tokens Canonical_JSON Contracts Kernel_Steps
begin

text \<open>
  \<open>packages/effect-broker/src/index.ts\<close>: the only path for an external write. \<open>admit\<close> verifies the
  capability, asks the policy, checks allowlist, quota and readiness and writes the effect to the
  kernel's ledger; \<open>executeAdmitted\<close> runs it and settles its outcome. The verifier, the policy,
  the kernel, the executor and the audit sink are interfaces the broker is constructed with: they
  are the fields of \<open>broker_ports\<close>, any functions on an outside world, and each call is recorded in
  the trace. The types of the TypeScript signatures are taken for granted (a \<open>typeof\<close> check of a
  declared string holds).
\<close>

section \<open>Identities\<close>

record workload_binding =
  wb_tenantId :: string
  wb_runId :: string
  wb_stepId :: string
  wb_workloadId :: "string option"

record compensation_claim =
  cc_requestId :: string
  cc_requestClaimToken :: string
  cc_outboxMessageId :: string
  cc_outboxClaimToken :: string

record policy_decision =
  pd_effect :: decision_effect
  pd_decisionId :: string
  pd_reason :: string
  pd_policySnapshotId :: string

definition PERMIT_DEFAULT_DECISION_ID :: string where
  "PERMIT_DEFAULT_DECISION_ID = ''permit'' @ ''-default''"

definition DURABLE_CAPABILITY_STORES_REQUIRED :: string where
  "DURABLE_CAPABILITY_STORES_REQUIRED = ''DURABLE_CAPABILITY_STORES_REQUIRED''"

definition trimmed :: "string option \<Rightarrow> string" where
  "trimmed v = (case v of None \<Rightarrow> [] | Some s \<Rightarrow> trim s)"

definition bindingMismatch :: "capability_grant \<Rightarrow> workload_binding \<Rightarrow> string option" where
  "bindingMismatch grant binding =
     (if gr_tenantId grant \<noteq> wb_tenantId binding then Some ''TENANT_MISMATCH''
      else if gr_runId grant \<noteq> wb_runId binding then Some ''RUN_MISMATCH''
      else if gr_stepId grant \<noteq> wb_stepId binding then Some ''STEP_MISMATCH''
      else
        let grantWl = trimmed (gr_workloadId grant); bindWl = trimmed (wb_workloadId binding) in
        if grantWl = [] \<or> bindWl = [] \<or> grantWl \<noteq> bindWl then Some ''WORKLOAD_MISMATCH'' else None)"

definition workerFenceMismatch :: "capability_grant \<Rightarrow> lease_ref \<Rightarrow> string option" where
  "workerFenceMismatch grant lease =
     (if trimmed (gr_workerId grant) = [] then Some ''WORKER_FENCE_MISMATCH''
      else if trim (lr_workerId lease) = [] then Some ''WORKER_FENCE_MISMATCH''
      else if gr_workerId grant \<noteq> Some (lr_workerId lease) then Some ''WORKER_FENCE_MISMATCH''
      else if gr_workerGeneration grant = None then Some ''WORKER_FENCE_MISMATCH''
      else if lr_workerGeneration lease = None then Some ''WORKER_FENCE_MISMATCH''
      else if gr_workerGeneration grant \<noteq> lr_workerGeneration lease then Some ''WORKER_FENCE_MISMATCH''
      else None)"

definition approval_valid :: "capability_grant \<Rightarrow> time \<Rightarrow> bool" where
  "approval_valid grant now \<longleftrightarrow> (case gr_approvalBinding grant of
     Approval b \<Rightarrow> Some (ab_actionDigest b) = gr_actionDigest grant \<and>
       Some (ab_policySnapshotId b) = gr_policySnapshotId grant \<and>
       (case ab_expiresAt b of Iso t \<Rightarrow> now < t | NotIso _ \<Rightarrow> False)
   | _ \<Rightarrow> False)"

definition hasCompensationAdmissionBinding :: "capability_grant \<Rightarrow> time \<Rightarrow> bool" where
  "hasCompensationAdmissionBinding grant now \<longleftrightarrow>
     trimmed (gr_authorizationId grant) \<noteq> [] \<and> trimmed (gr_requestId grant) \<noteq> [] \<and>
     trimmed (gr_policyDecisionId grant) \<noteq> [] \<and> trimmed (gr_adapterVersion grant) \<noteq> [] \<and>
     ((gr_decisionEffect grant = Some D_allow \<and>
         (gr_approvalBinding grant = Approval_null \<or> approval_valid grant now)) \<or>
      (gr_decisionEffect grant = Some D_require_approval \<and> approval_valid grant now))"

section \<open>Hashes and keys\<close>

definition canonicalRequestHash :: "(string \<Rightarrow> string) \<Rightarrow> json \<Rightarrow> string" where
  "canonicalRequestHash hash value = hash (canonical value)"

definition deriveEffectIdempotencyKey ::
  "(string \<Rightarrow> string) \<Rightarrow> string \<Rightarrow> string \<Rightarrow> string \<Rightarrow> string \<Rightarrow> json \<Rightarrow> string" where
  "deriveEffectIdempotencyKey hash tenantId runId stepId effectId request =
     hash (canonical (JObj [(''v'', JNum 1), (''tenantId'', JStr tenantId), (''runId'', JStr runId),
       (''stepId'', JStr stepId), (''effectId'', JStr effectId), (''request'', request)]))"

text \<open>\<open>/^[\x21-\x7e]{1,256}$/\<close>, of effect identifiers and of idempotency keys.\<close>

definition printable_id :: "string \<Rightarrow> bool" where
  "printable_id s \<longleftrightarrow> 1 \<le> length s \<and> length s \<le> 256 \<and>
     list_all (\<lambda>c. 33 \<le> char_code c \<and> char_code c \<le> 126) s"

definition is_compensation :: "string \<Rightarrow> bool" where
  "is_compensation type \<longleftrightarrow> starts_with (to_lower type) ''compensate.''"


section \<open>The interfaces\<close>

record policy_input =
  pi_tenantId :: string
  pi_runId :: string
  pi_stepId :: string
  pi_type :: string
  pi_request :: json
  pi_token :: capability_grant

record compensation_binding =
  cb_authorizationId :: "string option"
  cb_requestId :: "string option"
  cb_claimToken :: string
  cb_claim :: "compensation_claim option"

record ledger_request =
  lq_id :: string
  lq_runId :: string
  lq_stepId :: string
  lq_tenantId :: string
  lq_type :: string
  lq_idempotencyKey :: string
  lq_policyDecisionId :: string
  lq_policySnapshotId :: string
  lq_actionDigest :: string
  lq_request :: json
  lq_lease :: lease_ref
  lq_compensationBinding :: "compensation_binding option"
  lq_actor :: string

record ledger_effect =
  le_id :: string
  le_state :: string
  le_response :: "json option"

record ledger_answer =
  la_admitted :: bool
  la_replayed :: bool
  la_reason :: "string option"
  la_effect :: "ledger_effect option"

record admitted_entry =
  ad_effectId :: string
  ad_actionDigest :: string
  ad_grant :: capability_grant
  ad_decision :: policy_decision
  ad_type :: string
  ad_idempotencyKey :: string
  ad_request :: json
  ad_lease :: lease_ref
  ad_actor :: string
  ad_kernelEffectId :: string
  ad_replayed :: bool
  ad_effectState :: string
  ad_cachedResponse :: "json option"
  ad_compensationClaim :: "compensation_claim option"

record audit_event =
  au_type :: string
  au_severity :: string
  au_tenantId :: string
  au_runId :: string
  au_stepId :: string
  au_at :: time
  au_details :: "(string \<times> json) list"

record effect_error =
  ee_code :: string
  ee_message :: string
  ee_retryable :: bool
  ee_details :: "json option"

text \<open>What a terminal write records: its evidence is built and signed by another module.\<close>

datatype terminal_state = T_completed json | T_failed effect_error

text \<open>
  The outcome of \<open>Promise.race([execution, hardTimeout])\<close>: the executor's response, its error, or
  that the hard timeout came first.
\<close>

datatype race_outcome = Responded json | Raised broker_error | Hard_timeout

text \<open>An optional method is \<open>None\<close> where the interface leaves it out.\<close>

record ('w, 'ev) broker_ports =
  bp_now :: "'w \<Rightarrow> time"
  bp_hash :: "string \<Rightarrow> string"
  bp_verify :: "string \<Rightarrow> ('w, broker_error, capability_grant) js"
  bp_evaluate :: "policy_input \<Rightarrow> ('w, broker_error, policy_decision) js"
  bp_createApproval :: "(policy_input \<Rightarrow> string \<Rightarrow> string \<Rightarrow> ('w, broker_error, string) js) option"
  bp_isActionAllowed :: "(string \<Rightarrow> string \<Rightarrow> ('w, broker_error, bool) js) option"
  bp_getQuota :: "(string \<Rightarrow> string \<Rightarrow> ('w, broker_error, int) js) option"
  bp_incrementQuota :: "(string \<Rightarrow> string \<Rightarrow> ('w, broker_error, int) js) option"
  bp_getOperationsReadiness :: "(string \<Rightarrow> ('w, broker_error, bool \<times> json) js) option"
  bp_admitEffect :: "ledger_request \<Rightarrow> ('w, broker_error, ledger_answer) js"
  bp_completeEffect :: "admitted_entry \<Rightarrow> json \<Rightarrow> ('w, broker_error, bool) js"
  bp_completeWithEvidence :: "(admitted_entry \<Rightarrow> json \<Rightarrow> 'ev \<Rightarrow> ('w, broker_error, bool) js) option"
  bp_completeCompensation :: "(admitted_entry \<Rightarrow> compensation_claim \<Rightarrow> json \<Rightarrow> 'ev \<Rightarrow> ('w, broker_error, bool) js) option"
  bp_failEffect :: "(admitted_entry \<Rightarrow> effect_error \<Rightarrow> ('w, broker_error, bool) js) option"
  bp_failWithEvidence :: "(admitted_entry \<Rightarrow> effect_error \<Rightarrow> 'ev \<Rightarrow> ('w, broker_error, bool) js) option"
  bp_failCompensation :: "(admitted_entry \<Rightarrow> compensation_claim \<Rightarrow> effect_error \<Rightarrow> 'ev \<Rightarrow> ('w, broker_error, bool) js) option"
  bp_compensationTerminalEvidenceRequired :: bool
  bp_markEffectCompletionUnknown :: "(string \<Rightarrow> string \<Rightarrow> string \<Rightarrow> string \<Rightarrow> lease_ref \<Rightarrow> ('w, broker_error, unit) js) option"
  bp_buildEvidence :: "admitted_entry \<Rightarrow> terminal_state \<Rightarrow> ('w, broker_error, 'ev) js"
  bp_execute :: "admitted_entry \<Rightarrow> int \<Rightarrow> 'w \<Rightarrow> race_outcome \<times> 'w"
  bp_audit :: "audit_event \<Rightarrow> ('w, broker_error, unit) js"

datatype key_policy = Derive_key | Caller_key

record broker_options =
  bo_audience :: string
  bo_requireRequestBinding :: bool
  bo_maxCountPerDay :: "int option"
  bo_localWorkerId :: "string option"
  bo_localWorkerGeneration :: "int option"
  bo_requireOperationsReadiness :: bool
  bo_idempotencyKeyPolicy :: key_policy
  bo_evidenceSigner :: bool
  bo_production :: bool

section \<open>The world of a broker\<close>

text \<open>
  The process-local admission store, the calls made so far, and the outside.
\<close>

datatype broker_call =
    Call_verify | Call_evaluate | Call_approval | Call_allowlist | Call_quota | Call_readiness
  | Call_admit ledger_request | Call_charge | Call_park string | Call_execute string
  | Call_complete string | Call_fail string | Call_evidence | Call_audit string

record 'w broker_world =
  bw_admissions :: "string \<Rightarrow> admitted_entry option"
  bw_trace :: "broker_call list"
  bw_outside :: 'w

type_synonym ('w, 'a) broker = "('w broker_world, broker_error, 'a) js"

definition call :: "broker_call \<Rightarrow> ('w, broker_error, 'a) js \<Rightarrow> ('w, 'a) broker" where
  "call c port = (\<lambda>w. case port (bw_outside w) of (r, outside) \<Rightarrow>
     (r, w\<lparr>bw_trace := bw_trace w @ [c], bw_outside := outside\<rparr>))"

definition now_of :: "('w, 'ev) broker_ports \<Rightarrow> ('w, time) broker" where
  "now_of ports = js_read (\<lambda>w. bp_now ports (bw_outside w))"

section \<open>Admission\<close>

record admit_input =
  ai_effectId :: string
  ai_token :: string
  ai_type :: string
  ai_request :: json
  ai_idempotencyKey :: string
  ai_lease :: lease_ref
  ai_actor :: string
  ai_workloadBinding :: "workload_binding option"
  ai_compensationClaim :: "compensation_claim option"

record admission_result =
  ar_admitted :: bool
  ar_effectId :: string
  ar_replayed :: bool
  ar_cachedResponse :: "json option"
  ar_decisionId :: string
  ar_policySnapshotId :: string
  ar_reason :: "string option"
  ar_details :: "(string \<times> json) list"

definition rejectAdmit ::
  "('w, 'ev) broker_ports \<Rightarrow> capability_grant \<Rightarrow> string \<Rightarrow> (string \<times> json) list \<Rightarrow> ('w, admission_result) broker" where
  "rejectAdmit ports grant code details =
     js_bind (now_of ports) (\<lambda>at.
     js_bind (call (Call_audit ''effect.rejected'') (bp_audit ports
       \<lparr>au_type = ''effect.rejected'', au_severity = ''high'', au_tenantId = gr_tenantId grant,
        au_runId = gr_runId grant, au_stepId = gr_stepId grant, au_at = at,
        au_details = (''code'', JStr code) # details\<rparr>)) (\<lambda>_.
     js_return \<lparr>ar_admitted = False, ar_effectId = [], ar_replayed = False, ar_cachedResponse = None,
       ar_decisionId = [], ar_policySnapshotId = [], ar_reason = Some code,
       ar_details = (''code'', JStr code) # details\<rparr>))"

definition jopt :: "string \<Rightarrow> string option \<Rightarrow> (string \<times> json) list" where
  "jopt k v = (case v of None \<Rightarrow> [] | Some s \<Rightarrow> [(k, JStr s)])"

definition jopt_int :: "string \<Rightarrow> int option \<Rightarrow> (string \<times> json) list" where
  "jopt_int k v = (case v of None \<Rightarrow> [] | Some n \<Rightarrow> [(k, JNum n)])"

definition binding_json :: "workload_binding \<Rightarrow> json" where
  "binding_json b = JObj ([(''tenantId'', JStr (wb_tenantId b)), (''runId'', JStr (wb_runId b)),
     (''stepId'', JStr (wb_stepId b))] @ jopt ''workloadId'' (wb_workloadId b))"

text \<open>The checks of \<open>admit\<close> before the policy is asked: the first that fails, with its details.\<close>

definition identity_error ::
  "('w, 'ev) broker_ports \<Rightarrow> broker_options \<Rightarrow> capability_grant \<Rightarrow> admit_input \<Rightarrow> (string \<times> (string \<times> json) list) option" where
  "identity_error ports opts grant input =
     (let here = [(''effectId'', JStr (ai_effectId input))] in
      if \<not> printable_id (ai_effectId input) \<or> gr_tenantId grant = [] \<or> gr_runId grant = [] \<or> gr_stepId grant = []
      then Some (''INVALID_EFFECT_IDENTITY'', here)
      else case bo_idempotencyKeyPolicy opts of
        Derive_key \<Rightarrow>
          if ai_idempotencyKey input \<noteq> deriveEffectIdempotencyKey (bp_hash ports) (gr_tenantId grant)
               (gr_runId grant) (gr_stepId grant) (ai_effectId input) (ai_request input)
          then Some (''IDEMPOTENCY_KEY_MISMATCH'', here) else None
      | Caller_key \<Rightarrow>
          if \<not> printable_id (ai_idempotencyKey input) then Some (''INVALID_IDEMPOTENCY_KEY'', here) else None)"

definition binding_error ::
  "broker_options \<Rightarrow> capability_grant \<Rightarrow> admit_input \<Rightarrow> (string \<times> (string \<times> json) list) option" where
  "binding_error opts grant input =
     (if bo_production opts \<and> ai_workloadBinding input = None then Some (''WORKLOAD_BINDING_REQUIRED'', [])
      else
        let mismatch = (case ai_workloadBinding input of None \<Rightarrow> None
              | Some b \<Rightarrow> map_option (\<lambda>code. (code, [(''binding'', binding_json b)])) (bindingMismatch grant b)) in
        if mismatch \<noteq> None then mismatch
        else map_option (\<lambda>code. (code,
            jopt ''grantWorkerId'' (gr_workerId grant) @ jopt_int ''grantWorkerGeneration'' (gr_workerGeneration grant) @
            [(''leaseWorkerId'', JStr (lr_workerId (ai_lease input)))] @
            jopt_int ''leaseWorkerGeneration'' (lr_workerGeneration (ai_lease input))))
          (workerFenceMismatch grant (ai_lease input)))"

definition capability_error ::
  "('w, 'ev) broker_ports \<Rightarrow> broker_options \<Rightarrow> capability_grant \<Rightarrow> admit_input \<Rightarrow> (string \<times> (string \<times> json) list) option" where
  "capability_error ports opts grant input =
     (if gr_audience grant \<noteq> Some (bo_audience opts) then Some (''AUDIENCE_MISMATCH'', [])
      else if ai_type input \<notin> set (gr_effectTypes grant)
      then Some (''CAPABILITY_DENIED'', [(''type'', JStr (ai_type input))])
      else if bo_requireRequestBinding opts \<and>
              gr_requestHash grant \<noteq> Some (canonicalRequestHash (bp_hash ports) (ai_request input))
      then Some (''REQUEST_HASH_MISMATCH'', []) else None)"

text \<open>A check that reports the first rejection, if any; \<open>or_reject\<close> is the early return.\<close>

type_synonym rejection = "(string \<times> (string \<times> json) list) option"

definition or_reject ::
  "('w, 'ev) broker_ports \<Rightarrow> capability_grant \<Rightarrow> ('w, rejection) broker \<Rightarrow> ('w, admission_result) broker \<Rightarrow> ('w, admission_result) broker" where
  "or_reject ports grant check k = js_bind check (\<lambda>rejected. case rejected of
     Some (code, details) \<Rightarrow> rejectAdmit ports grant code details | None \<Rightarrow> k)"

definition policy_request :: "capability_grant \<Rightarrow> admit_input \<Rightarrow> policy_input" where
  "policy_request grant input = \<lparr>pi_tenantId = gr_tenantId grant, pi_runId = gr_runId grant,
     pi_stepId = gr_stepId grant, pi_type = ai_type input, pi_request = ai_request input, pi_token = grant\<rparr>"

text \<open>What follows from the answer of the policy.\<close>

definition decision_check ::
  "('w, 'ev) broker_ports \<Rightarrow> capability_grant \<Rightarrow> admit_input \<Rightarrow> policy_decision \<Rightarrow> ('w, rejection) broker" where
  "decision_check ports grant input decision =
     (let decisionId = (''decisionId'', JStr (pd_decisionId decision)) in
      if pd_decisionId decision = PERMIT_DEFAULT_DECISION_ID
      then js_return (Some (''PERMIT_ALL_FORBIDDEN'', [decisionId]))
      else if nullish (gr_policySnapshotId grant) [] \<noteq> [] \<and> gr_policySnapshotId grant \<noteq> Some (pd_policySnapshotId decision)
      then js_return (Some (''POLICY_SNAPSHOT_MISMATCH'',
        jopt ''expected'' (gr_policySnapshotId grant) @ [(''actual'', JStr (pd_policySnapshotId decision))]))
      else case pd_effect decision of
        D_require_approval \<Rightarrow>
          (case bp_createApproval ports of
             None \<Rightarrow> js_return (Some (''APPROVAL_REQUIRED'', [decisionId]))
           | Some create \<Rightarrow>
               js_bind (call Call_approval (create (policy_request grant input) (pd_decisionId decision) (ai_actor input)))
                 (\<lambda>interactionId. js_return (Some (''APPROVAL_REQUIRED'', [decisionId, (''interactionId'', JStr interactionId)]))))
      | D_deny \<Rightarrow> js_return (Some (''POLICY_DENIED'', [decisionId, (''reason'', JStr (pd_reason decision))]))
      | D_allow \<Rightarrow> js_return None)"

definition allowlist_check ::
  "('w, 'ev) broker_ports \<Rightarrow> capability_grant \<Rightarrow> admit_input \<Rightarrow> policy_decision \<Rightarrow> ('w, rejection) broker" where
  "allowlist_check ports grant input decision = (case bp_isActionAllowed ports of
     None \<Rightarrow> js_return None
   | Some allowed_port \<Rightarrow>
       js_bind (call Call_allowlist (allowed_port (gr_tenantId grant) (ai_type input))) (\<lambda>allowed.
       js_return (if allowed then None
         else Some (''ACTION_NOT_ALLOWLISTED'', [(''type'', JStr (ai_type input)), (''decisionId'', JStr (pd_decisionId decision))]))))"

text \<open>\<open>input.type.split('.')[0] || input.type\<close>\<close>

definition action_class :: "string \<Rightarrow> string" where
  "action_class type = (let first = hd (split_on (CHR ''.'') type) in if first = [] then type else first)"

definition quota_details :: "string \<Rightarrow> int \<Rightarrow> int \<Rightarrow> (string \<times> json) list" where
  "quota_details actionClass used limit =
     [(''actionClass'', JStr actionClass), (''countUsed'', JNum used), (''limit'', JNum limit)]"

definition quota_check ::
  "('w, 'ev) broker_ports \<Rightarrow> broker_options \<Rightarrow> capability_grant \<Rightarrow> admit_input \<Rightarrow> ('w, rejection) broker" where
  "quota_check ports opts grant input =
     (case (bo_maxCountPerDay opts, bp_getQuota ports) of
        (Some maxCount, Some quota_port) \<Rightarrow>
          js_bind (call Call_quota (quota_port (gr_tenantId grant) (action_class (ai_type input)))) (\<lambda>used.
          js_return (if maxCount \<le> used
            then Some (''QUOTA_EXCEEDED'', quota_details (action_class (ai_type input)) used maxCount) else None))
      | _ \<Rightarrow> js_return None)"

definition digest_check :: "('w, 'ev) broker_ports \<Rightarrow> capability_grant \<Rightarrow> admit_input \<Rightarrow> ('w, rejection) broker" where
  "digest_check ports grant input =
     js_return (if isClassAEffectType (ai_type input) \<and> trimmed (gr_actionDigest grant) = []
       then Some (''ACTION_DIGEST_REQUIRED'', [(''type'', JStr (ai_type input))]) else None)"

definition claim_matches :: "capability_grant \<Rightarrow> admit_input \<Rightarrow> bool" where
  "claim_matches grant input \<longleftrightarrow> (case ai_compensationClaim input of None \<Rightarrow> False
     | Some c \<Rightarrow> Some (cc_requestId c) = gr_requestId grant \<and> cc_requestClaimToken c = lr_token (ai_lease input) \<and>
         cc_outboxClaimToken c = lr_token (ai_lease input) \<and> cc_outboxMessageId c \<noteq> [])"

definition compensation_check ::
  "('w, 'ev) broker_ports \<Rightarrow> capability_grant \<Rightarrow> admit_input \<Rightarrow> ('w, rejection) broker" where
  "compensation_check ports grant input =
     (if \<not> is_compensation (ai_type input) then js_return None
      else js_bind (now_of ports) (\<lambda>now. js_return
        (if \<not> hasCompensationAdmissionBinding grant now then Some (''COMPENSATION_BINDING_REQUIRED'', [])
         else if bp_compensationTerminalEvidenceRequired ports \<and> \<not> claim_matches grant input
         then Some (''COMPENSATION_CLAIM_BINDING_REQUIRED'', []) else None)))"

text \<open>The constructor refuses \<open>requireOperationsReadiness\<close> without the port.\<close>

definition readiness_check ::
  "('w, 'ev) broker_ports \<Rightarrow> broker_options \<Rightarrow> capability_grant \<Rightarrow> admit_input \<Rightarrow> ('w, rejection) broker" where
  "readiness_check ports opts grant input =
     (if bo_requireOperationsReadiness opts \<and> isClassAEffectType (ai_type input) \<and> \<not> is_compensation (ai_type input)
      then js_catch
        (js_bind (case bp_getOperationsReadiness ports of
             None \<Rightarrow> js_throw (OtherError ''getOperationsReadiness is not a function'')
           | Some ready_port \<Rightarrow> call Call_readiness (ready_port (gr_tenantId grant))) (\<lambda>answer.
         js_return (if fst answer then None else Some (''OPERATIONS_NOT_READY'', [(''readiness'', snd answer)]))))
        (\<lambda>_. js_return (Some (''OPERATIONS_READINESS_CHECK_FAILED'', [])))
      else js_return None)"

definition action_digest :: "('w, 'ev) broker_ports \<Rightarrow> capability_grant \<Rightarrow> admit_input \<Rightarrow> string" where
  "action_digest ports grant input =
     (if isClassAEffectType (ai_type input) then nullish (gr_actionDigest grant) []
      else nullish (gr_actionDigest grant) (canonicalRequestHash (bp_hash ports) (ai_request input)))"

definition ledger_request_of ::
  "('w, 'ev) broker_ports \<Rightarrow> capability_grant \<Rightarrow> policy_decision \<Rightarrow> admit_input \<Rightarrow> ledger_request" where
  "ledger_request_of ports grant decision input =
     \<lparr>lq_id = ai_effectId input, lq_runId = gr_runId grant, lq_stepId = gr_stepId grant,
      lq_tenantId = gr_tenantId grant, lq_type = ai_type input, lq_idempotencyKey = ai_idempotencyKey input,
      lq_policyDecisionId = pd_decisionId decision, lq_policySnapshotId = pd_policySnapshotId decision,
      lq_actionDigest = action_digest ports grant input, lq_request = ai_request input, lq_lease = ai_lease input,
      lq_compensationBinding = (if is_compensation (ai_type input)
        then Some \<lparr>cb_authorizationId = gr_authorizationId grant, cb_requestId = gr_requestId grant,
          cb_claimToken = lr_token (ai_lease input), cb_claim = ai_compensationClaim input\<rparr> else None),
      lq_actor = ai_actor input\<rparr>"

text \<open>A new admission is charged; one that exceeds the quota is parked and refused.\<close>

definition charge_check ::
  "('w, 'ev) broker_ports \<Rightarrow> broker_options \<Rightarrow> capability_grant \<Rightarrow> admit_input \<Rightarrow> ledger_effect \<Rightarrow> bool \<Rightarrow> ('w, rejection) broker" where
  "charge_check ports opts grant input effect replayed =
     (case bp_incrementQuota ports of
        None \<Rightarrow> js_return None
      | Some charge_port \<Rightarrow>
          if replayed then js_return None
          else js_bind (call Call_charge (charge_port (gr_tenantId grant) (action_class (ai_type input)))) (\<lambda>used.
            case bo_maxCountPerDay opts of
              None \<Rightarrow> js_return None
            | Some maxCount \<Rightarrow>
                if used \<le> maxCount then js_return None
                else js_bind (case bp_markEffectCompletionUnknown ports of
                    None \<Rightarrow> js_return ()
                  | Some park \<Rightarrow> call (Call_park (le_id effect)) (park (le_id effect) (gr_tenantId grant)
                      ''QUOTA_EXCEEDED after admission (concurrent race)'' (ai_actor input) (ai_lease input))) (\<lambda>_.
                  js_return (Some (''QUOTA_EXCEEDED'', quota_details (action_class (ai_type input)) used maxCount)))))"

definition admitted_entry_of ::
  "('w, 'ev) broker_ports \<Rightarrow> capability_grant \<Rightarrow> policy_decision \<Rightarrow> admit_input \<Rightarrow> ledger_effect \<Rightarrow> bool \<Rightarrow> admitted_entry" where
  "admitted_entry_of ports grant decision input effect replayed =
     \<lparr>ad_effectId = ai_effectId input, ad_actionDigest = action_digest ports grant input, ad_grant = grant,
      ad_decision = decision, ad_type = ai_type input, ad_idempotencyKey = ai_idempotencyKey input,
      ad_request = ai_request input, ad_lease = ai_lease input, ad_actor = ai_actor input,
      ad_kernelEffectId = le_id effect, ad_replayed = replayed, ad_effectState = le_state effect,
      ad_cachedResponse = (if replayed \<and> le_state effect = ''COMPLETED'' then le_response effect else None),
      ad_compensationClaim = ai_compensationClaim input\<rparr>"

definition keep_admission :: "string \<Rightarrow> admitted_entry \<Rightarrow> ('w, unit) broker" where
  "keep_admission effectId entry = js_modify (\<lambda>w. w\<lparr>bw_admissions := (bw_admissions w)(effectId \<mapsto> entry)\<rparr>)"

definition hand_out ::
  "('w, 'ev) broker_ports \<Rightarrow> broker_options \<Rightarrow> capability_grant \<Rightarrow> policy_decision \<Rightarrow> admit_input \<Rightarrow> ledger_answer \<Rightarrow>
     ('w, admission_result) broker" where
  "hand_out ports opts grant decision input answer =
     (case (la_admitted answer, la_effect answer) of
        (True, Some effect) \<Rightarrow>
          or_reject ports grant (charge_check ports opts grant input effect (la_replayed answer))
            (let entry = admitted_entry_of ports grant decision input effect (la_replayed answer) in
             js_bind (keep_admission (ai_effectId input) entry) (\<lambda>_.
             js_return \<lparr>ar_admitted = True, ar_effectId = le_id effect, ar_replayed = la_replayed answer,
               ar_cachedResponse = ad_cachedResponse entry, ar_decisionId = pd_decisionId decision,
               ar_policySnapshotId = pd_policySnapshotId decision, ar_reason = None, ar_details = []\<rparr>))
      | _ \<Rightarrow> rejectAdmit ports grant ''EFFECT_ADMISSION_REJECTED''
               [(''reason'', JStr (nullish (la_reason answer) ''unknown''))])"

text \<open>\<open>admit\<close>, in three parts: up to the capability, up to the policy's answer, and after it.\<close>

definition admit_decided ::
  "('w, 'ev) broker_ports \<Rightarrow> broker_options \<Rightarrow> admit_input \<Rightarrow> capability_grant \<Rightarrow> policy_decision \<Rightarrow> ('w, admission_result) broker" where
  "admit_decided ports opts input grant decision =
     or_reject ports grant (decision_check ports grant input decision) (
     or_reject ports grant (allowlist_check ports grant input decision) (
     or_reject ports grant (quota_check ports opts grant input) (
     or_reject ports grant (digest_check ports grant input) (
     or_reject ports grant (compensation_check ports grant input) (
     or_reject ports grant (readiness_check ports opts grant input) (
     js_bind (call (Call_admit (ledger_request_of ports grant decision input))
                (bp_admitEffect ports (ledger_request_of ports grant decision input)))
       (hand_out ports opts grant decision input)))))))"

definition admit_granted ::
  "('w, 'ev) broker_ports \<Rightarrow> broker_options \<Rightarrow> admit_input \<Rightarrow> capability_grant \<Rightarrow> ('w, admission_result) broker" where
  "admit_granted ports opts input grant =
     or_reject ports grant (js_return (identity_error ports opts grant input)) (
     or_reject ports grant (js_return (binding_error opts grant input)) (
     or_reject ports grant (js_return (capability_error ports opts grant input)) (
     js_bind (call Call_evaluate (bp_evaluate ports (policy_request grant input)))
       (admit_decided ports opts input grant))))"

definition admit ::
  "('w, 'ev) broker_ports \<Rightarrow> broker_options \<Rightarrow> admit_input \<Rightarrow> ('w, admission_result) broker" where
  "admit ports opts input =
     js_bind (call Call_verify (bp_verify ports (ai_token input))) (admit_granted ports opts input)"

section \<open>Execution\<close>

record execute_result =
  xr_effectId :: string
  xr_replayed :: bool
  xr_response :: "json option"

definition broker_throw :: "string \<Rightarrow> (string \<times> json) list \<Rightarrow> ('w, 'a) broker" where
  "broker_throw code details = js_throw (EffectBrokerError code details)"

text \<open>\<open>assertWorkerAffinity\<close>: the exception, if it throws one.\<close>

definition assertWorkerAffinity :: "broker_options \<Rightarrow> admitted_entry \<Rightarrow> broker_error option" where
  "assertWorkerAffinity opts admission =
     (let lease = ad_lease admission; localWorkerId = nullish (bo_localWorkerId opts) [];
          violation = (\<lambda>details. Some (EffectBrokerError ''WORKER_AFFINITY_VIOLATION''
            ((''effectId'', JStr (ad_effectId admission)) # details))) in
      if localWorkerId = [] then None
      else if lr_workerId lease \<noteq> localWorkerId
      then violation [(''expectedWorkerId'', JStr localWorkerId), (''actualWorkerId'', JStr (lr_workerId lease))]
      else if bo_localWorkerGeneration opts \<noteq> None \<and> lr_workerGeneration lease \<noteq> bo_localWorkerGeneration opts
      then violation (jopt_int ''expectedWorkerGeneration'' (bo_localWorkerGeneration opts) @
             jopt_int ''actualWorkerGeneration'' (lr_workerGeneration lease))
      else if lr_token lease = [] then violation [(''reason'', JStr ''missing_lease_token'')]
      else if lr_fencingEpoch lease < 0
      then violation [(''reason'', JStr ''invalid_fencing_epoch''), (''actualFencingEpoch'', JNum (lr_fencingEpoch lease))]
      else None)"

definition effect_audit ::
  "('w, 'ev) broker_ports \<Rightarrow> admitted_entry \<Rightarrow> string \<Rightarrow> string \<Rightarrow> (string \<times> json) list \<Rightarrow> ('w, unit) broker" where
  "effect_audit ports admission type severity details =
     js_bind (now_of ports) (\<lambda>at. call (Call_audit type) (bp_audit ports
       \<lparr>au_type = type, au_severity = severity, au_tenantId = gr_tenantId (ad_grant admission),
        au_runId = gr_runId (ad_grant admission), au_stepId = gr_stepId (ad_grant admission), au_at = at,
        au_details = (''effectId'', JStr (ad_kernelEffectId admission)) # details\<rparr>))"

fun error_message :: "broker_error \<Rightarrow> string" where
  "error_message (EffectBrokerError code _) = code"
| "error_message (AdapterExecutionError e) = ax_message e"
| "error_message (OtherError message) = message"

definition parkUnfinishedAdmission ::
  "('w, 'ev) broker_ports \<Rightarrow> broker_options \<Rightarrow> admitted_entry \<Rightarrow> string \<Rightarrow> ('w, unit) broker" where
  "parkUnfinishedAdmission ports opts admission reason =
     (case bp_markEffectCompletionUnknown ports of
        None \<Rightarrow>
          if bo_evidenceSigner opts
          then broker_throw ''EVIDENCE_PARK_AUTHORITY_REQUIRED''
            [(''effectId'', JStr (ad_kernelEffectId admission)), (''reason'', JStr reason)]
          else js_return ()
      | Some park \<Rightarrow>
          js_catch (call (Call_park (ad_kernelEffectId admission)) (park (ad_kernelEffectId admission)
              (gr_tenantId (ad_grant admission)) reason (ad_actor admission) (ad_lease admission)))
            (\<lambda>error. effect_audit ports admission ''effect.park_failed'' ''high''
               [(''reason'', JStr reason), (''error'', JStr (error_message error))]))"

text \<open>
  With a signer the terminal write goes through the evidence ports, and any exception of it becomes
  \<open>EVIDENCE_PERSIST_FAILED\<close>. The record is built, signed and checked by the port \<open>bp_buildEvidence\<close>.
\<close>

definition persist_failed :: "admitted_entry \<Rightarrow> ('w, 'a) broker \<Rightarrow> ('w, 'a) broker" where
  "persist_failed admission body = js_catch body (\<lambda>_.
     broker_throw ''EVIDENCE_PERSIST_FAILED'' [(''effectId'', JStr (ad_kernelEffectId admission))])"

definition completeTerminalEffect ::
  "('w, 'ev) broker_ports \<Rightarrow> broker_options \<Rightarrow> admitted_entry \<Rightarrow> json \<Rightarrow> ('w, bool) broker" where
  "completeTerminalEffect ports opts admission response =
     (let complete = (\<lambda>port. call (Call_complete (ad_kernelEffectId admission)) port) in
      if \<not> bo_evidenceSigner opts then complete (bp_completeEffect ports admission response)
      else persist_failed admission
        (js_bind (call Call_evidence (bp_buildEvidence ports admission (T_completed response))) (\<lambda>evidence.
         if bp_compensationTerminalEvidenceRequired ports
         then case (ad_compensationClaim admission, bp_completeCompensation ports) of
             (Some claim, Some port) \<Rightarrow> complete (port admission claim response evidence)
           | _ \<Rightarrow> js_throw (OtherError ''COMPENSATION_TERMINAL_EVIDENCE_AUTHORITY_REQUIRED'')
         else case bp_completeWithEvidence ports of
             Some port \<Rightarrow> complete (port admission response evidence)
           | None \<Rightarrow> js_throw (OtherError ''completeEffectWithEvidence is not a function''))))"

definition failTerminalEffect ::
  "('w, 'ev) broker_ports \<Rightarrow> admitted_entry \<Rightarrow> effect_error \<Rightarrow> ('w, bool) broker" where
  "failTerminalEffect ports admission error =
     (let fail = (\<lambda>port. call (Call_fail (ad_kernelEffectId admission)) port) in
      persist_failed admission
        (if \<not> bp_compensationTerminalEvidenceRequired ports \<and> bp_failWithEvidence ports = None
         then js_throw (OtherError ''FAILED_EVIDENCE_AUTHORITY_REQUIRED'')
         else js_bind (call Call_evidence (bp_buildEvidence ports admission (T_failed error))) (\<lambda>evidence.
           if bp_compensationTerminalEvidenceRequired ports
           then case (ad_compensationClaim admission, bp_failCompensation ports) of
               (Some claim, Some port) \<Rightarrow> fail (port admission claim error evidence)
             | _ \<Rightarrow> js_throw (OtherError ''COMPENSATION_TERMINAL_EVIDENCE_AUTHORITY_REQUIRED'')
           else case bp_failWithEvidence ports of
               Some port \<Rightarrow> fail (port admission error evidence)
             | None \<Rightarrow> js_throw (OtherError ''FAILED_EVIDENCE_AUTHORITY_REQUIRED''))))"

text \<open>\<open>this.evidenceSigner ? failTerminalEffect(..) : kernel.failEffect?.(..)\<close>\<close>

definition fail_effect_of ::
  "('w, 'ev) broker_ports \<Rightarrow> broker_options \<Rightarrow> admitted_entry \<Rightarrow> effect_error \<Rightarrow> ('w, bool) broker" where
  "fail_effect_of ports opts admission failure =
     (if bo_evidenceSigner opts then failTerminalEffect ports admission failure
      else case bp_failEffect ports of
          None \<Rightarrow> js_return False
        | Some port \<Rightarrow> call (Call_fail (ad_kernelEffectId admission)) (port admission failure))"

definition run_executor :: "('w, 'ev) broker_ports \<Rightarrow> admitted_entry \<Rightarrow> int \<Rightarrow> ('w, race_outcome) broker" where
  "run_executor ports admission timeoutMs = call (Call_execute (ad_effectId admission))
     (\<lambda>outside. case bp_execute ports admission timeoutMs outside of (outcome, outside') \<Rightarrow> (Inr outcome, outside'))"

text \<open>
  The \<open>try\<close> block of \<open>executeAdmitted\<close>. An exception carries the value of the local \<open>parked\<close> at
  that point; \<open>finished\<close> is set only on the way out of the block, so no exception sees it set.
\<close>

definition unparked :: "('w, 'a) broker \<Rightarrow> ('w broker_world, broker_error \<times> bool, 'a) js" where
  "unparked m = js_catch m (\<lambda>e. js_throw (e, False))"

definition unknown_details :: "admitted_entry \<Rightarrow> string \<Rightarrow> (string \<times> json) list" where
  "unknown_details admission state = [(''effectId'', JStr (ad_kernelEffectId admission)), (''state'', JStr state)]"

definition replay_attempt ::
  "('w, 'ev) broker_ports \<Rightarrow> broker_options \<Rightarrow> admitted_entry \<Rightarrow> ('w broker_world, broker_error \<times> bool, execute_result) js" where
  "replay_attempt ports opts admission =
     (if ad_effectState admission = ''COMPLETED''
      then js_return \<lparr>xr_effectId = ad_kernelEffectId admission, xr_replayed = True, xr_response = ad_cachedResponse admission\<rparr>
      else if ad_effectState admission = ''COMPLETION_UNKNOWN''
      then js_throw (EffectBrokerError ''COMPLETION_UNKNOWN'' (unknown_details admission ''COMPLETION_UNKNOWN''), False)
      else if ad_effectState admission = ''FAILED''
      then js_throw (EffectBrokerError ''EFFECT_FAILED'' (unknown_details admission ''FAILED''), False)
      else js_bind (unparked (parkUnfinishedAdmission ports opts admission ''incomplete_idempotent_replay'')) (\<lambda>_.
        js_throw (EffectBrokerError ''COMPLETION_UNKNOWN'' (unknown_details admission ''COMPLETION_UNKNOWN''), True)))"

definition fresh_attempt ::
  "('w, 'ev) broker_ports \<Rightarrow> broker_options \<Rightarrow> admitted_entry \<Rightarrow> int \<Rightarrow>
     ('w broker_world, broker_error \<times> bool, execute_result) js" where
  "fresh_attempt ports opts admission timeoutMs =
     js_bind (unparked (run_executor ports admission timeoutMs)) (\<lambda>outcome. case outcome of
       Hard_timeout \<Rightarrow> js_throw (EffectBrokerError ''EFFECT_EXECUTION_TIMEOUT''
         [(''effectId'', JStr (ad_kernelEffectId admission)), (''timeoutMs'', JNum timeoutMs)], False)
     | Raised error \<Rightarrow> js_throw (error, False)
     | Responded response \<Rightarrow>
         js_bind (unparked (completeTerminalEffect ports opts admission response)) (\<lambda>committed.
         if \<not> committed
         then js_bind (unparked (parkUnfinishedAdmission ports opts admission
                 ''Kernel rejected completion after external executor returned'')) (\<lambda>_.
              js_throw (EffectBrokerError ''COMPLETION_UNCONFIRMED'' [], True))
         else js_bind (unparked (effect_audit ports admission ''effect.completed'' ''low''
                 [(''policyDecisionId'', JStr (pd_decisionId (ad_decision admission)))])) (\<lambda>_.
              js_return \<lparr>xr_effectId = ad_kernelEffectId admission, xr_replayed = False, xr_response = Some response\<rparr>)))"

definition attempt ::
  "('w, 'ev) broker_ports \<Rightarrow> broker_options \<Rightarrow> admitted_entry \<Rightarrow> int \<Rightarrow>
     ('w broker_world, broker_error \<times> bool, execute_result) js" where
  "attempt ports opts admission timeoutMs =
     (case assertWorkerAffinity opts admission of
        Some violation \<Rightarrow> js_throw (violation, False)
      | None \<Rightarrow> if ad_replayed admission then replay_attempt ports opts admission
                else fresh_attempt ports opts admission timeoutMs)"

text \<open>The \<open>catch\<close> block.\<close>

definition adapter_details :: "admitted_entry \<Rightarrow> adapter_error \<Rightarrow> (string \<times> json) list" where
  "adapter_details admission e = [(''effectId'', JStr (ad_kernelEffectId admission)), (''code'', JStr (ax_code e)),
     (''commitState'', JStr (case ax_commitState e of Not_committed \<Rightarrow> ''NOT_COMMITTED'' | Commit_unknown \<Rightarrow> ''UNKNOWN'')),
     (''retryMode'', JStr (case ax_retryMode e of Retry_safe \<Rightarrow> ''SAFE'' | Retry_query_first \<Rightarrow> ''QUERY_FIRST''
        | Retry_never \<Rightarrow> ''NEVER''))]"

definition failure_of :: "adapter_error \<Rightarrow> effect_error" where
  "failure_of e = \<lparr>ee_code = ax_code e, ee_message = ax_message e, ee_retryable = ax_retryable e, ee_details = ax_details e\<rparr>"

definition settle_adapter_error ::
  "('w, 'ev) broker_ports \<Rightarrow> broker_options \<Rightarrow> admitted_entry \<Rightarrow> adapter_error \<Rightarrow> ('w, execute_result) broker" where
  "settle_adapter_error ports opts admission e =
     (let park_unknown = js_bind (parkUnfinishedAdmission ports opts admission (ax_code e))
            (\<lambda>_. broker_throw ''COMPLETION_UNKNOWN'' (adapter_details admission e)) in
      if ax_commitState e = Not_committed
      then js_bind (fail_effect_of ports opts admission (failure_of e)) (\<lambda>failed.
           if \<not> failed then park_unknown else broker_throw ''EFFECT_FAILED'' (adapter_details admission e))
      else park_unknown)"

definition settle_error ::
  "('w, 'ev) broker_ports \<Rightarrow> broker_options \<Rightarrow> admitted_entry \<Rightarrow> broker_error \<Rightarrow> bool \<Rightarrow> ('w, execute_result) broker" where
  "settle_error ports opts admission error parked =
     (case error of
        EffectBrokerError code details \<Rightarrow>
          if code = ''EFFECT_EXECUTION_TIMEOUT''
          then js_bind (parkUnfinishedAdmission ports opts admission code) (\<lambda>_.
            broker_throw ''COMPLETION_UNKNOWN'' ([(''effectId'', JStr (ad_kernelEffectId admission)), (''code'', JStr code)] @
              (case map_of details ''timeoutMs'' of None \<Rightarrow> [] | Some t \<Rightarrow> [(''timeoutMs'', t)])))
          else if \<not> parked \<and> ad_effectState admission = ''ADMITTED''
          then js_bind (parkUnfinishedAdmission ports opts admission code) (\<lambda>_. js_throw error)
          else js_throw error
      | AdapterExecutionError e \<Rightarrow>
          if \<not> parked \<and> ad_effectState admission = ''ADMITTED'' then settle_adapter_error ports opts admission e
          else js_throw error
      | OtherError _ \<Rightarrow>
          if \<not> parked \<and> ad_effectState admission = ''ADMITTED''
          then js_bind (parkUnfinishedAdmission ports opts admission ''execute_admitted_failed'') (\<lambda>_. js_throw error)
          else js_throw error)"

definition executeAdmitted ::
  "('w, 'ev) broker_ports \<Rightarrow> broker_options \<Rightarrow> string \<Rightarrow> int option \<Rightarrow> ('w, execute_result) broker" where
  "executeAdmitted ports opts effectId timeoutMs =
     js_bind (js_read (\<lambda>w. bw_admissions w effectId)) (\<lambda>found. case found of
       None \<Rightarrow> broker_throw ''ADMISSION_NOT_FOUND'' [(''effectId'', JStr effectId)]
     | Some admission \<Rightarrow>
         js_finally
           (js_catch (attempt ports opts admission (nullish timeoutMs 30000))
             (\<lambda>thrown. settle_error ports opts admission (fst thrown) (snd thrown)))
           (\<lambda>w. w\<lparr>bw_admissions := (bw_admissions w)(effectId := None)\<rparr>))"

text \<open>The single-call path.\<close>

definition execute ::
  "('w, 'ev) broker_ports \<Rightarrow> broker_options \<Rightarrow> admit_input \<Rightarrow> int option \<Rightarrow> ('w, execute_result) broker" where
  "execute ports opts input timeoutMs =
     js_bind (admit ports opts input) (\<lambda>admission.
     if \<not> ar_admitted admission
     then broker_throw (nullish (ar_reason admission) ''ADMIT_REJECTED'') (ar_details admission)
     else executeAdmitted ports opts (ai_effectId input) timeoutMs)"

section \<open>Reconciliation queries\<close>

record effect_snapshot =
  es_id :: string
  es_state :: string
  es_tenantId :: string
  es_type :: string
  es_idempotencyKey :: string
  es_request :: json

text \<open>What a querier answered: the response and the error, where they are there.\<close>

datatype remote_status = Applied | Not_applied | Unknown_outcome | Other_status string

record remote_outcome =
  ro_status :: remote_status
  ro_response :: "json option"
  ro_error :: "(string \<times> string) option"

definition response_object :: "json option \<Rightarrow> bool" where
  "response_object v = (case v of Some (JObj _) \<Rightarrow> True | _ \<Rightarrow> False)"

definition valid_outcome :: "remote_outcome \<Rightarrow> bool" where
  "valid_outcome remote \<longleftrightarrow>
     (ro_status remote \<in> {Applied, Not_applied} \<and> response_object (ro_response remote)) \<or>
     (ro_status remote = Unknown_outcome \<and> (case ro_error remote of None \<Rightarrow> False
        | Some (code, message) \<Rightarrow> trim code \<noteq> [] \<and> trim message \<noteq> []))"

definition reconcileUnknown ::
  "(effect_snapshot \<Rightarrow> ('w, broker_error, remote_outcome) js) \<Rightarrow> effect_snapshot \<Rightarrow> ('w, broker_error, remote_outcome) js" where
  "reconcileUnknown queryOutcome effect =
     (if es_state effect \<noteq> ''COMPLETION_UNKNOWN''
      then js_throw (EffectBrokerError ''EFFECT_NOT_UNKNOWN''
        [(''effectId'', JStr (es_id effect)), (''state'', JStr (es_state effect))])
      else js_bind (queryOutcome effect) (\<lambda>remote.
        if valid_outcome remote then js_return remote
        else js_throw (EffectBrokerError ''ADAPTER_OUTCOME_INVALID''
          [(''effectId'', JStr (es_id effect)), (''effectType'', JStr (es_type effect))])))"

section \<open>Construction\<close>

text \<open>
  What the constructor can tell of a capability store: the in-memory class of this module, another
  object with the method it needs, or anything else. A replay store may also be a factory, which
  the constructor probes.
\<close>

datatype store_kind = In_memory | Has_method | No_method

datatype replay_option = Replay_store store_kind | Replay_factory store_kind

definition assertEffectBrokerDurableStores :: "replay_option option \<Rightarrow> store_kind option \<Rightarrow> broker_error option" where
  "assertEffectBrokerDurableStores replay revocations =
     (let required = Some (EffectBrokerError DURABLE_CAPABILITY_STORES_REQUIRED []) in
      case (replay, revocations) of
        (Some r, Some v) \<Rightarrow>
          if (case r of Replay_factory probed \<Rightarrow> probed | Replay_store kind \<Rightarrow> kind) \<noteq> Has_method then required
          else if v \<noteq> Has_method then required else None
      | _ \<Rightarrow> required)"

record broker_setup =
  su_audience :: "string option"
  su_requireRequestBinding :: "bool option"
  su_maxCountPerDay :: "int option"
  su_localWorkerId :: "string option"
  su_localWorkerGeneration :: "int option"
  su_replay :: "replay_option option"
  su_revocations :: "store_kind option"
  su_requireDurableCapabilityStores :: bool
  su_requireOperationsReadiness :: bool
  su_evidenceSigner :: bool
  su_requireEvidencePersistence :: bool
  su_idempotencyKeyPolicy :: "key_policy option"

definition construct_broker ::
  "(string \<Rightarrow> string option) \<Rightarrow> ('w, 'ev) broker_ports \<Rightarrow> broker_setup \<Rightarrow> broker_error + broker_options" where
  "construct_broker env ports setup =
     (let production = isProductionProfile env;
          requireRequestBinding = nullish (su_requireRequestBinding setup) True;
          fail = (\<lambda>code. Inl (EffectBrokerError code []));
          evidence = su_requireEvidencePersistence setup \<or> su_evidenceSigner setup;
          compensation_ready = bp_compensationTerminalEvidenceRequired ports \<and>
            bp_completeCompensation ports \<noteq> None \<and> bp_failCompensation ports \<noteq> None;
          durable = (if su_requireDurableCapabilityStores setup \<or> production
            then assertEffectBrokerDurableStores (su_replay setup) (su_revocations setup) else None) in
      if production \<and> \<not> requireRequestBinding then fail ''REQUEST_BINDING_DISABLED_IN_PROD''
      else if production \<and> trimmed (su_localWorkerId setup) = [] then fail ''WORKER_AFFINITY_REQUIRED_IN_PROD''
      else if durable \<noteq> None then Inl (the durable)
      else if su_requireOperationsReadiness setup \<and> bp_getOperationsReadiness ports = None
      then fail ''OPERATIONS_READINESS_CHECK_REQUIRED''
      else if evidence \<and> (\<not> su_evidenceSigner setup \<or> (bp_completeWithEvidence ports = None \<and> \<not> compensation_ready))
      then fail ''EVIDENCE_PERSISTENCE_REQUIRED''
      else if evidence \<and> bp_markEffectCompletionUnknown ports = None then fail ''EVIDENCE_PARK_AUTHORITY_REQUIRED''
      else if bp_compensationTerminalEvidenceRequired ports \<and> (\<not> compensation_ready \<or> \<not> su_evidenceSigner setup)
      then fail ''COMPENSATION_TERMINAL_EVIDENCE_AUTHORITY_REQUIRED''
      else Inr \<lparr>bo_audience = nullish (su_audience setup) ''commander.effect-broker'',
        bo_requireRequestBinding = requireRequestBinding, bo_maxCountPerDay = su_maxCountPerDay setup,
        bo_localWorkerId = su_localWorkerId setup, bo_localWorkerGeneration = su_localWorkerGeneration setup,
        bo_requireOperationsReadiness = su_requireOperationsReadiness setup,
        bo_idempotencyKeyPolicy = nullish (su_idempotencyKeyPolicy setup) Caller_key,
        bo_evidenceSigner = su_evidenceSigner setup, bo_production = production\<rparr>)"

definition bindLocalWorkerGeneration :: "int \<Rightarrow> broker_options \<Rightarrow> broker_options" where
  "bindLocalWorkerGeneration generation opts = opts\<lparr>bo_localWorkerGeneration := Some generation\<rparr>"

end
