(* ===== verification/Broker_Claims.thy ===== *)
theory Broker_Claims
  imports Effect_Broker
begin

text \<open>
  What the effect broker guarantees. An admission reaches the ledger only after every check, and
  never executes; every execution is preceded by an admission of its own; an execution that started
  is settled. The first section is about the calls a computation makes.
\<close>

section \<open>Calls\<close>

text \<open>
  \<open>extends C w w'\<close>: from \<open>w\<close> to \<open>w'\<close> only calls of \<open>C\<close> were made and the admission store is as it was.
\<close>

definition extends :: "broker_call set \<Rightarrow> 'w broker_world \<Rightarrow> 'w broker_world \<Rightarrow> bool" where
  "extends C w w' \<longleftrightarrow> (\<exists>cs. bw_trace w' = bw_trace w @ cs \<and> set cs \<subseteq> C) \<and> bw_admissions w' = bw_admissions w"

definition calls_only :: "broker_call set \<Rightarrow> ('w broker_world, 'e, 'a) js \<Rightarrow> bool" where
  "calls_only C m \<longleftrightarrow> (\<forall>w r w'. m w = (r, w') \<longrightarrow> extends C w w')"

named_theorems calls

lemma extends_refl [simp]: "extends C w w"
  by (auto simp: extends_def)

lemma extends_trans: "extends C w w1 \<Longrightarrow> extends C w1 w2 \<Longrightarrow> extends C w w2"
  by (auto simp: extends_def)

lemma calls_onlyD: "calls_only C m \<Longrightarrow> m w = (r, w') \<Longrightarrow> extends C w w'"
  by (simp add: calls_only_def)

lemma calls_only_pure [calls]:
  "calls_only C (js_return x)" "calls_only C (js_throw e)" "calls_only C (js_read q)"
  by (auto simp: calls_only_def js_return_def js_throw_def js_read_def)

lemma calls_only_call [calls]: "c \<in> C \<Longrightarrow> calls_only C (call c port)"
  by (auto simp: calls_only_def call_def extends_def split: prod.splits)

lemma calls_only_bind [calls]: "calls_only C m \<Longrightarrow> (\<And>x. calls_only C (f x)) \<Longrightarrow> calls_only C (js_bind m f)"
  unfolding calls_only_def js_bind_iff by (blast intro: extends_trans)

lemma calls_only_catch [calls]: "calls_only C m \<Longrightarrow> (\<And>e. calls_only C (h e)) \<Longrightarrow> calls_only C (js_catch m h)"
  unfolding calls_only_def js_catch_iff by (blast intro: extends_trans)

lemma calls_only_now [calls]: "calls_only C (now_of ports)"
  by (simp add: now_of_def calls)

lemma calls_only_if [calls]:
  "(b \<Longrightarrow> calls_only C m) \<Longrightarrow> (\<not> b \<Longrightarrow> calls_only C n) \<Longrightarrow> calls_only C (if b then m else n)"
  by simp

lemma calls_only_option [calls]:
  "(v = None \<Longrightarrow> calls_only C m) \<Longrightarrow> (\<And>x. v = Some x \<Longrightarrow> calls_only C (f x)) \<Longrightarrow>
     calls_only C (case v of None \<Rightarrow> m | Some x \<Rightarrow> f x)"
  by (simp split: option.split)

section \<open>Admission\<close>

text \<open>The calls of \<open>admit\<close> other than the one to the ledger.\<close>

definition gate_calls :: "broker_call set" where
  "gate_calls = {Call_verify, Call_evaluate, Call_approval, Call_allowlist, Call_quota, Call_readiness,
     Call_charge} \<union> range Call_park \<union> range Call_audit"

lemma gate_calls_iff [simp]:
  "Call_verify \<in> gate_calls" "Call_evaluate \<in> gate_calls" "Call_approval \<in> gate_calls"
  "Call_allowlist \<in> gate_calls" "Call_quota \<in> gate_calls" "Call_readiness \<in> gate_calls"
  "Call_charge \<in> gate_calls" "Call_park i \<in> gate_calls" "Call_audit i \<in> gate_calls"
  "Call_admit q \<notin> gate_calls" "Call_execute i \<notin> gate_calls"
  by (auto simp: gate_calls_def)

lemma calls_only_rejectAdmit [calls]: "calls_only gate_calls (rejectAdmit ports grant code details)"
  by (auto simp: rejectAdmit_def intro!: calls)

lemma calls_only_checks [calls]:
  "calls_only gate_calls (decision_check ports grant input decision)"
  "calls_only gate_calls (allowlist_check ports grant input decision)"
  "calls_only gate_calls (quota_check ports opts grant input)"
  "calls_only gate_calls (digest_check ports grant input)"
  "calls_only gate_calls (compensation_check ports grant input)"
  "calls_only gate_calls (readiness_check ports opts grant input)"
  "calls_only gate_calls (charge_check ports opts grant input effect replayed)"
  by (auto simp: decision_check_def allowlist_check_def quota_check_def digest_check_def
      compensation_check_def readiness_check_def charge_check_def Let_def
      intro!: calls split: decision_effect.split option.split)

text \<open>An admission that ended without reaching the ledger.\<close>

definition stopped :: "'w broker_world \<Rightarrow> broker_error + admission_result \<Rightarrow> 'w broker_world \<Rightarrow> bool" where
  "stopped w r w' \<longleftrightarrow> extends gate_calls w w' \<and> (case r of Inl _ \<Rightarrow> True | Inr x \<Rightarrow> \<not> ar_admitted x)"

lemma rejectAdmit_stops: "rejectAdmit ports grant code details w = (r, w') \<Longrightarrow> stopped w r w'"
  using calls_onlyD [OF calls_only_rejectAdmit, of ports grant code details w r w']
  by (auto simp: stopped_def rejectAdmit_def js)

lemma stopped_trans: "extends gate_calls w w1 \<Longrightarrow> stopped w1 r w' \<Longrightarrow> stopped w r w'"
  by (auto simp: stopped_def intro: extends_trans)

lemma passes_bind:
  assumes "js_bind m f w = (r, w')" and "calls_only gate_calls m" and "\<not> stopped w r w'"
  shows "\<exists>x w1. m w = (Inr x, w1) \<and> f x w1 = (r, w') \<and> extends gate_calls w w1 \<and> \<not> stopped w1 r w'"
  using assms calls_onlyD [OF assms(2)] stopped_trans unfolding js_bind_iff
  by (metis stopped_def sum.simps(5))

lemma passes_check:
  assumes "or_reject ports grant check k w = (r, w')" and "calls_only gate_calls check" and "\<not> stopped w r w'"
  shows "\<exists>w1. check w = (Inr None, w1) \<and> k w1 = (r, w') \<and> extends gate_calls w w1 \<and> \<not> stopped w1 r w'"
proof -
  obtain x w1 where x: "check w = (Inr x, w1)" "extends gate_calls w w1" "\<not> stopped w1 r w'"
    and rest: "(case x of Some (code, details) \<Rightarrow> rejectAdmit ports grant code details | None \<Rightarrow> k) w1 = (r, w')"
    using passes_bind [OF assms(1) [unfolded or_reject_def] assms(2,3)] by blast
  have "x = None"
    using rest x(3) by (cases x) (auto dest: rejectAdmit_stops split: prod.splits)
  with x rest show ?thesis by auto
qed

lemma passes_pure:
  assumes "or_reject ports grant (js_return e) k w = (r, w')" and "\<not> stopped w r w'"
  shows "e = None \<and> k w = (r, w')"
  using passes_check [OF assms(1) calls_only_pure(1) assms(2)] by (auto simp: js)

text \<open>What the decision and the grant satisfy when \<open>admit\<close> calls the ledger.\<close>

definition cleared :: "('w, 'ev) broker_ports \<Rightarrow> broker_options \<Rightarrow> capability_grant \<Rightarrow> policy_decision \<Rightarrow> admit_input \<Rightarrow> bool" where
  "cleared ports opts grant decision input \<longleftrightarrow>
     identity_error ports opts grant input = None \<and> binding_error opts grant input = None \<and>
     capability_error ports opts grant input = None \<and>
     pd_effect decision = D_allow \<and> pd_decisionId decision \<noteq> PERMIT_DEFAULT_DECISION_ID \<and>
     gr_policySnapshotId grant \<in> {None, Some [], Some (pd_policySnapshotId decision)} \<and>
     (isClassAEffectType (ai_type input) \<longrightarrow> trimmed (gr_actionDigest grant) \<noteq> []) \<and>
     (is_compensation (ai_type input) \<and> bp_compensationTerminalEvidenceRequired ports \<longrightarrow> claim_matches grant input)"

lemma decision_check_passes:
  "decision_check ports grant input decision w = (Inr None, w1) \<Longrightarrow>
     pd_effect decision = D_allow \<and> pd_decisionId decision \<noteq> PERMIT_DEFAULT_DECISION_ID \<and>
     gr_policySnapshotId grant \<in> {None, Some [], Some (pd_policySnapshotId decision)}"
  by (auto simp: decision_check_def Let_def js nullish_def split: if_splits decision_effect.splits option.splits)

lemma allowlist_check_passes:
  "allowlist_check ports grant input decision w = (Inr None, w1) \<Longrightarrow> bp_isActionAllowed ports = Some port \<Longrightarrow>
     \<exists>outside. port (gr_tenantId grant) (ai_type input) (bw_outside w) = (Inr True, outside)"
  by (auto simp: allowlist_check_def js call_def split: if_splits prod.splits)

lemma digest_check_passes:
  "digest_check ports grant input w = (Inr None, w1) \<Longrightarrow>
     isClassAEffectType (ai_type input) \<longrightarrow> trimmed (gr_actionDigest grant) \<noteq> []"
  by (auto simp: digest_check_def js split: if_splits)

lemma compensation_check_passes:
  "compensation_check ports grant input w = (Inr None, w1) \<Longrightarrow>
     is_compensation (ai_type input) \<and> bp_compensationTerminalEvidenceRequired ports \<longrightarrow> claim_matches grant input"
  by (auto simp: compensation_check_def js split: if_splits)

lemma call_outside: "call c port w = (Inr x, w1) \<Longrightarrow> \<exists>outside. port (bw_outside w) = (Inr x, outside) \<and> bw_outside w1 = outside"
  by (auto simp: call_def split: prod.splits)

lemma admit_decided_passes:
  assumes run: "admit_decided ports opts input grant decision w = (r, w')" and live: "\<not> stopped w r w'"
    and before: "identity_error ports opts grant input = None" "binding_error opts grant input = None"
      "capability_error ports opts grant input = None"
  shows "cleared ports opts grant decision input \<and>
    (\<exists>w1. extends gate_calls w w1 \<and>
       js_bind (call (Call_admit (ledger_request_of ports grant decision input))
                  (bp_admitEffect ports (ledger_request_of ports grant decision input)))
          (hand_out ports opts grant decision input) w1 = (r, w'))"
proof -
  obtain a where 1: "decision_check ports grant input decision w = (Inr None, a)" "extends gate_calls w a"
    and la: "\<not> stopped a r w'" and ra: "or_reject ports grant (allowlist_check ports grant input decision) (
     or_reject ports grant (quota_check ports opts grant input) (
     or_reject ports grant (digest_check ports grant input) (
     or_reject ports grant (compensation_check ports grant input) (
     or_reject ports grant (readiness_check ports opts grant input) (
     js_bind (call (Call_admit (ledger_request_of ports grant decision input))
                (bp_admitEffect ports (ledger_request_of ports grant decision input)))
       (hand_out ports opts grant decision input)))))) a = (r, w')"
    using passes_check [OF run [unfolded admit_decided_def] calls_only_checks(1) live] by blast
  obtain b where 2: "extends gate_calls a b" and lb: "\<not> stopped b r w'"
    and rb: "or_reject ports grant (quota_check ports opts grant input) (
     or_reject ports grant (digest_check ports grant input) (
     or_reject ports grant (compensation_check ports grant input) (
     or_reject ports grant (readiness_check ports opts grant input) (
     js_bind (call (Call_admit (ledger_request_of ports grant decision input))
                (bp_admitEffect ports (ledger_request_of ports grant decision input)))
       (hand_out ports opts grant decision input))))) b = (r, w')"
    using passes_check [OF ra calls_only_checks(2) la] by blast
  obtain c where 3: "extends gate_calls b c" and lc: "\<not> stopped c r w'"
    and rc: "or_reject ports grant (digest_check ports grant input) (
     or_reject ports grant (compensation_check ports grant input) (
     or_reject ports grant (readiness_check ports opts grant input) (
     js_bind (call (Call_admit (ledger_request_of ports grant decision input))
                (bp_admitEffect ports (ledger_request_of ports grant decision input)))
       (hand_out ports opts grant decision input)))) c = (r, w')"
    using passes_check [OF rb calls_only_checks(3) lb] by blast
  obtain d where 4: "digest_check ports grant input c = (Inr None, d)" "extends gate_calls c d" and ld: "\<not> stopped d r w'"
    and rd: "or_reject ports grant (compensation_check ports grant input) (
     or_reject ports grant (readiness_check ports opts grant input) (
     js_bind (call (Call_admit (ledger_request_of ports grant decision input))
                (bp_admitEffect ports (ledger_request_of ports grant decision input)))
       (hand_out ports opts grant decision input))) d = (r, w')"
    using passes_check [OF rc calls_only_checks(4) lc] by blast
  obtain e where 5: "compensation_check ports grant input d = (Inr None, e)" "extends gate_calls d e" and le: "\<not> stopped e r w'"
    and re: "or_reject ports grant (readiness_check ports opts grant input) (
     js_bind (call (Call_admit (ledger_request_of ports grant decision input))
                (bp_admitEffect ports (ledger_request_of ports grant decision input)))
       (hand_out ports opts grant decision input)) e = (r, w')"
    using passes_check [OF rd calls_only_checks(5) ld] by blast
  obtain f where 6: "extends gate_calls e f"
    and rf: "js_bind (call (Call_admit (ledger_request_of ports grant decision input))
                (bp_admitEffect ports (ledger_request_of ports grant decision input)))
       (hand_out ports opts grant decision input) f = (r, w')"
    using passes_check [OF re calls_only_checks(6) le] by blast
  have "cleared ports opts grant decision input"
    using before decision_check_passes [OF 1(1)] digest_check_passes [OF 4(1)] compensation_check_passes [OF 5(1)]
    by (simp add: cleared_def)
  moreover have "extends gate_calls w f"
    using 1(2) 2 3 4(2) 5(2) 6 by (blast intro: extends_trans)
  ultimately show ?thesis using rf by blast
qed

text \<open>An admission that was not stopped called the ledger, after every check had passed.\<close>

lemma admit_reaches_ledger:
  assumes run: "admit ports opts input w = (r, w')" and live: "\<not> stopped w r w'"
  shows "\<exists>grant decision outside w1.
      bp_verify ports (ai_token input) (bw_outside w) = (Inr grant, outside) \<and>
      fst (bp_evaluate ports (policy_request grant input) outside) = Inr decision \<and>
      cleared ports opts grant decision input \<and> extends gate_calls w w1 \<and>
      js_bind (call (Call_admit (ledger_request_of ports grant decision input))
                (bp_admitEffect ports (ledger_request_of ports grant decision input)))
        (hand_out ports opts grant decision input) w1 = (r, w')"
proof -
  obtain grant a where v: "call Call_verify (bp_verify ports (ai_token input)) w = (Inr grant, a)"
    and ra: "admit_granted ports opts input grant a = (r, w')"
    and ea: "extends gate_calls w a" and la: "\<not> stopped a r w'"
    using passes_bind [OF run [unfolded admit_def] calls_only_call live] by auto
  note r2 = passes_pure [OF ra [unfolded admit_granted_def] la]
  note r3 = passes_pure [OF conjunct2 [OF r2] la]
  note r4 = passes_pure [OF conjunct2 [OF r3] la]
  obtain decision b where d: "call Call_evaluate (bp_evaluate ports (policy_request grant input)) a = (Inr decision, b)"
    and rb: "admit_decided ports opts input grant decision b = (r, w')"
    and eb: "extends gate_calls a b" and lb: "\<not> stopped b r w'"
    using passes_bind [OF conjunct2 [OF r4] calls_only_call la] by auto
  obtain c where "cleared ports opts grant decision input" and ec: "extends gate_calls b c"
    and "js_bind (call (Call_admit (ledger_request_of ports grant decision input))
                (bp_admitEffect ports (ledger_request_of ports grant decision input)))
        (hand_out ports opts grant decision input) c = (r, w')"
    using admit_decided_passes [OF rb lb conjunct1 [OF r2] conjunct1 [OF r3] conjunct1 [OF r4]] by blast
  moreover have "bp_verify ports (ai_token input) (bw_outside w) = (Inr grant, bw_outside a)"
    using call_outside [OF v] by auto
  moreover have "fst (bp_evaluate ports (policy_request grant input) (bw_outside a)) = Inr decision"
    using call_outside [OF d] by auto
  moreover have "extends gate_calls w c" using ea eb ec by (blast intro: extends_trans)
  ultimately show ?thesis by blast
qed

text \<open>What the ledger's answer leads to: at most the entry of this admission is stored.\<close>

lemma hand_out_run:
  assumes "hand_out ports opts grant decision input answer w = (r, w')"
  shows "(\<exists>cs. bw_trace w' = bw_trace w @ cs \<and> set cs \<subseteq> gate_calls) \<and>
    (stopped w r w' \<or> (\<exists>effect. la_admitted answer \<and> la_effect answer = Some effect \<and>
        bw_admissions w' = (bw_admissions w)(ai_effectId input \<mapsto>
          admitted_entry_of ports grant decision input effect (la_replayed answer)) \<and>
        (\<exists>x. r = Inr x \<and> ar_admitted x \<and> ar_effectId x = le_id effect \<and> ar_replayed x = la_replayed answer)))"
proof (cases "stopped w r w'")
  case True
  then show ?thesis by (auto simp: stopped_def extends_def)
next
  case False
  then obtain effect where effect: "la_admitted answer" "la_effect answer = Some effect"
    using assms by (auto simp: hand_out_def dest: rejectAdmit_stops split: option.splits bool.splits if_splits)
  let ?entry = "admitted_entry_of ports grant decision input effect (la_replayed answer)"
  obtain w1 where "extends gate_calls w w1"
    and "js_bind (keep_admission (ai_effectId input) ?entry) (\<lambda>_. js_return
           \<lparr>ar_admitted = True, ar_effectId = le_id effect, ar_replayed = la_replayed answer,
            ar_cachedResponse = ad_cachedResponse ?entry, ar_decisionId = pd_decisionId decision,
            ar_policySnapshotId = pd_policySnapshotId decision, ar_reason = None, ar_details = []\<rparr>) w1 = (r, w')"
    using passes_check [OF _ calls_only_checks(7) False] assms effect
    by (auto simp: hand_out_def Let_def) blast
  then show ?thesis
    using effect by (auto simp: keep_admission_def js extends_def)
qed

lemma admit_run:
  assumes "admit ports opts input w = (r, w')"
  shows "\<exists>before after grant decision.
    set before \<subseteq> gate_calls \<and> set after \<subseteq> gate_calls \<and>
    ((bw_trace w' = bw_trace w @ before \<and> bw_admissions w' = bw_admissions w \<and>
        (case r of Inl _ \<Rightarrow> True | Inr x \<Rightarrow> \<not> ar_admitted x)) \<or>
     (bw_trace w' = bw_trace w @ before @ Call_admit (ledger_request_of ports grant decision input) # after \<and>
      cleared ports opts grant decision input \<and>
      fst (bp_verify ports (ai_token input) (bw_outside w)) = Inr grant \<and>
      fst (bp_evaluate ports (policy_request grant input) (snd (bp_verify ports (ai_token input) (bw_outside w)))) = Inr decision \<and>
      ((bw_admissions w' = bw_admissions w \<and> (case r of Inl _ \<Rightarrow> True | Inr x \<Rightarrow> \<not> ar_admitted x)) \<or>
       (\<exists>effect replayed x. r = Inr x \<and> ar_admitted x \<and> ar_effectId x = le_id effect \<and>
          bw_admissions w' = (bw_admissions w)(ai_effectId input \<mapsto>
            admitted_entry_of ports grant decision input effect replayed)))))"
proof (cases "stopped w r w'")
  case True
  then show ?thesis by (auto simp: stopped_def extends_def)
next
  case False
  obtain grant decision outside w1 where g: "bp_verify ports (ai_token input) (bw_outside w) = (Inr grant, outside)"
      "fst (bp_evaluate ports (policy_request grant input) outside) = Inr decision"
      "cleared ports opts grant decision input" "extends gate_calls w w1"
    and last: "js_bind (call (Call_admit (ledger_request_of ports grant decision input))
                (bp_admitEffect ports (ledger_request_of ports grant decision input)))
        (hand_out ports opts grant decision input) w1 = (r, w')"
    using admit_reaches_ledger [OF assms False] by blast
  let ?q = "ledger_request_of ports grant decision input"
  obtain before where b: "bw_trace w1 = bw_trace w @ before" "set before \<subseteq> gate_calls" "bw_admissions w1 = bw_admissions w"
    using g(4) by (auto simp: extends_def)
  obtain r2 w2 where call2: "call (Call_admit ?q) (bp_admitEffect ports ?q) w1 = (r2, w2)" by fastforce
  then have w2: "bw_trace w2 = bw_trace w1 @ [Call_admit ?q]" "bw_admissions w2 = bw_admissions w1"
    by (auto simp: call_def split: prod.splits)
  have "(\<exists>e. r2 = Inl e \<and> r = Inl e \<and> w' = w2) \<or> (\<exists>answer. hand_out ports opts grant decision input answer w2 = (r, w'))"
    using last call2 by (auto simp: js_bind_iff)
  then obtain after where "bw_trace w' = bw_trace w2 @ after" "set after \<subseteq> gate_calls"
    and "(bw_admissions w' = bw_admissions w2 \<and> (case r of Inl _ \<Rightarrow> True | Inr x \<Rightarrow> \<not> ar_admitted x)) \<or>
       (\<exists>effect replayed x. r = Inr x \<and> ar_admitted x \<and> ar_effectId x = le_id effect \<and>
          bw_admissions w' = (bw_admissions w2)(ai_effectId input \<mapsto>
            admitted_entry_of ports grant decision input effect replayed))"
  proof (elim disjE exE conjE)
    fix e assume "r = Inl e" "w' = w2"
    then show thesis using that [of "[]"] by simp
  next
    fix answer assume "hand_out ports opts grant decision input answer w2 = (r, w')"
    from hand_out_run [OF this] show thesis
      using that by (elim conjE disjE exE) (auto simp: stopped_def extends_def)
  qed
  then show ?thesis
    using b w2 g by (intro exI [of _ before] exI [of _ after] exI [of _ grant] exI [of _ decision]) auto
qed

lemma admit_shape:
  assumes "admit ports opts input w = (r, w')"
  shows "\<exists>before after grant decision.
    set before \<subseteq> gate_calls \<and> set after \<subseteq> gate_calls \<and>
    ((bw_trace w' = bw_trace w @ before \<and> bw_admissions w' = bw_admissions w) \<or>
     (bw_trace w' = bw_trace w @ before @ Call_admit (ledger_request_of ports grant decision input) # after \<and>
      (bw_admissions w' = bw_admissions w \<or>
       (\<exists>effect replayed. bw_admissions w' = (bw_admissions w)(ai_effectId input \<mapsto>
            admitted_entry_of ports grant decision input effect replayed)))))"
  using admit_run [OF assms] by blast


section \<open>Execution\<close>

definition settle_calls :: "broker_call set" where
  "settle_calls = insert Call_evidence (range Call_park \<union> range Call_audit \<union> range Call_complete \<union> range Call_fail)"

lemma settle_calls_iff [simp]:
  "Call_evidence \<in> settle_calls" "Call_park i \<in> settle_calls" "Call_audit i \<in> settle_calls"
  "Call_complete i \<in> settle_calls" "Call_fail i \<in> settle_calls" "Call_execute i \<notin> settle_calls"
  "Call_admit q \<notin> settle_calls"
  by (auto simp: settle_calls_def)

lemma calls_only_settling [calls]:
  "calls_only settle_calls (effect_audit ports admission type severity details)"
  "calls_only settle_calls (parkUnfinishedAdmission ports opts admission reason)"
  "calls_only settle_calls (completeTerminalEffect ports opts admission response)"
  "calls_only settle_calls (failTerminalEffect ports admission failure)"
  "calls_only settle_calls (fail_effect_of ports opts admission failure)"
proof -
  show audit: "calls_only settle_calls (effect_audit ports admission type severity details)" for type severity details
    by (auto simp: effect_audit_def intro!: calls)
  show "calls_only settle_calls (parkUnfinishedAdmission ports opts admission reason)"
    by (auto simp: parkUnfinishedAdmission_def broker_throw_def intro!: calls audit)
  show "calls_only settle_calls (completeTerminalEffect ports opts admission response)"
    by (auto simp: completeTerminalEffect_def persist_failed_def broker_throw_def Let_def intro!: calls split: option.split)
  show fail: "calls_only settle_calls (failTerminalEffect ports admission failure)"
    by (auto simp: failTerminalEffect_def persist_failed_def broker_throw_def Let_def intro!: calls split: option.split)
  show "calls_only settle_calls (fail_effect_of ports opts admission failure)"
    by (auto simp: fail_effect_of_def intro!: calls fail)
qed

lemma calls_only_unparked [calls]: "calls_only C m \<Longrightarrow> calls_only C (unparked m)"
  by (auto simp: unparked_def intro!: calls)

lemma calls_only_replay [calls]: "calls_only settle_calls (replay_attempt ports opts admission)"
  by (auto simp: replay_attempt_def intro!: calls)

lemma calls_only_settle_error [calls]: "calls_only settle_calls (settle_error ports opts admission thrown parked)"
  by (cases thrown) (auto simp: settle_error_def settle_adapter_error_def broker_throw_def Let_def intro!: calls)

text \<open>One execution at most, first of all, and only for a fresh admission of this worker.\<close>

lemma fresh_attempt_run:
  assumes "fresh_attempt ports opts admission t w = (r, w')"
  shows "\<exists>w1. bw_trace w1 = bw_trace w @ [Call_execute (ad_effectId admission)] \<and>
    bw_admissions w1 = bw_admissions w \<and> extends settle_calls w1 w'"
proof -
  obtain outcome outside where o: "bp_execute ports admission t (bw_outside w) = (outcome, outside)" by fastforce
  define w1 where "w1 = w\<lparr>bw_trace := bw_trace w @ [Call_execute (ad_effectId admission)], bw_outside := outside\<rparr>"
  have "unparked (run_executor ports admission t) w = (Inr outcome, w1)"
    using o by (simp add: unparked_def run_executor_def js_catch_def call_def w1_def)
  then have rest: "(case outcome of
       Hard_timeout \<Rightarrow> js_throw (EffectBrokerError ''EFFECT_EXECUTION_TIMEOUT''
         [(''effectId'', JStr (ad_kernelEffectId admission)), (''timeoutMs'', JNum t)], False)
     | Raised error \<Rightarrow> js_throw (error, False)
     | Responded response \<Rightarrow>
         js_bind (unparked (completeTerminalEffect ports opts admission response)) (\<lambda>committed.
         if \<not> committed
         then js_bind (unparked (parkUnfinishedAdmission ports opts admission
                 ''Kernel rejected completion after external executor returned'')) (\<lambda>_.
              js_throw (EffectBrokerError ''COMPLETION_UNCONFIRMED'' [], True))
         else js_bind (unparked (effect_audit ports admission ''effect.completed'' ''low''
                 [(''policyDecisionId'', JStr (pd_decisionId (ad_decision admission)))])) (\<lambda>_.
              js_return \<lparr>xr_effectId = ad_kernelEffectId admission, xr_replayed = False, xr_response = Some response\<rparr>))) w1 = (r, w')"
    using assms by (simp add: fresh_attempt_def js_bind_def)
  have "extends settle_calls w1 w'"
    using rest by (cases outcome) (auto elim!: calls_onlyD [rotated] intro!: calls)
  then show ?thesis by (intro exI [of _ w1]) (simp add: w1_def)
qed

lemma attempt_run:
  assumes "attempt ports opts admission t w = (r, w')"
  shows "extends settle_calls w w' \<or>
    (\<not> ad_replayed admission \<and> assertWorkerAffinity opts admission = None \<and>
     (\<exists>w1. bw_trace w1 = bw_trace w @ [Call_execute (ad_effectId admission)] \<and>
        bw_admissions w1 = bw_admissions w \<and> extends settle_calls w1 w'))"
proof (cases "assertWorkerAffinity opts admission = None \<and> \<not> ad_replayed admission")
  case True
  then show ?thesis using assms by (auto simp: attempt_def dest: fresh_attempt_run)
next
  case False
  then show ?thesis
    using assms by (auto simp: attempt_def js split: option.splits if_splits dest: calls_onlyD [OF calls_only_replay])
qed

lemma executeAdmitted_run:
  assumes "executeAdmitted ports opts effectId timeout w = (r, w')" and "bw_admissions w effectId = Some admission"
  shows "bw_admissions w' = (bw_admissions w)(effectId := None) \<and>
    (\<exists>cs. set cs \<subseteq> settle_calls \<and>
      (bw_trace w' = bw_trace w @ cs \<or>
       (\<not> ad_replayed admission \<and> assertWorkerAffinity opts admission = None \<and>
        bw_trace w' = bw_trace w @ Call_execute (ad_effectId admission) # cs)))"
proof -
  obtain v where v: "js_catch (attempt ports opts admission (nullish timeout 30000))
      (\<lambda>thrown. settle_error ports opts admission (fst thrown) (snd thrown)) w = (r, v)"
    and w': "w' = v\<lparr>bw_admissions := (bw_admissions v)(effectId := None)\<rparr>"
    using assms by (auto simp: executeAdmitted_def js_bind_def js_read_def js_finally_iff)
  obtain x u where a: "attempt ports opts admission (nullish timeout 30000) w = (x, u)" by fastforce
  have "extends settle_calls u v"
    using v a by (auto simp: js_catch_def split: sum.splits dest: calls_onlyD [OF calls_only_settle_error])
  then show ?thesis
    using attempt_run [OF a] unfolding extends_def w' by auto (metis append.assoc append_Cons append_Nil le_sup_iff set_append)+
qed

section \<open>Settling\<close>

lemma settle_error_throws:
  "settle_error ports opts admission thrown parked w = (r, w') \<Longrightarrow> \<exists>e. r = Inl e"
  by (cases thrown) (auto simp: settle_error_def settle_adapter_error_def broker_throw_def Let_def js split: if_splits)

text \<open>\<open>settled k w w'\<close>: between \<open>w\<close> and \<open>w'\<close> the kernel was told of the outcome of the effect \<open>k\<close>.\<close>

definition settled :: "string \<Rightarrow> 'w broker_world \<Rightarrow> 'w broker_world \<Rightarrow> bool" where
  "settled k w w' \<longleftrightarrow> (\<exists>cs. bw_trace w' = bw_trace w @ cs \<and>
     set cs \<inter> {Call_complete k, Call_fail k, Call_park k} \<noteq> {})"

lemma settled_then: "settled k w w1 \<Longrightarrow> extends C w1 w' \<Longrightarrow> settled k w w'"
  unfolding settled_def extends_def by fastforce

lemma then_settled: "extends C w w1 \<Longrightarrow> settled k w1 w' \<Longrightarrow> settled k w w'"
  unfolding settled_def extends_def by fastforce

lemma call_settles:
  "call (Call_complete k) port w = (r, w') \<Longrightarrow> settled k w w'"
  "call (Call_fail k) port w = (r, w') \<Longrightarrow> settled k w w'"
  "call (Call_park k) port w = (r, w') \<Longrightarrow> settled k w w'"
  by (auto simp: call_def settled_def split: prod.splits)

lemma evidence_settles: "call Call_evidence port w = (x, v) \<Longrightarrow> settled k v w' \<Longrightarrow> settled k w w'"
  by (rule then_settled [OF calls_onlyD [OF calls_only_call [where C = UNIV]]]) auto

lemma park_settles:
  assumes "parkUnfinishedAdmission ports opts admission reason w = (r, w')"
    and "bp_markEffectCompletionUnknown ports = Some park"
  shows "settled (ad_kernelEffectId admission) w w'"
  using assms
  by (auto simp: parkUnfinishedAdmission_def js_catch_iff dest: call_settles(3)
      intro: settled_then [OF call_settles(3) calls_onlyD [OF calls_only_settling(1)]])

lemma complete_settles:
  "completeTerminalEffect ports opts admission response w = (Inr b, w') \<Longrightarrow> settled (ad_kernelEffectId admission) w w'"
  by (auto simp: completeTerminalEffect_def persist_failed_def broker_throw_def Let_def js
      intro: call_settles(1) evidence_settles [OF _ call_settles(1)] split: if_splits option.splits)

lemma fail_settles:
  assumes "fail_effect_of ports opts admission failure w = (Inr True, w')"
  shows "settled (ad_kernelEffectId admission) w w'"
  using assms
  by (auto simp: fail_effect_of_def failTerminalEffect_def persist_failed_def broker_throw_def Let_def js
      intro: call_settles(2) evidence_settles [OF _ call_settles(2)] split: if_splits option.splits)

lemma fail_throws:
  assumes "fail_effect_of ports opts admission failure w = (Inl e, w')"
  shows "settled (ad_kernelEffectId admission) w w' \<or>
    (bo_evidenceSigner opts \<and> e = EffectBrokerError ''EVIDENCE_PERSIST_FAILED'' [(''effectId'', JStr (ad_kernelEffectId admission))])"
  using assms
  by (auto simp: fail_effect_of_def failTerminalEffect_def persist_failed_def broker_throw_def Let_def js
      intro: call_settles(2) split: if_splits option.splits)

lemma settle_error_settles:
  assumes "settle_error ports opts admission thrown False w = (r, w')"
    and park: "bp_markEffectCompletionUnknown ports = Some park" and "ad_effectState admission = ''ADMITTED''"
  shows "settled (ad_kernelEffectId admission) w w' \<or>
    (bo_evidenceSigner opts \<and>
     r = Inl (EffectBrokerError ''EVIDENCE_PERSIST_FAILED'' [(''effectId'', JStr (ad_kernelEffectId admission))]))"
proof (cases thrown)
  case (AdapterExecutionError e)
  note failed = calls_onlyD [OF calls_only_settling(5)]
  let ?park = "js_bind (parkUnfinishedAdmission ports opts admission (ax_code e))
            (\<lambda>_. broker_throw ''COMPLETION_UNKNOWN'' (adapter_details admission e))"
  have parked: "?park v = (r, w') \<Longrightarrow> settled (ad_kernelEffectId admission) v w'" for v
    using park by (auto simp: js_bind_iff broker_throw_def js_throw_iff dest: park_settles)
  from assms AdapterExecutionError have run: "settle_adapter_error ports opts admission e w = (r, w')"
    by (simp add: settle_error_def)
  show ?thesis
  proof (cases "ax_commitState e = Not_committed")
    case True
    with run consider e' where "fail_effect_of ports opts admission (failure_of e) w = (Inl e', w')" "r = Inl e'"
      | v where "fail_effect_of ports opts admission (failure_of e) w = (Inr False, v)" "?park v = (r, w')"
      | "fail_effect_of ports opts admission (failure_of e) w = (Inr True, w')"
      by (auto simp: settle_adapter_error_def Let_def js_bind_iff [of "fail_effect_of ports opts admission (failure_of e)"]
          broker_throw_def js_throw_iff split: if_splits)
    then show ?thesis
      by cases (auto dest: fail_throws fail_settles intro: then_settled [OF failed parked])
  next
    case False
    with run show ?thesis by (auto simp: settle_adapter_error_def Let_def dest: parked)
  qed
qed (use assms in \<open>auto simp: settle_error_def broker_throw_def js dest: park_settles [OF _ park] split: if_splits\<close>)

text \<open>The world in which the executor has answered.\<close>

definition executed :: "('w, 'ev) broker_ports \<Rightarrow> admitted_entry \<Rightarrow> int \<Rightarrow> 'w broker_world \<Rightarrow> 'w broker_world" where
  "executed ports admission t w = w\<lparr>bw_trace := bw_trace w @ [Call_execute (ad_effectId admission)],
     bw_outside := snd (bp_execute ports admission t (bw_outside w))\<rparr>"

lemma extends_executed: "extends UNIV w (executed ports admission t w)"
  by (simp add: extends_def executed_def)

lemma run_executor_eq:
  "run_executor ports admission t w = (Inr (fst (bp_execute ports admission t (bw_outside w))), executed ports admission t w)"
  by (simp add: run_executor_def call_def executed_def split: prod.split)

lemma unparked_iff: "unparked m w = (r, w') \<longleftrightarrow>
    (\<exists>x. m w = (Inr x, w') \<and> r = Inr x) \<or> (\<exists>e. m w = (Inl e, w') \<and> r = Inl (e, False))"
  by (auto simp: unparked_def js)

lemma fresh_attempt_returns:
  assumes "fresh_attempt ports opts admission t w = (Inr x, w')"
  shows "settled (ad_kernelEffectId admission) w w' \<and>
    (\<exists>response v. fst (bp_execute ports admission t (bw_outside w)) = Responded response \<and>
       completeTerminalEffect ports opts admission response (executed ports admission t w) = (Inr True, v) \<and>
       xr_response x = Some response \<and> \<not> xr_replayed x)"
proof -
  obtain response v v' where c: "fst (bp_execute ports admission t (bw_outside w)) = Responded response"
      "completeTerminalEffect ports opts admission response (executed ports admission t w) = (Inr True, v)"
      "xr_response x = Some response" "\<not> xr_replayed x"
    and audit: "effect_audit ports admission ''effect.completed'' ''low''
       [(''policyDecisionId'', JStr (pd_decisionId (ad_decision admission)))] v = (Inr (), w')"
    using assms by (auto simp: fresh_attempt_def js unparked_iff run_executor_eq split: race_outcome.splits if_splits)
  have "settled (ad_kernelEffectId admission) w w'"
    using then_settled [OF extends_executed settled_then [OF complete_settles [OF c(2)] calls_onlyD [OF calls_only_settling(1) audit]]] .
  with c show ?thesis by blast
qed

lemma fresh_attempt_parked:
  assumes "fresh_attempt ports opts admission t w = (Inl (e, True), w')" and "bp_markEffectCompletionUnknown ports = Some park"
  shows "settled (ad_kernelEffectId admission) w w'"
proof -
  obtain response v where "completeTerminalEffect ports opts admission response (executed ports admission t w) = (Inr False, v)"
    and "parkUnfinishedAdmission ports opts admission ''Kernel rejected completion after external executor returned'' v = (Inr (), w')"
    using assms(1) by (auto simp: fresh_attempt_def js unparked_iff run_executor_eq split: race_outcome.splits if_splits)
  then show ?thesis
    using then_settled [OF extends_executed then_settled [OF calls_onlyD [OF calls_only_settling(3)] park_settles [OF _ assms(2)]]] by blast
qed

lemma extends_UNIV: "extends C w w' \<Longrightarrow> extends UNIV w w'"
  by (auto simp: extends_def)

lemma attempt_extends: "attempt ports opts admission t w = (r, w') \<Longrightarrow> extends UNIV w w'"
  using attempt_run [of ports opts admission t w r w'] by (auto simp: extends_def)

text \<open>
  C8: an execution settles its effect. When a fresh handle is executed and the kernel offers the
  parking of unknown outcomes, the handle is gone afterwards, and the kernel was told of the outcome
  (complete, fail or park was called for the effect) whatever the executor did (answered, threw any
  error, timed out) and whatever the ports threw; the only exception is a signer whose evidence of a
  failure could not be persisted, which surfaces as EVIDENCE_PERSIST_FAILED. Success is reported
  only for the executor's own response, after the kernel confirmed its completion.
\<close>

theorem execution_settles_effect:
  assumes run: "executeAdmitted ports opts effectId timeout w = (r, w')"
    and entry: "bw_admissions w effectId = Some admission"
    and fresh: "\<not> ad_replayed admission" "ad_effectState admission = ''ADMITTED''"
    and park: "bp_markEffectCompletionUnknown ports = Some park"
  shows "bw_admissions w' = (bw_admissions w)(effectId := None) \<and>
    (settled (ad_kernelEffectId admission) w w' \<or>
     (bo_evidenceSigner opts \<and>
      r = Inl (EffectBrokerError ''EVIDENCE_PERSIST_FAILED'' [(''effectId'', JStr (ad_kernelEffectId admission))]))) \<and>
    (\<forall>x. r = Inr x \<longrightarrow> (\<exists>response v.
       fst (bp_execute ports admission (nullish timeout 30000) (bw_outside w)) = Responded response \<and>
       completeTerminalEffect ports opts admission response (executed ports admission (nullish timeout 30000) w) = (Inr True, v) \<and>
       xr_response x = Some response))"
proof -
  let ?t = "nullish timeout 30000" and ?k = "ad_kernelEffectId admission"
  have gone: "bw_admissions w' = (bw_admissions w)(effectId := None)"
    using executeAdmitted_run [OF run entry] by blast
  obtain v where v: "js_catch (attempt ports opts admission ?t)
      (\<lambda>thrown. settle_error ports opts admission (fst thrown) (snd thrown)) w = (r, v)"
    and "w' = v\<lparr>bw_admissions := (bw_admissions v)(effectId := None)\<rparr>"
    using run entry by (auto simp: executeAdmitted_def js_bind_def js_read_def js_finally_iff)
  then have trace: "settled ?k w w' \<longleftrightarrow> settled ?k w v" by (simp add: settled_def)
  obtain outcome u where a: "attempt ports opts admission ?t w = (outcome, u)" by fastforce
  have violation: "snd thrown = False" if "outcome = Inl thrown" "assertWorkerAffinity opts admission \<noteq> None" for thrown
    using a that by (auto simp: attempt_def js)
  have attempted: "fresh_attempt ports opts admission ?t w = (outcome, u)" if "assertWorkerAffinity opts admission = None"
    using a that fresh by (simp add: attempt_def)
  show ?thesis
  proof (cases outcome)
    case (Inr x)
    then have "r = Inr x" "u = v" using v a by (auto simp: js_catch_iff)
    moreover have "assertWorkerAffinity opts admission = None"
      using a Inr by (auto simp: attempt_def js split: option.splits)
    ultimately show ?thesis
      using gone trace Inr fresh_attempt_returns [of ports opts admission ?t w x u] attempted by auto
  next
    case (Inl thrown)
    then have settle: "settle_error ports opts admission (fst thrown) (snd thrown) u = (r, v)"
      using v a by (auto simp: js_catch_iff)
    have fails: "r \<noteq> Inr x" for x using settle_error_throws [OF settle] by blast
    show ?thesis
    proof (cases "snd thrown")
      case True
      then have "settled ?k w u"
        using violation [OF Inl] attempted Inl fresh_attempt_parked [OF _ park] by (metis prod.collapse)
      then have "settled ?k w v"
        using settled_then calls_onlyD [OF calls_only_settle_error settle] by blast
      then show ?thesis using gone trace fails by simp
    next
      case False
      then have "settled ?k u v \<or> (bo_evidenceSigner opts \<and>
          r = Inl (EffectBrokerError ''EVIDENCE_PERSIST_FAILED'' [(''effectId'', JStr ?k)]))"
        using settle_error_settles [OF _ park fresh(2)] settle by simp
      then show ?thesis
        using then_settled [OF attempt_extends [OF a]] gone trace fails by blast
    qed
  qed
qed

section \<open>Histories of a broker\<close>

datatype broker_op =
    Admit_op broker_options admit_input
  | Execute_op broker_options string "int option"
  | Both_op broker_options admit_input "int option"

primrec broker_after :: "('w, 'ev) broker_ports \<Rightarrow> broker_op \<Rightarrow> 'w broker_world \<Rightarrow> 'w broker_world" where
  "broker_after ports (Admit_op opts input) w = snd (admit ports opts input w)"
| "broker_after ports (Execute_op opts effectId timeout) w = snd (executeAdmitted ports opts effectId timeout w)"
| "broker_after ports (Both_op opts input timeout) w = snd (execute ports opts input timeout w)"

definition new_broker :: "'w \<Rightarrow> 'w broker_world" where
  "new_broker outside = \<lparr>bw_admissions = Map.empty, bw_trace = [], bw_outside = outside\<rparr>"

definition executions :: "string \<Rightarrow> broker_call list \<Rightarrow> nat" where
  "executions effectId cs = length (filter (\<lambda>c. c = Call_execute effectId) cs)"

definition admissions :: "string \<Rightarrow> broker_call list \<Rightarrow> nat" where
  "admissions effectId cs = length (filter (\<lambda>c. case c of Call_admit q \<Rightarrow> lq_id q = effectId | _ \<Rightarrow> False) cs)"

definition covered :: "'w broker_world \<Rightarrow> bool" where
  "covered w \<longleftrightarrow> (\<forall>i. executions i (bw_trace w) + (if bw_admissions w i = None then 0 else 1) \<le> admissions i (bw_trace w)) \<and>
     (\<forall>i entry. bw_admissions w i = Some entry \<longrightarrow> ad_effectId entry = i)"

lemma counts_append [simp]:
  "executions i (cs @ ds) = executions i cs + executions i ds"
  "admissions i (cs @ ds) = admissions i cs + admissions i ds"
  by (simp_all add: executions_def admissions_def)

lemma counts_Cons [simp]:
  "executions i (c # cs) = (if c = Call_execute i then 1 else 0) + executions i cs"
  "admissions i (Call_admit q # cs) = (if lq_id q = i then 1 else 0) + admissions i cs"
  by (simp_all add: executions_def admissions_def)

lemma no_executions: "set cs \<subseteq> gate_calls \<or> set cs \<subseteq> settle_calls \<Longrightarrow> executions i cs = 0"
  by (induction cs) (auto simp: executions_def)

lemma covered_admit:
  assumes "covered w" and "admit ports opts input w = (r, w')"
  shows "covered w'"
proof -
  obtain before after grant decision where cs: "set before \<subseteq> gate_calls" "set after \<subseteq> gate_calls"
    and run: "(bw_trace w' = bw_trace w @ before \<and> bw_admissions w' = bw_admissions w) \<or>
     (bw_trace w' = bw_trace w @ before @ Call_admit (ledger_request_of ports grant decision input) # after \<and>
      (bw_admissions w' = bw_admissions w \<or>
       (\<exists>effect replayed. bw_admissions w' = (bw_admissions w)(ai_effectId input \<mapsto>
            admitted_entry_of ports grant decision input effect replayed))))"
    using admit_shape [OF assms(2)] by blast
  have none: "executions i before = 0" "executions i after = 0" for i
    using cs by (simp_all add: no_executions)
  have id: "lq_id (ledger_request_of ports grant decision input) = ai_effectId input"
    by (simp add: ledger_request_of_def)
  have "executions i (bw_trace w') + (if bw_admissions w' i = None then 0 else 1) \<le> admissions i (bw_trace w')" for i
  proof -
    have "executions i (bw_trace w) + (if bw_admissions w i = None then 0 else 1) \<le> admissions i (bw_trace w)"
      using assms(1) by (auto simp: covered_def)
    then show ?thesis
      using run none [of i] id by (elim disjE conjE exE) (auto split: if_splits)
  qed
  moreover have "bw_admissions w' i = Some entry \<Longrightarrow> ad_effectId entry = i" for i entry
    using assms(1) run by (auto simp: covered_def admitted_entry_of_def split: if_splits)
  ultimately show ?thesis by (simp add: covered_def)
qed

lemma covered_executeAdmitted:
  assumes "covered w" and "executeAdmitted ports opts effectId timeout w = (r, w')"
  shows "covered w'"
proof (cases "bw_admissions w effectId")
  case None
  then have "w' = w" using assms(2) by (auto simp: executeAdmitted_def broker_throw_def js)
  with assms(1) show ?thesis by simp
next
  case (Some admission)
  then obtain cs where cs: "set cs \<subseteq> settle_calls" "bw_admissions w' = (bw_admissions w)(effectId := None)"
      "bw_trace w' = bw_trace w @ cs \<or> bw_trace w' = bw_trace w @ Call_execute (ad_effectId admission) # cs"
    using executeAdmitted_run [OF assms(2)] by blast
  have none: "executions i cs = 0" for i using cs(1) by (simp add: no_executions)
  have own: "ad_effectId admission = effectId" using assms(1) Some by (auto simp: covered_def)
  have "executions i (bw_trace w') + (if bw_admissions w' i = None then 0 else 1) \<le> admissions i (bw_trace w')" for i
  proof -
    have "executions i (bw_trace w) + (if bw_admissions w i = None then 0 else 1) \<le> admissions i (bw_trace w)"
      using assms(1) by (auto simp: covered_def)
    moreover have "admissions i (bw_trace w) \<le> admissions i (bw_trace w')"
      using cs(3) by (auto simp: admissions_def)
    ultimately show ?thesis
      using cs(2,3) none own Some by (auto split: if_splits)
  qed
  moreover have "bw_admissions w' i = Some entry \<Longrightarrow> ad_effectId entry = i" for i entry
    using assms(1) cs(2) by (auto simp: covered_def split: if_splits)
  ultimately show ?thesis by (simp add: covered_def)
qed

lemma covered_execute:
  assumes "covered w" and "execute ports opts input timeout w = (r, w')"
  shows "covered w'"
  using assms(2) covered_admit [OF assms(1)] covered_executeAdmitted
  by (auto simp: execute_def broker_throw_def js split: if_splits) blast+

lemma covered_step: "covered w \<Longrightarrow> covered (broker_after ports op w)"
  by (cases op) (auto intro: covered_admit covered_executeAdmitted covered_execute prod.collapse [symmetric])


section \<open>A broker at work\<close>

definition worker_lease :: lease_ref where
  "worker_lease = \<lparr>lr_workerId = ''w'', lr_workerGeneration = Some 1, lr_token = ''l'', lr_fencingEpoch = 1\<rparr>"

definition broker_grant :: capability_grant where
  "broker_grant = \<lparr>gr_jti = ''j'', gr_tenantId = ''t'', gr_runId = ''r'', gr_stepId = ''a'',
     gr_effectTypes = [''llm.chat''], gr_expiresAt = Iso 900, gr_issuer = None, gr_audience = Some ''broker'',
     gr_issuedAt = None, gr_notBefore = None, gr_keyId = None, gr_policySnapshotId = None,
     gr_requestHash = None, gr_actionDigest = None, gr_workloadId = None, gr_workerId = Some ''w'',
     gr_workerGeneration = Some 1, gr_nonce = None, gr_policyDecisionId = None,
     gr_authorizationId = None, gr_requestId = None, gr_adapterVersion = None,
     gr_decisionEffect = None, gr_approvalBinding = Approval_undefined\<rparr>"

definition demo_decision :: policy_decision where
  "demo_decision = \<lparr>pd_effect = D_allow, pd_decisionId = ''d'', pd_reason = [], pd_policySnapshotId = ''p''\<rparr>"

text \<open>The outside counts the parked effects; the executor times out.\<close>

definition demo_ports :: "(nat, unit) broker_ports" where
  "demo_ports = \<lparr>bp_now = (\<lambda>_. 0), bp_hash = (\<lambda>s. s), bp_verify = (\<lambda>_. js_return broker_grant),
     bp_evaluate = (\<lambda>_. js_return demo_decision), bp_createApproval = None, bp_isActionAllowed = None,
     bp_getQuota = None, bp_incrementQuota = None, bp_getOperationsReadiness = None,
     bp_admitEffect = (\<lambda>q. js_return \<lparr>la_admitted = True, la_replayed = False, la_reason = None,
        la_effect = Some \<lparr>le_id = lq_id q, le_state = ''ADMITTED'', le_response = None\<rparr>\<rparr>),
     bp_completeEffect = (\<lambda>_ _. js_return True), bp_completeWithEvidence = None, bp_completeCompensation = None,
     bp_failEffect = None, bp_failWithEvidence = None, bp_failCompensation = None,
     bp_compensationTerminalEvidenceRequired = False,
     bp_markEffectCompletionUnknown = Some (\<lambda>_ _ _ _ _. js_modify Suc), bp_buildEvidence = (\<lambda>_ _. js_return ()),
     bp_execute = (\<lambda>_ _ n. (Hard_timeout, n)), bp_audit = (\<lambda>_. js_return ())\<rparr>"

definition demo_options :: broker_options where
  "demo_options = \<lparr>bo_audience = ''broker'', bo_requireRequestBinding = False, bo_maxCountPerDay = None,
     bo_localWorkerId = Some ''w'', bo_localWorkerGeneration = Some 1, bo_requireOperationsReadiness = False,
     bo_idempotencyKeyPolicy = Caller_key, bo_evidenceSigner = False, bo_production = False\<rparr>"

definition demo_input :: admit_input where
  "demo_input = \<lparr>ai_effectId = ''e'', ai_token = ''token'', ai_type = ''llm.chat'', ai_request = JObj [],
     ai_idempotencyKey = ''k'', ai_lease = worker_lease, ai_actor = ''w'', ai_workloadBinding = None,
     ai_compensationClaim = None\<rparr>"

definition demo_entry :: admitted_entry where
  "demo_entry = \<lparr>ad_effectId = ''e'', ad_actionDigest = ''x'', ad_grant = broker_grant, ad_decision = demo_decision,
     ad_type = ''llm.chat'', ad_idempotencyKey = ''k'', ad_request = JObj [], ad_lease = worker_lease, ad_actor = ''w'',
     ad_kernelEffectId = ''e'', ad_replayed = False, ad_effectState = ''ADMITTED'', ad_cachedResponse = None,
     ad_compensationClaim = None\<rparr>"

definition demo_world :: "nat broker_world" where
  "demo_world = (new_broker 0)\<lparr>bw_admissions := [''e'' \<mapsto> demo_entry]\<rparr>"

definition was_admitted :: "broker_error + admission_result \<Rightarrow> bool" where
  "was_admitted r = (case r of Inl _ \<Rightarrow> False | Inr x \<Rightarrow> ar_admitted x)"

lemma demo_is_admitted: "was_admitted (fst (admit demo_ports demo_options demo_input (new_broker 0)))"
  by code_simp


theorem execution_settles_effect_witness:
  "\<exists>r w'. executeAdmitted demo_ports demo_options ''e'' None demo_world = (r, w') \<and>
     bw_admissions w' ''e'' = None \<and> settled ''e'' demo_world w'"
proof -
  obtain r w' where run: "executeAdmitted demo_ports demo_options ''e'' None demo_world = (r, w')" by fastforce
  moreover have "bw_admissions demo_world ''e'' = Some demo_entry"
    by (simp add: demo_world_def)
  moreover have "\<not> ad_replayed demo_entry" "ad_effectState demo_entry = ''ADMITTED''" "ad_kernelEffectId demo_entry = ''e''"
    by (simp_all add: demo_entry_def)
  moreover have "bp_markEffectCompletionUnknown demo_ports = Some (\<lambda>_ _ _ _ _. js_modify Suc)"
    by (simp add: demo_ports_def)
  moreover have "\<not> bo_evidenceSigner demo_options"
    by (simp add: demo_options_def)
  ultimately show ?thesis
    using execution_settles_effect [OF run] by auto
qed

end
