(* ===== verification/JS_Regex.thy ===== *)
theory JS_Regex
  imports JS_Strings
begin

text \<open>
  The regular expressions of the source: literal texts, character classes with a repetition count,
  alternatives, sequences and word boundaries. A match is sought from every position of the text,
  as \<open>RegExp.prototype.test\<close> does; which of several matches is found does not matter to a test, so a
  position is mapped to the list of all positions where a match that starts there can end. An
  expression with the flag \<open>i\<close> is written in lower case and applied to the lower-case text.
\<close>

text \<open>A position: the character before it, if there is one, and the rest of the text.\<close>

type_synonym position = "char option \<times> string"

datatype regex =
    Text string
  | Exactly "char \<Rightarrow> bool" nat
  | AtLeast "char \<Rightarrow> bool" nat
  | Boundary
  | Alt regex regex
  | Seq regex regex

definition advance :: "nat \<Rightarrow> position \<Rightarrow> position" where
  "advance n pos = (if n = 0 then pos else (Some (snd pos ! (n - 1)), drop n (snd pos)))"

definition is_word :: "char \<Rightarrow> bool" where
  "is_word c \<longleftrightarrow> (48 \<le> char_code c \<and> char_code c \<le> 57) \<or> (65 \<le> char_code c \<and> char_code c \<le> 90) \<or>
     (97 \<le> char_code c \<and> char_code c \<le> 122) \<or> char_code c = 95"

definition at_boundary :: "position \<Rightarrow> bool" where
  "at_boundary pos \<longleftrightarrow>
     (case fst pos of None \<Rightarrow> False | Some c \<Rightarrow> is_word c) \<noteq> (case snd pos of [] \<Rightarrow> False | c # _ \<Rightarrow> is_word c)"

primrec ends :: "regex \<Rightarrow> position \<Rightarrow> position list" where
  "ends (Text t) pos = (if starts_with (snd pos) t then [advance (length t) pos] else [])"
| "ends (Exactly C n) pos = (if n \<le> length (takeWhile C (snd pos)) then [advance n pos] else [])"
| "ends (AtLeast C n) pos = map (\<lambda>k. advance k pos) [n..<Suc (length (takeWhile C (snd pos)))]"
| "ends Boundary pos = (if at_boundary pos then [pos] else [])"
| "ends (Alt a b) pos = ends a pos @ ends b pos"
| "ends (Seq a b) pos = concat (map (ends b) (ends a pos))"

definition test :: "regex \<Rightarrow> string \<Rightarrow> bool" where
  "test r s \<longleftrightarrow> list_ex (\<lambda>i. ends r (advance i (None, s)) \<noteq> []) [0..<Suc (length s)]"

lemma advance_0 [simp]: "advance 0 pos = pos"
  by (simp add: advance_def)

lemma test_Alt [simp]: "test (Alt a b) s \<longleftrightarrow> test a s \<or> test b s"
  by (auto simp: test_def list_ex_iff)

text \<open>A literal text is found where it occurs.\<close>

fun occurs :: "string \<Rightarrow> string \<Rightarrow> bool" where
  "occurs t [] \<longleftrightarrow> t = []"
| "occurs t (c # s) \<longleftrightarrow> starts_with (c # s) t \<or> occurs t s"

lemma occurs_iff: "occurs t s \<longleftrightarrow> (\<exists>i < Suc (length s). starts_with (drop i s) t)"
proof (induction s)
  case (Cons c s)
  show ?case
    unfolding occurs.simps Cons.IH length_Cons Ex_less_Suc2 [of "Suc (length s)"] drop_0 drop_Suc_Cons ..
qed (auto simp: starts_with_iff)

lemma test_Text: "test (Text t) s \<longleftrightarrow> occurs t s"
proof -
  have "ends (Text t) (advance i (None, s)) \<noteq> [] \<longleftrightarrow> starts_with (drop i s) t" for i
    by (simp add: advance_def)
  then show ?thesis by (simp only: test_def occurs_iff list_ex_iff set_upt atLeastLessThan_iff Bex_def) auto
qed

section \<open>Literals a match needs\<close>

text \<open>Every match of an expression contains one of these texts.\<close>

primrec mandatory :: "regex \<Rightarrow> string list" where
  "mandatory (Text t) = [t]"
| "mandatory (Exactly _ _) = [[]]"
| "mandatory (AtLeast _ _) = [[]]"
| "mandatory Boundary = [[]]"
| "mandatory (Alt a b) = mandatory a @ mandatory b"
| "mandatory (Seq a b) = (if [] \<in> set (mandatory a) then mandatory b else mandatory a)"

lemma occurs_append: "occurs t s \<longleftrightarrow> (\<exists>u v. s = u @ t @ v)"
proof -
  have "(\<exists>i < Suc (length s). starts_with (drop i s) t) \<longleftrightarrow> (\<exists>u v. s = u @ t @ v)"
  proof
    assume "\<exists>i < Suc (length s). starts_with (drop i s) t"
    then show "\<exists>u v. s = u @ t @ v" unfolding starts_with_iff by (metis append_take_drop_id)
  next
    assume "\<exists>u v. s = u @ t @ v"
    then obtain u v where "s = u @ t @ v" by blast
    then show "\<exists>i < Suc (length s). starts_with (drop i s) t"
      by (intro exI [of _ "length u"]) simp
  qed
  then show ?thesis by (simp only: occurs_iff)
qed

lemma drop_is_suffix: "\<exists>u. s = u @ drop n s"
  by (metis append_take_drop_id)

text \<open>A position that was reached holds a rest of the text.\<close>

lemma ends_suffix: "pos' \<in> set (ends r pos) \<Longrightarrow> \<exists>u. snd pos = u @ snd pos'"
proof (induction r arbitrary: pos pos')
  case (Alt a b)
  then show ?case by (metis Un_iff ends.simps(5) set_append)
next
  case (Seq a b)
  from Seq.prems obtain mid where "mid \<in> set (ends a pos)" "pos' \<in> set (ends b mid)" by auto
  from Seq.IH(1) [OF this(1)] Seq.IH(2) [OF this(2)] show ?case by (metis append_assoc)
qed (auto simp: advance_def drop_is_suffix split: if_splits)

lemma mandatory_occurs: "ends r pos \<noteq> [] \<Longrightarrow> \<exists>t \<in> set (mandatory r). occurs t (snd pos)"
proof (induction r arbitrary: pos)
  case (Text t)
  then show ?case by (auto simp: starts_with_iff occurs_append split: if_splits)
next
  case (Seq a b)
  from Seq.prems obtain pos' where pos': "pos' \<in> set (ends a pos)" "ends b pos' \<noteq> []" by auto
  then obtain u where "snd pos = u @ snd pos'" using ends_suffix by blast
  moreover from pos' have "ends a pos \<noteq> []" by auto
  ultimately show ?case
    using Seq.IH(1) [of pos] Seq.IH(2) [OF pos'(2)] by (auto simp: occurs_append) (metis append_assoc)+
next
  case (Alt a b)
  then have "ends a pos \<noteq> [] \<or> ends b pos \<noteq> []" by auto
  then show ?case
    using Alt.IH(1) [of pos] Alt.IH(2) [of pos] by auto
qed (auto simp: occurs_append)

lemma test_mandatory: "test r s \<Longrightarrow> \<exists>t \<in> set (mandatory r). occurs t s"
proof -
  assume "test r s"
  then obtain i where "ends r (advance i (None, s)) \<noteq> []" by (auto simp: test_def list_ex_iff)
  then obtain t where "t \<in> set (mandatory r)" "occurs t (snd (advance i (None, s)))" using mandatory_occurs by blast
  moreover have "s = take i s @ snd (advance i (None, s))" by (simp add: advance_def)
  ultimately show ?thesis unfolding occurs_append by (metis append_assoc)
qed

end
