(* ===== verification/Canonical_Claims.thy ===== *)
theory Canonical_Claims
  imports Canonical_JSON Reconcile_Policy
begin

text \<open>
  The canonical text of a JSON value determines the value, up to the order in which the members of
  its objects were listed: a fingerprint taken over it identifies the request.
\<close>

text \<open>The value with the members of every object in the order of their keys.\<close>

primrec sorted_json :: "json \<Rightarrow> json" where
  "sorted_json JNull = JNull"
| "sorted_json (JBool b) = JBool b"
| "sorted_json (JNum n) = JNum n"
| "sorted_json (JStr s) = JStr s"
| "sorted_json (JArr vs) = JArr (map sorted_json vs)"
| "sorted_json (JObj kvs) = JObj (sort_key fst (map (map_prod id sorted_json) kvs))"

text \<open>The text of a value, with its members in the order they have.\<close>

definition member_text :: "string \<times> string \<Rightarrow> string" where
  "member_text kv = json_string (fst kv) @ '':'' @ snd kv"

primrec plain :: "json \<Rightarrow> string" where
  "plain JNull = ''null''"
| "plain (JBool b) = (if b then ''true'' else ''false'')"
| "plain (JNum n) = show_int n"
| "plain (JStr s) = json_string s"
| "plain (JArr vs) = ''['' @ join_comma (map plain vs) @ '']''"
| "plain (JObj kvs) = ''{'' @ join_comma (map member_text (map (map_prod id plain) kvs)) @ ''}''"

lemma insort_key_map: "(\<And>x. g (f x) = h x) \<Longrightarrow> insort_key g (f x) (map f xs) = map f (insort_key h x xs)"
  by (induction xs) auto

lemma sort_key_map: "(\<And>x. g (f x) = h x) \<Longrightarrow> sort_key g (map f xs) = map f (sort_key h xs)"
  by (induction xs) (auto simp: insort_key_map)

lemma sort_fst_map_snd: "sort_key fst (map (map_prod id f) kvs) = map (map_prod id f) (sort_key fst kvs)"
  by (rule sort_key_map) simp

lemma canonical_plain: "canonical j = plain (sorted_json j)"
proof (induction j)
  case (JObj kvs)
  then have "map (\<lambda>x. json_string (fst x) @ CHR '':'' # canonical (snd x)) (sort_key fst kvs) =
      map (\<lambda>x. json_string (fst x) @ CHR '':'' # plain (sorted_json (snd x))) (sort_key fst kvs)"
    by (intro map_cong) (auto simp: prod_set_defs)
  then have "join_comma (map (\<lambda>x. json_string (fst x) @ CHR '':'' # canonical (snd x)) (sort_key fst kvs)) =
      join_comma (map (\<lambda>x. json_string (fst x) @ CHR '':'' # plain (sorted_json (snd x))) (sort_key fst kvs))"
    by (rule arg_cong)
  then show ?case
    by (simp add: render_members_def sort_fst_map_snd member_text_def case_prod_beta' comp_def prod.map_comp)
qed (auto simp: comp_def intro: arg_cong [where f = join_comma])

section \<open>Strings\<close>

lemma char_code_inject [simp]: "char_code c = char_code d \<longleftrightarrow> c = d"
  by (simp add: char_code_def)

lemma char_code_char_of [simp]: "n < 256 \<Longrightarrow> char_code (char_of n) = n"
  by (simp add: char_code_def take_bit_eq_mod)

lemma hex_digit_inj: "m < 16 \<Longrightarrow> n < 16 \<Longrightarrow> hex_digit m = hex_digit n \<Longrightarrow> m = n"
  by (drule arg_cong [where f = char_code]) (auto simp: hex_digit_def split: if_splits)

text \<open>No character's text is a prefix of another's, and none starts with the quote.\<close>

lemma backslash: "char_of (92::nat) = CHR 0x5C"
  by code_simp

lemma json_char_shape:
  "(json_char c = [c] \<and> char_code c \<noteq> 34 \<and> char_code c \<noteq> 92) \<or>
   (\<exists>d. json_char c = [char_of (92::nat), d] \<and> d \<noteq> CHR ''u'') \<or>
   (json_char c = [char_of (92::nat), CHR ''u'', CHR ''0'', CHR ''0'',
      hex_digit (char_code c div 16), hex_digit (char_code c mod 16)] \<and> char_code c < 32)"
  by (auto simp: json_char_def Let_def backslash)

lemma json_char_cases:
  obtains (plain) "json_char c = [c]" "char_code c \<noteq> 34" "char_code c \<noteq> 92"
  | (short) d where "json_char c = [char_of (92::nat), d]" "d \<noteq> CHR ''u''"
  | (unicode) "json_char c = [char_of (92::nat), CHR ''u'', CHR ''0'', CHR ''0'',
      hex_digit (char_code c div 16), hex_digit (char_code c mod 16)]" "char_code c < 32"
  using json_char_shape [of c] by blast

lemma json_char_short:
  "json_char c = [char_of (92::nat), d] \<Longrightarrow> json_char c' = [char_of (92::nat), d] \<Longrightarrow> c = c'"
  by (auto simp: json_char_def Let_def backslash intro!: char_code_inject [THEN iffD1] split: if_splits)

lemma json_char_prefix_free:
  assumes "json_char c @ u = json_char d @ v" shows "c = d \<and> u = v"
proof -
  have bs: "c \<noteq> char_of (92::nat)" if "char_code c \<noteq> 92" for c using that by auto
  show ?thesis
  proof (cases c rule: json_char_cases)
    case plain
    with assms bs show ?thesis by (cases d rule: json_char_cases) auto
  next
    case (short x)
    with assms bs json_char_short show ?thesis by (cases d rule: json_char_cases) auto
  next
    case unicode
    show ?thesis
    proof (cases d rule: json_char_cases)
      case unicode': unicode
      then have "char_code c div 16 = char_code d div 16" "char_code c mod 16 = char_code d mod 16" "u = v"
        using assms unicode hex_digit_inj [of "char_code c div 16" "char_code d div 16"]
          hex_digit_inj [of "char_code c mod 16" "char_code d mod 16"] by auto
      then have "char_code c = char_code d" by (metis div_mult_mod_eq)
      with \<open>u = v\<close> show ?thesis by simp
    qed (use assms unicode bs in auto)
  qed
qed

lemma json_char_no_quote: "json_char c @ u \<noteq> CHR 0x22 # v"
  by (cases c rule: json_char_cases) (auto simp: backslash char_code_def)

lemma json_string_prefix_free:
  assumes "json_string x @ s = json_string y @ t" shows "x = y \<and> s = t"
proof -
  have "concat (map json_char x) @ CHR 0x22 # s = concat (map json_char y) @ CHR 0x22 # t \<Longrightarrow> x = y \<and> s = t"
  proof (induction x arbitrary: y)
    case Nil
    then show ?case using json_char_no_quote by (cases y) (auto dest: sym)
  next
    case (Cons c x)
    then show ?case
      using json_char_no_quote json_char_prefix_free by (cases y) (auto, blast+)
  qed
  with assms show ?thesis by (simp add: json_string_def)
qed

section \<open>Numbers\<close>

lemma digit_char: "n < 10 \<Longrightarrow> is_digit (char_of (48 + n)) \<and> char_code (char_of (48 + n)) = 48 + n"
  by (simp add: is_digit_def)

lemma show_nat_digits: "list_all is_digit (show_nat n) \<and> show_nat n \<noteq> []"
  by (induction n rule: show_nat.induct) (subst (1 2) show_nat.simps, auto simp: digit_char)

lemma decimal_value_append: "decimal_value acc (xs @ ys) = decimal_value (decimal_value acc xs) ys"
  by (induction xs arbitrary: acc) auto

lemma decimal_value_show: "decimal_value 0 (show_nat n) = n"
proof (induction n rule: show_nat.induct)
  case (1 n)
  then show ?case
    by (subst show_nat.simps) (auto simp: decimal_value_append digit_char)
qed

text \<open>What may follow a number: the end, a comma or a closing bracket.\<close>

definition stops :: "string \<Rightarrow> bool" where
  "stops s \<longleftrightarrow> s = [] \<or> hd s \<in> {CHR '','', CHR '']'', CHR ''}''}"

lemma digits_prefix_free:
  assumes "xs @ s = ys @ t" and "list_all is_digit xs" and "list_all is_digit ys" and "stops s" and "stops t"
  shows "xs = ys \<and> s = t"
proof -
  have "takeWhile is_digit (zs @ r) = zs" if "list_all is_digit zs" "stops r" for zs r
    using that by (auto simp: takeWhile_append stops_def list_all_iff is_digit_def char_code_def takeWhile_eq_Nil_iff)
  then have "xs = ys" using assms by metis
  with assms(1) show ?thesis by simp
qed

lemma show_nat_minus: "show_nat n @ s \<noteq> CHR ''-'' # t"
  using show_nat_digits [of n] by (cases "show_nat n") (auto simp: is_digit_def char_code_def)

lemma show_nat_prefix_free:
  "show_nat m @ s = show_nat n @ t \<Longrightarrow> stops s \<Longrightarrow> stops t \<Longrightarrow> m = n \<and> s = t"
  using digits_prefix_free [of "show_nat m" s "show_nat n" t] show_nat_digits decimal_value_show by metis

lemma show_int_prefix_free:
  assumes "show_int i @ s = show_int j @ t" and "stops s" and "stops t"
  shows "i = j \<and> s = t"
proof (cases "i < 0")
  case True
  then have j: "j < 0" and "show_nat (nat (- i)) @ s = show_nat (nat (- j)) @ t"
    using assms(1) show_nat_minus [of "nat j" t "show_nat (nat (- i)) @ s"] by (auto simp: show_int_def split: if_splits)
  then have "nat (- i) = nat (- j) \<and> s = t" using show_nat_prefix_free assms(2,3) by blast
  then show ?thesis using True j by linarith
next
  case False
  then have j: "\<not> j < 0" and "show_nat (nat i) @ s = show_nat (nat j) @ t"
    using assms(1) show_nat_minus [of "nat i" s "show_nat (nat (- j)) @ t"] by (auto simp: show_int_def split: if_splits)
  then have "nat i = nat j \<and> s = t" using show_nat_prefix_free assms(2,3) by blast
  then show ?thesis using False j by linarith
qed

section \<open>Values\<close>

lemma show_int_hd: "\<exists>c u. show_int i = c # u \<and> (is_digit c \<or> c = CHR ''-'')"
  using show_nat_digits [of "nat i"] by (cases "show_nat (nat i)") (auto simp: show_int_def)

text \<open>The first character of a value's text tells its kind.\<close>

definition kind :: "json \<Rightarrow> char" where
  "kind j = (case j of JNull \<Rightarrow> CHR ''n'' | JBool b \<Rightarrow> if b then CHR ''t'' else CHR ''f'' | JNum _ \<Rightarrow> CHR ''0''
     | JStr _ \<Rightarrow> CHR 0x22 | JArr _ \<Rightarrow> CHR ''['' | JObj _ \<Rightarrow> CHR ''{'')"

definition first_kind :: "char \<Rightarrow> char" where
  "first_kind c = (if is_digit c \<or> c = CHR ''-'' then CHR ''0'' else c)"

lemma plain_first: "\<exists>c u. plain j = c # u \<and> first_kind c = kind j"
  using show_int_hd
  by (cases j) (fastforce simp: kind_def first_kind_def json_string_def is_digit_def char_code_def)+

lemma same_kind: "plain a @ s = plain b @ t \<Longrightarrow> kind a = kind b"
  using plain_first [of a] plain_first [of b] by auto

lemma plain_not_closing: "plain j @ s \<noteq> CHR '']'' # t"
  using plain_first [of j]
  by (auto simp: kind_def first_kind_def is_digit_def char_code_def split: json.splits if_splits)

lemma member_not_closing: "member_text kv @ s \<noteq> CHR ''}'' # t"
  by (simp add: member_text_def json_string_def)

lemma join_comma_Cons: "join_comma (x # xs) = x @ (if xs = [] then [] else CHR '','' # join_comma xs)"
  by (cases xs) auto

text \<open>A bracketed list of prefix-free items is prefix-free.\<close>

lemma join_prefix_free:
  assumes items: "\<And>x y s t. x \<in> set xs \<Longrightarrow> y \<in> set ys \<Longrightarrow> stops s \<Longrightarrow> stops t \<Longrightarrow> f x @ s = f y @ t \<Longrightarrow> x = y \<and> s = t"
    and close: "\<And>x u v. f x @ u \<noteq> c # v" and "c \<in> {CHR '']'', CHR ''}''}"
  shows "join_comma (map f xs) @ c # s = join_comma (map f ys) @ c # t \<Longrightarrow> xs = ys \<and> s = t"
  using items
proof (induction xs arbitrary: ys)
  case Nil
  have "f y @ u \<noteq> c # s" for y u by (rule close)
  then show ?case using Nil by (cases ys) (auto simp: join_comma_Cons dest: sym)
next
  case (Cons x xs)
  show ?case
  proof (cases ys)
    case Nil
    with Cons.prems(1) close show ?thesis by (auto simp: join_comma_Cons)
  next
    case ys: (Cons y ys')
    define r where "r = (if xs = [] then c # s else CHR '','' # join_comma (map f xs) @ c # s)"
    define q where "q = (if ys' = [] then c # t else CHR '','' # join_comma (map f ys') @ c # t)"
    have "f x @ r = f y @ q"
      using Cons.prems(1) ys by (auto simp: join_comma_Cons r_def q_def)
    moreover have "stops r" "stops q"
      using assms(3) by (auto simp: stops_def r_def q_def)
    ultimately have "x = y" "r = q"
      using Cons.prems(2) [of x y r q] ys by auto
    moreover have "join_comma (map f xs) @ c # s = join_comma (map f ys') @ c # t"
      using \<open>r = q\<close> assms(3) by (auto simp: r_def q_def split: if_splits)
    ultimately show ?thesis
      using Cons.IH [of ys'] Cons.prems(2) ys by auto
  qed
qed

lemma plain_prefix_free: "plain a @ s = plain b @ t \<Longrightarrow> stops s \<Longrightarrow> stops t \<Longrightarrow> a = b \<and> s = t"
proof (induction a arbitrary: b s t)
  case JNull
  then show ?case using same_kind [OF JNull(1)] by (cases b) (auto simp: kind_def split: if_splits)
next
  case (JBool x)
  then show ?case using same_kind [OF JBool(1)] by (cases b) (auto simp: kind_def split: if_splits)
next
  case (JNum n)
  then obtain m where b: "b = JNum m" using same_kind [OF JNum(1)] by (cases b) (auto simp: kind_def split: if_splits)
  with JNum(1) have "show_int n @ s = show_int m @ t" by simp
  from show_int_prefix_free [OF this JNum(2,3)] b show ?case by simp
next
  case (JStr x)
  then obtain y where b: "b = JStr y" using same_kind [OF JStr(1)] by (cases b) (auto simp: kind_def split: if_splits)
  with JStr(1) have "json_string x @ s = json_string y @ t" by simp
  from json_string_prefix_free [OF this] b show ?case by simp
next
  case (JArr vs)
  then obtain ws where b: "b = JArr ws" using same_kind [OF JArr(2)] by (cases b) (auto simp: kind_def split: if_splits)
  have "vs = ws \<and> s = t"
    by (rule join_prefix_free [where f = plain and c = "CHR '']''"])
      (use JArr b plain_not_closing in \<open>auto\<close>)
  with b show ?case by simp
next
  case (JObj kvs)
  then obtain lws where b: "b = JObj lws" using same_kind [OF JObj(2)] by (cases b) (auto simp: kind_def split: if_splits)
  have item: "x = y \<and> u = v"
    if "x \<in> set kvs" "stops u" "stops v"
      and eq: "member_text (map_prod id plain x) @ u = member_text (map_prod id plain y) @ v" for x y u v
  proof -
    have "json_string (fst x) @ CHR '':'' # plain (snd x) @ u = json_string (fst y) @ CHR '':'' # plain (snd y) @ v"
      using eq by (simp add: member_text_def)
    then have "fst x = fst y" and tail: "plain (snd x) @ u = plain (snd y) @ v"
      using json_string_prefix_free by blast+
    moreover have "snd x = snd y \<and> u = v"
      using JObj(1) [of x "snd x"] that tail by (auto simp: prod_set_defs)
    ultimately show ?thesis by (simp add: prod_eq_iff)
  qed
  have "kvs = lws \<and> s = t"
    by (rule join_prefix_free [where f = "\<lambda>x. member_text (map_prod id plain x)" and c = "CHR ''}''"])
      (use JObj(2) b item member_not_closing in \<open>auto simp: comp_def\<close>)
  with b show ?case by simp
qed

text \<open>
  C28: a fingerprint identifies its request. Two JSON values have the same canonical text exactly
  when they are equal up to the order of the members of their objects, at every depth; so two
  requests with the same hash are the same request or a collision of the hash function.
\<close>

theorem canonical_identifies:
  "(canonical a = canonical b \<longleftrightarrow> sorted_json a = sorted_json b) \<and>
   (requestHash sha256 a = requestHash sha256 b \<longrightarrow>
      sorted_json a = sorted_json b \<or> (\<exists>x y. x \<noteq> y \<and> sha256 x = sha256 y))"
proof -
  have "canonical a = canonical b \<longleftrightarrow> sorted_json a = sorted_json b"
    using plain_prefix_free [of "sorted_json a" "[]" "sorted_json b" "[]"] by (auto simp: canonical_plain stops_def)
  then show ?thesis by (auto simp: requestHash_def)
qed

theorem canonical_identifies_witness:
  "sorted_json (JObj [(''a'', JNum 1), (''b'', JNull)]) = sorted_json (JObj [(''b'', JNull), (''a'', JNum 1)])"
proof -
  have "canonical (JObj [(''a'', JNum 1), (''b'', JNull)]) = canonical (JObj [(''b'', JNull), (''a'', JNum 1)])"
    by code_simp
  then show ?thesis
    using canonical_identifies [of "JObj [(''a'', JNum 1), (''b'', JNull)]" "JObj [(''b'', JNull), (''a'', JNum 1)]" "\<lambda>s. s"]
    by blast
qed

end
