(* ===== verification/Evidence_Bundle.thy ===== *)
theory Evidence_Bundle
  imports JS_Regex Canonical_Claims Capability_Tokens "HOL-Library.Product_Lexorder"
begin

text \<open>
  \<open>packages/effect-broker/src/evidenceBundle.ts\<close>: the evidence of a run, its effects and its audit
  events in two hash chains under a content hash, scrubbed of secrets, and its verification. SHA-256,
  the collation of \<open>localeCompare\<close> (its sort key), the clock and the supply of identifiers are
  parameters.
\<close>

section \<open>Data loss prevention\<close>

definition EVIDENCE_BUNDLE_SCHEMA :: string where "EVIDENCE_BUNDLE_SCHEMA = ''l3-11.v0''"
definition EVIDENCE_BODY_VERSION :: string where "EVIDENCE_BODY_VERSION = ''commander.evidence-body/v1''"
definition EVIDENCE_GENESIS_HASH :: string where "EVIDENCE_GENESIS_HASH = replicate 64 (CHR ''0'')"

definition EVIDENCE_DLP_EXCLUDED_KEYS :: "string list" where
  "EVIDENCE_DLP_EXCLUDED_KEYS =
     [''gen_ai.prompt'', ''gen_ai.completion'', ''gen_ai.tool.call.arguments'', ''prompt'', ''messages'',
      ''chainofthought'', ''chain_of_thought'', ''reasoning'', ''thinking'', ''completion'', ''rawprompt'',
      ''rawcompletion'']"

definition EVIDENCE_RESPONSE_SUMMARY_KEYS :: "string list" where
  "EVIDENCE_RESPONSE_SUMMARY_KEYS =
     [''contenthash'', ''status'', ''httpstatus'', ''bytes'', ''contenttype'', ''errorcode'', ''ok'']"

text \<open>\<open>EVIDENCE_SECRET_FIELD_NAME\<close>, of normalised keys, which are in lower case.\<close>

definition EVIDENCE_SECRET_FIELD_NAME :: regex where
  "EVIDENCE_SECRET_FIELD_NAME = foldr Alt (map Text [''password'', ''passwd'', ''passcode'', ''secret'', ''token'',
     ''authorization'', ''credential'', ''privatekey'', ''accesskey'', ''apikey'', ''otp'', ''cookie'', ''xapikey''])
     (Text ''xauthtoken'')"

definition lower_letter :: "char \<Rightarrow> bool" where
  "lower_letter c \<longleftrightarrow> 97 \<le> char_code c \<and> char_code c \<le> 122"

text \<open>\<open>[A-Za-z0-9_-]\<close> in lower case.\<close>

definition token_char :: "char \<Rightarrow> bool" where
  "token_char c \<longleftrightarrow> lower_letter c \<or> is_digit c \<or> c = CHR ''_'' \<or> c = CHR ''-''"

definition EVIDENCE_SECRET_VALUE :: regex where
  "EVIDENCE_SECRET_VALUE =
     Alt (Seq (Text ''-----begin '') (Seq (AtLeast (\<lambda>c. lower_letter c \<or> c = CHR '' '') 0) (Text ''private key-----'')))
    (Alt (Seq Boundary (Seq (Text ''bearer'') (Seq (AtLeast is_space 1) (AtLeast (\<lambda>c. \<not> is_space c) 1))))
    (Alt (Seq Boundary (Seq (foldr Alt (map Text [''sk'', ''ghp'', ''gho'', ''ghu'', ''ghs'']) (Text ''ghr''))
            (Seq (Text ''_'') (AtLeast token_char 8))))
    (Alt (Seq Boundary (Seq (Text ''akia'') (Seq (Exactly (\<lambda>c. lower_letter c \<or> is_digit c) 16) Boundary)))
         (Seq Boundary (Seq (Text ''eyj'') (Seq (AtLeast token_char 1) (Seq (Text ''.'') (Seq (AtLeast token_char 1)
            (Seq (Text ''.'') (Seq (AtLeast token_char 1) Boundary)))))))))) "

definition isSecretText :: "string \<Rightarrow> bool" where
  "isSecretText s = test EVIDENCE_SECRET_VALUE (to_lower s)"

definition isSecretValue :: "json \<Rightarrow> bool" where
  "isSecretValue v = (case v of JStr s \<Rightarrow> isSecretText s | _ \<Rightarrow> False)"

definition normalizeKey :: "string \<Rightarrow> string" where
  "normalizeKey key = filter (\<lambda>c. c \<noteq> CHR ''_'' \<and> c \<noteq> CHR ''-'') (to_lower key)"

definition isDlpExcludedKey :: "string \<Rightarrow> bool" where
  "isDlpExcludedKey key = list_ex (\<lambda>excluded. normalizeKey excluded = normalizeKey key) EVIDENCE_DLP_EXCLUDED_KEYS"

definition isSecretFieldKey :: "string \<Rightarrow> bool" where
  "isSecretFieldKey key = test EVIDENCE_SECRET_FIELD_NAME (normalizeKey key)"

definition isSignatureArtifactKey :: "string \<Rightarrow> bool" where
  "isSignatureArtifactKey path \<longleftrightarrow> path = ''signature.value''"

definition isAllowedResponseSummaryKey :: "string \<Rightarrow> bool" where
  "isAllowedResponseSummaryKey key \<longleftrightarrow> normalizeKey key \<in> set EVIDENCE_RESPONSE_SUMMARY_KEYS"

definition isResponseSummaryScalar :: "json \<Rightarrow> bool" where
  "isResponseSummaryScalar v = (case v of JArr _ \<Rightarrow> False | JObj _ \<Rightarrow> False | _ \<Rightarrow> True)"

definition secret_key :: "string \<Rightarrow> bool" where
  "secret_key key \<longleftrightarrow> isDlpExcludedKey key \<or> isSecretFieldKey key"

definition REDACTED :: json where
  "REDACTED = JStr ''[REDACTED]''"

primrec sanitizeForEvidence :: "json \<Rightarrow> json" where
  "sanitizeForEvidence JNull = JNull"
| "sanitizeForEvidence (JBool b) = JBool b"
| "sanitizeForEvidence (JNum n) = JNum n"
| "sanitizeForEvidence (JStr s) = (if isSecretText s then REDACTED else JStr s)"
| "sanitizeForEvidence (JArr vs) = JArr (map sanitizeForEvidence vs)"
| "sanitizeForEvidence (JObj kvs) =
     JObj (filter (\<lambda>kv. \<not> secret_key (fst kv)) (map (map_prod id sanitizeForEvidence) kvs))"

text \<open>
  The path of the first violation. The three functions are the function of the source and its two
  loops; a path found is never empty (\<open>findDlpViolation_path\<close>), so \<open>if (hit)\<close> is \<open>Some\<close>.
\<close>

fun findDlpViolation :: "json \<Rightarrow> string \<Rightarrow> string option"
  and findInArray :: "json list \<Rightarrow> nat \<Rightarrow> string \<Rightarrow> string option"
  and findInMembers :: "(string \<times> json) list \<Rightarrow> string \<Rightarrow> string option" where
  "findDlpViolation v path =
     (if isSignatureArtifactKey path then None
      else if isSecretValue v then Some (if path = [] then ''(value)'' else path)
      else case v of JArr vs \<Rightarrow> findInArray vs 0 path | JObj kvs \<Rightarrow> findInMembers kvs path | _ \<Rightarrow> None)"
| "findInArray [] i path = None"
| "findInArray (v # vs) i path =
     (case findDlpViolation v (path @ ''['' @ show_nat i @ '']'') of Some hit \<Rightarrow> Some hit | None \<Rightarrow> findInArray vs (Suc i) path)"
| "findInMembers [] path = None"
| "findInMembers (kv # kvs) path =
     (let next_path = (if path = [] then fst kv else path @ ''.'' @ fst kv) in
      if secret_key (fst kv) then Some next_path
      else case findDlpViolation (snd kv) next_path of Some hit \<Rightarrow> Some hit | None \<Rightarrow> findInMembers kvs path)"

declare findDlpViolation.simps [simp del]

section \<open>Sources and bundles\<close>

type_synonym members = "(string \<times> json) list"

text \<open>An object literal with optional fields, through \<open>compact\<close>: a field that is undefined is left out.\<close>

definition optional :: "string \<Rightarrow> string option \<Rightarrow> members" where
  "optional k v = (case v of None \<Rightarrow> [] | Some s \<Rightarrow> [(k, JStr s)])"

definition optional_object :: "string \<Rightarrow> members option \<Rightarrow> members" where
  "optional_object k v = (case v of None \<Rightarrow> [] | Some kvs \<Rightarrow> [(k, JObj kvs)])"

record effect_source =
  src_id :: string
  src_runId :: string
  src_stepId :: string
  src_tenantId :: string
  src_type :: string
  src_state :: string
  src_policyDecisionId :: string
  src_requestHash :: string
  src_response :: "members option"
  src_createdAt :: string
  src_completedAt :: "string option"
  src_approvalInteractionId :: "string option"

record audit_source =
  asrc_type :: string
  asrc_severity :: string
  asrc_tenantId :: string
  asrc_runId :: string
  asrc_stepId :: string
  asrc_at :: string
  asrc_details :: members

record evidence_signature =
  sg_algorithm :: string
  sg_keyId :: string
  sg_signedAt :: string
  sg_value :: string

record evidence_bundle =
  eb_schemaVersion :: string
  eb_bodyVersion :: string
  eb_bundleId :: string
  eb_exportedAt :: string
  eb_actionDigest :: string
  eb_terminalDisposition :: string
  eb_scope :: members
  eb_identity :: members
  eb_versions :: members
  eb_effects :: "members list"
  eb_auditEvents :: "members list"
  eb_contentHash :: string
  eb_signature :: "evidence_signature option"

record build_input =
  bi_tenantId :: string
  bi_runId :: string
  bi_actionDigest :: "string option"
  bi_effectId :: "string option"
  bi_intentHash :: "string option"
  bi_workGraphHash :: "string option"
  bi_workGraphVersion :: "string option"
  bi_policySnapshotId :: string
  bi_kernelApiVersion :: "string option"
  bi_capabilityGrant :: "capability_grant option"
  bi_effects :: "effect_source list"
  bi_auditEvents :: "audit_source list option"
  bi_exportedAt :: "string option"
  bi_bundleId :: "string option"

text \<open>What the module takes from its environment.\<close>

record evidence_env =
  ev_sha256 :: "string \<Rightarrow> string"
  ev_collate :: "string \<Rightarrow> string"
  ev_now :: string
  ev_randomUUID :: string

definition evidence_hash :: "evidence_env \<Rightarrow> json \<Rightarrow> string" where
  "evidence_hash env v = ev_sha256 env (canonical v)"

section \<open>Building\<close>

definition summarizeResponse :: "members option \<Rightarrow> members option" where
  "summarizeResponse response = (case response of None \<Rightarrow> None
     | Some kvs \<Rightarrow>
         let sanitized = (case sanitizeForEvidence (JObj kvs) of JObj s \<Rightarrow> s | _ \<Rightarrow> []);
             summary = filter (\<lambda>kv. isAllowedResponseSummaryKey (fst kv) \<and> isResponseSummaryScalar (snd kv) \<and>
               snd kv \<noteq> REDACTED) sanitized in
         if summary = [] then None else Some summary)"

definition capabilityGrantRef :: "capability_grant option \<Rightarrow> string \<Rightarrow> string \<Rightarrow> members option" where
  "capabilityGrantRef grant tenantId runId = (case grant of None \<Rightarrow> None
     | Some g \<Rightarrow>
         if gr_tenantId g \<noteq> tenantId \<or> gr_runId g \<noteq> runId then None
         else Some ([(''jti'', JStr (gr_jti g))] @ optional ''issuer'' (gr_issuer g) @ optional ''audience'' (gr_audience g) @
           optional ''requestHash'' (gr_requestHash g) @ optional ''policySnapshotId'' (gr_policySnapshotId g)))"

definition scopeEffects :: "build_input \<Rightarrow> effect_source list" where
  "scopeEffects input = filter (\<lambda>e. src_tenantId e = bi_tenantId input \<and> src_runId e = bi_runId input) (bi_effects input)"

definition scopeAuditEvents :: "build_input \<Rightarrow> audit_source list" where
  "scopeAuditEvents input = filter (\<lambda>e. asrc_tenantId e = bi_tenantId input \<and> asrc_runId e = bi_runId input)
     (nullish (bi_auditEvents input) [])"

fun chain_entries :: "evidence_env \<Rightarrow> string \<Rightarrow> members list \<Rightarrow> members list" where
  "chain_entries env prev [] = []"
| "chain_entries env prev (item # items) =
     (let body = item @ [(''prevEntryHash'', JStr prev)]; entryHash = evidence_hash env (JObj body) in
      (body @ [(''entryHash'', JStr entryHash)]) # chain_entries env entryHash items)"

definition hashChainedEntries :: "evidence_env \<Rightarrow> members list \<Rightarrow> members list" where
  "hashChainedEntries env items = chain_entries env EVIDENCE_GENESIS_HASH items"

definition effect_item :: "effect_source \<Rightarrow> members" where
  "effect_item e =
     [(''effectId'', JStr (src_id e)), (''stepId'', JStr (src_stepId e)), (''type'', JStr (src_type e)),
      (''state'', JStr (src_state e)), (''policyDecisionId'', JStr (src_policyDecisionId e)),
      (''requestHash'', JStr (src_requestHash e))] @ optional ''approvalInteractionId'' (src_approvalInteractionId e) @
     optional_object ''responseSummary'' (summarizeResponse (src_response e)) @
     [(''createdAt'', JStr (src_createdAt e))] @ optional ''completedAt'' (src_completedAt e)"

definition buildEffectEntries :: "evidence_env \<Rightarrow> effect_source list \<Rightarrow> members list" where
  "buildEffectEntries env effects = hashChainedEntries env (map effect_item
     (sort_key (\<lambda>e. (ev_collate env (src_createdAt e), ev_collate env (src_id e))) effects))"

definition audit_item :: "audit_source \<Rightarrow> members" where
  "audit_item e = [(''type'', JStr (asrc_type e)), (''at'', JStr (asrc_at e)), (''severity'', JStr (asrc_severity e)),
     (''stepId'', JStr (asrc_stepId e)), (''details'', sanitizeForEvidence (JObj (asrc_details e)))]"

definition buildAuditEntries :: "evidence_env \<Rightarrow> audit_source list \<Rightarrow> members list" where
  "buildAuditEntries env events = hashChainedEntries env (map audit_item
     (sort_key (\<lambda>e. (ev_collate env (asrc_at e), ev_collate env (asrc_type e))) events))"

definition signature_json :: "evidence_signature \<Rightarrow> json" where
  "signature_json s = JObj [(''algorithm'', JStr (sg_algorithm s)), (''keyId'', JStr (sg_keyId s)),
     (''signedAt'', JStr (sg_signedAt s)), (''value'', JStr (sg_value s))]"

definition body_members :: "evidence_bundle \<Rightarrow> members" where
  "body_members b =
     [(''schemaVersion'', JStr (eb_schemaVersion b)), (''bodyVersion'', JStr (eb_bodyVersion b)),
      (''bundleId'', JStr (eb_bundleId b)), (''exportedAt'', JStr (eb_exportedAt b)),
      (''actionDigest'', JStr (eb_actionDigest b)), (''terminalDisposition'', JStr (eb_terminalDisposition b)),
      (''scope'', JObj (eb_scope b)), (''identity'', JObj (eb_identity b)), (''versions'', JObj (eb_versions b)),
      (''effects'', JArr (map JObj (eb_effects b))), (''auditEvents'', JArr (map JObj (eb_auditEvents b)))]"

definition bundle_json :: "evidence_bundle \<Rightarrow> json" where
  "bundle_json b = JObj (body_members b @ [(''contentHash'', JStr (eb_contentHash b))] @
     (case eb_signature b of None \<Rightarrow> [] | Some s \<Rightarrow> [(''signature'', signature_json s)]))"

definition attachContentHash :: "evidence_env \<Rightarrow> evidence_bundle \<Rightarrow> evidence_bundle" where
  "attachContentHash env body = body\<lparr>eb_contentHash := evidence_hash env (JObj (body_members body))\<rparr>"

definition terminal_states :: "string list" where
  "terminal_states = [''COMPLETED'', ''FAILED'', ''CONFIRMED_NOT_APPLIED'']"

definition terminalDisposition :: "effect_source list \<Rightarrow> audit_source list \<Rightarrow> string" where
  "terminalDisposition effects auditEvents =
     (let unresolved = list_ex (\<lambda>e. src_state e \<notin> set terminal_states) effects;
          escalated = list_ex (\<lambda>e. asrc_type e = ''effect.reconcile_escalated'') auditEvents in
      if unresolved \<and> escalated then ''ESCALATED''
      else if list_ex (\<lambda>e. src_state e = ''FAILED'' \<or> src_state e = ''CONFIRMED_NOT_APPLIED'') effects then ''FAILED''
      else ''SUCCEEDED'')"

definition default_digest :: "evidence_env \<Rightarrow> build_input \<Rightarrow> string list \<Rightarrow> string" where
  "default_digest env input hashes = evidence_hash env (JObj [(''tenantId'', JStr (bi_tenantId input)),
     (''runId'', JStr (bi_runId input)), (''effectRequestHashes'', JArr (map JStr (sort hashes)))])"

definition buildRunEvidenceBundle :: "evidence_env \<Rightarrow> build_input \<Rightarrow> evidence_bundle" where
  "buildRunEvidenceBundle env input =
     (let effects = scopeEffects input; auditEvents = scopeAuditEvents input in
      attachContentHash env
        \<lparr>eb_schemaVersion = EVIDENCE_BUNDLE_SCHEMA, eb_bodyVersion = EVIDENCE_BODY_VERSION,
         eb_bundleId = nullish (bi_bundleId input) (ev_randomUUID env),
         eb_exportedAt = nullish (bi_exportedAt input) (ev_now env),
         eb_actionDigest = nullish (bi_actionDigest input) (default_digest env input (map src_requestHash effects)),
         eb_terminalDisposition = terminalDisposition effects auditEvents,
         eb_scope = [(''tenantId'', JStr (bi_tenantId input)), (''runId'', JStr (bi_runId input))] @
           optional ''effectId'' (bi_effectId input),
         eb_identity = optional ''intentHash'' (bi_intentHash input) @ optional ''workGraphHash'' (bi_workGraphHash input) @
           optional_object ''capabilityGrant''
             (capabilityGrantRef (bi_capabilityGrant input) (bi_tenantId input) (bi_runId input)),
         eb_versions = [(''policySnapshotId'', JStr (bi_policySnapshotId input))] @
           optional ''workGraphVersion'' (bi_workGraphVersion input) @ optional ''kernelApiVersion'' (bi_kernelApiVersion input),
         eb_effects = buildEffectEntries env effects, eb_auditEvents = buildAuditEntries env auditEvents,
         eb_contentHash = [], eb_signature = None\<rparr>)"

text \<open>The body without its signature; the content hash is part of it.\<close>

definition canonicalEvidenceBody :: "evidence_bundle \<Rightarrow> string" where
  "canonicalEvidenceBody bundle = canonical (bundle_json (bundle\<lparr>eb_signature := None\<rparr>))"

definition buildEffectEvidenceBundle :: "evidence_env \<Rightarrow> build_input \<Rightarrow> string \<Rightarrow> evidence_bundle" where
  "buildEffectEvidenceBundle env input effectId = buildRunEvidenceBundle env (input\<lparr>
     bi_effects := filter (\<lambda>e. src_id e = effectId) (bi_effects input),
     bi_auditEvents := Some (filter (\<lambda>e. map_of (asrc_details e) ''effectId'' = Some (JStr effectId))
       (nullish (bi_auditEvents input) [])),
     bi_effectId := Some effectId\<rparr>)"

section \<open>Verification\<close>

datatype broken_at = Broken_effects | Broken_auditEvents | Broken_contentHash | Broken_dlp | Broken_signature

datatype verdict = Verified | Broken (broken_reason: string) (broken_at: broken_at) (broken_index: "nat option")

text \<open>
  The options: \<open>jwks\<close> is represented by the verifier the module makes of it
  (\<open>verifyEvidenceSignature\<close> with the Ed25519 primitive).
\<close>

record verify_options =
  vf_verifySignature :: "(string \<Rightarrow> evidence_signature \<Rightarrow> bool) option"
  vf_jwks :: "(string \<Rightarrow> evidence_signature \<Rightarrow> bool) option"
  vf_requireSignature :: "bool option"

definition recompute_entry :: "evidence_env \<Rightarrow> members \<Rightarrow> string" where
  "recompute_entry env entry = evidence_hash env (JObj (filter (\<lambda>kv. fst kv \<noteq> ''entryHash'') entry))"

text \<open>The loops over the two chains.\<close>

fun check_chain :: "evidence_env \<Rightarrow> string \<Rightarrow> broken_at \<Rightarrow> nat \<Rightarrow> string \<Rightarrow> members list \<Rightarrow> verdict option" where
  "check_chain env label where_at i prev [] = None"
| "check_chain env label where_at i prev (entry # entries) =
     (if map_of entry ''prevEntryHash'' \<noteq> Some (JStr prev) then Some (Broken (label @ '' chain link broken'') where_at (Some i))
      else if Some (JStr (recompute_entry env entry)) \<noteq> map_of entry ''entryHash''
      then Some (Broken (label @ '' entryHash mismatch'') where_at (Some i))
      else check_chain env label where_at (Suc i) (recompute_entry env entry) entries)"

fun check_summaries :: "nat \<Rightarrow> members list \<Rightarrow> verdict option" where
  "check_summaries i [] = None"
| "check_summaries i (entry # entries) =
     (case map_of entry ''responseSummary'' of
        Some (JObj summary) \<Rightarrow>
          (case find (\<lambda>kv. \<not> isAllowedResponseSummaryKey (fst kv) \<or> \<not> isResponseSummaryScalar (snd kv)) summary of
             Some kv \<Rightarrow> Some (Broken (''responseSummary contains non-allowlisted or non-scalar key: '' @ fst kv)
                          Broken_dlp (Some i))
           | None \<Rightarrow> check_summaries (Suc i) entries)
      | _ \<Rightarrow> check_summaries (Suc i) entries)"

definition resolveSignatureVerifier :: "verify_options \<Rightarrow> (string \<Rightarrow> evidence_signature \<Rightarrow> bool) option" where
  "resolveSignatureVerifier options =
     (case vf_verifySignature options of Some verifier \<Rightarrow> Some verifier | None \<Rightarrow> vf_jwks options)"

definition verifyBundleSignature :: "evidence_bundle \<Rightarrow> verify_options \<Rightarrow> verdict" where
  "verifyBundleSignature bundle options =
     (case resolveSignatureVerifier options of
        None \<Rightarrow>
          if nullish (vf_requireSignature options) False
          then Broken ''EVIDENCE_SIGNATURE_VERIFIER_REQUIRED: no signature verifier was supplied'' Broken_signature None
          else Verified
      | Some verifier \<Rightarrow>
          (case eb_signature bundle of
             None \<Rightarrow> Broken ''evidence bundle is not signed'' Broken_signature None
           | Some signature \<Rightarrow>
               if \<not> verifier (canonicalEvidenceBody bundle) signature
               then Broken ''evidence signature verification failed'' Broken_signature None
               else Verified))"

definition verifyEvidenceBundle :: "evidence_env \<Rightarrow> evidence_bundle \<Rightarrow> verify_options \<Rightarrow> verdict" where
  "verifyEvidenceBundle env bundle options =
     (case findDlpViolation (bundle_json bundle) [] of
        Some hit \<Rightarrow> Broken (''DLP field present: '' @ hit) Broken_dlp None
      | None \<Rightarrow>
     (case check_summaries 0 (eb_effects bundle) of Some verdict \<Rightarrow> verdict
      | None \<Rightarrow>
     (case check_chain env ''effect'' Broken_effects 0 EVIDENCE_GENESIS_HASH (eb_effects bundle) of Some verdict \<Rightarrow> verdict
      | None \<Rightarrow>
     (case check_chain env ''audit'' Broken_auditEvents 0 EVIDENCE_GENESIS_HASH (eb_auditEvents bundle) of Some verdict \<Rightarrow> verdict
      | None \<Rightarrow>
          if evidence_hash env (JObj (body_members bundle)) \<noteq> eb_contentHash bundle
          then Broken ''contentHash mismatch'' Broken_contentHash None
          else verifyBundleSignature bundle options))))"

definition entry_state :: "members \<Rightarrow> json option" where
  "entry_state entry = map_of entry ''state''"

definition hex64 :: "string \<Rightarrow> bool" where
  "hex64 s \<longleftrightarrow> length s = 64 \<and> list_all (\<lambda>c. is_digit c \<or> (97 \<le> char_code c \<and> char_code c \<le> 102)) s"

definition state_in :: "string list \<Rightarrow> members \<Rightarrow> bool" where
  "state_in states entry \<longleftrightarrow> (case entry_state entry of Some (JStr s) \<Rightarrow> s \<in> set states | _ \<Rightarrow> False)"

definition assertTerminalEvidence :: "evidence_bundle \<Rightarrow> string + unit" where
  "assertTerminalEvidence bundle =
     (let unresolved = filter (\<lambda>e. \<not> state_in terminal_states e) (eb_effects bundle);
          hasEscalation = list_ex (\<lambda>e. map_of e ''type'' = Some (JStr ''effect.reconcile_escalated'')) (eb_auditEvents bundle);
          expected = (if list_ex (state_in [''FAILED'', ''CONFIRMED_NOT_APPLIED'']) (eb_effects bundle)
            then ''FAILED'' else ''SUCCEEDED'') in
      if unresolved \<noteq> [] \<and> (\<not> list_all (state_in [''COMPLETION_UNKNOWN'']) unresolved \<or> \<not> hasEscalation \<or>
           eb_terminalDisposition bundle \<noteq> ''ESCALATED'')
      then Inl ''TERMINAL_EVIDENCE_REQUIRED''
      else if unresolved = [] \<and> eb_terminalDisposition bundle = ''ESCALATED'' then Inl ''TERMINAL_EVIDENCE_REQUIRED''
      else if unresolved = [] \<and> eb_terminalDisposition bundle \<noteq> expected then Inl ''TERMINAL_EVIDENCE_REQUIRED''
      else if \<not> hex64 (eb_actionDigest bundle) then Inl ''TERMINAL_EVIDENCE_REQUIRED: ACTION_DIGEST_INVALID''
      else Inr ())"

section \<open>Records\<close>

text \<open>\<open>packages/effect-broker/src/evidenceSink.ts\<close>\<close>

record evidence_record =
  er_tenantId :: string
  er_runId :: string
  er_bundleId :: string
  er_actionDigest :: string
  er_body :: evidence_bundle
  er_contentHash :: string
  er_signature :: "evidence_signature option"
  er_createdAt :: string
  er_anchoredAt :: "string option"
  er_retentionUntil :: string

definition DEFAULT_EVIDENCE_MAX_BYTES :: nat where "DEFAULT_EVIDENCE_MAX_BYTES = 256 * 1024"

record record_options =
  ro_maxBytes :: "nat option"
  ro_verifySignature :: "(string \<Rightarrow> evidence_signature \<Rightarrow> bool) option"
  ro_jwks :: "(string \<Rightarrow> evidence_signature \<Rightarrow> bool) option"

definition record_json :: "evidence_record \<Rightarrow> json" where
  "record_json r = JObj ([(''tenantId'', JStr (er_tenantId r)), (''runId'', JStr (er_runId r)),
     (''bundleId'', JStr (er_bundleId r)), (''actionDigest'', JStr (er_actionDigest r)),
     (''body'', bundle_json (er_body r)), (''contentHash'', JStr (er_contentHash r))] @
     (case er_signature r of None \<Rightarrow> [] | Some s \<Rightarrow> [(''signature'', signature_json s)]) @
     [(''createdAt'', JStr (er_createdAt r)),
      (''anchoredAt'', case er_anchoredAt r of None \<Rightarrow> JNull | Some t \<Rightarrow> JStr t),
      (''retentionUntil'', JStr (er_retentionUntil r))])"

text \<open>\<open>Buffer.byteLength(text, 'utf8')\<close>: a character above 127 takes two bytes.\<close>

definition utf8_length :: "string \<Rightarrow> nat" where
  "utf8_length s = sum_list (map (\<lambda>c. if char_code c < 128 then 1 else 2) s)"

definition assertEvidenceRecord ::
  "evidence_env \<Rightarrow> (string \<Rightarrow> time option) \<Rightarrow> evidence_record \<Rightarrow> record_options \<Rightarrow> string + unit" where
  "assertEvidenceRecord env parse_date r options =
     (let body = er_body r in
      if nullish (ro_maxBytes options) DEFAULT_EVIDENCE_MAX_BYTES < utf8_length (plain (record_json r))
      then Inl ''EVIDENCE_SIZE_LIMIT_EXCEEDED''
      else if map_of (eb_scope body) ''tenantId'' \<noteq> Some (JStr (er_tenantId r)) \<or>
              map_of (eb_scope body) ''runId'' \<noteq> Some (JStr (er_runId r)) \<or>
              er_bundleId r \<noteq> eb_bundleId body \<or> er_actionDigest r \<noteq> eb_actionDigest body \<or>
              er_contentHash r \<noteq> eb_contentHash body
      then Inl ''EVIDENCE_RECORD_BINDING_INVALID''
      else case (er_signature r, eb_signature body) of
        (Some signature, Some body_signature) \<Rightarrow>
          if canonical (signature_json signature) \<noteq> canonical (signature_json body_signature)
          then Inl ''EVIDENCE_SIGNATURE_REQUIRED''
          else if ro_verifySignature options = None \<and> ro_jwks options = None
          then Inl ''EVIDENCE_SIGNATURE_VERIFIER_REQUIRED''
          else (case verifyEvidenceBundle env body \<lparr>vf_verifySignature = ro_verifySignature options,
                  vf_jwks = ro_jwks options, vf_requireSignature = Some True\<rparr> of
            Broken reason _ _ \<Rightarrow> Inl (''EVIDENCE_INTEGRITY_INVALID: '' @ reason)
          | Verified \<Rightarrow>
              (case assertTerminalEvidence body of Inl e \<Rightarrow> Inl e
               | Inr _ \<Rightarrow>
                   (case (parse_date (er_retentionUntil r), parse_date (er_createdAt r)) of
                      (Some retentionUntil, Some createdAt) \<Rightarrow>
                        if retentionUntil \<le> createdAt then Inl ''EVIDENCE_RETENTION_INVALID'' else Inr ()
                    | _ \<Rightarrow> Inl ''EVIDENCE_RETENTION_INVALID'')))
      | _ \<Rightarrow> Inl ''EVIDENCE_SIGNATURE_REQUIRED'')"

text \<open>\<open>EvidenceSink\<close>: its constructor, and \<open>persist\<close> with the repository as a port.\<close>

definition evidence_sink :: "record_options \<Rightarrow> string + record_options" where
  "evidence_sink options =
     (if ro_verifySignature options = None \<and> ro_jwks options = None then Inl ''EVIDENCE_SIGNATURE_VERIFIER_REQUIRED''
      else Inr options)"

definition persist :: "evidence_env \<Rightarrow> (string \<Rightarrow> time option) \<Rightarrow> record_options \<Rightarrow>
    (evidence_record \<Rightarrow> ('w, string, unit) js) \<Rightarrow> evidence_record \<Rightarrow> ('w, string, unit) js" where
  "persist env parse_date options appendEvidence r =
     (case assertEvidenceRecord env parse_date r options of Inl e \<Rightarrow> js_throw e | Inr _ \<Rightarrow> appendEvidence r)"

section \<open>Signed receipts\<close>

text \<open>\<open>packages/effect-broker/src/signedEvidence.ts\<close>\<close>

definition signed_disposition :: "evidence_bundle \<Rightarrow> string" where
  "signed_disposition bundle =
     (let unresolved = list_ex (\<lambda>e. \<not> state_in terminal_states e) (eb_effects bundle);
          escalated = list_ex (\<lambda>e. map_of e ''type'' = Some (JStr ''effect.reconcile_escalated'')) (eb_auditEvents bundle) in
      if unresolved \<and> escalated then ''ESCALATED''
      else if list_ex (state_in [''FAILED'', ''CONFIRMED_NOT_APPLIED'']) (eb_effects bundle) then ''FAILED''
      else ''SUCCEEDED'')"

definition entry_requestHash :: "members \<Rightarrow> string" where
  "entry_requestHash e = (case map_of e ''requestHash'' of Some (JStr h) \<Rightarrow> h | _ \<Rightarrow> [])"

definition buildSignedEvidenceBundle :: "evidence_env \<Rightarrow> build_input \<Rightarrow> evidence_bundle" where
  "buildSignedEvidenceBundle env input =
     (let base = buildRunEvidenceBundle env input in
      attachContentHash env (base\<lparr>eb_bodyVersion := EVIDENCE_BODY_VERSION,
        eb_actionDigest := nullish (bi_actionDigest input) (default_digest env input (map entry_requestHash (eb_effects base))),
        eb_terminalDisposition := signed_disposition base\<rparr>))"

definition verifySignedEvidenceBundle :: "evidence_env \<Rightarrow> evidence_bundle \<Rightarrow> verdict" where
  "verifySignedEvidenceBundle env bundle = verifyEvidenceBundle env (bundle\<lparr>eb_signature := None\<rparr>)
     \<lparr>vf_verifySignature = None, vf_jwks = None, vf_requireSignature = None\<rparr>"

text \<open>\<open>packages/effect-broker/src/evidenceReceipt.ts\<close>: the reason of a refusal, or \<open>None\<close>.\<close>

definition verifyEvidenceReceipt ::
  "evidence_env \<Rightarrow> evidence_bundle \<Rightarrow> (string \<Rightarrow> evidence_signature \<Rightarrow> bool) \<Rightarrow> string option" where
  "verifyEvidenceReceipt env receipt jwks =
     (case eb_signature receipt of
        None \<Rightarrow> Some ''EVIDENCE_SIGNATURE_REQUIRED''
      | Some signature \<Rightarrow>
          (case verifySignedEvidenceBundle env receipt of
             Broken reason _ _ \<Rightarrow> Some reason
           | Verified \<Rightarrow>
               (case assertTerminalEvidence receipt of
                  Inl _ \<Rightarrow> Some ''EVIDENCE_INVALID''
                | Inr _ \<Rightarrow>
                    if list_ex (\<lambda>k. map_of (eb_scope receipt) k \<in> {None, Some (JStr [])}) [''tenantId'', ''runId'', ''effectId'']
                    then Some ''EVIDENCE_SCOPE_INVALID''
                    else if \<not> jwks (canonicalEvidenceBody receipt) signature then Some ''EVIDENCE_SIGNATURE_INVALID''
                    else None)))"

end
