(* ===== verification/Evidence_Claims.thy ===== *)
theory Evidence_Claims
  imports Evidence_Bundle
begin

text \<open>
  What evidence bundles guarantee: no secret leaves with them, what was built and signed verifies, the
  chains cannot be rewritten without a collision of the hash, and the disposition a bundle is built
  with is the one its verification expects.
\<close>

section \<open>Secrets\<close>

text \<open>No secret text and no secret key, at any depth.\<close>

primrec clean :: "json \<Rightarrow> bool" where
  "clean JNull = True"
| "clean (JBool b) = True"
| "clean (JNum n) = True"
| "clean (JStr s) = (\<not> isSecretText s)"
| "clean (JArr vs) = list_all id (map clean vs)"
| "clean (JObj kvs) = list_all (\<lambda>kv. \<not> secret_key (fst kv) \<and> snd kv) (map (map_prod id clean) kvs)"

lemma clean_simps [simp]:
  "clean (JArr vs) \<longleftrightarrow> (\<forall>v \<in> set vs. clean v)"
  "clean (JObj kvs) \<longleftrightarrow> (\<forall>kv \<in> set kvs. \<not> secret_key (fst kv) \<and> clean (snd kv))"
  by (simp_all add: list_all_iff)

declare clean.simps(5,6) [simp del]

lemma REDACTED_clean [simp]: "clean REDACTED"
  unfolding REDACTED_def clean.simps by code_simp

lemma sanitize_clean: "clean (sanitizeForEvidence v)"
proof (induction v)
  case (JObj kvs)
  then show ?case by (fastforce simp: prod_set_defs)
qed auto

lemma clean_not_secret: "clean v \<Longrightarrow> \<not> isSecretValue v"
  by (cases v) (auto simp: isSecretValue_def)

lemma clean_no_violation:
  "clean v \<Longrightarrow> findDlpViolation v path = None"
  "list_all clean vs \<Longrightarrow> findInArray vs i path = None"
  "list_all (\<lambda>kv. \<not> secret_key (fst kv) \<and> clean (snd kv)) kvs \<Longrightarrow> findInMembers kvs path = None"
proof (induction v path and vs i path and kvs path rule: findDlpViolation_findInArray_findInMembers.induct)
  case (1 v path)
  then show ?case
    by (subst findDlpViolation.simps) (auto simp: clean_not_secret list_all_iff split: json.split)
qed (auto simp: Let_def)

lemma findInMembers_append:
  "findInMembers (xs @ ys) path = (case findInMembers xs path of None \<Rightarrow> findInMembers ys path | hit \<Rightarrow> hit)"
  by (induction xs) (auto simp: Let_def split: option.split)

lemma secret_key_nonempty: "secret_key key \<Longrightarrow> key \<noteq> []"
proof -
  have "\<not> secret_key []" by code_simp
  then show "secret_key key \<Longrightarrow> key \<noteq> []" by auto
qed

lemma findDlpViolation_path:
  "findDlpViolation v path = Some hit \<Longrightarrow> hit \<noteq> []"
  "findInArray vs i path = Some hit \<Longrightarrow> hit \<noteq> []"
  "findInMembers kvs path = Some hit \<Longrightarrow> hit \<noteq> []"
proof (induction v path and vs i path and kvs path rule: findDlpViolation_findInArray_findInMembers.induct)
  case (1 v path)
  from 1(3) [unfolded findDlpViolation.simps [of v path]] 1(1,2) show ?case
    by (auto split: json.splits if_splits)
qed (auto simp: Let_def dest: secret_key_nonempty split: if_splits option.splits)

lemma summary_of:
  assumes "summarizeResponse response = Some summary"
  shows "clean (JObj summary) \<and> (\<forall>kv \<in> set summary. isAllowedResponseSummaryKey (fst kv) \<and> isResponseSummaryScalar (snd kv))"
proof -
  obtain kvs where "response = Some kvs"
    and summary: "summary = filter (\<lambda>kv. isAllowedResponseSummaryKey (fst kv) \<and> isResponseSummaryScalar (snd kv) \<and>
       snd kv \<noteq> REDACTED) (filter (\<lambda>kv. \<not> secret_key (fst kv)) (map (map_prod id sanitizeForEvidence) kvs))"
    using assms by (auto simp: summarizeResponse_def Let_def split: option.splits if_splits)
  then show ?thesis using sanitize_clean [of "JObj kvs"] by auto
qed

lemma bundle_simps:
  "eb_effects (buildRunEvidenceBundle env input) = buildEffectEntries env (scopeEffects input)"
  "eb_auditEvents (buildRunEvidenceBundle env input) = buildAuditEntries env (scopeAuditEvents input)"
  "eb_actionDigest (buildRunEvidenceBundle env input) =
     nullish (bi_actionDigest input) (default_digest env input (map src_requestHash (scopeEffects input)))"
  "eb_terminalDisposition (buildRunEvidenceBundle env input) =
     terminalDisposition (scopeEffects input) (scopeAuditEvents input)"
  by (simp_all add: buildRunEvidenceBundle_def attachContentHash_def Let_def)

text \<open>Every entry of a chain is its item with the two links appended.\<close>

lemma chain_entries_items:
  "entry \<in> set (chain_entries env prev items) \<Longrightarrow>
     \<exists>item \<in> set items. \<exists>p h. entry = item @ [(''prevEntryHash'', JStr p), (''entryHash'', JStr h)] \<and>
       (p = prev \<or> (\<exists>v. p = evidence_hash env v)) \<and> (\<exists>v. h = evidence_hash env v)"
  by (induction items arbitrary: prev) (auto simp: Let_def, metis+)

lemma chain_entries_list_all:
  assumes "\<And>item p h. item \<in> set items \<Longrightarrow> P (item @ [(''prevEntryHash'', JStr p), (''entryHash'', JStr h)])"
  shows "list_all P (chain_entries env prev items)"
  using assms by (auto simp: list_all_iff dest!: chain_entries_items)

lemma map_of_optional [simp]:
  "map_of (optional k v) k' = (if k = k' then map_option JStr v else None)"
  "map_of (optional_object k w) k' = (if k = k' then map_option JObj w else None)"
  by (auto simp: optional_def optional_object_def split: option.split)

definition summary_ok :: "members \<Rightarrow> bool" where
  "summary_ok entry \<longleftrightarrow>
     (case map_of entry ''responseSummary'' of None \<Rightarrow> True
      | Some (JObj summary) \<Rightarrow> clean (JObj summary) \<and>
          list_all (\<lambda>kv. isAllowedResponseSummaryKey (fst kv) \<and> isResponseSummaryScalar (snd kv)) summary
      | _ \<Rightarrow> False)"

definition details_ok :: "members \<Rightarrow> bool" where
  "details_ok entry \<longleftrightarrow> (case map_of entry ''details'' of Some d \<Rightarrow> clean d | None \<Rightarrow> False)"

lemma effect_item_summary: "summary_ok (effect_item e @ [(''prevEntryHash'', p), (''entryHash'', h)])"
proof -
  have "map_of (effect_item e @ [(''prevEntryHash'', p), (''entryHash'', h)]) ''responseSummary'' =
      map_option JObj (summarizeResponse (src_response e))"
    by (simp add: effect_item_def map_add_def split: option.split)
  then show ?thesis
    using summary_of by (auto simp: summary_ok_def list_all_iff split: option.split simp del: clean_simps)
qed


section \<open>What was built verifies\<close>

lemma check_chain_built:
  assumes "\<And>item. item \<in> set items \<Longrightarrow> map_of item ''prevEntryHash'' = None \<and> map_of item ''entryHash'' = None"
  shows "check_chain env label where_at i prev (chain_entries env prev items) = None"
  using assms
proof (induction items arbitrary: i prev)
  case (Cons item items)
  have "filter (\<lambda>kv. fst kv \<noteq> ''entryHash'') item = item"
    using Cons.prems [of item] by (auto simp: filter_id_conv map_of_eq_None_iff intro: rev_image_eqI)
  with Cons show ?case
    by (auto simp: Let_def recompute_entry_def map_add_def)
qed simp

lemma check_summaries_ok: "list_all summary_ok entries \<Longrightarrow> check_summaries i entries = None"
proof (induction entries arbitrary: i)
  case (Cons entry entries)
  have "find (\<lambda>kv. \<not> isAllowedResponseSummaryKey (fst kv) \<or> \<not> isResponseSummaryScalar (snd kv)) summary = None"
    if "map_of entry ''responseSummary'' = Some (JObj summary)" for summary
    using Cons.prems that by (auto simp: summary_ok_def list_all_iff find_None_iff)
  with Cons show ?case by (auto split: option.split json.split)
qed simp

text \<open>A digest in hexadecimal is not taken for a secret.\<close>

definition hex_text :: "string \<Rightarrow> bool" where
  "hex_text s \<longleftrightarrow> list_all (\<lambda>c. is_digit c \<or> (97 \<le> char_code c \<and> char_code c \<le> 102)) s"

lemma to_lower_hex: "hex_text s \<Longrightarrow> to_lower s = s"
  by (induction s) (auto simp: hex_text_def to_lower_def lower_char_def is_digit_def)

definition no_secret_text :: "string list \<Rightarrow> bool" where
  "no_secret_text ss \<longleftrightarrow> list_all (\<lambda>s. \<not> isSecretText s) ss"

text \<open>A text without any of the literals a secret needs is no secret.\<close>

definition secret_literals :: "string list" where
  "secret_literals = [''-----begin '', ''bearer'', ''sk'', ''ghp'', ''gho'', ''ghu'', ''ghs'', ''ghr'', ''akia'', ''eyj'']"

definition harmless :: "string \<Rightarrow> bool" where
  "harmless s \<longleftrightarrow> (let l = to_lower s in list_all (\<lambda>t. \<not> occurs t l) secret_literals)"

lemma harmless_not_secret: "harmless s \<Longrightarrow> \<not> isSecretText s"
proof -
  have "mandatory EVIDENCE_SECRET_VALUE = secret_literals"
    by (simp add: EVIDENCE_SECRET_VALUE_def secret_literals_def)
  then show "harmless s \<Longrightarrow> \<not> isSecretText s"
    unfolding harmless_def isSecretText_def Let_def list_all_iff by (metis test_mandatory)
qed

lemma harmless_texts: "list_all harmless ss \<Longrightarrow> no_secret_text ss"
  by (auto simp: no_secret_text_def list_all_iff harmless_not_secret)

lemma hex_not_secret [simp]:
  assumes "hex_text s" shows "\<not> isSecretText s"
proof (rule harmless_not_secret)
  have sub: "set t \<subseteq> set s" if "occurs t s" for t
    using that by (auto simp: occurs_append)
  have hex: "is_digit c \<or> (97 \<le> char_code c \<and> char_code c \<le> 102)" if "c \<in> set s" for c
    using assms that by (auto simp: hex_text_def list_all_iff)
  have "{CHR '' '', CHR ''r'', CHR ''s'', CHR ''g'', CHR ''k'', CHR ''y''} \<inter> set s = {}"
    by (auto dest!: hex simp: is_digit_def char_code_def)
  then show "harmless s"
    by (auto simp: harmless_def to_lower_hex [OF assms] secret_literals_def dest!: sub)
qed

lemma genesis_hex [simp]: "hex_text EVIDENCE_GENESIS_HASH"
  by code_simp

text \<open>The names the bundle uses are neither secret nor excluded.\<close>

lemma isSecretFieldKey_code [code]:
  "isSecretFieldKey key = (let k = normalizeKey key in list_ex (\<lambda>t. occurs t k)
     [''password'', ''passwd'', ''passcode'', ''secret'', ''token'', ''authorization'', ''credential'', ''privatekey'',
      ''accesskey'', ''apikey'', ''otp'', ''cookie'', ''xapikey'', ''xauthtoken''])"
  by (simp add: isSecretFieldKey_def EVIDENCE_SECRET_FIELD_NAME_def Let_def test_Text)

lemma excluded_normal: "map normalizeKey EVIDENCE_DLP_EXCLUDED_KEYS =
  [''genai.prompt'', ''genai.completion'', ''genai.tool.call.arguments'', ''prompt'', ''messages'', ''chainofthought'',
   ''chainofthought'', ''reasoning'', ''thinking'', ''completion'', ''rawprompt'', ''rawcompletion'']"
  by code_simp

lemma isDlpExcludedKey_code [code]:
  "isDlpExcludedKey key = (let k = normalizeKey key in list_ex (\<lambda>x. x = k)
     [''genai.prompt'', ''genai.completion'', ''genai.tool.call.arguments'', ''prompt'', ''messages'', ''chainofthought'',
      ''chainofthought'', ''reasoning'', ''thinking'', ''completion'', ''rawprompt'', ''rawcompletion''])"
  unfolding isDlpExcludedKey_def excluded_normal [symmetric] by (simp add: list_ex_iff Let_def image_iff) metis

lemma bundle_keys [simp]:
  "\<not> secret_key ''schemaVersion''" "\<not> secret_key ''bodyVersion''" "\<not> secret_key ''bundleId''"
  "\<not> secret_key ''exportedAt''" "\<not> secret_key ''actionDigest''" "\<not> secret_key ''terminalDisposition''"
  "\<not> secret_key ''scope''" "\<not> secret_key ''identity''" "\<not> secret_key ''versions''" "\<not> secret_key ''effects''"
  "\<not> secret_key ''auditEvents''" "\<not> secret_key ''contentHash''" "\<not> secret_key ''signature''"
  "\<not> secret_key ''algorithm''" "\<not> secret_key ''keyId''" "\<not> secret_key ''signedAt''" "\<not> secret_key ''value''"
  "\<not> secret_key ''tenantId''" "\<not> secret_key ''runId''" "\<not> secret_key ''effectId''" "\<not> secret_key ''intentHash''"
  "\<not> secret_key ''workGraphHash''" "\<not> secret_key ''capabilityGrant''" "\<not> secret_key ''jti''"
  "\<not> secret_key ''issuer''" "\<not> secret_key ''audience''" "\<not> secret_key ''requestHash''"
  "\<not> secret_key ''policySnapshotId''" "\<not> secret_key ''workGraphVersion''" "\<not> secret_key ''kernelApiVersion''"
  "\<not> secret_key ''stepId''" "\<not> secret_key ''type''" "\<not> secret_key ''state''" "\<not> secret_key ''policyDecisionId''"
  "\<not> secret_key ''approvalInteractionId''" "\<not> secret_key ''responseSummary''" "\<not> secret_key ''createdAt''"
  "\<not> secret_key ''completedAt''" "\<not> secret_key ''prevEntryHash''" "\<not> secret_key ''entryHash''"
  "\<not> secret_key ''at''" "\<not> secret_key ''severity''" "\<not> secret_key ''details''"
  by code_simp+

text \<open>The texts of an input that a bundle carries as they are.\<close>

definition given :: "string option \<Rightarrow> string list" where
  "given v = (case v of None \<Rightarrow> [] | Some s \<Rightarrow> [s])"

definition effect_texts :: "effect_source \<Rightarrow> string list" where
  "effect_texts e = [src_id e, src_stepId e, src_type e, src_state e, src_policyDecisionId e, src_requestHash e,
     src_createdAt e] @ given (src_approvalInteractionId e) @ given (src_completedAt e)"

definition audit_texts :: "audit_source \<Rightarrow> string list" where
  "audit_texts e = [asrc_type e, asrc_at e, asrc_severity e, asrc_stepId e]"

definition grant_texts :: "capability_grant option \<Rightarrow> string list" where
  "grant_texts grant = (case grant of None \<Rightarrow> [] | Some g \<Rightarrow>
     gr_jti g # given (gr_issuer g) @ given (gr_audience g) @ given (gr_requestHash g) @ given (gr_policySnapshotId g))"

definition input_texts :: "evidence_env \<Rightarrow> build_input \<Rightarrow> string list" where
  "input_texts env input =
     [nullish (bi_bundleId input) (ev_randomUUID env), nullish (bi_exportedAt input) (ev_now env),
      bi_tenantId input, bi_runId input, bi_policySnapshotId input] @ given (bi_actionDigest input) @
     given (bi_effectId input) @ given (bi_intentHash input) @ given (bi_workGraphHash input) @
     given (bi_workGraphVersion input) @ given (bi_kernelApiVersion input) @ grant_texts (bi_capabilityGrant input) @
     concat (map effect_texts (scopeEffects input)) @ concat (map audit_texts (scopeAuditEvents input))"

lemma no_secret_text_simps [simp]:
  "no_secret_text []" "no_secret_text (s # ss) \<longleftrightarrow> \<not> isSecretText s \<and> no_secret_text ss"
  "no_secret_text (xs @ ys) \<longleftrightarrow> no_secret_text xs \<and> no_secret_text ys"
  "no_secret_text (concat xss) \<longleftrightarrow> (\<forall>xs \<in> set xss. no_secret_text xs)"
  by (auto simp: no_secret_text_def list_all_iff)

lemma clean_Nil: "clean (JObj [])"
  by simp

lemma clean_append: "clean (JObj (xs @ ys)) \<longleftrightarrow> clean (JObj xs) \<and> clean (JObj ys)"
  by auto

lemma clean_Cons: "clean (JObj (kv # kvs)) \<longleftrightarrow> \<not> secret_key (fst kv) \<and> clean (snd kv) \<and> clean (JObj kvs)"
  by auto

declare clean_simps(2) [simp del]

lemma clean_optional: "no_secret_text (given v) \<Longrightarrow> \<not> secret_key k \<Longrightarrow> clean (JObj (optional k v))"
  by (auto simp: given_def optional_def clean_Nil clean_Cons split: option.splits)

lemma clean_optional_object:
  "(\<And>kvs. v = Some kvs \<Longrightarrow> clean (JObj kvs)) \<Longrightarrow> \<not> secret_key k \<Longrightarrow> clean (JObj (optional_object k v))"
  by (auto simp: optional_object_def clean_Nil clean_Cons split: option.splits)

lemmas clean_parts = clean_Nil clean_append clean_Cons clean_optional clean_optional_object

lemma clean_effect_item: "no_secret_text (effect_texts e) \<Longrightarrow> clean (JObj (effect_item e))"
  using summary_of unfolding effect_item_def effect_texts_def by (simp add: clean_parts)

lemma clean_audit_item: "no_secret_text (audit_texts e) \<Longrightarrow> clean (JObj (audit_item e))"
  unfolding audit_item_def audit_texts_def by (simp add: clean_parts sanitize_clean del: sanitizeForEvidence.simps)

lemma clean_grant:
  "no_secret_text (grant_texts grant) \<Longrightarrow> capabilityGrantRef grant t r = Some kvs \<Longrightarrow> clean (JObj kvs)"
  by (auto simp: grant_texts_def capabilityGrantRef_def clean_parts split: option.splits if_splits)

lemma clean_chain:
  assumes "\<And>x. hex_text (ev_sha256 env x)" and "\<And>item. item \<in> set items \<Longrightarrow> clean (JObj item)"
  shows "clean (JArr (map JObj (hashChainedEntries env items)))"
  using assms by (auto simp: hashChainedEntries_def evidence_hash_def clean_parts dest!: chain_entries_items)

lemma clean_body:
  assumes sha: "\<And>x. hex_text (ev_sha256 env x)" and texts: "no_secret_text (input_texts env input)"
  shows "clean (JObj (body_members (buildRunEvidenceBundle env input)))"
proof -
  have "\<not> isSecretText (eb_actionDigest (buildRunEvidenceBundle env input))"
    using sha texts
    by (auto simp: bundle_simps nullish_def default_digest_def evidence_hash_def input_texts_def given_def split: option.splits)
  moreover have "clean (JArr (map JObj (buildEffectEntries env (scopeEffects input))))"
    unfolding buildEffectEntries_def
    by (rule clean_chain [OF sha]) (use texts in \<open>auto simp: input_texts_def intro!: clean_effect_item\<close>)
  moreover have "clean (JArr (map JObj (buildAuditEntries env (scopeAuditEvents input))))"
    unfolding buildAuditEntries_def
    by (rule clean_chain [OF sha]) (use texts in \<open>auto simp: input_texts_def intro!: clean_audit_item\<close>)
  moreover have "\<not> isSecretText (terminalDisposition effects events)" for effects events
  proof -
    have "\<not> isSecretText ''ESCALATED''" "\<not> isSecretText ''FAILED''" "\<not> isSecretText ''SUCCEEDED''" by code_simp+
    then show ?thesis by (simp add: terminalDisposition_def Let_def)
  qed
  moreover have "\<not> isSecretText EVIDENCE_BUNDLE_SCHEMA" "\<not> isSecretText EVIDENCE_BODY_VERSION" by code_simp+
  ultimately show ?thesis
    using texts clean_grant [of "bi_capabilityGrant input"]
    unfolding body_members_def input_texts_def
    by (simp add: clean_parts buildRunEvidenceBundle_def attachContentHash_def Let_def del: clean_simps)
qed

definition signature_texts :: "evidence_signature \<Rightarrow> string list" where
  "signature_texts s = [sg_algorithm s, sg_keyId s, sg_signedAt s]"

text \<open>The value of the signature is exempt from the search, and nothing else of a bundle is.\<close>

lemma signature_no_violation:
  assumes "no_secret_text (signature_texts s)"
  shows "findInMembers [(''signature'', signature_json s)] [] = None"
proof -
  have member: "findDlpViolation (JStr t) path = None" if "\<not> isSecretText t" for t path
    using clean_no_violation(1) [of "JStr t"] that by simp
  have "findDlpViolation v ''signature.value'' = None" for v
    by (simp add: findDlpViolation.simps isSignatureArtifactKey_def)
  moreover have "findDlpViolation (JObj kvs) ''signature'' = findInMembers kvs ''signature''" for kvs
    by (simp add: findDlpViolation.simps isSignatureArtifactKey_def isSecretValue_def)
  ultimately show ?thesis
    using assms by (simp add: signature_json_def signature_texts_def member)
qed

lemma bundle_no_violation:
  assumes "clean (JObj (body_members b))" and "\<not> isSecretText (eb_contentHash b)"
    and "\<And>s. eb_signature b = Some s \<Longrightarrow> no_secret_text (signature_texts s)"
  shows "findDlpViolation (bundle_json b) [] = None"
proof -
  have "findInMembers (body_members b) [] = None"
    using assms(1) by (intro clean_no_violation(3)) (simp add: list_all_iff clean_simps(2))
  moreover have "findDlpViolation (JStr (eb_contentHash b)) ''contentHash'' = None"
    using assms(2) by (intro clean_no_violation(1)) simp
  moreover have "findInMembers (case eb_signature b of None \<Rightarrow> [] | Some s \<Rightarrow> [(''signature'', signature_json s)]) [] = None"
    using assms(3) signature_no_violation by (auto split: option.split)
  ultimately show ?thesis
    unfolding bundle_json_def by (subst findDlpViolation.simps)
      (simp add: findInMembers_append isSignatureArtifactKey_def isSecretValue_def)
qed

lemma item_keys:
  "map_of (effect_item e) ''prevEntryHash'' = None \<and> map_of (effect_item e) ''entryHash'' = None"
  "map_of (audit_item a) ''prevEntryHash'' = None \<and> map_of (audit_item a) ''entryHash'' = None"
  by (simp_all add: effect_item_def audit_item_def map_add_def)

lemma built_chains:
  "check_chain env l w i EVIDENCE_GENESIS_HASH (buildEffectEntries env effects) = None"
  "check_chain env l w i EVIDENCE_GENESIS_HASH (buildAuditEntries env events) = None"
  unfolding buildEffectEntries_def buildAuditEntries_def hashChainedEntries_def
  by (rule check_chain_built, auto simp: item_keys)+

lemma built_summaries: "check_summaries i (buildEffectEntries env effects) = None"
  unfolding buildEffectEntries_def hashChainedEntries_def
  by (intro check_summaries_ok chain_entries_list_all) (auto simp: effect_item_summary)

lemma body_signature [simp]: "body_members (b\<lparr>eb_signature := sg\<rparr>) = body_members b"
  by (simp add: body_members_def)

lemma canonical_body_signature [simp]:
  "canonicalEvidenceBody (b\<lparr>eb_signature := sg\<rparr>) = canonicalEvidenceBody b"
  by (simp add: canonicalEvidenceBody_def)

lemma built_structure:
  assumes "\<And>text. hex_text (ev_sha256 env text)" and "no_secret_text (input_texts env input)"
    and "\<And>s. signature = Some s \<Longrightarrow> no_secret_text (signature_texts s)"
  shows "verifyEvidenceBundle env ((buildRunEvidenceBundle env input)\<lparr>eb_signature := signature\<rparr>) options =
     verifyBundleSignature ((buildRunEvidenceBundle env input)\<lparr>eb_signature := signature\<rparr>) options"
proof -
  let ?b = "buildRunEvidenceBundle env input"
  have content: "eb_contentHash ?b = evidence_hash env (JObj (body_members ?b))"
    by (simp add: buildRunEvidenceBundle_def attachContentHash_def Let_def body_members_def)
  have "findDlpViolation (bundle_json (?b\<lparr>eb_signature := signature\<rparr>)) [] = None"
    using clean_body [of env input] assms by (intro bundle_no_violation) (auto simp: content evidence_hash_def)
  then show ?thesis
    by (simp add: verifyEvidenceBundle_def built_summaries built_chains bundle_simps content)
qed

text \<open>
  C25: what is built and signed verifies. When no identifier given to the builder reads like a
  secret, a bundle built from it passes every structural check (the search for secrets, the response
  summaries, both hash chains, the content hash), and its verification is the verification of the
  signature alone: it succeeds exactly when the signature over the canonical body is accepted, or
  when no verifier was supplied and none was asked for. A bundle without a signature never passes a
  verifier.
\<close>

theorem built_evidence_verifies:
  assumes "\<And>text. hex_text (ev_sha256 env text)" and "no_secret_text (input_texts env input)"
    and "\<And>s. signature = Some s \<Longrightarrow> no_secret_text (signature_texts s)"
  shows "verifyEvidenceBundle env ((buildRunEvidenceBundle env input)\<lparr>eb_signature := signature\<rparr>) options = Verified \<longleftrightarrow>
     (case resolveSignatureVerifier options of None \<Rightarrow> \<not> nullish (vf_requireSignature options) False
      | Some verifier \<Rightarrow> (case signature of None \<Rightarrow> False
          | Some s \<Rightarrow> verifier (canonicalEvidenceBody (buildRunEvidenceBundle env input)) s))"
proof -
  have "verifyEvidenceBundle env ((buildRunEvidenceBundle env input)\<lparr>eb_signature := signature\<rparr>) options =
      verifyBundleSignature ((buildRunEvidenceBundle env input)\<lparr>eb_signature := signature\<rparr>) options"
    by (rule built_structure) (use assms in blast)+
  then show ?thesis
    by (auto simp: verifyBundleSignature_def split: option.split)
qed

section \<open>A chain cannot be rewritten\<close>

lemma map_of_filter_head:
  "map_of kvs k = (case filter (\<lambda>kv. fst kv = k) kvs of [] \<Rightarrow> None | kv # _ \<Rightarrow> Some (snd kv))"
  by (induction kvs) auto

lemma map_of_sort_key [simp]: "map_of (sort_key fst kvs) = map_of kvs"
  by (rule ext) (simp add: map_of_filter_head sort_key_stable)

lemma map_of_map_snd: "map_of (map (map_prod id f) kvs) k = map_option f (map_of kvs k)"
  by (induction kvs) auto

lemma sorted_members_lookup:
  assumes "sorted_json (JObj xs) = sorted_json (JObj ys)"
  shows "map_option sorted_json (map_of xs k) = map_option sorted_json (map_of ys k)"
proof -
  have "sort_key fst (map (map_prod id sorted_json) xs) = sort_key fst (map (map_prod id sorted_json) ys)"
    using assms by simp
  then have "map_of (map (map_prod id sorted_json) xs) = map_of (map (map_prod id sorted_json) ys)"
    using map_of_sort_key by metis
  then show ?thesis using map_of_map_snd by metis
qed

lemma sorted_json_JStr: "sorted_json v = JStr s \<longleftrightarrow> v = JStr s"
  by (cases v) auto

text \<open>The hash a chain ends with.\<close>

definition chain_end :: "evidence_env \<Rightarrow> members list \<Rightarrow> string" where
  "chain_end env entries = (if entries = [] then EVIDENCE_GENESIS_HASH else recompute_entry env (last entries))"

lemma check_chain_append:
  "check_chain env l w i prev (entries @ [entry]) = None \<longleftrightarrow>
     check_chain env l w i prev entries = None \<and>
     map_of entry ''prevEntryHash'' = Some (JStr (if entries = [] then prev else recompute_entry env (last entries))) \<and>
     map_of entry ''entryHash'' = Some (JStr (recompute_entry env entry))"
  by (induction entries arbitrary: i prev) auto

text \<open>An entry without its own hash, up to the order of its members.\<close>

definition entry_content :: "members \<Rightarrow> json" where
  "entry_content entry = sorted_json (JObj (filter (\<lambda>kv. fst kv \<noteq> ''entryHash'') entry))"

lemma map_of_filter_key: "k \<noteq> k' \<Longrightarrow> map_of (filter (\<lambda>kv. fst kv \<noteq> k') kvs) k = map_of kvs k"
  by (induction kvs) auto

lemma entry_content_prev:
  assumes "entry_content x = entry_content y" and "map_of x ''prevEntryHash'' = Some (JStr p)"
  shows "map_of y ''prevEntryHash'' = Some (JStr p)"
proof -
  have "map_option sorted_json (map_of y ''prevEntryHash'') = Some (JStr p)"
    using sorted_members_lookup [OF assms(1) [unfolded entry_content_def], of "''prevEntryHash''"] assms(2)
    by (simp add: map_of_filter_key)
  then show ?thesis by (auto simp: sorted_json_JStr)
qed

definition collision :: "evidence_env \<Rightarrow> bool" where
  "collision env \<longleftrightarrow> (\<exists>x y. x \<noteq> y \<and> ev_sha256 env x = ev_sha256 env y)"

definition genesis_preimage :: "evidence_env \<Rightarrow> bool" where
  "genesis_preimage env \<longleftrightarrow> (\<exists>x. ev_sha256 env x = EVIDENCE_GENESIS_HASH)"

lemma canonical_same: "canonical v = canonical w \<longleftrightarrow> sorted_json v = sorted_json w"
  using plain_prefix_free [of "sorted_json v" "[]" "sorted_json w" "[]"] by (auto simp only: canonical_plain stops_def)

lemma evidence_hash_determines:
  "evidence_hash env v = evidence_hash env w \<Longrightarrow> \<not> collision env \<Longrightarrow> sorted_json v = sorted_json w"
  unfolding evidence_hash_def collision_def canonical_same [symmetric] by blast

lemma hash_determines:
  "recompute_entry env x = recompute_entry env y \<Longrightarrow> \<not> collision env \<Longrightarrow> entry_content x = entry_content y"
  unfolding recompute_entry_def entry_content_def by (rule evidence_hash_determines)

lemma chain_determined:
  assumes "\<not> collision env" and "\<not> genesis_preimage env"
    and "check_chain env l w i EVIDENCE_GENESIS_HASH xs = None" and "check_chain env l' w' j EVIDENCE_GENESIS_HASH ys = None"
    and "chain_end env xs = chain_end env ys"
  shows "map entry_content xs = map entry_content ys"
  using assms(3-)
proof (induction xs arbitrary: ys rule: rev_induct)
  case Nil
  with assms(2) show ?case
    by (auto simp: chain_end_def genesis_preimage_def recompute_entry_def evidence_hash_def eq_commute split: if_splits)
next
  case (snoc x xs)
  show ?case
  proof (cases ys rule: rev_cases)
    case Nil
    with snoc.prems assms(2) show ?thesis
      by (auto simp: chain_end_def genesis_preimage_def recompute_entry_def evidence_hash_def)
  next
    case (snoc zs z)
    with snoc.prems assms(1) have same: "entry_content x = entry_content z"
      by (intro hash_determines) (auto simp: chain_end_def)
    with snoc.prems snoc have "chain_end env xs = chain_end env zs"
      using entry_content_prev [OF same] by (simp add: check_chain_append chain_end_def)
    with snoc.IH [of zs] snoc.prems snoc same show ?thesis
      by (simp add: check_chain_append)
  qed
qed

lemma checks_not_verified [simp]:
  "check_chain env l w i prev entries \<noteq> Some Verified" "check_summaries i entries \<noteq> Some Verified"
  by (induction entries arbitrary: i prev) (auto split: option.split json.split)

text \<open>
  C24: evidence is tamper evident. Of two bundles that verify, the same last hash of the effect chain
  means the same effect entries, one by one, up to the order of their members, unless the hash
  function has a collision or a preimage of the genesis hash; and the same of the audit chains. So an
  entry that is changed, dropped, inserted or moved changes the hash the chain ends with.
\<close>

theorem evidence_chains_are_tamper_evident:
  assumes "verifyEvidenceBundle env a options = Verified" and "verifyEvidenceBundle env b options' = Verified"
    and "\<not> collision env" and "\<not> genesis_preimage env"
  shows "(chain_end env (eb_effects a) = chain_end env (eb_effects b) \<longrightarrow>
      map entry_content (eb_effects a) = map entry_content (eb_effects b)) \<and>
    (chain_end env (eb_auditEvents a) = chain_end env (eb_auditEvents b) \<longrightarrow>
      map entry_content (eb_auditEvents a) = map entry_content (eb_auditEvents b)) \<and>
    (eb_contentHash a = eb_contentHash b \<longrightarrow>
      sorted_json (JObj (body_members a)) = sorted_json (JObj (body_members b)))"
proof -
  have verified: "check_chain env ''effect'' Broken_effects 0 EVIDENCE_GENESIS_HASH (eb_effects x) = None"
    "check_chain env ''audit'' Broken_auditEvents 0 EVIDENCE_GENESIS_HASH (eb_auditEvents x) = None"
    "evidence_hash env (JObj (body_members x)) = eb_contentHash x"
    if "verifyEvidenceBundle env x opts = Verified" for x opts
    using that by (auto simp: verifyEvidenceBundle_def split: option.splits if_splits)
  have "sorted_json (JObj (body_members a)) = sorted_json (JObj (body_members b))" if "eb_contentHash a = eb_contentHash b"
    using that verified(3) [OF assms(1)] verified(3) [OF assms(2)] by (intro evidence_hash_determines [OF _ assms(3)]) simp
  with verified(1,2) [OF assms(1)] verified(1,2) [OF assms(2)] chain_determined [OF assms(3,4)] show ?thesis by blast
qed

section \<open>Dispositions\<close>

lemma chain_lookup:
  assumes "k \<noteq> ''prevEntryHash''" and "k \<noteq> ''entryHash''"
  shows "map (\<lambda>entry. map_of entry k) (chain_entries env prev items) = map (\<lambda>item. map_of item k) items"
  using assms by (induction items arbitrary: prev) (auto simp: Let_def map_add_def split: option.split)

lemma entry_states:
  "map (\<lambda>e. map_of e ''state'') (buildEffectEntries env effects) = map (\<lambda>e. Some (JStr (src_state e)))
     (sort_key (\<lambda>e. (ev_collate env (src_createdAt e), ev_collate env (src_id e))) effects)"
  "map entry_requestHash (buildEffectEntries env effects) = map src_requestHash
     (sort_key (\<lambda>e. (ev_collate env (src_createdAt e), ev_collate env (src_id e))) effects)"
  "map (\<lambda>e. map_of e ''type'') (buildAuditEntries env events) = map (\<lambda>e. Some (JStr (asrc_type e)))
     (sort_key (\<lambda>e. (ev_collate env (asrc_at e), ev_collate env (asrc_type e))) events)"
proof -
  let ?hash = "\<lambda>v. case v of Some (JStr h) \<Rightarrow> h | _ \<Rightarrow> []"
  have "map (\<lambda>e. map_of e ''requestHash'') (buildEffectEntries env effects) = map (\<lambda>e. Some (JStr (src_requestHash e)))
     (sort_key (\<lambda>e. (ev_collate env (src_createdAt e), ev_collate env (src_id e))) effects)"
    by (simp add: buildEffectEntries_def hashChainedEntries_def chain_lookup effect_item_def map_add_def)
  then have "map ?hash (map (\<lambda>e. map_of e ''requestHash'') (buildEffectEntries env effects)) = map src_requestHash
     (sort_key (\<lambda>e. (ev_collate env (src_createdAt e), ev_collate env (src_id e))) effects)"
    by (simp add: comp_def)
  then show "map entry_requestHash (buildEffectEntries env effects) = map src_requestHash
     (sort_key (\<lambda>e. (ev_collate env (src_createdAt e), ev_collate env (src_id e))) effects)"
    by (simp add: entry_requestHash_def [abs_def] comp_def)
qed (simp_all add: buildEffectEntries_def buildAuditEntries_def hashChainedEntries_def chain_lookup effect_item_def
  audit_item_def map_add_def)

text \<open>The entries as a set: what a verifier sees of the states is what the sources had.\<close>

lemma entry_states_set:
  "(\<exists>e \<in> set (buildEffectEntries env effects). P (map_of e ''state'')) \<longleftrightarrow> (\<exists>e \<in> set effects. P (Some (JStr (src_state e))))"
  "(\<exists>e \<in> set (buildAuditEntries env events). Q (map_of e ''type'')) \<longleftrightarrow> (\<exists>e \<in> set events. Q (Some (JStr (asrc_type e))))"
proof -
  have "(\<lambda>e. map_of e ''state'') ` set (buildEffectEntries env effects) = (\<lambda>e. Some (JStr (src_state e))) ` set effects"
    using arg_cong [OF entry_states(1), of set env effects] by simp
  then show "(\<exists>e \<in> set (buildEffectEntries env effects). P (map_of e ''state'')) \<longleftrightarrow>
    (\<exists>e \<in> set effects. P (Some (JStr (src_state e))))" by (metis (no_types, lifting) image_iff)
  have "(\<lambda>e. map_of e ''type'') ` set (buildAuditEntries env events) = (\<lambda>e. Some (JStr (asrc_type e))) ` set events"
    using arg_cong [OF entry_states(3), of set env events] by simp
  then show "(\<exists>e \<in> set (buildAuditEntries env events). Q (map_of e ''type'')) \<longleftrightarrow>
    (\<exists>e \<in> set events. Q (Some (JStr (asrc_type e))))" by (metis (no_types, lifting) image_iff)
qed

lemma built_states:
  "list_ex (state_in states) (buildEffectEntries env effects) \<longleftrightarrow> list_ex (\<lambda>e. src_state e \<in> set states) effects"
  "list_ex (\<lambda>e. \<not> state_in states e) (buildEffectEntries env effects) \<longleftrightarrow> list_ex (\<lambda>e. src_state e \<notin> set states) effects"
  "list_ex (\<lambda>e. \<not> state_in states e \<and> \<not> state_in states' e) (buildEffectEntries env effects) \<longleftrightarrow>
     list_ex (\<lambda>e. src_state e \<notin> set states \<and> src_state e \<notin> set states') effects"
  "list_ex (\<lambda>e. map_of e ''type'' = Some (JStr t)) (buildAuditEntries env events) \<longleftrightarrow> list_ex (\<lambda>e. asrc_type e = t) events"
proof -
  let ?in = "\<lambda>states v. case v of Some (JStr s) \<Rightarrow> s \<in> set states | _ \<Rightarrow> False"
  note simps = list_ex_iff state_in_def entry_state_def
  show "list_ex (state_in states) (buildEffectEntries env effects) \<longleftrightarrow> list_ex (\<lambda>e. src_state e \<in> set states) effects"
    using entry_states_set(1) [of env effects "?in states"] by (simp add: simps)
  show "list_ex (\<lambda>e. \<not> state_in states e) (buildEffectEntries env effects) \<longleftrightarrow>
      list_ex (\<lambda>e. src_state e \<notin> set states) effects"
    using entry_states_set(1) [of env effects "\<lambda>v. \<not> ?in states v"] by (simp add: simps)
  show "list_ex (\<lambda>e. \<not> state_in states e \<and> \<not> state_in states' e) (buildEffectEntries env effects) \<longleftrightarrow>
      list_ex (\<lambda>e. src_state e \<notin> set states \<and> src_state e \<notin> set states') effects"
    using entry_states_set(1) [of env effects "\<lambda>v. \<not> ?in states v \<and> \<not> ?in states' v"] by (simp add: simps)
  show "list_ex (\<lambda>e. map_of e ''type'' = Some (JStr t)) (buildAuditEntries env events) \<longleftrightarrow>
      list_ex (\<lambda>e. asrc_type e = t) events"
    using entry_states_set(2) [of env events "\<lambda>v. v = Some (JStr t)"] by (simp add: simps)
qed

lemma terminal_evidence_built:
  "assertTerminalEvidence (buildRunEvidenceBundle env input) = Inr () \<longleftrightarrow>
     hex64 (eb_actionDigest (buildRunEvidenceBundle env input)) \<and>
     list_all (\<lambda>e. src_state e \<in> set terminal_states \<or>
       (src_state e = ''COMPLETION_UNKNOWN'' \<and>
        list_ex (\<lambda>a. asrc_type a = ''effect.reconcile_escalated'') (scopeAuditEvents input))) (scopeEffects input)"
proof -
  let ?effects = "scopeEffects input" and ?events = "scopeAuditEvents input"
  let ?entries = "buildEffectEntries env ?effects"
  define open_effect where "open_effect \<longleftrightarrow> list_ex (\<lambda>e. src_state e \<notin> set terminal_states) ?effects"
  define stuck where "stuck \<longleftrightarrow> list_ex (\<lambda>e. src_state e \<notin> set terminal_states \<and> src_state e \<noteq> ''COMPLETION_UNKNOWN'') ?effects"
  define failed where "failed \<longleftrightarrow> list_ex (\<lambda>e. src_state e = ''FAILED'' \<or> src_state e = ''CONFIRMED_NOT_APPLIED'') ?effects"
  define escalated where "escalated \<longleftrightarrow> list_ex (\<lambda>a. asrc_type a = ''effect.reconcile_escalated'') ?events"
  have empty: "filter P xs = [] \<longleftrightarrow> \<not> list_ex P xs" for P and xs :: "members list"
    by (auto simp: filter_empty_conv list_ex_iff)
  have all_in: "list_all P (filter Q xs) \<longleftrightarrow> \<not> list_ex (\<lambda>e. Q e \<and> \<not> P e) xs" for P Q and xs :: "members list"
    by (auto simp: list_all_iff list_ex_iff)
  have "stuck \<Longrightarrow> open_effect"
    by (auto simp: stuck_def open_effect_def list_ex_iff)
  moreover have "list_all (\<lambda>e. src_state e \<in> set terminal_states \<or> (src_state e = ''COMPLETION_UNKNOWN'' \<and> escalated)) ?effects
      \<longleftrightarrow> \<not> stuck \<and> (escalated \<or> \<not> open_effect)"
    by (auto simp: stuck_def open_effect_def list_all_iff list_ex_iff)
  moreover have "terminalDisposition ?effects ?events =
      (if open_effect \<and> escalated then ''ESCALATED'' else if failed then ''FAILED'' else ''SUCCEEDED'')"
    by (simp add: terminalDisposition_def Let_def open_effect_def escalated_def failed_def)
  ultimately show ?thesis
    unfolding assertTerminalEvidence_def Let_def empty all_in bundle_simps built_states
    by (auto simp: open_effect_def [symmetric] escalated_def [symmetric] stuck_def [symmetric] failed_def [symmetric])
qed

text \<open>
  C27: the disposition a bundle is built with is the one its receipt demands. A bundle built for a run
  is accepted as terminal evidence exactly when its action digest is a digest and every effect in
  its scope is resolved, or is of unknown completion and the events in its scope record an
  escalation.
\<close>

theorem terminal_evidence_iff:
  "assertTerminalEvidence (buildRunEvidenceBundle env input) = Inr () \<longleftrightarrow>
     hex64 (eb_actionDigest (buildRunEvidenceBundle env input)) \<and>
     list_all (\<lambda>e. src_state e \<in> set terminal_states \<or>
       (src_state e = ''COMPLETION_UNKNOWN'' \<and>
        list_ex (\<lambda>a. asrc_type a = ''effect.reconcile_escalated'') (scopeAuditEvents input))) (scopeEffects input)"
  by (rule terminal_evidence_built)

text \<open>
  The two builders of the package build the same bundle. Rebuilding the signed form from the
  entries of the plain bundle (dispositions and request hashes read back from the chain, in its
  order) changes nothing.
\<close>

lemma signed_bundle_is_run_bundle:
  "buildSignedEvidenceBundle env input = buildRunEvidenceBundle env input"
proof -
  let ?b = "buildRunEvidenceBundle env input"
  have "sort (map src_requestHash (sort_key f effects)) = sort (map src_requestHash effects)"
    for f :: "effect_source \<Rightarrow> string \<times> string" and effects
    by (rule properties_for_sort) simp_all
  then have digest: "nullish (bi_actionDigest input) (default_digest env input (map entry_requestHash (eb_effects ?b))) =
      eb_actionDigest ?b"
    by (simp add: bundle_simps entry_states default_digest_def)
  have "signed_disposition ?b = eb_terminalDisposition ?b"
    unfolding signed_disposition_def terminalDisposition_def bundle_simps built_states Let_def by simp
  with digest show ?thesis
    by (simp add: buildSignedEvidenceBundle_def Let_def)
      (simp add: buildRunEvidenceBundle_def attachContentHash_def Let_def body_members_def)
qed

end
