(* ===== verification/Evidence_Example.thy ===== *)
theory Evidence_Example
  imports Evidence_Claims
begin

text \<open>
  The evidence properties at concrete inputs. The hash of the example writes its text in unary
  digits, so it has no collision, and starts with a one, so nothing hashes to the genesis hash.
\<close>

definition unary :: "string \<Rightarrow> string" where
  "unary s = CHR ''1'' # concat (map (\<lambda>c. replicate (char_code c) (CHR ''0'') @ [CHR ''1'']) s)"

lemma unary_step: "replicate m (CHR ''0'') @ CHR ''1'' # u = replicate n (CHR ''0'') @ CHR ''1'' # v \<Longrightarrow> m = n \<and> u = v"
proof (induction m arbitrary: n)
  case 0
  then show ?case by (cases n) auto
next
  case (Suc m)
  then show ?case by (cases n) auto
qed

lemma unary_inject: "unary s = unary t \<Longrightarrow> s = t"
  unfolding unary_def
proof (induction s arbitrary: t)
  case Nil
  then show ?case by (cases t) auto
next
  case (Cons c s)
  then show ?case by (cases t) (auto dest!: unary_step)
qed

lemma unary_hex: "hex_text (unary s)"
  by (auto simp: unary_def hex_text_def list_all_iff is_digit_def char_code_def)

definition example_env :: evidence_env where
  "example_env = \<lparr>ev_sha256 = unary, ev_collate = (\<lambda>s. s), ev_now = ''10:00'', ev_randomUUID = ''u1''\<rparr>"

definition example_effect :: "string \<Rightarrow> effect_source" where
  "example_effect i = \<lparr>src_id = i, src_runId = ''n1'', src_stepId = ''s1'', src_tenantId = ''t1'', src_type = ''send'',
     src_state = ''COMPLETED'', src_policyDecisionId = ''d1'', src_requestHash = ''ab'',
     src_response = Some [(''status'', JStr ''ok''), (''card'', JStr ''4111'')], src_createdAt = ''09:00'',
     src_completedAt = Some ''09:01'', src_approvalInteractionId = None\<rparr>"

definition example_input :: "string list \<Rightarrow> string \<Rightarrow> build_input" where
  "example_input ids bundle = \<lparr>bi_tenantId = ''t1'', bi_runId = ''n1'', bi_actionDigest = Some ''ab'', bi_effectId = None,
     bi_intentHash = None, bi_workGraphHash = None, bi_workGraphVersion = None, bi_policySnapshotId = ''p1'',
     bi_kernelApiVersion = None, bi_capabilityGrant = None, bi_effects = map example_effect ids,
     bi_auditEvents = None, bi_exportedAt = None, bi_bundleId = Some bundle\<rparr>"

definition example_signature :: evidence_signature where
  "example_signature = \<lparr>sg_algorithm = ''Ed25519'', sg_keyId = ''id1'', sg_signedAt = ''10:00'', sg_value = ''sig''\<rparr>"

lemma example_texts:
  "no_secret_text (input_texts example_env (example_input [''e1'', ''e2''] ''b1''))"
  "no_secret_text (input_texts example_env (example_input [''e2'', ''e1''] ''b2''))"
  "no_secret_text (signature_texts example_signature)"
  by (rule harmless_texts, code_simp)+

lemma example_value: "sg_value example_signature = ''sig''"
  by (simp add: example_signature_def)

lemma example_env_ok: "hex_text (ev_sha256 example_env s)" "\<not> collision example_env" "\<not> genesis_preimage example_env"
  by (auto simp: example_env_def unary_hex collision_def genesis_preimage_def EVIDENCE_GENESIS_HASH_def
    dest: unary_inject) (simp add: unary_def numeral_eq_Suc)

theorem built_evidence_verifies_witness:
  "verifyEvidenceBundle example_env ((buildRunEvidenceBundle example_env (example_input [''e1'', ''e2''] ''b1''))
      \<lparr>eb_signature := Some example_signature\<rparr>)
     \<lparr>vf_verifySignature = Some (\<lambda>_ s. sg_value s = ''sig''), vf_jwks = None, vf_requireSignature = None\<rparr> = Verified"
  by (subst built_evidence_verifies)
    (auto simp: example_env_ok example_texts resolveSignatureVerifier_def example_value)

theorem evidence_chains_are_tamper_evident_witness:
  "map entry_content (eb_effects (buildRunEvidenceBundle example_env (example_input [''e1'', ''e2''] ''b1''))) =
   map entry_content (eb_effects (buildRunEvidenceBundle example_env (example_input [''e2'', ''e1''] ''b2'')))"
proof -
  let ?a = "(buildRunEvidenceBundle example_env (example_input [''e1'', ''e2''] ''b1''))\<lparr>eb_signature := None\<rparr>"
  let ?b = "(buildRunEvidenceBundle example_env (example_input [''e2'', ''e1''] ''b2''))\<lparr>eb_signature := None\<rparr>"
  let ?options = "\<lparr>vf_verifySignature = None, vf_jwks = None, vf_requireSignature = None\<rparr>"
  have verified: "verifyEvidenceBundle example_env ?a ?options = Verified" "verifyEvidenceBundle example_env ?b ?options = Verified"
    by (subst built_structure; simp add: example_env_ok example_texts verifyBundleSignature_def
        resolveSignatureVerifier_def nullish_def)+
  have "eb_effects ?a = eb_effects ?b"
    by (simp add: bundle_simps buildEffectEntries_def scopeEffects_def example_input_def example_effect_def example_env_def)
  then show ?thesis
    using evidence_chains_are_tamper_evident [OF verified example_env_ok(2,3)] by (simp add: chain_end_def)
qed

end
