(* ===== verification/Terminal_Evidence.thy ===== *)
theory Terminal_Evidence
  imports Effect_Broker Kernel_Evidence Evidence_Claims
begin

text \<open>
  The evidence of one effect, as the broker (\<open>buildTerminalEvidenceRecord\<close> of \<open>index.ts\<close>), the
  reconciliation daemon (\<open>buildTerminalEvidenceRecordFromKernel\<close>) and \<open>terminalEvidence.ts\<close> build it
  when the effect ends, and that the kernel accepts it for that effect.
\<close>

section \<open>Where the evidence comes from\<close>

record context_effect = effect_source +
  cx_actionDigest :: "string option"
  cx_policySnapshotId :: "string option"

record context_event =
  cv_type :: string
  cv_tenantId :: string
  cv_runId :: string
  cv_stepId :: "string option"
  cv_aggregateId :: string
  cv_occurredAt :: string
  cv_payload :: members

type_synonym evidence_context = "context_effect option \<times> context_event list"

text \<open>The ports of the kernel and the signer, with the methods that are optional.\<close>

record 'w evidence_signer =
  es_sign :: "string \<Rightarrow> ('w, broker_error, evidence_signature) js"
  es_verify :: "string \<Rightarrow> evidence_signature \<Rightarrow> bool"

record 'w evidence_ports =
  ep_getTerminalEvidenceContext ::
    "(string \<Rightarrow> string \<Rightarrow> string \<Rightarrow> string \<Rightarrow> ('w, broker_error, evidence_context) js) option"
  ep_listEffectsForRun :: "(string \<Rightarrow> string \<Rightarrow> ('w, broker_error, context_effect list) js) option"
  ep_listEvents :: "(string \<Rightarrow> string \<Rightarrow> ('w, broker_error, context_event list) js) option"

text \<open>\<open>{...a, ...b}\<close>: a member that is there keeps its place and takes the later value.\<close>

fun with_member :: "members \<Rightarrow> string \<times> json \<Rightarrow> members" where
  "with_member [] kv = [kv]"
| "with_member (kv' # kvs) kv = (if fst kv' = fst kv then kv # kvs else kv' # with_member kvs kv)"

definition spread :: "members \<Rightarrow> members \<Rightarrow> members" where
  "spread = foldl with_member"

definition of_effect :: "string \<Rightarrow> context_event \<Rightarrow> bool" where
  "of_effect effectId event \<longleftrightarrow>
     cv_aggregateId event = effectId \<or> map_of (cv_payload event) ''effectId'' = Some (JStr effectId)"

definition event_severity :: "string \<Rightarrow> string" where
  "event_severity type = (if occurs ''failed'' type \<or> occurs ''escalat'' type then ''high'' else ''low'')"

text \<open>The audit event of a kernel event; \<open>stepId\<close> is what stands in for a missing step.\<close>

definition event_source :: "(string option \<Rightarrow> string) \<Rightarrow> context_event \<Rightarrow> audit_source" where
  "event_source step_of event =
     \<lparr>asrc_type = cv_type event, asrc_severity = event_severity (cv_type event), asrc_tenantId = cv_tenantId event,
      asrc_runId = cv_runId event, asrc_stepId = step_of (cv_stepId event), asrc_at = cv_occurredAt event,
      asrc_details = with_member (cv_payload event) (''effectId'',
        case map_of (cv_payload event) ''effectId'' of Some (JStr s) \<Rightarrow> JStr s | _ \<Rightarrow> JStr (cv_aggregateId event))\<rparr>"

record terminal_event =
  te_type :: string
  te_severity :: string
  te_details :: members

definition projected :: "context_effect \<Rightarrow> string \<Rightarrow> members \<Rightarrow> string \<Rightarrow> effect_source" where
  "projected target state response completedAt =
     (effect_source.truncate target)\<lparr>src_state := state, src_response := Some response, src_completedAt := Some completedAt\<rparr>"

definition effect_input :: "string \<Rightarrow> string \<Rightarrow> string \<Rightarrow> string \<Rightarrow> string \<Rightarrow> effect_source list \<Rightarrow> audit_source list \<Rightarrow>
    string \<Rightarrow> build_input" where
  "effect_input tenantId runId effectId actionDigest policySnapshotId effects events at =
     \<lparr>bi_tenantId = tenantId, bi_runId = runId, bi_actionDigest = Some actionDigest, bi_effectId = Some effectId,
      bi_intentHash = None, bi_workGraphHash = None, bi_workGraphVersion = None, bi_policySnapshotId = policySnapshotId,
      bi_kernelApiVersion = None, bi_capabilityGrant = None, bi_effects = effects, bi_auditEvents = Some events,
      bi_exportedAt = Some at, bi_bundleId = Some (evidence_bundle_of effectId)\<rparr>"

definition record_of :: "string \<Rightarrow> string \<Rightarrow> evidence_bundle \<Rightarrow> evidence_signature \<Rightarrow> string \<Rightarrow> string \<Rightarrow> evidence_record" where
  "record_of tenantId runId body signature at retentionUntil =
     \<lparr>er_tenantId = tenantId, er_runId = runId, er_bundleId = eb_bundleId body, er_actionDigest = eb_actionDigest body,
      er_body = body\<lparr>eb_signature := Some signature\<rparr>, er_contentHash = eb_contentHash body, er_signature = Some signature,
      er_createdAt = at, er_anchoredAt = Some at, er_retentionUntil = retentionUntil\<rparr>"

section \<open>The broker's record\<close>

definition terminal_text :: "terminal_state \<Rightarrow> string" where
  "terminal_text terminal = (case terminal of T_completed _ \<Rightarrow> ''COMPLETED'' | T_failed _ \<Rightarrow> ''FAILED'')"

text \<open>The arguments \<open>completeTerminalEffect\<close> and \<open>failTerminalEffect\<close> pass.\<close>

definition error_members :: "effect_error \<Rightarrow> members" where
  "error_members error = [(''code'', JStr (ee_code error)), (''message'', JStr (ee_message error)),
     (''retryable'', JBool (ee_retryable error))] @ (case ee_details error of None \<Rightarrow> [] | Some d \<Rightarrow> [(''details'', d)])"

definition response_members :: "terminal_state \<Rightarrow> members" where
  "response_members terminal = (case terminal of
     T_completed response \<Rightarrow> (case response of JObj kvs \<Rightarrow> kvs | _ \<Rightarrow> []) | T_failed error \<Rightarrow> error_members error)"

definition terminal_event_of :: "admitted_entry \<Rightarrow> terminal_state \<Rightarrow> terminal_event" where
  "terminal_event_of admission terminal = (case terminal of
     T_completed _ \<Rightarrow> \<lparr>te_type = ''effect.completed'', te_severity = ''low'',
       te_details = [(''policyDecisionId'', JStr (pd_decisionId (ad_decision admission)))]\<rparr>
   | T_failed error \<Rightarrow> \<lparr>te_type = ''effect.failed'', te_severity = ''high'',
       te_details = [(''errorCode'', JStr (ee_code error))]\<rparr>)"

definition truth_invalid :: "('w, broker_error, 'a) js" where
  "truth_invalid = js_throw (OtherError ''EVIDENCE_LIFECYCLE_TRUTH_INVALID'')"

definition listed_context :: "'w evidence_ports \<Rightarrow> string \<Rightarrow> string \<Rightarrow> string \<Rightarrow>
    ('w, broker_error, evidence_context option) js" where
  "listed_context ports effectId runId tenantId =
     (case (ep_listEffectsForRun ports, ep_listEvents ports) of
        (Some effects_of, Some events_of) \<Rightarrow>
          js_bind (effects_of runId tenantId) (\<lambda>effects.
          js_bind (events_of runId tenantId) (\<lambda>events.
          js_return (Some (find (\<lambda>e. src_id e = effectId) effects, events))))
      | _ \<Rightarrow> js_return None)"

definition fetched_context :: "'w evidence_ports \<Rightarrow> string \<Rightarrow> string \<Rightarrow> string \<Rightarrow> string \<Rightarrow>
    ('w, broker_error, evidence_context option) js" where
  "fetched_context ports effectId runId tenantId token =
     (case ep_getTerminalEvidenceContext ports of
        Some context \<Rightarrow> js_bind (context effectId runId tenantId token) (\<lambda>c. js_return (Some c))
      | None \<Rightarrow> listed_context ports effectId runId tenantId)"

definition target_of_admission :: "admitted_entry \<Rightarrow> context_effect \<Rightarrow> bool" where
  "target_of_admission admission target \<longleftrightarrow>
     src_tenantId target = gr_tenantId (ad_grant admission) \<and> src_runId target = gr_runId (ad_grant admission) \<and>
     src_stepId target = gr_stepId (ad_grant admission) \<and> src_state target = ''ADMITTED'' \<and>
     cx_actionDigest target = Some (ad_actionDigest admission) \<and>
     src_policyDecisionId target = pd_decisionId (ad_decision admission) \<and>
     cx_policySnapshotId target \<in> {None, Some [], Some (pd_policySnapshotId (ad_decision admission))}"

definition terminal_input :: "admitted_entry \<Rightarrow> terminal_state \<Rightarrow> string \<Rightarrow> context_effect \<Rightarrow> context_event list \<Rightarrow> build_input" where
  "terminal_input admission terminal completedAt target events =
     (let grant = ad_grant admission; effectId = ad_kernelEffectId admission; event = terminal_event_of admission terminal;
          audit = map (event_source (\<lambda>s. if s \<in> {None, Some []} then gr_stepId grant else the s))
            (filter (of_effect effectId) events) @
            [\<lparr>asrc_type = te_type event, asrc_severity = te_severity event, asrc_tenantId = gr_tenantId grant,
              asrc_runId = gr_runId grant, asrc_stepId = gr_stepId grant, asrc_at = completedAt,
              asrc_details = spread [(''effectId'', JStr effectId)] (te_details event)\<rparr>] in
      effect_input (gr_tenantId grant) (gr_runId grant) effectId (ad_actionDigest admission)
        (nullish (cx_policySnapshotId target) (pd_policySnapshotId (ad_decision admission)))
        [projected target (terminal_text terminal) (response_members terminal) completedAt] audit completedAt)"

definition record_from_context :: "evidence_env \<Rightarrow> (string \<Rightarrow> string) \<Rightarrow> 'w evidence_signer \<Rightarrow> admitted_entry \<Rightarrow>
    terminal_state \<Rightarrow> evidence_context option \<Rightarrow> ('w, broker_error, evidence_record) js" where
  "record_from_context env retention signer admission terminal ctx =
     (let grant = ad_grant admission; completedAt = ev_now env in
      case ctx of
        Some (Some target, events) \<Rightarrow>
          if \<not> target_of_admission admission target then truth_invalid
          else (let body = buildRunEvidenceBundle env (terminal_input admission terminal completedAt target events) in
            js_bind (es_sign signer (canonicalEvidenceBody body)) (\<lambda>signature.
            js_return (record_of (gr_tenantId grant) (gr_runId grant) body signature completedAt (retention completedAt))))
      | _ \<Rightarrow> truth_invalid)"

definition buildTerminalEvidenceRecord :: "evidence_env \<Rightarrow> (string \<Rightarrow> string) \<Rightarrow> 'w evidence_signer option \<Rightarrow>
    'w evidence_ports \<Rightarrow> admitted_entry \<Rightarrow> terminal_state \<Rightarrow> ('w, broker_error, evidence_record) js" where
  "buildTerminalEvidenceRecord env retention evidenceSigner ports admission terminal =
     (let grant = ad_grant admission in
      case evidenceSigner of
        None \<Rightarrow> js_throw (OtherError ''EVIDENCE_LIFECYCLE_TRUTH_REQUIRED'')
      | Some signer \<Rightarrow>
          if ep_getTerminalEvidenceContext ports = None \<and> (ep_listEffectsForRun ports = None \<or> ep_listEvents ports = None)
          then js_throw (OtherError ''EVIDENCE_LIFECYCLE_TRUTH_REQUIRED'')
          else js_bind (fetched_context ports (ad_kernelEffectId admission) (gr_runId grant) (gr_tenantId grant)
              (lr_token (ad_lease admission)))
            (record_from_context env retention signer admission terminal))"

text \<open>The record is built and checked before a port of the kernel sees it.\<close>

definition checked :: "evidence_env \<Rightarrow> (string \<Rightarrow> time option) \<Rightarrow> (string \<Rightarrow> evidence_signature \<Rightarrow> bool) option \<Rightarrow>
    evidence_record \<Rightarrow> ('w, broker_error, evidence_record) js" where
  "checked env parse_date verifier r =
     (case assertEvidenceRecord env parse_date r \<lparr>ro_maxBytes = None, ro_verifySignature = verifier, ro_jwks = None\<rparr> of
        Inl e \<Rightarrow> js_throw (OtherError e) | Inr _ \<Rightarrow> js_return r)"

definition terminal_evidence_port :: "evidence_env \<Rightarrow> (string \<Rightarrow> time option) \<Rightarrow> (string \<Rightarrow> string) \<Rightarrow>
    'w evidence_signer option \<Rightarrow> 'w evidence_ports \<Rightarrow> admitted_entry \<Rightarrow> terminal_state \<Rightarrow>
    ('w, broker_error, evidence_record) js" where
  "terminal_evidence_port env parse_date retention evidenceSigner ports admission terminal =
     js_bind (buildTerminalEvidenceRecord env retention evidenceSigner ports admission terminal)
       (checked env parse_date (map_option es_verify evidenceSigner))"

section \<open>The daemon's record\<close>

record record_request =
  rr_tenantId :: string
  rr_runId :: string
  rr_effectId :: string
  rr_projectedState :: effect_state
  rr_response :: members
  rr_terminalEvent :: terminal_event
  rr_recordedAt :: string
  rr_retentionUntil :: string
  rr_claimToken :: "string option"

definition absent :: "string option \<Rightarrow> bool" where
  "absent v \<longleftrightarrow> v \<in> {None, Some []}"

definition daemon_input :: "record_request \<Rightarrow> context_effect \<Rightarrow> context_event list \<Rightarrow> build_input" where
  "daemon_input rq target events =
     (let audit = map (event_source (\<lambda>s. nullish s (src_stepId target))) (filter (of_effect (rr_effectId rq)) events) @
            [\<lparr>asrc_type = te_type (rr_terminalEvent rq), asrc_severity = te_severity (rr_terminalEvent rq),
              asrc_tenantId = rr_tenantId rq, asrc_runId = rr_runId rq, asrc_stepId = src_stepId target,
              asrc_at = rr_recordedAt rq,
              asrc_details = spread [(''effectId'', JStr (rr_effectId rq))] (te_details (rr_terminalEvent rq))\<rparr>] in
      effect_input (rr_tenantId rq) (rr_runId rq) (rr_effectId rq) (nullish (cx_actionDigest target) [])
        (nullish (cx_policySnapshotId target) [])
        [projected target (effect_state_text (rr_projectedState rq)) (rr_response rq) (rr_recordedAt rq)]
        audit (rr_recordedAt rq))"

definition daemon_record :: "evidence_env \<Rightarrow> (string \<Rightarrow> time option) \<Rightarrow> 'w evidence_signer \<Rightarrow> record_request \<Rightarrow>
    evidence_context option \<Rightarrow> ('w, broker_error, evidence_record) js" where
  "daemon_record env parse_date signer rq ctx =
     (case ctx of
        None \<Rightarrow> js_throw (OtherError ''EVIDENCE_LIFECYCLE_TRUTH_REQUIRED'')
      | Some (None, _) \<Rightarrow> truth_invalid
      | Some (Some target, events) \<Rightarrow>
          if src_tenantId target \<noteq> rr_tenantId rq \<or> src_runId target \<noteq> rr_runId rq then truth_invalid
          else if absent (cx_actionDigest target) \<or> absent (cx_policySnapshotId target)
          then js_throw (OtherError ''EVIDENCE_LIFECYCLE_BINDING_REQUIRED'')
          else (let body = buildRunEvidenceBundle env (daemon_input rq target events) in
            js_bind (es_sign signer (canonicalEvidenceBody body)) (\<lambda>signature.
            checked env parse_date (Some (es_verify signer))
              (record_of (rr_tenantId rq) (rr_runId rq) body signature (rr_recordedAt rq) (rr_retentionUntil rq)))))"

definition buildTerminalEvidenceRecordFromKernel :: "evidence_env \<Rightarrow> (string \<Rightarrow> time option) \<Rightarrow> 'w evidence_signer \<Rightarrow>
    'w evidence_ports \<Rightarrow> record_request \<Rightarrow> ('w, broker_error, evidence_record) js" where
  "buildTerminalEvidenceRecordFromKernel env parse_date signer ports rq =
     js_bind (if ep_getTerminalEvidenceContext ports \<noteq> None \<and> absent (rr_claimToken rq) then js_return None
       else fetched_context ports (rr_effectId rq) (rr_runId rq) (rr_tenantId rq) (nullish (rr_claimToken rq) []))
       (daemon_record env parse_date signer rq)"

section \<open>The effect scoped record\<close>

text \<open>\<open>packages/effect-broker/src/terminalEvidence.ts\<close>\<close>

record terminal_record =
  tr_tenantId :: string
  tr_runId :: string
  tr_effectId :: string
  tr_bundleId :: string
  tr_actionDigest :: string
  tr_receipt :: evidence_bundle
  tr_anchoredAt :: string
  tr_retentionUntil :: string

definition scoped_input :: "context_effect \<Rightarrow> effect_state \<Rightarrow> members \<Rightarrow> audit_source list \<Rightarrow> terminal_event \<Rightarrow> string \<Rightarrow>
    build_input" where
  "scoped_input effect state response auditEvents event at =
     (let audit = filter (\<lambda>a. asrc_tenantId a = src_tenantId effect \<and> asrc_runId a = src_runId effect \<and>
            (map_of (asrc_details a) ''effectId'' = Some (JStr (src_id effect)) \<or> asrc_stepId a = src_stepId effect)) auditEvents @
            [\<lparr>asrc_type = te_type event, asrc_severity = te_severity event, asrc_tenantId = src_tenantId effect,
              asrc_runId = src_runId effect, asrc_stepId = src_stepId effect, asrc_at = at,
              asrc_details = spread [(''effectId'', JStr (src_id effect))] (te_details event)\<rparr>] in
      effect_input (src_tenantId effect) (src_runId effect) (src_id effect) (nullish (cx_actionDigest effect) [])
        (nullish (cx_policySnapshotId effect) []) [projected effect (effect_state_text state) response at] audit at)"

definition buildEffectScopedEvidenceRecord :: "evidence_env \<Rightarrow> 'w evidence_signer \<Rightarrow> context_effect \<Rightarrow> effect_state \<Rightarrow> members \<Rightarrow>
    audit_source list \<Rightarrow> terminal_event \<Rightarrow> string \<Rightarrow> string \<Rightarrow> ('w, broker_error, terminal_record) js" where
  "buildEffectScopedEvidenceRecord env signer effect state response auditEvents event recordedAt retentionUntil =
     (if \<not> hex64 (nullish (cx_actionDigest effect) []) then js_throw (OtherError ''EVIDENCE_ACTION_DIGEST_INVALID'')
      else if trim (nullish (cx_policySnapshotId effect) []) = []
      then js_throw (OtherError ''EVIDENCE_POLICY_SNAPSHOT_REQUIRED'')
      else (let receipt = buildSignedEvidenceBundle env (scoped_input effect state response auditEvents event recordedAt) in
        js_bind (es_sign signer (canonicalEvidenceBody receipt)) (\<lambda>signature.
        let signedReceipt = receipt\<lparr>eb_signature := Some signature\<rparr> in
        case assertTerminalEvidence signedReceipt of
          Inl e \<Rightarrow> js_throw (OtherError e)
        | Inr _ \<Rightarrow> js_return
            \<lparr>tr_tenantId = src_tenantId effect, tr_runId = src_runId effect, tr_effectId = src_id effect,
             tr_bundleId = eb_bundleId signedReceipt, tr_actionDigest = nullish (cx_actionDigest effect) [],
             tr_receipt = signedReceipt, tr_anchoredAt = recordedAt, tr_retentionUntil = retentionUntil\<rparr>)))"

section \<open>The kernel accepts it\<close>

text \<open>The row of \<open>commander_evidence\<close> a record becomes; the instants are parsed by the database.\<close>

definition receipt_row :: "(string \<Rightarrow> time) \<Rightarrow> evidence_record \<Rightarrow> evidence_row" where
  "receipt_row at_instant r =
     \<lparr>evidence_tenant_id = er_tenantId r, evidence_run_id = er_runId r, evidence_bundle_id = er_bundleId r,
      evidence_action_digest = er_actionDigest r, evidence_body = bundle_json (er_body r),
      evidence_content_hash = er_contentHash r,
      evidence_signature = (case er_signature r of None \<Rightarrow> JNull | Some s \<Rightarrow> signature_json s),
      evidence_created_at = at_instant (er_createdAt r), evidence_anchored_at = map_option at_instant (er_anchoredAt r),
      evidence_retention_until = at_instant (er_retentionUntil r)\<rparr>"

lemma effect_item_fields:
  "(m ++ map_of (effect_item e)) ''effectId'' = Some (JStr (src_id e))"
  "(m ++ map_of (effect_item e)) ''state'' = Some (JStr (src_state e))"
  by (simp_all add: effect_item_def)

lemma effect_input_simps [simp]:
  "bi_actionDigest (effect_input t r e d p effects events at) = Some d"
  "scopeEffects (effect_input t r e d p effects events at) = filter (\<lambda>s. src_tenantId s = t \<and> src_runId s = r) effects"
  "scopeAuditEvents (effect_input t r e d p effects events at) = filter (\<lambda>a. asrc_tenantId a = t \<and> asrc_runId a = r) events"
  by (simp_all add: effect_input_def scopeEffects_def scopeAuditEvents_def nullish_def)

text \<open>A record over the one effect it is about meets every check of the kernel.\<close>

lemma record_is_bound:
  fixes effect :: kernel_effect
  assumes "src_tenantId source = t" and "src_runId source = r" and "src_id source = e"
    and "src_state source = effect_state_text (ke_state effect)"
    and body: "body = buildRunEvidenceBundle env (effect_input t r e d p [source] events at)"
    and "expectedDisposition (ke_state effect) = Some (eb_terminalDisposition body)"
    and "ke_tenantId effect = t" "ke_runId effect = r" "ke_id effect = e" "ke_actionDigest effect = d"
  shows "evidence_bound (receipt_row at_instant (record_of t r body signature at until)) effect"
proof -
  have fields: "eb_bundleId body = evidence_bundle_of e" "eb_actionDigest body = d"
    "eb_scope body = [(''tenantId'', JStr t), (''runId'', JStr r), (''effectId'', JStr e)]"
    by (simp_all add: body buildRunEvidenceBundle_def attachContentHash_def Let_def effect_input_def nullish_def
        evidence_bundle_of_def optional_def)
  have effects: "eb_effects body = hashChainedEntries env [effect_item source]"
    using assms(1,2) by (simp add: body bundle_simps buildEffectEntries_def)
  have "body_effect (bundle_json (body\<lparr>eb_signature := Some signature\<rparr>)) e =
      Some (JObj (hd (hashChainedEntries env [effect_item source])))"
    using assms(3) by (simp add: body_effect_def bundle_json_def json_field_def body_members_def effects
        hashChainedEntries_def Let_def is_object_def effect_item_fields)
  then show ?thesis
    using assms(4,6-) by (simp add: evidence_bound_def evidence_binding_errors_def receipt_row_def record_of_def json_field_def
        bundle_json_def body_members_def is_object_def fields hashChainedEntries_def Let_def effect_item_fields)
qed

lemma projected_simps [simp]:
  "src_tenantId (projected x state response at) = src_tenantId x" "src_runId (projected x state response at) = src_runId x"
  "src_id (projected x state response at) = src_id x" "src_state (projected x state response at) = state"
  by (simp_all add: projected_def effect_source.truncate_def)

text \<open>The context port answers with the effect that was asked for.\<close>

definition answers_by_id :: "'w evidence_ports \<Rightarrow> bool" where
  "answers_by_id ports \<longleftrightarrow> (case ep_getTerminalEvidenceContext ports of None \<Rightarrow> True
     | Some context \<Rightarrow> \<forall>e r t token w target events w'.
         context e r t token w = (Inr (Some target, events), w') \<longrightarrow> src_id target = e)"

lemma fetched_id:
  assumes "answers_by_id ports" and "fetched_context ports e r t token w = (Inr (Some (Some target, events)), w')"
  shows "src_id target = e"
proof (cases "ep_getTerminalEvidenceContext ports")
  case None
  then have "\<exists>effects. find (\<lambda>x. src_id x = e) effects = Some target"
    using assms(2) by (auto simp: fetched_context_def listed_context_def js split: option.splits)
  then show ?thesis by (auto simp: find_Some_iff)
next
  case (Some port)
  then show ?thesis
    using assms by (simp add: fetched_context_def answers_by_id_def js) blast
qed

lemma js_bind_Inr: "js_bind m f w = (Inr r, w') \<longleftrightarrow> (\<exists>x v. m w = (Inr x, v) \<and> f x v = (Inr r, w'))"
  by (auto simp: js)

lemma js_throw_Inr: "js_throw e w \<noteq> (Inr r, w')"
  by (simp add: js)

lemma checked_Inr:
  "checked env parse_date verifier r w = (Inr r', w') \<longleftrightarrow> r' = r \<and> w' = w \<and>
     assertEvidenceRecord env parse_date r \<lparr>ro_maxBytes = None, ro_verifySignature = verifier, ro_jwks = None\<rparr> = Inr ()"
  by (auto simp: checked_def js split: sum.split)

lemma buildTerminalEvidenceRecord_Inr:
  assumes built: "buildTerminalEvidenceRecord env retention signer ports admission terminal w = (Inr r, w')"
    and ports: "answers_by_id ports"
  obtains target events signature where "src_tenantId target = gr_tenantId (ad_grant admission)"
    "src_runId target = gr_runId (ad_grant admission)" "src_id target = ad_kernelEffectId admission"
    "r = record_of (gr_tenantId (ad_grant admission)) (gr_runId (ad_grant admission))
       (buildRunEvidenceBundle env (terminal_input admission terminal (ev_now env) target events)) signature (ev_now env)
       (retention (ev_now env))"
proof -
  let ?grant = "ad_grant admission"
  from built obtain sg ctx v where fetched: "fetched_context ports (ad_kernelEffectId admission) (gr_runId ?grant)
      (gr_tenantId ?grant) (lr_token (ad_lease admission)) w = (Inr ctx, v)"
    and rest: "record_from_context env retention sg admission terminal ctx v = (Inr r, w')"
    by (auto simp: buildTerminalEvidenceRecord_def Let_def js_bind_Inr js_throw_Inr split: option.splits if_splits)
  from rest obtain target events where ctx: "ctx = Some (Some target, events)" and "target_of_admission admission target"
    by (auto simp: record_from_context_def Let_def truth_invalid_def js_throw_Inr split: option.splits if_splits)
  with rest obtain signature where "r = record_of (gr_tenantId ?grant) (gr_runId ?grant)
      (buildRunEvidenceBundle env (terminal_input admission terminal (ev_now env) target events)) signature (ev_now env)
      (retention (ev_now env))"
    by (auto simp: record_from_context_def Let_def js_bind_Inr js_return_iff)
  with \<open>target_of_admission admission target\<close> fetched_id [OF ports fetched [unfolded ctx]] that show thesis
    unfolding target_of_admission_def by blast
qed

lemma terminal_disposition_of_one:
  "terminalDisposition [source] events =
     (if src_state source \<notin> set terminal_states \<and> list_ex (\<lambda>a. asrc_type a = ''effect.reconcile_escalated'') events then ''ESCALATED''
      else if src_state source = ''FAILED'' \<or> src_state source = ''CONFIRMED_NOT_APPLIED'' then ''FAILED'' else ''SUCCEEDED'')"
  by (simp add: terminalDisposition_def Let_def)

text \<open>What a checked record is known to be.\<close>

definition signed_and_verified :: "evidence_env \<Rightarrow> (string \<Rightarrow> evidence_signature \<Rightarrow> bool) \<Rightarrow> evidence_record \<Rightarrow> bool" where
  "signed_and_verified env verifier r \<longleftrightarrow>
     verifyEvidenceBundle env (er_body r) \<lparr>vf_verifySignature = Some verifier, vf_jwks = None, vf_requireSignature = Some True\<rparr>
       = Verified \<and> assertTerminalEvidence (er_body r) = Inr ()"

lemma checked_verified:
  "checked env parse_date (Some verifier) r w = (Inr r', w') \<Longrightarrow> r' = r \<and> w' = w \<and> signed_and_verified env verifier r"
  by (auto simp: checked_Inr assertEvidenceRecord_def Let_def signed_and_verified_def
      split: option.splits if_splits sum.splits verdict.splits)

lemma assertTerminal_signature [simp]: "assertTerminalEvidence (b\<lparr>eb_signature := sg\<rparr>) = assertTerminalEvidence b"
  by (simp add: assertTerminalEvidence_def Let_def)

text \<open>A record over a bundle that was built and signed meets the checks of the sink.\<close>

lemma built_record_accepted:
  assumes "\<And>text. hex_text (ev_sha256 env text)" and "no_secret_text (input_texts env input)"
    and "no_secret_text (signature_texts signature)"
    and "verifier (canonicalEvidenceBody (buildRunEvidenceBundle env input)) signature"
    and "bi_tenantId input = t" and "bi_runId input = r"
    and "assertTerminalEvidence (buildRunEvidenceBundle env input) = Inr ()"
    and "utf8_length (plain (record_json (record_of t r (buildRunEvidenceBundle env input) signature at until)))
      \<le> DEFAULT_EVIDENCE_MAX_BYTES"
    and "parse_date at = Some created" and "parse_date until = Some retained" and "created < retained"
  shows "assertEvidenceRecord env parse_date (record_of t r (buildRunEvidenceBundle env input) signature at until)
    \<lparr>ro_maxBytes = None, ro_verifySignature = Some verifier, ro_jwks = None\<rparr> = Inr ()"
proof -
  let ?b = "buildRunEvidenceBundle env input"
  have "eb_scope ?b = [(''tenantId'', JStr (bi_tenantId input)), (''runId'', JStr (bi_runId input))] @
      optional ''effectId'' (bi_effectId input)"
    by (simp add: buildRunEvidenceBundle_def attachContentHash_def Let_def)
  moreover have "verifyEvidenceBundle env (?b\<lparr>eb_signature := Some signature\<rparr>)
      \<lparr>vf_verifySignature = Some verifier, vf_jwks = None, vf_requireSignature = Some True\<rparr> = Verified"
    using assms(1-4) by (subst built_structure) (auto simp: verifyBundleSignature_def resolveSignatureVerifier_def)
  ultimately show ?thesis
    using assms(5-) by (simp add: assertEvidenceRecord_def Let_def record_of_def nullish_def not_less)
qed

text \<open>
  C23: the kernel accepts the evidence the broker builds. When the broker has built and checked the
  evidence of an effect that ended, the record verifies under the signer's own key and passes the
  check the kernel makes in the transaction that ends the effect, for the effect it was built for:
  same tenant, run, ledger id and action digest, in the state that was projected.
\<close>

theorem broker_evidence_is_accepted:
  assumes built: "terminal_evidence_port env parse_date retention (Some signer) ports admission terminal w = (Inr receipt, w')"
    and "answers_by_id ports"
    and effect: "ke_tenantId effect = gr_tenantId (ad_grant admission)" "ke_runId effect = gr_runId (ad_grant admission)"
      "ke_id effect = ad_kernelEffectId admission" "ke_actionDigest effect = ad_actionDigest admission"
      "ke_state effect = (case terminal of T_completed _ \<Rightarrow> E_COMPLETED | T_failed _ \<Rightarrow> E_FAILED)"
  shows "signed_and_verified env (es_verify signer) receipt \<and>
    assertEvidenceRecordBoundToEffect (receipt_row at_instant receipt) effect db = Inr ((), db)"
proof -
  from built obtain w'' where "buildTerminalEvidenceRecord env retention (Some signer) ports admission terminal w = (Inr receipt, w'')"
    and verified: "signed_and_verified env (es_verify signer) receipt"
    by (auto simp: terminal_evidence_port_def js_bind_Inr dest!: checked_verified)
  from buildTerminalEvidenceRecord_Inr [OF this(1) assms(2)] obtain target events signature where target:
    "src_tenantId target = gr_tenantId (ad_grant admission)" "src_runId target = gr_runId (ad_grant admission)"
    "src_id target = ad_kernelEffectId admission"
    and receipt: "receipt = record_of (gr_tenantId (ad_grant admission)) (gr_runId (ad_grant admission))
       (buildRunEvidenceBundle env (terminal_input admission terminal (ev_now env) target events)) signature (ev_now env)
       (retention (ev_now env))" by metis
  have "evidence_bound (receipt_row at_instant receipt) effect"
    unfolding receipt
    by (rule record_is_bound [OF _ _ _ _ terminal_input_def [unfolded Let_def, THEN arg_cong [where f = "buildRunEvidenceBundle env"]]])
      (use target effect in \<open>auto simp: terminal_text_def terminal_states_def terminal_disposition_of_one bundle_simps
        terminal_input_def Let_def split: terminal_state.split\<close>)
  with verified show ?thesis by (simp add: assertEvidence_Inr)
qed

lemma daemon_record_bound:
  assumes built: "buildTerminalEvidenceRecordFromKernel env parse_date signer ports rq w = (Inr receipt, w')"
    and ports: "answers_by_id ports"
    and effect: "ke_tenantId effect = rr_tenantId rq" "ke_runId effect = rr_runId rq" "ke_id effect = rr_effectId rq"
      "ke_actionDigest effect = er_actionDigest receipt" "ke_state effect = rr_projectedState rq"
    and "rr_projectedState rq \<noteq> E_ADMITTED"
  shows "signed_and_verified env (es_verify signer) receipt \<and>
    evidence_bound (receipt_row at_instant receipt) effect"
proof -
  from built obtain ctx v where fetched: "ctx = None \<or> fetched_context ports (rr_effectId rq) (rr_runId rq) (rr_tenantId rq)
      (nullish (rr_claimToken rq) []) w = (Inr ctx, v)" and rest: "daemon_record env parse_date signer rq ctx v = (Inr receipt, w')"
    by (auto simp: buildTerminalEvidenceRecordFromKernel_def js_bind_Inr js_return_iff split: if_splits)
  from rest obtain target events where ctx: "ctx = Some (Some target, events)"
    and target: "src_tenantId target = rr_tenantId rq" "src_runId target = rr_runId rq"
    by (auto simp: daemon_record_def Let_def truth_invalid_def js_throw_Inr split: option.splits if_splits)
  then have id: "src_id target = rr_effectId rq"
    using fetched fetched_id [OF ports] by blast
  let ?body = "buildRunEvidenceBundle env (daemon_input rq target events)"
  from rest ctx obtain signature where receipt: "receipt = record_of (rr_tenantId rq) (rr_runId rq) ?body signature
      (rr_recordedAt rq) (rr_retentionUntil rq)" and verified: "signed_and_verified env (es_verify signer) receipt"
    by (auto simp: daemon_record_def Let_def truth_invalid_def js_throw_Inr js_bind_Inr dest!: checked_verified split: if_splits)
  then have "assertTerminalEvidence ?body = Inr ()"
    by (simp add: signed_and_verified_def record_of_def)
  then have "expectedDisposition (rr_projectedState rq) = Some (eb_terminalDisposition ?body)"
    using assms(8) target unfolding terminal_evidence_built
    by (cases "rr_projectedState rq")
      (auto simp: bundle_simps daemon_input_def Let_def terminal_disposition_of_one terminal_states_def)
  moreover have "eb_actionDigest ?body = nullish (cx_actionDigest target) []"
    by (simp add: bundle_simps daemon_input_def Let_def nullish_def)
  ultimately have "evidence_bound (receipt_row at_instant receipt) effect"
    unfolding receipt
    by (intro record_is_bound [OF _ _ _ _ daemon_input_def [unfolded Let_def, THEN arg_cong [where f = "buildRunEvidenceBundle env"]]])
      (use target id effect in \<open>auto simp: receipt record_of_def\<close>)
  with verified show ?thesis by simp
qed

text \<open>
  The kernel accepts the evidence a daemon builds, in each of the four states an effect can end
  in or stay open in. The record of an unresolved effect is built only when an escalation is on
  record.
\<close>

lemma daemon_evidence_is_accepted:
  assumes built: "buildTerminalEvidenceRecordFromKernel env parse_date signer ports rq w = (Inr receipt, w')"
    and ports: "answers_by_id ports"
    and effect: "ke_tenantId effect = rr_tenantId rq" "ke_runId effect = rr_runId rq" "ke_id effect = rr_effectId rq"
      "ke_actionDigest effect = er_actionDigest receipt" "ke_state effect = rr_projectedState rq"
    and "rr_projectedState rq \<noteq> E_ADMITTED"
  shows "signed_and_verified env (es_verify signer) receipt \<and>
    assertEvidenceRecordBoundToEffect (receipt_row at_instant receipt) effect db = Inr ((), db)"
  using daemon_record_bound [OF assms] by (simp add: assertEvidence_Inr)

end
