(* ===== verification/Ops_Loop.thy ===== *)
theory Ops_Loop
  imports Terminal_Evidence
begin

text \<open>
  What the two daemons of \<open>packages/adapter-ops/src\<close> share: the values a JavaScript \<open>throw\<close> can
  carry and what is reported of them, and the loop (\<open>start\<close>, \<open>stop\<close>, \<open>tick\<close>, \<open>isHealthy\<close>), whose ticks
  never overlap.
\<close>

section \<open>Thrown values\<close>

text \<open>
  An \<open>Error\<close> with its name, message and \<open>code\<close> (if that is a string), or another value; that
  \<open>undefined\<close> is thrown is left out.
\<close>

datatype thrown =
    Error_value string string "string option"
  | Object_value "string option"
  | Null_value
  | Text_value string
  | Primitive_value string

definition RECOGNIZED_ERROR_NAMES :: "string list" where
  "RECOGNIZED_ERROR_NAMES = [''Error'', ''TypeError'', ''RangeError'', ''ReferenceError'', ''SyntaxError'', ''URIError'',
     ''EvalError'', ''AggregateError'', ''AbortError'']"

text \<open>\<open>value.slice(0, limit)\<close> by code points: a character of the model is one.\<close>

definition firstCodePoints :: "string \<Rightarrow> nat \<Rightarrow> string" where
  "firstCodePoints s limit = take limit s"

definition effect_type_char :: "char \<Rightarrow> bool" where
  "effect_type_char c \<longleftrightarrow> is_word c \<or> c \<in> {CHR ''.'', CHR '':'', CHR ''-''}"

definition normalizedEffectType :: "string \<Rightarrow> string" where
  "normalizedEffectType type = map (\<lambda>c. if effect_type_char c then c else CHR ''_'') type"

fun thrownKind :: "thrown \<Rightarrow> string" where
  "thrownKind (Error_value name _ _) = (if name \<in> set RECOGNIZED_ERROR_NAMES then name else ''Error'')"
| "thrownKind Null_value = ''non-Error:null''"
| "thrownKind (Object_value _) = ''non-Error:object''"
| "thrownKind (Text_value _) = ''non-Error:string''"
| "thrownKind (Primitive_value type) = ''non-Error:'' @ type"

definition reconcileQueryThrownError :: "thrown \<Rightarrow> string \<Rightarrow> string \<times> string" where
  "reconcileQueryThrownError error type = (''RECONCILE_QUERY_THROWN'',
     firstCodePoints (''Outcome query threw '' @ thrownKind error @ '' for effect type '' @ normalizedEffectType type) 512)"

definition thrown_code :: "thrown \<Rightarrow> string option" where
  "thrown_code error = (case error of Error_value _ _ code \<Rightarrow> code | Object_value code \<Rightarrow> code | _ \<Rightarrow> None)"

definition opsLoopErrorCode :: "thrown \<Rightarrow> string" where
  "opsLoopErrorCode error =
     (if thrown_code error \<noteq> None \<and> thrown_code error \<noteq> Some [] then the (thrown_code error)
      else case error of Error_value name _ _ \<Rightarrow> if name \<noteq> [] then name else ''UNKNOWN'' | _ \<Rightarrow> ''UNKNOWN'')"

definition opsLoopErrorMessage :: "thrown \<Rightarrow> string option" where
  "opsLoopErrorMessage error = (case error of
     Error_value _ message _ \<Rightarrow> if trim message \<noteq> [] then Some (firstCodePoints message 512) else None
   | Text_value text \<Rightarrow> if trim text \<noteq> [] then Some (firstCodePoints text 512) else None
   | _ \<Rightarrow> None)"

text \<open>An exception of the broker's package as a thrown value.\<close>

definition thrown_of :: "broker_error \<Rightarrow> thrown" where
  "thrown_of e = (case e of
     EffectBrokerError code _ \<Rightarrow> Error_value ''EffectBrokerError'' code (Some code)
   | AdapterExecutionError _ \<Rightarrow> Error_value ''AdapterExecutionError'' [] None
   | OtherError message \<Rightarrow> Error_value ''Error'' message None)"

text \<open>\<open>try { .. } catch (error) { .. }\<close> that keeps the error as a value.\<close>

definition js_try :: "('w, 'e, 'a) js \<Rightarrow> ('w, 'f, 'e + 'a) js" where
  "js_try m = (\<lambda>w. case m w of (r, w') \<Rightarrow> (Inr r, w'))"

lemma js_try_iff [js]: "js_try m w = (r, w') \<longleftrightarrow> (\<exists>x. m w = (x, w') \<and> r = Inr x)"
  by (auto simp: js_try_def split: prod.splits)

section \<open>The loop\<close>

record loop_health =
  lh_running :: bool
  lh_inFlight :: bool
  lh_lastStartedAt :: "time option"
  lh_lastSucceededAt :: "time option"
  lh_lastFailedAt :: "time option"
  lh_lastErrorCode :: "string option"
  lh_claimed :: nat
  lh_completed :: nat
  lh_handedOff :: nat
  lh_escalated :: nat
  lh_rescheduled :: nat
  lh_skippedOverlappingTicks :: nat

text \<open>\<open>healthState\<close> with the private fields \<open>timer\<close>, \<open>lastTickSucceeded\<close> and \<open>activeTick\<close>.\<close>

record loop_state =
  ls_health :: loop_health
  ls_timer :: bool
  ls_lastTickSucceeded :: bool
  ls_activeTick :: bool

definition initial_loop :: loop_state where
  "initial_loop = \<lparr>ls_health = \<lparr>lh_running = False, lh_inFlight = False, lh_lastStartedAt = None,
     lh_lastSucceededAt = None, lh_lastFailedAt = None, lh_lastErrorCode = None, lh_claimed = 0, lh_completed = 0,
     lh_handedOff = 0, lh_escalated = 0, lh_rescheduled = 0, lh_skippedOverlappingTicks = 0\<rparr>,
     ls_timer = False, ls_lastTickSucceeded = False, ls_activeTick = False\<rparr>"

text \<open>\<open>tick()\<close>, up to its first \<open>await\<close>: whether a tick was begun.\<close>

definition loop_tick :: "time \<Rightarrow> loop_state \<Rightarrow> bool \<times> loop_state" where
  "loop_tick now s =
     (let h = ls_health s in
      if ls_activeTick s
      then (False, s\<lparr>ls_health := h\<lparr>lh_skippedOverlappingTicks := lh_skippedOverlappingTicks h + 1\<rparr>\<rparr>)
      else (True, s\<lparr>ls_health := h\<lparr>lh_inFlight := True, lh_lastStartedAt := Some now\<rparr>, ls_activeTick := True\<rparr>))"

text \<open>\<open>start()\<close>: the timer is armed and a first tick requested.\<close>

definition loop_start :: "time \<Rightarrow> loop_state \<Rightarrow> bool \<times> loop_state" where
  "loop_start now s =
     (if lh_running (ls_health s) then (False, s)
      else loop_tick now (s\<lparr>ls_health := (ls_health s)\<lparr>lh_running := True, lh_lastSucceededAt := None\<rparr>,
        ls_timer := True, ls_lastTickSucceeded := False\<rparr>))"

definition recordFailure :: "time \<Rightarrow> thrown \<Rightarrow> loop_state \<Rightarrow> loop_state" where
  "recordFailure now error s = s\<lparr>ls_lastTickSucceeded := False, ls_health := (ls_health s)\<lparr>lh_lastFailedAt := Some now,
     lh_lastErrorCode := Some (opsLoopErrorCode error)\<rparr>\<rparr>"

definition recordSuccess :: "time \<Rightarrow> loop_state \<Rightarrow> loop_state" where
  "recordSuccess now s = s\<lparr>ls_lastTickSucceeded := True, ls_health := (ls_health s)\<lparr>lh_lastSucceededAt := Some now\<rparr>\<rparr>"

text \<open>The \<open>finally\<close> of \<open>tick\<close>.\<close>

definition tick_settled :: "loop_state \<Rightarrow> loop_state" where
  "tick_settled s = s\<lparr>ls_activeTick := False, ls_health := (ls_health s)\<lparr>lh_inFlight := False\<rparr>\<rparr>"

text \<open>\<open>stop()\<close>, up to its first \<open>await\<close>, and a drain that fails after it.\<close>

definition loop_stop :: "loop_state \<Rightarrow> loop_state" where
  "loop_stop s = s\<lparr>ls_timer := False, ls_health := (ls_health s)\<lparr>lh_running := False\<rparr>\<rparr>"

definition shouldDrain :: "bool option \<Rightarrow> loop_state \<Rightarrow> bool" where
  "shouldDrain drain s \<longleftrightarrow> lh_running (ls_health s) \<and> drain \<noteq> Some False"

definition isHealthy :: "int \<Rightarrow> time \<Rightarrow> loop_state \<Rightarrow> bool" where
  "isHealthy pollIntervalMs now s \<longleftrightarrow>
     lh_running (ls_health s) \<and> ls_lastTickSucceeded s \<and>
     (case lh_lastSucceededAt (ls_health s) of None \<Rightarrow> False | Some at \<Rightarrow> now - at \<le> pollIntervalMs * 3)"

section \<open>What a tick works on\<close>

text \<open>The world of a daemon: the calls it made, the state of its loop and the outside.\<close>

record ('c, 'w) daemon_world =
  dw_trace :: "'c list"
  dw_loop :: loop_state
  dw_outside :: 'w

type_synonym ('c, 'w, 'a) ops = "(('c, 'w) daemon_world, thrown, 'a) js"

text \<open>A call of a port, with what the trace keeps of it and of its result.\<close>

definition observed_call :: "(thrown + 'a \<Rightarrow> 'c list) \<Rightarrow> ('w, thrown, 'a) js \<Rightarrow> ('c, 'w, 'a) ops" where
  "observed_call calls port = (\<lambda>w. case port (dw_outside w) of (r, outside) \<Rightarrow>
     (r, w\<lparr>dw_trace := dw_trace w @ calls r, dw_outside := outside\<rparr>))"

definition port_call :: "'c list \<Rightarrow> ('w, thrown, 'a) js \<Rightarrow> ('c, 'w, 'a) ops" where
  "port_call calls port = (\<lambda>w. case port (dw_outside w) of (r, outside) \<Rightarrow>
     (r, w\<lparr>dw_trace := dw_trace w @ calls, dw_outside := outside\<rparr>))"

definition on_loop :: "(loop_state \<Rightarrow> loop_state) \<Rightarrow> ('c, 'w, unit) ops" where
  "on_loop f = js_modify (\<lambda>w. w\<lparr>dw_loop := f (dw_loop w)\<rparr>)"

definition coded_error :: "string \<Rightarrow> string \<Rightarrow> thrown" where
  "coded_error message code = Error_value ''Error'' message (Some code)"

text \<open>A computation that leaves the loop alone and adds calls to the trace.\<close>

definition adds :: "('c, 'w, 'a) ops \<Rightarrow> ('a \<Rightarrow> 'c list \<Rightarrow> bool) \<Rightarrow> ('c list \<Rightarrow> bool) \<Rightarrow> bool" where
  "adds m Q E \<longleftrightarrow> (\<forall>w r w'. m w = (r, w') \<longrightarrow> dw_loop w' = dw_loop w \<and>
     (\<exists>calls. dw_trace w' = dw_trace w @ calls \<and> (case r of Inr x \<Rightarrow> Q x calls | Inl _ \<Rightarrow> E calls)))"

lemma addsD:
  assumes "adds m Q E" and "m w = (r, w')"
  obtains calls where "dw_loop w' = dw_loop w" "dw_trace w' = dw_trace w @ calls"
    "case r of Inr x \<Rightarrow> Q x calls | Inl _ \<Rightarrow> E calls"
  using assms unfolding adds_def by blast

lemma adds_bind:
  assumes "adds m R F" and "\<And>x calls. R x calls \<Longrightarrow> adds (f x) (\<lambda>y calls'. Q y (calls @ calls')) (\<lambda>calls'. E (calls @ calls'))"
    and "\<And>calls. F calls \<Longrightarrow> E calls"
  shows "adds (js_bind m f) Q E"
  unfolding adds_def
proof (intro allI impI)
  fix w r w' assume "js_bind m f w = (r, w')"
  then consider (throws) e where "m w = (Inl e, w')" "r = Inl e"
    | (goes) x v where "m w = (Inr x, v)" "f x v = (r, w')"
    by (auto simp: js)
  then show "dw_loop w' = dw_loop w \<and> (\<exists>calls. dw_trace w' = dw_trace w @ calls \<and>
      (case r of Inr x \<Rightarrow> Q x calls | Inl _ \<Rightarrow> E calls))"
  proof cases
    case throws
    from assms(1) throws(1) show ?thesis
      by (rule addsD) (use throws(2) assms(3) in auto)
  next
    case goes
    from assms(1) goes(1) obtain calls where one: "dw_loop v = dw_loop w" "dw_trace v = dw_trace w @ calls" "R x calls"
      by (rule addsD) auto
    from assms(2) [OF one(3)] goes(2) obtain calls' where "dw_loop w' = dw_loop v" "dw_trace w' = dw_trace v @ calls'"
      "case r of Inr x \<Rightarrow> Q x (calls @ calls') | Inl _ \<Rightarrow> E (calls @ calls')" by (rule addsD)
    with one show ?thesis by (cases r) auto
  qed
qed

lemma adds_return: "Q x [] \<Longrightarrow> adds (js_return x) Q E"
  by (simp add: adds_def js)

lemma adds_throw: "E [] \<Longrightarrow> adds (js_throw e) Q E"
  by (simp add: adds_def js)

lemma adds_weaken2:
  assumes "adds m Q E" and "\<And>x calls. Q x calls \<Longrightarrow> Q' x calls" and "\<And>calls. E calls \<Longrightarrow> E' calls" shows "adds m Q' E'"
  unfolding adds_def
proof (intro allI impI)
  fix w r w' assume "m w = (r, w')"
  with assms(1) obtain calls where "dw_loop w' = dw_loop w" "dw_trace w' = dw_trace w @ calls"
    "case r of Inr x \<Rightarrow> Q x calls | Inl _ \<Rightarrow> E calls" by (rule addsD)
  with assms(2,3) show "dw_loop w' = dw_loop w \<and> (\<exists>calls. dw_trace w' = dw_trace w @ calls \<and>
      (case r of Inr x \<Rightarrow> Q' x calls | Inl _ \<Rightarrow> E' calls))" by (cases r) auto
qed

lemma adds_weaken: "adds m Q E \<Longrightarrow> (\<And>x calls. Q x calls \<Longrightarrow> Q' x calls) \<Longrightarrow> adds m Q' E"
  by (rule adds_weaken2)

lemma adds_try:
  assumes "adds m Q E"
  shows "adds (js_try m) (\<lambda>r calls. case r of Inr x \<Rightarrow> Q x calls | Inl _ \<Rightarrow> E calls) F"
  unfolding adds_def by (auto simp: js elim!: addsD [OF assms])

lemma adds_call: "adds (port_call calls port) (\<lambda>_ calls'. calls' = calls) (\<lambda>calls'. calls' = calls)"
  by (auto simp: adds_def port_call_def split: prod.splits sum.splits)

lemma adds_observed:
  "adds (observed_call calls port) (\<lambda>x calls'. calls' = calls (Inr x)) (\<lambda>calls'. \<exists>error. calls' = calls (Inl error))"
  by (auto simp: adds_def observed_call_def split: prod.splits sum.splits)

lemma adds_try_observed: "adds (js_try (observed_call calls port)) (\<lambda>r calls'. calls' = calls r) E"
  by (auto simp: adds_def observed_call_def js split: prod.splits)

lemma adds_read_bind: "(\<And>x. adds (f x) Q E) \<Longrightarrow> adds (js_bind (js_read q) f) Q E"
  by (auto simp: adds_def js)

section \<open>Histories of a loop\<close>

text \<open>
  What can happen to a loop between two turns of the event loop. A tick settles only when one is
  under way; its outcome is the error it threw, if it did.
\<close>

datatype loop_event =
    Started time
  | Tick_requested time
  | Tick_ended time "thrown option"
  | Stopped
  | Drain_failed time thrown

inductive loop_step :: "loop_state \<Rightarrow> loop_event \<Rightarrow> loop_state \<Rightarrow> bool" where
  start: "loop_step s (Started now) (snd (loop_start now s))"
| tick: "loop_step s (Tick_requested now) (snd (loop_tick now s))"
| settle: "ls_activeTick s \<Longrightarrow> loop_step s (Tick_ended now outcome)
    (tick_settled (case outcome of None \<Rightarrow> recordSuccess now s | Some error \<Rightarrow> recordFailure now error s))"
| stop: "loop_step s Stopped (loop_stop s)"
| drain: "loop_step s (Drain_failed now error) (recordFailure now error s)"

inductive loop_run :: "loop_state \<Rightarrow> loop_event list \<Rightarrow> loop_state \<Rightarrow> bool" where
  nil: "loop_run s [] s"
| snoc: "loop_run s events s' \<Longrightarrow> loop_step s' event s'' \<Longrightarrow> loop_run s (events @ [event]) s''"

inductive_cases loop_stepE: "loop_step s event s'"

inductive_simps loop_step_simps:
  "loop_step s (Started now) s'" "loop_step s (Tick_requested now) s'" "loop_step s (Tick_ended now outcome) s'"
  "loop_step s Stopped s'" "loop_step s (Drain_failed now error) s'"

text \<open>The last success that no failure and no stop came after.\<close>

fun last_success :: "loop_event list \<Rightarrow> time option" where
  "last_success [] = None"
| "last_success (Tick_ended now None # _) = Some now"
| "last_success (Tick_ended now (Some _) # _) = None"
| "last_success (Drain_failed _ _ # _) = None"
| "last_success (Stopped # _) = None"
| "last_success (_ # events) = last_success events"

definition loop_inv :: "loop_event list \<Rightarrow> loop_state \<Rightarrow> bool" where
  "loop_inv events s \<longleftrightarrow> lh_inFlight (ls_health s) = ls_activeTick s \<and> ls_timer s = lh_running (ls_health s) \<and>
     (ls_lastTickSucceeded s \<longrightarrow> lh_running (ls_health s) \<longrightarrow> lh_lastSucceededAt (ls_health s) = last_success (rev events))"

lemmas loop_defs = loop_start_def loop_tick_def loop_stop_def tick_settled_def recordSuccess_def recordFailure_def Let_def

lemma loop_step_inv: "loop_step s event s' \<Longrightarrow> loop_inv events s \<Longrightarrow> loop_inv (events @ [event]) s'"
  by (induction rule: loop_step.induct) (auto simp: loop_inv_def loop_defs split: option.split)

lemma loop_run_inv: "loop_run s events s' \<Longrightarrow> loop_inv [] s \<Longrightarrow> loop_inv events s'"
  by (induction rule: loop_run.induct) (auto intro: loop_step_inv)

text \<open>
  The health of a loop is honest. In every history of starts, ticks, their ends, stops and
  failed drains, \<open>inFlight\<close> tells whether a tick is under way, the timer runs exactly while the loop
  does, and \<open>isHealthy\<close> answers yes only when the loop runs and a tick succeeded within the last three
  poll intervals, with no failed tick, no failed drain and no stop since.
\<close>

lemma loop_health_is_honest:
  assumes "loop_run initial_loop events s"
  shows "lh_inFlight (ls_health s) = ls_activeTick s \<and> ls_timer s = lh_running (ls_health s) \<and>
    (isHealthy pollIntervalMs now s \<longrightarrow> lh_running (ls_health s) \<and>
       (\<exists>at. last_success (rev events) = Some at \<and> now - at \<le> pollIntervalMs * 3))"
proof -
  have "loop_inv [] initial_loop"
    by (simp add: loop_inv_def initial_loop_def)
  from loop_run_inv [OF assms this] show ?thesis
    by (auto simp: loop_inv_def isHealthy_def split: option.splits)
qed

end
