(* ===== verification/Reconcile_Daemon.thy ===== *)
theory Reconcile_Daemon
  imports Ops_Loop
begin

text \<open>
  \<open>packages/adapter-ops/src/reconciliationDaemon.ts\<close>: a tick claims effects of unknown completion, asks
  the remote system about each and settles, reschedules or escalates it, with evidence. The
  repository, the broker's query, the registry and the clock are ports.
\<close>

section \<open>Outcomes\<close>

datatype recon_outcome = R_applied members | R_not_applied members | R_unknown string string

definition adapterOutcomeInvalid :: "string \<Rightarrow> recon_outcome" where
  "adapterOutcomeInvalid type = R_unknown ''ADAPTER_OUTCOME_INVALID''
     (firstCodePoints (''Adapter outcome invalid for effect type '' @ normalizedEffectType type) 512)"

definition record_field :: "members \<Rightarrow> string \<Rightarrow> members option" where
  "record_field kvs k = (case map_of kvs k of Some (JObj r) \<Rightarrow> Some r | _ \<Rightarrow> None)"

definition text_field :: "members \<Rightarrow> string \<Rightarrow> string option" where
  "text_field kvs k = (case map_of kvs k of Some (JStr s) \<Rightarrow> Some s | _ \<Rightarrow> None)"

definition normalizeOutcome :: "json \<Rightarrow> string \<Rightarrow> recon_outcome" where
  "normalizeOutcome v type = (case v of
     JObj kvs \<Rightarrow>
       (case (text_field kvs ''status'', record_field kvs ''response'', record_field kvs ''error'') of
          (Some status, response, error) \<Rightarrow>
            if status = ''APPLIED'' \<and> response \<noteq> None then R_applied (the response)
            else if status = ''NOT_APPLIED'' \<and> response \<noteq> None then R_not_applied (the response)
            else if status = ''UNKNOWN'' \<and> error \<noteq> None then
              (case (text_field (the error) ''code'', text_field (the error) ''message'') of
                 (Some code, Some message) \<Rightarrow>
                   if code \<noteq> [] \<and> message \<noteq> [] then R_unknown code message else adapterOutcomeInvalid type
               | _ \<Rightarrow> adapterOutcomeInvalid type)
            else adapterOutcomeInvalid type
        | _ \<Rightarrow> adapterOutcomeInvalid type)
   | _ \<Rightarrow> adapterOutcomeInvalid type)"

text \<open>The race of a query against its budget.\<close>

datatype query_race = Answered json | Query_threw thrown | Query_timed_out

definition DURABLE_RECONCILE_CLAIM_LEASE_MS :: int where "DURABLE_RECONCILE_CLAIM_LEASE_MS = 60000"
definition DEFAULT_RECONCILE_QUERY_TIMEOUT_MS :: int where "DEFAULT_RECONCILE_QUERY_TIMEOUT_MS = 30000"
definition RECONCILE_QUERY_TIMEOUT :: string where "RECONCILE_QUERY_TIMEOUT = ''RECONCILE_QUERY_TIMEOUT''"

definition budget_exceeded :: thrown where
  "budget_exceeded = Error_value ''Error'' ''reconciliation outcome query exceeded its budget'' (Some RECONCILE_QUERY_TIMEOUT)"

definition outcome_of_race :: "int \<Rightarrow> string \<Rightarrow> query_race \<Rightarrow> recon_outcome" where
  "outcome_of_race queryTimeoutMs type race =
     (let on_error = (\<lambda>error.
        if opsLoopErrorCode error = RECONCILE_QUERY_TIMEOUT
        then R_unknown RECONCILE_QUERY_TIMEOUT (firstCodePoints (''Outcome query exceeded '' @ show_int queryTimeoutMs @
          ''ms budget for effect type '' @ normalizedEffectType type) 512)
        else (case reconcileQueryThrownError error type of (code, message) \<Rightarrow> R_unknown code message)) in
      case race of Answered v \<Rightarrow> normalizeOutcome v type | Query_threw error \<Rightarrow> on_error error
      | Query_timed_out \<Rightarrow> on_error budget_exceeded)"

text \<open>The constructor: the budget of a query stays below the claim's lease.\<close>

definition construct_daemon :: "int option \<Rightarrow> string + int" where
  "construct_daemon queryTimeoutMs =
     (let t = nullish queryTimeoutMs DEFAULT_RECONCILE_QUERY_TIMEOUT_MS in
      if \<not> is_safe_integer t \<or> t \<le> 0 \<or> t \<ge> DURABLE_RECONCILE_CLAIM_LEASE_MS
      then Inl ''RECONCILE_QUERY_TIMEOUT_INVALID'' else Inr t)"

section \<open>Ports\<close>

datatype recon_disposition = Rd_completed | Rd_confirmed_not_applied | Rd_rescheduled | Rd_escalated

datatype mutation_result = Mutated recon_disposition | Mutation_refused string

datatype escalation_reason = RECONCILE_ADAPTER_NOT_FOUND | RECONCILE_QUERY_UNSUPPORTED | COMPENSATION_QUERY_UNSUPPORTED

fun reason_text :: "escalation_reason \<Rightarrow> string" where
  "reason_text RECONCILE_ADAPTER_NOT_FOUND = ''RECONCILE_ADAPTER_NOT_FOUND''"
| "reason_text RECONCILE_QUERY_UNSUPPORTED = ''RECONCILE_QUERY_UNSUPPORTED''"
| "reason_text COMPENSATION_QUERY_UNSUPPORTED = ''COMPENSATION_QUERY_UNSUPPORTED''"

record claim_auth =
  ca_tenantId :: string
  ca_effectId :: string
  ca_workerId :: string
  ca_workerGeneration :: int
  ca_claimSecret :: string
  ca_claimToken :: string

datatype mutation =
    Complete_effect claim_auth members evidence_record
  | Confirm_not_applied claim_auth members evidence_record
  | Reschedule_effect claim_auth string string evidence_record
  | Escalate_effect claim_auth escalation_reason evidence_record

record 'w daemon_ports =
  dp_claim :: "nat \<Rightarrow> ('w, thrown, (kernel_effect \<times> string) list) js"
  dp_mutate :: "mutation \<Rightarrow> ('w, thrown, mutation_result) js"
  dp_adapter :: "string \<Rightarrow> bool"
  dp_querier :: "string \<Rightarrow> bool"
  dp_query :: "kernel_effect \<Rightarrow> int \<Rightarrow> 'w \<Rightarrow> query_race \<times> 'w"
  dp_heartbeat :: "('w, thrown, unit) js option"
  dp_now :: "'w \<Rightarrow> time"
  dp_iso :: "time \<Rightarrow> string"
  dp_evidence :: "'w evidence_ports"

record 'w daemon_options =
  do_batchSize :: nat
  do_workerId :: string
  do_workerGeneration :: int
  do_claimSecret :: string
  do_queryTimeoutMs :: int
  do_evidenceSigner :: "'w evidence_signer option"
  do_evidenceRetentionMs :: "int option"
  do_env :: evidence_env
  do_parse_date :: "string \<Rightarrow> time option"

text \<open>The calls a tick makes.\<close>

datatype daemon_call = Claimed | Queried string query_race | Mutating mutation | Heartbeat

type_synonym ('w, 'a) daemon = "(daemon_call, 'w, 'a) ops"

definition query :: "'w daemon_ports \<Rightarrow> 'w daemon_options \<Rightarrow> kernel_effect \<Rightarrow> ('w, recon_outcome) daemon" where
  "query ports opts effect = (\<lambda>w. case dp_query ports effect (do_queryTimeoutMs opts) (dw_outside w) of (race, outside) \<Rightarrow>
     (Inr (outcome_of_race (do_queryTimeoutMs opts) (ke_type effect) race),
      w\<lparr>dw_trace := dw_trace w @ [Queried (ke_id effect) race], dw_outside := outside\<rparr>))"

section \<open>One claim\<close>

definition YEAR_MS :: int where "YEAR_MS = 365 * 24 * 60 * 60 * 1000"

definition evidence_request :: "'w daemon_ports \<Rightarrow> 'w daemon_options \<Rightarrow> kernel_effect \<Rightarrow> string \<Rightarrow> effect_state \<Rightarrow> members \<Rightarrow>
    string \<Rightarrow> string \<Rightarrow> time \<Rightarrow> record_request" where
  "evidence_request ports opts effect claimToken state response eventType disposition now =
     \<lparr>rr_tenantId = ke_tenantId effect, rr_runId = ke_runId effect, rr_effectId = ke_id effect, rr_projectedState = state,
      rr_response = response,
      rr_terminalEvent = \<lparr>te_type = eventType, te_severity = if state = E_COMPLETED then ''low'' else ''high'',
        te_details = [(''disposition'', JStr disposition)]\<rparr>,
      rr_recordedAt = dp_iso ports now,
      rr_retentionUntil = dp_iso ports (now + nullish (do_evidenceRetentionMs opts) YEAR_MS),
      rr_claimToken = Some claimToken\<rparr>"

definition buildEvidence :: "'w daemon_ports \<Rightarrow> 'w daemon_options \<Rightarrow> kernel_effect \<Rightarrow> string \<Rightarrow> effect_state \<Rightarrow> members \<Rightarrow>
    string \<Rightarrow> string \<Rightarrow> ('w, evidence_record) daemon" where
  "buildEvidence ports opts effect claimToken state response eventType disposition =
     (case do_evidenceSigner opts of
        None \<Rightarrow> js_throw (coded_error ''reconciliation evidence signer is required'' ''EVIDENCE_SIGNING_KEY_REQUIRED'')
      | Some signer \<Rightarrow>
          js_bind (js_read (\<lambda>w. dp_now ports (dw_outside w))) (\<lambda>now.
          port_call [] (js_catch (buildTerminalEvidenceRecordFromKernel (do_env opts) (do_parse_date opts) signer
            (dp_evidence ports)
            (evidence_request ports opts effect claimToken state response eventType disposition now))
            (\<lambda>e. js_throw (thrown_of e)))))"

definition transitionRejected :: "string \<Rightarrow> thrown" where
  "transitionRejected reason = coded_error (''reconciliation mutation rejected: '' @ reason) (''RECONCILE_'' @ reason)"

definition appliedDisposition :: "mutation_result \<Rightarrow> recon_disposition list \<Rightarrow> ('w, recon_disposition) daemon" where
  "appliedDisposition result allowed = (case result of
     Mutation_refused reason \<Rightarrow> js_throw (transitionRejected reason)
   | Mutated disposition \<Rightarrow>
       if disposition \<notin> set allowed
       then js_throw (coded_error ''reconciliation mutation returned an invalid disposition'' ''RECONCILE_DISPOSITION_INVALID'')
       else js_return disposition)"

definition mutate :: "'w daemon_ports \<Rightarrow> mutation \<Rightarrow> recon_disposition list \<Rightarrow> ('w, recon_disposition) daemon" where
  "mutate ports m allowed =
     js_bind (port_call [Mutating m] (dp_mutate ports m)) (\<lambda>result. appliedDisposition result allowed)"

definition claim_auth_of :: "'w daemon_options \<Rightarrow> kernel_effect \<Rightarrow> string \<Rightarrow> claim_auth" where
  "claim_auth_of opts effect claimToken =
     \<lparr>ca_tenantId = ke_tenantId effect, ca_effectId = ke_id effect, ca_workerId = do_workerId opts,
      ca_workerGeneration = do_workerGeneration opts, ca_claimSecret = do_claimSecret opts, ca_claimToken = claimToken\<rparr>"

datatype claim_count = Count_completed | Count_escalated | Count_rescheduled

definition escalate_claim :: "'w daemon_ports \<Rightarrow> 'w daemon_options \<Rightarrow> kernel_effect \<Rightarrow> string \<Rightarrow> escalation_reason \<Rightarrow>
    ('w, claim_count) daemon" where
  "escalate_claim ports opts effect claimToken reason =
     js_bind (buildEvidence ports opts effect claimToken E_COMPLETION_UNKNOWN [(''reason'', JStr (reason_text reason))]
       ''effect.reconcile_escalated'' (reason_text reason)) (\<lambda>evidence.
     js_bind (mutate ports (Escalate_effect (claim_auth_of opts effect claimToken) reason evidence) [Rd_escalated])
       (\<lambda>_. js_return Count_escalated))"

definition settle_outcome :: "'w daemon_ports \<Rightarrow> 'w daemon_options \<Rightarrow> kernel_effect \<Rightarrow> string \<Rightarrow> recon_outcome \<Rightarrow>
    ('w, claim_count) daemon" where
  "settle_outcome ports opts effect claimToken outcome =
     (let auth = claim_auth_of opts effect claimToken in
      case outcome of
        R_applied response \<Rightarrow>
          js_bind (buildEvidence ports opts effect claimToken E_COMPLETED response ''effect.reconciled_completed'' ''COMPLETED'')
          (\<lambda>evidence. js_bind (mutate ports (Complete_effect auth response evidence) [Rd_completed])
          (\<lambda>_. js_return Count_completed))
      | R_not_applied response \<Rightarrow>
          js_bind (buildEvidence ports opts effect claimToken E_CONFIRMED_NOT_APPLIED response
            ''effect.confirmed_not_applied'' ''CONFIRMED_NOT_APPLIED'')
          (\<lambda>evidence. js_bind (mutate ports (Confirm_not_applied auth response evidence) [Rd_confirmed_not_applied])
          (\<lambda>_. js_return Count_completed))
      | R_unknown code message \<Rightarrow>
          js_bind (buildEvidence ports opts effect claimToken E_COMPLETION_UNKNOWN
            [(''code'', JStr code), (''message'', JStr message)] ''effect.reconcile_escalated'' ''ESCALATED'')
          (\<lambda>evidence. js_bind (mutate ports (Reschedule_effect auth code message evidence) [Rd_rescheduled, Rd_escalated])
          (\<lambda>disposition. js_return (if disposition = Rd_escalated then Count_escalated else Count_rescheduled))))"

definition reconcileClaim :: "'w daemon_ports \<Rightarrow> 'w daemon_options \<Rightarrow> kernel_effect \<Rightarrow> string \<Rightarrow> ('w, claim_count) daemon" where
  "reconcileClaim ports opts effect claimToken =
     (if \<not> dp_adapter ports (ke_type effect)
      then escalate_claim ports opts effect claimToken RECONCILE_ADAPTER_NOT_FOUND
      else if \<not> dp_querier ports (ke_type effect)
      then escalate_claim ports opts effect claimToken
        (if starts_with (ke_type effect) ''compensate.'' then COMPENSATION_QUERY_UNSUPPORTED else RECONCILE_QUERY_UNSUPPORTED)
      else js_bind (query ports opts effect) (settle_outcome ports opts effect claimToken))"

section \<open>A tick\<close>

record tick_stats =
  tk_claimed :: nat
  tk_completed :: nat
  tk_escalated :: nat
  tk_rescheduled :: nat

definition counted :: "claim_count \<Rightarrow> tick_stats \<Rightarrow> tick_stats" where
  "counted c stats = (case c of
     Count_completed \<Rightarrow> stats\<lparr>tk_completed := tk_completed stats + 1\<rparr>
   | Count_escalated \<Rightarrow> stats\<lparr>tk_escalated := tk_escalated stats + 1\<rparr>
   | Count_rescheduled \<Rightarrow> stats\<lparr>tk_rescheduled := tk_rescheduled stats + 1\<rparr>)"

text \<open>The loop over the claims: an error of one is kept (\<open>??=\<close>), and the next is taken.\<close>

definition first_failure :: "thrown option \<Rightarrow> thrown \<Rightarrow> thrown" where
  "first_failure failure error = (if failure \<in> {None, Some Null_value} then error else the failure)"

fun reconcile_claims :: "'w daemon_ports \<Rightarrow> 'w daemon_options \<Rightarrow> (kernel_effect \<times> string) list \<Rightarrow> tick_stats \<Rightarrow>
    thrown option \<Rightarrow> ('w, tick_stats \<times> thrown option) daemon" where
  "reconcile_claims ports opts [] stats failure = js_return (stats, failure)"
| "reconcile_claims ports opts ((effect, claimToken) # claims) stats failure =
     js_bind (js_try (reconcileClaim ports opts effect claimToken)) (\<lambda>r. case r of
       Inr c \<Rightarrow> reconcile_claims ports opts claims (counted c stats) failure
     | Inl error \<Rightarrow> reconcile_claims ports opts claims stats (Some (first_failure failure error)))"

definition fail_tick :: "'w daemon_ports \<Rightarrow> thrown \<Rightarrow> ('w, 'a) daemon" where
  "fail_tick ports error =
     js_bind (js_read (\<lambda>w. dp_now ports (dw_outside w))) (\<lambda>now.
     js_bind (on_loop (recordFailure now error)) (\<lambda>_. js_throw error))"

definition add_stats :: "tick_stats \<Rightarrow> loop_state \<Rightarrow> loop_state" where
  "add_stats stats s = (let h = ls_health s in s\<lparr>ls_health := h\<lparr>lh_claimed := lh_claimed h + tk_claimed stats,
     lh_completed := lh_completed h + tk_completed stats, lh_escalated := lh_escalated h + tk_escalated stats,
     lh_rescheduled := lh_rescheduled h + tk_rescheduled stats\<rparr>\<rparr>)"

definition finish_tick :: "'w daemon_ports \<Rightarrow> tick_stats \<Rightarrow> thrown option \<Rightarrow> ('w, tick_stats) daemon" where
  "finish_tick ports stats failure =
     js_bind (on_loop (add_stats stats)) (\<lambda>_.
     case failure of
       Some error \<Rightarrow> fail_tick ports error
     | None \<Rightarrow>
         js_bind (js_try (case dp_heartbeat ports of None \<Rightarrow> js_return () | Some beat \<Rightarrow> port_call [Heartbeat] beat)) (\<lambda>r.
         case r of
           Inl error \<Rightarrow> fail_tick ports error
         | Inr _ \<Rightarrow>
             js_bind (js_read (\<lambda>w. dp_now ports (dw_outside w))) (\<lambda>now.
             js_bind (on_loop (recordSuccess now)) (\<lambda>_. js_return stats))))"

definition runTick :: "'w daemon_ports \<Rightarrow> 'w daemon_options \<Rightarrow> ('w, tick_stats) daemon" where
  "runTick ports opts =
     js_bind (js_try (port_call [Claimed] (dp_claim ports (do_batchSize opts)))) (\<lambda>r. case r of
       Inl error \<Rightarrow> fail_tick ports error
     | Inr claims \<Rightarrow>
         js_bind (reconcile_claims ports opts claims
           \<lparr>tk_claimed = length claims, tk_completed = 0, tk_escalated = 0, tk_rescheduled = 0\<rparr> None)
           (\<lambda>(stats, failure). finish_tick ports stats failure))"

section \<open>What a tick does\<close>

text \<open>What an answer has to be to settle an effect.\<close>

definition answers :: "query_race \<Rightarrow> string \<Rightarrow> members \<Rightarrow> bool" where
  "answers race status response \<longleftrightarrow> (\<exists>kvs. race = Answered (JObj kvs) \<and>
     map_of kvs ''status'' = Some (JStr status) \<and> map_of kvs ''response'' = Some (JObj response))"

text \<open>Evidence the kernel accepts for the effect, in a state it may be moved to.\<close>

definition evidence_ok :: "'w daemon_options \<Rightarrow> kernel_effect \<Rightarrow> effect_state \<Rightarrow> evidence_record \<Rightarrow> bool" where
  "evidence_ok opts effect state ev \<longleftrightarrow>
     (\<exists>signer. do_evidenceSigner opts = Some signer \<and> signed_and_verified (do_env opts) (es_verify signer) ev) \<and>
     (\<forall>at_instant. evidence_bound (receipt_row at_instant ev)
        (effect\<lparr>ke_state := state, ke_actionDigest := er_actionDigest ev\<rparr>))"

definition settles :: "'w daemon_options \<Rightarrow> kernel_effect \<Rightarrow> string \<Rightarrow> query_race \<Rightarrow> mutation \<Rightarrow> bool" where
  "settles opts effect claimToken race m \<longleftrightarrow> (case m of
     Complete_effect auth response ev \<Rightarrow> auth = claim_auth_of opts effect claimToken \<and>
       answers race ''APPLIED'' response \<and> evidence_ok opts effect E_COMPLETED ev
   | Confirm_not_applied auth response ev \<Rightarrow> auth = claim_auth_of opts effect claimToken \<and>
       answers race ''NOT_APPLIED'' response \<and> evidence_ok opts effect E_CONFIRMED_NOT_APPLIED ev
   | Reschedule_effect auth code message ev \<Rightarrow> auth = claim_auth_of opts effect claimToken \<and>
       (\<nexists>response. answers race ''APPLIED'' response \<or> answers race ''NOT_APPLIED'' response) \<and>
       evidence_ok opts effect E_COMPLETION_UNKNOWN ev
   | Escalate_effect _ _ _ \<Rightarrow> False)"

definition claim_calls :: "'w daemon_ports \<Rightarrow> 'w daemon_options \<Rightarrow> kernel_effect \<times> string \<Rightarrow> daemon_call list \<Rightarrow> bool" where
  "claim_calls ports opts claim calls \<longleftrightarrow>
     (let effect = fst claim; queryable = (dp_adapter ports (ke_type effect) \<and> dp_querier ports (ke_type effect)) in
      if queryable then \<exists>race. calls = [Queried (ke_id effect) race] \<or>
        (\<exists>m. calls = [Queried (ke_id effect) race, Mutating m] \<and> settles opts effect (snd claim) race m)
      else calls = [] \<or> (\<exists>reason ev. calls = [Mutating (Escalate_effect (claim_auth_of opts effect (snd claim)) reason ev)] \<and>
        evidence_ok opts effect E_COMPLETION_UNKNOWN ev))"

lemma normalizeOutcome_settled:
  "normalizeOutcome v type = R_applied response \<longleftrightarrow> answers (Answered v) ''APPLIED'' response"
  "normalizeOutcome v type = R_not_applied response \<longleftrightarrow> answers (Answered v) ''NOT_APPLIED'' response"
  by (auto simp: normalizeOutcome_def answers_def text_field_def record_field_def adapterOutcomeInvalid_def
      split: json.splits option.splits if_splits)

lemma outcome_settled:
  "outcome_of_race t type race = R_applied response \<longleftrightarrow> answers race ''APPLIED'' response"
  "outcome_of_race t type race = R_not_applied response \<longleftrightarrow> answers race ''NOT_APPLIED'' response"
  by (cases race; simp add: outcome_of_race_def Let_def normalizeOutcome_settled answers_def split: prod.split)+

lemma outcome_unknown:
  "outcome_of_race t type race = R_unknown code message \<Longrightarrow>
     \<not> answers race ''APPLIED'' response \<and> \<not> answers race ''NOT_APPLIED'' response"
  using outcome_settled [of t type race] by (metis recon_outcome.distinct(3,5))

lemma adds_mutate:
  assumes "\<And>d. d \<in> set allowed \<Longrightarrow> Q d [Mutating m]" and "E [Mutating m]"
  shows "adds (mutate ports m allowed) Q E"
  unfolding mutate_def
  by (rule adds_bind [where R = "\<lambda>_ calls. calls = [Mutating m]" and F = "\<lambda>calls. calls = [Mutating m]"])
    (auto simp: adds_def port_call_def appliedDisposition_def js assms split: prod.splits sum.splits mutation_result.splits)

lemma buildEvidence_ok:
  assumes ports: "answers_by_id (dp_evidence ports)" and "state \<noteq> E_ADMITTED"
  shows "adds (buildEvidence ports opts effect claimToken state response eventType disposition)
    (\<lambda>ev calls. calls = [] \<and> evidence_ok opts effect state ev) (\<lambda>calls. calls = [])"
  unfolding adds_def
proof (intro allI impI)
  fix w r w' assume run: "buildEvidence ports opts effect claimToken state response eventType disposition w = (r, w')"
  let ?rq = "evidence_request ports opts effect claimToken state response eventType disposition (dp_now ports (dw_outside w))"
  have "evidence_ok opts effect state ev" if "r = Inr ev" for ev
  proof -
    from run that obtain signer v where signer: "do_evidenceSigner opts = Some signer"
      and "buildTerminalEvidenceRecordFromKernel (do_env opts) (do_parse_date opts) signer (dp_evidence ports) ?rq
        (dw_outside w) = (Inr ev, v)"
      by (auto simp: buildEvidence_def port_call_def js split: option.splits prod.splits)
    from daemon_record_bound [OF this(2) ports, of "effect\<lparr>ke_state := state, ke_actionDigest := er_actionDigest ev\<rparr>"]
      signer assms(2) show ?thesis
      by (auto simp: evidence_ok_def evidence_request_def)
  qed
  moreover have "dw_loop w' = dw_loop w \<and> dw_trace w' = dw_trace w"
    using run by (auto simp: buildEvidence_def port_call_def js split: option.splits prod.splits)
  ultimately show "dw_loop w' = dw_loop w \<and> (\<exists>calls. dw_trace w' = dw_trace w @ calls \<and>
      (case r of Inr ev \<Rightarrow> calls = [] \<and> evidence_ok opts effect state ev | Inl _ \<Rightarrow> calls = []))"
    by (auto split: sum.split)
qed

text \<open>Evidence first, then one mutation with it.\<close>

lemma evidence_then_mutate:
  assumes "answers_by_id (dp_evidence ports)" and "state \<noteq> E_ADMITTED"
    and "\<And>ev. evidence_ok opts effect state ev \<Longrightarrow> Q [Mutating (m ev)]" and "Q []"
  shows "adds (js_bind (buildEvidence ports opts effect claimToken state response eventType disposition) (\<lambda>ev.
      js_bind (mutate ports (m ev) allowed) (\<lambda>d. js_return (c d)))) (\<lambda>_. Q) Q"
proof (rule adds_bind [OF buildEvidence_ok [OF assms(1,2)]])
  fix ev and calls :: "daemon_call list" assume ev: "calls = [] \<and> evidence_ok opts effect state ev"
  show "adds (js_bind (mutate ports (m ev) allowed) (\<lambda>d. js_return (c d))) (\<lambda>_ calls'. Q (calls @ calls')) (\<lambda>calls'. Q (calls @ calls'))"
    by (rule adds_bind [where R = "\<lambda>_ calls. calls = [Mutating (m ev)]" and F = "\<lambda>calls. calls = [Mutating (m ev)]"])
      (use ev assms(3) in \<open>auto intro!: adds_mutate adds_return\<close>)
qed (use assms(4) in simp)

lemma reconcileClaim_calls:
  assumes "answers_by_id (dp_evidence ports)"
  shows "adds (reconcileClaim ports opts effect claimToken)
    (\<lambda>_. claim_calls ports opts (effect, claimToken)) (claim_calls ports opts (effect, claimToken))"
proof (cases "dp_adapter ports (ke_type effect) \<and> dp_querier ports (ke_type effect)")
  case False
  have "adds (escalate_claim ports opts effect claimToken reason)
      (\<lambda>_. claim_calls ports opts (effect, claimToken)) (claim_calls ports opts (effect, claimToken))" for reason
    unfolding escalate_claim_def
    by (rule evidence_then_mutate [OF assms]) (use False in \<open>auto simp: claim_calls_def Let_def\<close>)
  with False show ?thesis by (auto simp: reconcileClaim_def)
next
  case True
  have "adds (query ports opts effect) (\<lambda>outcome calls. \<exists>race. calls = [Queried (ke_id effect) race] \<and>
      outcome = outcome_of_race (do_queryTimeoutMs opts) (ke_type effect) race) (\<lambda>_. False)"
    by (auto simp: adds_def query_def split: prod.splits)
  moreover have "adds (settle_outcome ports opts effect claimToken outcome)
      (\<lambda>_ calls'. claim_calls ports opts (effect, claimToken) (calls @ calls'))
      (\<lambda>calls'. claim_calls ports opts (effect, claimToken) (calls @ calls'))"
    if "calls = [Queried (ke_id effect) race]" "outcome = outcome_of_race (do_queryTimeoutMs opts) (ke_type effect) race"
    for outcome calls race
  proof (cases outcome)
    case (R_applied response)
    with that outcome_settled(1) have "answers race ''APPLIED'' response" by metis
    with that True show ?thesis
      unfolding settle_outcome_def R_applied Let_def recon_outcome.case
      by (intro evidence_then_mutate [OF assms]) (auto simp: claim_calls_def Let_def settles_def)
  next
    case (R_not_applied response)
    with that outcome_settled(2) have "answers race ''NOT_APPLIED'' response" by metis
    with that True show ?thesis
      unfolding settle_outcome_def R_not_applied Let_def recon_outcome.case
      by (intro evidence_then_mutate [OF assms]) (auto simp: claim_calls_def Let_def settles_def)
  next
    case (R_unknown code message)
    with that outcome_unknown have "\<And>response. \<not> answers race ''APPLIED'' response \<and> \<not> answers race ''NOT_APPLIED'' response"
      by metis
    with that True show ?thesis
      unfolding settle_outcome_def R_unknown Let_def recon_outcome.case
      by (intro evidence_then_mutate [OF assms]) (auto simp: claim_calls_def Let_def settles_def)
  qed
  ultimately show ?thesis
    using True unfolding reconcileClaim_def by (auto intro!: adds_bind)
qed

definition tick_total :: "tick_stats \<Rightarrow> nat" where
  "tick_total stats = tk_completed stats + tk_escalated stats + tk_rescheduled stats"

lemma counted_simps [simp]:
  "tick_total (counted c stats) = tick_total stats + 1" "tk_claimed (counted c stats) = tk_claimed stats"
  by (cases c; simp add: counted_def tick_total_def)+

text \<open>The claims of a tick: each has its own calls, in order, whatever became of the others.\<close>

definition claims_done :: "'w daemon_ports \<Rightarrow> 'w daemon_options \<Rightarrow> (kernel_effect \<times> string) list \<Rightarrow> tick_stats \<Rightarrow> thrown option \<Rightarrow>
    tick_stats \<times> thrown option \<Rightarrow> daemon_call list \<Rightarrow> bool" where
  "claims_done ports opts claims stats failure result calls \<longleftrightarrow>
     (\<exists>segments. calls = concat segments \<and> list_all2 (claim_calls ports opts) claims segments) \<and>
     tk_claimed (fst result) = tk_claimed stats \<and>
     tick_total (fst result) \<le> tick_total stats + length claims \<and>
     (snd result = None \<longrightarrow> failure = None \<and> tick_total (fst result) = tick_total stats + length claims)"

lemma claims_done_Cons:
  assumes "claim_calls ports opts claim calls" and "claims_done ports opts claims stats' failure' result calls'"
    and "tk_claimed stats' = tk_claimed stats"
    and "tick_total stats' = tick_total stats + 1 \<and> failure' = failure \<or> tick_total stats' = tick_total stats \<and> failure' \<noteq> None"
  shows "claims_done ports opts (claim # claims) stats failure result (calls @ calls')"
proof -
  from assms(2) obtain segments where "calls' = concat segments" "list_all2 (claim_calls ports opts) claims segments"
    by (auto simp: claims_done_def)
  then have "calls @ calls' = concat (calls # segments) \<and>
      list_all2 (claim_calls ports opts) (claim # claims) (calls # segments)"
    using assms(1) by simp
  then have "\<exists>segments. calls @ calls' = concat segments \<and> list_all2 (claim_calls ports opts) (claim # claims) segments"
    by (rule exI)
  moreover have "tk_claimed (fst result) = tk_claimed stats \<and>
     tick_total (fst result) \<le> tick_total stats + length (claim # claims) \<and>
     (snd result = None \<longrightarrow> failure = None \<and> tick_total (fst result) = tick_total stats + length (claim # claims))"
    using assms(2-4) unfolding claims_done_def by auto
  ultimately show ?thesis unfolding claims_done_def by blast
qed

lemma reconcile_claims_done:
  assumes "answers_by_id (dp_evidence ports)"
  shows "adds (reconcile_claims ports opts claims stats failure) (claims_done ports opts claims stats failure) (\<lambda>_. False)"
proof (induction claims arbitrary: stats failure)
  case Nil
  then show ?case by (auto intro!: adds_return simp: claims_done_def)
next
  case (Cons claim claims)
  obtain effect claimToken where claim: "claim = (effect, claimToken)" by (cases claim)
  show ?case
    unfolding claim reconcile_claims.simps
  proof (rule adds_bind [OF adds_try [OF reconcileClaim_calls [OF assms]]])
    fix r :: "thrown + claim_count" and calls
    assume "case r of Inr x \<Rightarrow> claim_calls ports opts (effect, claimToken) calls | Inl _ \<Rightarrow> claim_calls ports opts (effect, claimToken) calls"
    then have calls: "claim_calls ports opts (effect, claimToken) calls" by (cases r) auto
    show "adds (case r of Inr c \<Rightarrow> reconcile_claims ports opts claims (counted c stats) failure
        | Inl error \<Rightarrow> reconcile_claims ports opts claims stats (Some (first_failure failure error)))
      (\<lambda>result calls'. claims_done ports opts ((effect, claimToken) # claims) stats failure result (calls @ calls')) (\<lambda>_. False)"
      by (cases r) (auto intro!: adds_weaken [OF Cons.IH] claims_done_Cons [OF calls])
  qed simp
qed

lemma finish_tick_ends:
  assumes "finish_tick ports stats failure w = (r, w')"
  shows "\<exists>tail. dw_trace w' = dw_trace w @ tail \<and> set tail \<subseteq> {Heartbeat}"
    and "r = Inr stats' \<Longrightarrow> failure = None \<and> stats' = stats \<and>
      dw_loop w' = recordSuccess (dp_now ports (dw_outside w')) (add_stats stats (dw_loop w))"
    and "r = Inl error \<Longrightarrow> \<exists>now. dw_loop w' = recordFailure now error (add_stats stats (dw_loop w))"
  using assms unfolding finish_tick_def fail_tick_def on_loop_def port_call_def
  by (auto simp: js split: option.splits prod.splits sum.splits)

lemma runTick_ends:
  assumes run: "runTick ports opts w = (r, w')" and ports: "answers_by_id (dp_evidence ports)"
  obtains (refused) error now where "fst (dp_claim ports (do_batchSize opts) (dw_outside w)) = Inl error" "r = Inl error"
      "dw_trace w' = dw_trace w @ [Claimed]" "dw_loop w' = recordFailure now error (dw_loop w)"
  | (claimed) claims segments tail stats failure v where
      "fst (dp_claim ports (do_batchSize opts) (dw_outside w)) = Inr claims"
      "dw_trace w' = dw_trace w @ [Claimed] @ concat segments @ tail" "set tail \<subseteq> {Heartbeat}"
      "list_all2 (claim_calls ports opts) claims segments"
      "tk_claimed stats = length claims" "tick_total stats \<le> length claims"
      "failure = None \<Longrightarrow> tick_total stats = length claims"
      "finish_tick ports stats failure v = (r, w')" "dw_loop v = dw_loop w"
proof -
  let ?claim = "dp_claim ports (do_batchSize opts)"
  obtain x outside where claim: "?claim (dw_outside w) = (x, outside)" by fastforce
  let ?w1 = "w\<lparr>dw_trace := dw_trace w @ [Claimed], dw_outside := outside\<rparr>"
  show thesis
  proof (cases x)
    case (Inl error)
    then have "r = Inl error" "w' = ?w1\<lparr>dw_loop := recordFailure (dp_now ports outside) error (dw_loop w)\<rparr>"
      using run by (auto simp: runTick_def port_call_def claim fail_tick_def on_loop_def js)
    with claim Inl show thesis by (intro refused) auto
  next
    case (Inr claims)
    let ?stats = "\<lparr>tk_claimed = length claims, tk_completed = 0, tk_escalated = 0, tk_rescheduled = 0\<rparr>"
    from run have "js_bind (reconcile_claims ports opts claims ?stats None) (\<lambda>(stats, failure). finish_tick ports stats failure) ?w1
        = (r, w')"
      by (auto simp: runTick_def port_call_def claim Inr js_bind_def js_try_def)
    moreover obtain y v where loop: "reconcile_claims ports opts claims ?stats None ?w1 = (y, v)" by fastforce
    from reconcile_claims_done [OF ports] this obtain calls where calls: "dw_loop v = dw_loop w"
      "dw_trace v = dw_trace w @ [Claimed] @ calls"
      "case y of Inr result \<Rightarrow> claims_done ports opts claims ?stats None result calls | Inl _ \<Rightarrow> False" by (rule addsD) auto
    moreover from calls(3) obtain stats failure where y: "y = Inr (stats, failure)" by (cases y) auto
    ultimately have finish: "finish_tick ports stats failure v = (r, w')"
      by (simp add: js_bind_def loop)
    from calls(3) y obtain segments where segments: "calls = concat segments" "list_all2 (claim_calls ports opts) claims segments"
      and counts: "tk_claimed stats = length claims" "tick_total stats \<le> length claims"
        "failure = None \<Longrightarrow> tick_total stats = length claims"
      by (auto simp: claims_done_def tick_total_def)
    from finish_tick_ends(1) [OF finish] obtain tail where "dw_trace w' = dw_trace v @ tail" "set tail \<subseteq> {Heartbeat}" by blast
    with calls segments counts finish claim Inr show thesis by (intro claimed [of claims segments tail stats failure v]) auto
  qed
qed


text \<open>
  A tick accounts for its claims. When it returns, every claim was completed, escalated or
  rescheduled, and counted once, in the tick's numbers and in the health totals; when it throws, the
  loop is unhealthy with the error's code, and no more is counted than was claimed.
\<close>

lemma tick_accounts_for_its_claims:
  assumes "runTick ports opts w = (r, w')" and "answers_by_id (dp_evidence ports)"
  shows "case r of
      Inr stats \<Rightarrow> fst (dp_claim ports (do_batchSize opts) (dw_outside w)) \<in> Inr ` {claims. length claims = tk_claimed stats} \<and>
        tk_completed stats + tk_escalated stats + tk_rescheduled stats = tk_claimed stats \<and>
        dw_loop w' = recordSuccess (dp_now ports (dw_outside w')) (add_stats stats (dw_loop w))
    | Inl error \<Rightarrow> \<not> isHealthy pollIntervalMs now (dw_loop w') \<and>
        lh_lastErrorCode (ls_health (dw_loop w')) = Some (opsLoopErrorCode error) \<and>
        lh_completed (ls_health (dw_loop w')) + lh_escalated (ls_health (dw_loop w')) + lh_rescheduled (ls_health (dw_loop w')) +
          lh_claimed (ls_health (dw_loop w)) \<le> lh_completed (ls_health (dw_loop w)) + lh_escalated (ls_health (dw_loop w)) +
          lh_rescheduled (ls_health (dw_loop w)) + lh_claimed (ls_health (dw_loop w'))"
  using assms
proof (cases rule: runTick_ends)
  case (refused error now)
  then show ?thesis by (simp add: recordFailure_def isHealthy_def)
next
  case (claimed claims segments tail stats failure v)
  show ?thesis
  proof (cases r)
    case (Inl error)
    with finish_tick_ends(3) [OF claimed(8)] obtain t where "dw_loop w' = recordFailure t error (add_stats stats (dw_loop v))" by blast
    with claimed Inl show ?thesis
      by (simp add: recordFailure_def isHealthy_def add_stats_def Let_def tick_total_def)
  next
    case (Inr stats')
    with finish_tick_ends(2) [OF claimed(8)] claimed show ?thesis
      by (auto simp: tick_total_def image_iff)
  qed
qed

end
