(* ===== verification/Terminal_Example.thy ===== *)
theory Terminal_Example
  imports Terminal_Evidence Capability_Claims
begin

text \<open>Evidence that is built, checked and accepted: a broker's admission and a daemon's escalation.\<close>

definition flat_env :: evidence_env where
  "flat_env = \<lparr>ev_sha256 = (\<lambda>_. replicate 64 (CHR ''a'')), ev_collate = (\<lambda>s. s), ev_now = ''1'', ev_randomUUID = ''u1''\<rparr>"

lemma flat_hex: "hex_text (ev_sha256 flat_env s)"
  unfolding flat_env_def by simp code_simp

definition day :: "string \<Rightarrow> time option" where
  "day s = (if s = ''1'' then Some 1 else if s = ''2'' then Some 2 else None)"

definition digest_a :: string where
  "digest_a = replicate 64 (CHR ''a'')"

definition ledger_entry :: context_effect where
  "ledger_entry = \<lparr>src_id = ''e1'', src_runId = ''n1'', src_stepId = ''s1'', src_tenantId = ''t1'', src_type = ''send'',
     src_state = ''ADMITTED'', src_policyDecisionId = ''d1'', src_requestHash = ''ab'', src_response = None,
     src_createdAt = ''1'', src_completedAt = None, src_approvalInteractionId = None,
     cx_actionDigest = Some digest_a, cx_policySnapshotId = Some ''p1''\<rparr>"

definition ledger_ports :: "unit evidence_ports" where
  "ledger_ports = \<lparr>ep_getTerminalEvidenceContext = None, ep_listEffectsForRun = Some (\<lambda>_ _. js_return [ledger_entry]),
     ep_listEvents = Some (\<lambda>_ _. js_return [])\<rparr>"

definition key_signature :: evidence_signature where
  "key_signature = \<lparr>sg_algorithm = ''Ed25519'', sg_keyId = ''id1'', sg_signedAt = ''1'', sg_value = ''sig''\<rparr>"

definition key_signer :: "unit evidence_signer" where
  "key_signer = \<lparr>es_sign = (\<lambda>_. js_return key_signature), es_verify = (\<lambda>_ s. s = key_signature)\<rparr>"

definition escalation :: record_request where
  "escalation = \<lparr>rr_tenantId = ''t1'', rr_runId = ''n1'', rr_effectId = ''e1'', rr_projectedState = E_COMPLETION_UNKNOWN,
     rr_response = [(''reason'', JStr ''RECONCILE_ADAPTER_NOT_FOUND'')],
     rr_terminalEvent = \<lparr>te_type = ''effect.reconcile_escalated'', te_severity = ''high'',
       te_details = [(''disposition'', JStr ''RECONCILE_ADAPTER_NOT_FOUND'')]\<rparr>,
     rr_recordedAt = ''1'', rr_retentionUntil = ''2'', rr_claimToken = Some ''c1''\<rparr>"

definition escalation_receipt :: evidence_record where
  "escalation_receipt = record_of ''t1'' ''n1'' (buildRunEvidenceBundle flat_env (daemon_input escalation ledger_entry []))
     key_signature ''1'' ''2''"

lemma key_texts: "no_secret_text (signature_texts key_signature)"
  by (rule harmless_texts) code_simp

lemma escalation_texts: "no_secret_text (input_texts flat_env (daemon_input escalation ledger_entry []))"
  by (rule harmless_texts) code_simp

text \<open>A bound of the size of a record, so that it need not be printed.\<close>

primrec size_bound :: "json \<Rightarrow> nat" where
  "size_bound JNull = 4"
| "size_bound (JBool b) = 5"
| "size_bound (JNum n) = length (show_int n)"
| "size_bound (JStr s) = 6 * length s + 2"
| "size_bound (JArr vs) = 2 + length vs + sum_list (map size_bound vs)"
| "size_bound (JObj kvs) = 2 + length kvs +
     sum_list (map (\<lambda>kv. 6 * length (fst kv) + 3 + snd kv) (map (map_prod id size_bound) kvs))"

lemma length_json_char: "length (json_char c) \<le> 6"
  by (cases c rule: json_char_cases) auto

lemma length_json_string: "length (json_string s) \<le> 6 * length s + 2"
proof -
  have "length (concat (map json_char s)) \<le> 6 * length s"
    using length_json_char by (induction s) (auto intro: add_mono)
  then show ?thesis unfolding json_string_def by simp
qed

lemma length_join_comma: "length (join_comma xs) \<le> length xs + sum_list (map length xs)"
  by (induction xs) (auto simp: join_comma_Cons)

lemma length_plain: "length (plain v) \<le> size_bound v"
proof (induction v)
  case (JStr s)
  then show ?case using length_json_string [of s] by simp
next
  case (JArr vs)
  then have "sum_list (map (length \<circ> plain) vs) \<le> sum_list (map size_bound vs)"
    by (intro sum_list_mono) auto
  with length_join_comma [of "map plain vs"] show ?case by simp
next
  case (JObj kvs)
  have "length (member_text (map_prod id plain kv)) \<le> 6 * length (fst kv) + 3 + size_bound (snd kv)" if "kv \<in> set kvs" for kv
    using JObj [of kv "snd kv"] that length_json_string [of "fst kv"] by (cases kv) (auto simp: member_text_def)
  then have "sum_list (map (\<lambda>kv. length (member_text (map_prod id plain kv))) kvs) \<le>
      sum_list (map (\<lambda>kv. 6 * length (fst kv) + 3 + size_bound (snd kv)) kvs)"
    by (rule sum_list_mono)
  with length_join_comma [of "map member_text (map (map_prod id plain) kvs)"] show ?case
    by (simp add: comp_def)
qed auto

lemma utf8_bound: "utf8_length (plain v) \<le> 2 * size_bound v"
proof -
  have "utf8_length s \<le> 2 * length s" for s
    unfolding utf8_length_def by (induction s) auto
  with length_plain [of v] show ?thesis by (meson le_trans mult_le_mono2)
qed

lemma flat_hash [simp]: "evidence_hash flat_env v = digest_a"
  by (simp add: evidence_hash_def flat_env_def digest_a_def)

lemma length_digest [simp]: "length digest_a = 64"
  by (simp add: digest_a_def)

lemma no_summary [simp]: "size_bound (JObj (optional_object k (summarizeResponse None))) = 2"
  by (simp add: summarizeResponse_def optional_object_def)

lemma harmless_e1: "\<not> isSecretText ''e1''"
  by (rule harmless_not_secret) code_simp

lemma harmless_reason: "\<not> isSecretText ''RECONCILE_ADAPTER_NOT_FOUND''" "\<not> secret_key ''disposition''"
  by (rule harmless_not_secret) code_simp+

lemma escalation_size: "utf8_length (plain (record_json escalation_receipt)) \<le> DEFAULT_EVIDENCE_MAX_BYTES"
proof (rule order_trans [OF utf8_bound])
  have "summarizeResponse (Some [(''reason'', JStr ''RECONCILE_ADAPTER_NOT_FOUND'')]) = None"
    by code_simp
  then show "2 * size_bound (record_json escalation_receipt) \<le> DEFAULT_EVIDENCE_MAX_BYTES"
    by (simp add: record_json_def escalation_receipt_def record_of_def bundle_json_def body_members_def
      buildRunEvidenceBundle_def attachContentHash_def daemon_input_def effect_input_def escalation_def ledger_entry_def
      Let_def nullish_def evidence_bundle_of_def scopeEffects_def scopeAuditEvents_def projected_def
      effect_source.truncate_def spread_def buildEffectEntries_def buildAuditEntries_def hashChainedEntries_def
      effect_item_def audit_item_def optional_def optional_object_def EVIDENCE_BUNDLE_SCHEMA_def EVIDENCE_BODY_VERSION_def
      EVIDENCE_GENESIS_HASH_def terminal_disposition_of_one terminal_states_def signature_json_def key_signature_def
      capabilityGrantRef_def harmless_e1 harmless_reason DEFAULT_EVIDENCE_MAX_BYTES_def)
qed

lemma escalation_terminal:
  "assertTerminalEvidence (buildRunEvidenceBundle flat_env (daemon_input escalation ledger_entry [])) = Inr ()"
proof -
  have "hex64 digest_a" by code_simp
  then show ?thesis
    by (simp add: terminal_evidence_built bundle_simps daemon_input_def escalation_def ledger_entry_def Let_def
        terminal_states_def nullish_def)
qed

lemma escalation_built:
  "buildTerminalEvidenceRecordFromKernel flat_env day key_signer ledger_ports escalation () = (Inr escalation_receipt, ())"
proof -
  have "assertEvidenceRecord flat_env day escalation_receipt
      \<lparr>ro_maxBytes = None, ro_verifySignature = Some (\<lambda>_ s. s = key_signature), ro_jwks = None\<rparr> = Inr ()"
    unfolding escalation_receipt_def
    by (rule built_record_accepted [where created = 1 and retained = 2])
      (use flat_hex escalation_texts key_texts escalation_terminal escalation_size in
        \<open>auto simp: escalation_receipt_def day_def daemon_input_def effect_input_def escalation_def Let_def\<close>)
  then show ?thesis
    by (simp add: buildTerminalEvidenceRecordFromKernel_def fetched_context_def listed_context_def ledger_ports_def
      daemon_record_def escalation_def ledger_entry_def absent_def key_signer_def checked_def js_bind_def js_return_def
      escalation_receipt_def Let_def digest_a_def)
qed

definition escalated_effect :: kernel_effect where
  "escalated_effect = demo_bound_effect\<lparr>ke_id := ''e1'', ke_tenantId := ''t1'', ke_runId := ''n1'',
     ke_actionDigest := digest_a, ke_state := E_COMPLETION_UNKNOWN\<rparr>"

lemma ports_by_id: "answers_by_id ledger_ports"
  by (simp add: answers_by_id_def ledger_ports_def)

section \<open>The broker's record\<close>

definition sent :: admitted_entry where
  "sent = \<lparr>ad_effectId = ''x1'', ad_actionDigest = digest_a,
     ad_grant = demo_grant\<lparr>gr_tenantId := ''t1'', gr_runId := ''n1'', gr_stepId := ''s1''\<rparr>,
     ad_decision = \<lparr>pd_effect = D_allow, pd_decisionId = ''d1'', pd_reason = ''ok'', pd_policySnapshotId = ''p1''\<rparr>,
     ad_type = ''send'', ad_idempotencyKey = ''i1'', ad_request = JObj [],
     ad_lease = \<lparr>lr_workerId = ''w1'', lr_workerGeneration = None, lr_token = ''l1'', lr_fencingEpoch = 1\<rparr>,
     ad_actor = ''w1'', ad_kernelEffectId = ''e1'', ad_replayed = False, ad_effectState = ''ADMITTED'',
     ad_cachedResponse = None, ad_compensationClaim = None\<rparr>"

abbreviation sent_terminal :: terminal_state where
  "sent_terminal \<equiv> T_completed (JObj [(''status'', JStr ''open'')])"

abbreviation sent_input :: build_input where
  "sent_input \<equiv> terminal_input sent sent_terminal ''1'' ledger_entry []"

definition sent_receipt :: evidence_record where
  "sent_receipt = record_of ''t1'' ''n1'' (buildRunEvidenceBundle flat_env sent_input) key_signature ''1'' ''2''"

lemmas sent_simps = terminal_input_def effect_input_def sent_def ledger_entry_def terminal_event_of_def terminal_text_def
  response_members_def Let_def nullish_def evidence_bundle_of_def projected_def effect_source.truncate_def

lemma sent_texts: "no_secret_text (input_texts flat_env sent_input)"
  by (rule harmless_texts) code_simp

lemma sent_terminal_ok: "assertTerminalEvidence (buildRunEvidenceBundle flat_env sent_input) = Inr ()"
proof -
  have "hex64 digest_a" by code_simp
  then show ?thesis
    by (simp add: terminal_evidence_built bundle_simps terminal_input_def sent_def ledger_entry_def terminal_text_def Let_def
        terminal_states_def nullish_def)
qed

lemma harmless_d1: "\<not> isSecretText ''d1''"
  by (rule harmless_not_secret) code_simp

lemma sent_size: "utf8_length (plain (record_json sent_receipt)) \<le> DEFAULT_EVIDENCE_MAX_BYTES"
proof (rule order_trans [OF utf8_bound])
  have "summarizeResponse (Some [(''status'', JStr ''open'')]) = Some [(''status'', JStr ''open'')]"
    by code_simp
  then show "2 * size_bound (record_json sent_receipt) \<le> DEFAULT_EVIDENCE_MAX_BYTES"
    by (simp add: record_json_def sent_receipt_def record_of_def bundle_json_def body_members_def
      buildRunEvidenceBundle_def attachContentHash_def sent_simps scopeEffects_def scopeAuditEvents_def
      spread_def buildEffectEntries_def buildAuditEntries_def hashChainedEntries_def
      effect_item_def audit_item_def optional_def optional_object_def EVIDENCE_BUNDLE_SCHEMA_def EVIDENCE_BODY_VERSION_def
      EVIDENCE_GENESIS_HASH_def terminal_disposition_of_one terminal_states_def signature_json_def key_signature_def
      capabilityGrantRef_def harmless_e1 harmless_d1 DEFAULT_EVIDENCE_MAX_BYTES_def)
qed

lemma sent_built:
  "terminal_evidence_port flat_env day (\<lambda>_. ''2'') (Some key_signer) ledger_ports sent sent_terminal () = (Inr sent_receipt, ())"
proof -
  have "assertEvidenceRecord flat_env day sent_receipt
      \<lparr>ro_maxBytes = None, ro_verifySignature = Some (\<lambda>_ s. s = key_signature), ro_jwks = None\<rparr> = Inr ()"
    unfolding sent_receipt_def
    by (rule built_record_accepted [where created = 1 and retained = 2])
      (use flat_hex sent_texts key_texts sent_terminal_ok sent_size in
        \<open>auto simp: sent_receipt_def day_def terminal_input_def effect_input_def sent_def Let_def\<close>)
  then show ?thesis
    by (simp add: terminal_evidence_port_def buildTerminalEvidenceRecord_def fetched_context_def listed_context_def
      ledger_ports_def record_from_context_def target_of_admission_def sent_def ledger_entry_def key_signer_def checked_def
      js_bind_def js_return_def sent_receipt_def flat_env_def Let_def)
qed

theorem broker_evidence_is_accepted_witness:
  "assertEvidenceRecordBoundToEffect (receipt_row (\<lambda>_. 5) sent_receipt) (escalated_effect\<lparr>ke_state := E_COMPLETED\<rparr>) empty_db =
     Inr ((), empty_db)"
  using broker_evidence_is_accepted [OF sent_built ports_by_id, of "escalated_effect\<lparr>ke_state := E_COMPLETED\<rparr>"
      "\<lambda>_. 5" empty_db]
  by (simp add: escalated_effect_def sent_def)

end
