(* ===== verification/Daemon_Example.thy ===== *)
theory Daemon_Example
  imports Reconcile_Daemon Terminal_Example
begin

text \<open>A tick of the reconciliation daemon that escalates an effect without an adapter.\<close>

definition lone_effect :: kernel_effect where
  "lone_effect = escalated_effect\<lparr>ke_type := ''send''\<rparr>"

definition lone_ports :: "unit daemon_ports" where
  "lone_ports = \<lparr>dp_claim = (\<lambda>_. js_return [(lone_effect, ''c1'')]), dp_mutate = (\<lambda>_. js_return (Mutated Rd_escalated)),
     dp_adapter = (\<lambda>_. False), dp_querier = (\<lambda>_. False), dp_query = (\<lambda>_ _ w. (Query_timed_out, w)),
     dp_heartbeat = Some (js_return ()), dp_now = (\<lambda>_. 1), dp_iso = (\<lambda>t. if t = 1 then ''1'' else ''2''),
     dp_evidence = ledger_ports\<rparr>"

definition lone_opts :: "unit daemon_options" where
  "lone_opts = \<lparr>do_batchSize = 5, do_workerId = ''w1'', do_workerGeneration = 1, do_claimSecret = ''c'',
     do_queryTimeoutMs = 30000, do_evidenceSigner = Some key_signer, do_evidenceRetentionMs = None, do_env = flat_env,
     do_parse_date = day\<rparr>"

definition lone_world :: "(daemon_call, unit) daemon_world" where
  "lone_world = \<lparr>dw_trace = [], dw_loop = initial_loop, dw_outside = ()\<rparr>"

definition lone_escalation :: mutation where
  "lone_escalation = Escalate_effect (claim_auth_of lone_opts lone_effect ''c1'') RECONCILE_ADAPTER_NOT_FOUND escalation_receipt"

definition lone_stats :: tick_stats where
  "lone_stats = \<lparr>tk_claimed = 1, tk_completed = 0, tk_escalated = 1, tk_rescheduled = 0\<rparr>"

definition lone_end :: "(daemon_call, unit) daemon_world" where
  "lone_end = \<lparr>dw_trace = [Claimed, Mutating lone_escalation, Heartbeat],
     dw_loop = recordSuccess 1 (add_stats lone_stats initial_loop), dw_outside = ()\<rparr>"

lemma lone_simps [simp]:
  "dp_claim lone_ports n = js_return [(lone_effect, ''c1'')]" "dp_mutate lone_ports m = js_return (Mutated Rd_escalated)"
  "\<not> dp_adapter lone_ports t" "dp_heartbeat lone_ports = Some (js_return ())" "dp_now lone_ports o' = 1"
  by (simp_all add: lone_ports_def)

lemma lone_ports_by_id: "answers_by_id (dp_evidence lone_ports)"
  using ports_by_id by (simp add: lone_ports_def)

lemma lone_request:
  "evidence_request lone_ports lone_opts lone_effect ''c1'' E_COMPLETION_UNKNOWN [(''reason'', JStr ''RECONCILE_ADAPTER_NOT_FOUND'')]
     ''effect.reconcile_escalated'' ''RECONCILE_ADAPTER_NOT_FOUND'' 1 = escalation"
  by (simp add: evidence_request_def escalation_def lone_ports_def lone_opts_def lone_effect_def escalated_effect_def
      nullish_def YEAR_MS_def)

lemma lone_tick: "runTick lone_ports lone_opts lone_world = (Inr lone_stats, lone_end)"
proof -
  let ?evidence = "buildEvidence lone_ports lone_opts lone_effect ''c1'' E_COMPLETION_UNKNOWN
     [(''reason'', JStr ''RECONCILE_ADAPTER_NOT_FOUND'')] ''effect.reconcile_escalated'' ''RECONCILE_ADAPTER_NOT_FOUND''"
  have evidence: "?evidence w = (Inr escalation_receipt, w)" for w
  proof -
    have "do_evidenceSigner lone_opts = Some key_signer" "dp_now lone_ports (dw_outside w) = 1" "do_env lone_opts = flat_env"
      "do_parse_date lone_opts = day" "dp_evidence lone_ports = ledger_ports" "dw_outside w = ()"
      by (simp_all add: lone_opts_def lone_ports_def)
    then show ?thesis
      by (simp add: buildEvidence_def js_bind_def js_read_def port_call_def js_catch_def lone_request escalation_built)
  qed
  show ?thesis
    by (simp add: runTick_def port_call_def js_try_def js_bind_def js_return_def js_read_def js_modify_def
        reconcileClaim_def escalate_claim_def evidence mutate_def appliedDisposition_def counted_def
        finish_tick_def on_loop_def lone_escalation_def lone_stats_def lone_end_def lone_world_def)
qed


end
