(* ===== verification/Compensation_Authority.thy ===== *)
theory Compensation_Authority
  imports Evidence_Claims
begin

text \<open>
  \<open>packages/kernel/src/ops/compensationAuthority.ts\<close>: a governed authorization to compensate an effect
  is sealed with an action digest and validated before use. Values are JSON objects, as in the
  source; the hash and \<open>Date.parse\<close> are parameters.
\<close>

definition INPUT_KEYS :: "string list" where
  "INPUT_KEYS = [''schema'', ''authorizationId'', ''requestId'', ''tenantId'', ''originalRunId'', ''originalEffectId'',
     ''originalRunStateAtRequest'', ''compensationRunId'', ''compensationStepId'', ''compensationEffectId'',
     ''compensationEffectType'', ''compensationRequest'', ''idempotencyKey'', ''forwardReceipt'', ''adapterVersion'',
     ''policyDecisionId'', ''policySnapshotId'', ''decisionEffect'', ''authorizationExpiresAt'', ''approvalBinding'']"

definition AUTHORIZATION_KEYS :: "string list" where
  "AUTHORIZATION_KEYS = INPUT_KEYS @ [''forwardReceiptHash'', ''requestHash'', ''actionDigest'']"

definition APPROVAL_KEYS :: "string list" where
  "APPROVAL_KEYS = [''approvalId'', ''approverPrincipalId'', ''actionDigest'', ''policySnapshotId'', ''expiresAt'']"

text \<open>An object has each key once.\<close>

definition hasExactKeys :: "members \<Rightarrow> string list \<Rightarrow> bool" where
  "hasExactKeys kvs keys \<longleftrightarrow> length kvs = length keys \<and> list_all (\<lambda>kv. fst kv \<in> set keys) kvs"

definition nonEmptyString :: "json option \<Rightarrow> bool" where
  "nonEmptyString v \<longleftrightarrow> (case v of Some (JStr s) \<Rightarrow> trim s \<noteq> [] | _ \<Rightarrow> False)"

definition finiteIsoTime :: "(string \<Rightarrow> time option) \<Rightarrow> json option \<Rightarrow> bool" where
  "finiteIsoTime parse_date v \<longleftrightarrow> (case v of Some (JStr s) \<Rightarrow> trim s \<noteq> [] \<and> parse_date s \<noteq> None | _ \<Rightarrow> False)"

text \<open>
  \<open>String(value)\<close>, for a text and an array of one element (its own text); \<open>None\<close> stands for any other
  text, which is none of the three decisions.
\<close>

fun decision_text :: "json \<Rightarrow> string option" where
  "decision_text (JStr s) = Some s"
| "decision_text (JArr [v]) = decision_text v"
| "decision_text _ = None"

definition DECISIONS :: "string list" where
  "DECISIONS = [''allow'', ''deny'', ''require_approval'']"

definition is_record_value :: "json option \<Rightarrow> bool" where
  "is_record_value v \<longleftrightarrow> (case v of Some (JObj _) \<Rightarrow> True | _ \<Rightarrow> False)"

text \<open>\<open>canonicalJson\<close> is the canonical text, and throws on \<open>undefined\<close>.\<close>

definition canonicalCompensationHash :: "(string \<Rightarrow> string) \<Rightarrow> json option \<Rightarrow> string option" where
  "canonicalCompensationHash hash v = map_option (\<lambda>j. hash (canonical j)) v"

section \<open>The digest\<close>

definition PROJECTED_KEYS :: "string list" where
  "PROJECTED_KEYS = [''authorizationId'', ''requestId'', ''tenantId'', ''originalRunId'', ''originalEffectId'',
     ''originalRunStateAtRequest'', ''compensationRunId'', ''compensationStepId'', ''compensationEffectId'',
     ''compensationEffectType'', ''idempotencyKey'', ''forwardReceiptHash'', ''requestHash'', ''adapterVersion'',
     ''policyDecisionId'', ''policySnapshotId'', ''decisionEffect'', ''authorizationExpiresAt'']"

definition APPROVAL_PROJECTED_KEYS :: "string list" where
  "APPROVAL_PROJECTED_KEYS = [''approvalId'', ''approverPrincipalId'', ''policySnapshotId'', ''expiresAt'']"

text \<open>
  An object literal \<open>{k: v.k, ..}\<close>; \<open>None\<close> where a field is \<open>undefined\<close>, on which \<open>canonicalJson\<close> throws.
\<close>

definition pick :: "string list \<Rightarrow> members \<Rightarrow> members option" where
  "pick keys kvs = those (map (\<lambda>k. map_option (Pair k) (map_of kvs k)) keys)"

definition approval_projection :: "json option \<Rightarrow> json option" where
  "approval_projection v = (case v of
     Some (JObj kvs) \<Rightarrow> map_option JObj (pick APPROVAL_PROJECTED_KEYS kvs)
   | _ \<Rightarrow> if v \<in> {None, Some JNull, Some (JBool False), Some (JNum 0), Some (JStr [])} then Some JNull else None)"

definition digestProjection :: "members \<Rightarrow> json option" where
  "digestProjection input =
     (case (map_of input ''schema'', pick PROJECTED_KEYS input, approval_projection (map_of input ''approvalBinding'')) of
        (Some schema, Some named, Some approval) \<Rightarrow>
          Some (JObj ([(''protocol'', schema), (''canonicalization'', JStr ''jcs-v1'')] @ named @ [(''approvalBinding'', approval)]))
      | _ \<Rightarrow> None)"

section \<open>Sealing\<close>

text \<open>\<open>{...kvs, k: v}\<close>\<close>

definition set_member :: "string \<Rightarrow> json \<Rightarrow> members \<Rightarrow> members" where
  "set_member k v kvs = (if k \<in> set (map fst kvs) then map (\<lambda>kv. if fst kv = k then (k, v) else kv) kvs else kvs @ [(k, v)])"

text \<open>\<open>None\<close> where the source throws a \<open>TypeError\<close>.\<close>

definition sealGovernedCompensationAuthorization :: "(string \<Rightarrow> string) \<Rightarrow> members \<Rightarrow> members option" where
  "sealGovernedCompensationAuthorization hash input =
     (if \<not> hasExactKeys input INPUT_KEYS then None
      else case (canonicalCompensationHash hash (map_of input ''forwardReceipt''),
                 canonicalCompensationHash hash (map_of input ''compensationRequest'')) of
        (Some forwardReceiptHash, Some request_hash) \<Rightarrow>
          (let hashes = [(''forwardReceiptHash'', JStr forwardReceiptHash), (''requestHash'', JStr request_hash)] in
           case canonicalCompensationHash hash (digestProjection (input @ hashes)) of
             None \<Rightarrow> None
           | Some actionDigest \<Rightarrow>
               (let binding = (case map_of input ''approvalBinding'' of
                      Some (JObj approval) \<Rightarrow> JObj (set_member ''actionDigest'' (JStr actionDigest) approval) | _ \<Rightarrow> JNull) in
                Some (set_member ''approvalBinding'' binding input @ hashes @ [(''actionDigest'', JStr actionDigest)])))
      | _ \<Rightarrow> None)"

section \<open>Validation\<close>

datatype authorization_error =
    COMPENSATION_AUTHORIZATION_MALFORMED
  | COMPENSATION_AUTHORIZATION_UNKNOWN_FIELD
  | COMPENSATION_ORIGINAL_EFFECT_MISMATCH
  | COMPENSATION_FORWARD_RECEIPT_HASH_MISMATCH
  | COMPENSATION_REQUEST_HASH_MISMATCH
  | COMPENSATION_POLICY_DENIED
  | COMPENSATION_APPROVAL_REQUIRED
  | COMPENSATION_APPROVAL_UNEXPECTED
  | COMPENSATION_APPROVAL_BINDING_INVALID
  | COMPENSATION_AUTHORIZATION_EXPIRED
  | COMPENSATION_ACTION_DIGEST_MISMATCH

definition STRING_FIELDS :: "string list" where
  "STRING_FIELDS = [''authorizationId'', ''requestId'', ''tenantId'', ''originalRunId'', ''originalEffectId'',
     ''originalRunStateAtRequest'', ''compensationRunId'', ''compensationStepId'', ''compensationEffectId'',
     ''compensationEffectType'', ''idempotencyKey'', ''adapterVersion'', ''policyDecisionId'', ''policySnapshotId'',
     ''forwardReceiptHash'', ''requestHash'', ''actionDigest'']"

definition malformedAuthorization :: "(string \<Rightarrow> time option) \<Rightarrow> members \<Rightarrow> bool" where
  "malformedAuthorization parse_date v \<longleftrightarrow>
     map_of v ''schema'' \<noteq> Some (JStr ''commander.compensation/v1'') \<or>
     list_ex (\<lambda>field. \<not> nonEmptyString (map_of v field)) STRING_FIELDS \<or>
     \<not> is_record_value (map_of v ''compensationRequest'') \<or> \<not> is_record_value (map_of v ''forwardReceipt'') \<or>
     Option.bind (map_of v ''decisionEffect'') decision_text \<notin> Some ` set DECISIONS \<or>
     \<not> finiteIsoTime parse_date (map_of v ''authorizationExpiresAt'')"

definition validApprovalShape :: "(string \<Rightarrow> time option) \<Rightarrow> json option \<Rightarrow> bool" where
  "validApprovalShape parse_date v \<longleftrightarrow> (case v of
     Some (JObj kvs) \<Rightarrow> hasExactKeys kvs APPROVAL_KEYS \<and>
       list_all (\<lambda>k. nonEmptyString (map_of kvs k)) [''approvalId'', ''approverPrincipalId'', ''actionDigest'', ''policySnapshotId''] \<and>
       finiteIsoTime parse_date (map_of kvs ''expiresAt'')
   | _ \<Rightarrow> False)"

definition approval_member :: "members \<Rightarrow> string \<Rightarrow> json option" where
  "approval_member v k = (case map_of v ''approvalBinding'' of Some (JObj kvs) \<Rightarrow> map_of kvs k | _ \<Rightarrow> None)"

text \<open>\<open>Date.parse(v) <= now\<close>: false for an unreadable date.\<close>

definition past :: "(string \<Rightarrow> time option) \<Rightarrow> time \<Rightarrow> json option \<Rightarrow> bool" where
  "past parse_date now v \<longleftrightarrow> (case v of Some (JStr s) \<Rightarrow> (case parse_date s of Some t \<Rightarrow> t \<le> now | None \<Rightarrow> False) | _ \<Rightarrow> False)"

definition text_is :: "string option \<Rightarrow> json option \<Rightarrow> bool" where
  "text_is s v \<longleftrightarrow> s \<noteq> None \<and> v = Some (JStr (the s))"

definition validateGovernedCompensationAuthorization ::
  "(string \<Rightarrow> string) \<Rightarrow> (string \<Rightarrow> time option) \<Rightarrow> time \<Rightarrow> json \<Rightarrow> authorization_error + members" where
  "validateGovernedCompensationAuthorization hash parse_date now value = (case value of
     JObj v \<Rightarrow>
       (let binding = map_of v ''approvalBinding''; effect = map_of v ''decisionEffect'' in
        if \<not> hasExactKeys v AUTHORIZATION_KEYS then Inl COMPENSATION_AUTHORIZATION_UNKNOWN_FIELD
        else if malformedAuthorization parse_date v then Inl COMPENSATION_AUTHORIZATION_MALFORMED
        else if (case map_of v ''compensationRequest'' of Some (JObj r) \<Rightarrow> map_of r ''originalEffectId'' | _ \<Rightarrow> None) \<noteq>
                map_of v ''originalEffectId'' then Inl COMPENSATION_ORIGINAL_EFFECT_MISMATCH
        else if \<not> text_is (canonicalCompensationHash hash (map_of v ''forwardReceipt'')) (map_of v ''forwardReceiptHash'')
        then Inl COMPENSATION_FORWARD_RECEIPT_HASH_MISMATCH
        else if \<not> text_is (canonicalCompensationHash hash (map_of v ''compensationRequest'')) (map_of v ''requestHash'')
        then Inl COMPENSATION_REQUEST_HASH_MISMATCH
        else if effect = Some (JStr ''deny'') then Inl COMPENSATION_POLICY_DENIED
        else if past parse_date now (map_of v ''authorizationExpiresAt'') then Inl COMPENSATION_AUTHORIZATION_EXPIRED
        else if effect = Some (JStr ''allow'') \<and> binding \<noteq> Some JNull then Inl COMPENSATION_APPROVAL_UNEXPECTED
        else if effect = Some (JStr ''require_approval'') \<and> binding = Some JNull then Inl COMPENSATION_APPROVAL_REQUIRED
        else if effect = Some (JStr ''require_approval'') \<and>
             (\<not> validApprovalShape parse_date binding \<or>
              approval_member v ''policySnapshotId'' \<noteq> map_of v ''policySnapshotId'' \<or>
              approval_member v ''actionDigest'' \<noteq> map_of v ''actionDigest'' \<or>
              past parse_date now (approval_member v ''expiresAt''))
        then Inl COMPENSATION_APPROVAL_BINDING_INVALID
        else if effect \<noteq> Some (JStr ''require_approval'') \<and> binding \<noteq> Some JNull \<and> \<not> validApprovalShape parse_date binding
        then Inl COMPENSATION_APPROVAL_BINDING_INVALID
        else if \<not> text_is (canonicalCompensationHash hash (digestProjection v)) (map_of v ''actionDigest'')
        then Inl COMPENSATION_ACTION_DIGEST_MISMATCH
        else Inr v)
   | _ \<Rightarrow> Inl COMPENSATION_AUTHORIZATION_MALFORMED)"

definition compensationGrantExpiresAt :: "(string \<Rightarrow> time option) \<Rightarrow> string \<Rightarrow> time \<Rightarrow> int \<Rightarrow> string + time" where
  "compensationGrantExpiresAt parse_date authorizationExpiresAt now capabilityTtlMs =
     (if \<not> is_safe_integer capabilityTtlMs \<or> capabilityTtlMs \<le> 0 then Inl ''capabilityTtlMs must be a positive integer''
      else case parse_date authorizationExpiresAt of
        None \<Rightarrow> Inl ''authorizationExpiresAt must be a finite ISO timestamp''
      | Some authorizationExpiry \<Rightarrow> Inr (min authorizationExpiry (now + capabilityTtlMs)))"

end
