(* ===== verification/Compensation_Claims.thy ===== *)
theory Compensation_Claims
  imports Compensation_Authority
begin

text \<open>
  What an authorization to compensate is worth: sealing and validating agree, and an action digest
  binds everything that was authorized.
\<close>

lemmas compensation_keys = INPUT_KEYS_def AUTHORIZATION_KEYS_def APPROVAL_KEYS_def PROJECTED_KEYS_def
  APPROVAL_PROJECTED_KEYS_def STRING_FIELDS_def

text \<open>Objects that hold the same keys, up to the order of members, are told apart by a lookup.\<close>

lemma sorted_objects_same:
  assumes "distinct (map fst xs)" and "distinct (map fst ys)"
    and "\<And>k. map_option sorted_json (map_of xs k) = map_option sorted_json (map_of ys k)"
  shows "sorted_json (JObj xs) = sorted_json (JObj ys)"
proof -
  let ?f = "map (map_prod id sorted_json)"
  have "map_of (?f xs) = map_of (?f ys)"
    using assms(3) by (intro ext) (simp add: map_of_map_snd)
  moreover have "distinct (map fst (?f xs))" "distinct (map fst (?f ys))"
    using assms(1,2) by (simp_all add: comp_def)
  ultimately have "set (?f xs) = set (?f ys)"
    by (metis map_of_inject_set)
  moreover have "distinct (?f xs)" "distinct (?f ys)"
    using \<open>distinct (map fst (?f xs))\<close> \<open>distinct (map fst (?f ys))\<close> by (simp_all only: distinct_map)
  ultimately have "mset (?f xs) = mset (?f ys)"
    by (metis set_eq_iff_mset_eq_distinct)
  then have "sort_key fst (?f xs) = sort_key fst (?f ys)"
    using \<open>distinct (map fst (?f xs))\<close> by (rule sort_key_fst_mset_eq)
  then show ?thesis by simp
qed

lemma exact_keys:
  assumes "hasExactKeys kvs keys" and "distinct (map fst kvs)" and "distinct keys"
  shows "map_of kvs k = None \<longleftrightarrow> k \<notin> set keys"
proof -
  have "card (set (map fst kvs)) = card (set keys)"
    using assms by (simp only: hasExactKeys_def distinct_card length_map)
  moreover have "set (map fst kvs) \<subseteq> set keys"
    using assms(1) by (auto simp: hasExactKeys_def list_all_iff)
  ultimately have "set (map fst kvs) = set keys" by (simp add: card_subset_eq)
  then show ?thesis by (simp add: map_of_eq_None_iff)
qed

lemma has_exact_keys: "hasExactKeys kvs keys \<longleftrightarrow> length kvs = length keys \<and> fst ` set kvs \<subseteq> set keys"
  by (auto simp: hasExactKeys_def list_all_iff)

lemma pick_lookup:
  assumes "pick keys kvs = Some named"
  shows "map_of named k = (if k \<in> set keys then map_of kvs k else None)" and "map fst named = keys"
proof -
  have *: "those (map (\<lambda>k. map_option (Pair k) (map_of kvs k)) keys) = Some named \<Longrightarrow>
      map_of named k = (if k \<in> set keys then map_of kvs k else None) \<and> map fst named = keys"
    by (induction keys arbitrary: named) (auto split: option.splits)
  from * assms show "map_of named k = (if k \<in> set keys then map_of kvs k else None)" and "map fst named = keys"
    by (auto simp: pick_def)
qed


text \<open>An object has each of its keys once.\<close>

definition unique_keys :: "members \<Rightarrow> bool" where
  "unique_keys v \<longleftrightarrow> distinct (map fst v) \<and>
     (case map_of v ''approvalBinding'' of Some (JObj kvs) \<Rightarrow> distinct (map fst kvs) | _ \<Rightarrow> True)"

definition same_at :: "members \<Rightarrow> members \<Rightarrow> string \<Rightarrow> bool" where
  "same_at a b k \<longleftrightarrow> map_option sorted_json (map_of a k) = map_option sorted_json (map_of b k)"

lemma same_text: "same_at a b k \<Longrightarrow> map_of a k = Some (JStr s) \<Longrightarrow> map_of b k = Some (JStr s)"
  by (cases "map_of b k") (auto simp: same_at_def, metis sorted_json.simps(4) sorted_json_JStr)

lemma text_is_iff: "text_is (canonicalCompensationHash hash v) w \<longleftrightarrow> (\<exists>j. v = Some j \<and> w = Some (JStr (hash (canonical j))))"
  by (auto simp: text_is_def canonicalCompensationHash_def)

lemma validated:
  assumes "validateGovernedCompensationAuthorization hash parse_date now value = Inr a"
  shows "value = JObj a" and "hasExactKeys a AUTHORIZATION_KEYS" and "\<not> malformedAuthorization parse_date a"
    and "text_is (canonicalCompensationHash hash (map_of a ''forwardReceipt'')) (map_of a ''forwardReceiptHash'')"
    and "text_is (canonicalCompensationHash hash (map_of a ''compensationRequest'')) (map_of a ''requestHash'')"
    and "text_is (canonicalCompensationHash hash (digestProjection a)) (map_of a ''actionDigest'')"
    and "map_of a ''decisionEffect'' \<noteq> Some (JStr ''deny'')" and "\<not> past parse_date now (map_of a ''authorizationExpiresAt'')"
    and "map_of a ''decisionEffect'' = Some (JStr ''allow'') \<Longrightarrow> map_of a ''approvalBinding'' = Some JNull"
    and "map_of a ''decisionEffect'' = Some (JStr ''require_approval'') \<Longrightarrow>
      validApprovalShape parse_date (map_of a ''approvalBinding'') \<and>
      approval_member a ''policySnapshotId'' = map_of a ''policySnapshotId'' \<and>
      approval_member a ''actionDigest'' = map_of a ''actionDigest'' \<and>
      \<not> past parse_date now (approval_member a ''expiresAt'')"
  using assms by (auto simp: validateGovernedCompensationAuthorization_def Let_def split: json.splits if_splits)

lemma digest_lookup:
  assumes "digestProjection v = Some (JObj d)"
  shows "map_of d ''protocol'' = map_of v ''schema''"
    and "k \<in> set PROJECTED_KEYS \<Longrightarrow> map_of d k = map_of v k"
    and "map_of d ''approvalBinding'' = approval_projection (map_of v ''approvalBinding'')"
proof -
  from assms obtain schema named approval where d: "map_of v ''schema'' = Some schema" "pick PROJECTED_KEYS v = Some named"
    "approval_projection (map_of v ''approvalBinding'') = Some approval"
    "d = [(''protocol'', schema), (''canonicalization'', JStr ''jcs-v1'')] @ named @ [(''approvalBinding'', approval)]"
    by (auto simp: digestProjection_def split: option.splits)
  show "map_of d ''protocol'' = map_of v ''schema''" using d by simp
  show "map_of d ''approvalBinding'' = approval_projection (map_of v ''approvalBinding'')"
    using d pick_lookup(1) [OF d(2), of "''approvalBinding''"]
    by (simp add: PROJECTED_KEYS_def map_add_def)
  show "map_of d k = map_of v k" if "k \<in> set PROJECTED_KEYS"
  proof -
    from that have "k \<noteq> ''protocol'' \<and> k \<noteq> ''canonicalization'' \<and> k \<noteq> ''approvalBinding''"
      by (auto simp: PROJECTED_KEYS_def)
    with that d pick_lookup(1) [OF d(2), of k] show ?thesis
      by (simp add: map_add_def split: option.split)
  qed
qed

lemma digest_object: "digestProjection v = Some j \<Longrightarrow> \<exists>d. j = JObj d"
  by (auto simp: digestProjection_def split: option.splits)


lemma validated_keys: "set AUTHORIZATION_KEYS = set PROJECTED_KEYS \<union>
    {''schema'', ''approvalBinding'', ''forwardReceipt'', ''compensationRequest'', ''actionDigest''}"
  by (auto simp: compensation_keys)

lemma digest_binds:
  assumes "text_is (canonicalCompensationHash hash (digestProjection a)) (map_of a ''actionDigest'')"
    and "text_is (canonicalCompensationHash hash (digestProjection b)) (map_of b ''actionDigest'')"
    and "map_of a ''actionDigest'' = map_of b ''actionDigest''"
    and "inj hash"
  shows "same_at a b ''schema''" and "k \<in> set PROJECTED_KEYS \<Longrightarrow> same_at a b k"
    and "map_option sorted_json (approval_projection (map_of a ''approvalBinding'')) =
      map_option sorted_json (approval_projection (map_of b ''approvalBinding''))"
proof -
  from assms(1,2) digest_object obtain da db where d: "digestProjection a = Some (JObj da)" "digestProjection b = Some (JObj db)"
    "map_of a ''actionDigest'' = Some (JStr (hash (canonical (JObj da))))"
    "map_of b ''actionDigest'' = Some (JStr (hash (canonical (JObj db))))"
    unfolding text_is_iff by metis
  with assms(3,4) have "canonical (JObj da) = canonical (JObj db)" by (auto dest: injD)
  then have same: "sorted_json (JObj da) = sorted_json (JObj db)" by (simp only: canonical_same)
  note l = sorted_members_lookup [OF same]
  show "same_at a b ''schema''"
    using l [of "''protocol''"] digest_lookup(1) [OF d(1)] digest_lookup(1) [OF d(2)] by (simp add: same_at_def)
  show "same_at a b k" if "k \<in> set PROJECTED_KEYS"
    using l [of k] digest_lookup(2) [OF d(1) that] digest_lookup(2) [OF d(2) that] by (simp add: same_at_def)
  show "map_option sorted_json (approval_projection (map_of a ''approvalBinding'')) =
      map_option sorted_json (approval_projection (map_of b ''approvalBinding''))"
    using l [of "''approvalBinding''"] digest_lookup(3) [OF d(1)] digest_lookup(3) [OF d(2)] by simp
qed

lemma hashed_same:
  assumes "text_is (canonicalCompensationHash hash (map_of a k)) (map_of a h)"
    and "text_is (canonicalCompensationHash hash (map_of b k)) (map_of b h)" and "same_at a b h" and "inj hash"
  shows "same_at a b k"
proof -
  from assms(1,2) obtain x y where xy: "map_of a k = Some x" "map_of a h = Some (JStr (hash (canonical x)))"
    "map_of b k = Some y" "map_of b h = Some (JStr (hash (canonical y)))"
    by (auto simp: text_is_iff)
  with assms(3,4) have "canonical x = canonical y" by (auto simp: same_at_def dest: injD)
  with xy show ?thesis by (simp add: same_at_def canonical_same)
qed

text \<open>The approvals of two authorizations that require one.\<close>

lemma approvals_same:
  assumes "validApprovalShape p (map_of a ''approvalBinding'')" and "validApprovalShape p (map_of b ''approvalBinding'')"
    and "unique_keys a" and "unique_keys b"
    and proj: "map_option sorted_json (approval_projection (map_of a ''approvalBinding'')) =
      map_option sorted_json (approval_projection (map_of b ''approvalBinding''))"
    and digest: "approval_member a ''actionDigest'' = approval_member b ''actionDigest''"
  shows "same_at a b ''approvalBinding''"
proof -
  from assms(1,2) obtain xs ys where ab: "map_of a ''approvalBinding'' = Some (JObj xs)" "map_of b ''approvalBinding'' = Some (JObj ys)"
    and keys: "hasExactKeys xs APPROVAL_KEYS" "hasExactKeys ys APPROVAL_KEYS"
    by (auto simp: validApprovalShape_def split: option.splits json.splits)
  from assms(3,4) ab have uniq: "distinct (map fst xs)" "distinct (map fst ys)" by (auto simp: unique_keys_def)
  have dist: "distinct APPROVAL_KEYS" by (simp add: APPROVAL_KEYS_def)
  note gone = exact_keys [OF keys(1) uniq(1) dist] exact_keys [OF keys(2) uniq(2) dist]
  have picked: "\<exists>named. pick APPROVAL_PROJECTED_KEYS kvs = Some named"
    if "\<And>k. map_of kvs k = None \<longleftrightarrow> k \<notin> set APPROVAL_KEYS" for kvs
  proof -
    have "map_of kvs k \<noteq> None" if "k \<in> set APPROVAL_KEYS" for k
      using that \<open>\<And>k. map_of kvs k = None \<longleftrightarrow> k \<notin> set APPROVAL_KEYS\<close> by blast
    from this [of "''approvalId''"] this [of "''approverPrincipalId''"] this [of "''policySnapshotId''"] this [of "''expiresAt''"]
    show ?thesis by (auto simp: pick_def APPROVAL_PROJECTED_KEYS_def APPROVAL_KEYS_def)
  qed
  from picked [OF gone(1)] picked [OF gone(2)] obtain px py
    where p: "pick APPROVAL_PROJECTED_KEYS xs = Some px" "pick APPROVAL_PROJECTED_KEYS ys = Some py" by auto
  with proj ab have "sorted_json (JObj px) = sorted_json (JObj py)" by (simp add: approval_projection_def)
  note l = sorted_members_lookup [OF this]
  have "map_option sorted_json (map_of xs k) = map_option sorted_json (map_of ys k)" for k
  proof (cases "k \<in> set APPROVAL_PROJECTED_KEYS")
    case True
    with l [of k] pick_lookup(1) [OF p(1), of k] pick_lookup(1) [OF p(2), of k] show ?thesis by simp
  next
    case False
    show ?thesis
    proof (cases "k = ''actionDigest''")
      case True
      with digest ab show ?thesis by (simp add: approval_member_def)
    next
      case other: False
      with False have "k \<notin> set APPROVAL_KEYS" by (auto simp: compensation_keys)
      with gone(1) [of k] gone(2) [of k] show ?thesis by simp
    qed
  qed
  then have "sorted_json (JObj xs) = sorted_json (JObj ys)" by (rule sorted_objects_same [OF uniq])
  with ab show ?thesis by (simp add: same_at_def)
qed


lemma validated_same:
  assumes va: "validateGovernedCompensationAuthorization hash parse_date now va = Inr a"
    and vb: "validateGovernedCompensationAuthorization hash parse_date now' vb = Inr b"
    and uniq: "unique_keys a" "unique_keys b" and digest: "map_of a ''actionDigest'' = map_of b ''actionDigest''"
    and decision: "map_of a ''decisionEffect'' = Some (JStr d)" and "inj hash"
  shows "canonical (JObj a) = canonical (JObj b)"
proof -
  note binds = digest_binds [OF validated(6) [OF va] validated(6) [OF vb] digest \<open>inj hash\<close>]
  note projected = binds(2)
  have d: "map_of b ''decisionEffect'' = Some (JStr d)"
    using projected [of "''decisionEffect''"] decision by (auto simp: PROJECTED_KEYS_def intro: same_text)
  have "same_at a b ''forwardReceipt''"
    by (rule hashed_same [OF validated(4) [OF va] validated(4) [OF vb] projected \<open>inj hash\<close>]) (simp add: PROJECTED_KEYS_def)
  moreover have "same_at a b ''compensationRequest''"
    by (rule hashed_same [OF validated(5) [OF va] validated(5) [OF vb] projected \<open>inj hash\<close>]) (simp add: PROJECTED_KEYS_def)
  moreover have "same_at a b ''approvalBinding''"
  proof (cases "d = ''allow''")
    case True
    with validated(9) [OF va] validated(9) [OF vb] decision d show ?thesis by (simp add: same_at_def)
  next
    case False
    have "Some d \<in> Some ` set DECISIONS"
      using validated(3) [OF va] decision by (auto simp: malformedAuthorization_def)
    with False validated(7) [OF va] decision have "d = ''require_approval''" by (auto simp: DECISIONS_def)
    with validated(10) [OF va] validated(10) [OF vb] decision d digest show ?thesis
      by (intro approvals_same [OF _ _ uniq binds(3)]) auto
  qed
  moreover have "same_at a b ''actionDigest''" using digest by (simp add: same_at_def)
  ultimately have known: "same_at a b k" if "k \<in> set AUTHORIZATION_KEYS" for k
    using that binds(1) projected [of k] unfolding validated_keys by blast
  have dist: "distinct AUTHORIZATION_KEYS" by (simp add: compensation_keys)
  have "same_at a b k" for k
  proof (cases "k \<in> set AUTHORIZATION_KEYS")
    case False
    with exact_keys [OF validated(2) [OF va] _ dist, of k] exact_keys [OF validated(2) [OF vb] _ dist, of k] uniq
    show ?thesis by (simp add: same_at_def unique_keys_def)
  qed (rule known)
  with uniq show ?thesis
    unfolding canonical_same by (intro sorted_objects_same) (auto simp: same_at_def unique_keys_def)
qed

section \<open>What is sealed can be validated\<close>

lemma set_member_lookup [simp]: "map_of (set_member k v kvs) k' = (if k' = k then Some v else map_of kvs k')"
proof -
  have "map_of (map (\<lambda>kv. if fst kv = k then (k, v) else kv) kvs) k' =
      (if k' = k \<and> k \<in> fst ` set kvs then Some v else map_of kvs k')"
    by (induction kvs) (auto simp: rev_image_eqI)
  note replaced = this
  show ?thesis
  proof (cases "k \<in> set (map fst kvs)")
    case True
    with replaced show ?thesis by (simp add: set_member_def)
  next
    case False
    then have "map_of kvs k = None" by (simp add: map_of_eq_None_iff)
    with False show ?thesis by (simp add: set_member_def map_add_def split: option.split)
  qed
qed

lemma set_member_keys: "k \<in> set (map fst kvs) \<Longrightarrow> map fst (set_member k v kvs) = map fst kvs"
  by (auto simp: set_member_def comp_def)

lemma set_member_size:
  "fst ` set (set_member k v kvs) = insert k (fst ` set kvs)"
  "length (set_member k v kvs) = (if k \<in> set (map fst kvs) then length kvs else length kvs + 1)"
proof -
  have "fst ` set (set_member k v kvs) = insert k (fst ` set kvs) \<and>
      length (set_member k v kvs) = (if k \<in> set (map fst kvs) then length kvs else length kvs + 1)"
  proof (cases "k \<in> set (map fst kvs)")
    case True
    note same = set_member_keys [OF True, of v]
    from arg_cong [OF same, of set] arg_cong [OF same, of length] True show ?thesis by auto
  qed (auto simp: set_member_def)
  then show "fst ` set (set_member k v kvs) = insert k (fst ` set kvs)"
    "length (set_member k v kvs) = (if k \<in> set (map fst kvs) then length kvs else length kvs + 1)" by simp_all
qed

text \<open>
  What a request to authorize has to be: governed by a policy that allows it, or approved under the
  same policy, and not expired.
\<close>

definition grantable :: "(string \<Rightarrow> time option) \<Rightarrow> time \<Rightarrow> members \<Rightarrow> bool" where
  "grantable parse_date now v \<longleftrightarrow>
     map_of v ''schema'' = Some (JStr ''commander.compensation/v1'') \<and>
     list_all (\<lambda>k. nonEmptyString (map_of v k)) (take 14 STRING_FIELDS) \<and>
     (\<exists>r. map_of v ''compensationRequest'' = Some (JObj r) \<and> map_of r ''originalEffectId'' = map_of v ''originalEffectId'') \<and>
     is_record_value (map_of v ''forwardReceipt'') \<and>
     finiteIsoTime parse_date (map_of v ''authorizationExpiresAt'') \<and> \<not> past parse_date now (map_of v ''authorizationExpiresAt'') \<and>
     (map_of v ''decisionEffect'' = Some (JStr ''allow'') \<and> approval_projection (map_of v ''approvalBinding'') = Some JNull \<or>
      map_of v ''decisionEffect'' = Some (JStr ''require_approval'') \<and>
      (\<exists>kvs. map_of v ''approvalBinding'' = Some (JObj kvs) \<and> hasExactKeys (set_member ''actionDigest'' JNull kvs) APPROVAL_KEYS \<and>
        list_all (\<lambda>k. nonEmptyString (map_of kvs k)) [''approvalId'', ''approverPrincipalId'', ''policySnapshotId''] \<and>
        map_of kvs ''policySnapshotId'' = map_of v ''policySnapshotId'' \<and>
        finiteIsoTime parse_date (map_of kvs ''expiresAt'') \<and> \<not> past parse_date now (map_of kvs ''expiresAt'')))"


lemma digest_cong:
  assumes "map_of a ''schema'' = map_of b ''schema''" and "\<And>k. k \<in> set PROJECTED_KEYS \<Longrightarrow> map_of a k = map_of b k"
    and "approval_projection (map_of a ''approvalBinding'') = approval_projection (map_of b ''approvalBinding'')"
  shows "digestProjection a = digestProjection b"
proof -
  have "pick PROJECTED_KEYS a = pick PROJECTED_KEYS b"
    unfolding pick_def using assms(2) by (metis (no_types, lifting) map_eq_conv)
  with assms(1,3) show ?thesis by (simp add: digestProjection_def)
qed

definition sealed_binding :: "string \<Rightarrow> json option \<Rightarrow> json" where
  "sealed_binding digest v = (case v of Some (JObj approval) \<Rightarrow> JObj (set_member ''actionDigest'' (JStr digest) approval) | _ \<Rightarrow> JNull)"

lemma approval_projection_sealed:
  "approval_projection v = Some p \<Longrightarrow> approval_projection (Some (sealed_binding digest v)) = Some p"
proof (cases "\<exists>kvs. v = Some (JObj kvs)")
  case True
  then obtain kvs where "v = Some (JObj kvs)" by blast
  moreover have "pick APPROVAL_PROJECTED_KEYS (set_member ''actionDigest'' w kvs) = pick APPROVAL_PROJECTED_KEYS kvs" for w
    by (simp add: pick_def APPROVAL_PROJECTED_KEYS_def)
  ultimately show "approval_projection v = Some p \<Longrightarrow> ?thesis"
    by (simp add: approval_projection_def sealed_binding_def)
qed (auto simp: approval_projection_def sealed_binding_def split: option.splits json.splits if_splits)

lemma sealed:
  assumes run: "sealGovernedCompensationAuthorization hash input = Some a" and uniq: "distinct (map fst input)"
  obtains R Q D where "map_of input ''forwardReceipt'' = Some R" "map_of input ''compensationRequest'' = Some Q"
    "\<And>k. k \<in> set INPUT_KEYS - {''approvalBinding''} \<Longrightarrow> map_of a k = map_of input k"
    "map_of a ''forwardReceiptHash'' = Some (JStr (hash (canonical R)))"
    "map_of a ''requestHash'' = Some (JStr (hash (canonical Q)))"
    "map_of a ''actionDigest'' = Some (JStr (hash (canonical D)))" "digestProjection a = Some D"
    "map_of a ''approvalBinding'' = Some (sealed_binding (hash (canonical D)) (map_of input ''approvalBinding''))"
    "approval_projection (map_of input ''approvalBinding'') \<noteq> None"
    "hasExactKeys a AUTHORIZATION_KEYS"
proof -
  from run have exact: "hasExactKeys input INPUT_KEYS"
    by (auto simp: sealGovernedCompensationAuthorization_def split: if_splits)
  have "distinct INPUT_KEYS" by (simp add: INPUT_KEYS_def)
  note there = exact_keys [OF exact uniq this]
  from run obtain R Q D where RQD: "map_of input ''forwardReceipt'' = Some R" "map_of input ''compensationRequest'' = Some Q"
    "digestProjection (input @ [(''forwardReceiptHash'', JStr (hash (canonical R))), (''requestHash'', JStr (hash (canonical Q)))]) = Some D"
    and a: "a = set_member ''approvalBinding'' (sealed_binding (hash (canonical D)) (map_of input ''approvalBinding'')) input @
      [(''forwardReceiptHash'', JStr (hash (canonical R))), (''requestHash'', JStr (hash (canonical Q))),
       (''actionDigest'', JStr (hash (canonical D)))]"
    by (auto simp: sealGovernedCompensationAuthorization_def canonicalCompensationHash_def Let_def sealed_binding_def
        split: if_splits option.splits)
  have absent: "map_of input ''forwardReceiptHash'' = None" "map_of input ''requestHash'' = None" "map_of input ''actionDigest'' = None"
    unfolding there by (simp_all add: INPUT_KEYS_def)
  have same: "map_of a k = map_of input k" if "k \<in> set INPUT_KEYS - {''approvalBinding''}" for k
  proof -
    from that there [of k] obtain v where "map_of input k = Some v" by blast
    with that show ?thesis by (simp add: a map_add_def)
  qed
  have hashes: "map_of a ''forwardReceiptHash'' = Some (JStr (hash (canonical R)))"
    "map_of a ''requestHash'' = Some (JStr (hash (canonical Q)))" "map_of a ''actionDigest'' = Some (JStr (hash (canonical D)))"
    "map_of a ''approvalBinding'' = Some (sealed_binding (hash (canonical D)) (map_of input ''approvalBinding''))"
    using absent by (simp_all add: a map_add_def)
  let ?b = "input @ [(''forwardReceiptHash'', JStr (hash (canonical R))), (''requestHash'', JStr (hash (canonical Q)))]"
  have b: "map_of ?b k = map_of input k" if "k \<in> set INPUT_KEYS" for k
  proof -
    from that there [of k] obtain v where "map_of input k = Some v" by blast
    with that show ?thesis by (simp add: map_add_def)
  qed
  have b_approval: "map_of ?b ''approvalBinding'' = map_of input ''approvalBinding''" by (rule b) (simp add: INPUT_KEYS_def)
  with RQD(3) obtain p where p: "approval_projection (map_of input ''approvalBinding'') = Some p"
    by (auto simp: digestProjection_def split: option.splits)
  have "digestProjection a = digestProjection ?b"
  proof (rule digest_cong)
    show "map_of a ''schema'' = map_of ?b ''schema''" using same b by (simp add: INPUT_KEYS_def)
    show "map_of a k = map_of ?b k" if "k \<in> set PROJECTED_KEYS" for k
    proof (cases "k \<in> {''forwardReceiptHash'', ''requestHash''}")
      case True
      then show ?thesis using hashes absent by (auto simp: map_add_def)
    next
      case False
      with that have "k \<in> set INPUT_KEYS - {''approvalBinding''}" by (auto simp: compensation_keys)
      with same b show ?thesis by simp
    qed
    show "approval_projection (map_of a ''approvalBinding'') = approval_projection (map_of ?b ''approvalBinding'')"
      unfolding b_approval hashes(4) p by (rule approval_projection_sealed [OF p])
  qed
  moreover have "hasExactKeys a AUTHORIZATION_KEYS"
  proof -
    have "map fst (set_member ''approvalBinding'' w input) = map fst input" for w
      using there [of "''approvalBinding''"] by (intro set_member_keys) (simp add: map_of_eq_None_iff INPUT_KEYS_def)
    then have keys: "map fst a = map fst input @ [''forwardReceiptHash'', ''requestHash'', ''actionDigest'']"
      by (simp add: a)
    from arg_cong [OF keys, of length] have "length a = length input + 3" by simp
    moreover from arg_cong [OF keys, of set]
    have "fst ` set a = fst ` set input \<union> {''forwardReceiptHash'', ''requestHash'', ''actionDigest''}" by simp
    ultimately show ?thesis
      using exact unfolding has_exact_keys AUTHORIZATION_KEYS_def by auto
  qed
  ultimately show thesis
    using that RQD same hashes p by simp
qed


lemma nonEmptyString_hash: "trim (hash x) \<noteq> [] \<Longrightarrow> nonEmptyString (Some (JStr (hash x)))"
  by (simp add: nonEmptyString_def)

lemma sealed_is_valid:
  assumes run: "sealGovernedCompensationAuthorization hash input = Some a" and uniq: "distinct (map fst input)"
    and hash: "\<And>s. trim (hash s) \<noteq> []" and decision: "map_of input ''decisionEffect'' = Some (JStr d)"
  shows "validateGovernedCompensationAuthorization hash parse_date now (JObj a) = Inr a \<longleftrightarrow> grantable parse_date now input"
proof -
  from sealed [OF run uniq] obtain R Q D where RQ: "map_of input ''forwardReceipt'' = Some R"
      "map_of input ''compensationRequest'' = Some Q"
    and same: "\<And>k. k \<in> set INPUT_KEYS - {''approvalBinding''} \<Longrightarrow> map_of a k = map_of input k"
    and hashes: "map_of a ''forwardReceiptHash'' = Some (JStr (hash (canonical R)))"
      "map_of a ''requestHash'' = Some (JStr (hash (canonical Q)))"
      "map_of a ''actionDigest'' = Some (JStr (hash (canonical D)))" "digestProjection a = Some D"
    and binding: "map_of a ''approvalBinding'' = Some (sealed_binding (hash (canonical D)) (map_of input ''approvalBinding''))"
      "approval_projection (map_of input ''approvalBinding'') \<noteq> None"
    and exact: "hasExactKeys a AUTHORIZATION_KEYS" by metis
  have [simp]: "map_of a ''schema'' = map_of input ''schema''" "map_of a ''originalEffectId'' = map_of input ''originalEffectId''"
    "map_of a ''compensationRequest'' = Some Q" "map_of a ''forwardReceipt'' = Some R"
    "map_of a ''decisionEffect'' = Some (JStr d)"
    "map_of a ''authorizationExpiresAt'' = map_of input ''authorizationExpiresAt''"
    "map_of a ''policySnapshotId'' = map_of input ''policySnapshotId''"
    using same RQ decision by (simp_all add: INPUT_KEYS_def)
  have strings: "list_ex (\<lambda>k. \<not> nonEmptyString (map_of a k)) STRING_FIELDS \<longleftrightarrow>
      \<not> list_all (\<lambda>k. nonEmptyString (map_of input k)) (take 14 STRING_FIELDS)"
  proof -
    define named where "named = take 14 STRING_FIELDS"
    have fields: "STRING_FIELDS = named @ [''forwardReceiptHash'', ''requestHash'', ''actionDigest'']"
      by (simp add: named_def STRING_FIELDS_def)
    have "map_of a k = map_of input k" if "k \<in> set named" for k
      using that by (intro same) (auto simp: named_def compensation_keys)
    then have "list_all (\<lambda>k. nonEmptyString (map_of a k)) named \<longleftrightarrow> list_all (\<lambda>k. nonEmptyString (map_of input k)) named"
      by (simp add: list_all_iff)
    then show ?thesis
      unfolding named_def [symmetric] by (simp add: fields hashes(1-3) nonEmptyString_hash hash list_ex_iff list_all_iff) blast
  qed
  have original: "(case map_of a ''compensationRequest'' of Some (JObj r) \<Rightarrow> map_of r ''originalEffectId'' | _ \<Rightarrow> None) =
      map_of a ''originalEffectId'' \<and> is_record_value (map_of a ''compensationRequest'') \<longleftrightarrow>
      (\<exists>r. map_of input ''compensationRequest'' = Some (JObj r) \<and> map_of r ''originalEffectId'' = map_of input ''originalEffectId'')"
    using RQ by (auto simp: is_record_value_def split: json.splits)
  have texts: "text_is (canonicalCompensationHash hash (Some R)) (map_of a ''forwardReceiptHash'')"
    "text_is (canonicalCompensationHash hash (Some Q)) (map_of a ''requestHash'')"
    "text_is (canonicalCompensationHash hash (digestProjection a)) (map_of a ''actionDigest'')"
    by (simp_all add: text_is_iff hashes)
  have valid: "validateGovernedCompensationAuthorization hash parse_date now (JObj a) = Inr a \<longleftrightarrow>
      map_of input ''schema'' = Some (JStr ''commander.compensation/v1'') \<and>
      list_all (\<lambda>k. nonEmptyString (map_of input k)) (take 14 STRING_FIELDS) \<and>
      (\<exists>r. map_of input ''compensationRequest'' = Some (JObj r) \<and> map_of r ''originalEffectId'' = map_of input ''originalEffectId'') \<and>
      is_record_value (map_of input ''forwardReceipt'') \<and> 
      finiteIsoTime parse_date (map_of input ''authorizationExpiresAt'') \<and> \<not> past parse_date now (map_of input ''authorizationExpiresAt'') \<and>
      (d = ''allow'' \<and> map_of a ''approvalBinding'' = Some JNull \<or>
       d = ''require_approval'' \<and> validApprovalShape parse_date (map_of a ''approvalBinding'') \<and>
         approval_member a ''policySnapshotId'' = map_of a ''policySnapshotId'' \<and>
         approval_member a ''actionDigest'' = map_of a ''actionDigest'' \<and>
         \<not> past parse_date now (approval_member a ''expiresAt''))"
    unfolding original [symmetric]
    using exact texts RQ(1)
    by (simp add: validateGovernedCompensationAuthorization_def Let_def malformedAuthorization_def strings DECISIONS_def)
      (auto simp: validApprovalShape_def)
  have keys: "hasExactKeys (set_member k v kvs) ks \<longleftrightarrow> hasExactKeys (set_member k JNull kvs) ks" for k v kvs ks
    by (simp add: has_exact_keys set_member_size)
  show ?thesis
  proof (cases "\<exists>kvs. map_of input ''approvalBinding'' = Some (JObj kvs)")
    case True
    then obtain kvs where kvs: "map_of input ''approvalBinding'' = Some (JObj kvs)" by blast
    have "nonEmptyString (Some (JStr (hash (canonical D))))" by (simp add: nonEmptyString_def hash)
    then show ?thesis
      using kvs binding decision keys [of "''actionDigest''" "JStr (hash (canonical D))" kvs APPROVAL_KEYS] hashes(3)
      unfolding valid grantable_def
      by (auto simp: sealed_binding_def validApprovalShape_def approval_member_def approval_projection_def)
  next
    case False
    then have "map_of a ''approvalBinding'' = Some JNull" "approval_projection (map_of input ''approvalBinding'') = Some JNull"
      using binding by (auto simp: sealed_binding_def approval_projection_def split: option.splits json.splits if_splits)
    with False decision show ?thesis
      unfolding valid grantable_def by (auto simp: validApprovalShape_def)
  qed
qed



text \<open>A request to authorize, with one entry per key.\<close>

definition sample_request :: "json \<Rightarrow> json \<Rightarrow> members" where
  "sample_request decision binding = [(''schema'', JStr ''commander.compensation/v1''), (''authorizationId'', JStr ''a1''),
     (''requestId'', JStr ''q1''), (''tenantId'', JStr ''t1''), (''originalRunId'', JStr ''r1''), (''originalEffectId'', JStr ''e1''),
     (''originalRunStateAtRequest'', JStr ''SUCCEEDED''), (''compensationRunId'', JStr ''r2''), (''compensationStepId'', JStr ''s2''),
     (''compensationEffectId'', JStr ''e2''), (''compensationEffectType'', JStr ''compensate.refund''),
     (''compensationRequest'', JObj [(''originalEffectId'', JStr ''e1'')]), (''idempotencyKey'', JStr ''k1''),
     (''forwardReceipt'', JObj [(''ok'', JBool True)]), (''adapterVersion'', JStr ''v1''), (''policyDecisionId'', JStr ''d1''),
     (''policySnapshotId'', JStr ''p1''), (''decisionEffect'', decision), (''authorizationExpiresAt'', JStr ''9''),
     (''approvalBinding'', binding)]"

definition sample_approval :: members where
  "sample_approval = [(''approvalId'', JStr ''ap''), (''approverPrincipalId'', JStr ''u1''), (''actionDigest'', JStr []),
     (''policySnapshotId'', JStr ''p1''), (''expiresAt'', JStr ''8'')]"

definition sample_date :: "string \<Rightarrow> time option" where
  "sample_date s = (if s = ''9'' then Some 9 else if s = ''8'' then Some 8 else None)"

lemmas sample_simps = sample_request_def sample_approval_def sample_date_def INPUT_KEYS_def PROJECTED_KEYS_def
  APPROVAL_PROJECTED_KEYS_def hasExactKeys_def pick_def digestProjection_def approval_projection_def
  canonicalCompensationHash_def sealGovernedCompensationAuthorization_def

lemma sample_seals:
  "\<exists>a. sealGovernedCompensationAuthorization hash (sample_request decision JNull) = Some a"
  "\<exists>a. sealGovernedCompensationAuthorization hash (sample_request decision (JObj sample_approval)) = Some a"
  by (simp_all add: sample_simps Let_def del: canonical.simps)

lemma sample_grantable:
  "grantable sample_date 7 (sample_request (JStr ''allow'') JNull)"
  "grantable sample_date 7 (rev (sample_request (JStr ''allow'') JNull))"
  "grantable sample_date 7 (sample_request (JStr ''require_approval'') (JObj sample_approval))"
  by (simp_all add: grantable_def sample_request_def sample_approval_def sample_date_def STRING_FIELDS_def APPROVAL_KEYS_def
      nonEmptyString_def finiteIsoTime_def past_def is_record_value_def hasExactKeys_def set_member_def approval_projection_def
      trim_def is_space_def char_code_def)



lemma trim_nonspace: "\<not> is_space c \<Longrightarrow> trim (c # s) \<noteq> []"
  by (simp add: trim_def dropWhile_eq_Nil_conv)

lemma trim_marked: "trim (CHR ''h'' # s) \<noteq> []"
  by (rule trim_nonspace) (simp add: is_space_def char_code_def)

lemma sample_reversed:
  assumes "sealGovernedCompensationAuthorization hash (sample_request decision JNull) = Some a"
    and "sealGovernedCompensationAuthorization hash (rev (sample_request decision JNull)) = Some b"
  shows "map_of a ''actionDigest'' = map_of b ''actionDigest''" and "unique_keys a" and "unique_keys b"
  using assms by (auto simp: sample_simps Let_def unique_keys_def set_member_def simp del: canonical.simps)


text \<open>
  A decision that is an array of one text passes for that text where the fields are checked, by
  \<open>String(value.decisionEffect)\<close>, but is none of the texts the decision is then compared with: a
  denied request, and one that needs an approval and has none, are accepted.
\<close>

lemma array_decisions_escape:
  assumes "d \<in> {''deny'', ''require_approval''}" and "\<And>s. trim (hash s) \<noteq> []"
  shows "\<exists>a. sealGovernedCompensationAuthorization hash (sample_request (JArr [JStr d]) JNull) = Some a \<and>
    validateGovernedCompensationAuthorization hash sample_date 7 (JObj a) = Inr a"
proof -
  let ?input = "sample_request (JArr [JStr d]) JNull"
  have "distinct (map fst ?input)" by (simp add: sample_request_def)
  from sample_seals(1) obtain a where a: "sealGovernedCompensationAuthorization hash ?input = Some a" by blast
  from sealed [OF a \<open>distinct (map fst ?input)\<close>] obtain R Q D where sealed: "map_of ?input ''forwardReceipt'' = Some R" "map_of ?input ''compensationRequest'' = Some Q"
    "\<And>k. k \<in> set INPUT_KEYS - {''approvalBinding''} \<Longrightarrow> map_of a k = map_of ?input k"
    "map_of a ''forwardReceiptHash'' = Some (JStr (hash (canonical R)))"
    "map_of a ''requestHash'' = Some (JStr (hash (canonical Q)))"
    "map_of a ''actionDigest'' = Some (JStr (hash (canonical D)))" "digestProjection a = Some D"
    "map_of a ''approvalBinding'' = Some (sealed_binding (hash (canonical D)) (map_of ?input ''approvalBinding''))"
    "hasExactKeys a AUTHORIZATION_KEYS" by metis
  from sealed(3) have lookups: "map_of a ''schema'' = Some (JStr ''commander.compensation/v1'')" "map_of a ''decisionEffect'' = Some (JArr [JStr d])"
    "map_of a ''originalEffectId'' = Some (JStr ''e1'')" "map_of a ''authorizationExpiresAt'' = Some (JStr ''9'')"
    "map_of a ''forwardReceipt'' = Some R" "map_of a ''compensationRequest'' = Some Q"
    using sealed(1,2) by (simp_all add: sample_request_def INPUT_KEYS_def)
  have RQ: "R = JObj [(''ok'', JBool True)]" "Q = JObj [(''originalEffectId'', JStr ''e1'')]"
    using sealed(1,2) by (simp_all add: sample_request_def)
  have binding: "map_of a ''approvalBinding'' = Some JNull"
    using sealed(8) by (simp add: sealed_binding_def sample_request_def)
  have texts: "\<not> list_ex (\<lambda>k. \<not> nonEmptyString (map_of a k)) STRING_FIELDS"
    using sealed(3) assms(2)
    by (simp add: STRING_FIELDS_def INPUT_KEYS_def sample_request_def sealed(4-6) nonEmptyString_def trim_nonspace is_space_def char_code_def)
  have "validateGovernedCompensationAuthorization hash sample_date 7 (JObj a) = Inr a"
    using assms(1) sealed(9) texts
    by (auto simp: validateGovernedCompensationAuthorization_def malformedAuthorization_def lookups RQ binding text_is_iff
        sealed(4-7) is_record_value_def finiteIsoTime_def past_def sample_date_def DECISIONS_def trim_nonspace is_space_def char_code_def
        simp del: canonical.simps)
  with a show ?thesis by blast
qed

section \<open>Grants\<close>

lemma grant_within_authorization:
  "compensationGrantExpiresAt parse_date expires now ttl = Inr t \<Longrightarrow>
     \<exists>authorized. parse_date expires = Some authorized \<and> t \<le> authorized \<and> t \<le> now + ttl \<and> (now < authorized \<longrightarrow> now < t)"
  by (auto simp: compensationGrantExpiresAt_def split: if_splits option.splits)

end
