(* ===== verification/Compensation_Consumer.thy ===== *)
theory Compensation_Consumer
  imports Ops_Loop Compensation_Claims
begin

text \<open>
  \<open>packages/kernel/src/ops/compensationConsumer.ts\<close>: a batch of claimed compensation work is checked
  against its durable authorization, admitted and executed by the broker, and settled. The outbox, the
  broker, the token provider, the registry and the clock are ports.
\<close>

section \<open>Claimed work\<close>

record comp_authorization =
  coa_id :: string
  coa_tenantId :: string
  coa_originalRunId :: string
  coa_originalEffectId :: string
  coa_compensationEffectType :: string
  coa_adapterVersion :: string
  coa_compensationPatch :: members
  coa_forwardReceiptHash :: string
  coa_policyDecisionId :: string
  coa_policySnapshotId :: string
  coa_decision :: decision_effect
  coa_actionDigest :: string
  coa_expiresAt :: string
  coa_approvalInteractionId :: "string option"
  coa_approvalBinding :: "approval_binding option"

datatype comp_request_state =
  Cs_authorized | Cs_claimed | Cs_completion_unknown | Cs_completed | Cs_confirmed_not_applied | Cs_escalated

record comp_request =
  coq_id :: string
  coq_tenantId :: string
  coq_originalRunId :: string
  coq_originalEffectId :: string
  coq_compensationRunId :: string
  coq_compensationStepId :: string
  coq_adapterVersion :: string
  coq_compensationEffectType :: string
  coq_destination :: string
  coq_compensationPatch :: members
  coq_forwardReceiptHash :: string
  coq_authorizationId :: string
  coq_reconcilePolicy :: reconcile_policy
  coq_state :: comp_request_state
  coq_claimWorkerId :: "string option"
  coq_claimWorkerGeneration :: "int option"
  coq_claimToken :: "string option"
  coq_claimExpiresAt :: "string option"
  coq_compensationEffectId :: "string option"

record comp_work =
  cw_request :: comp_request
  cw_forwardResponse :: members
  cw_lease :: lease_ref
  cw_outboxMessageId :: string
  cw_outboxClaimToken :: string
  cw_authorization :: comp_authorization

datatype comp_disposition = Cd_completed | Cd_confirmed_not_applied | Cd_completion_unknown | Cd_escalated

datatype comp_result = Comp_refused string | Comp_applied comp_disposition

datatype comp_escalation =
    COMPENSATION_ADAPTER_UNREGISTERED
  | COMPENSATION_ADAPTER_VERSION_MISMATCH
  | COMPENSATION_TOKEN_REFUSED
  | COMPENSATION_ADMIT_REJECTED
  | Authorization_refused authorization_error

text \<open>What the outbox is told: by whom, under which claim, and what became of the work.\<close>

record comp_identity =
  ci_workerId :: string
  ci_workerGeneration :: int
  ci_claimSecret :: string

record comp_claim =
  cm_identity :: comp_identity
  cm_tenantId :: string
  cm_requestId :: string
  cm_effectId :: string
  cm_actor :: string
  cm_outboxMessageId :: string
  cm_outboxClaimToken :: string

datatype comp_settlement =
    Finalize_completed json "evidence_record option"
  | Finalize_escalated comp_escalation
  | Park_unknown string string

record comp_evidence_input =
  cei_tenantId :: string
  cei_runId :: string
  cei_effectId :: string
  cei_projectedState :: effect_state
  cei_response :: json
  cei_eventType :: string
  cei_disposition :: string
  cei_claimToken :: string

record comp_unregistered =
  cu_tenantId :: string
  cu_runId :: string
  cu_stepId :: string
  cu_compensationAction :: string
  cu_outboxMessageId :: string

record comp_options =
  co_identity :: comp_identity
  co_topic :: "string option"
  co_limit :: "nat option"
  co_timeoutMs :: "int option"

record 'w comp_ports =
  cp_claimWork :: "comp_identity \<Rightarrow> string \<Rightarrow> nat \<Rightarrow> ('w, thrown, comp_work list) js"
  cp_settle :: "comp_claim \<Rightarrow> comp_settlement \<Rightarrow> ('w, thrown, comp_result) js"
  cp_resolve :: "string \<Rightarrow> string option option"
  cp_token :: "comp_work \<Rightarrow> ('w, thrown, string option) js"
  cp_admit :: "admit_input \<Rightarrow> ('w, thrown, admission_result) js"
  cp_executeAdmitted :: "string \<Rightarrow> int \<Rightarrow> ('w, thrown, execute_result) js"
  cp_terminalEvidence :: "(comp_evidence_input \<Rightarrow> ('w, thrown, evidence_record) js) option"
  cp_onAdapterUnregistered :: "(comp_unregistered \<Rightarrow> ('w, thrown, unit) js) option"
  cp_now :: "'w \<Rightarrow> time"
  cp_hash :: "string \<Rightarrow> string"
  cp_parse_date :: "string \<Rightarrow> time option"

datatype comp_call =
    Work_claimed
  | Token_asked comp_work "thrown + string option"
  | Admission_asked admit_input "thrown + admission_result"
  | Executed string "thrown + execute_result"
  | Settling comp_claim comp_settlement
  | Adapter_reported comp_unregistered
  | Beat
  | Fatal_reported string

section \<open>Checks\<close>

definition KERNEL_COMPENSATION_TOPIC :: string where
  "KERNEL_COMPENSATION_TOPIC = ''commander.kernel.compensation.requested''"

definition mutationRejected :: "string \<Rightarrow> thrown" where
  "mutationRejected reason = coded_error (''compensation mutation rejected: '' @ reason) (''COMPENSATION_'' @ reason)"

definition request_payload :: "comp_work \<Rightarrow> json" where
  "request_payload work = JObj [(''originalEffectId'', JStr (coq_originalEffectId (cw_request work))),
     (''destination'', JStr (coq_destination (cw_request work))), (''forwardResponse'', JObj (cw_forwardResponse work)),
     (''compensationPatch'', JObj (coa_compensationPatch (cw_authorization work)))]"

record comp_execution =
  dx_effectId :: string
  dx_runId :: string
  dx_stepId :: string
  dx_requestPayload :: json
  dx_idempotencyKey :: string

definition durableExecution :: "(string \<Rightarrow> string) \<Rightarrow> comp_work \<Rightarrow> thrown + comp_execution" where
  "durableExecution hash work =
     (let request = cw_request work in
      if \<not> truthy (coq_compensationEffectId request) then Inl (mutationRejected ''CLAIM_EFFECT_ID_MISSING'')
      else if length (coq_destination request) = 0 then Inl (mutationRejected ''DESTINATION_MISSING'')
      else (let effectId = the (coq_compensationEffectId request) in
        Inr \<lparr>dx_effectId = effectId, dx_runId = coq_compensationRunId request, dx_stepId = coq_compensationStepId request,
          dx_requestPayload = request_payload work,
          dx_idempotencyKey = deriveEffectIdempotencyKey hash (coq_tenantId request) (coq_compensationRunId request)
            (coq_compensationStepId request) effectId (request_payload work)\<rparr>))"

text \<open>The value an authorization's digest is taken over.\<close>

definition durable_action :: "comp_work \<Rightarrow> json" where
  "durable_action work = (let authorization = cw_authorization work in
     JObj [(''type'', JStr (coa_compensationEffectType authorization)),
       (''originalEffectId'', JStr (coa_originalEffectId authorization)),
       (''adapterVersion'', JStr (coa_adapterVersion authorization)),
       (''destination'', JStr (coq_destination (cw_request work))),
       (''forwardResponse'', JObj (cw_forwardResponse work)),
       (''compensationPatch'', JObj (coa_compensationPatch authorization))])"

definition validateDurableClaim :: "(string \<Rightarrow> string) \<Rightarrow> (string \<Rightarrow> time option) \<Rightarrow> time \<Rightarrow> comp_work \<Rightarrow> bool" where
  "validateDurableClaim hash parse_date now work \<longleftrightarrow>
     (let authorization = cw_authorization work; request = cw_request work in
      coa_id authorization = coq_authorizationId request \<and> coa_tenantId authorization = coq_tenantId request \<and>
      coa_originalRunId authorization = coq_originalRunId request \<and>
      coa_originalEffectId authorization = coq_originalEffectId request \<and>
      coa_adapterVersion authorization = coq_adapterVersion request \<and>
      coa_compensationEffectType authorization = coq_compensationEffectType request \<and>
      coa_decision authorization \<noteq> D_deny \<and>
      (case parse_date (coa_expiresAt authorization) of Some t \<Rightarrow> now < t | None \<Rightarrow> False) \<and>
      canonicalCompensationHash hash (Some (JObj (cw_forwardResponse work))) = Some (coa_forwardReceiptHash authorization) \<and>
      canonicalCompensationHash hash (Some (durable_action work)) = Some (coa_actionDigest authorization))"

definition requireDisposition :: "comp_result \<Rightarrow> comp_disposition \<Rightarrow> (('c, 'w, unit) ops)" where
  "requireDisposition result disposition = (case result of
     Comp_refused reason \<Rightarrow> js_throw (mutationRejected reason)
   | Comp_applied d \<Rightarrow>
       if d \<noteq> disposition
       then js_throw (coded_error ''compensation mutation returned an invalid disposition'' ''COMPENSATION_DISPOSITION_INVALID'')
       else js_return ())"

definition uncertaintyCode :: "thrown \<Rightarrow> string option" where
  "uncertaintyCode error =
     (if thrown_code error \<in> {Some ''COMPLETION_UNKNOWN'', Some ''COMPLETION_UNCONFIRMED''} then thrown_code error else None)"

definition claim_bound :: "comp_identity \<Rightarrow> comp_work \<Rightarrow> bool" where
  "claim_bound identity work \<longleftrightarrow>
     (let lease = cw_lease work in
      coq_tenantId (cw_request work) = coa_tenantId (cw_authorization work) \<and> cw_outboxClaimToken work \<noteq> [] \<and>
      lr_workerId lease = ci_workerId identity \<and> lr_workerGeneration lease = Some (ci_workerGeneration identity) \<and>
      lr_token lease \<noteq> [] \<and> is_safe_integer (lr_fencingEpoch lease) \<and> 0 \<le> lr_fencingEpoch lease)"

definition assertClaimBinding :: "comp_identity \<Rightarrow> comp_work \<Rightarrow> ('c, 'w, unit) ops" where
  "assertClaimBinding identity work =
     (if claim_bound identity work then js_return ()
      else js_throw (coded_error ''governed compensation claim binding is invalid'' ''COMPENSATION_WORKER_FENCED''))"

section \<open>One piece of work\<close>

definition claim_of :: "comp_identity \<Rightarrow> comp_work \<Rightarrow> string \<Rightarrow> comp_claim" where
  "claim_of identity work effectId =
     \<lparr>cm_identity = identity, cm_tenantId = coq_tenantId (cw_request work), cm_requestId = coq_id (cw_request work),
      cm_effectId = effectId, cm_actor = ci_workerId identity, cm_outboxMessageId = cw_outboxMessageId work,
      cm_outboxClaimToken = cw_outboxClaimToken work\<rparr>"

definition settle :: "'w comp_ports \<Rightarrow> comp_claim \<Rightarrow> comp_settlement \<Rightarrow> comp_disposition \<Rightarrow> (comp_call, 'w, unit) ops" where
  "settle ports claim settlement disposition =
     js_bind (port_call [Settling claim settlement] (cp_settle ports claim settlement))
       (\<lambda>result. requireDisposition result disposition)"

datatype comp_count = Work_succeeded nat | Work_handed_off nat | Work_escalated

definition escalate :: "'w comp_ports \<Rightarrow> comp_identity \<Rightarrow> comp_work \<Rightarrow> comp_escalation \<Rightarrow> (comp_call, 'w, comp_count) ops" where
  "escalate ports identity work reason =
     (if \<not> truthy (coq_compensationEffectId (cw_request work)) then js_throw (mutationRejected ''CLAIM_EFFECT_ID_MISSING'')
      else js_bind (settle ports (claim_of identity work (the (coq_compensationEffectId (cw_request work))))
        (Finalize_escalated reason) Cd_escalated) (\<lambda>_. js_return Work_escalated))"

definition admit_input_of :: "comp_identity \<Rightarrow> comp_work \<Rightarrow> comp_execution \<Rightarrow> string \<Rightarrow> admit_input" where
  "admit_input_of identity work planned token =
     \<lparr>ai_effectId = dx_effectId planned, ai_token = token,
      ai_type = coa_compensationEffectType (cw_authorization work), ai_request = dx_requestPayload planned,
      ai_idempotencyKey = dx_idempotencyKey planned, ai_lease = cw_lease work, ai_actor = ci_workerId identity,
      ai_workloadBinding = Some \<lparr>wb_tenantId = coa_tenantId (cw_authorization work), wb_runId = dx_runId planned,
        wb_stepId = dx_stepId planned, wb_workloadId = Some (ci_workerId identity)\<rparr>,
      ai_compensationClaim = Some \<lparr>cc_requestId = coq_id (cw_request work),
        cc_requestClaimToken = nullish (coq_claimToken (cw_request work)) [],
        cc_outboxMessageId = cw_outboxMessageId work, cc_outboxClaimToken = cw_outboxClaimToken work\<rparr>\<rparr>"

text \<open>\<open>!response\<close>\<close>

definition falsy_response :: "json option \<Rightarrow> bool" where
  "falsy_response v \<longleftrightarrow> v \<in> {None, Some JNull, Some (JBool False), Some (JNum 0), Some (JStr [])}"

definition evidence_input_of :: "comp_work \<Rightarrow> string \<Rightarrow> json \<Rightarrow> comp_evidence_input" where
  "evidence_input_of work effectId response =
     \<lparr>cei_tenantId = coq_tenantId (cw_request work), cei_runId = coq_compensationRunId (cw_request work),
      cei_effectId = effectId, cei_projectedState = E_COMPLETED, cei_response = response,
      cei_eventType = ''compensation.completed'', cei_disposition = ''COMPLETED'',
      cei_claimToken = cw_outboxClaimToken work\<rparr>"

definition complete_work :: "'w comp_ports \<Rightarrow> comp_identity \<Rightarrow> comp_work \<Rightarrow> string \<Rightarrow> nat \<Rightarrow> execute_result \<Rightarrow>
    (comp_call, 'w, comp_count) ops" where
  "complete_work ports identity work effectId replayed execution =
     (if xr_effectId execution \<noteq> effectId \<or> falsy_response (xr_response execution)
      then js_throw (coded_error ''compensation execution receipt is invalid'' ''COMPENSATION_EXECUTION_RECEIPT_INVALID'')
      else (let response = the (xr_response execution) in
        js_bind (case cp_terminalEvidence ports of
            None \<Rightarrow> js_return None
          | Some build \<Rightarrow> js_bind (port_call [] (build (evidence_input_of work effectId response))) (\<lambda>e. js_return (Some e)))
        (\<lambda>evidence. js_bind (settle ports (claim_of identity work effectId) (Finalize_completed response evidence) Cd_completed)
        (\<lambda>_. js_return (Work_succeeded (replayed + of_bool (xr_replayed execution)))))))"

definition execute_work :: "'w comp_ports \<Rightarrow> comp_options \<Rightarrow> comp_work \<Rightarrow> string \<Rightarrow> nat \<Rightarrow> (comp_call, 'w, comp_count) ops" where
  "execute_work ports opts work effectId replayed =
     js_bind (js_try (observed_call (\<lambda>r. [Executed effectId r]) (cp_executeAdmitted ports effectId (nullish (co_timeoutMs opts) 30000))))
     (\<lambda>r. case r of
        Inl error \<Rightarrow> (case uncertaintyCode error of
            None \<Rightarrow> js_throw error
          | Some code \<Rightarrow>
              js_bind (settle ports (claim_of (co_identity opts) work effectId)
                (Park_unknown code ''Compensation completion is uncertain'') Cd_completion_unknown)
              (\<lambda>_. js_return (Work_handed_off replayed)))
      | Inr execution \<Rightarrow> complete_work ports (co_identity opts) work effectId replayed execution)"

definition ask_admission :: "'w comp_ports \<Rightarrow> comp_options \<Rightarrow> comp_work \<Rightarrow> comp_execution \<Rightarrow> string \<Rightarrow> (comp_call, 'w, comp_count) ops" where
  "ask_admission ports opts work planned token =
     (let input = admit_input_of (co_identity opts) work planned token in
      js_bind (observed_call (\<lambda>r. [Admission_asked input r]) (cp_admit ports input)) (\<lambda>admission.
      if \<not> ar_admitted admission \<or> ar_effectId admission \<noteq> dx_effectId planned
      then escalate ports (co_identity opts) work COMPENSATION_ADMIT_REJECTED
      else execute_work ports opts work (dx_effectId planned) (of_bool (ar_replayed admission))))"

definition admit_work :: "'w comp_ports \<Rightarrow> comp_options \<Rightarrow> comp_work \<Rightarrow> comp_execution \<Rightarrow> (comp_call, 'w, comp_count) ops" where
  "admit_work ports opts work planned =
     js_bind (observed_call (\<lambda>r. [Token_asked work r]) (cp_token ports work)) (\<lambda>token.
     if \<not> truthy token then escalate ports (co_identity opts) work COMPENSATION_TOKEN_REFUSED
     else ask_admission ports opts work planned (the token))"

definition unregistered_work :: "'w comp_ports \<Rightarrow> comp_options \<Rightarrow> comp_work \<Rightarrow> comp_execution \<Rightarrow> (comp_call, 'w, comp_count) ops" where
  "unregistered_work ports opts work planned =
     (let info = \<lparr>cu_tenantId = coa_tenantId (cw_authorization work), cu_runId = dx_runId planned,
            cu_stepId = dx_stepId planned, cu_compensationAction = coa_compensationEffectType (cw_authorization work),
            cu_outboxMessageId = cw_outboxMessageId work\<rparr> in
      js_bind (case cp_onAdapterUnregistered ports of
          None \<Rightarrow> js_return () | Some report \<Rightarrow> port_call [Adapter_reported info] (report info))
      (\<lambda>_. escalate ports (co_identity opts) work COMPENSATION_ADAPTER_UNREGISTERED))"

definition consume_work :: "'w comp_ports \<Rightarrow> comp_options \<Rightarrow> comp_work \<Rightarrow> (comp_call, 'w, comp_count) ops" where
  "consume_work ports opts work =
     js_bind (assertClaimBinding (co_identity opts) work) (\<lambda>_.
     js_bind (js_read (\<lambda>w. cp_now ports (dw_outside w))) (\<lambda>now.
     if \<not> validateDurableClaim (cp_hash ports) (cp_parse_date ports) now work
     then escalate ports (co_identity opts) work (Authorization_refused COMPENSATION_ACTION_DIGEST_MISMATCH)
     else case durableExecution (cp_hash ports) work of
       Inl error \<Rightarrow> js_throw error
     | Inr planned \<Rightarrow>
         (case cp_resolve ports (coa_compensationEffectType (cw_authorization work)) of
            None \<Rightarrow> unregistered_work ports opts work planned
          | Some version \<Rightarrow>
              if version \<noteq> Some (coa_adapterVersion (cw_authorization work))
              then escalate ports (co_identity opts) work COMPENSATION_ADAPTER_VERSION_MISMATCH
              else admit_work ports opts work planned)))"

section \<open>A batch\<close>

record comp_stats =
  ct_consumed :: nat
  ct_succeeded :: nat
  ct_handedOff :: nat
  ct_escalated :: nat
  ct_replayed :: nat

definition comp_counted :: "comp_count \<Rightarrow> comp_stats \<Rightarrow> comp_stats" where
  "comp_counted c stats = (case c of
     Work_succeeded n \<Rightarrow> stats\<lparr>ct_succeeded := ct_succeeded stats + 1, ct_replayed := ct_replayed stats + n\<rparr>
   | Work_handed_off n \<Rightarrow> stats\<lparr>ct_handedOff := ct_handedOff stats + 1, ct_replayed := ct_replayed stats + n\<rparr>
   | Work_escalated \<Rightarrow> stats\<lparr>ct_escalated := ct_escalated stats + 1\<rparr>)"

fun consume_works :: "'w comp_ports \<Rightarrow> comp_options \<Rightarrow> comp_work list \<Rightarrow> comp_stats \<Rightarrow> (comp_call, 'w, comp_stats) ops" where
  "consume_works ports opts [] stats = js_return stats"
| "consume_works ports opts (work # works) stats =
     js_bind (consume_work ports opts work) (\<lambda>c. consume_works ports opts works (comp_counted c stats))"

definition consumeCompensationBatch :: "'w comp_ports \<Rightarrow> comp_options \<Rightarrow> (comp_call, 'w, comp_stats) ops" where
  "consumeCompensationBatch ports opts =
     js_bind (port_call [Work_claimed] (cp_claimWork ports (co_identity opts)
       (nullish (co_topic opts) KERNEL_COMPENSATION_TOPIC) (nullish (co_limit opts) 50))) (\<lambda>works.
     consume_works ports opts works
       \<lparr>ct_consumed = length works, ct_succeeded = 0, ct_handedOff = 0, ct_escalated = 0, ct_replayed = 0\<rparr>)"

section \<open>Payloads\<close>

definition normalizeCompensationPayload :: "(string \<Rightarrow> string) \<Rightarrow> (string \<Rightarrow> time option) \<Rightarrow> time \<Rightarrow> members \<Rightarrow> members option" where
  "normalizeCompensationPayload hash parse_date now raw =
     (case validateGovernedCompensationAuthorization hash parse_date now (JObj raw) of Inr a \<Rightarrow> Some a | Inl _ \<Rightarrow> None)"

text \<open>An object literal of the fields of another; \<open>None\<close> is \<open>undefined\<close>.\<close>

definition envelopeFromCompensationPayload :: "members \<Rightarrow> (string \<times> json option) list" where
  "envelopeFromCompensationPayload a =
     [(''effect_id'', map_of a ''compensationEffectId''), (''tenant_id'', map_of a ''tenantId''),
      (''run_id'', map_of a ''compensationRunId''), (''step_id'', map_of a ''compensationStepId''),
      (''action'', map_of a ''compensationEffectType''), (''payload'', map_of a ''compensationRequest''),
      (''idempotency_key'', map_of a ''idempotencyKey''), (''status'', Some (JStr ''admitted''))]"

section \<open>What is done for a piece of work\<close>

definition settles_execution :: "comp_claim \<Rightarrow> thrown + execute_result \<Rightarrow> comp_settlement \<Rightarrow> bool" where
  "settles_execution claim r settlement \<longleftrightarrow> (case (r, settlement) of
     (Inr execution, Finalize_completed response evidence) \<Rightarrow>
       xr_effectId execution = cm_effectId claim \<and> xr_response execution = Some response
   | (Inl error, Park_unknown code message) \<Rightarrow> uncertaintyCode error = Some code
   | _ \<Rightarrow> False)"

definition work_claim :: "comp_options \<Rightarrow> comp_work \<Rightarrow> comp_claim" where
  "work_claim opts work = claim_of (co_identity opts) work (the (coq_compensationEffectId (cw_request work)))"

definition escalates :: "comp_options \<Rightarrow> comp_work \<Rightarrow> comp_call list \<Rightarrow> bool" where
  "escalates opts work calls \<longleftrightarrow> (\<exists>reason. calls = [Settling (work_claim opts work) (Finalize_escalated reason)])"

text \<open>The work is of this worker, as it was authorized, and its adapter is there in the authorized version.\<close>

definition governed_work :: "'w comp_ports \<Rightarrow> comp_options \<Rightarrow> comp_work \<Rightarrow> comp_execution \<Rightarrow> bool" where
  "governed_work ports opts work planned \<longleftrightarrow> claim_bound (co_identity opts) work \<and>
     (\<exists>now. validateDurableClaim (cp_hash ports) (cp_parse_date ports) now work) \<and>
     durableExecution (cp_hash ports) work = Inr planned \<and>
     cp_resolve ports (coa_compensationEffectType (cw_authorization work)) = Some (Some (coa_adapterVersion (cw_authorization work)))"

definition settle_calls :: "comp_claim \<Rightarrow> (comp_settlement \<Rightarrow> bool) \<Rightarrow> comp_call list \<Rightarrow> bool" where
  "settle_calls claim P calls \<longleftrightarrow> (\<exists>settlement. calls = [Settling claim settlement] \<and> P settlement)"

lemma settle_adds:
  "P settlement \<Longrightarrow> adds (settle ports claim settlement disposition) (\<lambda>_. settle_calls claim P) (settle_calls claim P)"
  unfolding settle_def
  by (rule adds_bind [OF adds_call])
    (auto simp: requireDisposition_def settle_calls_def split: comp_result.split intro!: adds_return adds_throw)

lemma adds_then_return: "adds m (\<lambda>_. Q) E \<Longrightarrow> (\<And>calls. Q calls \<Longrightarrow> R x calls) \<Longrightarrow> (\<And>calls. E calls \<Longrightarrow> F calls) \<Longrightarrow>
    adds (js_bind m (\<lambda>_. js_return x)) R F"
  by (erule adds_bind) (auto intro: adds_return)

lemma escalate_adds:
  "adds (escalate ports (co_identity opts) work reason) (\<lambda>c calls. c = Work_escalated \<and> escalates opts work calls)
     (\<lambda>calls. calls = [] \<or> escalates opts work calls)"
  unfolding escalate_def
  by (auto intro!: adds_throw adds_then_return [OF settle_adds [where P = "\<lambda>s. s = Finalize_escalated reason"]]
      simp: escalates_def settle_calls_def work_claim_def)

lemma complete_adds:
  assumes "work_claim opts work = claim_of (co_identity opts) work effectId"
  shows "adds (complete_work ports (co_identity opts) work effectId replayed execution)
    (\<lambda>c calls. (\<exists>n. c = Work_succeeded n) \<and> settle_calls (work_claim opts work) (settles_execution (work_claim opts work) (Inr execution)) calls)
    (\<lambda>calls. calls = [] \<or> settle_calls (work_claim opts work) (settles_execution (work_claim opts work) (Inr execution)) calls)"
proof (cases "xr_effectId execution \<noteq> effectId \<or> falsy_response (xr_response execution)")
  case True
  then show ?thesis by (simp add: complete_work_def adds_throw)
next
  case False
  let ?claim = "claim_of (co_identity opts) work effectId"
  have settles: "settles_execution ?claim (Inr execution) (Finalize_completed (the (xr_response execution)) ev)" for ev
    using False by (auto simp: settles_execution_def claim_of_def falsy_response_def)
  have "adds (case cp_terminalEvidence ports of None \<Rightarrow> js_return None
      | Some build \<Rightarrow> js_bind (port_call [] (build (evidence_input_of work effectId (the (xr_response execution))))) (\<lambda>e. js_return (Some e)))
      (\<lambda>_ calls. calls = []) (\<lambda>calls. calls = [])"
    by (auto split: option.split intro!: adds_return adds_bind [OF adds_call])
  then show ?thesis
    using False unfolding complete_work_def assms
    by (auto simp: Let_def intro!: adds_bind [where R = "\<lambda>_ calls. calls = []" and F = "\<lambda>calls. calls = []"]
        adds_then_return [OF settle_adds [where P = "settles_execution ?claim (Inr execution)", OF settles]])
qed

definition executed_calls :: "comp_options \<Rightarrow> comp_work \<Rightarrow> string \<Rightarrow> comp_call list \<Rightarrow> bool" where
  "executed_calls opts work effectId calls \<longleftrightarrow> (\<exists>r. calls = [Executed effectId r] \<or>
     (\<exists>settlement. calls = [Executed effectId r, Settling (work_claim opts work) settlement] \<and>
        settles_execution (work_claim opts work) r settlement))"

text \<open>The settlement a count stands for, and the count a sequence of calls ends with.\<close>

fun count_of :: "comp_settlement \<Rightarrow> comp_count \<Rightarrow> bool" where
  "count_of (Finalize_completed _ _) c \<longleftrightarrow> (\<exists>n. c = Work_succeeded n)"
| "count_of (Park_unknown _ _) c \<longleftrightarrow> (\<exists>n. c = Work_handed_off n)"
| "count_of (Finalize_escalated _) c \<longleftrightarrow> c = Work_escalated"

definition settlements :: "comp_call list \<Rightarrow> comp_settlement list" where
  "settlements calls = List.map_filter (\<lambda>call. case call of Settling _ settlement \<Rightarrow> Some settlement | _ \<Rightarrow> None) calls"

lemma settlements_simps [simp]:
  "settlements [] = []" "settlements (xs @ ys) = settlements xs @ settlements ys"
  "settlements (Settling claim settlement # calls) = settlement # settlements calls"
  "settlements (Token_asked work token # calls) = settlements calls"
  "settlements (Admission_asked input admission # calls) = settlements calls"
  "settlements (Executed e r # calls) = settlements calls" "settlements (Adapter_reported info # calls) = settlements calls"
  "settlements (Work_claimed # calls) = settlements calls" "settlements (Beat # calls) = settlements calls"
  "settlements (Fatal_reported code # calls) = settlements calls"
  by (simp_all add: settlements_def map_filter_def)

definition counts_as :: "comp_count \<Rightarrow> comp_call list \<Rightarrow> bool" where
  "counts_as c calls \<longleftrightarrow> (\<exists>settlement. settlements calls = [settlement] \<and> count_of settlement c)"

lemma settles_execution_iff:
  "settles_execution claim (Inr execution) settlement \<longleftrightarrow> (\<exists>response evidence. settlement = Finalize_completed response evidence \<and>
     xr_effectId execution = cm_effectId claim \<and> xr_response execution = Some response)"
  "settles_execution claim (Inl error) settlement \<longleftrightarrow>
     (\<exists>code message. settlement = Park_unknown code message \<and> uncertaintyCode error = Some code)"
  by (auto simp: settles_execution_def split: comp_settlement.split)

lemma execute_adds:
  assumes "work_claim opts work = claim_of (co_identity opts) work effectId"
  shows "adds (execute_work ports opts work effectId replayed)
    (\<lambda>c calls. executed_calls opts work effectId calls \<and> counts_as c calls) (executed_calls opts work effectId)"
  unfolding execute_work_def
proof (rule adds_bind [OF adds_try_observed])
  fix r :: "thrown + execute_result" and calls assume calls: "calls = [Executed effectId r]"
  let ?claim = "work_claim opts work"
  have none: "executed_calls opts work effectId [Executed effectId r]" by (auto simp: executed_calls_def)
  show "adds (case r of Inl error \<Rightarrow> (case uncertaintyCode error of None \<Rightarrow> js_throw error
        | Some code \<Rightarrow> js_bind (settle ports (claim_of (co_identity opts) work effectId)
            (Park_unknown code ''Compensation completion is uncertain'') Cd_completion_unknown) (\<lambda>_. js_return (Work_handed_off replayed)))
      | Inr execution \<Rightarrow> complete_work ports (co_identity opts) work effectId replayed execution)
    (\<lambda>c calls'. executed_calls opts work effectId (calls @ calls') \<and> counts_as c (calls @ calls'))
    (\<lambda>calls'. executed_calls opts work effectId (calls @ calls'))"
  proof (cases r)
    case (Inr execution)
    have "executed_calls opts work effectId (calls @ calls') \<and> counts_as (Work_succeeded n) (calls @ calls')"
      if "settle_calls ?claim (settles_execution ?claim (Inr execution)) calls'" for calls' n
      using that calls Inr
      by (auto simp: settle_calls_def executed_calls_def counts_as_def settles_execution_iff)
    then show ?thesis
      unfolding Inr sum.case using none Inr
      by (intro adds_weaken2 [OF complete_adds [OF assms]]) (auto simp: calls)
  next
    case (Inl error)
    show ?thesis
    proof (cases "uncertaintyCode error")
      case None
      with Inl none show ?thesis by (simp add: adds_throw calls)
    next
      case (Some code)
      let ?s = "Park_unknown code ''Compensation completion is uncertain''"
      have "executed_calls opts work effectId (calls @ calls') \<and> counts_as (Work_handed_off n) (calls @ calls')"
        if "settle_calls ?claim (\<lambda>s. s = ?s) calls'" for calls' n
        using that calls Inl Some by (auto simp: settle_calls_def executed_calls_def counts_as_def settles_execution_iff)
      then show ?thesis
        unfolding Inl sum.case Some option.case assms [symmetric]
        by (intro adds_then_return [OF settle_adds [where P = "\<lambda>s. s = ?s"]]) auto
    qed
  qed
qed simp

text \<open>All that can be done for a piece of work.\<close>

definition work_calls :: "'w comp_ports \<Rightarrow> comp_options \<Rightarrow> comp_work \<Rightarrow> comp_call list \<Rightarrow> bool" where
  "work_calls ports opts work calls \<longleftrightarrow>
     calls = [] \<or> claim_bound (co_identity opts) work \<and>
     (escalates opts work calls \<or>
      (\<exists>info calls'. calls = Adapter_reported info # calls' \<and> (calls' = [] \<or> escalates opts work calls')) \<or>
      (\<exists>planned. governed_work ports opts work planned \<and>
        ((\<exists>token calls'. calls = Token_asked work token # calls' \<and> (calls' = [] \<or> escalates opts work calls')) \<or>
         (\<exists>token admission calls'. token \<noteq> [] \<and> calls = [Token_asked work (Inr (Some token)),
            Admission_asked (admit_input_of (co_identity opts) work planned token) admission] @ calls' \<and>
            (calls' = [] \<or> escalates opts work calls')) \<or>
         (\<exists>token admission calls'. token \<noteq> [] \<and> ar_admitted admission \<and> ar_effectId admission = dx_effectId planned \<and>
            calls = [Token_asked work (Inr (Some token)),
            Admission_asked (admit_input_of (co_identity opts) work planned token) (Inr admission)] @ calls' \<and>
            executed_calls opts work (dx_effectId planned) calls'))))"


lemma planned_claim:
  "durableExecution hash work = Inr planned \<Longrightarrow> work_claim opts work = claim_of (co_identity opts) work (dx_effectId planned)"
  by (auto simp: durableExecution_def work_claim_def Let_def split: if_splits)

lemma counts_escalated: "escalates opts work calls \<Longrightarrow> settlements (start @ calls) = settlements start @ settlements calls \<and>
    counts_as Work_escalated calls"
  by (auto simp: escalates_def counts_as_def)

lemma ask_admission_adds:
  assumes governed: "governed_work ports opts work planned" and "token \<noteq> []" and calls: "calls = [Token_asked work (Inr (Some token))]"
  shows "adds (ask_admission ports opts work planned token)
    (\<lambda>c calls'. work_calls ports opts work (calls @ calls') \<and> counts_as c (calls @ calls'))
    (\<lambda>calls'. work_calls ports opts work (calls @ calls'))"
  unfolding ask_admission_def Let_def
proof (rule adds_bind [OF adds_observed])
  let ?input = "admit_input_of (co_identity opts) work planned token"
  have bound: "claim_bound (co_identity opts) work" using governed by (simp add: governed_work_def)
  {
    fix calls' assume "\<exists>error. calls' = [Admission_asked ?input (Inl error)]"
    then show "work_calls ports opts work (calls @ calls')"
      using assms bound by (auto simp: work_calls_def)
  next
    fix admission and asked assume asked: "asked = [Admission_asked ?input (Inr admission)]"
    show "adds (if \<not> ar_admitted admission \<or> ar_effectId admission \<noteq> dx_effectId planned
           then escalate ports (co_identity opts) work COMPENSATION_ADMIT_REJECTED
           else execute_work ports opts work (dx_effectId planned) (of_bool (ar_replayed admission)))
      (\<lambda>c calls'. work_calls ports opts work (calls @ asked @ calls') \<and> counts_as c (calls @ asked @ calls'))
      (\<lambda>calls'. work_calls ports opts work (calls @ asked @ calls'))"
    proof (cases "ar_admitted admission \<and> ar_effectId admission = dx_effectId planned")
      case False
      have "work_calls ports opts work (calls @ asked @ calls')" if "calls' = [] \<or> escalates opts work calls'" for calls'
        using that asked assms bound by (auto simp: work_calls_def)
      with False show ?thesis
        using calls asked by (auto intro!: adds_weaken2 [OF escalate_adds] simp: counts_as_def escalates_def)
    next
      case True
      have "work_calls ports opts work (calls @ asked @ calls')" if "executed_calls opts work (dx_effectId planned) calls'" for calls'
        using that asked assms bound True by (auto simp: work_calls_def)
      moreover have "work_claim opts work = claim_of (co_identity opts) work (dx_effectId planned)"
        using governed by (auto simp: governed_work_def intro: planned_claim)
      ultimately show ?thesis
        using True calls asked by (auto intro!: adds_weaken2 [OF execute_adds] simp: counts_as_def)
    qed
  }
qed

lemma admit_adds:
  assumes "governed_work ports opts work planned"
  shows "adds (admit_work ports opts work planned) (\<lambda>c calls. work_calls ports opts work calls \<and> counts_as c calls)
    (work_calls ports opts work)"
  unfolding admit_work_def
proof (rule adds_bind [OF adds_observed])
  have bound: "claim_bound (co_identity opts) work" using assms by (simp add: governed_work_def)
  fix token and calls assume calls: "calls = [Token_asked work (Inr token)]"
  show "adds (if \<not> truthy token then escalate ports (co_identity opts) work COMPENSATION_TOKEN_REFUSED
      else ask_admission ports opts work planned (the token))
    (\<lambda>c calls'. work_calls ports opts work (calls @ calls') \<and> counts_as c (calls @ calls'))
    (\<lambda>calls'. work_calls ports opts work (calls @ calls'))"
  proof (cases "truthy token")
    case False
    have "work_calls ports opts work (calls @ calls')" if "calls' = [] \<or> escalates opts work calls'" for calls'
      using that calls bound assms by (auto simp: work_calls_def)
    with False show ?thesis
      using calls by (auto intro!: adds_weaken2 [OF escalate_adds] simp: counts_as_def escalates_def)
  next
    case True
    then obtain t where "token = Some t" "t \<noteq> []" by (auto simp: truthy_def split: option.splits)
    with True show ?thesis using ask_admission_adds [OF assms] calls by simp
  qed
next
  fix calls assume "\<exists>error. calls = [Token_asked work (Inl error)]"
  then show "work_calls ports opts work calls"
    using assms by (auto simp: work_calls_def governed_work_def)
qed

lemma unregistered_adds:
  assumes "claim_bound (co_identity opts) work"
  shows "adds (unregistered_work ports opts work planned) (\<lambda>c calls. work_calls ports opts work calls \<and> counts_as c calls)
    (work_calls ports opts work)"
proof -
  have reported: "adds (case cp_onAdapterUnregistered ports of None \<Rightarrow> js_return () | Some report \<Rightarrow> port_call [Adapter_reported info] (report info))
      (\<lambda>_ calls. calls \<in> {[], [Adapter_reported info]}) (\<lambda>calls. calls = [Adapter_reported info])" for info
    by (auto split: option.split intro!: adds_return adds_weaken [OF adds_call])
  show ?thesis
    unfolding unregistered_work_def Let_def
    by (rule adds_bind [OF reported])
      (use assms in \<open>auto intro!: adds_weaken2 [OF escalate_adds] simp: work_calls_def counts_as_def escalates_def\<close>)
qed

lemma consume_work_adds:
  "adds (consume_work ports opts work) (\<lambda>c calls. work_calls ports opts work calls \<and> counts_as c calls)
    (work_calls ports opts work)"
proof (cases "claim_bound (co_identity opts) work")
  case False
  then have "adds (assertClaimBinding (co_identity opts) work) (\<lambda>_ _. False) (\<lambda>calls. calls = [])"
    by (simp add: assertClaimBinding_def adds_throw)
  then show ?thesis
    unfolding consume_work_def by (rule adds_bind) (auto simp: work_calls_def)
next
  case bound: True
  have "adds (assertClaimBinding (co_identity opts) work) (\<lambda>_ calls. calls = []) (\<lambda>_. False)"
    using bound by (simp add: assertClaimBinding_def adds_return)
  then show ?thesis
    unfolding consume_work_def
  proof (rule adds_bind)
    fix x :: unit and calls :: "comp_call list" assume [simp]: "calls = []"
    have refused: "adds (escalate ports (co_identity opts) work reason)
        (\<lambda>c calls. work_calls ports opts work calls \<and> counts_as c calls) (work_calls ports opts work)" for reason
      by (rule adds_weaken2 [OF escalate_adds]) (use bound in \<open>auto simp: work_calls_def counts_as_def escalates_def\<close>)
    have "governed_work ports opts work planned"
      if "validateDurableClaim (cp_hash ports) (cp_parse_date ports) now work" "durableExecution (cp_hash ports) work = Inr planned"
        "cp_resolve ports (coa_compensationEffectType (cw_authorization work)) = Some (Some (coa_adapterVersion (cw_authorization work)))"
      for now planned using that bound by (auto simp: governed_work_def)
    then show "adds (js_bind (js_read (\<lambda>w. cp_now ports (dw_outside w))) (\<lambda>now.
       if \<not> validateDurableClaim (cp_hash ports) (cp_parse_date ports) now work
       then escalate ports (co_identity opts) work (Authorization_refused COMPENSATION_ACTION_DIGEST_MISMATCH)
       else case durableExecution (cp_hash ports) work of Inl error \<Rightarrow> js_throw error
         | Inr planned \<Rightarrow> (case cp_resolve ports (coa_compensationEffectType (cw_authorization work)) of
              None \<Rightarrow> unregistered_work ports opts work planned
            | Some version \<Rightarrow> if version \<noteq> Some (coa_adapterVersion (cw_authorization work))
                then escalate ports (co_identity opts) work COMPENSATION_ADAPTER_VERSION_MISMATCH
                else admit_work ports opts work planned)))
      (\<lambda>c calls'. work_calls ports opts work (calls @ calls') \<and> counts_as c (calls @ calls'))
      (\<lambda>calls'. work_calls ports opts work (calls @ calls'))"
      using bound
      by (auto intro!: adds_read_bind refused adds_throw unregistered_adds admit_adds split: sum.split option.split)
        (simp add: work_calls_def)
  qed simp
qed

text \<open>A batch: each piece of work in its turn, until one fails.\<close>

definition comp_total :: "comp_stats \<Rightarrow> nat" where
  "comp_total stats = ct_succeeded stats + ct_handedOff stats + ct_escalated stats"

definition is_completed :: "comp_settlement \<Rightarrow> bool" where
  "is_completed s \<longleftrightarrow> (case s of Finalize_completed _ _ \<Rightarrow> True | _ \<Rightarrow> False)"

definition is_parked :: "comp_settlement \<Rightarrow> bool" where
  "is_parked s \<longleftrightarrow> (case s of Park_unknown _ _ \<Rightarrow> True | _ \<Rightarrow> False)"

definition accounts :: "comp_stats \<Rightarrow> comp_settlement list \<Rightarrow> comp_stats \<Rightarrow> bool" where
  "accounts stats ss stats' \<longleftrightarrow> ct_consumed stats' = ct_consumed stats \<and>
     ct_succeeded stats' = ct_succeeded stats + length (filter is_completed ss) \<and>
     ct_handedOff stats' = ct_handedOff stats + length (filter is_parked ss) \<and>
     comp_total stats' = comp_total stats + length ss"

lemma accounts_step:
  assumes "counts_as c calls" shows "accounts stats (settlements calls) (comp_counted c stats)"
proof -
  from assms obtain s where "settlements calls = [s]" "count_of s c" by (auto simp: counts_as_def)
  then show ?thesis
    by (cases s) (auto simp: accounts_def comp_counted_def comp_total_def is_completed_def is_parked_def)
qed

lemma accounts_trans: "accounts a xs b \<Longrightarrow> accounts b ys c \<Longrightarrow> accounts a (xs @ ys) c"
  by (simp add: accounts_def)

lemma consume_works_adds:
  "adds (consume_works ports opts works stats)
    (\<lambda>stats' calls. accounts stats (settlements calls) stats' \<and> length (settlements calls) = length works \<and>
       (\<exists>segments. calls = concat segments \<and> list_all2 (work_calls ports opts) works segments))
    (\<lambda>calls. \<exists>segments n. calls = concat segments \<and> list_all2 (work_calls ports opts) (take n works) segments)"
proof (induction works arbitrary: stats)
  case Nil
  then show ?case by (auto intro!: adds_return simp: accounts_def)
next
  case (Cons work works)
  show ?case
    unfolding consume_works.simps
  proof (rule adds_bind [OF consume_work_adds])
    fix calls assume "work_calls ports opts work calls"
    then have "calls = concat [calls] \<and> list_all2 (work_calls ports opts) (take 1 (work # works)) [calls]" by simp
    then show "\<exists>segments n. calls = concat segments \<and> list_all2 (work_calls ports opts) (take n (work # works)) segments" by blast
  next
    fix c and calls assume one: "work_calls ports opts work calls \<and> counts_as c calls"
    then have len: "length (settlements calls) = 1" by (auto simp: counts_as_def)
    have more: "\<exists>segments'. calls @ calls' = concat segments' \<and> list_all2 (work_calls ports opts) (work # ws) segments'"
      if "calls' = concat segments" "list_all2 (work_calls ports opts) ws segments" for calls' segments ws
      using that one by (intro exI [of _ "calls # segments"]) auto
    show "adds (consume_works ports opts works (comp_counted c stats))
      (\<lambda>stats' calls'. accounts stats (settlements (calls @ calls')) stats' \<and>
         length (settlements (calls @ calls')) = length (work # works) \<and>
         (\<exists>segments. calls @ calls' = concat segments \<and> list_all2 (work_calls ports opts) (work # works) segments))
      (\<lambda>calls'. \<exists>segments n. calls @ calls' = concat segments \<and> list_all2 (work_calls ports opts) (take n (work # works)) segments)"
    proof (rule adds_weaken2 [OF Cons.IH])
      fix stats' and calls' assume "accounts (comp_counted c stats) (settlements calls') stats' \<and>
        length (settlements calls') = length works \<and>
        (\<exists>segments. calls' = concat segments \<and> list_all2 (work_calls ports opts) works segments)"
      with one len accounts_step more show "accounts stats (settlements (calls @ calls')) stats' \<and>
         length (settlements (calls @ calls')) = length (work # works) \<and>
         (\<exists>segments. calls @ calls' = concat segments \<and> list_all2 (work_calls ports opts) (work # works) segments)"
        by (auto intro: accounts_trans)
    next
      fix calls' assume "\<exists>segments n. calls' = concat segments \<and> list_all2 (work_calls ports opts) (take n works) segments"
      then obtain segments n where "calls' = concat segments" "list_all2 (work_calls ports opts) (take n works) segments" by blast
      from more [OF this] show "\<exists>segments n. calls @ calls' = concat segments \<and> list_all2 (work_calls ports opts) (take n (work # works)) segments"
        by (metis take_Suc_Cons)
    qed
  qed
qed

end
