(* ===== verification/Compensation_Daemon.thy ===== *)
theory Compensation_Daemon
  imports Compensation_Consumer
begin

text \<open>
  \<open>packages/adapter-ops/src/compensationDaemon.ts\<close>: a tick consumes a batch of compensation work, with
  evidence for what was completed, and reports a failed tick so that the worker's authority can be
  withdrawn.
\<close>

section \<open>Terminal evidence\<close>

text \<open>The two sources of evidence; both are optional.\<close>

type_synonym 'w evidence_context_port =
  "string \<Rightarrow> string \<Rightarrow> string \<Rightarrow> string \<Rightarrow> ('w, broker_error, evidence_context \<times> evidence_record option) js"

record 'w evidence_repository =
  rp_getEvidence :: "string \<Rightarrow> string \<Rightarrow> ('w, broker_error, evidence_record option) js"
  rp_listEffectsForRun :: "string \<Rightarrow> string \<Rightarrow> ('w, broker_error, context_effect list) js"
  rp_listEvents :: "string \<Rightarrow> string \<Rightarrow> ('w, broker_error, context_event list) js"

record 'w comp_daemon =
  dm_ports :: "'w comp_ports"
  dm_identity :: comp_identity
  dm_batchSize :: "nat option"
  dm_terminalEvidenceContext :: "'w evidence_context_port option"
  dm_evidenceRepository :: "'w evidence_repository option"
  dm_evidenceSigner :: "'w evidence_signer option"
  dm_evidenceRetentionMs :: "int option"
  dm_heartbeat :: "('w, thrown, unit) js option"
  dm_onFatalInvariant :: "(string \<Rightarrow> ('w, thrown, unit) js) option"
  dm_audit :: "(comp_unregistered \<Rightarrow> time \<Rightarrow> ('w, thrown, unit) js) option"
  dm_env :: evidence_env
  dm_iso :: "time \<Rightarrow> string"

definition thrown_by :: "('w, broker_error, 'a) js \<Rightarrow> ('w, thrown, 'a) js" where
  "thrown_by m = js_catch m (\<lambda>e. js_throw (thrown_of e))"

text \<open>\<open>terminalEvidenceContext ?? evidenceRepository\<close>\<close>

definition kernel_of :: "'w evidence_context_port option \<Rightarrow> 'w evidence_repository \<Rightarrow> 'w evidence_ports" where
  "kernel_of context_port repository = (case context_port of
     Some get \<Rightarrow> \<lparr>ep_getTerminalEvidenceContext = Some (\<lambda>e r t c. js_bind (get e r t c) (\<lambda>x. js_return (fst x))),
       ep_listEffectsForRun = None, ep_listEvents = None\<rparr>
   | None \<Rightarrow> \<lparr>ep_getTerminalEvidenceContext = None, ep_listEffectsForRun = Some (rp_listEffectsForRun repository),
       ep_listEvents = Some (rp_listEvents repository)\<rparr>)"

definition existing_evidence :: "'w evidence_context_port option \<Rightarrow> 'w evidence_repository \<Rightarrow> comp_evidence_input \<Rightarrow>
    ('w, thrown, evidence_record option) js" where
  "existing_evidence context_port repository input = thrown_by (case context_port of
     Some get \<Rightarrow> js_bind (get (cei_effectId input) (cei_runId input) (cei_tenantId input) (cei_claimToken input))
       (\<lambda>x. js_return (snd x))
   | None \<Rightarrow> rp_getEvidence repository (cei_runId input) (cei_tenantId input))"

definition comp_record_request :: "'w comp_daemon \<Rightarrow> comp_evidence_input \<Rightarrow> time \<Rightarrow> record_request" where
  "comp_record_request d input now =
     \<lparr>rr_tenantId = cei_tenantId input, rr_runId = cei_runId input, rr_effectId = cei_effectId input,
      rr_projectedState = cei_projectedState input,
      rr_response = (case cei_response input of JObj kvs \<Rightarrow> kvs | _ \<Rightarrow> []),
      rr_terminalEvent = \<lparr>te_type = cei_eventType input, te_severity = ''high'',
        te_details = [(''disposition'', JStr (cei_disposition input))]\<rparr>,
      rr_recordedAt = dm_iso d now,
      rr_retentionUntil = dm_iso d (now + nullish (dm_evidenceRetentionMs d) (365 * 24 * 60 * 60 * 1000)),
      rr_claimToken = Some (cei_claimToken input)\<rparr>"

definition comp_buildTerminalEvidence :: "'w comp_daemon \<Rightarrow> comp_evidence_input \<Rightarrow> ('w, thrown, evidence_record) js" where
  "comp_buildTerminalEvidence d input =
     (case dm_evidenceRepository d of
        None \<Rightarrow> js_throw (coded_error ''compensation evidence lifecycle repository is required'' ''TERMINAL_EVIDENCE_REQUIRED'')
      | Some repository \<Rightarrow>
          if cei_projectedState input = E_COMPLETED then
            js_bind (existing_evidence (dm_terminalEvidenceContext d) repository input) (\<lambda>existing.
            case existing of
              Some evidence \<Rightarrow>
                if er_bundleId evidence = evidence_bundle_of (cei_effectId input) then js_return evidence
                else js_throw (coded_error ''completed compensation evidence is missing'' ''TERMINAL_EVIDENCE_REQUIRED'')
            | None \<Rightarrow> js_throw (coded_error ''completed compensation evidence is missing'' ''TERMINAL_EVIDENCE_REQUIRED''))
          else (case dm_evidenceSigner d of
              None \<Rightarrow> js_throw (coded_error ''compensation evidence signer is required'' ''EVIDENCE_SIGNING_KEY_REQUIRED'')
            | Some signer \<Rightarrow>
                js_bind (js_read (cp_now (dm_ports d))) (\<lambda>now.
                thrown_by (buildTerminalEvidenceRecordFromKernel (dm_env d) (cp_parse_date (dm_ports d)) signer
                  (kernel_of (dm_terminalEvidenceContext d) repository) (comp_record_request d input now)))))"

section \<open>A tick\<close>

text \<open>The ports the consumer is given.\<close>

definition consumer_ports :: "'w comp_daemon \<Rightarrow> 'w comp_ports" where
  "consumer_ports d = (dm_ports d)\<lparr>cp_terminalEvidence := Some (comp_buildTerminalEvidence d),
     cp_onAdapterUnregistered := map_option (\<lambda>append info.
       js_bind (js_read (cp_now (dm_ports d))) (\<lambda>at. append info at)) (dm_audit d)\<rparr>"

definition consumer_options :: "'w comp_daemon \<Rightarrow> comp_options" where
  "consumer_options d = \<lparr>co_identity = dm_identity d, co_topic = Some KERNEL_COMPENSATION_TOPIC,
     co_limit = Some (nullish (dm_batchSize d) 50), co_timeoutMs = None\<rparr>"

definition add_comp_stats :: "comp_stats \<Rightarrow> loop_state \<Rightarrow> loop_state" where
  "add_comp_stats stats s = (let h = ls_health s in s\<lparr>ls_health := h\<lparr>lh_claimed := lh_claimed h + ct_consumed stats,
     lh_completed := lh_completed h + ct_succeeded stats, lh_handedOff := lh_handedOff h + ct_handedOff stats,
     lh_escalated := lh_escalated h + ct_escalated stats\<rparr>\<rparr>)"

definition drain_incomplete :: thrown where
  "drain_incomplete = Error_value ''AggregateError'' ''compensation tick failed and authority drain was incomplete'' None"

definition fail_comp_tick :: "'w comp_daemon \<Rightarrow> thrown \<Rightarrow> (comp_call, 'w, 'a) ops" where
  "fail_comp_tick d error =
     js_bind (js_read (\<lambda>w. cp_now (dm_ports d) (dw_outside w))) (\<lambda>now.
     js_bind (on_loop (recordFailure now error)) (\<lambda>_.
     case dm_onFatalInvariant d of
       None \<Rightarrow> js_throw error
     | Some safe_stop \<Rightarrow>
         js_bind (js_try (port_call [Fatal_reported (opsLoopErrorCode error)] (safe_stop (opsLoopErrorCode error)))) (\<lambda>r.
         case r of Inl _ \<Rightarrow> js_throw drain_incomplete | Inr _ \<Rightarrow> js_throw error)))"

definition comp_tick_body :: "'w comp_daemon \<Rightarrow> (comp_call, 'w, comp_stats) ops" where
  "comp_tick_body d =
     js_bind (consumeCompensationBatch (consumer_ports d) (consumer_options d)) (\<lambda>stats.
     js_bind (on_loop (add_comp_stats stats)) (\<lambda>_.
     js_bind (case dm_heartbeat d of None \<Rightarrow> js_return () | Some beat \<Rightarrow> port_call [Beat] beat) (\<lambda>_.
     js_bind (js_read (\<lambda>w. cp_now (dm_ports d) (dw_outside w))) (\<lambda>now.
     js_bind (on_loop (recordSuccess now)) (\<lambda>_. js_return stats)))))"

definition comp_runTick :: "'w comp_daemon \<Rightarrow> (comp_call, 'w, comp_stats) ops" where
  "comp_runTick d = js_bind (js_try (comp_tick_body d)) (\<lambda>r. case r of
     Inr stats \<Rightarrow> js_return stats | Inl error \<Rightarrow> fail_comp_tick d error)"

definition reverseCompensationEffectIds :: "string list \<Rightarrow> string list" where
  "reverseCompensationEffectIds effectIds = rev effectIds"

section \<open>What a tick does\<close>

lemma batch_ends:
  assumes "consumeCompensationBatch ports opts w = (r, w')"
  obtains (refused) error where "fst (cp_claimWork ports (co_identity opts) (nullish (co_topic opts) KERNEL_COMPENSATION_TOPIC)
        (nullish (co_limit opts) 50) (dw_outside w)) = Inl error" "r = Inl error" "dw_loop w' = dw_loop w"
      "dw_trace w' = dw_trace w @ [Work_claimed]"
  | (claimed) works segments n where "fst (cp_claimWork ports (co_identity opts) (nullish (co_topic opts) KERNEL_COMPENSATION_TOPIC)
        (nullish (co_limit opts) 50) (dw_outside w)) = Inr works" "dw_loop w' = dw_loop w"
      "dw_trace w' = dw_trace w @ [Work_claimed] @ concat segments"
      "list_all2 (work_calls ports opts) (take n works) segments"
      "\<And>stats. r = Inr stats \<Longrightarrow> accounts \<lparr>ct_consumed = length works, ct_succeeded = 0, ct_handedOff = 0, ct_escalated = 0, ct_replayed = 0\<rparr>
         (settlements (concat segments)) stats \<and> length (settlements (concat segments)) = length works"
proof -
  let ?claim = "cp_claimWork ports (co_identity opts) (nullish (co_topic opts) KERNEL_COMPENSATION_TOPIC) (nullish (co_limit opts) 50)"
  obtain x outside where claim: "?claim (dw_outside w) = (x, outside)" by fastforce
  let ?w1 = "w\<lparr>dw_trace := dw_trace w @ [Work_claimed], dw_outside := outside\<rparr>"
  show thesis
  proof (cases x)
    case (Inl error)
    with assms claim show thesis
      by (intro refused) (auto simp: consumeCompensationBatch_def js_bind_def port_call_def)
  next
    case (Inr works)
    let ?stats = "\<lparr>ct_consumed = length works, ct_succeeded = 0, ct_handedOff = 0, ct_escalated = 0, ct_replayed = 0\<rparr>"
    have run: "consume_works ports opts works ?stats ?w1 = (r, w')"
      using assms claim Inr by (simp add: consumeCompensationBatch_def js_bind_def port_call_def)
    from consume_works_adds this show thesis
    proof (rule addsD)
      fix calls assume calls: "dw_loop w' = dw_loop ?w1" "dw_trace w' = dw_trace ?w1 @ calls"
        "case r of Inr stats' \<Rightarrow> accounts ?stats (settlements calls) stats' \<and> length (settlements calls) = length works \<and>
           (\<exists>segments. calls = concat segments \<and> list_all2 (work_calls ports opts) works segments)
         | Inl _ \<Rightarrow> \<exists>segments n. calls = concat segments \<and> list_all2 (work_calls ports opts) (take n works) segments"
      then obtain segments n where "calls = concat segments" "list_all2 (work_calls ports opts) (take n works) segments"
        by (cases r) (auto, metis take_all_iff order_refl)
      with calls claim Inr show thesis
        by (intro claimed [of works segments n]) (auto split: sum.splits)
    qed
  qed
qed

lemma tick_body_ends:
  assumes "comp_tick_body d w = (r, w')"
  obtains x v tail where "consumeCompensationBatch (consumer_ports d) (consumer_options d) w = (x, v)"
    "dw_trace w' = dw_trace v @ tail" "set tail \<subseteq> {Beat}"
    "\<And>stats. r = Inr stats \<Longrightarrow> x = Inr stats \<and>
       dw_loop w' = recordSuccess (cp_now (dm_ports d) (dw_outside w')) (add_comp_stats stats (dw_loop v))"
proof -
  obtain x v where batch: "consumeCompensationBatch (consumer_ports d) (consumer_options d) w = (x, v)" by fastforce
  show thesis
  proof (cases x)
    case (Inl error)
    with assms batch show thesis by (intro that [of x v "[]"]) (auto simp: comp_tick_body_def js_bind_def)
  next
    case (Inr stats)
    from assms batch Inr have "js_bind (on_loop (add_comp_stats stats)) (\<lambda>_.
       js_bind (case dm_heartbeat d of None \<Rightarrow> js_return () | Some beat \<Rightarrow> port_call [Beat] beat) (\<lambda>_.
       js_bind (js_read (\<lambda>w. cp_now (dm_ports d) (dw_outside w))) (\<lambda>now.
       js_bind (on_loop (recordSuccess now)) (\<lambda>_. js_return stats)))) v = (r, w')"
      by (simp add: comp_tick_body_def js_bind_def [of "consumeCompensationBatch _ _"])
    then have "\<exists>tail. dw_trace w' = dw_trace v @ tail \<and> set tail \<subseteq> {Beat} \<and> (\<forall>stats'. r = Inr stats' \<longrightarrow> stats' = stats \<and>
       dw_loop w' = recordSuccess (cp_now (dm_ports d) (dw_outside w')) (add_comp_stats stats (dw_loop v)))"
      by (auto simp: on_loop_def port_call_def js split: option.splits prod.splits)
    with batch Inr that show thesis by blast
  qed
qed

lemma fail_comp_tick_ends:
  assumes "fail_comp_tick d error w = (r, w')"
  shows "\<exists>e tail now. r = Inl e \<and> dw_trace w' = dw_trace w @ tail \<and> dw_loop w' = recordFailure now error (dw_loop w) \<and>
     (if dm_onFatalInvariant d = None then tail = [] \<and> e = error
      else tail = [Fatal_reported (opsLoopErrorCode error)] \<and> e \<in> {error, drain_incomplete})"
  using assms unfolding fail_comp_tick_def on_loop_def port_call_def
  by (auto simp: js split: option.splits prod.splits sum.splits)

definition claimed_work :: "'w comp_daemon \<Rightarrow> 'w \<Rightarrow> thrown + comp_work list" where
  "claimed_work d outside =
     fst (cp_claimWork (dm_ports d) (dm_identity d) KERNEL_COMPENSATION_TOPIC (nullish (dm_batchSize d) 50) outside)"

lemma claimed_work_alt: "fst (cp_claimWork (consumer_ports d) (co_identity (consumer_options d))
    (nullish (co_topic (consumer_options d)) KERNEL_COMPENSATION_TOPIC) (nullish (co_limit (consumer_options d)) 50) outside) =
    claimed_work d outside"
  by (simp add: claimed_work_def consumer_ports_def consumer_options_def nullish_def)

lemma tick_ends:
  assumes "comp_runTick d w = (r, w')"
  obtains calls tail tail' where "dw_trace w' = dw_trace w @ [Work_claimed] @ calls @ tail @ tail'" "set tail \<subseteq> {Beat}"
    "\<And>works. claimed_work d (dw_outside w) = Inr works \<Longrightarrow> \<exists>segments n. calls = concat segments \<and>
       list_all2 (work_calls (consumer_ports d) (consumer_options d)) (take n works) segments"
    "case r of
       Inr stats \<Rightarrow> tail' = [] \<and> (\<exists>works. claimed_work d (dw_outside w) = Inr works \<and> ct_consumed stats = length works \<and>
         length (settlements calls) = length works \<and> comp_total stats = length works \<and>
         ct_succeeded stats = length (filter is_completed (settlements calls)) \<and>
         ct_handedOff stats = length (filter is_parked (settlements calls))) \<and>
         dw_loop w' = recordSuccess (cp_now (dm_ports d) (dw_outside w')) (add_comp_stats stats (dw_loop w))
     | Inl e \<Rightarrow> \<exists>error now s. dw_loop w' = recordFailure now error s \<and>
         (if dm_onFatalInvariant d = None then tail' = [] \<and> e = error
          else tail' = [Fatal_reported (opsLoopErrorCode error)] \<and> e \<in> {error, drain_incomplete})"
proof -
  obtain y v where body: "comp_tick_body d w = (y, v)" by fastforce
  from tick_body_ends [OF body] obtain x u tail where batch: "consumeCompensationBatch (consumer_ports d) (consumer_options d) w = (x, u)"
    and tail: "dw_trace v = dw_trace u @ tail" "set tail \<subseteq> {Beat}"
    and good: "\<And>stats. y = Inr stats \<Longrightarrow> x = Inr stats \<and>
       dw_loop v = recordSuccess (cp_now (dm_ports d) (dw_outside v)) (add_comp_stats stats (dw_loop u))" by metis
  from batch obtain calls where calls: "dw_trace u = dw_trace w @ [Work_claimed] @ calls" "dw_loop u = dw_loop w"
    "\<And>works. claimed_work d (dw_outside w) = Inr works \<Longrightarrow> \<exists>segments n. calls = concat segments \<and>
       list_all2 (work_calls (consumer_ports d) (consumer_options d)) (take n works) segments"
    "\<And>stats. x = Inr stats \<Longrightarrow> \<exists>works. claimed_work d (dw_outside w) = Inr works \<and> ct_consumed stats = length works \<and>
         length (settlements calls) = length works \<and> comp_total stats = length works \<and>
         ct_succeeded stats = length (filter is_completed (settlements calls)) \<and>
         ct_handedOff stats = length (filter is_parked (settlements calls))"
  proof (cases rule: batch_ends)
    case (refused error)
    then show thesis by (intro that [of "[]"]) (auto simp: claimed_work_alt)
  next
    case (claimed works segments n)
    then show thesis
      by (intro that [of "concat segments"]) (auto simp: claimed_work_alt accounts_def comp_total_def)
  qed
  show thesis
  proof (cases y)
    case (Inr stats)
    with assms body have "r = Inr stats" "w' = v" by (auto simp: comp_runTick_def js_bind_def js_try_def js_return_def)
    with Inr good calls tail show thesis by (intro that [of calls tail "[]"]) auto
  next
    case (Inl error)
    with assms body have "fail_comp_tick d error v = (r, w')" by (simp add: comp_runTick_def js_bind_def js_try_def)
    from fail_comp_tick_ends [OF this] obtain e tail' now where "r = Inl e" "dw_trace w' = dw_trace v @ tail'"
      "dw_loop w' = recordFailure now error (dw_loop v)"
      "if dm_onFatalInvariant d = None then tail' = [] \<and> e = error
      else tail' = [Fatal_reported (opsLoopErrorCode error)] \<and> e \<in> {error, drain_incomplete}" by blast
    moreover then have "\<exists>error now s. dw_loop w' = recordFailure now error s \<and>
        (if dm_onFatalInvariant d = None then tail' = [] \<and> e = error
         else tail' = [Fatal_reported (opsLoopErrorCode error)] \<and> e \<in> {error, drain_incomplete})" by blast
    ultimately show thesis using calls tail by (intro that [of calls tail tail']) auto
  qed
qed


text \<open>
  A compensation tick tells the truth about itself. When it returns, every piece of work it
  claimed was settled once; its numbers are the numbers of settlements made (completed, handed off as
  unknown, escalated), and they are what is added to the health totals, so that work of unknown
  completion never counts as completed. When it throws, the loop is unhealthy with the code of the
  error, and the same code was reported for the worker's authority to be withdrawn, if that is wired.
\<close>

lemma compensation_tick_accounts:
  assumes "comp_runTick d w = (r, w')"
  shows "\<exists>calls tail'. dw_trace w' = dw_trace w @ [Work_claimed] @ calls @ tail' \<and> (case r of
      Inr stats \<Rightarrow> ct_succeeded stats + ct_handedOff stats + ct_escalated stats = ct_consumed stats \<and>
        length (settlements calls) = ct_consumed stats \<and>
        ct_succeeded stats = length (filter is_completed (settlements calls)) \<and>
        ct_handedOff stats = length (filter is_parked (settlements calls)) \<and>
        dw_loop w' = recordSuccess (cp_now (dm_ports d) (dw_outside w')) (add_comp_stats stats (dw_loop w))
    | Inl error \<Rightarrow> \<not> isHealthy pollIntervalMs now (dw_loop w') \<and>
        tail' = (if dm_onFatalInvariant d = None then [] else [Fatal_reported (the (lh_lastErrorCode (ls_health (dw_loop w'))))]) \<and>
        (error = drain_incomplete \<or> lh_lastErrorCode (ls_health (dw_loop w')) = Some (opsLoopErrorCode error)))"
  using assms
proof (cases rule: tick_ends)
  case (1 calls tail tail')
  have beat: "settlements tail = []"
    using 1(2) by (induction tail) auto
  show ?thesis
  proof (cases r)
    case (Inr stats)
    with 1(4) beat 1(1) show ?thesis
      by (intro exI [of _ "calls @ tail"] exI [of _ "[]"]) (auto simp: comp_total_def)
  next
    case (Inl e)
    with 1(4) 1(1) show ?thesis
      by (intro exI [of _ "calls @ tail"] exI [of _ tail']) (auto simp: recordFailure_def isHealthy_def split: if_splits)
  qed
qed

section \<open>The action and its digest\<close>

text \<open>
  C32: a compensation does what was authorized. Whenever two pieces of work pass the durable check under
  authorizations with the same action digest, the broker is asked for the same type of effect with the
  same request, to the last field of the destination, the patch and the forward response; or two
  texts with one hash were found.
\<close>

theorem compensation_does_what_was_authorized:
  assumes "validateDurableClaim hash parse_date now work" and "validateDurableClaim hash parse_date now' work'"
    and "coa_actionDigest (cw_authorization work) = coa_actionDigest (cw_authorization work')"
    and "durableExecution hash work = Inr planned" and "durableExecution hash work' = Inr planned'"
  shows "ai_type (admit_input_of i work planned token) = ai_type (admit_input_of i' work' planned' token') \<and>
    canonical (ai_request (admit_input_of i work planned token)) = canonical (ai_request (admit_input_of i' work' planned' token')) \<or>
    (\<exists>x y. x \<noteq> y \<and> hash x = hash y)"
proof (cases "canonical (durable_action work) = canonical (durable_action work')")
  case False
  moreover have "hash (canonical (durable_action work)) = hash (canonical (durable_action work'))"
    using assms(1-3) by (auto simp: validateDurableClaim_def Let_def canonicalCompensationHash_def)
  ultimately show ?thesis by blast
next
  case True
  note l = sorted_members_lookup [OF True [unfolded canonical_same durable_action_def Let_def]]
  have "coa_originalEffectId (cw_authorization v) = coq_originalEffectId (cw_request v)"
    if "validateDurableClaim hash parse_date t v" for v t
    using that by (simp add: validateDurableClaim_def Let_def)
  with assms(1,2) l [of "''originalEffectId''"] have effect: "coq_originalEffectId (cw_request work) = coq_originalEffectId (cw_request work')"
    by simp
  have payload: "dx_requestPayload planned = request_payload work" "dx_requestPayload planned' = request_payload work'"
    using assms(4,5) by (auto simp: durableExecution_def Let_def split: if_splits)
  have "sorted_json (request_payload work) = sorted_json (request_payload work')"
    unfolding request_payload_def
    by (rule sorted_objects_same)
      (use effect l [of "''destination''"] l [of "''forwardResponse''"] l [of "''compensationPatch''"] in simp_all)
  with l [of "''type''"] show ?thesis
    by (simp add: admit_input_of_def payload canonical_same)
qed

text \<open>
  What the consumer asks of the broker satisfies the broker's own checks of identity and binding for a
  grant that names the work and the worker.
\<close>

lemma work_fits_broker:
  assumes "claim_bound identity work" and "durableExecution (bp_hash ports) work = Inr planned"
    and "gr_tenantId grant = coq_tenantId (cw_request work)" and "gr_runId grant = coq_compensationRunId (cw_request work)"
    and "gr_stepId grant = coq_compensationStepId (cw_request work)" and "gr_workloadId grant = Some (ci_workerId identity)"
    and "gr_workerId grant = Some (ci_workerId identity)" and "gr_workerGeneration grant = Some (ci_workerGeneration identity)"
    and "trim (ci_workerId identity) \<noteq> []" and "printable_id (dx_effectId planned)"
    and "gr_tenantId grant \<noteq> []" "gr_runId grant \<noteq> []" "gr_stepId grant \<noteq> []"
    and "bo_idempotencyKeyPolicy opts = Derive_key"
  shows "identity_error ports opts grant (admit_input_of identity work planned token) = None"
    and "binding_error opts grant (admit_input_of identity work planned token) = None"
  using assms
  by (auto simp: identity_error_def binding_error_def admit_input_of_def claim_bound_def durableExecution_def Let_def
      bindingMismatch_def workerFenceMismatch_def trimmed_def split: if_splits)

end
