(* ===== verification/Compensation_Example.thy ===== *)
theory Compensation_Example
  imports Compensation_Daemon Terminal_Example
begin

text \<open>A tick of the compensation daemon that refunds a payment.\<close>

definition refund_authorization :: comp_authorization where
  "refund_authorization = \<lparr>coa_id = ''a1'', coa_tenantId = ''t1'', coa_originalRunId = ''r1'', coa_originalEffectId = ''e1'',
     coa_compensationEffectType = ''compensate.refund'', coa_adapterVersion = ''v1'', coa_compensationPatch = [],
     coa_forwardReceiptHash = ''h'', coa_policyDecisionId = ''d1'', coa_policySnapshotId = ''p1'', coa_decision = D_allow,
     coa_actionDigest = ''h'', coa_expiresAt = ''9'', coa_approvalInteractionId = None, coa_approvalBinding = None\<rparr>"

definition refund_request :: comp_request where
  "refund_request = \<lparr>coq_id = ''q1'', coq_tenantId = ''t1'', coq_originalRunId = ''r1'', coq_originalEffectId = ''e1'',
     coq_compensationRunId = ''r2'', coq_compensationStepId = ''s2'', coq_adapterVersion = ''v1'',
     coq_compensationEffectType = ''compensate.refund'', coq_destination = ''bank'', coq_compensationPatch = [],
     coq_forwardReceiptHash = ''h'', coq_authorizationId = ''a1'',
     coq_reconcilePolicy = \<lparr>maxAttempts = 1, initialDelayMs = 1, maxDelayMs = 1, deadlineAt = Iso 9\<rparr>, coq_state = Cs_claimed,
     coq_claimWorkerId = Some ''w1'', coq_claimWorkerGeneration = Some 1, coq_claimToken = Some ''c1'', coq_claimExpiresAt = None,
     coq_compensationEffectId = Some ''e2''\<rparr>"

definition refund_work :: comp_work where
  "refund_work = \<lparr>cw_request = refund_request, cw_forwardResponse = [(''paid'', JBool True)],
     cw_lease = \<lparr>lr_workerId = ''w1'', lr_workerGeneration = Some 1, lr_token = ''c1'', lr_fencingEpoch = 1\<rparr>,
     cw_outboxMessageId = ''m1'', cw_outboxClaimToken = ''c1'', cw_authorization = refund_authorization\<rparr>"

definition refund_ports :: "unit comp_ports" where
  "refund_ports = \<lparr>cp_claimWork = (\<lambda>_ _ _. js_return [refund_work]), cp_settle = (\<lambda>_ _. js_return (Comp_applied Cd_completed)),
     cp_resolve = (\<lambda>_. Some (Some ''v1'')), cp_token = (\<lambda>_. js_return (Some ''token'')),
     cp_admit = (\<lambda>input. js_return \<lparr>ar_admitted = True, ar_effectId = ai_effectId input, ar_replayed = False,
       ar_cachedResponse = None, ar_decisionId = ''d1'', ar_policySnapshotId = ''p1'', ar_reason = None, ar_details = []\<rparr>),
     cp_executeAdmitted = (\<lambda>effectId _. js_return \<lparr>xr_effectId = effectId, xr_replayed = False, xr_response = Some (JObj [])\<rparr>),
     cp_terminalEvidence = None, cp_onAdapterUnregistered = None, cp_now = (\<lambda>_. 1), cp_hash = (\<lambda>_. ''h''),
     cp_parse_date = sample_date\<rparr>"

definition refund_receipt :: evidence_record where
  "refund_receipt = escalation_receipt\<lparr>er_bundleId := evidence_bundle_of ''e2''\<rparr>"

definition refund_daemon :: "unit comp_daemon" where
  "refund_daemon = \<lparr>dm_ports = refund_ports, dm_identity = \<lparr>ci_workerId = ''w1'', ci_workerGeneration = 1, ci_claimSecret = ''c''\<rparr>,
     dm_batchSize = None, dm_terminalEvidenceContext = None,
     dm_evidenceRepository = Some \<lparr>rp_getEvidence = (\<lambda>_ _. js_return (Some refund_receipt)),
       rp_listEffectsForRun = (\<lambda>_ _. js_return []), rp_listEvents = (\<lambda>_ _. js_return [])\<rparr>,
     dm_evidenceSigner = None, dm_evidenceRetentionMs = None, dm_heartbeat = Some (js_return ()),
     dm_onFatalInvariant = None, dm_audit = None, dm_env = flat_env, dm_iso = (\<lambda>t. ''1'')\<rparr>"

definition refund_world :: "(comp_call, unit) daemon_world" where
  "refund_world = \<lparr>dw_trace = [], dw_loop = initial_loop, dw_outside = ()\<rparr>"

definition refund_stats :: comp_stats where
  "refund_stats = \<lparr>ct_consumed = 1, ct_succeeded = 1, ct_handedOff = 0, ct_escalated = 0, ct_replayed = 0\<rparr>"

lemma refund_claim: "claimed_work refund_daemon () = Inr [refund_work]"
  by (simp add: claimed_work_def refund_daemon_def refund_ports_def js_return_def)

lemma refund_valid: "validateDurableClaim (\<lambda>_. ''h'') sample_date 1 refund_work"
  by (simp add: validateDurableClaim_def Let_def refund_work_def refund_authorization_def refund_request_def sample_date_def
      canonicalCompensationHash_def)

lemma refund_bound: "claim_bound \<lparr>ci_workerId = ''w1'', ci_workerGeneration = 1, ci_claimSecret = ''c''\<rparr> refund_work"
  by (simp add: claim_bound_def Let_def refund_work_def refund_authorization_def refund_request_def is_safe_integer_def)

definition refund_plan :: comp_execution where
  "refund_plan = \<lparr>dx_effectId = ''e2'', dx_runId = ''r2'', dx_stepId = ''s2'', dx_requestPayload = request_payload refund_work,
     dx_idempotencyKey = ''h''\<rparr>"

lemma refund_planned: "durableExecution (\<lambda>_. ''h'') refund_work = Inr refund_plan"
  by (simp add: durableExecution_def Let_def refund_plan_def refund_work_def refund_request_def truthy_def deriveEffectIdempotencyKey_def)

lemma refund_tick: "fst (comp_runTick refund_daemon refund_world) = Inr refund_stats"
proof -
  have ports [simp]: "cp_hash refund_ports = (\<lambda>_. ''h'')" "cp_parse_date refund_ports = sample_date" "cp_now refund_ports o' = 1"
    "cp_resolve refund_ports t = Some (Some ''v1'')" "cp_token refund_ports v = js_return (Some ''token'')"
    "cp_claimWork refund_ports i t n = js_return [refund_work]" "cp_settle refund_ports c s = js_return (Comp_applied Cd_completed)"
    for o' t v i n c s by (simp_all add: refund_ports_def)
  have work [simp]: "coa_adapterVersion (cw_authorization refund_work) = ''v1''"
    by (simp add: refund_work_def refund_authorization_def)
  have daemon [simp]: "dm_ports refund_daemon = refund_ports" "dm_heartbeat refund_daemon = Some (js_return ())"
    "dm_identity refund_daemon = \<lparr>ci_workerId = ''w1'', ci_workerGeneration = 1, ci_claimSecret = ''c''\<rparr>"
    by (simp_all add: refund_daemon_def)
  have evidence: "comp_buildTerminalEvidence refund_daemon (evidence_input_of refund_work ''e2'' response) = js_return refund_receipt" for response
    by (rule ext) (simp add: comp_buildTerminalEvidence_def refund_daemon_def evidence_input_of_def existing_evidence_def thrown_by_def
        js_bind_def js_return_def js_catch_def refund_receipt_def)
  show ?thesis
    by (simp add: comp_runTick_def comp_tick_body_def consumeCompensationBatch_def consumer_ports_def consumer_options_def
        consume_work_def assertClaimBinding_def refund_bound refund_valid refund_planned admit_work_def ask_admission_def
        execute_work_def complete_work_def settle_def requireDisposition_def evidence comp_counted_def refund_stats_def
        js_bind_def js_return_def js_read_def js_modify_def js_try_def port_call_def observed_call_def on_loop_def truthy_def
        refund_plan_def falsy_response_def Let_def refund_ports_def admit_input_of_def)
qed


definition worker_one :: comp_identity where
  "worker_one = \<lparr>ci_workerId = ''w1'', ci_workerGeneration = 1, ci_claimSecret = ''c''\<rparr>"

text \<open>The work with the digests of a hash that has no collisions.\<close>

definition hashed_work :: "string \<Rightarrow> comp_work" where
  "hashed_work fresh = refund_work\<lparr>
     cw_authorization := refund_authorization\<lparr>
       coa_forwardReceiptHash := CHR ''h'' # canonical (JObj (cw_forwardResponse refund_work)),
       coa_actionDigest := CHR ''h'' # canonical (durable_action refund_work)\<rparr>,
     cw_lease := (cw_lease refund_work)\<lparr>lr_token := fresh\<rparr>\<rparr>"

theorem compensation_does_what_was_authorized_witness:
  "\<exists>planned planned'. durableExecution (\<lambda>s. CHR ''h'' # s) (hashed_work ''c1'') = Inr planned \<and>
     durableExecution (\<lambda>s. CHR ''h'' # s) (hashed_work ''c2'') = Inr planned' \<and>
     canonical (ai_request (admit_input_of worker_one (hashed_work ''c1'') planned ''t'')) =
     canonical (ai_request (admit_input_of worker_one (hashed_work ''c2'') planned' ''t''))"
proof -
  have same: "durable_action (hashed_work t) = durable_action refund_work" "cw_forwardResponse (hashed_work t) = cw_forwardResponse refund_work"
    "cw_request (hashed_work t) = refund_request" for t
    by (simp_all add: hashed_work_def durable_action_def refund_work_def refund_authorization_def Let_def)
  have valid: "validateDurableClaim (\<lambda>s. CHR ''h'' # s) sample_date 1 (hashed_work t)" for t
    unfolding validateDurableClaim_def Let_def same canonicalCompensationHash_def
    by (simp add: hashed_work_def refund_authorization_def refund_request_def sample_date_def del: canonical.simps)
  obtain planned planned' where planned: "durableExecution (\<lambda>s. CHR ''h'' # s) (hashed_work ''c1'') = Inr planned"
    "durableExecution (\<lambda>s. CHR ''h'' # s) (hashed_work ''c2'') = Inr planned'"
    by (simp add: durableExecution_def Let_def same refund_request_def truthy_def)
  have "coa_actionDigest (cw_authorization (hashed_work ''c1'')) = coa_actionDigest (cw_authorization (hashed_work ''c2''))"
    by (simp add: hashed_work_def)
  from compensation_does_what_was_authorized [OF valid valid this planned] planned show ?thesis by auto
qed

end
