(* ===== verification/Worker_Service.thy ===== *)
theory Worker_Service
  imports Effect_Broker JS_Regex
begin

text \<open>
  The worker process of \<open>packages/worker-plane/src\<close>: what a thrown value becomes before it is written
  to the kernel (\<open>types.ts\<close>, \<open>effectGate.ts\<close>, the head of \<open>workerService.ts\<close>), one claimed step as the
  state machine its task is, and the service that claims, heartbeats and stops.

  \<open>WorkerService\<close> runs on one thread and waits on promises. Between two awaits its code runs without
  interruption, so each such stretch is one turn, a function from the state and an input (the answer
  that arrived, the timer that fired, the method called) to the next state and the calls it made. An
  input that cannot occur in a state has no turn.
\<close>

section \<open>What was thrown\<close>

record worker_error_options =
  wo_code :: "string option"
  wo_retryable :: "bool option"
  wo_retryDelayMs :: "int option"
  wo_details :: "json option"

text \<open>
  A thrown value: a \<open>WorkerExecutionError\<close>, another \<open>Error\<close> (with its name and, if it has an object
  there, its \<open>options\<close>), or a value that is no \<open>Error\<close>, by what \<open>String\<close> makes of it. The last field of
  the first two is the \<open>cause\<close>, if that is an \<open>Error\<close>.
\<close>

datatype worker_thrown =
    Worker_error (worker_message: string) worker_error_options "worker_thrown option"
  | Plain_error string (worker_message: string) "worker_error_options option" "worker_thrown option"
  | Not_an_error (worker_message: string)

text \<open>\<open>/^SANDBOX_UNAVAILABLE\b/.test(message)\<close>\<close>

definition says_sandbox_unavailable :: "string \<Rightarrow> bool" where
  "says_sandbox_unavailable message \<longleftrightarrow>
     (let text = ''SANDBOX_UNAVAILABLE'' in
      starts_with message text \<and> at_boundary (advance (length text) (None, message)))"

fun isSandboxUnavailable :: "worker_thrown \<Rightarrow> bool" where
  "isSandboxUnavailable (Worker_error message _ cause) \<longleftrightarrow> says_sandbox_unavailable message \<or>
     (case cause of None \<Rightarrow> False | Some error \<Rightarrow> isSandboxUnavailable error)"
| "isSandboxUnavailable (Plain_error name message _ cause) \<longleftrightarrow>
     name = ''SandboxInitializationError'' \<or> name = ''SandboxPolicyError'' \<or> says_sandbox_unavailable message \<or>
     (case cause of None \<Rightarrow> False | Some error \<Rightarrow> isSandboxUnavailable error)"
| "isSandboxUnavailable (Not_an_error _) \<longleftrightarrow> False"

definition executor_failed :: worker_error_options where
  "executor_failed = \<lparr>wo_code = Some ''EXECUTOR_FAILED'', wo_retryable = Some False, wo_retryDelayMs = None, wo_details = None\<rparr>"

text \<open>The message and the options of the \<open>WorkerExecutionError\<close> returned.\<close>

fun toWorkerExecutionError :: "worker_thrown \<Rightarrow> string \<times> worker_error_options" where
  "toWorkerExecutionError (Worker_error message options _) = (message, options)"
| "toWorkerExecutionError (Plain_error _ message (Some options) _) = (message, options)"
| "toWorkerExecutionError (Plain_error _ message None _) = (message, executor_failed)"
| "toWorkerExecutionError (Not_an_error text) = (text, executor_failed)"

definition reconciliationOwnsStep :: "worker_error_options \<Rightarrow> bool" where
  "reconciliationOwnsStep options \<longleftrightarrow>
     wo_code options \<in> {Some ''COMPLETION_UNKNOWN'', Some ''COMPLETION_UNCONFIRMED'', Some ''EVIDENCE_PERSIST_FAILED''}"

text \<open>What \<open>execute\<close> makes of the value it caught.\<close>

definition known_error :: "worker_thrown \<Rightarrow> string \<times> worker_error_options" where
  "known_error error =
     (if isSandboxUnavailable error
      then (worker_message error, \<lparr>wo_code = Some ''SANDBOX_UNAVAILABLE'', wo_retryable = Some False, wo_retryDelayMs = None,
        wo_details = (case error of Worker_error _ options _ \<Rightarrow> wo_details options | _ \<Rightarrow> None)\<rparr>)
      else toWorkerExecutionError error)"

text \<open>
  \<open>workerExecutionErrorFromEffectFailure\<close>: what the executors throw for a failed call of the effect
  broker. The context holds the names of the tool or connector and the step.
\<close>

datatype effect_failure =
    Worker_failure worker_thrown
  | Broker_failure string string "json option"
  | Other_failure string

definition RETRYABLE_EFFECT_CODES :: "string list" where
  "RETRYABLE_EFFECT_CODES = [''EFFECT_IN_FLIGHT'', ''COMPLETION_UNKNOWN'', ''WORKER_AFFINITY_MISMATCH'']"

fun workerExecutionErrorFromEffectFailure :: "effect_failure \<Rightarrow> (string \<times> json) list \<Rightarrow> worker_thrown" where
  "workerExecutionErrorFromEffectFailure (Worker_failure error) _ = error"
| "workerExecutionErrorFromEffectFailure (Broker_failure code message details) context =
     Worker_error message \<lparr>wo_code = Some code, wo_retryable = Some (code \<in> set RETRYABLE_EFFECT_CODES),
       wo_retryDelayMs = None, wo_details = Some (json_spread (or_else details (JObj [])) context)\<rparr> None"
| "workerExecutionErrorFromEffectFailure (Other_failure message) context =
     Worker_error message \<lparr>wo_code = Some ''EFFECT_EXECUTION_FAILED'', wo_retryable = Some False,
       wo_retryDelayMs = None, wo_details = Some (JObj context)\<rparr> None"

section \<open>Workers, claimed steps and calls\<close>

record worker_definition =
  wd_id :: string
  wd_kind :: string
  wd_version :: string
  wd_capabilities :: "string list"
  wd_maxConcurrency :: int

record worker_record = worker_definition +
  wr_status :: string
  wr_generation :: int
  wr_activeSteps :: int
  wr_identitySubject :: string
  wr_tenantIds :: "string list"
  wr_registeredAt :: string
  wr_lastHeartbeatAt :: string
  wr_claimSecret :: "string option"

record worker_authorization =
  wa_tenantIds :: "string list"
  wa_capabilities :: "string list"

record claimed_step =
  cl_id :: string
  cl_runId :: string
  cl_tenantId :: string
  cl_kind :: string
  cl_version :: int
  cl_attempt :: int
  cl_input :: json
  cl_lease :: lease_ref

record worker_claim =
  wc_workerId :: string
  wc_workerGeneration :: int
  wc_claimSecret :: "string option"
  wc_leaseTtlMs :: int
  wc_capabilities :: "string list"

text \<open>The calls the service makes; those of a task carry its number.\<close>

datatype worker_call =
    Authenticate
  | Initialize_registry
  | Register_worker "string list" "string option"
  | On_registered worker_record
  | Claim_next worker_claim
  | Claim_health bool
  | Release_step fail_step
  | Execute nat claimed_step
  | Beat_lease nat string string lease_ref int
  | Write_completion nat complete_step
  | Write_failure nat fail_step
  | Lease_path_failure nat string
  | Registry_heartbeat string int nat string
  | Drain_worker string int string
  | Drain_deadline_exceeded
  | Dispose
  | Unhandled_rejection

section \<open>A claimed step\<close>

datatype task_phase = Executing | Completing | Failing | Settled

text \<open>
  The variables of one call of \<open>execute\<close>: \<open>leaseLost\<close>, the reason its controller was aborted with, the
  heartbeats that have no answer yet, and whether its promise is in \<open>active\<close>. The interval and the
  entry in \<open>activeControllers\<close> last until the phase is \<open>Settled\<close>.
\<close>

record step_task =
  ta_step :: claimed_step
  ta_phase :: task_phase
  ta_leaseLost :: bool
  ta_abort :: "string option"
  ta_heartbeats :: nat
  ta_active :: bool

definition abort_task :: "string \<Rightarrow> step_task \<Rightarrow> step_task" where
  "abort_task reason t = (if ta_abort t = None then t\<lparr>ta_abort := Some reason\<rparr> else t)"

definition settle_task :: "step_task \<Rightarrow> step_task" where
  "settle_task t = t\<lparr>ta_phase := Settled\<rparr>"

text \<open>The binding that \<open>runWithStepWorkloadIdentity\<close> checks before the executor is called.\<close>

definition lease_binds :: "worker_record \<Rightarrow> claimed_step \<Rightarrow> bool" where
  "lease_binds worker step \<longleftrightarrow>
     lr_workerId (cl_lease step) = wd_id worker \<and> lr_workerGeneration (cl_lease step) = Some (wr_generation worker)"

definition binding_mismatch :: worker_thrown where
  "binding_mismatch = Plain_error ''Error'' ''WORKLOAD_LEASE_BINDING_MISMATCH'' None None"

definition step_completion_of :: "worker_record \<Rightarrow> claimed_step \<Rightarrow> json option \<Rightarrow> complete_step" where
  "step_completion_of worker step result = \<lparr>cs_stepId = cl_id step, cs_tenantId = cl_tenantId step, cs_lease = cl_lease step,
     cs_output = result, cs_expectedVersion = cl_version step, cs_actor = wd_id worker\<rparr>"

definition step_failure_of :: "worker_record \<Rightarrow> time \<Rightarrow> claimed_step \<Rightarrow> string \<times> worker_error_options \<Rightarrow> fail_step" where
  "step_failure_of worker now step known = (case known of (message, options) \<Rightarrow>
     \<lparr>fs_stepId = cl_id step, fs_tenantId = cl_tenantId step, fs_lease = cl_lease step,
      fs_error = \<lparr>sf_code = or_else (wo_code options) ''EXECUTOR_FAILED'', sf_message = message,
        sf_retryable = or_else (wo_retryable options) False, sf_details = wo_details options\<rparr>,
      fs_retryAt = (if wo_retryable options = Some True \<and> wo_retryDelayMs options \<notin> {None, Some 0}
        then Some (now + the (wo_retryDelayMs options)) else None),
      fs_refundAttempt = None, fs_expectedVersion = cl_version step, fs_actor = wd_id worker\<rparr>)"

text \<open>The claim given back because the worker was stopped while it was under way.\<close>

definition step_release_of :: "worker_record \<Rightarrow> time \<Rightarrow> claimed_step \<Rightarrow> fail_step" where
  "step_release_of worker now step = \<lparr>fs_stepId = cl_id step, fs_tenantId = cl_tenantId step, fs_lease = cl_lease step,
     fs_error = \<lparr>sf_code = ''WORKER_STOPPED'', sf_message = ''worker stopped during claim'', sf_retryable = True,
       sf_details = None\<rparr>,
     fs_retryAt = Some now, fs_refundAttempt = Some True, fs_expectedVersion = cl_version step, fs_actor = wd_id worker\<rparr>"

text \<open>The \<open>catch\<close> of \<open>execute\<close>, up to its \<open>await\<close>.\<close>

definition catch_error :: "worker_record \<Rightarrow> time \<Rightarrow> nat \<Rightarrow> worker_thrown \<Rightarrow> step_task \<Rightarrow> step_task \<times> worker_call list" where
  "catch_error worker now i error t =
     (if ta_leaseLost t then (settle_task t, [])
      else if reconciliationOwnsStep (snd (known_error error)) then (settle_task t, [])
      else (t\<lparr>ta_phase := Failing\<rparr>, [Write_failure i (step_failure_of worker now (ta_step t) (known_error error))]))"

text \<open>\<open>execute\<close> up to its first \<open>await\<close>.\<close>

definition begin_task :: "worker_record \<Rightarrow> time \<Rightarrow> nat \<Rightarrow> claimed_step \<Rightarrow> step_task \<times> worker_call list" where
  "begin_task worker now i step =
     (let t = \<lparr>ta_step = step, ta_phase = Executing, ta_leaseLost = False, ta_abort = None, ta_heartbeats = 0, ta_active = True\<rparr> in
      if lease_binds worker step then (t, [Execute i step]) else catch_error worker now i binding_mismatch t)"

datatype task_input =
    Lease_due
  | Lease_answered bool
  | Lease_rejected
  | Executor_returned "json option"
  | Executor_threw worker_thrown
  | Completion_answered bool
  | Completion_threw worker_thrown
  | Failure_answered bool
  | Failure_threw

definition lease_gone :: "string \<Rightarrow> string \<Rightarrow> nat \<Rightarrow> step_task \<Rightarrow> step_task \<times> worker_call list" where
  "lease_gone path reason i t = (abort_task reason (t\<lparr>ta_leaseLost := True, ta_heartbeats := ta_heartbeats t - 1\<rparr>),
     [Lease_path_failure i path])"

text \<open>
  One turn of a task. \<open>Lease_answered\<close>, \<open>Completion_answered\<close> and \<open>Failure_answered\<close> tell whether the
  kernel's answer was not \<open>null\<close>.
\<close>

fun task_turn ::
  "int \<Rightarrow> worker_record \<Rightarrow> time \<Rightarrow> nat \<Rightarrow> task_input \<Rightarrow> step_task \<Rightarrow> (step_task \<times> worker_call list) option" where
  "task_turn ttl worker now i Lease_due t =
     (if ta_phase t = Settled then None
      else Some (t\<lparr>ta_heartbeats := ta_heartbeats t + 1\<rparr>,
        [Beat_lease i (cl_id (ta_step t)) (cl_tenantId (ta_step t)) (cl_lease (ta_step t)) ttl]))"
| "task_turn ttl worker now i (Lease_answered alive) t =
     (if ta_heartbeats t = 0 then None
      else if alive then Some (t\<lparr>ta_heartbeats := ta_heartbeats t - 1\<rparr>, [])
      else Some (lease_gone ''heartbeat_null'' ''Kernel lease lost'' i t))"
| "task_turn ttl worker now i Lease_rejected t =
     (if ta_heartbeats t = 0 then None
      else Some (lease_gone ''heartbeat_rejected'' ''Kernel heartbeat failed'' i t))"
| "task_turn ttl worker now i (Executor_returned result) t =
     (if ta_phase t \<noteq> Executing then None
      else if ta_leaseLost t then Some (settle_task t, [])
      else Some (t\<lparr>ta_phase := Completing\<rparr>, [Write_completion i (step_completion_of worker (ta_step t) result)]))"
| "task_turn ttl worker now i (Executor_threw error) t =
     (if ta_phase t \<noteq> Executing then None else Some (catch_error worker now i error t))"
| "task_turn ttl worker now i (Completion_answered accepted) t =
     (if ta_phase t \<noteq> Completing then None
      else if accepted then Some (settle_task t, [])
      else Some (settle_task (abort_task ''Kernel rejected step completion'' t), [Lease_path_failure i ''complete_rejected'']))"
| "task_turn ttl worker now i (Completion_threw error) t =
     (if ta_phase t \<noteq> Completing then None else Some (catch_error worker now i error t))"
| "task_turn ttl worker now i (Failure_answered accepted) t =
     (if ta_phase t \<noteq> Failing then None
      else if accepted then Some (settle_task t, [])
      else Some (settle_task (abort_task ''Kernel rejected step failure'' t), [Lease_path_failure i ''fail_rejected'']))"
| "task_turn ttl worker now i Failure_threw t =
     (if ta_phase t \<noteq> Failing then None else Some (settle_task t, []))"

section \<open>The service\<close>

record service_config =
  sc_definition :: worker_definition
  sc_subject :: string
  sc_expiresAt :: "time option"
  sc_leaseTtlMs :: int
  sc_previousClaimSecret :: "string option"

text \<open>A call of \<open>start\<close> past its guard, by what it waits for.\<close>

datatype start_phase =
    Awaiting_sandbox
  | Awaiting_authenticator
  | Awaiting_registry worker_authorization
  | Awaiting_registration worker_authorization
  | Started
  | Start_failed

text \<open>The call of \<open>stop\<close> that does the work, by what it waits for (for tasks, by their numbers).\<close>

datatype stop_phase = Not_stopped | Draining | Awaiting_tasks "nat list" | Disposing | Stop_rejected

text \<open>
  The fields of \<open>WorkerService\<close>, with the calls of \<open>start\<close> and \<open>stop\<close> and the answers that are still
  awaited. \<open>sv_tasks\<close> holds every task ever begun, \<open>active\<close> those marked so; \<open>sv_timers\<close> counts the
  live heartbeat intervals, of which the field \<open>heartbeatTimer\<close> holds at most one.
\<close>

record service_state =
  sv_worker :: "worker_record option"
  sv_authorization :: "worker_authorization option"
  sv_tasks :: "step_task list"
  sv_claimInflight :: nat
  sv_running :: bool
  sv_disposed :: bool
  sv_heartbeatTimer :: bool
  sv_timers :: nat
  sv_starts :: "start_phase list"
  sv_heartbeats :: nat
  sv_releases :: nat
  sv_stop :: stop_phase

definition new_service :: service_state where
  "new_service = \<lparr>sv_worker = None, sv_authorization = None, sv_tasks = [], sv_claimInflight = 0, sv_running = False,
     sv_disposed = False, sv_heartbeatTimer = False, sv_timers = 0, sv_starts = [], sv_heartbeats = 0, sv_releases = 0,
     sv_stop = Not_stopped\<rparr>"

text \<open>\<open>this.active.size + this.claimInflight\<close>\<close>

definition activeSteps :: "service_state \<Rightarrow> nat" where
  "activeSteps s = length (filter ta_active (sv_tasks s)) + sv_claimInflight s"

definition authorized_for :: "worker_definition \<Rightarrow> worker_authorization \<Rightarrow> bool" where
  "authorized_for definition_of authorization \<longleftrightarrow> ''*'' \<in> set (wa_capabilities authorization) \<or>
     (\<forall>capability \<in> set (wd_capabilities definition_of). capability \<in> set (wa_capabilities authorization))"

definition abort_all :: "string \<Rightarrow> step_task list \<Rightarrow> step_task list" where
  "abort_all reason = map (\<lambda>t. if ta_phase t = Settled then t else abort_task reason t)"

datatype service_input =
    Start_called
  | Sandbox_ready nat
  | Authenticated nat worker_authorization
  | Registry_ready nat
  | Registered nat worker_record
  | Start_threw nat
  | Poll_called
  | Claim_answered "claimed_step option"
  | Claim_threw bool
  | Release_answered
  | Release_threw bool
  | Task nat task_input
  | Task_removed nat
  | Heartbeat_due
  | Heartbeat_answered "worker_record option"
  | Heartbeat_threw
  | Stop_called
  | Drain_answered
  | Drain_threw
  | Tasks_settled
  | Drain_expired

type_synonym service_turn = "(service_state \<times> worker_call list) option"

subsection \<open>Starting\<close>

definition start_called :: "service_state \<Rightarrow> service_turn" where
  "start_called s = (if sv_worker s \<noteq> None then Some (s, []) else Some (s\<lparr>sv_starts := sv_starts s @ [Awaiting_sandbox]\<rparr>, []))"

definition start_at :: "nat \<Rightarrow> start_phase \<Rightarrow> service_state \<Rightarrow> bool" where
  "start_at i phase s \<longleftrightarrow> i < length (sv_starts s) \<and> sv_starts s ! i = phase"

definition to_phase :: "nat \<Rightarrow> start_phase \<Rightarrow> service_state \<Rightarrow> service_state" where
  "to_phase i phase s = s\<lparr>sv_starts := (sv_starts s)[i := phase]\<rparr>"

definition sandbox_ready :: "service_config \<Rightarrow> time \<Rightarrow> nat \<Rightarrow> service_state \<Rightarrow> service_turn" where
  "sandbox_ready cfg now i s =
     (if \<not> start_at i Awaiting_sandbox s then None
      else case sc_expiresAt cfg of
        None \<Rightarrow> Some (to_phase i Start_failed s, [])
      | Some expiresAt \<Rightarrow>
          if expiresAt \<le> now then Some (to_phase i Start_failed s, [])
          else Some (to_phase i Awaiting_authenticator s, [Authenticate]))"

definition authentication_done :: "service_config \<Rightarrow> nat \<Rightarrow> worker_authorization \<Rightarrow> service_state \<Rightarrow> service_turn" where
  "authentication_done cfg i authorization s =
     (if \<not> start_at i Awaiting_authenticator s then None
      else if authorized_for (sc_definition cfg) authorization
      then Some (to_phase i (Awaiting_registry authorization) s, [Initialize_registry])
      else Some (to_phase i Start_failed s, []))"

definition registry_ready :: "service_config \<Rightarrow> nat \<Rightarrow> service_state \<Rightarrow> service_turn" where
  "registry_ready cfg i s =
     (if i < length (sv_starts s)
      then case sv_starts s ! i of
          Awaiting_registry authorization \<Rightarrow> Some (to_phase i (Awaiting_registration authorization) s,
            [Register_worker (wa_tenantIds authorization) (sc_previousClaimSecret cfg)])
        | _ \<Rightarrow> None
      else None)"

definition registration_done :: "nat \<Rightarrow> worker_record \<Rightarrow> service_state \<Rightarrow> service_turn" where
  "registration_done i worker s =
     (if i < length (sv_starts s)
      then case sv_starts s ! i of
          Awaiting_registration authorization \<Rightarrow>
            Some ((to_phase i Started s)\<lparr>sv_worker := Some worker, sv_authorization := Some authorization,
              sv_running := True, sv_heartbeatTimer := True, sv_timers := sv_timers s + 1\<rparr>, [On_registered worker])
        | _ \<Rightarrow> None
      else None)"

definition start_threw :: "nat \<Rightarrow> service_state \<Rightarrow> service_turn" where
  "start_threw i s = (if i < length (sv_starts s) \<and> sv_starts s ! i \<notin> {Started, Start_failed}
     then Some (to_phase i Start_failed s, []) else None)"

subsection \<open>Claiming\<close>

definition poll_called :: "service_config \<Rightarrow> service_state \<Rightarrow> service_turn" where
  "poll_called cfg s =
     (case (sv_worker s, sv_authorization s) of
        (Some worker, Some _) \<Rightarrow>
          if \<not> sv_running s \<or> wd_maxConcurrency worker \<le> int (activeSteps s) then Some (s, [])
          else Some (s\<lparr>sv_claimInflight := sv_claimInflight s + 1\<rparr>,
            [Claim_next \<lparr>wc_workerId = wd_id worker, wc_workerGeneration = wr_generation worker,
               wc_claimSecret = wr_claimSecret worker, wc_leaseTtlMs = sc_leaseTtlMs cfg,
               wc_capabilities = wd_capabilities worker\<rparr>])
      | _ \<Rightarrow> Some (s, []))"

definition claim_answered :: "time \<Rightarrow> claimed_step option \<Rightarrow> service_state \<Rightarrow> service_turn" where
  "claim_answered now answer s =
     (if sv_claimInflight s = 0 then None
      else let s' = s\<lparr>sv_claimInflight := sv_claimInflight s - 1\<rparr> in
        case (answer, sv_worker s) of
          (Some step, Some worker) \<Rightarrow>
            if \<not> sv_running s
            then Some (s'\<lparr>sv_releases := sv_releases s + 1\<rparr>, [Claim_health True, Release_step (step_release_of worker now step)])
            else (case begin_task worker now (length (sv_tasks s)) step of (t, calls) \<Rightarrow>
              Some (s'\<lparr>sv_tasks := sv_tasks s @ [t]\<rparr>, Claim_health True # calls))
        | _ \<Rightarrow> Some (s', [Claim_health True]))"

text \<open>A poll that throws: the loop of \<open>run\<close> reports it, another caller gets the error.\<close>

definition poll_threw :: "bool \<Rightarrow> worker_call list" where
  "poll_threw looping = (if looping then [Claim_health False] else [])"

definition claim_threw :: "bool \<Rightarrow> service_state \<Rightarrow> service_turn" where
  "claim_threw looping s = (if sv_claimInflight s = 0 then None
     else Some (s\<lparr>sv_claimInflight := sv_claimInflight s - 1\<rparr>, poll_threw looping))"

definition release_settled :: "worker_call list \<Rightarrow> service_state \<Rightarrow> service_turn" where
  "release_settled calls s = (if sv_releases s = 0 then None else Some (s\<lparr>sv_releases := sv_releases s - 1\<rparr>, calls))"

subsection \<open>Tasks\<close>

definition task_input_turn :: "service_config \<Rightarrow> time \<Rightarrow> nat \<Rightarrow> task_input \<Rightarrow> service_state \<Rightarrow> service_turn" where
  "task_input_turn cfg now i input s =
     (if i < length (sv_tasks s)
      then case sv_worker s of None \<Rightarrow> None
        | Some worker \<Rightarrow> (case task_turn (sc_leaseTtlMs cfg) worker now i input (sv_tasks s ! i) of
            None \<Rightarrow> None
          | Some (t, calls) \<Rightarrow> Some (s\<lparr>sv_tasks := (sv_tasks s)[i := t]\<rparr>, calls))
      else None)"

definition task_removed :: "nat \<Rightarrow> service_state \<Rightarrow> service_turn" where
  "task_removed i s =
     (if i < length (sv_tasks s) \<and> ta_phase (sv_tasks s ! i) = Settled \<and> ta_active (sv_tasks s ! i)
      then Some (s\<lparr>sv_tasks := (sv_tasks s)[i := (sv_tasks s ! i)\<lparr>ta_active := False\<rparr>]\<rparr>, []) else None)"

subsection \<open>Heartbeats of the worker\<close>

definition heartbeat_due :: "service_state \<Rightarrow> service_turn" where
  "heartbeat_due s =
     (if sv_timers s = 0 then None
      else case sv_worker s of
          Some worker \<Rightarrow> if sv_running s
            then Some (s\<lparr>sv_heartbeats := sv_heartbeats s + 1\<rparr>,
              [Registry_heartbeat (wd_id worker) (wr_generation worker) (activeSteps s) (or_else (wr_claimSecret worker) [])])
            else Some (s, [])
        | None \<Rightarrow> Some (s, []))"

definition heartbeat_answered :: "worker_record option \<Rightarrow> service_state \<Rightarrow> service_turn" where
  "heartbeat_answered answer s =
     (if sv_heartbeats s = 0 then None
      else let s' = s\<lparr>sv_heartbeats := sv_heartbeats s - 1\<rparr> in
        case answer of
          None \<Rightarrow> Some (s'\<lparr>sv_running := False, sv_tasks := abort_all ''Worker generation is no longer active'' (sv_tasks s)\<rparr>, [])
        | Some updated \<Rightarrow> (case sv_worker s of None \<Rightarrow> None
            | Some worker \<Rightarrow> Some (s'\<lparr>sv_worker := Some (updated\<lparr>wr_claimSecret :=
                (case wr_claimSecret worker of Some secret \<Rightarrow> Some secret | None \<Rightarrow> wr_claimSecret updated)\<rparr>)\<rparr>, [])))"

text \<open>\<open>void this.heartbeat()\<close>: nothing awaits the promise, and nothing catches its rejection.\<close>

definition heartbeat_threw :: "service_state \<Rightarrow> service_turn" where
  "heartbeat_threw s = (if sv_heartbeats s = 0 then None
     else Some (s\<lparr>sv_heartbeats := sv_heartbeats s - 1\<rparr>, [Unhandled_rejection]))"

subsection \<open>Stopping\<close>

definition await_tasks :: "service_state \<Rightarrow> service_state" where
  "await_tasks s = s\<lparr>sv_stop := Awaiting_tasks (filter (\<lambda>i. ta_active (sv_tasks s ! i)) [0..<length (sv_tasks s)])\<rparr>"

definition stop_called :: "service_state \<Rightarrow> service_turn" where
  "stop_called s =
     (if sv_disposed s then Some (s, [])
      else let s' = s\<lparr>sv_disposed := True, sv_running := False, sv_heartbeatTimer := False,
          sv_timers := (if sv_heartbeatTimer s then sv_timers s - 1 else sv_timers s),
          sv_tasks := abort_all ''Worker stopped'' (sv_tasks s)\<rparr> in
        case sv_worker s of
          Some worker \<Rightarrow> Some (s'\<lparr>sv_stop := Draining\<rparr>,
            [Drain_worker (wd_id worker) (wr_generation worker) (or_else (wr_claimSecret worker) [])])
        | None \<Rightarrow> Some (await_tasks s', []))"

definition drain_answered :: "service_state \<Rightarrow> service_turn" where
  "drain_answered s = (if sv_stop s = Draining then Some (await_tasks s, []) else None)"

definition drain_threw :: "service_state \<Rightarrow> service_turn" where
  "drain_threw s = (if sv_stop s = Draining then Some (s\<lparr>sv_stop := Stop_rejected\<rparr>, []) else None)"

definition tasks_settled :: "service_state \<Rightarrow> service_turn" where
  "tasks_settled s = (case sv_stop s of
     Awaiting_tasks awaited \<Rightarrow>
       if list_all (\<lambda>i. ta_phase (sv_tasks s ! i) = Settled) awaited
       then Some (s\<lparr>sv_stop := Disposing\<rparr>, [Dispose]) else None
   | _ \<Rightarrow> None)"

definition drain_expired :: "service_state \<Rightarrow> service_turn" where
  "drain_expired s = (case sv_stop s of
     Awaiting_tasks _ \<Rightarrow> Some (s\<lparr>sv_stop := Disposing\<rparr>, [Drain_deadline_exceeded, Dispose])
   | _ \<Rightarrow> None)"

subsection \<open>Histories\<close>

fun service_turn :: "service_config \<Rightarrow> time \<Rightarrow> service_input \<Rightarrow> service_state \<Rightarrow> service_turn" where
  "service_turn cfg now Start_called s = start_called s"
| "service_turn cfg now (Sandbox_ready i) s = sandbox_ready cfg now i s"
| "service_turn cfg now (Authenticated i authorization) s = authentication_done cfg i authorization s"
| "service_turn cfg now (Registry_ready i) s = registry_ready cfg i s"
| "service_turn cfg now (Registered i worker) s = registration_done i worker s"
| "service_turn cfg now (Start_threw i) s = start_threw i s"
| "service_turn cfg now Poll_called s = poll_called cfg s"
| "service_turn cfg now (Claim_answered answer) s = claim_answered now answer s"
| "service_turn cfg now (Claim_threw looping) s = claim_threw looping s"
| "service_turn cfg now Release_answered s = release_settled [] s"
| "service_turn cfg now (Release_threw looping) s = release_settled (poll_threw looping) s"
| "service_turn cfg now (Task i input) s = task_input_turn cfg now i input s"
| "service_turn cfg now (Task_removed i) s = task_removed i s"
| "service_turn cfg now Heartbeat_due s = heartbeat_due s"
| "service_turn cfg now (Heartbeat_answered answer) s = heartbeat_answered answer s"
| "service_turn cfg now Heartbeat_threw s = heartbeat_threw s"
| "service_turn cfg now Stop_called s = stop_called s"
| "service_turn cfg now Drain_answered s = drain_answered s"
| "service_turn cfg now Drain_threw s = drain_threw s"
| "service_turn cfg now Tasks_settled s = tasks_settled s"
| "service_turn cfg now Drain_expired s = drain_expired s"

text \<open>A history: the turns with their times, inputs and calls.\<close>

type_synonym service_history = "(time \<times> service_input \<times> worker_call list) list"

inductive serves :: "service_config \<Rightarrow> service_history \<Rightarrow> service_state \<Rightarrow> bool" for cfg where
  new: "serves cfg [] new_service"
| turn: "serves cfg h s \<Longrightarrow> service_turn cfg now input s = Some (s', calls) \<Longrightarrow> serves cfg (h @ [(now, input, calls)]) s'"

end
