(* ===== verification/Worker_Claims.thy ===== *)
theory Worker_Claims
  imports Worker_Service Kernel_Contracts
begin

text \<open>
  What holds in every history of a worker: its capacity, the gate it passes before it claims, the
  writes of its tasks and what a stop leaves behind; and, with the kernel's model, what becomes of
  those writes.
\<close>

lemmas service_turn_defs = start_called_def sandbox_ready_def authentication_done_def registry_ready_def registration_done_def
  start_threw_def poll_called_def claim_answered_def claim_threw_def release_settled_def task_input_turn_def
  task_removed_def heartbeat_due_def heartbeat_answered_def heartbeat_threw_def stop_called_def drain_answered_def
  drain_threw_def tasks_settled_def drain_expired_def start_at_def to_phase_def await_tasks_def Let_def

lemmas service_turn_splits = if_splits option.splits prod.splits start_phase.splits stop_phase.splits

inductive_cases serves_snocE: "serves cfg (h @ [turn]) s"

lemma serves_turnE:
  assumes "serves cfg (h1 @ (now, input, calls) # h2) s"
  obtains s1 s2 where "serves cfg h1 s1" "service_turn cfg now input s1 = Some (s2, calls)"
    "serves cfg (h1 @ [(now, input, calls)]) s2"
  using assms
proof (induction h2 arbitrary: s thesis rule: rev_induct)
  case Nil
  from Nil(2) have "serves cfg (h1 @ [(now, input, calls)]) s" by simp
  then show ?case
    by (cases rule: serves.cases) (use Nil(1) in \<open>auto intro: serves.turn\<close>)
next
  case (snoc x h2)
  from snoc.prems(2) have "serves cfg ((h1 @ (now, input, calls) # h2) @ [x]) s" by simp
  then obtain s' where "serves cfg (h1 @ (now, input, calls) # h2) s'"
    by (cases rule: serves.cases) auto
  then show ?case using snoc.IH snoc.prems(1) by blast
qed

section \<open>Capacity\<close>

text \<open>The records that a registration or a heartbeat gave the worker.\<close>

fun received_record :: "service_input \<Rightarrow> worker_record option" where
  "received_record (Registered _ worker) = Some worker"
| "received_record (Heartbeat_answered answer) = answer"
| "received_record _ = None"

definition capacity_at_most :: "int \<Rightarrow> service_history \<Rightarrow> bool" where
  "capacity_at_most M h \<longleftrightarrow> list_all (\<lambda>(_, input, _).
     case received_record input of None \<Rightarrow> True | Some worker \<Rightarrow> wd_maxConcurrency worker \<le> M) h"

definition capacity_inv :: "int \<Rightarrow> service_state \<Rightarrow> bool" where
  "capacity_inv M s \<longleftrightarrow> int (activeSteps s) \<le> M \<and>
     (case sv_worker s of None \<Rightarrow> True | Some worker \<Rightarrow> wd_maxConcurrency worker \<le> M)"

lemma active_task_turn: "task_turn ttl worker now i input t = Some (t', calls) \<Longrightarrow> ta_active t' = ta_active t"
  by (cases "(ttl, worker, now, i, input, t)" rule: task_turn.cases)
    (auto simp: catch_error_def lease_gone_def settle_task_def abort_task_def split: if_splits)

lemma count_update: "i < length xs \<Longrightarrow> P y = P (xs ! i) \<Longrightarrow> length (filter P (xs[i := y])) = length (filter P xs)"
  by (induction xs arbitrary: i) (auto simp: nth_Cons split: nat.splits)

lemma count_drop: "i < length xs \<Longrightarrow> \<not> P y \<Longrightarrow> length (filter P (xs[i := y])) \<le> length (filter P xs)"
  by (induction xs arbitrary: i) (auto simp: nth_Cons le_SucI split: nat.splits)

lemma active_abort_all [simp]: "length (filter ta_active (abort_all reason ts)) = length (filter ta_active ts)"
  by (induction ts) (auto simp: abort_all_def abort_task_def)

lemma begin_task_active: "begin_task worker now i step = (t, calls) \<Longrightarrow> ta_active t"
  by (auto simp: begin_task_def catch_error_def settle_task_def Let_def split: if_splits)

lemma capacity_turn:
  assumes "service_turn cfg now input s = Some (s', calls)" and "capacity_inv M s"
    and "case received_record input of None \<Rightarrow> True | Some worker \<Rightarrow> wd_maxConcurrency worker \<le> M"
  shows "capacity_inv M s'"
proof (cases input)
  case (Task i tinput)
  with assms show ?thesis
    by (auto simp: service_turn_defs capacity_inv_def activeSteps_def count_update dest!: active_task_turn split: service_turn_splits)
next
  case (Task_removed i)
  have "length (filter ta_active ((sv_tasks s)[i := t\<lparr>ta_active := False\<rparr>])) \<le> length (filter ta_active (sv_tasks s))"
    if "i < length (sv_tasks s)" for t using count_drop [OF that, of ta_active] by simp
  from this [of "sv_tasks s ! i"] show ?thesis using Task_removed assms
    by (auto simp: service_turn_defs capacity_inv_def activeSteps_def split: if_splits)
next
  case (Claim_answered answer)
  with assms show ?thesis
    by (auto simp: service_turn_defs capacity_inv_def activeSteps_def split: service_turn_splits)
qed (use assms in \<open>auto simp: service_turn_defs capacity_inv_def activeSteps_def split: service_turn_splits\<close>)

text \<open>
  C14: a worker never takes more than it may. In every history of starts, polls (also overlapping
  ones), claims, tasks, heartbeats and stops, the steps in progress together with the claims under way
  are at most the largest \<open>maxConcurrency\<close> the registry has given the worker.
\<close>

theorem worker_keeps_its_capacity:
  assumes "serves cfg h s" and "capacity_at_most M h" and "0 \<le> M"
  shows "int (activeSteps s) \<le> M"
proof -
  have "capacity_inv M s" using assms
  proof (induction rule: serves.induct)
    case (turn h s now input s' calls)
    then have "capacity_inv M s" "case received_record input of None \<Rightarrow> True | Some worker \<Rightarrow> wd_maxConcurrency worker \<le> M"
      by (simp_all add: capacity_at_most_def)
    with turn.hyps(2) show ?case by (rule capacity_turn)
  qed (simp add: new_service_def capacity_inv_def activeSteps_def)
  then show ?thesis by (simp add: capacity_inv_def)
qed

section \<open>The writes of a task\<close>

fun is_write :: "nat \<Rightarrow> worker_call \<Rightarrow> bool" where
  "is_write i (Write_completion j _) \<longleftrightarrow> i = j"
| "is_write i (Write_failure j _) \<longleftrightarrow> i = j"
| "is_write i _ \<longleftrightarrow> False"

fun is_execution :: "nat \<Rightarrow> worker_call \<Rightarrow> bool" where
  "is_execution i (Execute j _) \<longleftrightarrow> i = j"
| "is_execution i _ \<longleftrightarrow> False"

definition calls_of :: "(worker_call \<Rightarrow> bool) \<Rightarrow> service_history \<Rightarrow> worker_call list" where
  "calls_of P h = filter P (concat (map (\<lambda>(_, _, calls). calls) h))"

definition took :: "service_input \<Rightarrow> service_history \<Rightarrow> bool" where
  "took input h \<longleftrightarrow> list_ex (\<lambda>(_, x, _). x = input) h"

definition lease_ended :: "nat \<Rightarrow> service_history \<Rightarrow> bool" where
  "lease_ended i h \<longleftrightarrow> took (Task i (Lease_answered False)) h \<or> took (Task i Lease_rejected) h"

definition completion_call :: "nat \<Rightarrow> claimed_step \<Rightarrow> service_history \<Rightarrow> worker_call \<Rightarrow> bool" where
  "completion_call i step h c \<longleftrightarrow> (\<exists>worker result.
     c = Write_completion i (step_completion_of worker step result) \<and> took (Task i (Executor_returned result)) h)"

definition failure_call :: "nat \<Rightarrow> claimed_step \<Rightarrow> worker_call \<Rightarrow> bool" where
  "failure_call i step c \<longleftrightarrow> (\<exists>worker now error.
     c = Write_failure i (step_failure_of worker now step (known_error error)) \<and> \<not> reconciliationOwnsStep (snd (known_error error)))"

definition writes_ok :: "nat \<Rightarrow> claimed_step \<Rightarrow> service_history \<Rightarrow> worker_call list \<Rightarrow> worker_call list \<Rightarrow> bool" where
  "writes_ok i step h cs fs \<longleftrightarrow> calls_of (is_write i) h = cs @ fs \<and> length cs \<le> 1 \<and> length fs \<le> 1 \<and>
     list_all (completion_call i step h) cs \<and> list_all (failure_call i step) fs \<and>
     (cs \<noteq> [] \<longrightarrow> fs \<noteq> [] \<longrightarrow> (\<exists>error. took (Task i (Completion_threw error)) h)) \<and>
     calls_of (is_execution i) h = (if calls_of (is_execution i) h = [] then [] else [Execute i step]) \<and>
     (cs \<noteq> [] \<longrightarrow> calls_of (is_execution i) h \<noteq> [])"

fun phase_ok :: "nat \<Rightarrow> task_phase \<Rightarrow> claimed_step \<Rightarrow> service_history \<Rightarrow> bool" where
  "phase_ok i Executing step h \<longleftrightarrow> writes_ok i step h [] [] \<and> calls_of (is_execution i) h \<noteq> []"
| "phase_ok i Completing step h \<longleftrightarrow> (\<exists>c. writes_ok i step h [c] [])"
| "phase_ok i _ step h \<longleftrightarrow> (\<exists>cs fs. writes_ok i step h cs fs)"

definition task_ok :: "nat \<Rightarrow> step_task \<Rightarrow> service_history \<Rightarrow> bool" where
  "task_ok i t h \<longleftrightarrow> ta_leaseLost t = lease_ended i h \<and> phase_ok i (ta_phase t) (ta_step t) h"

definition tasks_ok :: "service_state \<Rightarrow> service_history \<Rightarrow> bool" where
  "tasks_ok s h \<longleftrightarrow> (\<forall>i. if i < length (sv_tasks s) then task_ok i (sv_tasks s ! i) h
     else calls_of (is_write i) h = [] \<and> calls_of (is_execution i) h = [] \<and> \<not> lease_ended i h)"

lemma calls_of_snoc [simp]: "calls_of P (h @ [(now, input, calls)]) = calls_of P h @ filter P calls"
  by (simp add: calls_of_def)

lemma calls_of_Nil [simp]: "calls_of P [] = []"
  by (simp add: calls_of_def)

lemma took_snoc [simp]: "took x (h @ [(now, input, calls)]) \<longleftrightarrow> took x h \<or> x = input"
  by (auto simp: took_def)

lemma took_Nil [simp]: "\<not> took x []"
  by (simp add: took_def)

lemma lease_ended_snoc [simp]: "lease_ended i (h @ [(now, input, calls)]) \<longleftrightarrow>
    lease_ended i h \<or> input = Task i (Lease_answered False) \<or> input = Task i Lease_rejected"
  by (auto simp: lease_ended_def)

lemma completion_call_snoc: "completion_call i step h c \<Longrightarrow> completion_call i step (h @ [x]) c"
  by (auto simp: completion_call_def took_def)

lemma writes_ok_snoc:
  assumes "writes_ok i step h cs fs" and "filter (is_write i) calls = []" and "filter (is_execution i) calls = []"
  shows "writes_ok i step (h @ [(now, input, calls)]) cs fs"
  using assms by (auto simp: writes_ok_def intro: list.pred_mono_strong completion_call_snoc)

lemma writes_ok_completion:
  assumes "writes_ok i step h [] []" and "calls_of (is_execution i) h \<noteq> []"
  shows "writes_ok i step (h @ [(now, Task i (Executor_returned result), [Write_completion i (step_completion_of worker step result)])])
    [Write_completion i (step_completion_of worker step result)] []"
  using assms by (auto simp: writes_ok_def completion_call_def)

lemma writes_ok_failure:
  assumes "writes_ok i step h cs []" and "\<not> reconciliationOwnsStep (snd (known_error error))"
    and "cs \<noteq> [] \<Longrightarrow> \<exists>e. input = Task i (Completion_threw e)"
  shows "writes_ok i step (h @ [(now, input, [Write_failure i (step_failure_of worker at step (known_error error))])])
    cs [Write_failure i (step_failure_of worker at step (known_error error))]"
  using assms unfolding writes_ok_def
  by (auto simp: failure_call_def intro: list.pred_mono_strong completion_call_snoc)

lemma task_ok_settled:
  assumes "writes_ok i (ta_step t) h cs fs" and "ta_leaseLost t = lease_ended i h"
    and "filter (is_write i) calls = []" "filter (is_execution i) calls = []"
    and "input \<noteq> Task i (Lease_answered False)" "input \<noteq> Task i Lease_rejected"
  shows "task_ok i (settle_task t) (h @ [(now, input, calls)])"
  using writes_ok_snoc [OF assms(1,3,4), of now input] assms(2,5,6) by (auto simp: task_ok_def settle_task_def)

lemma task_ok_caught:
  assumes "writes_ok i (ta_step t) h cs []" and "ta_leaseLost t = lease_ended i h"
    and "cs \<noteq> [] \<Longrightarrow> \<exists>e. input = Task i (Completion_threw e)"
    and "input \<noteq> Task i (Lease_answered False)" "input \<noteq> Task i Lease_rejected"
    and "catch_error worker at i error t = (t', calls)"
  shows "task_ok i t' (h @ [(now, input, calls)])"
proof (cases "ta_leaseLost t \<or> reconciliationOwnsStep (snd (known_error error))")
  case True
  with assms(6) have "t' = settle_task t" "calls = []" by (auto simp: catch_error_def split: if_splits)
  with task_ok_settled [OF assms(1,2), of "[]" input now] assms(4,5) show ?thesis by simp
next
  case False
  then have t': "t' = t\<lparr>ta_phase := Failing\<rparr>" "calls = [Write_failure i (step_failure_of worker at (ta_step t) (known_error error))]"
    using assms(6) by (auto simp: catch_error_def)
  have "writes_ok i (ta_step t) (h @ [(now, input, calls)]) cs calls"
    unfolding t' using writes_ok_failure [OF assms(1)] False assms(3) by blast
  with assms(2,4,5) show ?thesis by (auto simp: task_ok_def t')
qed

lemma phase_ok_snoc:
  "phase_ok i phase step h \<Longrightarrow> filter (is_write i) calls = [] \<Longrightarrow> filter (is_execution i) calls = [] \<Longrightarrow>
   phase_ok i phase step (h @ [(now, input, calls)])"
  by (cases "(i, phase, step, h)" rule: phase_ok.cases) (auto intro: writes_ok_snoc)

lemma task_ok_noted:
  assumes "task_ok i t h" and "ta_step t' = ta_step t" "ta_phase t' = ta_phase t"
    and "ta_leaseLost t' = lease_ended i (h @ [(now, input, calls)])"
    and "filter (is_write i) calls = []" "filter (is_execution i) calls = []"
  shows "task_ok i t' (h @ [(now, input, calls)])"
  using assms phase_ok_snoc [OF _ assms(5,6)] by (simp add: task_ok_def)

lemma writes_ok_of_task:
  "task_ok i t h \<Longrightarrow> ta_phase t = Executing \<Longrightarrow> writes_ok i (ta_step t) h [] [] \<and> calls_of (is_execution i) h \<noteq> []"
  "task_ok i t h \<Longrightarrow> ta_phase t = Completing \<Longrightarrow> \<exists>c. writes_ok i (ta_step t) h [c] []"
  "task_ok i t h \<Longrightarrow> \<exists>cs fs. writes_ok i (ta_step t) h cs fs"
  "task_ok i t h \<Longrightarrow> ta_leaseLost t = lease_ended i h"
  by (auto simp: task_ok_def elim!: phase_ok.elims)

lemma settle_task_abort: "settle_task (abort_task reason t) = abort_task reason (settle_task t)"
  by (simp add: settle_task_def abort_task_def)

lemma task_fields_abort [simp]:
  "ta_step (abort_task reason t) = ta_step t" "ta_phase (abort_task reason t) = ta_phase t"
  "ta_leaseLost (abort_task reason t) = ta_leaseLost t"
  by (simp_all add: abort_task_def)

lemma task_ok_abort [simp]: "task_ok i (abort_task reason t) h = task_ok i t h"
  by (simp add: task_ok_def)

lemma task_turn_ok:
  assumes "task_turn ttl worker now i input t = Some (t', calls)" and ok: "task_ok i t h"
  shows "task_ok i t' (h @ [(now', Task i input, calls)])"
proof (cases input)
  case Lease_due
  with assms(1) have "t' = t\<lparr>ta_heartbeats := ta_heartbeats t + 1\<rparr>" "filter (is_write i) calls = []" "filter (is_execution i) calls = []"
    by (auto split: if_splits)
  with Lease_due show ?thesis using writes_ok_of_task(4) [OF ok] by (intro task_ok_noted [OF ok]) auto
next
  case (Lease_answered alive)
  with assms(1) show ?thesis using writes_ok_of_task(4) [OF ok]
    by (intro task_ok_noted [OF ok]) (auto simp: lease_gone_def split: if_splits)
next
  case Lease_rejected
  with assms(1) show ?thesis using writes_ok_of_task(4) [OF ok]
    by (intro task_ok_noted [OF ok]) (auto simp: lease_gone_def split: if_splits)
next
  case (Executor_returned result)
  with assms(1) have phase: "ta_phase t = Executing" by (auto split: if_splits)
  note ws = writes_ok_of_task(1) [OF ok phase]
  show ?thesis
  proof (cases "ta_leaseLost t")
    case True
    with Executor_returned assms(1) phase have "t' = settle_task t" "calls = []" by auto
    with Executor_returned show ?thesis
      using task_ok_settled [OF conjunct1 [OF ws] writes_ok_of_task(4) [OF ok], of "[]"] by simp
  next
    case False
    with Executor_returned assms(1) phase have "t' = t\<lparr>ta_phase := Completing\<rparr>"
      "calls = [Write_completion i (step_completion_of worker (ta_step t) result)]" by auto
    with Executor_returned writes_ok_completion [OF conjunct1 [OF ws] conjunct2 [OF ws]] writes_ok_of_task(4) [OF ok]
    show ?thesis by (auto simp: task_ok_def)
  qed
next
  case (Executor_threw error)
  with assms(1) have "ta_phase t = Executing" "catch_error worker now i error t = (t', calls)" by (auto split: if_splits)
  with writes_ok_of_task(1) [OF ok] Executor_threw show ?thesis
    by (auto intro: task_ok_caught [OF _ writes_ok_of_task(4) [OF ok]])
next
  case (Completion_threw error)
  with assms(1) have phase: "ta_phase t = Completing" and caught: "catch_error worker now i error t = (t', calls)"
    by (auto split: if_splits)
  from writes_ok_of_task(2) [OF ok phase] obtain c where "writes_ok i (ta_step t) h [c] []" ..
  from task_ok_caught [OF this writes_ok_of_task(4) [OF ok] _ _ _ caught] Completion_threw show ?thesis by simp
next
  case (Completion_answered accepted)
  from writes_ok_of_task(3) [OF ok] obtain cs fs where ws: "writes_ok i (ta_step t) h cs fs" by blast
  with Completion_answered assms(1) show ?thesis
    by (auto simp: settle_task_abort split: if_splits intro!: task_ok_settled [OF ws writes_ok_of_task(4) [OF ok]])
next
  case (Failure_answered accepted)
  from writes_ok_of_task(3) [OF ok] obtain cs fs where ws: "writes_ok i (ta_step t) h cs fs" by blast
  with Failure_answered assms(1) show ?thesis
    by (auto simp: settle_task_abort split: if_splits intro!: task_ok_settled [OF ws writes_ok_of_task(4) [OF ok]])
next
  case Failure_threw
  from writes_ok_of_task(3) [OF ok] obtain cs fs where ws: "writes_ok i (ta_step t) h cs fs" by blast
  with Failure_threw assms(1) show ?thesis
    by (auto split: if_splits intro!: task_ok_settled [OF ws writes_ok_of_task(4) [OF ok]])
qed

lemma task_turn_others:
  assumes "task_turn ttl worker now i input t = Some (t', calls)" and "j \<noteq> i"
  shows "filter (is_write j) calls = []" "filter (is_execution j) calls = []"
  using assms by (cases "(ttl, worker, now, i, input, t)" rule: task_turn.cases;
      auto simp: catch_error_def lease_gone_def split: if_splits)+

lemma task_turn_step: "task_turn ttl worker now i input t = Some (t', calls) \<Longrightarrow> ta_step t' = ta_step t"
  by (cases "(ttl, worker, now, i, input, t)" rule: task_turn.cases)
    (auto simp: catch_error_def lease_gone_def settle_task_def abort_task_def split: if_splits)

lemma begin_task_ok:
  assumes "begin_task worker now i step = (t, calls)"
    and "calls_of (is_write i) h = []" "calls_of (is_execution i) h = []" "\<not> lease_ended i h"
  shows "task_ok i t (h @ [(now, Claim_answered answer, Claim_health True # calls)])"
proof -
  let ?t = "\<lparr>ta_step = step, ta_phase = Executing, ta_leaseLost = False, ta_abort = None, ta_heartbeats = 0, ta_active = True\<rparr>"
  have none: "writes_ok i step h [] []" using assms(2,3) by (simp add: writes_ok_def)
  show ?thesis
  proof (cases "lease_binds worker step")
    case True
    with assms none show ?thesis by (auto simp: begin_task_def task_ok_def writes_ok_def)
  next
    case False
    have "\<not> isSandboxUnavailable binding_mismatch"
      by (simp add: binding_mismatch_def says_sandbox_unavailable_def starts_with_def Let_def)
    then have known: "\<not> reconciliationOwnsStep (snd (known_error binding_mismatch))"
      by (simp add: known_error_def binding_mismatch_def reconciliationOwnsStep_def executor_failed_def)
    have "writes_ok i step (h @ [(now, Claim_answered answer, [Write_failure i (step_failure_of worker now step (known_error binding_mismatch))])])
        [] [Write_failure i (step_failure_of worker now step (known_error binding_mismatch))]"
      by (rule writes_ok_failure [OF none known]) simp
    moreover have "t = ?t\<lparr>ta_phase := Failing\<rparr>" "calls = [Write_failure i (step_failure_of worker now step (known_error binding_mismatch))]"
      using assms(1) False known by (auto simp: begin_task_def catch_error_def)
    ultimately have "writes_ok i step (h @ [(now, Claim_answered answer, Claim_health True # calls)]) [] calls"
      "t = ?t\<lparr>ta_phase := Failing\<rparr>" by (simp_all add: writes_ok_def)
    then show ?thesis using assms(4) by (auto simp: task_ok_def)
  qed
qed

lemma begin_task_others:
  assumes "begin_task worker now i step = (t, calls)" and "j \<noteq> i"
  shows "filter (is_write j) calls = []" "filter (is_execution j) calls = []"
  using assms by (auto simp: begin_task_def catch_error_def Let_def split: if_splits)

text \<open>A turn that is neither a task's nor the answer to a claim leaves every task's writes alone.\<close>

lemma quiet_turn:
  assumes "service_turn cfg now input s = Some (s', calls)" and "\<nexists>i x. input = Task i x" and "\<nexists>x. input = Claim_answered x"
  shows "filter (is_write i) calls = [] \<and> filter (is_execution i) calls = [] \<and>
    length (sv_tasks s') = length (sv_tasks s) \<and>
    (i < length (sv_tasks s) \<longrightarrow> task_ok i (sv_tasks s' ! i) h = task_ok i (sv_tasks s ! i) h \<and>
       ta_step (sv_tasks s' ! i) = ta_step (sv_tasks s ! i))"
  using assms by (cases input)
    (auto simp: service_turn_defs poll_threw_def abort_all_def task_ok_def nth_list_update split: service_turn_splits)

lemma task_ok_snoc:
  assumes "task_ok i t h" and "filter (is_write i) calls = []" "filter (is_execution i) calls = []" and "\<nexists>x. input = Task i x"
  shows "task_ok i t (h @ [(now, input, calls)])"
  by (rule task_ok_noted [OF assms(1)]) (use assms in \<open>auto simp: task_ok_def\<close>)

lemma tasks_ok_turn:
  assumes "service_turn cfg now input s = Some (s', calls)" and ok: "tasks_ok s h"
  shows "tasks_ok s' (h @ [(now, input, calls)])"
  unfolding tasks_ok_def
proof
  fix j
  have old: "if j < length (sv_tasks s) then task_ok j (sv_tasks s ! j) h
      else calls_of (is_write j) h = [] \<and> calls_of (is_execution j) h = [] \<and> \<not> lease_ended j h"
    using ok by (simp add: tasks_ok_def)
  consider (task) i x where "input = Task i x" | (claim) answer where "input = Claim_answered answer"
    | (quiet) "\<nexists>i x. input = Task i x" "\<nexists>x. input = Claim_answered x" by blast
  then show "if j < length (sv_tasks s') then task_ok j (sv_tasks s' ! j) (h @ [(now, input, calls)])
      else calls_of (is_write j) (h @ [(now, input, calls)]) = [] \<and>
        calls_of (is_execution j) (h @ [(now, input, calls)]) = [] \<and> \<not> lease_ended j (h @ [(now, input, calls)])"
  proof cases
    case task
    with assms(1) obtain worker t where t: "i < length (sv_tasks s)"
      "task_turn (sc_leaseTtlMs cfg) worker now i x (sv_tasks s ! i) = Some (t, calls)" "s' = s\<lparr>sv_tasks := (sv_tasks s)[i := t]\<rparr>"
      by (auto simp: task_input_turn_def split: if_splits option.splits)
    show ?thesis
    proof (cases "j = i")
      case True
      then show ?thesis using old t task_turn_ok [OF t(2)] task by simp
    next
      case False
      then show ?thesis using old t task task_turn_others [OF t(2) False] by (auto intro: task_ok_snoc)
    qed
  next
    case claim
    consider (begun) worker step t where "answer = Some step" "begin_task worker now (length (sv_tasks s)) step = (t, tl calls)"
        "calls = Claim_health True # tl calls" "sv_tasks s' = sv_tasks s @ [t]"
      | (none) "filter (is_write j) calls = []" "filter (is_execution j) calls = []" "sv_tasks s' = sv_tasks s"
      using assms(1) claim by (auto simp: claim_answered_def Let_def split: if_splits option.splits prod.splits)
    then show ?thesis
    proof cases
      case begun
      show ?thesis
      proof (cases "j = length (sv_tasks s)")
        case True
        then show ?thesis using old begun claim begin_task_ok [OF begun(2)] by (metis length_append_singleton lessI nat_neq_iff nth_append_length)
      next
        case False
        note others = begin_task_others [OF begun(2) False]
        have "filter (is_write j) calls = []" "filter (is_execution j) calls = []"
          using others by (subst begun(3), simp)+
        with old claim begun(4) False show ?thesis by (auto simp: nth_append intro: task_ok_snoc)
      qed
    next
      case none
      with old claim show ?thesis by (auto intro: task_ok_snoc)
    qed
  next
    case quiet
    note quiet_turn [OF assms(1) quiet, of j h]
    with old quiet show ?thesis by (auto intro: task_ok_snoc)
  qed
qed

lemma serves_tasks_ok: "serves cfg h s \<Longrightarrow> tasks_ok s h"
  by (induction rule: serves.induct) (auto simp: tasks_ok_turn, simp add: tasks_ok_def new_service_def lease_ended_def)

lemma task_turn_lost: "task_turn ttl worker now i input t = Some (t', calls) \<Longrightarrow> ta_leaseLost t \<Longrightarrow> filter (is_write j) calls = []"
  by (cases "(ttl, worker, now, i, input, t)" rule: task_turn.cases) (auto simp: catch_error_def lease_gone_def split: if_splits)

lemma no_write_after_loss:
  assumes "service_turn cfg now input s = Some (s', calls)" and ok: "tasks_ok s h" and lost: "lease_ended j h"
  shows "filter (is_write j) calls = []"
proof -
  have j: "j < length (sv_tasks s)" "ta_leaseLost (sv_tasks s ! j)"
    using ok lost by (auto simp: tasks_ok_def task_ok_def split: if_splits)
  consider (task) i x where "input = Task i x" | (claim) answer where "input = Claim_answered answer"
    | (quiet) "\<nexists>i x. input = Task i x" "\<nexists>x. input = Claim_answered x" by blast
  then show ?thesis
  proof cases
    case task
    with assms(1) obtain worker t where
      t: "task_turn (sc_leaseTtlMs cfg) worker now i x (sv_tasks s ! i) = Some (t, calls)"
      by (auto simp: task_input_turn_def split: if_splits option.splits)
    then show ?thesis using j(2) task_turn_others(1) [OF t] task_turn_lost [OF t] by (cases "j = i") auto
  next
    case claim
    then show ?thesis using assms(1) j(1) begin_task_others(1) [of _ now "length (sv_tasks s)" _ _ _ j]
      by (auto simp: claim_answered_def Let_def split: if_splits option.splits prod.splits)
  next
    case quiet
    then show ?thesis using quiet_turn [OF assms(1)] by blast
  qed
qed


section \<open>Starting\<close>

lemma task_turn_no_claim: "task_turn ttl worker now i input t = Some (t', calls) \<Longrightarrow> Claim_next q \<notin> set calls"
  by (cases "(ttl, worker, now, i, input, t)" rule: task_turn.cases) (auto simp: catch_error_def lease_gone_def split: if_splits)

definition passed_gate :: "service_config \<Rightarrow> service_history \<Rightarrow> bool" where
  "passed_gate cfg h \<longleftrightarrow> (\<exists>t i expiry. (t, Sandbox_ready i, [Authenticate]) \<in> set h \<and> sc_expiresAt cfg = Some expiry \<and> t < expiry)"

definition given :: "service_history \<Rightarrow> worker_record \<Rightarrow> bool" where
  "given h worker \<longleftrightarrow> (\<exists>turn \<in> set h. \<exists>r. received_record (fst (snd turn)) = Some r \<and>
     worker_definition.truncate worker = worker_definition.truncate r \<and> wr_generation worker = wr_generation r)"

fun start_ok :: "service_config \<Rightarrow> service_history \<Rightarrow> start_phase \<Rightarrow> bool" where
  "start_ok cfg h Awaiting_authenticator \<longleftrightarrow> passed_gate cfg h"
| "start_ok cfg h (Awaiting_registry authorization) \<longleftrightarrow> passed_gate cfg h \<and> authorized_for (sc_definition cfg) authorization"
| "start_ok cfg h (Awaiting_registration authorization) \<longleftrightarrow> passed_gate cfg h \<and> authorized_for (sc_definition cfg) authorization"
| "start_ok cfg h _ \<longleftrightarrow> True"

definition gate_inv :: "service_config \<Rightarrow> service_history \<Rightarrow> service_state \<Rightarrow> bool" where
  "gate_inv cfg h s \<longleftrightarrow> (\<forall>phase \<in> set (sv_starts s). start_ok cfg h phase) \<and>
     (sv_running s \<longrightarrow> sv_worker s \<noteq> None) \<and>
     (case sv_worker s of None \<Rightarrow> True
      | Some worker \<Rightarrow> passed_gate cfg h \<and> given h worker \<and>
          (\<exists>authorization. sv_authorization s = Some authorization \<and> authorized_for (sc_definition cfg) authorization))"

lemma passed_gate_snoc: "passed_gate cfg h \<Longrightarrow> passed_gate cfg (h @ [x])"
  by (auto simp: passed_gate_def)

lemma given_snoc: "given h worker \<Longrightarrow> given (h @ [x]) worker"
  by (auto simp: given_def)

lemma start_ok_snoc: "start_ok cfg h phase \<Longrightarrow> start_ok cfg (h @ [x]) phase"
  by (cases phase) (auto intro: passed_gate_snoc)

lemma start_ok_update:
  "(\<forall>phase \<in> set phases. start_ok cfg h phase) \<Longrightarrow> start_ok cfg (h @ [x]) new \<Longrightarrow>
   \<forall>phase \<in> set (phases[i := new]). start_ok cfg (h @ [x]) phase"
  by (metis insertE set_update_subset_insert start_ok_snoc subsetD)

lemma given_now: "received_record input = Some r \<Longrightarrow> worker_definition.truncate worker = worker_definition.truncate r \<Longrightarrow>
    wr_generation worker = wr_generation r \<Longrightarrow> given (h @ [(now, input, calls)]) worker"
  by (auto simp: given_def)

lemma starts_ok: "gate_inv cfg h s \<Longrightarrow> i < length (sv_starts s) \<Longrightarrow> start_ok cfg h (sv_starts s ! i)"
  by (simp add: gate_inv_def)

lemma gate_same:
  assumes "gate_inv cfg h s" and "sv_starts s' = sv_starts s" "sv_worker s' = sv_worker s"
    "sv_authorization s' = sv_authorization s" "sv_running s' \<longrightarrow> sv_running s"
  shows "gate_inv cfg (h @ [x]) s'"
  using assms by (auto simp: gate_inv_def intro: start_ok_snoc passed_gate_snoc given_snoc split: option.splits)

lemma gate_phase:
  assumes "gate_inv cfg h s" and "start_ok cfg (h @ [x]) phase"
  shows "gate_inv cfg (h @ [x]) (to_phase i phase s)"
  using assms start_ok_update [of "sv_starts s" cfg h x phase i]
  by (auto simp: gate_inv_def to_phase_def intro: passed_gate_snoc given_snoc split: option.splits)

lemma gate_turn:
  assumes turn: "service_turn cfg now input s = Some (s', calls)" and inv: "gate_inv cfg h s"
  shows "gate_inv cfg (h @ [(now, input, calls)]) s'"
proof (cases input)
  case Start_called
  then show ?thesis using turn inv gate_same [OF inv, of s]
    by (auto simp: start_called_def gate_inv_def intro: start_ok_snoc split: if_splits)
next
  case (Sandbox_ready i)
  have "start_ok cfg (h @ [(now, input, calls)]) Awaiting_authenticator" if "sc_expiresAt cfg = Some e" "now < e" "calls = [Authenticate]" for e
    using that Sandbox_ready by (fastforce simp: passed_gate_def)
  with Sandbox_ready turn show ?thesis
    by (auto simp: sandbox_ready_def not_le split: if_splits option.splits intro!: gate_phase [OF inv])
next
  case (Authenticated i authorization)
  then show ?thesis using turn starts_ok [OF inv, of i]
    by (auto simp: authentication_done_def start_at_def intro!: gate_phase [OF inv] intro: passed_gate_snoc split: if_splits)
next
  case (Registry_ready i)
  then show ?thesis using turn starts_ok [OF inv, of i]
    by (auto simp: registry_ready_def intro!: gate_phase [OF inv] intro: passed_gate_snoc split: if_splits start_phase.splits)
next
  case (Registered i worker)
  then obtain authorization where phase: "i < length (sv_starts s)" "sv_starts s ! i = Awaiting_registration authorization"
    and s': "s' = (to_phase i Started s)\<lparr>sv_worker := Some worker, sv_authorization := Some authorization,
      sv_running := True, sv_heartbeatTimer := True, sv_timers := sv_timers s + 1\<rparr>"
    using turn by (auto simp: registration_done_def split: if_splits start_phase.splits)
  have "start_ok cfg (h @ [(now, input, calls)]) (Awaiting_registration authorization)"
    using starts_ok [OF inv phase(1)] phase(2) start_ok_snoc by metis
  moreover have "gate_inv cfg (h @ [(now, input, calls)]) (to_phase i Started s)" by (rule gate_phase [OF inv]) simp
  moreover have "given (h @ [(now, input, calls)]) worker" using Registered by (intro given_now) auto
  ultimately show ?thesis by (simp add: gate_inv_def s')
next
  case (Start_threw i)
  then show ?thesis using turn by (auto simp: start_threw_def intro!: gate_phase [OF inv] split: if_splits)
next
  case (Heartbeat_answered answer)
  then show ?thesis
  proof (cases answer)
    case None
    then show ?thesis using turn Heartbeat_answered gate_same [OF inv, of s']
      by (auto simp: heartbeat_answered_def Let_def split: if_splits)
  next
    case (Some updated)
    with Heartbeat_answered turn obtain worker where worker: "sv_worker s = Some worker"
      by (auto simp: heartbeat_answered_def Let_def split: if_splits option.splits)
    define secret where "secret = (case wr_claimSecret worker of Some c \<Rightarrow> Some c | None \<Rightarrow> wr_claimSecret updated)"
    have s': "s' = s\<lparr>sv_heartbeats := sv_heartbeats s - 1, sv_worker := Some (updated\<lparr>wr_claimSecret := secret\<rparr>)\<rparr>"
      using Heartbeat_answered Some turn worker by (simp add: heartbeat_answered_def Let_def secret_def split: if_splits)
    have "given (h @ [(now, input, calls)]) (updated\<lparr>wr_claimSecret := secret\<rparr>)"
      using Heartbeat_answered Some by (intro given_now [of input updated]) (auto simp: worker_definition.truncate_def)
    with inv worker show ?thesis
      by (auto simp: gate_inv_def s' intro: start_ok_snoc passed_gate_snoc)
  qed
qed (use turn in \<open>auto simp: service_turn_defs intro!: gate_same [OF inv] split: service_turn_splits\<close>)

lemma serves_gate: "serves cfg h s \<Longrightarrow> gate_inv cfg h s"
  by (induction rule: serves.induct) (auto simp: gate_turn, simp add: gate_inv_def new_service_def)


section \<open>Stopping\<close>

text \<open>A history that goes on from a state.\<close>

fun replay :: "service_config \<Rightarrow> (time \<times> service_input) list \<Rightarrow> service_state \<Rightarrow> (service_history \<times> service_state) option" where
  "replay cfg [] s = Some ([], s)"
| "replay cfg ((now, input) # inputs) s =
     (case service_turn cfg now input s of
        None \<Rightarrow> None
      | Some (s', calls) \<Rightarrow> map_option (\<lambda>(h, s''). ((now, input, calls) # h, s'')) (replay cfg inputs s'))"

lemma serves_replay: "replay cfg inputs s = Some (h, s') \<Longrightarrow> serves cfg h0 s \<Longrightarrow> serves cfg (h0 @ h) s'"
proof (induction inputs arbitrary: s h h0)
  case (Cons x inputs)
  obtain now input where x: "x = (now, input)" by (cases x)
  with Cons.prems(1) obtain s1 calls h1 where one: "service_turn cfg now input s = Some (s1, calls)"
    "replay cfg inputs s1 = Some (h1, s')" "h = (now, input, calls) # h1"
    by (auto split: option.splits)
  from Cons.IH [OF one(2) serves.turn [OF Cons.prems(2) one(1)]] one(3) show ?case by simp
qed simp

definition starts_over :: "service_state \<Rightarrow> bool" where
  "starts_over s \<longleftrightarrow> list_all (\<lambda>phase. phase = Started \<or> phase = Start_failed) (sv_starts s)"

definition stopped :: "service_state \<Rightarrow> bool" where
  "stopped s \<longleftrightarrow> sv_disposed s \<and> \<not> sv_running s \<and> sv_worker s \<noteq> None \<and> starts_over s"

fun is_start_of_work :: "worker_call \<Rightarrow> bool" where
  "is_start_of_work (Claim_next _) \<longleftrightarrow> True"
| "is_start_of_work (Execute _ _) \<longleftrightarrow> True"
| "is_start_of_work (Registry_heartbeat _ _ _ _) \<longleftrightarrow> True"
| "is_start_of_work _ \<longleftrightarrow> False"

fun is_release :: "worker_call \<Rightarrow> bool" where
  "is_release (Release_step r) \<longleftrightarrow> fs_refundAttempt r = Some True \<and> fs_retryAt r \<noteq> None \<and> sf_retryable (fs_error r)"
| "is_release _ \<longleftrightarrow> False"

fun claimed_in :: "time \<times> service_input \<times> worker_call list \<Rightarrow> bool" where
  "claimed_in (_, Claim_answered (Some _), _) \<longleftrightarrow> True"
| "claimed_in _ \<longleftrightarrow> False"

fun stop_stage :: "stop_phase \<Rightarrow> nat" where
  "stop_stage Draining = 1"
| "stop_stage (Awaiting_tasks _) = 1"
| "stop_stage _ = 0"

lemma starts_over_iff: "starts_over s \<longleftrightarrow> (\<forall>i < length (sv_starts s). sv_starts s ! i \<in> {Started, Start_failed})"
  by (auto simp: starts_over_def list_all_length)

lemma task_turn_quiet:
  "task_turn ttl worker now i input t = Some (t', calls) \<Longrightarrow>
   filter is_start_of_work calls = [] \<and> filter is_release calls = [] \<and> filter ((=) Dispose) calls = []"
  by (cases "(ttl, worker, now, i, input, t)" rule: task_turn.cases) (auto simp: catch_error_def lease_gone_def split: if_splits)

lemma stopped_turn:
  assumes turn: "service_turn cfg now input s = Some (s', calls)" and "stopped s"
  shows "stopped s' \<and> filter is_start_of_work calls = [] \<and>
    length (filter is_release calls) = (if claimed_in (now, input, calls) then 1 else 0) \<and>
    length (filter ((=) Dispose) calls) + (if input = Drain_threw then 1 else 0) + stop_stage (sv_stop s') \<le> stop_stage (sv_stop s)"
  using assms unfolding stopped_def starts_over_iff
  by (cases input) (force simp: service_turn_defs poll_threw_def step_release_of_def dest!: task_turn_quiet
    split: service_turn_splits)+

definition drain_failures :: "service_history \<Rightarrow> nat" where
  "drain_failures h = length (filter (\<lambda>(_, input, _). input = Drain_threw) h)"

lemma calls_of_Cons: "calls_of P ((now, input, calls) # h) = filter P calls @ calls_of P h"
  by (simp add: calls_of_def)

lemma stopped_replay:
  "replay cfg inputs s = Some (h, s') \<Longrightarrow> stopped s \<Longrightarrow>
   calls_of is_start_of_work h = [] \<and> length (calls_of is_release h) = length (filter claimed_in h) \<and>
   length (calls_of ((=) Dispose) h) + drain_failures h + stop_stage (sv_stop s') \<le> stop_stage (sv_stop s)"
proof (induction inputs arbitrary: s h)
  case (Cons x inputs)
  obtain now input where x: "x = (now, input)" by (cases x)
  with Cons.prems(1) obtain s1 calls h1 where one: "service_turn cfg now input s = Some (s1, calls)"
    "replay cfg inputs s1 = Some (h1, s')" "h = (now, input, calls) # h1"
    by (auto split: option.splits)
  note turn = stopped_turn [OF one(1) Cons.prems(2)]
  note rest = Cons.IH [OF one(2) conjunct1 [OF turn]]
  have "length (calls_of ((=) Dispose) h) = length (filter ((=) Dispose) calls) + length (calls_of ((=) Dispose) h1)"
    "drain_failures h = (if input = Drain_threw then 1 else 0) + drain_failures h1"
    by (simp_all add: one(3) calls_of_Cons drain_failures_def)
  with turn rest show ?case by (auto simp: one(3) calls_of_Cons)
qed (simp add: drain_failures_def)


section \<open>What becomes of the writes\<close>

lemma update_refused:
  "(\<And>s. s \<in> set (t_steps db) \<Longrightarrow> is_step (fs_stepId f) (fs_tenantId f) s \<Longrightarrow> step_version s \<noteq> fs_expectedVersion f) \<Longrightarrow>
   failStep env f db = Inr (None, db)"
  by (simp add: failStep_def bind_query, subst bind_refused) (auto simp: return_tx_def)

lemma completion_refused:
  "(\<And>s. s \<in> set (t_steps db) \<Longrightarrow> is_step (cs_stepId c) (cs_tenantId c) s \<Longrightarrow> step_version s \<noteq> cs_expectedVersion c) \<Longrightarrow>
   completeStep env c db = Inr (None, db)"
  by (simp add: completeStep_def bind_query, subst bind_refused) (auto simp: return_tx_def)

text \<open>Some row of the step is past the version it was claimed with.\<close>

definition moved_past :: "claimed_step \<Rightarrow> kernel_db \<Rightarrow> bool" where
  "moved_past step db \<longleftrightarrow> (\<exists>s \<in> set (t_steps db). is_step (cl_id step) (cl_tenantId step) s \<and> cl_version step < step_version s)"

lemma moved_of_unchanged: "unchanged t_steps m \<Longrightarrow> keeps (moved_past step) m"
  by (erule keeps_of_unchanged) (simp add: moved_past_def)

lemma moved_update:
  assumes "\<And>s. P s \<Longrightarrow> step_id (f s) = step_id s \<and> step_tenant_id (f s) = step_tenant_id s \<and> step_version s \<le> step_version (f s)"
  shows "keeps (moved_past step) (update_steps P f)"
  unfolding keeps_def
proof (intro allI impI)
  fix db rows db' assume "moved_past step db" "update_steps P f db = Inr (rows, db')"
  then obtain s where s: "s \<in> set (t_steps db)" "is_step (cl_id step) (cl_tenantId step) s" "cl_version step < step_version s"
    and db': "t_steps db' = update_where P f (t_steps db)" by (auto simp: moved_past_def tx)
  let ?s = "if P s then f s else s"
  have "?s \<in> set (t_steps db')" using s(1) by (auto simp: db' update_where_def)
  moreover have "is_step (cl_id step) (cl_tenantId step) ?s" "cl_version step < step_version ?s"
    using s assms [of s] by (auto simp: is_step_def)
  ultimately show "moved_past step db'" unfolding moved_past_def by blast
qed

lemma moved_cancelOpenSteps: "keeps (moved_past step) (cancelOpenStepsForTerminalRun env runId tenantId actor reason)"
  unfolding cancelOpenStepsForTerminalRun_def Let_def
  by (intro frame moved_update; (intro moved_of_unchanged frame)?; simp add: lockStepStates_def frame)

lemma moved_finishRun: "keeps (moved_past step) (finishRunIfTerminal env runId tenantId actor)"
  unfolding finishRunIfTerminal_def lockRunState_def Let_def
  by (intro frame moved_cancelOpenSteps; (intro moved_of_unchanged frame)?; simp)

lemma moved_requestCompensation: "keeps (moved_past step) (requestCompensationIfNeeded env stepId tenantId runId epoch actor at)"
  unfolding requestCompensationIfNeeded_def announceCompensation_def lockRunState_def Let_def
  by (intro frame moved_cancelOpenSteps; (intro moved_of_unchanged frame)?; simp)

lemma moved_by_write:
  assumes "bind_tx (update_steps P f) (\<lambda>rows. case rows of [] \<Rightarrow> return_tx None | row # _ \<Rightarrow> rest row) db = Inr (Some k, db')"
    and P: "\<And>s. P s \<Longrightarrow> is_step (cl_id step) (cl_tenantId step) s \<and> step_version s = cl_version step"
    and f: "\<And>s. step_id (f s) = step_id s \<and> step_tenant_id (f s) = step_tenant_id s \<and> step_version (f s) = step_version s + 1"
    and rest: "\<And>row. keeps (moved_past step) (rest row)"
  shows "moved_past step db'"
proof -
  obtain row rows where rows: "updated_rows P f (t_steps db) = row # rows"
    and r: "rest row (db\<lparr>t_steps := update_where P f (t_steps db)\<rparr>) = Inr (Some k, db')"
    using assms(1) by (auto simp: tx split: list.splits)
  from rows obtain s where s: "s \<in> set (t_steps db)" "P s" by (metis updated_rows_Nil_iff list.distinct(1))
  then have "f s \<in> set (update_where P f (t_steps db))" by (force simp: update_where_def)
  moreover have "is_step (cl_id step) (cl_tenantId step) (f s)" "cl_version step < step_version (f s)"
    using P [OF s(2)] f [of s] by (auto simp: is_step_def)
  ultimately have "moved_past step (db\<lparr>t_steps := update_where P f (t_steps db)\<rparr>)" by (auto simp: moved_past_def)
  with rest r show ?thesis by (meson keepsD)
qed

lemma completion_moves:
  assumes "completeStep env (step_completion_of worker step result) db = Inr (Some k, db')"
  shows "moved_past step db'"
  by (rule moved_by_write [OF assms [unfolded completeStep_def withTransaction_tenant bind_query]])
    (auto simp: step_completion_of_def intro!: frame moved_finishRun; (intro moved_of_unchanged frame)?; simp)+

lemma failure_moves:
  assumes "failStep env f db = Inr (Some k, db')"
    and "fs_stepId f = cl_id step" "fs_tenantId f = cl_tenantId step" "fs_expectedVersion f = cl_version step"
  shows "moved_past step db'"
  by (rule moved_by_write [OF assms(1) [unfolded failStep_def withTransaction_tenant bind_query]])
    (auto simp: assms(2-4) failed_step_row_def Let_def intro!: frame moved_finishRun moved_requestCompensation;
      (intro moved_of_unchanged frame)?; simp)+

lemma moved_past_refuses:
  assumes "reachable db" and "later db db'" and "moved_past step db"
    and "s \<in> set (t_steps db')" and "is_step (cl_id step) t s"
  shows "step_version s \<noteq> cl_version step"
proof -
  obtain q where q: "q \<in> set (t_steps db)" "is_step (cl_id step) (cl_tenantId step) q" "cl_version step < step_version q"
    using assms(3) by (auto simp: moved_past_def)
  have "step_evolves q s" by (rule later_step [OF assms(1,2) q(1) assms(4)]) (use q(2) assms(5) in \<open>simp add: is_step_def\<close>)
  with q(3) show ?thesis by (simp add: step_evolves_def)
qed

text \<open>
  C12: the first write the kernel accepts is the last. When the kernel has completed or failed a claimed
  step on its worker's word (also when the answer never arrived), then from that state and from every
  later one it refuses each further completion, failure or release that the worker sends for that
  claim, and changes nothing: a step whose completion was accepted cannot be failed by the worker
  that only saw the call throw.
\<close>

theorem accepted_write_is_final:
  assumes "reachable db"
    and "completeStep env (step_completion_of worker step result) db = Inr (Some k, db') \<or>
      failStep env (step_failure_of worker now step known) db = Inr (Some k, db')"
    and "later db' db''"
  shows "completeStep env' (step_completion_of worker' step result') db'' = Inr (None, db'') \<and>
    failStep env' (step_failure_of worker' now' step known') db'' = Inr (None, db'') \<and>
    failStep env' (step_release_of worker' now' step) db'' = Inr (None, db'')"
proof -
  have moved: "moved_past step db'" using assms(2)
    by (auto intro: completion_moves failure_moves simp: step_failure_of_def split: prod.splits)
  have "\<exists>c. kernel_run env c db = Inr ((), db')"
    using assms(2)
  proof
    assume "completeStep env (step_completion_of worker step result) db = Inr (Some k, db')"
    then have "kernel_run env (Steps (Complete_step (step_completion_of worker step result))) db = Inr ((), db')"
      by (simp add: forget_def tx)
    then show ?thesis ..
  next
    assume "failStep env (step_failure_of worker now step known) db = Inr (Some k, db')"
    then have "kernel_run env (Steps (Fail_step (step_failure_of worker now step known))) db = Inr ((), db')"
      by (simp add: forget_def tx)
    then show ?thesis ..
  qed
  then have "reachable db'" using reachable_later [OF assms(1)] later_of_run by blast
  note refused = moved_past_refuses [OF this assms(3) moved]
  show ?thesis
    by (intro conjI completion_refused update_refused)
      (auto simp: step_completion_of_def step_failure_of_def step_release_of_def split: prod.splits dest: refused)
qed


end
