(* ===== verification/Worker_Executors.thy ===== *)
theory Worker_Executors
  imports Worker_Service
begin

text \<open>
  How a worker executes a tool or a connector step (\<open>effectGate.ts\<close>, \<open>toolEffectCatalog.ts\<close>,
  \<open>stepWorkloadIdentity.ts\<close>, \<open>toolStepExecutor.ts\<close>, \<open>connectorStepExecutor.ts\<close>,
  \<open>compositeStepExecutor.ts\<close>) and what its authenticator grants it (\<open>apiKeyAuthenticator.ts\<close>): the gate that
  sends external effects to the broker, the capability minted for the step, and the request the broker
  gets.

  What the executor decides before it calls the broker or the handler is a value, a plan. Handlers,
  the check of local capability tokens in \<open>packages/core\<close> and the clock are arguments.
\<close>

section \<open>The gate\<close>

type_synonym process_env = "string \<Rightarrow> string option"

definition isProductionEffectGate :: "process_env \<Rightarrow> bool" where
  "isProductionEffectGate env \<longleftrightarrow> env ''NODE_ENV'' = Some ''production'' \<or> env ''COMMANDER_PROFILE'' = Some ''enterprise'' \<or>
     env ''COMMANDER_REQUIRE_EFFECT_BROKER'' = Some ''1'' \<or> env ''COMMANDER_REQUIRE_WORKLOAD_BINDING'' = Some ''1''"

record tool_effect_catalog =
  tc_localOnlyTools :: "string list"
  tc_localOnlyConnectors :: "string list"

definition DENY_ALL_TOOL_EFFECT_CATALOG :: tool_effect_catalog where
  "DENY_ALL_TOOL_EFFECT_CATALOG = \<lparr>tc_localOnlyTools = [], tc_localOnlyConnectors = []\<rparr>"

definition createDefaultWorkerToolEffectCatalog :: tool_effect_catalog where
  "createDefaultWorkerToolEffectCatalog = \<lparr>tc_localOnlyTools = [''echo''], tc_localOnlyConnectors = [''memory'']\<rparr>"

record routing_context =
  rc_brokerPresent :: bool
  rc_toolName :: "string option"
  rc_connectorName :: "string option"
  rc_catalog :: "tool_effect_catalog option"
  rc_hasConnection :: bool

definition isCatalogAuthorizedLocalOnly :: "process_env \<Rightarrow> bool option \<Rightarrow> routing_context \<Rightarrow> bool" where
  "isCatalogAuthorizedLocalOnly env localOnly ctx =
     (if localOnly \<noteq> Some True then False
      else if \<not> isProductionEffectGate env then True
      else let catalog = or_else (rc_catalog ctx) DENY_ALL_TOOL_EFFECT_CATALOG in
        if truthy (rc_toolName ctx) then the (rc_toolName ctx) \<in> set (tc_localOnlyTools catalog)
        else if truthy (rc_connectorName ctx) then the (rc_connectorName ctx) \<in> set (tc_localOnlyConnectors catalog)
        else False)"

definition mustRouteExternalEffectThroughBroker ::
  "process_env \<Rightarrow> bool option \<Rightarrow> bool option \<Rightarrow> routing_context \<Rightarrow> bool" where
  "mustRouteExternalEffectThroughBroker env hasExternalEffects localOnly ctx =
     (if hasExternalEffects = Some True then True
      else if isProductionEffectGate env \<and> rc_hasConnection ctx then True
      else if isCatalogAuthorizedLocalOnly env localOnly ctx then False
      else isProductionEffectGate env \<or> rc_brokerPresent ctx)"

section \<open>The capability of a step\<close>

text \<open>The binding \<open>runWithStepWorkloadIdentity\<close> puts in scope for the executor.\<close>

record step_workload =
  sw_tenantId :: string
  sw_runId :: string
  sw_stepId :: string
  sw_workloadId :: string
  sw_workerId :: string
  sw_workerGeneration :: int

definition step_workload_of :: "worker_record \<Rightarrow> claimed_step \<Rightarrow> step_workload" where
  "step_workload_of worker step = \<lparr>sw_tenantId = cl_tenantId step, sw_runId = cl_runId step, sw_stepId = cl_id step,
     sw_workloadId = wd_id worker @ '':'' @ show_int (wr_generation worker), sw_workerId = wd_id worker,
     sw_workerGeneration = wr_generation worker\<rparr>"

definition workload_binding_of :: "step_workload \<Rightarrow> workload_binding" where
  "workload_binding_of b = \<lparr>wb_tenantId = sw_tenantId b, wb_runId = sw_runId b, wb_stepId = sw_stepId b,
     wb_workloadId = Some (sw_workloadId b)\<rparr>"

definition requireStepWorkloadBinding :: "process_env \<Rightarrow> step_workload option \<Rightarrow> worker_thrown + step_workload" where
  "requireStepWorkloadBinding env scope = (case scope of
     Some b \<Rightarrow> Inr b
   | None \<Rightarrow> Inl (Plain_error ''Error''
       (if env ''NODE_ENV'' = Some ''production'' \<or> env ''COMMANDER_PROFILE'' = Some ''enterprise'' \<or>
           env ''COMMANDER_REQUIRE_WORKLOAD_BINDING'' = Some ''1''
        then ''WORKLOAD_IDENTITY_REQUIRED: step-scoped identity missing for effect admission''
        else ''WORKLOAD_IDENTITY_REQUIRED: step-scoped identity missing'') None None))"

text \<open>The grant that \<open>mintStepCapabilityToken\<close> has the issuer sign, valid for five minutes.\<close>

definition minted_grant ::
  "(string \<Rightarrow> string) \<Rightarrow> time \<Rightarrow> string \<Rightarrow> step_workload \<Rightarrow> string \<Rightarrow> json \<Rightarrow> capability_grant" where
  "minted_grant hash now jti b effectType request =
     \<lparr>gr_jti = jti, gr_tenantId = sw_tenantId b, gr_runId = sw_runId b, gr_stepId = sw_stepId b,
      gr_effectTypes = [effectType], gr_expiresAt = Iso (now + 300000), gr_issuer = None, gr_audience = None,
      gr_issuedAt = None, gr_notBefore = None, gr_keyId = None, gr_policySnapshotId = None,
      gr_requestHash = Some (canonicalRequestHash hash request),
      gr_actionDigest = (if isClassAEffectType effectType then Some (canonicalRequestHash hash request) else None),
      gr_workloadId = Some (sw_workloadId b), gr_workerId = Some (sw_workerId b),
      gr_workerGeneration = Some (sw_workerGeneration b), gr_nonce = None, gr_policyDecisionId = None,
      gr_authorizationId = None, gr_requestId = None, gr_adapterVersion = None, gr_decisionEffect = None,
      gr_approvalBinding = Approval_undefined\<rparr>"

section \<open>Executing a step\<close>

definition quoted :: "string \<Rightarrow> string" where
  "quoted s = CHR 0x27 # s @ [CHR 0x27]"

text \<open>\<open>names.join(', ')\<close>\<close>

fun comma_list :: "string list \<Rightarrow> string" where
  "comma_list [] = []"
| "comma_list [s] = s"
| "comma_list (s # ss) = s @ '', '' @ comma_list ss"

text \<open>
  What both executors hold: whether they have a broker, what the capability issuer makes of a grant if
  they have one, and the catalog.
\<close>

record executor_parts =
  ep_env :: process_env
  ep_hash :: "string \<Rightarrow> string"
  ep_now :: time
  ep_jti :: string
  ep_broker :: bool
  ep_issuer :: "(capability_grant \<Rightarrow> string) option"
  ep_catalog :: "tool_effect_catalog option"
  ep_scope :: "step_workload option"

datatype step_plan =
    Refuse worker_thrown
  | Ask_broker admit_input "int option"
  | Run_handler json int

definition refusal :: "string \<Rightarrow> string \<Rightarrow> step_plan" where
  "refusal message code = Refuse (Worker_error message
     \<lparr>wo_code = Some code, wo_retryable = Some False, wo_retryDelayMs = None, wo_details = None\<rparr> None)"

text \<open>
  The part of the two \<open>execute\<close> methods that prepares the call of the broker. \<open>step.lease\<close> is declared
  and always there.
\<close>

definition broker_plan ::
  "executor_parts \<Rightarrow> worker_record \<Rightarrow> claimed_step \<Rightarrow> string \<Rightarrow> string option \<Rightarrow> string \<Rightarrow> json \<Rightarrow> string option \<Rightarrow> int option \<Rightarrow> step_plan" where
  "broker_plan parts worker step what effectId effectType request given_token timeoutMs =
     (if \<not> ep_broker parts
      then refusal (''External '' @ what @ '' execution requires an Effect Broker'') ''EFFECT_BROKER_UNAVAILABLE''
      else if \<not> truthy effectId
      then refusal (''External '' @ what @ '' execution requires effectId and a live step lease'') ''EFFECT_AUTHORIZATION_REQUIRED''
      else
        let ask = (\<lambda>token binding.
          Ask_broker \<lparr>ai_effectId = the effectId, ai_token = token, ai_type = effectType, ai_request = request,
            ai_idempotencyKey = deriveEffectIdempotencyKey (ep_hash parts) (cl_tenantId step) (cl_runId step) (cl_id step)
              (the effectId) request,
            ai_lease = cl_lease step, ai_actor = wd_id worker,
            ai_workloadBinding = map_option workload_binding_of binding, ai_compensationClaim = None\<rparr> timeoutMs) in
        case ep_issuer parts of
          Some issue_token \<Rightarrow>
            (case requireStepWorkloadBinding (ep_env parts) (ep_scope parts) of
               Inl error \<Rightarrow> Refuse error
             | Inr b \<Rightarrow>
                 let token = issue_token (minted_grant (ep_hash parts) (ep_now parts) (ep_jti parts) b effectType request) in
                 if token = []
                 then refusal (''External '' @ what @ '' execution requires capabilityToken or capabilityIssuer'') ''EFFECT_AUTHORIZATION_REQUIRED''
                 else ask token (Some b))
        | None \<Rightarrow>
            if isProductionEffectGate (ep_env parts)
            then refusal (''External '' @ what @ '' execution requires CapabilityTokenIssuer for step-bound mint in production'')
              ''EFFECT_CAPABILITY_ISSUER_REQUIRED''
            else if \<not> truthy given_token
            then refusal (''External '' @ what @ '' execution requires capabilityToken or capabilityIssuer'') ''EFFECT_AUTHORIZATION_REQUIRED''
            else ask (the given_token) (ep_scope parts))"

record tool_step_input =
  ti_toolName :: "string option"
  ti_args :: "json option"
  ti_effectType :: "string option"
  ti_actionEnvelope :: "json option"
  ti_hasExternalEffects :: "bool option"
  ti_localOnly :: "bool option"
  ti_effectId :: "string option"
  ti_capabilityToken :: "string option"
  ti_timeoutMs :: "int option"

text \<open>
  \<open>ToolStepExecutor.execute\<close>: \<open>registered\<close> tells whether the registry has a handler, and
  \<open>rejects token tool args aud\<close> is the reason \<open>verifyLocalToolCapabilityToken\<close> gives against a token, if any.
\<close>

definition tool_plan ::
  "executor_parts \<Rightarrow> (string \<Rightarrow> bool) \<Rightarrow> (string \<Rightarrow> string \<Rightarrow> json \<Rightarrow> string \<Rightarrow> string option) \<Rightarrow>
   worker_record \<Rightarrow> claimed_step \<Rightarrow> tool_step_input \<Rightarrow> step_plan" where
  "tool_plan parts registered rejects worker step inp =
     (if \<not> truthy (ti_toolName inp)
      then refusal (''Step '' @ cl_id step @ '' missing required field: toolName'') ''INVALID_INPUT''
      else let tool = the (ti_toolName inp) in
      if mustRouteExternalEffectThroughBroker (ep_env parts) (ti_hasExternalEffects inp) (ti_localOnly inp)
           \<lparr>rc_brokerPresent = ep_broker parts, rc_toolName = Some tool, rc_connectorName = None,
            rc_catalog = Some (or_else (ep_catalog parts) DENY_ALL_TOOL_EFFECT_CATALOG), rc_hasConnection = False\<rparr>
      then broker_plan parts worker step ''tool'' (ti_effectId inp) (or_else (ti_effectType inp) tool)
        (case ti_actionEnvelope inp of Some envelope \<Rightarrow> envelope | None \<Rightarrow> or_else (ti_args inp) (JObj []))
        (ti_capabilityToken inp) (ti_timeoutMs inp)
      else if \<not> registered tool then refusal (''Tool '' @ quoted tool @ '' not found in registry'') ''TOOL_NOT_FOUND''
      else if \<not> truthy (ti_capabilityToken inp)
      then refusal ''Local tool execution requires capabilityToken'' ''EFFECT_AUTHORIZATION_REQUIRED''
      else let arguments = or_else (ti_args inp) (JObj []);
             aud = (if cl_tenantId step \<noteq> [] then cl_tenantId step else ''*'') in
        case rejects (the (ti_capabilityToken inp)) tool arguments aud of
          Some reason \<Rightarrow> refusal (''CAPABILITY_TOKEN_REJECTED: '' @ reason) ''EFFECT_AUTHORIZATION_REQUIRED''
        | None \<Rightarrow> Run_handler arguments (or_else (ti_timeoutMs inp) 30000))"

record connector_step_input =
  ci_connectorName :: "string option"
  ci_operation :: "string option"
  ci_args :: "json option"
  ci_connection :: "json option"
  ci_hasExternalEffects :: "bool option"
  ci_localOnly :: "bool option"
  ci_effectId :: "string option"
  ci_capabilityToken :: "string option"
  ci_timeoutMs :: "int option"

definition connector_plan ::
  "executor_parts \<Rightarrow> (string \<Rightarrow> bool) \<Rightarrow> worker_record \<Rightarrow> claimed_step \<Rightarrow> connector_step_input \<Rightarrow> step_plan" where
  "connector_plan parts registered worker step inp =
     (if \<not> truthy (ci_connectorName inp)
      then refusal (''Step '' @ cl_id step @ '' missing required field: connectorName'') ''INVALID_INPUT''
      else if \<not> truthy (ci_operation inp)
      then refusal (''Step '' @ cl_id step @ '' missing required field: operation'') ''INVALID_INPUT''
      else let connector = the (ci_connectorName inp) in
      if mustRouteExternalEffectThroughBroker (ep_env parts) (ci_hasExternalEffects inp) (ci_localOnly inp)
           \<lparr>rc_brokerPresent = ep_broker parts, rc_toolName = None, rc_connectorName = Some connector,
            rc_catalog = Some (or_else (ep_catalog parts) DENY_ALL_TOOL_EFFECT_CATALOG),
            rc_hasConnection = (ci_connection inp \<noteq> None)\<rparr>
      then broker_plan parts worker step ''connector'' (ci_effectId inp) (connector @ ''.'' @ the (ci_operation inp))
        (or_else (ci_args inp) (JObj [])) (ci_capabilityToken inp) (ci_timeoutMs inp)
      else if \<not> registered connector
      then refusal (''Connector '' @ quoted connector @ '' not found in registry'') ''CONNECTOR_NOT_FOUND''
      else Run_handler (or_else (ci_args inp) (JObj [])) (or_else (ci_timeoutMs inp) 60000))"

text \<open>Which failures of a handler are worth another attempt, by the lower-case message of the \<open>Error\<close>.\<close>

definition message_has :: "worker_thrown \<Rightarrow> string \<Rightarrow> bool" where
  "message_has error text = (case error of Not_an_error _ \<Rightarrow> False | _ \<Rightarrow> occurs text (to_lower (worker_message error)))"

definition tool_isRetryable :: "worker_thrown \<Rightarrow> bool" where
  "tool_isRetryable error \<longleftrightarrow>
     list_ex (message_has error) [''timeout'', ''etimedout'', ''econnreset'', ''rate limit'', ''429'', ''503'']"

definition connector_isRetryable :: "worker_thrown \<Rightarrow> bool" where
  "connector_isRetryable error \<longleftrightarrow> tool_isRetryable error \<or>
     message_has error ''connection'' \<and> (message_has error ''refused'' \<or> message_has error ''reset'')"

text \<open>What the \<open>catch\<close> around a handler throws: its own errors as they are, others wrapped.\<close>

definition handler_failure :: "string \<Rightarrow> int \<Rightarrow> (worker_thrown \<Rightarrow> bool) \<Rightarrow> (string \<times> json) list \<Rightarrow> worker_thrown \<Rightarrow> worker_thrown" where
  "handler_failure code delay retryable details error = (case error of
     Worker_error _ _ _ \<Rightarrow> error
   | _ \<Rightarrow> Worker_error (worker_message error) \<lparr>wo_code = Some code, wo_retryable = Some (retryable error),
       wo_retryDelayMs = Some delay, wo_details = Some (JObj details)\<rparr> None)"

definition tool_failure :: "(string \<times> json) list \<Rightarrow> worker_thrown \<Rightarrow> worker_thrown" where
  "tool_failure = handler_failure ''TOOL_EXECUTION_FAILED'' 5000 tool_isRetryable"

definition connector_failure :: "(string \<times> json) list \<Rightarrow> worker_thrown \<Rightarrow> worker_thrown" where
  "connector_failure = handler_failure ''CONNECTOR_EXECUTION_FAILED'' 10000 connector_isRetryable"

text \<open>\<open>CompositeStepExecutor.execute\<close>: the executor of the step's kind, in a \<open>Map\<close> given by its entries.\<close>

definition composite_executor :: "(string \<times> 'x) list \<Rightarrow> claimed_step \<Rightarrow> worker_thrown + 'x" where
  "composite_executor executors step = (case map_of executors (cl_kind step) of
     Some executor \<Rightarrow> Inr executor
   | None \<Rightarrow> Inl (Worker_error (''No executor registered for step kind '' @ quoted (cl_kind step) @ ''. Available: ['' @ comma_list (map fst executors) @ '']'')
       \<lparr>wo_code = Some ''NO_EXECUTOR'', wo_retryable = Some False, wo_retryDelayMs = None, wo_details = None\<rparr> None))"

section \<open>Authentication\<close>

record authenticator_config =
  ac_validTokens :: "string list"
  ac_defaultTenantIds :: "string list"
  ac_defaultCapabilities :: "string list"
  ac_tokenTenants :: "string \<Rightarrow> string list option"
  ac_tokenCapabilities :: "string \<Rightarrow> string list option"

datatype auth_error_code = TOKEN_EXPIRED | TOKEN_INVALID | CAPABILITY_DENIED | TENANT_SCOPE_DENIED

definition allowed_capabilities :: "authenticator_config \<Rightarrow> string \<Rightarrow> string list" where
  "allowed_capabilities config token =
     (let ceiling = ac_defaultCapabilities config; all = (''*'' \<in> set ceiling) in
      case ac_tokenCapabilities config token of
        None \<Rightarrow> ceiling
      | Some requested \<Rightarrow>
          if ''*'' \<in> set requested then (if all then [''*''] else ceiling)
          else rev (remdups (rev (filter (\<lambda>capability. all \<or> capability \<in> set ceiling) requested))))"

text \<open>\<open>authenticate\<close>; \<open>expiresAt\<close> is what \<open>Date.parse\<close> makes of the identity's expiry.\<close>

definition authenticate ::
  "authenticator_config \<Rightarrow> time \<Rightarrow> string \<Rightarrow> time option \<Rightarrow> worker_definition \<Rightarrow> auth_error_code + worker_authorization" where
  "authenticate config now token expiresAt declared =
     (if (case expiresAt of None \<Rightarrow> True | Some t \<Rightarrow> t \<le> now) then Inl TOKEN_EXPIRED
      else if token \<notin> set (ac_validTokens config) then Inl TOKEN_INVALID
      else let ceiling = ac_defaultTenantIds config;
             requested = or_else (ac_tokenTenants config token) ceiling;
             tenantIds = filter (\<lambda>t. t \<in> set ceiling) requested;
             allowed = allowed_capabilities config token in
        if tenantIds = [] then Inl TENANT_SCOPE_DENIED
        else if list_ex (\<lambda>t. t \<notin> set ceiling) requested then Inl TENANT_SCOPE_DENIED
        else if ''*'' \<notin> set allowed \<and> list_ex (\<lambda>capability. capability \<notin> set allowed) (wd_capabilities declared)
        then Inl CAPABILITY_DENIED
        else Inr \<lparr>wa_tenantIds = tenantIds, wa_capabilities = allowed\<rparr>)"

section \<open>What the gate guarantees\<close>

lemma local_is_claimed: "isCatalogAuthorizedLocalOnly env localOnly ctx \<Longrightarrow> localOnly = Some True"
  by (simp add: isCatalogAuthorizedLocalOnly_def split: if_splits)

lemma gate_closed:
  assumes "isProductionEffectGate env" and "\<not> mustRouteExternalEffectThroughBroker env external localOnly ctx"
  shows "external \<noteq> Some True \<and> localOnly = Some True \<and> \<not> rc_hasConnection ctx \<and> isCatalogAuthorizedLocalOnly env localOnly ctx"
  using assms local_is_claimed by (auto simp: mustRouteExternalEffectThroughBroker_def split: if_splits)

lemma broker_plan_no_handler: "broker_plan parts worker step what effectId type request token timeoutMs \<noteq> Run_handler args t"
  by (simp add: broker_plan_def refusal_def Let_def split: option.split sum.split)

lemma refusal_no_handler [simp]: "refusal message code \<noteq> Run_handler args t"
  by (simp add: refusal_def)

lemma truthyE: "truthy x \<Longrightarrow> (\<And>s. x = Some s \<Longrightarrow> s \<noteq> [] \<Longrightarrow> thesis) \<Longrightarrow> thesis"
  by (auto simp: truthy_def split: option.splits)

lemma tool_runs:
  assumes "tool_plan parts registered rejects worker step inp = Run_handler args timeoutMs"
  obtains tool token where "ti_toolName inp = Some tool" "tool \<noteq> []" "ti_capabilityToken inp = Some token" "registered tool"
    "rejects token tool args (if cl_tenantId step \<noteq> [] then cl_tenantId step else ''*'') = None"
    "\<not> mustRouteExternalEffectThroughBroker (ep_env parts) (ti_hasExternalEffects inp) (ti_localOnly inp)
       \<lparr>rc_brokerPresent = ep_broker parts, rc_toolName = Some tool, rc_connectorName = None,
        rc_catalog = Some (or_else (ep_catalog parts) DENY_ALL_TOOL_EFFECT_CATALOG), rc_hasConnection = False\<rparr>"
  using assms unfolding tool_plan_def Let_def
  by (auto simp: broker_plan_no_handler elim!: truthyE split: if_split_asm option.split_asm)

lemma connector_runs:
  assumes "connector_plan parts registered worker step inp = Run_handler args timeoutMs"
  obtains connector where "ci_connectorName inp = Some connector" "connector \<noteq> []" "registered connector"
    "\<not> mustRouteExternalEffectThroughBroker (ep_env parts) (ci_hasExternalEffects inp) (ci_localOnly inp)
       \<lparr>rc_brokerPresent = ep_broker parts, rc_toolName = None, rc_connectorName = Some connector,
        rc_catalog = Some (or_else (ep_catalog parts) DENY_ALL_TOOL_EFFECT_CATALOG),
        rc_hasConnection = (ci_connection inp \<noteq> None)\<rparr>"
  using assms unfolding connector_plan_def Let_def
  by (auto simp: broker_plan_no_handler elim!: truthyE split: if_split_asm)

lemma listed_tool:
  assumes "isCatalogAuthorizedLocalOnly env local ctx" and "isProductionEffectGate env"
    and "rc_toolName ctx = Some tool" "tool \<noteq> []" "rc_catalog ctx = Some (or_else given DENY_ALL_TOOL_EFFECT_CATALOG)"
  shows "\<exists>catalog. given = Some catalog \<and> tool \<in> set (tc_localOnlyTools catalog)"
  using assms by (cases given)
    (auto simp: isCatalogAuthorizedLocalOnly_def truthy_def DENY_ALL_TOOL_EFFECT_CATALOG_def Let_def split: if_splits)

lemma listed_connector:
  assumes "isCatalogAuthorizedLocalOnly env local ctx" and "isProductionEffectGate env" and "rc_toolName ctx = None"
    and "rc_connectorName ctx = Some connector" "connector \<noteq> []" "rc_catalog ctx = Some (or_else given DENY_ALL_TOOL_EFFECT_CATALOG)"
  shows "\<exists>catalog. given = Some catalog \<and> connector \<in> set (tc_localOnlyConnectors catalog)"
  using assms by (cases given)
    (auto simp: isCatalogAuthorizedLocalOnly_def truthy_def DENY_ALL_TOOL_EFFECT_CATALOG_def Let_def split: if_splits)

text \<open>
  C16: in production no tool and no connector runs in the worker unless the catalog lists it. A step is
  executed by a handler of this process only if it claims to be local, does not claim external
  effects, and is a catalogued tool (and then its capability token was checked for this very tool, its
  arguments and the step's tenant) or a catalogued connector without a connection; everything else
  goes to the effect broker or is refused.
\<close>

theorem production_effects_are_mediated:
  assumes "isProductionEffectGate (ep_env parts)"
  shows "(tool_plan parts registered rejects worker step inp = Run_handler args timeoutMs \<longrightarrow>
      ti_localOnly inp = Some True \<and> ti_hasExternalEffects inp \<noteq> Some True \<and>
      (\<exists>tool catalog token. ti_toolName inp = Some tool \<and> ep_catalog parts = Some catalog \<and>
         tool \<in> set (tc_localOnlyTools catalog) \<and> registered tool \<and> ti_capabilityToken inp = Some token \<and>
         rejects token tool args (if cl_tenantId step \<noteq> [] then cl_tenantId step else ''*'') = None)) \<and>
    (connector_plan parts registered worker step cinp = Run_handler args timeoutMs \<longrightarrow>
      ci_localOnly cinp = Some True \<and> ci_hasExternalEffects cinp \<noteq> Some True \<and> ci_connection cinp = None \<and>
      (\<exists>connector catalog. ci_connectorName cinp = Some connector \<and> ep_catalog parts = Some catalog \<and>
         connector \<in> set (tc_localOnlyConnectors catalog) \<and> registered connector))"
proof (rule conjI; rule impI)
  assume "tool_plan parts registered rejects worker step inp = Run_handler args timeoutMs"
  then obtain tool token where run: "ti_toolName inp = Some tool" "tool \<noteq> []" "ti_capabilityToken inp = Some token" "registered tool"
    "rejects token tool args (if cl_tenantId step \<noteq> [] then cl_tenantId step else ''*'') = None"
    "\<not> mustRouteExternalEffectThroughBroker (ep_env parts) (ti_hasExternalEffects inp) (ti_localOnly inp)
       \<lparr>rc_brokerPresent = ep_broker parts, rc_toolName = Some tool, rc_connectorName = None,
        rc_catalog = Some (or_else (ep_catalog parts) DENY_ALL_TOOL_EFFECT_CATALOG), rc_hasConnection = False\<rparr>"
    by (rule tool_runs)
  note gate = gate_closed [OF assms run(6)]
  obtain catalog where "ep_catalog parts = Some catalog" "tool \<in> set (tc_localOnlyTools catalog)"
    using listed_tool [OF _ assms _ run(2)] gate by fastforce
  with gate run show "ti_localOnly inp = Some True \<and> ti_hasExternalEffects inp \<noteq> Some True \<and>
      (\<exists>tool catalog token. ti_toolName inp = Some tool \<and> ep_catalog parts = Some catalog \<and>
         tool \<in> set (tc_localOnlyTools catalog) \<and> registered tool \<and> ti_capabilityToken inp = Some token \<and>
         rejects token tool args (if cl_tenantId step \<noteq> [] then cl_tenantId step else ''*'') = None)" by simp
next
  assume "connector_plan parts registered worker step cinp = Run_handler args timeoutMs"
  then obtain connector where run: "ci_connectorName cinp = Some connector" "connector \<noteq> []" "registered connector"
    "\<not> mustRouteExternalEffectThroughBroker (ep_env parts) (ci_hasExternalEffects cinp) (ci_localOnly cinp)
       \<lparr>rc_brokerPresent = ep_broker parts, rc_toolName = None, rc_connectorName = Some connector,
        rc_catalog = Some (or_else (ep_catalog parts) DENY_ALL_TOOL_EFFECT_CATALOG),
        rc_hasConnection = (ci_connection cinp \<noteq> None)\<rparr>"
    by (rule connector_runs)
  note gate = gate_closed [OF assms run(4)]
  obtain catalog where "ep_catalog parts = Some catalog" "connector \<in> set (tc_localOnlyConnectors catalog)"
    using listed_connector [OF _ assms _ _ run(2)] gate by fastforce
  with gate run show "ci_localOnly cinp = Some True \<and> ci_hasExternalEffects cinp \<noteq> Some True \<and> ci_connection cinp = None \<and>
      (\<exists>connector catalog. ci_connectorName cinp = Some connector \<and> ep_catalog parts = Some catalog \<and>
         connector \<in> set (tc_localOnlyConnectors catalog) \<and> registered connector)" by simp
qed

section \<open>What is minted is admissible\<close>

lemma broker_plan_asks:
  assumes "broker_plan parts worker step what effectId type request token timeoutMs = Ask_broker inp t"
    and "ep_issuer parts = Some issue_token" and "ep_scope parts = Some b"
  shows "inp = \<lparr>ai_effectId = the effectId,
      ai_token = issue_token (minted_grant (ep_hash parts) (ep_now parts) (ep_jti parts) b type request), ai_type = type,
      ai_request = request, ai_idempotencyKey = deriveEffectIdempotencyKey (ep_hash parts) (cl_tenantId step) (cl_runId step)
        (cl_id step) (the effectId) request,
      ai_lease = cl_lease step, ai_actor = wd_id worker, ai_workloadBinding = Some (workload_binding_of b),
      ai_compensationClaim = None\<rparr>"
  using assms by (auto simp: broker_plan_def refusal_def requireStepWorkloadBinding_def Let_def split: if_splits)

lemma kept_by_dropWhile: "c \<in> set s \<Longrightarrow> \<not> P c \<Longrightarrow> c \<in> set (dropWhile P s)"
  by (induction s) auto

lemma trim_not_Nil: "c \<in> set s \<Longrightarrow> \<not> is_space c \<Longrightarrow> trim s \<noteq> []"
  using kept_by_dropWhile [of c "rev (dropWhile is_space s)" is_space] kept_by_dropWhile [of c s is_space]
  by (auto simp: trim_def)


section \<open>What the authenticator grants\<close>

text \<open>
  A token can only narrow what the deployment allows: the tenants granted are among the default ones,
  the capabilities among the default ones unless these include \<open>*\<close>, \<open>*\<close> itself is granted only if
  the defaults include it, and every capability the worker declares is covered.
\<close>

lemma authentication_only_narrows:
  assumes "authenticate config now token expiresAt declared = Inr authorization"
  shows "token \<in> set (ac_validTokens config) \<and> (\<exists>t. expiresAt = Some t \<and> now < t) \<and>
    wa_tenantIds authorization \<noteq> [] \<and> set (wa_tenantIds authorization) \<subseteq> set (ac_defaultTenantIds config) \<and>
    authorized_for declared authorization \<and>
    (''*'' \<in> set (ac_defaultCapabilities config) \<or>
       set (wa_capabilities authorization) \<subseteq> set (ac_defaultCapabilities config))"
  using assms
  by (auto simp: authenticate_def allowed_capabilities_def authorized_for_def list_ex_iff Let_def not_le
      split: if_splits option.splits)

end
