(* ===== verification/Worker_Example.thy ===== *)
theory Worker_Example
  imports Worker_Claims Worker_Executors Broker_Claims Capability_Claims
begin

text \<open>A worker that starts, claims a step, sees the completion call throw, and stops: on it the properties are exercised.\<close>

definition demo_definition :: worker_definition where
  "demo_definition = \<lparr>wd_id = ''w'', wd_kind = ''tool'', wd_version = ''1'', wd_capabilities = [''tool''], wd_maxConcurrency = 1\<rparr>"

definition demo_record :: worker_record where
  "demo_record = \<lparr>wd_id = ''w'', wd_kind = ''tool'', wd_version = ''1'', wd_capabilities = [''tool''], wd_maxConcurrency = 1,
     wr_status = ''ACTIVE'', wr_generation = 1, wr_activeSteps = 0, wr_identitySubject = ''w'', wr_tenantIds = [''t''],
     wr_registeredAt = [], wr_lastHeartbeatAt = [], wr_claimSecret = Some ''s''\<rparr>"

definition demo_authorization :: worker_authorization where
  "demo_authorization = \<lparr>wa_tenantIds = [''t''], wa_capabilities = [''tool'']\<rparr>"

definition demo_service :: service_config where
  "demo_service = \<lparr>sc_definition = demo_definition, sc_subject = ''w'', sc_expiresAt = Some 1000, sc_leaseTtlMs = 500,
     sc_previousClaimSecret = None\<rparr>"

definition demo_taken :: claimed_step where
  "demo_taken = \<lparr>cl_id = ''a'', cl_runId = ''r'', cl_tenantId = ''t'', cl_kind = ''tool'', cl_version = 2, cl_attempt = 1,
     cl_input = JObj [], cl_lease = demo_lease\<rparr>"

definition demo_starting :: "(time \<times> service_input) list" where
  "demo_starting = [(1, Start_called), (2, Sandbox_ready 0), (3, Authenticated 0 demo_authorization), (4, Registry_ready 0),
     (5, Registered 0 demo_record), (6, Poll_called)]"

definition demo_working :: "(time \<times> service_input) list" where
  "demo_working = [(7, Claim_answered (Some demo_taken)), (8, Poll_called), (9, Task 0 Lease_due), (10, Task 0 (Lease_answered True)),
     (11, Task 0 (Executor_returned (Some (JObj [])))), (12, Task 0 (Completion_threw (Plain_error ''Error'' ''socket'' None None))),
     (13, Task 0 (Failure_answered False)), (14, Task_removed 0)]"

lemmas demo_worker_defs = demo_definition_def demo_record_def demo_authorization_def demo_service_def demo_taken_def
  demo_starting_def demo_working_def new_service_def demo_lease_def

definition demo_inputs :: "(time \<times> service_input) list" where
  "demo_inputs = demo_starting @ demo_working"

definition demo_outcome :: "service_history \<times> service_state" where
  "demo_outcome = the (replay demo_service demo_inputs new_service)"

lemma demo_replays: "replay demo_service demo_inputs new_service \<noteq> None"
  by code_simp

lemma demo_serves: "serves demo_service (fst demo_outcome) (snd demo_outcome)"
  using serves_replay [OF _ serves.new, of demo_service demo_inputs "fst demo_outcome" "snd demo_outcome"] demo_replays
  by (simp add: demo_outcome_def)

lemma demo_facts:
  "capacity_at_most 1 (fst demo_outcome)" "length (sv_tasks (snd demo_outcome)) = 1"
  "length (calls_of (is_write 0) (fst demo_outcome)) = 2"
  by code_simp+

theorem worker_keeps_its_capacity_witness: "int (activeSteps (snd demo_outcome)) \<le> 1"
  by (rule worker_keeps_its_capacity [OF demo_serves demo_facts(1)]) simp


definition demo_before_poll :: service_history where
  "demo_before_poll = fst (the (replay demo_service (butlast demo_starting) new_service))"

definition demo_poll :: worker_claim where
  "demo_poll = \<lparr>wc_workerId = ''w'', wc_workerGeneration = 1, wc_claimSecret = Some ''s'', wc_leaseTtlMs = 500,
     wc_capabilities = [''tool'']\<rparr>"

definition demo_after_poll :: service_history where
  "demo_after_poll = drop (Suc (length demo_before_poll)) (fst demo_outcome)"

lemma demo_polled: "fst demo_outcome = demo_before_poll @ (6, Poll_called, [Claim_next demo_poll]) # demo_after_poll"
  by code_simp


definition demo_running :: service_state where
  "demo_running = snd (the (replay demo_service demo_starting new_service))"

definition demo_stopped :: "service_state \<times> worker_call list" where
  "demo_stopped = the (service_turn demo_service 7 Stop_called demo_running)"

definition demo_ending :: "(time \<times> service_input) list" where
  "demo_ending = [(8, Claim_answered (Some demo_taken)), (9, Poll_called), (10, Drain_answered), (11, Tasks_settled), (12, Stop_called)]"

definition demo_end :: "service_history \<times> service_state" where
  "demo_end = the (replay demo_service demo_ending (fst demo_stopped))"

lemma demo_stops: "service_turn demo_service 7 Stop_called demo_running = Some (fst demo_stopped, snd demo_stopped)"
  "replay demo_service demo_ending (fst demo_stopped) = Some (fst demo_end, snd demo_end)"
  "\<not> sv_disposed demo_running" "sv_worker demo_running \<noteq> None" "starts_over demo_running"
proof -
  have "service_turn demo_service 7 Stop_called demo_running \<noteq> None" "replay demo_service demo_ending (fst demo_stopped) \<noteq> None"
    by code_simp+
  then show "service_turn demo_service 7 Stop_called demo_running = Some (fst demo_stopped, snd demo_stopped)"
    "replay demo_service demo_ending (fst demo_stopped) = Some (fst demo_end, snd demo_end)"
    by (auto simp: demo_stopped_def demo_end_def)
  show "\<not> sv_disposed demo_running" "sv_worker demo_running \<noteq> None" "starts_over demo_running" by code_simp+
qed


lemma demo_completion: "\<exists>k. completeStep demo_env (step_completion_of demo_record demo_taken None) demo_finished = Inr (Some k, demo_completed)"
proof -
  have same: "step_completion_of demo_record demo_taken None = demo_complete"
    by (simp add: step_completion_of_def demo_record_def demo_taken_def demo_complete_def)
  obtain r where r: "completeStep demo_env demo_complete demo_finished = Inr (r, demo_completed)"
    using demo_completed_run by (auto simp: forget_def tx)
  have "(case completeStep demo_env demo_complete demo_finished of Inl _ \<Rightarrow> False | Inr (x, _) \<Rightarrow> x \<noteq> None)" by code_simp
  with r show ?thesis by (auto simp: same)
qed

text \<open>The kernel had completed the step; the failure written because the answer was lost is refused.\<close>

theorem accepted_write_is_final_witness:
  "failStep demo_env (step_failure_of demo_record 12 demo_taken (known_error (Plain_error ''Error'' ''socket'' None None)))
     demo_completed = Inr (None, demo_completed)"
proof -
  obtain k where "completeStep demo_env (step_completion_of demo_record demo_taken None) demo_finished = Inr (Some k, demo_completed)"
    using demo_completion by blast
  then show ?thesis
    using accepted_write_is_final [OF demo_reachable(5) disjI1 later_refl] by blast
qed

section \<open>Executing a tool\<close>

definition demo_parts :: executor_parts where
  "demo_parts = \<lparr>ep_env = (\<lambda>k. if k = ''NODE_ENV'' then Some ''production'' else None), ep_hash = (\<lambda>s. s), ep_now = 10, ep_jti = ''j'',
     ep_broker = True, ep_issuer = Some (issue (demo_codec ''n'') demo_issuer 10 ''n''),
     ep_catalog = Some createDefaultWorkerToolEffectCatalog, ep_scope = Some (step_workload_of demo_record demo_taken)\<rparr>"

definition echo_input :: tool_step_input where
  "echo_input = \<lparr>ti_toolName = Some ''echo'', ti_args = None, ti_effectType = None, ti_actionEnvelope = None,
     ti_hasExternalEffects = None, ti_localOnly = Some True, ti_effectId = None, ti_capabilityToken = Some ''token'',
     ti_timeoutMs = None\<rparr>"

lemma demo_echo: "tool_plan demo_parts (\<lambda>_. True) (\<lambda>_ _ _ _. None) demo_record demo_taken echo_input = Run_handler (JObj []) 30000"
  by code_simp

lemma demo_parts_production: "isProductionEffectGate (ep_env demo_parts)"
  by (simp add: isProductionEffectGate_def demo_parts_def)

theorem production_effects_are_mediated_witness:
  "\<exists>tool catalog. ti_toolName echo_input = Some tool \<and> ep_catalog demo_parts = Some catalog \<and> tool \<in> set (tc_localOnlyTools catalog)"
  using production_effects_are_mediated [OF demo_parts_production, of "\<lambda>_. True" "\<lambda>_ _ _ _. None" demo_record demo_taken echo_input
      "JObj []" 30000 echo_connector] demo_echo by blast

definition demo_asks :: admit_input where
  "demo_asks = (case broker_plan demo_parts demo_record demo_taken ''tool'' (Some ''e'') ''http.post'' (JObj []) None None of
     Ask_broker inp _ \<Rightarrow> inp | _ \<Rightarrow> demo_input)"

lemma demo_asking: "broker_plan demo_parts demo_record demo_taken ''tool'' (Some ''e'') ''http.post'' (JObj []) None None = Ask_broker demo_asks None"
  by (simp add: demo_asks_def broker_plan_def demo_parts_def requireStepWorkloadBinding_def issue_def demo_codec_def truthy_def Let_def)


end
