(* ===== verification/Spec2Isabelle.thy ===== *)
theory Spec2Isabelle
  imports Kernel_Tokens Kernel_Stops Kernel_Tenants Kernel_Contracts Tenant_Cutover Capability_Claims Broker_Claims Evidence_Example Daemon_Example Compensation_Example Worker_Example
begin

text \<open>
  Commander runs agent work as durable runs of steps. Workers claim steps under leases, and every
  write to the outside world goes through an effect broker, which asks for a capability and a policy
  decision, records the effect in the kernel's ledger, executes it and settles its outcome with
  signed evidence; daemons find out what became of effects of unknown completion and compensate
  effects. This development models that core: the kernel repository, the contracts its state machines
  come from, the capability tokens, the effect broker, the evidence and the daemons.

  How the parts interact. A scheduler creates runs (\<open>createRun\<close>); a worker claims a step
  (\<open>claimNextStep\<close>) and holds a lease, a token with a fencing epoch; to write outside it calls
  \<open>EffectBroker.admit\<close> with a capability that the broker verifies against the kernel's revocation and
  replay tables; \<open>admit\<close> writes the effect to the kernel (\<open>admitEffect\<close>) and \<open>executeAdmitted\<close> runs
  and settles it (\<open>completeEffect\<close>, \<open>failEffect\<close>, \<open>markEffectCompletionUnknown\<close>); daemons claim
  outbox messages, timers and unknown effects from the same tables.

  Foundations.
    \<^item> \<open>Kernel_Prelude\<close>: JSON values, kernel errors, transactions (a function from a database to an
      error or a result with the new database; an error rolls back), tables as lists of rows; the
      collections \<open>tx\<close> and \<open>frame\<close>.
    \<^item> \<open>Async_JS\<close>: computations that await other services, with exceptions and no rollback.
    \<^item> \<open>JS_Strings\<close>, \<open>Canonical_JSON\<close>: the string operations and the key-sorted JSON text of the
      source.

  The kernel, \<open>packages/kernel/src\<close> (\<open>postgres.ts\<close> unless another file is named).
    \<^item> \<open>Contracts\<close>: the run and step state machines and the effect classes
      (\<open>packages/contracts/src\<close>). \<open>Reconcile_Policy\<close>: \<open>reconcilePolicy.ts\<close>.
    \<^item> \<open>Kernel_State\<close>: one record per table row (\<open>schema.ts\<close>), the database \<open>kernel_db\<close>, the objects
      of \<open>types.ts\<close>. \<open>Kernel_Core\<close>: the private helpers. \<open>Kernel_Runs\<close>, \<open>Kernel_Steps\<close>,
      \<open>Kernel_Control\<close>, \<open>Kernel_Effects\<close>, \<open>Kernel_Outbox\<close>, \<open>Kernel_Interactions\<close>, \<open>Kernel_Guards\<close>,
      \<open>Kernel_Evidence\<close>: the public methods, one definition each, under the source's names.
    \<^item> \<open>Kernel_Safety\<close>, \<open>Kernel_Ledger\<close>: the invariant of all tables and of the effect ledger, and that
      every method keeps them. \<open>Kernel_Machine\<close>: the kernel as a transition system, one command per
      writing method; reachability. \<open>Kernel_Example\<close>: a worked run for the witnesses.
    \<^item> \<open>Kernel_History\<close> (what holds in every reachable state and between any two), \<open>Kernel_Claims\<close>
      (claiming, fairness, fencing), \<open>Kernel_Tokens\<close> (claim tokens of outbox, timers and
      reconciliation, by locales), \<open>Kernel_Stops\<close> (pause, cancel, end), \<open>Kernel_Tenants\<close> (isolation),
      \<open>Kernel_Contracts\<close> (single operations): the properties.
    \<^item> \<open>Tenant_Cutover\<close>: \<open>tenantCutoverStateMachine.ts\<close>.

  The effect path.
    \<^item> \<open>Capability_Tokens\<close>: issuer, verifier and stores of \<open>packages/effect-broker/src/index.ts\<close>, and the
      durable verifier of \<open>packages/kernel/src/capabilityAuthority.ts\<close>, which runs on the kernel's
      tables of \<open>Kernel_Guards\<close>. \<open>Capability_Claims\<close>: round trip, soundness, single use, revocation;
      the locale \<open>replay_store\<close> is interpreted on the kernel's table and on the in-memory store.
    \<^item> \<open>Effect_Broker\<close>: \<open>admit\<close>, \<open>executeAdmitted\<close>, \<open>execute\<close>, \<open>reconcileUnknown\<close>, the constructor.
      \<open>Broker_Claims\<close>: gating, one execution per admission, settling.
    \<^item> \<open>Canonical_Claims\<close>: the canonical text is prefix-free, so a fingerprint identifies its request.
      \<open>JS_Regex\<close>: the regular expressions of the source and what a match needs.
    \<^item> \<open>Evidence_Bundle\<close>: \<open>evidenceBundle.ts\<close>, \<open>evidenceSink.ts\<close>, \<open>signedEvidence.ts\<close>,
      \<open>evidenceReceipt.ts\<close>: scrubbing, hash chains, signing, verification. \<open>Evidence_Claims\<close>: no secret
      leaves, what is built verifies, the chains are tamper evident, dispositions agree.
      \<open>Terminal_Evidence\<close>: the record of one ended effect as the broker, the daemons and
      \<open>terminalEvidence.ts\<close> build it, and that the kernel accepts it. \<open>Evidence_Example\<close> and
      \<open>Terminal_Example\<close>: worked inputs for the witnesses.

  The daemons, \<open>packages/adapter-ops/src\<close> and \<open>packages/kernel/src/ops\<close>.
    \<^item> \<open>Ops_Loop\<close>: what can be thrown and what is reported of it, the loop (start, stop, tick, health) that
      both daemons have, its histories, and the calculus \<open>adds\<close> of what a tick adds to the trace of calls.
    \<^item> \<open>Reconcile_Daemon\<close>: \<open>reconciliationDaemon.ts\<close>; an effect of unknown completion is settled on an
      answer of the remote system and on nothing else. \<open>Daemon_Example\<close>: a worked tick.
    \<^item> \<open>Compensation_Authority\<close>: \<open>compensationAuthority.ts\<close>, sealing and validating an authorization;
      \<open>Compensation_Claims\<close>: they agree, and the digest binds every field.
    \<^item> \<open>Compensation_Consumer\<close>: \<open>compensationConsumer.ts\<close>, a batch of work against the broker;
      \<open>Compensation_Daemon\<close>: \<open>compensationDaemon.ts\<close>, the tick around it, that nothing is executed which
      was not authorized, and that the tick's numbers are true. \<open>Compensation_Example\<close>: a worked tick.

  The worker plane, \<open>packages/worker-plane/src\<close>.
    \<^item> \<open>Worker_Service\<close>: \<open>workerService.ts\<close>, each stretch of code between two awaits as a turn; one claimed
      step as the state machine its task is; the service that starts, claims, heartbeats and stops;
      histories of turns in any order. \<open>Worker_Claims\<close>: capacity, the gate before a claim, at most one
      completion and one failure per task and none after a lost lease, a final stop; and with the
      kernel's model, that the first accepted write of a claim is the last.
    \<^item> \<open>Worker_Executors\<close>: the effect gate, the capability minted for a step, the plans of the tool and
      connector executors, the authenticator; in production nothing bypasses the broker unless the
      catalog lists it, and what is minted passes the broker's checks. \<open>Worker_Example\<close>: a worker at work.

  Conventions. A PostgreSQL statement is translated to a function on the rows; a method is one
  transaction, so the row locks of the source are reads, and concurrency is the interleaving of
  whole transactions. Timestamps are instants in milliseconds as integers; the clock, the supply of
  UUIDs and the hash are parameters (\<open>kernel_env\<close>). JSON numbers are integers. Strings are of
  one-byte characters. Code that is not under \<open>src\<close> (SHA-256, Ed25519, base64url, ICU collation,
  executors, policies) is a parameter, and what is assumed of it is a hypothesis of the property that
  needs it. No fuel is used: every function of the development is total, by structural recursion or
  with a termination proof.

  Not modelled: the stored procedures of worker mode and the schema migrations (PL/pgSQL in string
  constants), the deployment proofs and lifecycle scripts (cluster I/O), the SQLite overrides, the
  LLM runtime of \<open>packages/core\<close>, the SDKs, the web application, the MCP server. Interleavings inside
  one asynchronous call of the broker are not modelled: its histories are of calls that do not
  overlap. Of the daemons the telemetry callback and the abort signal of a query are left out,
  of the worker its logs, its metrics and the pauses of its loop.
\<close>

end
